(* ===== verification/Prelude.thy ===== *)
theory Prelude
  imports Complex_Main "HOL-Library.Sublist"
begin

text \<open>
  The JavaScript substrate that the components share: strings and the methods of
  \<open>String.prototype\<close> that the code calls, the conversion \<open>Number(s)\<close> with its NaN,
  exceptions as the left summand of a sum type, and the generic lemmas on lists that more
  than one component uses.

  Strings are HOL strings; a \<open>char\<close> is read as a Latin-1 code unit, which is exact for every
  string whose UTF-16 code units are below 256. A value that may be \<open>undefined\<close> or
  \<open>null\<close> is an \<open>option\<close>.
\<close>

named_theorems js_simps \<open>equations of the JavaScript substrate\<close>


section \<open>Values that may be absent\<close>

text \<open>\<open>if (s)\<close> on a string: neither \<open>undefined\<close> nor the empty string.\<close>

definition truthy :: "string option \<Rightarrow> bool" where
  "truthy s = (case s of None \<Rightarrow> False | Some t \<Rightarrow> t \<noteq> [])"

text \<open>\<open>s || d\<close> on strings.\<close>

definition or_else :: "string option \<Rightarrow> string \<Rightarrow> string" where
  "or_else s d = (case s of None \<Rightarrow> d | Some t \<Rightarrow> if t = [] then d else t)"

text \<open>\<open>x ?? d\<close> and default parameters.\<close>

definition default :: "'a \<Rightarrow> 'a option \<Rightarrow> 'a" where
  "default d x = (case x of None \<Rightarrow> d | Some y \<Rightarrow> y)"

lemma truthy_simps [simp, js_simps]:
  "truthy None = False" "truthy (Some s) = (s \<noteq> [])"
  by (simp_all add: truthy_def)

lemma or_else_simps [simp, js_simps]:
  "or_else None d = d" "or_else (Some []) d = d" "or_else (Some (c # s)) d = c # s"
  by (simp_all add: or_else_def)

lemma default_simps [simp, js_simps]:
  "default d None = d" "default d (Some x) = x"
  by (simp_all add: default_def)

lemma truthy_iff: "truthy s = (\<exists>t. s = Some t \<and> t \<noteq> [])"
  by (cases s) auto


section \<open>Exceptions\<close>

text \<open>A computation that may throw; \<open>Inl\<close> carries the exception.\<close>

definition bindR :: "'e + 'a \<Rightarrow> ('a \<Rightarrow> 'e + 'b) \<Rightarrow> 'e + 'b" where
  "bindR m f = (case m of Inl e \<Rightarrow> Inl e | Inr x \<Rightarrow> f x)"

text \<open>\<open>if (c) throw e\<close>.\<close>

definition throw_if :: "bool \<Rightarrow> 'e \<Rightarrow> 'e + unit" where
  "throw_if c e = (if c then Inl e else Inr ())"

lemma bindR_simps [simp, js_simps]:
  "bindR (Inl e) f = Inl e" "bindR (Inr x) f = f x"
  by (simp_all add: bindR_def)

lemma bindR_Inr_iff: "bindR m f = Inr y \<longleftrightarrow> (\<exists>x. m = Inr x \<and> f x = Inr y)"
  by (cases m) auto

lemma bindR_Inl_iff: "bindR m f = Inl e \<longleftrightarrow> m = Inl e \<or> (\<exists>x. m = Inr x \<and> f x = Inl e)"
  by (cases m) auto

lemma throw_if_simps [simp, js_simps]:
  "throw_if True e = Inl e" "throw_if False e = Inr ()"
  by (simp_all add: throw_if_def)

lemma throw_if_iff:
  "throw_if c e = Inr u \<longleftrightarrow> \<not> c" "throw_if c e = Inl e' \<longleftrightarrow> c \<and> e = e'"
  by (auto simp: throw_if_def)

text \<open>A loop whose body may throw: it stops at the first exception.\<close>

fun mapR :: "('a \<Rightarrow> 'e + 'b) \<Rightarrow> 'a list \<Rightarrow> 'e + 'b list" where
  "mapR f [] = Inr []"
| "mapR f (x # xs) = bindR (f x) (\<lambda>y. bindR (mapR f xs) (\<lambda>ys. Inr (y # ys)))"

lemma mapR_unit: "mapR f xs = Inr ys \<Longrightarrow> x \<in> set xs \<Longrightarrow> \<exists>y. f x = Inr y"
  by (induction xs arbitrary: ys) (auto simp: bindR_Inr_iff)

fun foldR :: "('s \<Rightarrow> 'a \<Rightarrow> 'e + 's) \<Rightarrow> 's \<Rightarrow> 'a list \<Rightarrow> 'e + 's" where
  "foldR f s [] = Inr s"
| "foldR f s (x # xs) = bindR (f s x) (\<lambda>s'. foldR f s' xs)"

lemma foldR_append: "foldR f s (xs @ ys) = bindR (foldR f s xs) (\<lambda>s'. foldR f s' ys)"
  by (induction xs arbitrary: s) (auto simp: bindR_def split: sum.splits)

text \<open>What one step keeps, the loop keeps.\<close>

lemma foldR_invariant:
  assumes step: "\<And>s x s'. I s \<Longrightarrow> x \<in> set xs \<Longrightarrow> f s x = Inr s' \<Longrightarrow> I s'"
  shows "foldR f s xs = Inr s' \<Longrightarrow> I s \<Longrightarrow> I s'"
  using step
proof (induction xs arbitrary: s)
  case Nil
  then show ?case by simp
next
  case (Cons x xs)
  from Cons.prems(1) obtain t where t: "f s x = Inr t" "foldR f t xs = Inr s'"
    by (auto simp: bindR_Inr_iff)
  have "I t" by (rule Cons.prems(3) [OF Cons.prems(2) _ t(1)]) simp
  show ?case
    by (rule Cons.IH [OF t(2) \<open>I t\<close>]) (meson Cons.prems(3) list.set_intros(2))
qed


section \<open>Strings\<close>

definition is_digit :: "char \<Rightarrow> bool" where
  "is_digit c = (48 \<le> (of_char c :: nat) \<and> (of_char c :: nat) \<le> 57)"

text \<open>White space and line terminators of ECMAScript among the Latin-1 code units.\<close>

definition is_space :: "char \<Rightarrow> bool" where
  "is_space c = ((of_char c :: nat) \<in> {9, 10, 11, 12, 13, 32, 160})"

definition lower_char :: "char \<Rightarrow> char" where
  "lower_char c = (let n = (of_char c :: nat) in
     if (65 \<le> n \<and> n \<le> 90) \<or> (192 \<le> n \<and> n \<le> 222 \<and> n \<noteq> 215) then char_of (n + 32) else c)"

definition to_lower :: "string \<Rightarrow> string" where
  "to_lower s = map lower_char s"

definition trim_left :: "string \<Rightarrow> string" where
  "trim_left s = dropWhile is_space s"

definition trim_right :: "string \<Rightarrow> string" where
  "trim_right s = rev (dropWhile is_space (rev s))"

definition trim :: "string \<Rightarrow> string" where
  "trim s = trim_right (trim_left s)"

definition starts_with :: "string \<Rightarrow> string \<Rightarrow> bool" where
  "starts_with s p = (take (length p) s = p)"

definition ends_with :: "string \<Rightarrow> string \<Rightarrow> bool" where
  "ends_with s p = (length p \<le> length s \<and> drop (length s - length p) s = p)"

fun str_includes :: "string \<Rightarrow> string \<Rightarrow> bool" where
  "str_includes [] p = (p = [])"
| "str_includes (c # s) p = (starts_with (c # s) p \<or> str_includes s p)"

text \<open>\<open>s.split(sep)\<close> for a one-character separator.\<close>

fun split_on :: "char \<Rightarrow> string \<Rightarrow> string list" where
  "split_on d [] = [[]]"
| "split_on d (c # s) =
     (if c = d then [] # split_on d s
      else case split_on d s of [] \<Rightarrow> [[c]] | w # ws \<Rightarrow> (c # w) # ws)"

fun join_with :: "string \<Rightarrow> string list \<Rightarrow> string" where
  "join_with sep [] = []"
| "join_with sep [s] = s"
| "join_with sep (s # t # ts) = s @ sep @ join_with sep (t # ts)"

text \<open>
  \<open>s.split(/\s*,\s*/)\<close>: the pieces between commas, without the white space next to a comma.
  White space at the two ends of the whole string stays.
\<close>

fun trim_pieces :: "string list \<Rightarrow> string list" where
  "trim_pieces [] = []"
| "trim_pieces [s] = [trim_left s]"
| "trim_pieces (s # t # ts) = trim s # trim_pieces (t # ts)"

definition split_commas :: "string \<Rightarrow> string list" where
  "split_commas s = (case split_on CHR '','' s of
       [] \<Rightarrow> []
     | [w] \<Rightarrow> [w]
     | w # ws \<Rightarrow> trim_right w # trim_pieces ws)"

lemma split_on_not_Nil [simp]: "split_on d s \<noteq> []"
  by (cases s) (auto split: list.splits)

lemma starts_with_prefix: "starts_with s p = prefix p s"
  by (metis append_take_drop_id prefixE prefixI starts_with_def append_eq_conv_conj)

lemma ends_with_suffix: "ends_with s p = suffix p s"
proof
  assume "ends_with s p"
  then show "suffix p s" unfolding ends_with_def by (metis suffix_drop)
next
  assume "suffix p s"
  then show "ends_with s p" by (auto simp: suffix_def ends_with_def)
qed

lemma str_includes_sublist: "str_includes s p = sublist p s"
proof (induction s)
  case Nil
  then show ?case by simp
next
  case (Cons c s)
  then show ?case by (simp add: starts_with_prefix sublist_Cons_right)
qed

lemma to_lower_Nil [simp]: "to_lower [] = []"
  by (simp add: to_lower_def)

lemma starts_with_Nil [simp]: "starts_with s []"
  by (simp add: starts_with_def)

lemma ends_with_Nil [simp]: "ends_with s []"
  by (simp add: ends_with_def)

lemma str_includes_Nil [simp]: "str_includes s []"
  by (cases s) auto

text \<open>Splitting at a character and joining with it again gives the string back.\<close>

lemma join_split: "join_with [d] (split_on d s) = s"
proof (induction s)
  case Nil
  then show ?case by simp
next
  case (Cons c s)
  obtain w ws where ws: "split_on d s = w # ws"
    using split_on_not_Nil [of d s] by (cases "split_on d s") auto
  with Cons show ?case by (cases ws) auto
qed

lemma split_on_no_sep: "d \<notin> set s \<Longrightarrow> split_on d s = [s]"
  by (induction s) auto

lemma split_on_append:
  "d \<notin> set s \<Longrightarrow> split_on d (s @ d # t) = s # split_on d t"
  by (induction s) auto


section \<open>Numbers\<close>

text \<open>
  A JavaScript number as the code compares it. Finite values are exact rationals: the rounding
  of a decimal literal to the nearest double is not modelled.
\<close>

datatype js_number = NaN | NegInf | Fin rat | PosInf

fun js_lt :: "js_number \<Rightarrow> js_number \<Rightarrow> bool" where
  "js_lt NaN _ = False"
| "js_lt _ NaN = False"
| "js_lt NegInf y = (y \<noteq> NegInf)"
| "js_lt (Fin a) (Fin b) = (a < b)"
| "js_lt (Fin a) PosInf = True"
| "js_lt (Fin a) NegInf = False"
| "js_lt PosInf y = False"

definition js_eq :: "js_number \<Rightarrow> js_number \<Rightarrow> bool" where
  "js_eq x y = (x \<noteq> NaN \<and> x = y)"

definition js_le :: "js_number \<Rightarrow> js_number \<Rightarrow> bool" where
  "js_le x y = (js_lt x y \<or> js_eq x y)"

lemma js_eq_Fin [simp]: "js_eq (Fin a) (Fin b) = (a = b)"
  by (simp add: js_eq_def)

lemma js_le_Fin [simp]: "js_le (Fin a) (Fin b) = (a \<le> b)"
  by (auto simp: js_le_def js_eq_def)

lemma js_lt_trichotomy:
  "x \<noteq> NaN \<Longrightarrow> y \<noteq> NaN \<Longrightarrow> js_lt x y \<or> js_eq x y \<or> js_lt y x"
  by (cases x; cases y) (auto simp: js_eq_def)

lemma js_lt_asym: "js_lt x y \<Longrightarrow> \<not> js_lt y x \<and> \<not> js_eq x y"
  by (cases x; cases y) (auto simp: js_eq_def)

lemma js_lt_trans: "js_lt x y \<Longrightarrow> js_lt y z \<Longrightarrow> js_lt x z"
  by (cases x; cases y; cases z) auto

lemma js_le_trans: "js_le x y \<Longrightarrow> js_le y z \<Longrightarrow> js_le x z"
  by (cases x; cases y; cases z) (auto simp: js_le_def js_eq_def)

lemma js_lt_le_trans: "js_lt x y \<Longrightarrow> js_le y z \<Longrightarrow> js_lt x z"
  by (cases x; cases y; cases z) (auto simp: js_le_def js_eq_def)

lemma js_NaN [simp]:
  "\<not> js_lt NaN y" "\<not> js_lt x NaN" "\<not> js_le NaN y" "\<not> js_le x NaN" "\<not> js_eq NaN y" "\<not> js_eq x NaN"
  by (cases x; auto simp: js_le_def js_eq_def)+

definition digit_val :: "char \<Rightarrow> nat" where
  "digit_val c = of_char c - 48"

definition digits_val :: "string \<Rightarrow> nat" where
  "digits_val s = foldl (\<lambda>n c. 10 * n + digit_val c) 0 s"

text \<open>The value of a digit in bases up to 16, \<open>None\<close> for any other character.\<close>

definition radix_digit :: "char \<Rightarrow> nat option" where
  "radix_digit c = (let n = (of_char c :: nat) in
     if 48 \<le> n \<and> n \<le> 57 then Some (n - 48)
     else if 97 \<le> n \<and> n \<le> 102 then Some (n - 87)
     else if 65 \<le> n \<and> n \<le> 70 then Some (n - 55) else None)"

definition radix_literal :: "nat \<Rightarrow> string \<Rightarrow> js_number" where
  "radix_literal base s =
     (if s \<noteq> [] \<and> list_all (\<lambda>c. case radix_digit c of None \<Rightarrow> False | Some d \<Rightarrow> d < base) s
      then Fin (of_nat (foldl (\<lambda>n c. base * n + the (radix_digit c)) 0 s)) else NaN)"

text \<open>The exponent part of a decimal literal, after its \<open>e\<close>.\<close>

definition exponent :: "string \<Rightarrow> int option" where
  "exponent s = (case s of
       [] \<Rightarrow> None
     | c # ds \<Rightarrow>
        (if c = CHR ''-'' \<and> ds \<noteq> [] \<and> list_all is_digit ds then Some (- int (digits_val ds))
         else if c = CHR ''+'' \<and> ds \<noteq> [] \<and> list_all is_digit ds then Some (int (digits_val ds))
         else if list_all is_digit s then Some (int (digits_val s)) else None))"

definition scale10 :: "rat \<Rightarrow> int \<Rightarrow> rat" where
  "scale10 m e = (if 0 \<le> e then m * 10 ^ nat e else m / 10 ^ nat (- e))"

definition decimal_literal :: "string \<Rightarrow> js_number" where
  "decimal_literal s =
     (if s = ''Infinity'' then PosInf
      else let ip = takeWhile is_digit s; r = dropWhile is_digit s;
               dotted = (r \<noteq> [] \<and> hd r = CHR ''.'');
               fp = (if dotted then takeWhile is_digit (tl r) else []);
               r' = (if dotted then dropWhile is_digit (tl r) else r);
               m = of_nat (digits_val (ip @ fp)) / 10 ^ length fp
           in if ip = [] \<and> fp = [] then NaN
              else if r' = [] then Fin m
              else if hd r' = CHR ''e'' \<or> hd r' = CHR ''E''
              then (case exponent (tl r') of None \<Rightarrow> NaN | Some e \<Rightarrow> Fin (scale10 m e))
              else NaN)"

fun js_neg :: "js_number \<Rightarrow> js_number" where
  "js_neg NaN = NaN"
| "js_neg NegInf = PosInf"
| "js_neg PosInf = NegInf"
| "js_neg (Fin a) = Fin (- a)"

text \<open>\<open>Number(s)\<close> for a string: the StringToNumber algorithm of ECMAScript.\<close>

definition to_number :: "string \<Rightarrow> js_number" where
  "to_number s0 = (let s = trim s0 in
     if s = [] then Fin 0
     else if starts_with s ''0x'' \<or> starts_with s ''0X'' then radix_literal 16 (drop 2 s)
     else if starts_with s ''0o'' \<or> starts_with s ''0O'' then radix_literal 8 (drop 2 s)
     else if starts_with s ''0b'' \<or> starts_with s ''0B'' then radix_literal 2 (drop 2 s)
     else if hd s = CHR ''-'' then js_neg (decimal_literal (tl s))
     else if hd s = CHR ''+'' then decimal_literal (tl s)
     else decimal_literal s)"

text \<open>\<open>Number(x)\<close> where \<open>x\<close> may be \<open>undefined\<close>.\<close>

definition to_number_opt :: "string option \<Rightarrow> js_number" where
  "to_number_opt x = (case x of None \<Rightarrow> NaN | Some s \<Rightarrow> to_number s)"

text \<open>\<open>String(n)\<close> for a natural number.\<close>

definition digit_char :: "nat \<Rightarrow> char" where
  "digit_char d = char_of (48 + d)"

fun show_nat :: "nat \<Rightarrow> string" where
  "show_nat n = (if n < 10 then [digit_char n] else show_nat (n div 10) @ [digit_char (n mod 10)])"

declare show_nat.simps [simp del]

definition show_int :: "int \<Rightarrow> string" where
  "show_int i = (if i < 0 then CHR ''-'' # show_nat (nat (- i)) else show_nat (nat i))"

lemma show_nat_not_Nil [simp]: "show_nat n \<noteq> []"
  by (subst show_nat.simps) simp

lemma digit_val_char: "d < 10 \<Longrightarrow> digit_val (digit_char d) = d"
  by (simp add: digit_val_def digit_char_def)

lemma digits_val_snoc: "digits_val (s @ [c]) = 10 * digits_val s + digit_val c"
  by (simp add: digits_val_def)

lemma digits_val_show_nat: "digits_val (show_nat n) = n"
proof (induction n rule: show_nat.induct)
  case (1 n)
  show ?case
  proof (cases "n < 10")
    case True
    then show ?thesis
      by (subst show_nat.simps) (simp add: digits_val_def digit_val_char)
  next
    case False
    with 1 show ?thesis
      by (subst show_nat.simps) (simp add: digits_val_snoc digit_val_char)
  qed
qed

lemma show_nat_inj: "show_nat m = show_nat n \<Longrightarrow> m = n"
  by (metis digits_val_show_nat)


section \<open>Lists\<close>

text \<open>\<open>xs.find(p)\<close> is \<open>List.find\<close>; what it returns is the first element that satisfies \<open>p\<close>.\<close>

lemma find_None_iff': "(find P xs = None) = (\<forall>x \<in> set xs. \<not> P x)"
  by (induction xs) auto

lemma find_Some_in: "find P xs = Some x \<Longrightarrow> x \<in> set xs \<and> P x"
  by (induction xs) (auto split: if_splits)

text \<open>\<open>xs.find(x => x.key === k)\<close> under distinct keys.\<close>

lemma find_key_distinct:
  "distinct (map f xs) \<Longrightarrow> x \<in> set xs \<Longrightarrow> find (\<lambda>y. f y = f x) xs = Some x"
  by (induction xs) (auto simp: image_iff)

text \<open>\<open>unique(xs)\<close> through a \<open>Set\<close>: the first occurrence of each element, in order.\<close>

fun dedup :: "'a list \<Rightarrow> 'a list" where
  "dedup [] = []"
| "dedup (x # xs) = x # filter (\<lambda>y. y \<noteq> x) (dedup xs)"

lemma set_dedup [simp]: "set (dedup xs) = set xs"
  by (induction xs) auto

lemma distinct_dedup [simp]: "distinct (dedup xs)"
  by (induction xs) auto

lemma dedup_distinct: "distinct xs \<Longrightarrow> dedup xs = xs"
proof (induction xs)
  case Nil
  then show ?case by simp
next
  case (Cons x xs)
  then have "filter (\<lambda>y. y \<noteq> x) xs = xs" by (auto simp: filter_id_conv)
  with Cons show ?case by simp
qed

text \<open>Looking every key of a list up, where each lookup returns an element with that key.\<close>

lemma map_filter_lookup:
  "(\<And>k. k \<in> set ks \<Longrightarrow> \<exists>x. g k = Some x \<and> f x = k) \<Longrightarrow> map f (List.map_filter g ks) = ks"
  by (induction ks) (force simp: map_filter_simps split: option.splits)+

text \<open>Replacing the elements with a given key keeps the list of keys.\<close>

lemma map_key_update:
  "(\<And>x. x \<in> set xs \<Longrightarrow> f (g x) = f x) \<Longrightarrow> map f (map g xs) = map f xs"
  by simp

end
