(* ===== verification/Constraints.thy ===== *)
theory Constraints
  imports Prelude
begin

text \<open>
  Strategy constraints of the feature evaluator
  (\<open>features/playground/feature-evaluator/constraint.ts\<close>, \<open>context.ts\<close>, \<open>helpers.ts\<close>
  and the constraint part of \<open>strategy/strategy.ts\<close>): the evaluation context, the fifteen
  operators, and the conjunction of the constraints of a strategy or of a segment.

  Comparison of semantic versions, IP ranges, the murmur hash, the date parser, the clock and
  the random generator are not code of the repository. They are the fields of \<open>runtime\<close>, an
  argument of every definition that uses one of them.
\<close>


section \<open>What the evaluator takes from libraries and the runtime\<close>

record runtime =
  rt_semver_eq :: "string \<Rightarrow> string \<Rightarrow> bool option" \<comment> \<open>\<open>semver.eq\<close>; \<open>None\<close>: it throws\<close>
  rt_semver_gt :: "string \<Rightarrow> string \<Rightarrow> bool option"
  rt_semver_lt :: "string \<Rightarrow> string \<Rightarrow> bool option"
  rt_date :: "string \<Rightarrow> int option" \<comment> \<open>\<open>new Date(s)\<close> in ms; \<open>None\<close>: Invalid Date\<close>
  rt_now :: int \<comment> \<open>\<open>new Date()\<close>\<close>
  rt_hash32 :: "string \<Rightarrow> nat \<Rightarrow> nat" \<comment> \<open>\<open>murmurHash3.x86.hash32(key, seed)\<close>\<close>
  rt_is_v6 :: "string \<Rightarrow> bool" \<comment> \<open>\<open>ip.isV6Format\<close>\<close>
  rt_cidr_contains :: "string \<Rightarrow> string option \<Rightarrow> bool option" \<comment> \<open>\<open>ip.cidrSubnet(r).contains(a)\<close>\<close>
  rt_env_hostname :: "string option" \<comment> \<open>\<open>process.env.HOSTNAME\<close>\<close>
  rt_os_hostname :: string \<comment> \<open>\<open>os.hostname()\<close>\<close>
  rt_random :: "nat \<Rightarrow> rat" \<comment> \<open>the n-th value of \<open>Math.random()\<close>\<close>
  rt_uuid :: "nat \<Rightarrow> string" \<comment> \<open>the n-th value of \<open>uuid.v4()\<close>\<close>


section \<open>The context\<close>

text \<open>
  A context is an object whose fields the code reads by name. Its fields are strings, as the
  request schema \<open>sdkContextSchema\<close> makes them, but for \<open>properties\<close>, an object of strings.
\<close>

record eval_context =
  ctx_fields :: "string \<Rightarrow> string option"
  ctx_properties :: "(string \<Rightarrow> string option) option"

definition userId :: "eval_context \<Rightarrow> string option" where
  "userId c = ctx_fields c ''userId''"

definition sessionId :: "eval_context \<Rightarrow> string option" where
  "sessionId c = ctx_fields c ''sessionId''"

definition remoteAddress :: "eval_context \<Rightarrow> string option" where
  "remoteAddress c = ctx_fields c ''remoteAddress''"

text \<open>\<open>resolveContextValue\<close>: a top-level field wins over a property, an empty one does not count.\<close>

definition resolveContextValue :: "eval_context \<Rightarrow> string \<Rightarrow> string option" where
  "resolveContextValue c field =
     (if truthy (ctx_fields c field) then ctx_fields c field
      else (case ctx_properties c of
              None \<Rightarrow> None
            | Some ps \<Rightarrow> if truthy (ps field) then ps field else None))"

lemma resolveContextValue_truthy:
  "resolveContextValue c f = Some v \<Longrightarrow> v \<noteq> []"
  by (auto simp: resolveContextValue_def truthy_iff split: if_splits option.splits)

lemma resolveContextValue_cases:
  "resolveContextValue c f = Some v \<longleftrightarrow>
     (v \<noteq> [] \<and> (ctx_fields c f = Some v \<or>
        \<not> truthy (ctx_fields c f) \<and> (\<exists>ps. ctx_properties c = Some ps \<and> ps f = Some v)))"
  by (auto simp: resolveContextValue_def truthy_iff split: if_splits option.splits)


section \<open>Operators\<close>

datatype operator =
    IN | NOT_IN
  | STR_ENDS_WITH | STR_STARTS_WITH | STR_CONTAINS
  | NUM_EQ | NUM_GT | NUM_GTE | NUM_LT | NUM_LTE
  | DATE_AFTER | DATE_BEFORE
  | SEMVER_EQ | SEMVER_GT | SEMVER_LT
  | OtherOperator string \<comment> \<open>a string that is no member of the enum\<close>

record constraint =
  contextName :: string
  operator :: operator
  inverted :: bool
  vals :: "string list" \<comment> \<open>\<open>values\<close>\<close>
  cvalue :: "string option" \<comment> \<open>\<open>value\<close>\<close>
  caseInsensitive :: "bool option"

definition cleanValues :: "string list \<Rightarrow> string list" where
  "cleanValues vs = map trim (filter (\<lambda>v. v \<noteq> []) vs)"

definition InOperator :: "constraint \<Rightarrow> eval_context \<Rightarrow> bool" where
  "InOperator c ctx =
     (let ci = default False (caseInsensitive c);
          vs = cleanValues (vals c);
          cv = resolveContextValue ctx (contextName c);
          isIn = list_ex (\<lambda>v. if ci then Some (to_lower v) = map_option to_lower cv
                              else cv = Some v) vs
      in if operator c = IN then isIn else \<not> isIn)"

definition StringOperator :: "constraint \<Rightarrow> eval_context \<Rightarrow> bool" where
  "StringOperator c ctx =
     (let ci = default False (caseInsensitive c);
          vs0 = cleanValues (vals c);
          cv0 = resolveContextValue ctx (contextName c);
          vs = (if ci then map to_lower vs0 else vs0);
          cv = (if ci then map_option to_lower cv0 else cv0)
      in (case operator c of
            STR_STARTS_WITH \<Rightarrow>
              list_ex (\<lambda>v. case cv of None \<Rightarrow> False | Some s \<Rightarrow> starts_with s v) vs
          | STR_ENDS_WITH \<Rightarrow>
              list_ex (\<lambda>v. case cv of None \<Rightarrow> False | Some s \<Rightarrow> ends_with s v) vs
          | STR_CONTAINS \<Rightarrow>
              list_ex (\<lambda>v. case cv of None \<Rightarrow> False | Some s \<Rightarrow> str_includes s v) vs
          | _ \<Rightarrow> False))"

text \<open>
  The semver functions throw on an invalid version, and on the \<open>undefined\<close> of a missing
  \<open>value\<close>; the handler answers \<open>false\<close>.
\<close>

definition catch_false :: "bool option \<Rightarrow> bool" where
  "catch_false r = (case r of None \<Rightarrow> False | Some b \<Rightarrow> b)"

definition SemverOperator :: "runtime \<Rightarrow> constraint \<Rightarrow> eval_context \<Rightarrow> bool" where
  "SemverOperator rt c ctx =
     (case resolveContextValue ctx (contextName c) of
        None \<Rightarrow> False
      | Some cv \<Rightarrow>
          (case cvalue c of
             None \<Rightarrow> False
           | Some v \<Rightarrow>
               (case operator c of
                  SEMVER_EQ \<Rightarrow> catch_false (rt_semver_eq rt cv v)
                | SEMVER_LT \<Rightarrow> catch_false (rt_semver_lt rt cv v)
                | SEMVER_GT \<Rightarrow> catch_false (rt_semver_gt rt cv v)
                | _ \<Rightarrow> False)))"

text \<open>A comparison with an Invalid Date is \<open>false\<close>, as one with NaN.\<close>

definition date_lt :: "int option \<Rightarrow> int option \<Rightarrow> bool" where
  "date_lt a b = (case (a, b) of (Some x, Some y) \<Rightarrow> x < y | _ \<Rightarrow> False)"

definition DateOperator :: "runtime \<Rightarrow> constraint \<Rightarrow> eval_context \<Rightarrow> bool" where
  "DateOperator rt c ctx =
     (let v = Option.bind (cvalue c) (rt_date rt);
          currentTime = (if truthy (ctx_fields ctx ''currentTime'')
                         then Option.bind (ctx_fields ctx ''currentTime'') (rt_date rt)
                         else Some (rt_now rt))
      in (case operator c of
            DATE_AFTER \<Rightarrow> date_lt v currentTime
          | DATE_BEFORE \<Rightarrow> date_lt currentTime v
          | _ \<Rightarrow> False))"

definition NumberOperator :: "constraint \<Rightarrow> eval_context \<Rightarrow> bool" where
  "NumberOperator c ctx =
     (let v = to_number_opt (cvalue c);
          cv = to_number_opt (resolveContextValue ctx (contextName c))
      in if v = NaN \<or> cv = NaN then False
         else (case operator c of
                 NUM_EQ \<Rightarrow> js_eq cv v
               | NUM_GT \<Rightarrow> js_lt v cv
               | NUM_GTE \<Rightarrow> js_le v cv
               | NUM_LT \<Rightarrow> js_lt cv v
               | NUM_LTE \<Rightarrow> js_le cv v
               | _ \<Rightarrow> False))"

text \<open>The map \<open>operators\<close> from an operator to its implementation.\<close>

definition operators :: "runtime \<Rightarrow> operator \<Rightarrow> (constraint \<Rightarrow> eval_context \<Rightarrow> bool) option" where
  "operators rt op = (case op of
       IN \<Rightarrow> Some InOperator
     | NOT_IN \<Rightarrow> Some InOperator
     | STR_STARTS_WITH \<Rightarrow> Some StringOperator
     | STR_ENDS_WITH \<Rightarrow> Some StringOperator
     | STR_CONTAINS \<Rightarrow> Some StringOperator
     | NUM_EQ \<Rightarrow> Some NumberOperator
     | NUM_LT \<Rightarrow> Some NumberOperator
     | NUM_LTE \<Rightarrow> Some NumberOperator
     | NUM_GT \<Rightarrow> Some NumberOperator
     | NUM_GTE \<Rightarrow> Some NumberOperator
     | DATE_AFTER \<Rightarrow> Some (DateOperator rt)
     | DATE_BEFORE \<Rightarrow> Some (DateOperator rt)
     | SEMVER_EQ \<Rightarrow> Some (SemverOperator rt)
     | SEMVER_GT \<Rightarrow> Some (SemverOperator rt)
     | SEMVER_LT \<Rightarrow> Some (SemverOperator rt)
     | OtherOperator _ \<Rightarrow> None)"


section \<open>Constraints and segments\<close>

definition checkConstraint :: "runtime \<Rightarrow> constraint \<Rightarrow> eval_context \<Rightarrow> bool" where
  "checkConstraint rt c ctx =
     (case operators rt (operator c) of
        None \<Rightarrow> False
      | Some evaluator \<Rightarrow> if inverted c then \<not> evaluator c ctx else evaluator c ctx)"

text \<open>The constraint as the playground reports it, with its own result.\<close>

record playground_constraint = constraint +
  presult :: bool

definition evaluated :: "runtime \<Rightarrow> eval_context \<Rightarrow> constraint \<Rightarrow> playground_constraint" where
  "evaluated rt ctx c = constraint.extend c (playground_constraint.fields (checkConstraint rt c ctx))"

text \<open>The \<open>for\<close> loop skips the falsy entries (\<open>null\<close> in the stored JSON).\<close>

definition checkConstraints ::
  "runtime \<Rightarrow> eval_context \<Rightarrow> constraint option list option \<Rightarrow> bool \<times> playground_constraint list" where
  "checkConstraints rt ctx cs =
     (case cs of
        None \<Rightarrow> (True, [])
      | Some xs \<Rightarrow> (let mapped = map (evaluated rt ctx) (List.map_filter id xs)
                   in (list_all presult mapped, mapped)))"

record segment_for_evaluation =
  sg_name :: string
  sg_id :: int
  sg_constraints :: "constraint option list option"

record playground_segment =
  ps_name :: string
  ps_id :: int
  ps_result :: bool
  ps_constraints :: "playground_constraint list"

definition resolved_segment :: "runtime \<Rightarrow> eval_context \<Rightarrow> segment_for_evaluation \<Rightarrow> playground_segment" where
  "resolved_segment rt ctx s =
     (case checkConstraints rt ctx (sg_constraints s) of
        (r, cs) \<Rightarrow> \<lparr>ps_name = sg_name s, ps_id = sg_id s, ps_result = r, ps_constraints = cs\<rparr>)"

definition checkSegments ::
  "runtime \<Rightarrow> eval_context \<Rightarrow> segment_for_evaluation list \<Rightarrow> bool \<times> playground_segment list" where
  "checkSegments rt ctx ss =
     (let resolved = map (resolved_segment rt ctx) ss in (list_all ps_result resolved, resolved))"


section \<open>Lemmas\<close>

lemma presult_evaluated [simp]: "presult (evaluated rt ctx c) = checkConstraint rt c ctx"
  by (simp add: evaluated_def constraint.defs playground_constraint.defs)

text \<open>The operator groups, for case analysis on the enum.\<close>

lemma operators_IN: "operator c = IN \<or> operator c = NOT_IN \<Longrightarrow> operators rt (operator c) = Some InOperator"
  by (auto simp: operators_def)

lemma cleanValues_in: "v \<in> set (cleanValues vs) \<longleftrightarrow> (\<exists>w \<in> set vs. w \<noteq> [] \<and> v = trim w)"
  by (auto simp: cleanValues_def)

lemma InOperator_iff:
  assumes "caseInsensitive c \<noteq> Some True"
  shows "InOperator c ctx \<longleftrightarrow>
    ((operator c = IN) =
      (\<exists>v \<in> set (cleanValues (vals c)). resolveContextValue ctx (contextName c) = Some v))"
proof -
  have ci: "default False (caseInsensitive c) = False"
    using assms by (cases "caseInsensitive c") auto
  show ?thesis
    by (cases "operator c = IN") (auto simp: InOperator_def Let_def ci list_ex_iff)
qed

lemma NumberOperator_NaN:
  "to_number_opt (cvalue c) = NaN \<or> to_number_opt (resolveContextValue ctx (contextName c)) = NaN
     \<Longrightarrow> \<not> NumberOperator c ctx"
  by (auto simp: NumberOperator_def Let_def)

lemma checkConstraints_result:
  "fst (checkConstraints rt ctx cs) =
     (case cs of None \<Rightarrow> True
      | Some xs \<Rightarrow> \<forall>c. Some c \<in> set xs \<longrightarrow> checkConstraint rt c ctx)"
  by (auto simp: checkConstraints_def Let_def list_all_iff map_filter_def split: option.splits)

lemma checkSegments_result:
  "fst (checkSegments rt ctx ss) = (\<forall>s \<in> set ss. fst (checkConstraints rt ctx (sg_constraints s)))"
  by (auto simp: checkSegments_def Let_def list_all_iff resolved_segment_def split: prod.splits)
     (metis fst_conv prod.collapse)

end
