(* ===== verification/Variants.thy ===== *)
theory Variants
  imports Constraints
begin

text \<open>
  Variant selection of the feature evaluator (\<open>feature-evaluator/variant.ts\<close>) and the hash
  that spreads users over buckets (\<open>strategy/util.ts\<close>).

  Every operation that may call \<open>Math.random()\<close> takes the number of values drawn so far
  and returns it increased by the values it draws, so that two draws are two values.
\<close>


section \<open>Hash buckets\<close>

text \<open>
  The remainder of a non-negative dividend: JavaScript's \<open>%\<close> takes the sign of the dividend,
  so a negative divisor counts by its absolute value.
\<close>

definition js_rem :: "nat \<Rightarrow> int \<Rightarrow> int" where
  "js_rem a n = int a mod \<bar>n\<bar>"

definition normalizedValue :: "runtime \<Rightarrow> string \<Rightarrow> string \<Rightarrow> int \<Rightarrow> nat \<Rightarrow> int" where
  "normalizedValue rt i groupId normalizer seed =
     (let hash = rt_hash32 rt (groupId @ '':'' @ i) seed in js_rem hash normalizer + 1)"

definition STRATEGY_SEED :: nat where
  "STRATEGY_SEED = 0"

definition VARIANT_SEED :: nat where
  "VARIANT_SEED = 86028157"

definition normalizedStrategyValue :: "runtime \<Rightarrow> string \<Rightarrow> string \<Rightarrow> int" where
  "normalizedStrategyValue rt i groupId = normalizedValue rt i groupId 100 STRATEGY_SEED"

definition normalizedVariantValue :: "runtime \<Rightarrow> string \<Rightarrow> string \<Rightarrow> int \<Rightarrow> int" where
  "normalizedVariantValue rt i groupId normalizer = normalizedValue rt i groupId normalizer VARIANT_SEED"

lemma normalizedValue_bounds:
  "0 < n \<Longrightarrow> 1 \<le> normalizedValue rt i g n s \<and> normalizedValue rt i g n s \<le> n"
  by (simp add: normalizedValue_def js_rem_def add1_zle_eq)

lemma normalizedStrategyValue_bounds:
  "1 \<le> normalizedStrategyValue rt i g \<and> normalizedStrategyValue rt i g \<le> 100"
  using normalizedValue_bounds [of 100] by (simp add: normalizedStrategyValue_def)


section \<open>Variant definitions\<close>

record payload =
  pl_type :: string
  pl_value :: string

record override =
  ov_contextName :: string
  ov_values :: "string list"

record variant_def =
  vd_name :: string
  vd_weight :: int
  vd_stickiness :: "string option"
  vd_payload :: "payload option"
  vd_overrides :: "override list option"

record variant =
  vr_name :: string
  vr_enabled :: bool
  vr_payload :: "payload option"
  vr_featureEnabled :: "bool option"
  vr_feature_enabled :: "bool option"

definition getDefaultVariant :: variant where
  "getDefaultVariant = \<lparr>vr_name = ''disabled'', vr_enabled = False, vr_payload = None,
     vr_featureEnabled = None, vr_feature_enabled = None\<rparr>"


section \<open>The seed\<close>

text \<open>\<open>Math.round\<close> rounds a half up.\<close>

definition js_round :: "rat \<Rightarrow> int" where
  "js_round x = \<lfloor>x + 1 / 2\<rfloor>"

definition randomString :: "runtime \<Rightarrow> nat \<Rightarrow> string \<times> nat" where
  "randomString rt n = (show_int (js_round (rt_random rt n * 100000)), Suc n)"

definition stickinessSelectors :: "string list" where
  "stickinessSelectors = [''userId'', ''sessionId'', ''remoteAddress'']"

definition getSeed :: "runtime \<Rightarrow> eval_context \<Rightarrow> string option \<Rightarrow> nat \<Rightarrow> string \<times> nat" where
  "getSeed rt ctx st n =
     (let stickiness = default ''default'' st in
      if stickiness \<noteq> ''default''
      then (case resolveContextValue ctx stickiness of
              None \<Rightarrow> randomString rt n | Some v \<Rightarrow> (v, n))
      else (case find (\<lambda>key. truthy (ctx_fields ctx key)) stickinessSelectors of
              None \<Rightarrow> randomString rt n
            | Some key \<Rightarrow> (case ctx_fields ctx key of
                             None \<Rightarrow> randomString rt n | Some v \<Rightarrow> (v, n))))"


section \<open>Selection\<close>

definition overrideMatchesContext :: "eval_context \<Rightarrow> override \<Rightarrow> bool" where
  "overrideMatchesContext ctx o' =
     list_ex (\<lambda>v. resolveContextValue ctx (ov_contextName o') = Some v) (ov_values o')"

definition findOverride :: "variant_def list \<Rightarrow> eval_context \<Rightarrow> variant_def option" where
  "findOverride vs ctx =
     find (\<lambda>v. list_ex (overrideMatchesContext ctx) (default [] (vd_overrides v)))
          (filter (\<lambda>v. vd_overrides v \<noteq> None) vs)"

text \<open>The loop of \<open>variants.find\<close> with its running sum \<open>counter\<close>.\<close>

fun pick_variant :: "int \<Rightarrow> int \<Rightarrow> variant_def list \<Rightarrow> variant_def option" where
  "pick_variant counter target [] = None"
| "pick_variant counter target (v # vs) =
     (if vd_weight v = 0 then pick_variant counter target vs
      else let counter' = counter + vd_weight v
           in if counter' < target then pick_variant counter' target vs else Some v)"

definition total_weight :: "variant_def list \<Rightarrow> int" where
  "total_weight vs = foldl (\<lambda>acc v. acc + vd_weight v) 0 vs"

definition selectVariantDefinition ::
  "runtime \<Rightarrow> string \<Rightarrow> variant_def list \<Rightarrow> eval_context \<Rightarrow> nat \<Rightarrow> variant_def option \<times> nat" where
  "selectVariantDefinition rt featureName vs ctx n =
     (let totalWeight = total_weight vs in
      if totalWeight \<le> 0 then (None, n)
      else (case findOverride vs ctx of
              Some v \<Rightarrow> (Some v, n)
            | None \<Rightarrow>
                (case getSeed rt ctx (case vs of [] \<Rightarrow> None | v # _ \<Rightarrow> vd_stickiness v) n of
                   (seed, n') \<Rightarrow>
                     (pick_variant 0 (normalizedVariantValue rt seed featureName totalWeight) vs, n'))))"


section \<open>Lemmas\<close>

definition nonneg_weights :: "variant_def list \<Rightarrow> bool" where
  "nonneg_weights vs = (\<forall>v \<in> set vs. 0 \<le> vd_weight v)"

lemma total_weight_sum_list: "total_weight vs = sum_list (map vd_weight vs)"
proof -
  have "foldl (\<lambda>acc v. acc + vd_weight v) a vs = a + sum_list (map vd_weight vs)" for a
    by (induction vs arbitrary: a) auto
  then show ?thesis by (simp add: total_weight_def)
qed

lemma total_weight_simps [simp]:
  "total_weight [] = 0" "total_weight (v # vs) = vd_weight v + total_weight vs"
  "total_weight (us @ vs) = total_weight us + total_weight vs"
  by (simp_all add: total_weight_sum_list)

lemma total_weight_nonneg: "nonneg_weights vs \<Longrightarrow> 0 \<le> total_weight vs"
  by (induction vs) (auto simp: nonneg_weights_def)

lemma pick_variant_in: "pick_variant c t vs = Some v \<Longrightarrow> v \<in> set vs \<and> vd_weight v \<noteq> 0"
  by (induction c t vs rule: pick_variant.induct) (auto simp: Let_def split: if_splits)

lemma pick_variant_Some_ex:
  "nonneg_weights vs \<Longrightarrow> c < t \<Longrightarrow> t \<le> c + total_weight vs \<Longrightarrow> \<exists>v. pick_variant c t vs = Some v"
proof (induction c t vs rule: pick_variant.induct)
  case (1 c t)
  then show ?case by simp
next
  case (2 c t v vs)
  then show ?case by (cases "vd_weight v = 0") (auto simp: nonneg_weights_def Let_def)
qed

text \<open>The variants passed over are those before the interval that holds the target.\<close>

lemma pick_variant_skip:
  "nonneg_weights us \<Longrightarrow> c + total_weight us < t \<Longrightarrow>
     pick_variant c t (us @ vs) = pick_variant (c + total_weight us) t vs"
proof (induction us arbitrary: c)
  case Nil
  then show ?case by simp
next
  case (Cons u us)
  have nn: "0 \<le> vd_weight u" "nonneg_weights us" "0 \<le> total_weight us"
    using Cons.prems(1) total_weight_nonneg by (auto simp: nonneg_weights_def)
  have "pick_variant (c + vd_weight u) t (us @ vs)
      = pick_variant (c + vd_weight u + total_weight us) t vs"
    using Cons.IH [OF nn(2)] Cons.prems(2) by simp
  with nn Cons.prems(2) show ?case
    by (cases "vd_weight u = 0") (auto simp: Let_def add.assoc)
qed

lemma pick_variant_stop:
  "nonneg_weights us \<Longrightarrow> c < t \<Longrightarrow> t \<le> c + total_weight us \<Longrightarrow>
     pick_variant c t (us @ vs) = pick_variant c t us"
proof (induction us arbitrary: c)
  case Nil
  then show ?case by simp
next
  case (Cons u us)
  then show ?case by (cases "vd_weight u = 0") (auto simp: Let_def nonneg_weights_def)
qed

text \<open>A variant is picked exactly for the targets of its own interval.\<close>

lemma pick_variant_interval:
  assumes "distinct (us @ v # ws)" and nn: "nonneg_weights (us @ v # ws)" and t: "c < t"
  shows "pick_variant c t (us @ v # ws) = Some v \<longleftrightarrow>
    c + total_weight us < t \<and> t \<le> c + total_weight us + vd_weight v"
proof -
  have u: "nonneg_weights us" and v: "0 \<le> vd_weight v" and nv: "v \<notin> set us" "v \<notin> set ws"
    using assms by (auto simp: nonneg_weights_def)
  show ?thesis
  proof (cases "c + total_weight us < t")
    case False
    then have "pick_variant c t (us @ v # ws) = pick_variant c t us"
      using pick_variant_stop [OF u t] by simp
    with False nv show ?thesis using pick_variant_in by fastforce
  next
    case True
    then have "pick_variant c t (us @ v # ws) = pick_variant (c + total_weight us) t (v # ws)"
      by (rule pick_variant_skip [OF u])
    with True v nv show ?thesis using pick_variant_in [of _ t ws v]
      by (auto simp: Let_def split: if_splits)
  qed
qed

lemma pick_variant_count:
  assumes "distinct vs" and "nonneg_weights vs" and "v \<in> set vs"
  shows "card {t. 1 \<le> t \<and> t \<le> total_weight vs \<and> pick_variant 0 t vs = Some v} = nat (vd_weight v)"
proof -
  from assms(3) obtain us ws where vs: "vs = us @ v # ws" by (meson split_list)
  have nn: "0 \<le> total_weight us" "0 \<le> total_weight ws"
    using assms(2) vs by (auto intro!: total_weight_nonneg simp: nonneg_weights_def)
  have "{t. 1 \<le> t \<and> t \<le> total_weight vs \<and> pick_variant 0 t vs = Some v}
      = {total_weight us <.. total_weight us + vd_weight v}"
  proof (intro set_eqI iffI)
    fix t assume "t \<in> {t. 1 \<le> t \<and> t \<le> total_weight vs \<and> pick_variant 0 t vs = Some v}"
    then show "t \<in> {total_weight us <.. total_weight us + vd_weight v}"
      using pick_variant_interval [of us v ws 0 t] assms(1,2) vs by auto
  next
    fix t assume "t \<in> {total_weight us <.. total_weight us + vd_weight v}"
    then show "t \<in> {t. 1 \<le> t \<and> t \<le> total_weight vs \<and> pick_variant 0 t vs = Some v}"
      using pick_variant_interval [of us v ws 0 t] assms(1,2) vs nn by auto
  qed
  then show ?thesis by simp
qed

lemma findOverride_in:
  "findOverride vs ctx = Some v \<Longrightarrow>
     v \<in> set vs \<and> (\<exists>o' \<in> set (default [] (vd_overrides v)). overrideMatchesContext ctx o')"
  unfolding findOverride_def by (drule find_Some_in) (auto simp: list_ex_iff)

text \<open>What the selection returns: \<open>None\<close> without weight, an override, or the weighted pick.\<close>

lemma selectVariantDefinition_cases:
  assumes "0 < total_weight vs"
  shows "findOverride vs ctx = Some v \<Longrightarrow> selectVariantDefinition rt g vs ctx n = (Some v, n)"
    and "findOverride vs ctx = None \<Longrightarrow> \<exists>t. 1 \<le> t \<and> t \<le> total_weight vs \<and>
           fst (selectVariantDefinition rt g vs ctx n) = pick_variant 0 t vs"
proof -
  show "findOverride vs ctx = Some v \<Longrightarrow> selectVariantDefinition rt g vs ctx n = (Some v, n)"
    using assms by (simp add: selectVariantDefinition_def)
next
  assume *: "findOverride vs ctx = None"
  obtain seed n' where s: "getSeed rt ctx (case vs of [] \<Rightarrow> None | v # _ \<Rightarrow> vd_stickiness v) n = (seed, n')"
    by (cases "getSeed rt ctx (case vs of [] \<Rightarrow> None | v # _ \<Rightarrow> vd_stickiness v) n")
  have "fst (selectVariantDefinition rt g vs ctx n)
      = pick_variant 0 (normalizedVariantValue rt seed g (total_weight vs)) vs"
    using assms * s by (simp add: selectVariantDefinition_def)
  then show "\<exists>t. 1 \<le> t \<and> t \<le> total_weight vs \<and>
      fst (selectVariantDefinition rt g vs ctx n) = pick_variant 0 t vs"
    using normalizedValue_bounds [OF assms, of rt seed g VARIANT_SEED]
    unfolding normalizedVariantValue_def by blast
qed

lemma selectVariantDefinition_no_weight:
  "total_weight vs \<le> 0 \<Longrightarrow> selectVariantDefinition rt g vs ctx n = (None, n)"
  by (simp add: selectVariantDefinition_def)

lemma selectVariantDefinition_in:
  "selectVariantDefinition rt g vs ctx n = (Some v, n') \<Longrightarrow> v \<in> set vs"
proof -
  assume *: "selectVariantDefinition rt g vs ctx n = (Some v, n')"
  have pos: "0 < total_weight vs"
    using * selectVariantDefinition_no_weight [of vs rt g ctx n] by fastforce
  show "v \<in> set vs"
  proof (cases "findOverride vs ctx")
    case None
    then obtain t where "pick_variant 0 t vs = Some v"
      using selectVariantDefinition_cases(2) [OF pos, of ctx rt g n] * by auto
    then show ?thesis using pick_variant_in by blast
  next
    case (Some u)
    then show ?thesis
      using selectVariantDefinition_cases(1) [OF pos Some, of rt g n] * findOverride_in [OF Some] by simp
  qed
qed

text \<open>The seed is drawn at random only when the context gives none.\<close>

lemma getSeed_sticky:
  "default ''default'' st \<noteq> ''default'' \<Longrightarrow> resolveContextValue ctx (default ''default'' st) = Some v
     \<Longrightarrow> getSeed rt ctx st n = (v, n)"
  by (simp add: getSeed_def)

lemma getSeed_default_user:
  "default ''default'' st = ''default'' \<Longrightarrow> userId ctx = Some u \<Longrightarrow> u \<noteq> [] \<Longrightarrow>
     getSeed rt ctx st n = (u, n)"
  by (simp add: getSeed_def stickinessSelectors_def userId_def)

end
