(* ===== verification/Strategies.thy ===== *)
theory Strategies
  imports Variants
begin

text \<open>
  The activation strategies of the feature evaluator (\<open>feature-evaluator/strategy/*.ts\<close>): one
  constructor of \<open>strategy\<close> per class, the \<open>isEnabled\<close> of each, and
  \<open>isEnabledWithConstraints\<close>, which combines it with constraints, segments and variants.
\<close>


section \<open>The classes\<close>

datatype strategy =
    Strategy string bool \<comment> \<open>the base class: name and \<open>returnValue\<close>\<close>
  | DefaultStrategy
  | ApplicationHostnameStrategy
  | GradualRolloutRandomStrategy
  | GradualRolloutUserIdStrategy
  | GradualRolloutSessionIdStrategy
  | UserWithIdStrategy
  | RemoteAddressStrategy
  | FlexibleRolloutStrategy
  | UnknownStrategy

text \<open>\<open>new Strategy(name, returnValue)\<close>.\<close>

definition new_Strategy :: "string \<Rightarrow> bool option \<Rightarrow> strategy" where
  "new_Strategy name rv = Strategy (if name = [] then ''unknown'' else name) (default False rv)"

fun strategy_name :: "strategy \<Rightarrow> string" where
  "strategy_name (Strategy name _) = name"
| "strategy_name DefaultStrategy = ''default''"
| "strategy_name ApplicationHostnameStrategy = ''applicationHostname''"
| "strategy_name GradualRolloutRandomStrategy = ''gradualRolloutRandom''"
| "strategy_name GradualRolloutUserIdStrategy = ''gradualRolloutUserId''"
| "strategy_name GradualRolloutSessionIdStrategy = ''gradualRolloutSessionId''"
| "strategy_name UserWithIdStrategy = ''userWithId''"
| "strategy_name RemoteAddressStrategy = ''remoteAddress''"
| "strategy_name FlexibleRolloutStrategy = ''flexibleRollout''"
| "strategy_name UnknownStrategy = ''unknown''"

definition defaultStrategies :: "strategy list" where
  "defaultStrategies =
     [DefaultStrategy, ApplicationHostnameStrategy, GradualRolloutRandomStrategy,
      GradualRolloutUserIdStrategy, GradualRolloutSessionIdStrategy, UserWithIdStrategy,
      RemoteAddressStrategy, FlexibleRolloutStrategy, UnknownStrategy]"

text \<open>The parameters of a strategy: an object of strings.\<close>

type_synonym parameters = "string \<Rightarrow> string option"


section \<open>isEnabled of each class\<close>

definition hostname :: "runtime \<Rightarrow> string" where
  "hostname rt = to_lower (or_else (rt_env_hostname rt) (or_else (Some (rt_os_hostname rt)) ''undefined''))"

definition applicationHostname_isEnabled :: "runtime \<Rightarrow> parameters \<Rightarrow> bool" where
  "applicationHostname_isEnabled rt ps =
     (case ps ''hostNames'' of
        None \<Rightarrow> False
      | Some hs \<Rightarrow> hs \<noteq> [] \<and> List.member (split_commas (to_lower hs)) (hostname rt))"

definition gradualRolloutRandom_isEnabled :: "runtime \<Rightarrow> parameters \<Rightarrow> nat \<Rightarrow> bool \<times> nat" where
  "gradualRolloutRandom_isEnabled rt ps n =
     (let percentage = to_number_opt (ps ''percentage'');
          random = \<lfloor>rt_random rt n * 100\<rfloor> + 1
      in (js_le (Fin (of_int random)) percentage, Suc n))"

text \<open>The rollout test that three strategies share: a positive percentage that reaches the bucket.\<close>

definition in_rollout :: "js_number \<Rightarrow> int \<Rightarrow> bool" where
  "in_rollout percentage bucket = (js_lt (Fin 0) percentage \<and> js_le (Fin (of_int bucket)) percentage)"

definition gradualRolloutUserId_isEnabled :: "runtime \<Rightarrow> parameters \<Rightarrow> eval_context \<Rightarrow> bool" where
  "gradualRolloutUserId_isEnabled rt ps ctx =
     (case userId ctx of
        None \<Rightarrow> False
      | Some u \<Rightarrow> u \<noteq> [] \<and>
          in_rollout (to_number_opt (ps ''percentage''))
            (normalizedStrategyValue rt u (or_else (ps ''groupId'') [])))"

definition gradualRolloutSessionId_isEnabled :: "runtime \<Rightarrow> parameters \<Rightarrow> eval_context \<Rightarrow> bool" where
  "gradualRolloutSessionId_isEnabled rt ps ctx =
     (case sessionId ctx of
        None \<Rightarrow> False
      | Some s \<Rightarrow> s \<noteq> [] \<and>
          in_rollout (to_number_opt (ps ''percentage''))
            (normalizedStrategyValue rt s (or_else (ps ''groupId'') [])))"

definition userWithId_isEnabled :: "parameters \<Rightarrow> eval_context \<Rightarrow> bool" where
  "userWithId_isEnabled ps ctx =
     (let userIdList = (case ps ''userIds'' of
                          None \<Rightarrow> [] | Some us \<Rightarrow> if us = [] then [] else split_commas us)
      in list_ex (\<lambda>u. userId ctx = Some u) userIdList)"

definition remoteAddress_isEnabled :: "runtime \<Rightarrow> parameters \<Rightarrow> eval_context \<Rightarrow> bool" where
  "remoteAddress_isEnabled rt ps ctx =
     (case ps ''IPs'' of
        None \<Rightarrow> False
      | Some ips \<Rightarrow> ips \<noteq> [] \<and>
          list_ex (\<lambda>range.
            if remoteAddress ctx = Some range then True
            else if \<not> rt_is_v6 rt range then catch_false (rt_cidr_contains rt range (remoteAddress ctx))
            else False) (split_commas ips))"

text \<open>The random generator of \<open>FlexibleRolloutStrategy\<close>.\<close>

definition rollout_random :: "runtime \<Rightarrow> nat \<Rightarrow> string \<times> nat" where
  "rollout_random rt n = (show_int (js_round (rt_random rt n * 100) + 1), Suc n)"

definition resolveStickiness :: "runtime \<Rightarrow> string \<Rightarrow> eval_context \<Rightarrow> nat \<Rightarrow> string option \<times> nat" where
  "resolveStickiness rt stickiness ctx n =
     (if stickiness = ''default''
      then (if truthy (userId ctx) then (userId ctx, n)
            else if truthy (sessionId ctx) then (sessionId ctx, n)
            else map_prod Some id (rollout_random rt n))
      else if stickiness = ''random'' then map_prod Some id (rollout_random rt n)
      else (resolveContextValue ctx stickiness, n))"

definition flexibleRollout_isEnabled ::
  "runtime \<Rightarrow> parameters \<Rightarrow> eval_context \<Rightarrow> nat \<Rightarrow> bool \<times> nat" where
  "flexibleRollout_isEnabled rt ps ctx n =
     (let groupId = or_else (ps ''groupId'') (or_else (ctx_fields ctx ''featureToggle'') []);
          percentage = to_number_opt (ps ''rollout'');
          stickiness = or_else (ps ''stickiness'') ''default''
      in (case resolveStickiness rt stickiness ctx n of
            (stickinessId, n') \<Rightarrow>
              (case stickinessId of
                 None \<Rightarrow> (False, n')
               | Some i \<Rightarrow>
                   if i = [] then (False, n')
                   else (in_rollout percentage (normalizedStrategyValue rt i groupId), n'))))"

text \<open>The \<open>isEnabled\<close> of a strategy object, by its class.\<close>

fun strategy_isEnabled ::
  "runtime \<Rightarrow> strategy \<Rightarrow> parameters \<Rightarrow> eval_context \<Rightarrow> nat \<Rightarrow> bool \<times> nat" where
  "strategy_isEnabled rt (Strategy _ returnValue) ps ctx n = (returnValue, n)"
| "strategy_isEnabled rt DefaultStrategy ps ctx n = (True, n)"
| "strategy_isEnabled rt ApplicationHostnameStrategy ps ctx n = (applicationHostname_isEnabled rt ps, n)"
| "strategy_isEnabled rt GradualRolloutRandomStrategy ps ctx n = gradualRolloutRandom_isEnabled rt ps n"
| "strategy_isEnabled rt GradualRolloutUserIdStrategy ps ctx n = (gradualRolloutUserId_isEnabled rt ps ctx, n)"
| "strategy_isEnabled rt GradualRolloutSessionIdStrategy ps ctx n =
     (gradualRolloutSessionId_isEnabled rt ps ctx, n)"
| "strategy_isEnabled rt UserWithIdStrategy ps ctx n = (userWithId_isEnabled ps ctx, n)"
| "strategy_isEnabled rt RemoteAddressStrategy ps ctx n = (remoteAddress_isEnabled rt ps ctx, n)"
| "strategy_isEnabled rt FlexibleRolloutStrategy ps ctx n = flexibleRollout_isEnabled rt ps ctx n"
| "strategy_isEnabled rt UnknownStrategy ps ctx n = (False, n)"


section \<open>isEnabledWithConstraints\<close>

text \<open>\<open>boolean | 'unknown'\<close>.\<close>

datatype verdict = Known bool | Unknown

datatype evaluationStatus = Complete | Incomplete | Unevaluated

record strategy_result =
  enabled_verdict :: verdict \<comment> \<open>\<open>enabled\<close>\<close>
  status :: evaluationStatus \<comment> \<open>\<open>evaluationStatus\<close>\<close>
  res_variant :: "variant option"
  res_variants :: "variant_def list option"

record strategy_evaluation =
  ev_result :: strategy_result
  ev_constraints :: "playground_constraint list"
  ev_segments :: "playground_segment list"

text \<open>A template literal prints a missing \<open>groupId\<close> as the word \<open>undefined\<close>.\<close>

definition template :: "string option \<Rightarrow> string" where
  "template s = default ''undefined'' s"

definition base_isEnabledWithConstraints ::
  "runtime \<Rightarrow> strategy \<Rightarrow> parameters \<Rightarrow> eval_context \<Rightarrow> constraint option list option \<Rightarrow>
   segment_for_evaluation list \<Rightarrow> bool option \<Rightarrow> variant_def list option \<Rightarrow> nat \<Rightarrow>
   strategy_evaluation \<times> nat" where
  "base_isEnabledWithConstraints rt st ps ctx cs segs disabled vds n =
     (case checkConstraints rt ctx cs of (cres, cons) \<Rightarrow>
      case strategy_isEnabled rt st ps ctx n of (enabledResult, n1) \<Rightarrow>
      case checkSegments rt ctx segs of (sres, ssegs) \<Rightarrow>
      case (case vds of
              None \<Rightarrow> (None, n1)
            | Some vs \<Rightarrow> selectVariantDefinition rt (template (ps ''groupId'')) vs ctx n1) of
        (variantDefinition, n2) \<Rightarrow>
      (let overallResult = (cres \<and> enabledResult \<and> sres);
           variant = map_option
             (\<lambda>vd. \<lparr>vr_name = vd_name vd, vr_enabled = True, vr_payload = vd_payload vd,
                    vr_featureEnabled = None, vr_feature_enabled = None\<rparr>) variantDefinition
       in if default False disabled
          then (\<lparr>ev_result = \<lparr>enabled_verdict = Unknown, status = Unevaluated,
                              res_variant = None, res_variants = None\<rparr>,
                 ev_constraints = cons, ev_segments = ssegs\<rparr>, n2)
          else (\<lparr>ev_result = \<lparr>enabled_verdict = Known overallResult, status = Complete,
                              res_variant = variant,
                              res_variants = (if variant \<noteq> None then vds else None)\<rparr>,
                 ev_constraints = cons, ev_segments = ssegs\<rparr>, n2)))"

definition unknown_isEnabledWithConstraints ::
  "runtime \<Rightarrow> eval_context \<Rightarrow> constraint option list option \<Rightarrow> segment_for_evaluation list \<Rightarrow>
   strategy_evaluation" where
  "unknown_isEnabledWithConstraints rt ctx cs segs =
     (case checkConstraints rt ctx cs of (cres, cons) \<Rightarrow>
      case checkSegments rt ctx segs of (sres, ssegs) \<Rightarrow>
      \<lparr>ev_result = \<lparr>enabled_verdict = (if cres \<and> sres then Unknown else Known False),
                    status = Incomplete, res_variant = None, res_variants = None\<rparr>,
       ev_constraints = cons, ev_segments = ssegs\<rparr>)"

text \<open>The method call: \<open>UnknownStrategy\<close> overrides the method of the base class.\<close>

definition isEnabledWithConstraints ::
  "runtime \<Rightarrow> strategy \<Rightarrow> parameters \<Rightarrow> eval_context \<Rightarrow> constraint option list option \<Rightarrow>
   segment_for_evaluation list \<Rightarrow> bool option \<Rightarrow> variant_def list option \<Rightarrow> nat \<Rightarrow>
   strategy_evaluation \<times> nat" where
  "isEnabledWithConstraints rt st ps ctx cs segs disabled vds n =
     (if st = UnknownStrategy then (unknown_isEnabledWithConstraints rt ctx cs segs, n)
      else base_isEnabledWithConstraints rt st ps ctx cs segs disabled vds n)"


section \<open>Lemmas\<close>

lemma in_rollout_mono:
  "in_rollout p b \<Longrightarrow> js_le p q \<Longrightarrow> in_rollout q b"
  unfolding in_rollout_def by (auto intro: js_lt_le_trans js_le_trans)

lemma in_rollout_zero: "\<not> in_rollout (Fin 0) b"
  by (simp add: in_rollout_def)

lemma in_rollout_NaN: "\<not> in_rollout NaN b"
  by (simp add: in_rollout_def)

lemma in_rollout_full: "in_rollout (Fin 100) (normalizedStrategyValue rt i g)"
proof -
  have "(of_int (normalizedStrategyValue rt i g) :: rat) \<le> of_int 100"
    using normalizedStrategyValue_bounds [of rt i g] by (simp only: of_int_le_iff)
  then show ?thesis by (simp add: in_rollout_def)
qed

lemma resolveStickiness_user:
  "userId ctx = Some u \<Longrightarrow> u \<noteq> [] \<Longrightarrow> resolveStickiness rt ''default'' ctx n = (Some u, n)"
  by (simp add: resolveStickiness_def)

lemma flexibleRollout_eq:
  assumes "resolveStickiness rt (or_else (ps ''stickiness'') ''default'') ctx n = (Some i, n')" and "i \<noteq> []"
  shows "flexibleRollout_isEnabled rt ps ctx n =
    (in_rollout (to_number_opt (ps ''rollout''))
      (normalizedStrategyValue rt i (or_else (ps ''groupId'') (or_else (ctx_fields ctx ''featureToggle'') []))), n')"
  using assms by (simp add: flexibleRollout_isEnabled_def Let_def)

text \<open>
  The verdict of a strategy. \<open>Known True\<close> needs the strategy's own test, every constraint and
  every segment, and a strategy that is not disabled.
\<close>

lemma base_verdict:
  "enabled_verdict (ev_result (fst (base_isEnabledWithConstraints rt st ps ctx cs segs disabled vds n))) =
     (if default False disabled then Unknown
      else Known (fst (checkConstraints rt ctx cs) \<and> fst (strategy_isEnabled rt st ps ctx n)
                  \<and> fst (checkSegments rt ctx segs)))"
  by (simp add: base_isEnabledWithConstraints_def Let_def split: prod.splits)

lemma unknown_verdict:
  "enabled_verdict (ev_result (unknown_isEnabledWithConstraints rt ctx cs segs)) =
     (if fst (checkConstraints rt ctx cs) \<and> fst (checkSegments rt ctx segs) then Unknown else Known False)"
  by (simp add: unknown_isEnabledWithConstraints_def split: prod.splits)

lemma verdict_True_iff:
  "enabled_verdict (ev_result (fst (isEnabledWithConstraints rt st ps ctx cs segs disabled vds n))) = Known True
   \<longleftrightarrow> st \<noteq> UnknownStrategy \<and> \<not> default False disabled \<and> fst (checkConstraints rt ctx cs)
       \<and> fst (strategy_isEnabled rt st ps ctx n) \<and> fst (checkSegments rt ctx segs)"
  by (auto simp: isEnabledWithConstraints_def base_verdict unknown_verdict)

lemma verdict_status:
  "enabled_verdict (ev_result (fst (isEnabledWithConstraints rt st ps ctx cs segs disabled vds n))) = Known True
   \<Longrightarrow> status (ev_result (fst (isEnabledWithConstraints rt st ps ctx cs segs disabled vds n))) = Complete"
  by (auto simp: isEnabledWithConstraints_def unknown_verdict base_isEnabledWithConstraints_def Let_def
      split: prod.splits if_splits)

end
