(* ===== verification/Evaluator.thy ===== *)
theory Evaluator
  imports Strategies "HOL-Library.AList"
begin

text \<open>
  The feature evaluator: its in-memory repository (\<open>feature-evaluator/repository\<close>), the client
  that evaluates features, variants and parent dependencies (\<open>client.ts\<close>), and the facade
  with the static context and the fallbacks (\<open>feature-evaluator.ts\<close>, \<open>helpers.ts\<close>).
\<close>


section \<open>Features\<close>

record strategy_transport =
  st_name :: string
  st_title :: "string option"
  st_disabled :: "bool option"
  st_parameters :: parameters
  st_constraints :: "constraint option list option"
  st_variants :: "variant_def list option"
  st_segments :: "int list option"
  st_id :: "string option"

record segment =
  seg_id :: int
  seg_name :: string
  seg_description :: "string option"
  seg_constraints :: "constraint option list option"

record dependency =
  dep_feature :: string
  dep_variants :: "string list option"
  dep_enabled :: "bool option"

record feature =
  fe_name :: string
  fe_type :: string
  fe_description :: "string option"
  fe_enabled :: bool
  fe_stale :: bool
  fe_impressionData :: bool
  fe_strategies :: "strategy_transport list option" \<comment> \<open>\<open>None\<close>: not an array\<close>
  fe_variants :: "variant_def list option"
  fe_dependencies :: "dependency list option"

record client_features_response =
  cf_version :: nat
  cf_features :: "feature list"
  cf_segments :: "segment list option"


section \<open>The repository\<close>

record bootstrap_options =
  bo_data :: "feature list option"
  bo_segments :: "segment list option"

definition readBootstrap :: "bootstrap_options \<Rightarrow> client_features_response option" where
  "readBootstrap b = (case bo_data b of
       None \<Rightarrow> None
     | Some fs \<Rightarrow> Some \<lparr>cf_version = 2, cf_features = fs, cf_segments = bo_segments b\<rparr>)"

record repository =
  rp_appName :: string
  rp_bootstrap :: bootstrap_options
  rp_storage :: "(string \<times> client_features_response) list" \<comment> \<open>\<open>InMemStorageProvider\<close>\<close>
  rp_data :: "(string \<times> feature) list"
  rp_segments :: "(int \<times> segment) list"

definition new_repository :: "string \<Rightarrow> bootstrap_options \<Rightarrow> repository" where
  "new_repository appName b =
     \<lparr>rp_appName = appName, rp_bootstrap = b, rp_storage = [], rp_data = [], rp_segments = []\<rparr>"

definition createSegmentLookup :: "segment list option \<Rightarrow> (int \<times> segment) list" where
  "createSegmentLookup ss = (case ss of
       None \<Rightarrow> []
     | Some xs \<Rightarrow> foldl (\<lambda>m s. AList.update (seg_id s) s m) [] xs)"

definition convertToMap :: "feature list \<Rightarrow> (string \<times> feature) list" where
  "convertToMap fs = foldl (\<lambda>o' f. AList.update (fe_name f) f o') [] fs"

definition storage_set :: "string \<Rightarrow> client_features_response \<Rightarrow> repository \<Rightarrow> repository" where
  "storage_set k d r = r\<lparr>rp_storage := AList.update k d (rp_storage r)\<rparr>"

definition storage_get :: "string \<Rightarrow> repository \<Rightarrow> client_features_response option" where
  "storage_get k r = map_of (rp_storage r) k"

definition repo_save :: "client_features_response \<Rightarrow> repository \<Rightarrow> repository" where
  "repo_save response r =
     storage_set (rp_appName r) response
       (r\<lparr>rp_data := convertToMap (cf_features response),
          rp_segments := createSegmentLookup (cf_segments response)\<rparr>)"

definition notEmpty :: "client_features_response \<Rightarrow> bool" where
  "notEmpty content = (0 < length (cf_features content))"

definition loadBootstrap :: "repository \<Rightarrow> repository" where
  "loadBootstrap r = (case readBootstrap (rp_bootstrap r) of
       None \<Rightarrow> r
     | Some content \<Rightarrow> if notEmpty content then repo_save content r else r)"

text \<open>\<open>start\<close>: the readiness event on the next tick has no listener in the evaluator.\<close>

definition repo_start :: "repository \<Rightarrow> repository" where
  "repo_start r = loadBootstrap r"

definition getSegment :: "repository \<Rightarrow> int \<Rightarrow> segment option" where
  "getSegment r i = map_of (rp_segments r) i"

definition getToggle :: "repository \<Rightarrow> string \<Rightarrow> feature option" where
  "getToggle r name = map_of (rp_data r) name"

text \<open>\<open>Object.keys\<close>: keys that are array indices come first, in numeric order.\<close>

definition is_index_key :: "string \<Rightarrow> bool" where
  "is_index_key k = (k = show_nat (digits_val k) \<and> digits_val k < 2 ^ 32 - 1)"

definition object_keys :: "(string \<times> 'a) list \<Rightarrow> string list" where
  "object_keys m = (let ks = map fst m in
     sort_key digits_val (filter is_index_key ks) @ filter (\<lambda>k. \<not> is_index_key k) ks)"

definition getToggles :: "repository \<Rightarrow> feature list" where
  "getToggles r = List.map_filter (map_of (rp_data r)) (object_keys (rp_data r))"


section \<open>The client\<close>

record client =
  cl_repository :: repository
  cl_strategies :: "strategy list"

text \<open>The constructor refuses a strategy without a name.\<close>

definition new_client :: "repository \<Rightarrow> strategy list \<Rightarrow> string + client" where
  "new_client r sts =
     (if list_ex (\<lambda>s. strategy_name s = []) sts then Inl ''Invalid strategy data / interface''
      else Inr \<lparr>cl_repository = r, cl_strategies = sts\<rparr>)"

definition getStrategy :: "client \<Rightarrow> string \<Rightarrow> strategy option" where
  "getStrategy cl name = find (\<lambda>s. strategy_name s = name) (cl_strategies cl)"

text \<open>
  The strategy that evaluates a selector; the code assumes that \<open>unknown\<close> is always there,
  as it is among the default strategies.
\<close>

definition strategy_for :: "client \<Rightarrow> string \<Rightarrow> strategy option" where
  "strategy_for cl name =
     (let unknownStrategy = getStrategy cl ''unknown'' in
      if name = ''applicationHostname'' then unknownStrategy
      else case getStrategy cl name of None \<Rightarrow> unknownStrategy | Some s \<Rightarrow> Some s)"

definition segment_lookup :: "repository \<Rightarrow> int \<Rightarrow> segment_for_evaluation option" where
  "segment_lookup r i = map_option
     (\<lambda>s. \<lparr>sg_name = seg_name s, sg_id = i, sg_constraints = seg_constraints s\<rparr>) (getSegment r i)"

record evaluated_strategy = strategy_evaluation +
  es_name :: string
  es_id :: string
  es_title :: "string option"
  es_disabled :: bool
  es_parameters :: parameters

record feature_result =
  fr_result :: verdict
  fr_variant :: "variant option"
  fr_variants :: "variant_def list option"
  fr_strategies :: "evaluated_strategy list"
  fr_hasUnsatisfiedDependency :: "bool option"

definition createEvalResult :: "bool \<Rightarrow> feature_result" where
  "createEvalResult b = \<lparr>fr_result = Known b, fr_variant = None, fr_variants = None,
     fr_strategies = [], fr_hasUnsatisfiedDependency = None\<rparr>"

text \<open>
  The body of \<open>feature.strategies.map\<close>. A client without the \<open>unknown\<close> strategy throws a
  TypeError on a selector it has no strategy for: \<open>None\<close>.
\<close>

definition evaluate_selector ::
  "runtime \<Rightarrow> client \<Rightarrow> eval_context \<Rightarrow> strategy_transport \<Rightarrow> nat \<Rightarrow> (evaluated_strategy \<times> nat) option" where
  "evaluate_selector rt cl ctx sel n =
     (case strategy_for cl (st_name sel) of
        None \<Rightarrow> None
      | Some strategy \<Rightarrow>
         (let segments = List.map_filter (segment_lookup (cl_repository cl)) (default [] (st_segments sel)) in
          case isEnabledWithConstraints rt strategy (st_parameters sel) ctx (st_constraints sel)
                 segments (st_disabled sel) (st_variants sel) n of
            (ev, n1) \<Rightarrow>
              (case (if truthy (st_id sel) then (the (st_id sel), n1) else (rt_uuid rt n1, Suc n1)) of
                 (i, n2) \<Rightarrow>
                   Some (strategy_evaluation.extend ev
                     (evaluated_strategy.fields (st_name sel) i (st_title sel)
                        (default False (st_disabled sel)) (st_parameters sel)), n2))))"

fun evaluate_selectors ::
  "runtime \<Rightarrow> client \<Rightarrow> eval_context \<Rightarrow> strategy_transport list \<Rightarrow> nat \<Rightarrow>
   (evaluated_strategy list \<times> nat) option" where
  "evaluate_selectors rt cl ctx [] n = Some ([], n)"
| "evaluate_selectors rt cl ctx (s # ss) n =
     (case evaluate_selector rt cl ctx s n of
        None \<Rightarrow> None
      | Some (e, n1) \<Rightarrow>
          (case evaluate_selectors rt cl ctx ss n1 of
             None \<Rightarrow> None
           | Some (es, n2) \<Rightarrow> Some (e # es, n2)))"

definition overallStrategyResult ::
  "evaluated_strategy list \<Rightarrow> verdict \<times> variant_def list option \<times> variant option" where
  "overallStrategyResult strategies =
     (let unknown_or_off =
        (if list_ex (\<lambda>s. enabled_verdict (ev_result s) = Unknown) strategies
         then (Unknown, None, None) else (Known False, None, None))
      in case find (\<lambda>s. enabled_verdict (ev_result s) = Known True) strategies of
           None \<Rightarrow> unknown_or_off
         | Some s \<Rightarrow>
             if status (ev_result s) = Complete
             then (Known True, res_variants (ev_result s), res_variant (ev_result s))
             else unknown_or_off)"

definition isFeatureEnabled ::
  "runtime \<Rightarrow> client \<Rightarrow> feature option \<Rightarrow> eval_context \<Rightarrow> feature_result \<Rightarrow> nat \<Rightarrow>
   (feature_result \<times> nat) option" where
  "isFeatureEnabled rt cl feature ctx fallback n =
     (case feature of
        None \<Rightarrow> Some (fallback, n)
      | Some f \<Rightarrow>
         (case fe_strategies f of
            None \<Rightarrow> Some (createEvalResult False, n)
          | Some sels \<Rightarrow>
              if length sels = 0 then Some (createEvalResult (fe_enabled f), n)
              else (case evaluate_selectors rt cl ctx sels n of
                      None \<Rightarrow> None
                    | Some (strategies, n') \<Rightarrow>
                        (case overallStrategyResult strategies of
                           (result, variants, variant) \<Rightarrow>
                             Some (\<lparr>fr_result = result, fr_variant = variant, fr_variants = variants,
                                    fr_strategies = strategies, fr_hasUnsatisfiedDependency = None\<rparr>, n')))))"


subsection \<open>Parent dependencies and variants\<close>

definition has_dependencies :: "feature \<Rightarrow> bool" where
  "has_dependencies f = (default [] (fe_dependencies f) \<noteq> [])"

text \<open>The object that \<open>resolveVariant\<close> starts from, and its update once the result is known.\<close>

definition fallback_object :: "variant option \<Rightarrow> variant" where
  "fallback_object fv = (let v = default getDefaultVariant fv in
     v\<lparr>vr_feature_enabled := Some (default False (vr_feature_enabled v)),
       vr_featureEnabled := Some (default False (vr_featureEnabled v))\<rparr>)"

definition fallback_result :: "variant option \<Rightarrow> bool \<Rightarrow> variant" where
  "fallback_result fv enabled =
     (let fe = default enabled (Option.bind fv vr_feature_enabled) in
      (fallback_object fv)\<lparr>vr_feature_enabled := Some fe, vr_featureEnabled := Some fe\<rparr>)"

text \<open>
  The part of \<open>resolveVariant\<close> after the feature's own result: the strategy's variant, then
  the variants of the feature.
\<close>

definition variant_from_result ::
  "runtime \<Rightarrow> feature \<Rightarrow> eval_context \<Rightarrow> variant option \<Rightarrow> verdict \<times> variant option \<Rightarrow> nat \<Rightarrow>
   variant \<times> nat" where
  "variant_from_result rt f ctx fv res n =
     (let enabled = (fst res = Known True);
          fallback = fallback_result fv enabled
      in case (enabled, snd res) of
           (True, Some strategyVariant) \<Rightarrow> (strategyVariant, n)
         | (False, _) \<Rightarrow> (fallback, n)
         | (True, None) \<Rightarrow>
             (if default [] (fe_variants f) = [] \<or> \<not> fe_enabled f then (fallback, n)
              else (case selectVariantDefinition rt (fe_name f) (default [] (fe_variants f)) ctx n of
                      (None, n') \<Rightarrow> (fallback, n')
                    | (Some vd, n') \<Rightarrow>
                        (\<lparr>vr_name = vd_name vd, vr_enabled = enabled, vr_payload = vd_payload vd,
                          vr_featureEnabled = Some True, vr_feature_enabled = Some True\<rparr>, n'))))"

definition level :: "client \<Rightarrow> feature option \<Rightarrow> nat" where
  "level cl f = (case f of None \<Rightarrow> 0 | Some g \<Rightarrow> if has_dependencies g then 1 else 0)"

text \<open>
  The recursion of the client. A parent that has dependencies of its own is refused before any
  recursive call, so the calls go one level down only: the measure is that level, then the
  number of parents left.
\<close>

function (sequential)
      isParentDependencySatisfied ::
        "runtime \<Rightarrow> client \<Rightarrow> feature option \<Rightarrow> eval_context \<Rightarrow> nat \<Rightarrow> (bool \<times> nat) option"
  and every_parent ::
        "runtime \<Rightarrow> client \<Rightarrow> dependency list \<Rightarrow> eval_context \<Rightarrow> nat \<Rightarrow> (bool \<times> nat) option"
  and parent_satisfied ::
        "runtime \<Rightarrow> client \<Rightarrow> dependency \<Rightarrow> eval_context \<Rightarrow> nat \<Rightarrow> (bool \<times> nat) option"
  and client_isEnabled ::
        "runtime \<Rightarrow> client \<Rightarrow> string \<Rightarrow> eval_context \<Rightarrow> feature_result \<Rightarrow> nat \<Rightarrow> (feature_result \<times> nat) option"
  and resolveVariant ::
        "runtime \<Rightarrow> client \<Rightarrow> string \<Rightarrow> eval_context \<Rightarrow> variant option \<Rightarrow>
         (verdict \<times> variant option) option \<Rightarrow> nat \<Rightarrow> (variant \<times> nat) option"
where
  "isParentDependencySatisfied rt cl feature ctx n =
     (case feature of
        None \<Rightarrow> Some (True, n)
      | Some f \<Rightarrow> if \<not> has_dependencies f then Some (True, n)
                  else every_parent rt cl (default [] (fe_dependencies f)) ctx n)"
| "every_parent rt cl [] ctx n = Some (True, n)"
| "every_parent rt cl (parent # ps) ctx n =
     (case parent_satisfied rt cl parent ctx n of
        None \<Rightarrow> None
      | Some (ok, n1) \<Rightarrow> if ok then every_parent rt cl ps ctx n1 else Some (False, n1))"
| "parent_satisfied rt cl parent ctx n =
     (case getToggle (cl_repository cl) (dep_feature parent) of
        None \<Rightarrow> Some (False, n)
      | Some parentToggle \<Rightarrow>
         if has_dependencies parentToggle then Some (False, n)
         else if dep_enabled parent \<noteq> Some False
         then (if \<not> fe_enabled parentToggle then Some (False, n)
               else if default [] (dep_variants parent) \<noteq> []
               then map_option (\<lambda>(v, n1). (vr_name v \<in> set (default [] (dep_variants parent)), n1))
                      (resolveVariant rt cl (dep_feature parent) ctx None None n)
               else map_option (\<lambda>(r, n1). (fr_result r = Known True, n1))
                      (client_isEnabled rt cl (dep_feature parent) ctx (createEvalResult False) n))
         else if fe_enabled parentToggle then Some (False, n)
         else map_option (\<lambda>(r, n1). (fr_result r \<noteq> Known True, n1))
                (client_isEnabled rt cl (dep_feature parent) ctx (createEvalResult False) n))"
| "client_isEnabled rt cl name ctx fallback n =
     (case isParentDependencySatisfied rt cl (getToggle (cl_repository cl) name) ctx n of
        None \<Rightarrow> None
      | Some (sat, n1) \<Rightarrow>
          (case isFeatureEnabled rt cl (getToggle (cl_repository cl) name) ctx fallback n1 of
             None \<Rightarrow> None
           | Some (r, n2) \<Rightarrow> Some (r\<lparr>fr_hasUnsatisfiedDependency := Some (\<not> sat)\<rparr>, n2)))"
| "resolveVariant rt cl name ctx fv forced n =
     (case getToggle (cl_repository cl) name of
        None \<Rightarrow> Some (fallback_object fv, n)
      | Some f \<Rightarrow>
         (case isParentDependencySatisfied rt cl (Some f) ctx n of
            None \<Rightarrow> None
          | Some (sat, n1) \<Rightarrow>
              if \<not> sat then Some (fallback_object fv, n1)
              else (case forced of
                      Some res \<Rightarrow> Some (variant_from_result rt f ctx fv res n1)
                    | None \<Rightarrow>
                        (case isFeatureEnabled rt cl (Some f) ctx
                                (createEvalResult (case fv of None \<Rightarrow> False | Some v \<Rightarrow> vr_enabled v)) n1 of
                           None \<Rightarrow> None
                         | Some (r, n2) \<Rightarrow>
                             Some (variant_from_result rt f ctx fv (fr_result r, fr_variant r) n2)))))"
  by pat_completeness auto

termination
proof (relation "measures
   [\<lambda>x. case x of
       Inl (Inl (rt, cl, f, ctx, n)) \<Rightarrow> level cl f
     | Inl (Inr (rt, cl, ps, ctx, n)) \<Rightarrow> 1
     | Inr (Inl (rt, cl, p, ctx, n)) \<Rightarrow> 1
     | Inr (Inr (Inl (rt, cl, name, ctx, fb, n))) \<Rightarrow> level cl (getToggle (cl_repository cl) name)
     | Inr (Inr (Inr (rt, cl, name, ctx, fv, forced, n))) \<Rightarrow> level cl (getToggle (cl_repository cl) name),
    \<lambda>x. case x of
       Inl (Inl (rt, cl, f, ctx, n)) \<Rightarrow>
         (case f of None \<Rightarrow> 0 | Some g \<Rightarrow> Suc (length (default [] (fe_dependencies g))))
     | Inl (Inr (rt, cl, ps, ctx, n)) \<Rightarrow> length ps
     | Inr (Inl (rt, cl, p, ctx, n)) \<Rightarrow> 0
     | Inr (Inr (Inl (rt, cl, name, ctx, fb, n))) \<Rightarrow>
         (case getToggle (cl_repository cl) name of None \<Rightarrow> 1
          | Some g \<Rightarrow> Suc (Suc (length (default [] (fe_dependencies g)))))
     | Inr (Inr (Inr (rt, cl, name, ctx, fv, forced, n))) \<Rightarrow>
         (case getToggle (cl_repository cl) name of None \<Rightarrow> 1
          | Some g \<Rightarrow> Suc (Suc (length (default [] (fe_dependencies g)))))]")
qed (auto simp: level_def split: option.splits)

declare isParentDependencySatisfied.simps [simp del] every_parent.simps [simp del] parent_satisfied.simps [simp del]
  client_isEnabled.simps [simp del] resolveVariant.simps [simp del]

lemmas client_unfold =
  isParentDependencySatisfied.simps every_parent.simps parent_satisfied.simps
  client_isEnabled.simps resolveVariant.simps

definition client_getVariant ::
  "runtime \<Rightarrow> client \<Rightarrow> string \<Rightarrow> eval_context \<Rightarrow> variant option \<Rightarrow> nat \<Rightarrow> (variant \<times> nat) option" where
  "client_getVariant rt cl name ctx fv n = resolveVariant rt cl name ctx fv None n"

definition client_forceGetVariant ::
  "runtime \<Rightarrow> client \<Rightarrow> string \<Rightarrow> eval_context \<Rightarrow> verdict \<times> variant option \<Rightarrow> variant option \<Rightarrow> nat \<Rightarrow>
   (variant \<times> nat) option" where
  "client_forceGetVariant rt cl name ctx forced fv n = resolveVariant rt cl name ctx fv (Some forced) n"


section \<open>The facade\<close>

datatype fallback = FallbackFunction "string \<Rightarrow> eval_context \<Rightarrow> bool" | FallbackValue bool

definition createFallbackFunction :: "string \<Rightarrow> eval_context \<Rightarrow> fallback option \<Rightarrow> feature_result" where
  "createFallbackFunction name ctx fb = (case fb of
       Some (FallbackFunction g) \<Rightarrow> createEvalResult (g name ctx)
     | Some (FallbackValue b) \<Rightarrow> createEvalResult b
     | None \<Rightarrow> createEvalResult False)"

text \<open>
  The evaluator and its client hold the same repository object, so the model keeps it once, in
  the client.
\<close>

record evaluator =
  ev_appName :: string
  ev_environment :: string
  ev_client :: client

definition new_evaluator ::
  "string \<Rightarrow> string option \<Rightarrow> strategy list option \<Rightarrow> repository option \<Rightarrow> bootstrap_options option \<Rightarrow>
   string + evaluator" where
  "new_evaluator appName environment strategies repository bootstrap =
     (let b = default \<lparr>bo_data = Some [], bo_segments = None\<rparr> bootstrap;
          r = (case repository of None \<Rightarrow> new_repository appName b | Some r \<Rightarrow> r)
      in bindR (new_client r (default [] strategies @ defaultStrategies)) (\<lambda>cl.
           Inr \<lparr>ev_appName = appName, ev_environment = default ''default'' environment,
                ev_client = cl\<rparr>))"

definition evaluator_start :: "evaluator \<Rightarrow> evaluator" where
  "evaluator_start e =
     e\<lparr>ev_client := (ev_client e)\<lparr>cl_repository := repo_start (cl_repository (ev_client e))\<rparr>\<rparr>"

text \<open>\<open>{ ...this.staticContext, ...context }\<close>: the caller's fields win.\<close>

definition enhancedContext :: "evaluator \<Rightarrow> eval_context \<Rightarrow> eval_context" where
  "enhancedContext e ctx = ctx\<lparr>ctx_fields := (\<lambda>k. case ctx_fields ctx k of
       Some v \<Rightarrow> Some v
     | None \<Rightarrow> if k = ''appName'' then Some (ev_appName e)
               else if k = ''environment'' then Some (ev_environment e) else None)\<rparr>"

definition evaluator_isEnabled ::
  "runtime \<Rightarrow> evaluator \<Rightarrow> string \<Rightarrow> eval_context \<Rightarrow> fallback option \<Rightarrow> nat \<Rightarrow>
   (feature_result \<times> nat) option" where
  "evaluator_isEnabled rt e name ctx fb n =
     (let ectx = enhancedContext e ctx in
      client_isEnabled rt (ev_client e) name ectx (createFallbackFunction name ectx fb) n)"

definition evaluator_getVariant ::
  "runtime \<Rightarrow> evaluator \<Rightarrow> string \<Rightarrow> eval_context \<Rightarrow> variant option \<Rightarrow> nat \<Rightarrow> (variant \<times> nat) option" where
  "evaluator_getVariant rt e name ctx fv n =
     client_getVariant rt (ev_client e) name (enhancedContext e ctx) fv n"

definition evaluator_forceGetVariant ::
  "runtime \<Rightarrow> evaluator \<Rightarrow> string \<Rightarrow> verdict \<times> variant option \<Rightarrow> eval_context \<Rightarrow> variant option \<Rightarrow> nat \<Rightarrow>
   (variant \<times> nat) option" where
  "evaluator_forceGetVariant rt e name forced ctx fv n =
     client_forceGetVariant rt (ev_client e) name (enhancedContext e ctx) forced fv n"

definition getFeatureToggleDefinition :: "evaluator \<Rightarrow> string \<Rightarrow> feature option" where
  "getFeatureToggleDefinition e name = getToggle (cl_repository (ev_client e)) name"

definition getFeatureToggleDefinitions :: "evaluator \<Rightarrow> feature list" where
  "getFeatureToggleDefinitions e = getToggles (cl_repository (ev_client e))"


section \<open>Default strategies of a project\<close>

record strategy_config =
  sc_name :: string
  sc_constraints :: "constraint list"
  sc_disabled :: bool
  sc_parameters :: "parameters option"

definition getDefaultStrategy :: "string \<Rightarrow> strategy_config" where
  "getDefaultStrategy featureName = \<lparr>sc_name = ''flexibleRollout'', sc_constraints = [],
     sc_disabled = False,
     sc_parameters = Some [''rollout'' \<mapsto> ''100'', ''stickiness'' \<mapsto> ''default'', ''groupId'' \<mapsto> featureName]\<rparr>"

definition resolveGroupId :: "'a strategy_config_scheme \<Rightarrow> string \<Rightarrow> string" where
  "resolveGroupId ds featureName =
     (let g = Option.bind (sc_parameters ds) (\<lambda>ps. ps ''groupId'');
          groupId = (if g \<noteq> Some [] then g else Some featureName)
      in or_else groupId [])"

definition getProjectDefaultStrategy :: "'a strategy_config_scheme \<Rightarrow> string \<Rightarrow> 'a strategy_config_scheme" where
  "getProjectDefaultStrategy ds featureName =
     ds\<lparr>sc_parameters := Some ((default Map.empty (sc_parameters ds))
          (''groupId'' \<mapsto> resolveGroupId ds featureName))\<rparr>"

end
