(* ===== verification/EvaluatorProperties.thy ===== *)
theory EvaluatorProperties
  imports EvaluatorFacts
begin

text \<open>
  The properties of the feature evaluator: constraint operators, rollout percentages, variant
  weights, the three-valued verdict, parent dependencies, forced variants and the repository.
\<close>


section \<open>A runtime and small features for the witnesses\<close>

definition rt0 :: runtime where
  "rt0 = \<lparr>rt_semver_eq = (\<lambda>a b. Some (a = b)), rt_semver_gt = (\<lambda>a b. None), rt_semver_lt = (\<lambda>a b. None),
     rt_date = (\<lambda>s. None), rt_now = 0, rt_hash32 = (\<lambda>k s. 41), rt_is_v6 = (\<lambda>s. False),
     rt_cidr_contains = (\<lambda>r a. None), rt_env_hostname = None, rt_os_hostname = ''host'',
     rt_random = (\<lambda>n. 1 / 2), rt_uuid = (\<lambda>n. ''uuid'')\<rparr>"

definition ctx0 :: eval_context where
  "ctx0 = \<lparr>ctx_fields = [''userId'' \<mapsto> ''7''], ctx_properties = None\<rparr>"

definition sel0 :: strategy_transport where
  "sel0 = \<lparr>st_name = ''default'', st_title = None, st_disabled = None, st_parameters = Map.empty,
     st_constraints = None, st_variants = None, st_segments = None, st_id = Some ''1''\<rparr>"

definition feature0 :: "string \<Rightarrow> dependency list option \<Rightarrow> feature" where
  "feature0 name deps = \<lparr>fe_name = name, fe_type = ''release'', fe_description = None, fe_enabled = True,
     fe_stale = False, fe_impressionData = False, fe_strategies = Some [sel0], fe_variants = None,
     fe_dependencies = deps\<rparr>"

definition parent0 :: dependency where
  "parent0 = \<lparr>dep_feature = ''parent'', dep_variants = None, dep_enabled = None\<rparr>"

definition repo0 :: repository where
  "repo0 = repo_save \<lparr>cf_version = 2, cf_features = [feature0 ''parent'' None, feature0 ''child'' (Some [parent0])],
      cf_segments = None\<rparr> (new_repository ''app'' \<lparr>bo_data = None, bo_segments = None\<rparr>)"

definition client0 :: client where
  "client0 = \<lparr>cl_repository = repo0, cl_strategies = defaultStrategies\<rparr>"

definition constraint0 :: "operator \<Rightarrow> string list \<Rightarrow> bool \<Rightarrow> constraint" where
  "constraint0 op vs i = \<lparr>contextName = ''userId'', operator = op, inverted = i, vals = vs,
     cvalue = None, caseInsensitive = None\<rparr>"

definition variant0 :: "string \<Rightarrow> int \<Rightarrow> variant_def" where
  "variant0 name w = \<lparr>vd_name = name, vd_weight = w, vd_stickiness = None, vd_payload = None,
     vd_overrides = None\<rparr>"

lemmas fixtures = rt0_def ctx0_def sel0_def feature0_def parent0_def constraint0_def variant0_def


section \<open>Constraints\<close>

text \<open>
  Inverting a constraint negates its outcome for every operator of the enum; a constraint
  with an unknown operator is never satisfied, inverted or not.
\<close>

theorem constraint_inversion:
  "checkConstraint rt (c\<lparr>inverted := \<not> inverted c\<rparr>) ctx =
     (case operator c of OtherOperator _ \<Rightarrow> False | _ \<Rightarrow> \<not> checkConstraint rt c ctx)"
proof -
  have irrelevant: "InOperator (c\<lparr>inverted := b\<rparr>) ctx = InOperator c ctx"
    "StringOperator (c\<lparr>inverted := b\<rparr>) ctx = StringOperator c ctx"
    "NumberOperator (c\<lparr>inverted := b\<rparr>) ctx = NumberOperator c ctx"
    "DateOperator rt (c\<lparr>inverted := b\<rparr>) ctx = DateOperator rt c ctx"
    "SemverOperator rt (c\<lparr>inverted := b\<rparr>) ctx = SemverOperator rt c ctx" for b
    by (simp_all add: InOperator_def StringOperator_def NumberOperator_def DateOperator_def SemverOperator_def
        split: option.splits)
  show ?thesis
    by (cases "operator c") (simp_all add: checkConstraint_def operators_def irrelevant)
qed

text \<open>
  A set of constraints holds exactly if every constraint in it holds: absent constraints and
  null entries never restrict, one failing constraint does.
\<close>

theorem constraints_conjunction:
  "fst (checkConstraints rt ctx cs) =
     (case cs of None \<Rightarrow> True | Some xs \<Rightarrow> \<forall>c \<in> set xs. c \<noteq> None \<longrightarrow> checkConstraint rt (the c) ctx)"
  by (auto simp: checkConstraints_result split: option.splits)

theorem constraints_conjunction_witness:
  "fst (checkConstraints rt0 ctx0 (Some [None, Some (constraint0 IN [''7''] False)]))
   \<and> \<not> fst (checkConstraints rt0 ctx0 (Some [Some (constraint0 IN [''7''] True)]))"
  by (simp add: constraints_conjunction checkConstraint_def operators_def InOperator_def cleanValues_def
      resolveContextValue_def trim_def trim_left_def trim_right_def is_space_def fixtures)

text \<open>
  Values are filtered for emptiness before they are trimmed, so a value of blanks becomes the
  empty string and makes a string operator hold for every context that has the field.
\<close>

theorem blank_value_matches:
  assumes "operator c \<in> {STR_STARTS_WITH, STR_ENDS_WITH, STR_CONTAINS}" and "\<not> inverted c"
    and "v \<in> set (vals c)" and "v \<noteq> []" and "trim v = []"
    and "resolveContextValue ctx (contextName c) = Some s"
  shows "checkConstraint rt c ctx"
proof -
  have blank: "[] \<in> set (cleanValues (vals c))"
    using assms(3-5) by (force simp: cleanValues_def)
  have "StringOperator c ctx"
    using assms(1,6) blank by (auto simp: StringOperator_def Let_def list_ex_iff intro!: bexI [of _ "[]"])
  with assms(1,2) show ?thesis by (auto simp: checkConstraint_def operators_def)
qed

theorem blank_value_matches_witness:
  "checkConstraint rt0 (constraint0 STR_STARTS_WITH ['' ''] False) ctx0"
  by (rule blank_value_matches [where v = "'' ''" and s = "''7''"])
    (simp_all add: fixtures trim_def trim_left_def trim_right_def is_space_def resolveContextValue_def)


section \<open>Rollout\<close>


lemma to_number_50_100: "to_number ''50'' = Fin 50" "to_number ''100'' = Fin 100"
  by (simp_all add: to_number_def trim_def trim_left_def trim_right_def is_space_def starts_with_def
      decimal_literal_def is_digit_def digits_val_def digit_val_def)



section \<open>Variants\<close>

text \<open>
  C6: traffic is split exactly by weight. Of the \<open>totalWeight\<close> hash residues, a variant without
  a matching override is selected by as many as its weight says.
\<close>

theorem variant_weight_exact:
  assumes "distinct vs" and "nonneg_weights vs" and "v \<in> set vs" and "findOverride vs ctx = None"
    and "0 < total_weight vs"
  shows "card {h. h < nat (total_weight vs) \<and>
           fst (selectVariantDefinition (rt\<lparr>rt_hash32 := \<lambda>_ _. h\<rparr>) g vs ctx n) = Some v} = nat (vd_weight v)"
proof -
  let ?sel = "\<lambda>h. fst (selectVariantDefinition (rt\<lparr>rt_hash32 := \<lambda>_ _. h\<rparr>) g vs ctx n)"
  let ?H = "{h. h < nat (total_weight vs) \<and> ?sel h = Some v}"
  let ?T = "{t. 1 \<le> t \<and> t \<le> total_weight vs \<and> pick_variant 0 t vs = Some v}"
  have sel: "?sel h = pick_variant 0 (int h + 1) vs" if "h < nat (total_weight vs)" for h
    using that assms(4,5)
    by (simp add: selectVariantDefinition_def normalizedVariantValue_def normalizedValue_def js_rem_def
        split: prod.splits)
  have "bij_betw (\<lambda>h. int h + 1) ?H ?T"
  proof (rule bij_betwI')
    fix t assume t: "t \<in> ?T"
    then have "nat (t - 1) < nat (total_weight vs)" by auto
    with t sel [of "nat (t - 1)"] show "\<exists>h \<in> ?H. t = int h + 1"
      by (intro bexI [of _ "nat (t - 1)"]) auto
  qed (auto simp: sel)
  then show ?thesis
    using pick_variant_count [OF assms(1-3)] by (simp add: bij_betw_same_card)
qed

theorem variant_weight_exact_witness:
  "card {h. h < nat (total_weight [variant0 ''a'' 1, variant0 ''b'' 3]) \<and>
      fst (selectVariantDefinition (rt0\<lparr>rt_hash32 := \<lambda>_ _. h\<rparr>) ''g''
            [variant0 ''a'' 1, variant0 ''b'' 3] ctx0 0) = Some (variant0 ''b'' 3)} = 3"
  using variant_weight_exact [of "[variant0 ''a'' 1, variant0 ''b'' 3]" "variant0 ''b'' 3" ctx0 rt0 "''g''" 0]
  by (simp add: nonneg_weights_def findOverride_def fixtures)

text \<open>
  Selection succeeds whenever there is weight to give, and what it returns is one of the
  given variants: a matching override or a variant of positive weight. Without weight it returns
  nothing.
\<close>

theorem select_variant_total:
  assumes "nonneg_weights vs"
  shows "case fst (selectVariantDefinition rt g vs ctx n) of
      None \<Rightarrow> total_weight vs = 0
    | Some v \<Rightarrow> v \<in> set vs \<and> 0 < total_weight vs \<and> (0 < vd_weight v \<or> findOverride vs ctx = Some v)"
proof (cases "0 < total_weight vs")
  case False
  then have "total_weight vs = 0" using total_weight_nonneg [OF assms] by simp
  then show ?thesis by (simp add: selectVariantDefinition_no_weight)
next
  case True
  show ?thesis
  proof (cases "findOverride vs ctx")
    case (Some v)
    then show ?thesis
      using selectVariantDefinition_cases(1) [OF True Some] findOverride_in [OF Some] True by simp
  next
    case None
    then obtain t where t: "1 \<le> t" "t \<le> total_weight vs"
      "fst (selectVariantDefinition rt g vs ctx n) = pick_variant 0 t vs"
      using selectVariantDefinition_cases(2) [OF True] by blast
    then obtain v where v: "pick_variant 0 t vs = Some v"
      using pick_variant_Some_ex [OF assms, of 0 t] by auto
    then have "v \<in> set vs \<and> vd_weight v \<noteq> 0" by (rule pick_variant_in)
    then have "v \<in> set vs \<and> 0 < vd_weight v" using assms by (auto simp: nonneg_weights_def)
    with t(3) v True show ?thesis by simp
  qed
qed

theorem select_variant_total_witness:
  "case fst (selectVariantDefinition rt0 ''g'' [variant0 ''a'' 1, variant0 ''b'' 3] ctx0 0) of
      None \<Rightarrow> total_weight [variant0 ''a'' 1, variant0 ''b'' 3] = 0
    | Some v \<Rightarrow> v \<in> set [variant0 ''a'' 1, variant0 ''b'' 3] \<and> 0 < total_weight [variant0 ''a'' 1, variant0 ''b'' 3]
        \<and> (0 < vd_weight v \<or> findOverride [variant0 ''a'' 1, variant0 ''b'' 3] ctx0 = Some v)"
  by (rule select_variant_total) (simp add: nonneg_weights_def fixtures)


section \<open>Features\<close>

text \<open>
  C1: a feature with strategies evaluates to \<open>true\<close> only if one of its strategies is not
  disabled, is known, and has its own test, all its constraints and all its known segments
  satisfied; without strategies the result is the feature's own enabled flag.
\<close>

theorem feature_on_sound:
  assumes "isFeatureEnabled rt cl (Some f) ctx fb n = Some (r, n')" and "fr_result r = Known True"
  shows "\<exists>sels. fe_strategies f = Some sels \<and>
    (if sels = [] then fe_enabled f else \<exists>s \<in> set sels. selector_satisfied rt cl ctx s)"
proof -
  from assms obtain sels where sels: "fe_strategies f = Some sels"
    by (auto simp: isFeatureEnabled_def createEvalResult_def split: option.splits)
  show ?thesis
  proof (cases "sels = []")
    case True
    with assms sels show ?thesis by (auto simp: isFeatureEnabled_def createEvalResult_def)
  next
    case False
    with assms sels obtain es n1 where es: "evaluate_selectors rt cl ctx sels n = Some (es, n1)"
      and "fst (overallStrategyResult es) = Known True"
      by (auto simp: isFeatureEnabled_def split: option.splits prod.splits)
    then have "\<exists>s \<in> set sels. selector_satisfied rt cl ctx s"
      using selectors.overall_on_satisfied [OF evaluate_selectors_list_all2] by blast
    with sels False show ?thesis by simp
  qed
qed

theorem feature_on_sound_witness:
  "\<exists>sels. fe_strategies (feature0 ''parent'' None) = Some sels \<and>
    (if sels = [] then fe_enabled (feature0 ''parent'' None)
     else \<exists>s \<in> set sels. selector_satisfied rt0 client0 ctx0 s)"
proof -
  have "\<exists>r. isFeatureEnabled rt0 client0 (Some (feature0 ''parent'' None)) ctx0 (createEvalResult False) 0
      = Some (r, 0) \<and> fr_result r = Known True"
    by (simp add: isFeatureEnabled_def fixtures client0_def defaultStrategies_def evaluate_selector_def
        strategy_for_def getStrategy_def isEnabledWithConstraints_def base_isEnabledWithConstraints_def
        checkConstraints_def checkSegments_def map_filter_def overallStrategyResult_def strategy_evaluation.defs)
  then show ?thesis using feature_on_sound by blast
qed


text \<open>
  The three-valued verdict. When every strategy evaluation that says \<open>true\<close> is complete, the
  feature is on if some strategy says \<open>true\<close>, otherwise unknown if some strategy is unknown,
  otherwise off, whatever the order of the strategies.
\<close>

theorem verdict_three_valued:
  assumes "evaluate_selectors rt cl ctx sels n = Some (es, n')"
  shows "fst (overallStrategyResult es) =
    (if \<exists>e \<in> set es. enabled_verdict (ev_result e) = Known True then Known True
     else if \<exists>e \<in> set es. enabled_verdict (ev_result e) = Unknown then Unknown else Known False)"
proof (cases "\<exists>e \<in> set es. enabled_verdict (ev_result e) = Known True")
  case True
  then show ?thesis
    using selectors.overall_on [OF evaluate_selectors_list_all2 [OF assms]] by simp
next
  case False
  then have "find (\<lambda>s. enabled_verdict (ev_result s) = Known True) es = None"
    by (simp add: find_None_iff')
  with False show ?thesis by (auto simp: overallStrategyResult_def Let_def list_ex_iff)
qed

theorem verdict_three_valued_witness:
  "\<exists>es n'. evaluate_selectors rt0 client0 ctx0 [sel0] 0 = Some (es, n')
     \<and> fst (overallStrategyResult es) = Known True"
proof -
  have "\<exists>es. evaluate_selectors rt0 client0 ctx0 [sel0] 0 = Some (es, 0)
      \<and> (\<exists>e \<in> set es. enabled_verdict (ev_result e) = Known True)"
    by (simp add: fixtures client0_def defaultStrategies_def evaluate_selector_def
        strategy_for_def getStrategy_def isEnabledWithConstraints_def base_isEnabledWithConstraints_def
        checkConstraints_def checkSegments_def map_filter_def strategy_evaluation.defs)
  then show ?thesis using verdict_three_valued by (metis (no_types))
qed


section \<open>Parents\<close>

text \<open>
  The satisfaction of one parent without recursion: the parent has no parents of its own, so its
  evaluation is that of a feature alone.
\<close>

definition parent_spec ::
  "runtime \<Rightarrow> client \<Rightarrow> dependency \<Rightarrow> eval_context \<Rightarrow> nat \<Rightarrow> (bool \<times> nat) option" where
  "parent_spec rt cl p ctx n =
     (case getToggle (cl_repository cl) (dep_feature p) of
        None \<Rightarrow> Some (False, n)
      | Some g \<Rightarrow>
          if has_dependencies g \<or> fe_enabled g \<noteq> (dep_enabled p \<noteq> Some False) then Some (False, n)
          else map_option (\<lambda>(r, n1).
                 if dep_enabled p = Some False then (fr_result r \<noteq> Known True, n1)
                 else if default [] (dep_variants p) = [] then (fr_result r = Known True, n1)
                 else map_prod (\<lambda>v. vr_name v \<in> set (default [] (dep_variants p))) id
                        (variant_from_result rt g ctx None (fr_result r, fr_variant r) n1))
               (isFeatureEnabled rt cl (Some g) ctx (createEvalResult False) n))"

text \<open>
  The mutual recursion of the client is one level deep: whether a parent is satisfied is the
  non-recursive specification \<open>parent_spec\<close>, and a parent with parents of its own never is.
\<close>

theorem parent_satisfied_one_level:
  "parent_satisfied rt cl p ctx n = parent_spec rt cl p ctx n"
  by (auto simp: parent_spec_def client_unfold map_prod_def split: option.splits prod.splits)

text \<open>
  A feature's dependencies are satisfied only if every parent exists, has no dependencies of
  its own, and is switched on or off in the way its dependency asks for.
\<close>

theorem dependencies_sound:
  assumes "isParentDependencySatisfied rt cl (Some f) ctx n = Some (True, n')"
    and "d \<in> set (default [] (fe_dependencies f))"
  shows "\<exists>g. getToggle (cl_repository cl) (dep_feature d) = Some g \<and> \<not> has_dependencies g
    \<and> fe_enabled g = (dep_enabled d \<noteq> Some False)"
proof -
  have every: "every_parent rt cl ps ctx m = Some (True, m') \<Longrightarrow> p \<in> set ps \<Longrightarrow>
      \<exists>k k'. parent_satisfied rt cl p ctx k = Some (True, k')" for ps m m' p
    by (induction ps arbitrary: m)
       (simp, fastforce simp: client_unfold(3) split: option.splits if_splits)
  have "every_parent rt cl (default [] (fe_dependencies f)) ctx n = Some (True, n')"
    using assms by (auto simp: client_unfold(1) has_dependencies_def split: if_splits)
  then obtain k k' where "parent_satisfied rt cl d ctx k = Some (True, k')"
    using every assms(2) by blast
  then show ?thesis
    by (auto simp: parent_satisfied_one_level parent_spec_def split: option.splits if_splits)
qed

lemma toggle0: "getToggle repo0 ''parent'' = Some (feature0 ''parent'' None)"
  "getToggle repo0 ''child'' = Some (feature0 ''child'' (Some [parent0]))"
  by (simp_all add: repo0_def getToggle_save fixtures)

lemma feature_on0:
  "\<exists>r. isFeatureEnabled rt0 client0 (Some (feature0 name deps)) ctx0 fb 0 = Some (r, 0) \<and> fr_result r = Known True"
  by (simp add: isFeatureEnabled_def fixtures client0_def defaultStrategies_def evaluate_selector_def
      strategy_for_def getStrategy_def isEnabledWithConstraints_def base_isEnabledWithConstraints_def
      checkConstraints_def checkSegments_def map_filter_def overallStrategyResult_def strategy_evaluation.defs)

theorem dependencies_sound_witness:
  "\<exists>g. getToggle (cl_repository client0) (dep_feature parent0) = Some g \<and> \<not> has_dependencies g
    \<and> fe_enabled g = (dep_enabled parent0 \<noteq> Some False)"
proof (rule dependencies_sound)
  show "isParentDependencySatisfied rt0 client0 (Some (feature0 ''child'' (Some [parent0]))) ctx0 0 = Some (True, 0)"
    using feature_on0 [of "''parent''" None "createEvalResult False"]
    by (auto simp: client_unfold client0_def toggle0 has_dependencies_def feature0_def parent0_def)
  show "parent0 \<in> set (default [] (fe_dependencies (feature0 ''child'' (Some [parent0]))))"
    by (simp add: feature0_def)
qed


section \<open>Answers\<close>



text \<open>
  A forced result is not evaluated again. For a feature without dependencies, forcing an
  enabled result that carries a variant returns that variant and draws nothing at random.
\<close>

theorem forced_variant_not_reevaluated:
  assumes "getToggle (cl_repository cl) name = Some f" and "\<not> has_dependencies f"
  shows "client_forceGetVariant rt cl name ctx (Known True, Some v) fv n = Some (v, n)"
  using assms by (simp add: client_forceGetVariant_def client_unfold variant_from_result_def)

theorem forced_variant_not_reevaluated_witness:
  "client_forceGetVariant rt0 client0 ''parent'' ctx0 (Known True, Some getDefaultVariant) None 5
     = Some (getDefaultVariant, 5)"
  by (rule forced_variant_not_reevaluated [where f = "feature0 ''parent'' None"])
    (simp_all add: client0_def toggle0 has_dependencies_def feature0_def)

text \<open>
  The repository gives back what it was started with: after \<open>start\<close> with a non-empty
  bootstrap, a lookup by name returns the last feature of that name, and the listing holds exactly
  one feature for each name of the bootstrap.
\<close>

theorem repository_roundtrip:
  assumes "fs \<noteq> []" and "r = repo_start (new_repository app \<lparr>bo_data = Some fs, bo_segments = segs\<rparr>)"
  shows "getToggle r name = find (\<lambda>f. fe_name f = name) (rev fs)
    \<and> distinct (map fe_name (getToggles r)) \<and> set (map fe_name (getToggles r)) = fe_name ` set fs"
proof -
  let ?resp = "\<lparr>cf_version = 2, cf_features = fs, cf_segments = segs\<rparr>"
  have r: "r = repo_save ?resp (new_repository app \<lparr>bo_data = Some fs, bo_segments = segs\<rparr>)"
    using assms by (simp add: repo_start_def loadBootstrap_def readBootstrap_def notEmpty_def
        new_repository_def)
  have data: "rp_data r = convertToMap fs" by (simp add: r repo_save_def storage_set_def)
  have get: "getToggle r k = find (\<lambda>f. fe_name f = k) (rev fs)" for k
    by (simp add: r getToggle_save)
  have keys: "distinct (object_keys (rp_data r))" "set (object_keys (rp_data r)) = fe_name ` set fs"
    using foldl_update_keys [where key = fe_name and acc = "[]" and xs = fs] unfolding data convertToMap_def
    by (simp_all add: distinct_object_keys set_object_keys)
  have "\<exists>f. map_of (rp_data r) k = Some f \<and> fe_name f = k" if "k \<in> fe_name ` set fs" for k
  proof -
    have "find (\<lambda>f. fe_name f = k) (rev fs) \<noteq> None" using that by (auto simp: find_None_iff')
    then show ?thesis using get [of k] find_Some_in unfolding getToggle_def by fastforce
  qed
  then have "map fe_name (getToggles r) = object_keys (rp_data r)"
    using keys(2) unfolding getToggles_def by (intro map_filter_lookup) simp
  with get keys show ?thesis by simp
qed

theorem repository_roundtrip_witness:
  "getToggle (repo_start (new_repository ''app'' \<lparr>bo_data = Some [feature0 ''a'' None], bo_segments = None\<rparr>)) ''a''
     = Some (feature0 ''a'' None)"
  using repository_roundtrip [OF _ refl, of "[feature0 ''a'' None]" "''app''" None "''a''"]
  by (simp add: feature0_def)

end
