(* ===== verification/Errors.thy ===== *)
theory Errors
  imports Prelude
begin

text \<open>
  The errors of the server (\<open>src/lib/error/*.ts\<close>) and what the error handler makes of them
  (\<open>from-legacy-error.ts\<close>, \<open>handleErrors\<close> of \<open>routes/util.ts\<close>): one constructor function per
  error class, with the class's status code, and the translation of any thrown value into the
  error that the API answers with.

  The random \<open>id\<close> that the base class gives each error is an argument of \<open>toJSON\<close>.
\<close>


section \<open>Error objects\<close>

record error_detail =
  dt_message :: "string option"
  dt_description :: "string option"
  dt_path :: "string option"
  dt_validationErrors :: "string list option"

definition detail :: "string \<Rightarrow> error_detail" where
  "detail m = \<lparr>dt_message = Some m, dt_description = Some m, dt_path = None, dt_validationErrors = None\<rparr>"

text \<open>
  An instance of \<open>UnleashError\<close>: its name, message and status code, the \<open>details\<close> that its
  \<open>toJSON\<close> prints (\<open>None\<close>: the property is left out) and the \<open>permissions\<close> of a
  \<open>PermissionError\<close>.
\<close>

record api_error =
  er_name :: string
  er_message :: string
  er_statusCode :: nat
  er_details :: "error_detail list option"
  er_permissions :: "string list option"

definition UnleashError :: "string \<Rightarrow> nat \<Rightarrow> string \<Rightarrow> api_error" where
  "UnleashError name code message =
     \<lparr>er_name = name, er_message = message, er_statusCode = code,
      er_details = Some [detail message], er_permissions = None\<rparr>"

record error_json =
  js_id :: string
  js_name :: string
  js_message :: string
  js_details :: "error_detail list option"
  js_permissions :: "string list option"

definition toJSON :: "string \<Rightarrow> api_error \<Rightarrow> error_json" where
  "toJSON i e = \<lparr>js_id = i, js_name = er_name e, js_message = er_message e,
     js_details = er_details e, js_permissions = er_permissions e\<rparr>"

definition error_help :: "string \<Rightarrow> string" where
  "error_help i = ''Get help for id '' @ i"

definition error_toString :: "api_error \<Rightarrow> string" where
  "error_toString e = er_name e @ '': '' @ er_message e"

definition GenericUnleashError :: "string \<Rightarrow> string \<Rightarrow> nat \<Rightarrow> api_error" where
  "GenericUnleashError name message code = UnleashError name code message"


section \<open>The classes\<close>

definition ArchivedFeatureError :: "string option \<Rightarrow> api_error" where
  "ArchivedFeatureError m = UnleashError ''ArchivedFeatureError'' 400
     (default ''Cannot perform this operation on archived features'' m)"

definition ContentTypeError :: "string list \<Rightarrow> string option \<Rightarrow> api_error" where
  \<open>ContentTypeError acceptedContentTypes providedContentType = UnleashError ''ContentTypeError'' 415
     (''We do not accept the content-type you provided ('' @
      or_else providedContentType ''you didn't provide one'' @
      ''). Try using one of the content-types we do accept instead ('' @
      join_with '', '' acceptedContentTypes @
      '') and make sure the body is in the corresponding format.'')\<close>

definition DisabledError :: "string \<Rightarrow> api_error" where
  "DisabledError m = UnleashError ''DisabledError'' 422 m"

definition ExceedsLimitError :: "string \<Rightarrow> nat \<Rightarrow> api_error" where
  \<open>ExceedsLimitError resource limit = GenericUnleashError ''ExceedsLimitError''
     (''Failed to create '' @ resource @ ''. You can't create more than the established limit of '' @
      show_nat limit @ ''.'') 400\<close>

definition FeatureHasTagError :: "string \<Rightarrow> api_error" where
  "FeatureHasTagError m = UnleashError ''FeatureHasTagError'' 409 m"

definition ForbiddenError :: "string \<Rightarrow> api_error" where
  "ForbiddenError m = UnleashError ''ForbiddenError'' 403 m"

definition IncompatibleProjectError :: "string \<Rightarrow> api_error" where
  "IncompatibleProjectError targetProject =
     (let m = targetProject @ '' is not a compatible target'' in
      (UnleashError ''IncompatibleProjectError'' 403 m)
        \<lparr>er_details := Some [(detail m)\<lparr>dt_validationErrors := Some []\<rparr>]\<rparr>)"

definition InvalidOperationError :: "string \<Rightarrow> api_error" where
  "InvalidOperationError m = UnleashError ''InvalidOperationError'' 403 m"

definition InvalidTokenError :: "api_error" where
  "InvalidTokenError = UnleashError ''InvalidTokenError'' 401 ''Token was not valid''"

definition MinimumOneEnvironmentError :: "string \<Rightarrow> api_error" where
  "MinimumOneEnvironmentError m = UnleashError ''MinimumOneEnvironmentError'' 400 m"

definition NameExistsError :: "string \<Rightarrow> api_error" where
  "NameExistsError m = UnleashError ''NameExistsError'' 409 m"

definition NotImplementedError :: "string \<Rightarrow> api_error" where
  "NotImplementedError m = UnleashError ''NotImplementedError'' 405 m"

definition NotFoundError :: "string option \<Rightarrow> api_error" where
  "NotFoundError m = UnleashError ''NotFoundError'' 404
     (default ''The requested resource could not be found'' m)"

definition OperationDeniedError :: "string \<Rightarrow> api_error" where
  "OperationDeniedError m = UnleashError ''OperationDeniedError'' 403 m"

text \<open>
  A test result of the password checker; its \<open>errors\<close> are not empty when the error is thrown,
  and a missing first message would print as \<open>undefined\<close>.
\<close>

definition OwaspValidationError :: "string list \<Rightarrow> api_error" where
  "OwaspValidationError errors =
     (let m = (case errors of [] \<Rightarrow> None | e # _ \<Rightarrow> Some e) in
      (UnleashError ''OwaspValidationError'' 400 (default ''undefined'' m))
        \<lparr>er_details := Some [\<lparr>dt_message = m, dt_description = None, dt_path = None,
                             dt_validationErrors = Some errors\<rparr>]\<rparr>)"

definition PasswordMismatchError :: "string option \<Rightarrow> api_error" where
  "PasswordMismatchError m = UnleashError ''PasswordMismatch'' 401 (default ''Wrong password, try again.'' m)"

definition PasswordUndefinedError :: "api_error" where
  "PasswordUndefinedError =
     (let m = ''Password cannot be empty or undefined'' in
      (UnleashError ''PasswordUndefinedError'' 400 m)
        \<lparr>er_details := Some [(detail m)\<lparr>dt_validationErrors := Some []\<rparr>]\<rparr>)"

definition PatternError :: "string \<Rightarrow> string list option \<Rightarrow> api_error" where
  "PatternError m details =
     (UnleashError ''PatternError'' 400 m)
       \<lparr>er_details := map_option (map (\<lambda>d. \<lparr>dt_message = Some d, dt_description = None, dt_path = None,
                                            dt_validationErrors = None\<rparr>)) details\<rparr>"

definition PermissionError :: "string list \<Rightarrow> string option \<Rightarrow> api_error" where
  \<open>PermissionError permissions environment =
     (let permissionsMessage =
            (case permissions of
               [p] \<Rightarrow> ''the "'' @ p @ ''" permission''
             | ps \<Rightarrow> ''one of the following permissions: '' @
                     join_with '', '' (map (\<lambda>perm. ''"'' @ perm @ ''"'') ps));
          message = ''You don't have the required permissions to perform this operation. To perform this action, you need ''
            @ permissionsMessage
            @ (if truthy environment then '' in the "'' @ the environment @ ''" environment.'' else ''.'')
      in (UnleashError ''PermissionError'' 403 message)\<lparr>er_permissions := Some permissions\<rparr>)\<close>

definition ProjectWithoutOwnerError :: "api_error" where
  "ProjectWithoutOwnerError =
     (let m = ''A project must have at least one owner'' in
      (UnleashError ''ProjectWithoutOwnerError'' 409 m)
        \<lparr>er_details := Some [(detail m)\<lparr>dt_validationErrors := Some []\<rparr>]\<rparr>)"

definition RoleInUseError :: "string \<Rightarrow> api_error" where
  "RoleInUseError m = UnleashError ''RoleInUseError'' 400 m"

definition UnauthorizedError :: "string \<Rightarrow> api_error" where
  "UnauthorizedError m = UnleashError ''UnauthorizedError'' 401 m"

definition UsedTokenError :: "string \<Rightarrow> api_error" where
  "UsedTokenError usedAt = UnleashError ''UsedTokenError'' 403 (''Token was already used at '' @ usedAt)"

definition BadDataError' :: "string \<Rightarrow> error_detail list option \<Rightarrow> api_error" where
  \<open>BadDataError' message errors =
     (let topLevelMessage =
            ''Request validation failed: your request body or params contain invalid data'' @
            (if errors \<noteq> None then ''. Refer to the `details` list for more information.''
             else '': '' @ message)
      in (UnleashError ''BadDataError'' 400 topLevelMessage)
           \<lparr>er_details := Some (default [detail message] errors)\<rparr>)\<close>

abbreviation BadDataError :: "string \<Rightarrow> api_error" where
  "BadDataError m \<equiv> BadDataError' m None"

text \<open>The database's error codes (\<open>db-error.ts\<close>).\<close>

definition UNIQUE_CONSTRAINT_VIOLATION :: string where
  "UNIQUE_CONSTRAINT_VIOLATION = ''23505''"

definition FOREIGN_KEY_VIOLATION :: string where
  "FOREIGN_KEY_VIOLATION = ''23503''"



section \<open>Validation errors\<close>

definition constructPath :: "string \<Rightarrow> string \<Rightarrow> string" where
  "constructPath pathToParent propertyName =
     join_with ''/'' (filter (\<lambda>s. s \<noteq> []) [pathToParent, propertyName])"

definition path_detail :: "string \<Rightarrow> string \<Rightarrow> error_detail" where
  "path_detail path description = (detail description)\<lparr>dt_path := Some path\<rparr>"

definition missingRequiredPropertyMessage :: "string \<Rightarrow> string \<Rightarrow> error_detail" where
  "missingRequiredPropertyMessage pathToParentObject missingPropertyName =
     (let path = constructPath pathToParentObject missingPropertyName in
      path_detail path (''The `'' @ path @ ''` property is required. It was not present on the data you sent.''))"

definition additionalPropertiesMessage :: "string \<Rightarrow> string \<Rightarrow> error_detail" where
  "additionalPropertiesMessage pathToParentObject additionalPropertyName =
     (let path = constructPath pathToParentObject additionalPropertyName in
      path_detail path (''The '' @
        (if pathToParentObject \<noteq> [] then ''`'' @ pathToParentObject @ ''`'' else ''root'') @
        '' object of the request body does not allow additional properties. Your request included the `''
        @ path @ ''` property.''))"

text \<open>
  The request body as the messages print it: \<open>getProp\<close> of lodash at a path, as a template literal
  prints it (\<open>rb_text\<close>) and through \<open>JSON.stringify\<close> (\<open>rb_json\<close>).
\<close>

record request_body =
  rb_text :: "string list \<Rightarrow> string"
  rb_json :: "string list \<Rightarrow> string"

definition genericErrorMessage :: "request_body \<Rightarrow> string \<Rightarrow> string option \<Rightarrow> error_detail" where
  "genericErrorMessage body propertyName errorMessage =
     (let youSent = rb_json body (split_on CHR ''/'' propertyName) in
      path_detail propertyName (''The `'' @ propertyName @ ''` property '' @
        default ''is invalid'' errorMessage @ ''. You sent '' @ youSent @ ''.''))"

definition oneOfMessage :: "string \<Rightarrow> string option \<Rightarrow> error_detail" where
  \<open>oneOfMessage propertyName errorMessage =
     (let errorPosition = (if propertyName = [] then ''root object''
                           else ''"'' @ propertyName @ ''" property'') in
      path_detail propertyName (''The '' @ errorPosition @ '' '' @ default ''is invalid'' errorMessage @
        ''. The data you provided matches more than one option in the schema. These options are mutually exclusive. Please refer back to the schema and remove any excess properties.''))\<close>

definition enumMessage :: "string \<Rightarrow> string option \<Rightarrow> string list \<Rightarrow> string \<Rightarrow> error_detail" where
  \<open>enumMessage propertyName message allowedValues suppliedValue =
     path_detail propertyName (''The `'' @ propertyName @ ''` property '' @
       default ''must match one of the allowed values'' message @ '': '' @
       join_with '', '' (map (\<lambda>v. ''"'' @ v @ ''"'') allowedValues) @
       ''. You provided "'' @ suppliedValue @
       ''", which is not valid. Please use one of the allowed values instead..'')\<close>

record validation_error =
  ve_keyword :: string
  ve_instancePath :: string
  ve_message :: "string option"
  ve_missingProperty :: string
  ve_additionalProperty :: string
  ve_allowedValues :: "string list"

text \<open>\<open>s.substring(s.lastIndexOf('/') + 1)\<close>.\<close>

definition after_last_slash :: "string \<Rightarrow> string" where
  "after_last_slash s = rev (takeWhile (\<lambda>c. c \<noteq> CHR ''/'') (rev s))"

definition fromOpenApiValidationError :: "request_body \<Rightarrow> validation_error \<Rightarrow> error_detail" where
  "fromOpenApiValidationError body ve =
     (let propertyName = drop (length ''/body/'') (ve_instancePath ve) in
      if ve_keyword ve = ''required'' then missingRequiredPropertyMessage propertyName (ve_missingProperty ve)
      else if ve_keyword ve = ''additionalProperties''
      then additionalPropertiesMessage propertyName (ve_additionalProperty ve)
      else if ve_keyword ve = ''enum''
      then enumMessage (after_last_slash (ve_instancePath ve)) (ve_message ve) (ve_allowedValues ve)
             (rb_text body (split_on CHR ''/'' propertyName))
      else if ve_keyword ve = ''oneOf'' then oneOfMessage propertyName (ve_message ve)
      else genericErrorMessage body propertyName (ve_message ve))"

definition fromOpenApiValidationErrors :: "request_body \<Rightarrow> validation_error list \<Rightarrow> api_error" where
  \<open>fromOpenApiValidationErrors body ves =
     BadDataError' ''Request validation failed: the payload you provided doesn't conform to the schema. Check the `details` property for a list of errors that we found.''
       (Some (map (fromOpenApiValidationError body) ves))\<close>

text \<open>A detail of a Joi error: its message and the offending value, as JSON, where it is truthy.\<close>

record joi_detail =
  jd_message :: string
  jd_value :: "string option"

definition fromJoiError :: "joi_detail list \<Rightarrow> api_error" where
  "fromJoiError ds =
     (let details = map (\<lambda>d. detail (jd_message d @
            (case jd_value d of None \<Rightarrow> ''.'' | Some v \<Rightarrow> ''. You provided '' @ v @ ''.''))) ds
      in (case details of
            [] \<Rightarrow> BadDataError ''A validation error occurred while processing your request data. Please make sure it conforms to the request data schema.''
          | _ # _ \<Rightarrow> BadDataError' ''A validation error occurred while processing your request data. Refer to the `details` property for more information.'' (Some details)))"


section \<open>From thrown values to answers\<close>

text \<open>
  What the server throws: an \<open>UnleashError\<close>, a Joi error, an error of the database driver with its
  code, constraint and detail, an error of \<open>http-errors\<close>, or any other \<open>Error\<close> with a name.
\<close>

datatype exn =
    Api api_error
  | JoiError string "joi_detail list"
  | DbError string "string option" "string option" string \<comment> \<open>code, constraint, detail, message\<close>
  | HttpError "nat option" string
  | JsError string string

fun exn_name :: "exn \<Rightarrow> string" where
  "exn_name (Api e) = er_name e"
| "exn_name (JoiError _ _) = ''ValidationError''"
| "exn_name (DbError _ _ _ _) = ''error''"
| "exn_name (HttpError _ _) = ''HttpError''"
| "exn_name (JsError name _) = name"

fun exn_message :: "exn \<Rightarrow> string" where
  "exn_message (Api e) = er_message e"
| "exn_message (JoiError m _) = m"
| "exn_message (DbError _ _ _ m) = m"
| "exn_message (HttpError _ m) = m"
| "exn_message (JsError _ m) = m"

definition UnleashApiErrorTypes :: "string list" where
  "UnleashApiErrorTypes =
     [''ContentTypeError'', ''DisabledError'', ''FeatureHasTagError'', ''IncompatibleProjectError'',
      ''InvalidOperationError'', ''InvalidTokenError'', ''MinimumOneEnvironmentError'', ''NameExistsError'',
      ''NoAccessError'', ''NotFoundError'', ''NotImplementedError'', ''OperationDeniedError'',
      ''PasswordMismatch'', ''PasswordUndefinedError'', ''ProjectWithoutOwnerError'', ''RoleInUseError'',
      ''UnknownError'', ''UsedTokenError'', ''BadDataError'', ''ValidationError'',
      ''AuthenticationRequired'', ''UnauthorizedError'', ''PermissionError'', ''InvalidTokenError'',
      ''OwaspValidationError'', ''ForbiddenError'', ''ExceedsLimitError'', ''InternalError'']"

definition status_table :: "(string \<times> nat) list" where
  "status_table =
     [(''ContentTypeError'', 415), (''ValidationError'', 400), (''BadDataError'', 400),
      (''OwaspValidationError'', 400), (''PasswordUndefinedError'', 400),
      (''MinimumOneEnvironmentError'', 400), (''InvalidTokenError'', 401), (''UsedTokenError'', 403),
      (''InvalidOperationError'', 403), (''IncompatibleProjectError'', 403),
      (''OperationDeniedError'', 403), (''NotFoundError'', 404), (''NameExistsError'', 409),
      (''FeatureHasTagError'', 409), (''RoleInUseError'', 400), (''ProjectWithoutOwnerError'', 409),
      (''UnknownError'', 500), (''InternalError'', 500), (''PasswordMismatch'', 401),
      (''UnauthorizedError'', 401), (''DisabledError'', 422), (''NotImplementedError'', 405),
      (''NoAccessError'', 403), (''AuthenticationRequired'', 401), (''ForbiddenError'', 403),
      (''PermissionError'', 403), (''BadRequestError'', 400)]"

definition getStatusCode :: "string \<Rightarrow> nat" where
  "getStatusCode errorName = default 500 (map_of status_table errorName)"

definition fromLegacyError :: "exn \<Rightarrow> api_error" where
  "fromLegacyError e = (case e of
       Api err \<Rightarrow> err
     | _ \<Rightarrow>
        (let name = (if List.member UnleashApiErrorTypes (exn_name e) then exn_name e else ''UnknownError'');
             statusCode = getStatusCode name
         in if name = ''NoAccessError'' then GenericUnleashError ''NoAccessError'' (exn_message e) statusCode
            else (case e of
                JoiError _ ds \<Rightarrow> fromJoiError ds
              | _ \<Rightarrow>
                  if name = ''ValidationError'' \<or> name = ''BadDataError''
                  then GenericUnleashError ''BadDataError'' (exn_message e) statusCode
                  else if name = ''OwaspValidationError''
                  then GenericUnleashError ''OwaspValidationError'' (exn_message e) statusCode
                  else if name = ''AuthenticationRequired''
                  then GenericUnleashError ''AuthenticationRequired''
                         ''You must be authenticated to view this content. Please log in.'' statusCode
                  else GenericUnleashError name (exn_message e) statusCode)))"

text \<open>What \<open>handleErrors\<close> sends: a bare message for an HTTP error, otherwise the API error.\<close>

datatype error_response = MessageResponse nat string | ErrorResponse nat api_error

fun handleErrors :: "exn \<Rightarrow> error_response" where
  "handleErrors (HttpError st m) = MessageResponse (default 400 st) m"
| "handleErrors e = (let finalError = fromLegacyError e in ErrorResponse (er_statusCode finalError) finalError)"

fun response_status :: "error_response \<Rightarrow> nat" where
  "response_status (MessageResponse n _) = n"
| "response_status (ErrorResponse n _) = n"


section \<open>Lemmas\<close>

named_theorems error_defs \<open>definitions of the error classes\<close>

lemmas [error_defs] = UnleashError_def GenericUnleashError_def ArchivedFeatureError_def
  ContentTypeError_def DisabledError_def ExceedsLimitError_def FeatureHasTagError_def ForbiddenError_def
  IncompatibleProjectError_def InvalidOperationError_def InvalidTokenError_def
  MinimumOneEnvironmentError_def NameExistsError_def NotImplementedError_def NotFoundError_def
  OperationDeniedError_def OwaspValidationError_def PasswordMismatchError_def
  PasswordUndefinedError_def PatternError_def PermissionError_def ProjectWithoutOwnerError_def
  RoleInUseError_def UnauthorizedError_def UsedTokenError_def BadDataError'_def

lemma UnleashError_fields [simp]:
  "er_name (UnleashError n c m) = n" "er_statusCode (UnleashError n c m) = c"
  "er_message (UnleashError n c m) = m"
  by (simp_all add: UnleashError_def)

lemma fromJoiError_status: "er_statusCode (fromJoiError ds) = 400"
  by (simp add: fromJoiError_def Let_def BadDataError'_def split: list.splits)

text \<open>Every error object the classes build.\<close>

inductive_set error_objects :: "api_error set" where
  "ArchivedFeatureError m \<in> error_objects"
| "ContentTypeError ts t \<in> error_objects"
| "DisabledError s \<in> error_objects"
| "ExceedsLimitError s n \<in> error_objects"
| "FeatureHasTagError s \<in> error_objects"
| "ForbiddenError s \<in> error_objects"
| "IncompatibleProjectError s \<in> error_objects"
| "InvalidOperationError s \<in> error_objects"
| "InvalidTokenError \<in> error_objects"
| "MinimumOneEnvironmentError s \<in> error_objects"
| "NameExistsError s \<in> error_objects"
| "NotImplementedError s \<in> error_objects"
| "NotFoundError m \<in> error_objects"
| "OperationDeniedError s \<in> error_objects"
| "OwaspValidationError es \<in> error_objects"
| "PasswordMismatchError m \<in> error_objects"
| "PasswordUndefinedError \<in> error_objects"
| "PatternError s ds \<in> error_objects"
| "PermissionError ps env \<in> error_objects"
| "ProjectWithoutOwnerError \<in> error_objects"
| "RoleInUseError s \<in> error_objects"
| "UnauthorizedError s \<in> error_objects"
| "UsedTokenError s \<in> error_objects"
| "BadDataError' s dts \<in> error_objects"


section \<open>Properties\<close>

text \<open>
  The two status tables agree. For every error class that the handler's list of names knows,
  the status code of the class is the one the handler gives a legacy error of that name, with one
  exception: \<open>ExceedsLimitError\<close> is 400 as a class but falls to the default 500 by name.
\<close>

theorem status_codes_agree:
  assumes "e \<in> error_objects" and "er_name e \<in> set UnleashApiErrorTypes"
  shows "if er_name e = ''ExceedsLimitError'' then er_statusCode e = 400 \<and> getStatusCode (er_name e) = 500
    else getStatusCode (er_name e) = er_statusCode e"
  using assms
  by (cases rule: error_objects.cases)
    (simp_all add: error_defs Let_def getStatusCode_def status_table_def UnleashApiErrorTypes_def)

theorem status_codes_agree_witness:
  "getStatusCode ''ExceedsLimitError'' = 500 \<and> er_statusCode (ExceedsLimitError ''segment'' 1) = 400"
  using status_codes_agree [OF error_objects.intros(4), of "''segment''" 1]
  by (simp add: error_defs UnleashApiErrorTypes_def)

text \<open>
  The handler answers every thrown value with an error status: an \<open>UnleashError\<close> with its own,
  anything else with a code between 400 and 500, and a value whose name is not in the list of API
  error names with 500.
\<close>

theorem handler_status:
  "(case e of Api err \<Rightarrow> response_status (handleErrors e) = er_statusCode err
      | HttpError st m \<Rightarrow> response_status (handleErrors e) = default 400 st
      | _ \<Rightarrow> 400 \<le> response_status (handleErrors e) \<and> response_status (handleErrors e) \<le> 500
          \<and> (exn_name e \<notin> set UnleashApiErrorTypes \<longrightarrow> response_status (handleErrors e) = 500))"
proof -
  have range: "400 \<le> getStatusCode n \<and> getStatusCode n \<le> 500" for n
  proof (cases "map_of status_table n")
    case None
    then show ?thesis by (simp add: getStatusCode_def)
  next
    case (Some c)
    then have "(n, c) \<in> set status_table" by (rule map_of_SomeD)
    then have "400 \<le> c \<and> c \<le> 500" by (auto simp: status_table_def)
    with Some show ?thesis by (simp add: getStatusCode_def)
  qed
  have unknown: "getStatusCode ''UnknownError'' = 500"
    by (simp add: getStatusCode_def status_table_def)
  have "''ValidationError'' \<in> set UnleashApiErrorTypes" by (simp add: UnleashApiErrorTypes_def)
  then show ?thesis
    using range unknown
    by (cases e) (auto simp: fromLegacyError_def Let_def fromJoiError_status GenericUnleashError_def)
qed

theorem handler_status_witness:
  "response_status (handleErrors (JsError ''TypeError'' ''x is not a function'')) = 500"
  using handler_status [of "JsError ''TypeError'' ''x is not a function''"]
  by (simp add: UnleashApiErrorTypes_def)

end
