(* ===== verification/ApiTokens.thy ===== *)
theory ApiTokens
  imports Errors Evaluator
begin

text \<open>
  API tokens: the token data and its validation (\<open>types/models/api-token.ts\<close>), the store over the
  tables \<open>api_tokens\<close> and \<open>api_token_project\<close> (\<open>db/api-token-store.ts\<close>), the service with its
  cache of active tokens (\<open>services/api-token-service.ts\<close>), and the middlewares that decide a
  request by its token (\<open>middleware/api-token-middleware.ts\<close>,
  \<open>middleware/authorization-middleware.ts\<close>).

  Dates are milliseconds and the time of a query is an argument. A table is the list of its rows in
  insertion order, with the keys the migrations declare; SQL leaves the order of a result open, and
  the model takes the order of the tables. The text the driver gives the violation of a constraint
  is a parameter of the database (\<open>db_message\<close>). Secrets are taken not to be names of members of
  \<open>Object.prototype\<close>, which the reducer of the store would find in its empty object.
\<close>

section \<open>Token data\<close>

definition ALL' :: string where
  "ALL' = ''*''"

definition token_CLIENT :: string where
  "token_CLIENT = ''client''"

definition token_ADMIN :: string where
  "token_ADMIN = ''admin''"

definition token_FRONTEND :: string where
  "token_FRONTEND = ''frontend''"

lemmas token_type_defs = ALL'_def token_CLIENT_def token_ADMIN_def token_FRONTEND_def

record legacy_token =
  lt_username :: "string option"
  lt_type :: string
  lt_environment :: "string option"
  lt_project :: "string option"
  lt_projects :: "string list option"
  lt_expiresAt :: "int option"
  lt_tokenName :: "string option"

text \<open>\<open>Omit<IApiTokenCreate, 'secret'>\<close>; a created token also has its secret.\<close>

record token_request =
  tq_tokenName :: "string option"
  tq_alias :: "string option"
  tq_type :: string
  tq_environment :: string
  tq_projects :: "string list"
  tq_expiresAt :: "int option"
  tq_username :: "string option"

record api_token_create = token_request +
  tc_secret :: string

definition with_secret :: "token_request \<Rightarrow> string \<Rightarrow> api_token_create" where
  "with_secret t s =
     \<lparr>tq_tokenName = tq_tokenName t, tq_alias = tq_alias t, tq_type = tq_type t,
      tq_environment = tq_environment t, tq_projects = tq_projects t, tq_expiresAt = tq_expiresAt t,
      tq_username = tq_username t, tc_secret = s\<rparr>"

text \<open>A token without its secret, as the events carry it, and \<open>IApiToken\<close>.\<close>

record public_token =
  at_tokenName :: "string option"
  at_type :: string
  at_project :: string
  at_projects :: "string list"
  at_environment :: string
  at_expiresAt :: "int option"
  at_createdAt :: int
  at_alias :: "string option"
  at_seenAt :: "int option"
  at_username :: "string option"

record api_token = public_token +
  at_secret :: string

definition omit_secret :: "api_token \<Rightarrow> public_token" where
  "omit_secret t =
     \<lparr>at_tokenName = at_tokenName t, at_type = at_type t, at_project = at_project t,
      at_projects = at_projects t, at_environment = at_environment t, at_expiresAt = at_expiresAt t,
      at_createdAt = at_createdAt t, at_alias = at_alias t, at_seenAt = at_seenAt t,
      at_username = at_username t\<rparr>"

definition isAllProjects :: "string list \<Rightarrow> bool" where
  "isAllProjects projects = (projects = [ALL'])"

definition mapLegacyProjects :: "string option \<Rightarrow> string list option \<Rightarrow> exn + string list" where
  "mapLegacyProjects project projects =
     (if truthy project then Inr [the project]
      else (case projects of
          Some ps \<Rightarrow> Inr (if List.member ps ''*'' then [''*''] else ps)
        | None \<Rightarrow> Inl (Api (BadDataError ''API tokens must either contain a project or projects field''))))"

definition mapLegacyToken :: "legacy_token \<Rightarrow> exn + token_request" where
  "mapLegacyToken token =
     bindR (mapLegacyProjects (lt_project token) (lt_projects token)) (\<lambda>cleanedProjects. Inr
       \<lparr>tq_tokenName = (case lt_username token of None \<Rightarrow> lt_tokenName token | Some u \<Rightarrow> Some u),
        tq_alias = None, tq_type = lt_type token,
        tq_environment = or_else (lt_environment token) ''development'',
        tq_projects = cleanedProjects, tq_expiresAt = lt_expiresAt token, tq_username = None\<rparr>)"

definition mapLegacyTokenWithSecret :: "legacy_token \<times> string \<Rightarrow> exn + api_token_create" where
  "mapLegacyTokenWithSecret ts =
     bindR (mapLegacyToken (fst ts)) (\<lambda>t. Inr (with_secret t (snd ts)))"

definition validateApiToken :: "token_request \<Rightarrow> exn + unit" where
  "validateApiToken t =
     (if tq_type t = token_ADMIN \<and> \<not> isAllProjects (tq_projects t)
      then Inl (Api (BadDataError ''Admin token cannot be scoped to single project''))
      else if tq_type t = token_ADMIN \<and> tq_environment t \<noteq> ALL'
      then Inl (Api (BadDataError ''Admin token cannot be scoped to single environment''))
      else if tq_type t = token_CLIENT \<and> tq_environment t = ALL'
      then Inl (Api (BadDataError ''Client token cannot be scoped to all environments''))
      else if tq_type t = token_FRONTEND \<and> tq_environment t = ALL'
      then Inl (Api (BadDataError ''Frontend token cannot be scoped to all environments''))
      else Inr ())"

definition validateApiTokenEnvironment :: "token_request \<Rightarrow> string list \<Rightarrow> exn + unit" where
  "validateApiTokenEnvironment t environments =
     (if tq_environment t = ALL' then Inr ()
      else (case find (\<lambda>env. env = tq_environment t) environments of
          None \<Rightarrow> Inl (Api (BadDataError (''Environment='' @ tq_environment t @ '' does not exist'')))
        | Some _ \<Rightarrow> Inr ()))"


section \<open>The store\<close>

text \<open>
  A row of \<open>api_tokens\<close> (key \<open>secret\<close>, \<open>username\<close> not null), the rows \<open>(secret, project)\<close> of
  \<open>api_token_project\<close> (key: the pair; both columns foreign keys that cascade on deletion), the ids
  of the projects and the names of the environments.
\<close>

record token_row =
  tr_secret :: string
  tr_username :: string
  tr_token_name :: "string option"
  tr_type :: string
  tr_environment :: "string option"
  tr_expires_at :: "int option"
  tr_created_at :: int
  tr_alias :: "string option"
  tr_seen_at :: "int option"

record token_db =
  db_tokens :: "token_row list"
  db_links :: "(string \<times> string) list"
  db_projects :: "string list"
  db_environments :: "string list"
  db_message :: "string \<Rightarrow> string"

text \<open>One step of the reducer on a row of the join: the accumulator keeps the order of the keys.\<close>

definition token_of_row :: "token_row \<Rightarrow> api_token" where
  "token_of_row r =
     (let name = (if truthy (tr_token_name r) then tr_token_name r else Some (tr_username r)) in
      \<lparr>at_tokenName = name, at_type = to_lower (tr_type r), at_project = ALL', at_projects = [ALL'],
       at_environment = or_else (tr_environment r) ALL', at_expiresAt = tr_expires_at r,
       at_createdAt = tr_created_at r, at_alias = tr_alias r, at_seenAt = tr_seen_at r,
       at_username = name, at_secret = tr_secret r\<rparr>)"

definition push_project :: "string \<Rightarrow> api_token \<Rightarrow> api_token" where
  "push_project p t =
     (let ps = (if isAllProjects (at_projects t) then [] else at_projects t) @ [p] in
      t\<lparr>at_projects := ps, at_project := join_with '','' ps\<rparr>)"

definition tokenRowReducer ::
  "(string \<times> api_token) list \<Rightarrow> token_row \<times> string option \<Rightarrow> (string \<times> api_token) list" where
  "tokenRowReducer acc row = (case row of (r, project) \<Rightarrow>
     (let acc' = (if map_of acc (tr_secret r) = None then acc @ [(tr_secret r, token_of_row r)] else acc)
      in if truthy project
         then map (\<lambda>(k, t). (k, if k = tr_secret r then push_project (the project) t else t)) acc'
         else acc'))"

definition toTokens :: "(token_row \<times> string option) list \<Rightarrow> api_token list" where
  "toTokens rows = (let tokens = foldl tokenRowReducer [] rows in
     List.map_filter (map_of tokens) (object_keys tokens))"

definition toRow :: "int \<Rightarrow> api_token_create \<Rightarrow> token_row option" where
  "toRow now t =
     (let name = (case tq_tokenName t of None \<Rightarrow> tq_username t | Some n \<Rightarrow> Some n) in
      map_option (\<lambda>u. \<lparr>tr_secret = tc_secret t, tr_username = u, tr_token_name = Some u,
        tr_type = tq_type t, tr_environment = (if tq_environment t = ALL' then None else Some (tq_environment t)),
        tr_expires_at = tq_expiresAt t, tr_created_at = now,
        tr_alias = (if truthy (tq_alias t) then tq_alias t else None), tr_seen_at = None\<rparr>) name)"

definition links_of :: "token_db \<Rightarrow> string \<Rightarrow> string list" where
  "links_of db s = map snd (filter (\<lambda>l. fst l = s) (db_links db))"

text \<open>The left join of \<open>makeTokenProjectQuery\<close>.\<close>

definition joined :: "token_db \<Rightarrow> token_row \<Rightarrow> (token_row \<times> string option) list" where
  "joined db r = (case links_of db (tr_secret r) of
       [] \<Rightarrow> [(r, None)]
     | ps \<Rightarrow> map (\<lambda>p. (r, Some p)) ps)"

definition makeTokenProjectQuery :: "token_db \<Rightarrow> (token_row \<times> string option) list" where
  "makeTokenProjectQuery db = concat (map (joined db) (db_tokens db))"

definition tokens_count :: "token_db \<Rightarrow> nat" where
  "tokens_count db = length (db_tokens db)"

definition countByType :: "token_db \<Rightarrow> (string \<times> nat) list" where
  "countByType db = (let types = map tr_type (db_tokens db) in
     map (\<lambda>ty. (ty, length (filter (\<lambda>x. x = ty) types))) (remdups types))"

definition tokens_getAll :: "token_db \<Rightarrow> api_token list" where
  "tokens_getAll db = toTokens (makeTokenProjectQuery db)"

definition row_active :: "int \<Rightarrow> token_row \<Rightarrow> bool" where
  "row_active now r = (case tr_expires_at r of None \<Rightarrow> True | Some e \<Rightarrow> now < e)"

definition getAllActive :: "int \<Rightarrow> token_db \<Rightarrow> api_token list" where
  "getAllActive now db = toTokens (filter (\<lambda>(r, p). row_active now r) (makeTokenProjectQuery db))"

text \<open>The violations PostgreSQL reports for the two statements of the insertion.\<close>

definition NOT_NULL_VIOLATION :: string where
  "NOT_NULL_VIOLATION = ''23502''"

definition insert_token_row :: "token_db \<Rightarrow> token_row option \<Rightarrow> exn + token_db" where
  "insert_token_row db row = (case row of
       None \<Rightarrow> Inl (DbError NOT_NULL_VIOLATION None None (db_message db ''username''))
     | Some r \<Rightarrow>
         if tr_secret r \<in> tr_secret ` set (db_tokens db)
         then Inl (DbError UNIQUE_CONSTRAINT_VIOLATION (Some ''api_tokens_pkey'')
                (Some (''Key (secret)=('' @ tr_secret r @ '') already exists.''))
                (db_message db ''api_tokens_pkey''))
         else Inr (db\<lparr>db_tokens := db_tokens db @ [r]\<rparr>))"

definition insert_link :: "string \<Rightarrow> token_db \<Rightarrow> string \<Rightarrow> exn + token_db" where
  \<open>insert_link secret db project =
     (if (secret, project) \<in> set (db_links db)
      then Inl (DbError UNIQUE_CONSTRAINT_VIOLATION (Some ''api_token_project_pkey'')
             (Some (''Key (secret, project)=('' @ secret @ '', '' @ project @ '') already exists.''))
             (db_message db ''api_token_project_pkey''))
      else if project \<notin> set (db_projects db)
      then Inl (DbError FOREIGN_KEY_VIOLATION (Some ''api_token_project_project_fkey'')
             (Some (''Key (project)=('' @ project @ '') is not present in table "projects".''))
             (db_message db ''api_token_project_project_fkey''))
      else Inr (db\<lparr>db_links := db_links db @ [(secret, project)]\<rparr>))\<close>

text \<open>The transaction: a violation of either statement leaves the database as it was.\<close>

definition tokens_insert :: "int \<Rightarrow> api_token_create \<Rightarrow> token_db \<Rightarrow> exn + (api_token \<times> token_db)" where
  "tokens_insert now t db =
     bindR (insert_token_row db (toRow now t)) (\<lambda>db1.
     bindR (foldR (insert_link (tc_secret t)) db1 (filter (\<lambda>p. p \<noteq> ALL') (tq_projects t))) (\<lambda>db2.
     Inr (\<lparr>at_tokenName = tq_tokenName t, at_type = tq_type t,
           at_project = (let j = join_with '','' (tq_projects t) in if j = [] then ''*'' else j),
           at_projects = tq_projects t, at_environment = tq_environment t,
           at_expiresAt = tq_expiresAt t, at_createdAt = now,
           at_alias = (if truthy (tq_alias t) then tq_alias t else None), at_seenAt = None,
           at_username = tq_tokenName t, at_secret = tc_secret t\<rparr>, db2)))"

definition tokens_exists :: "string \<Rightarrow> token_db \<Rightarrow> bool" where
  "tokens_exists secret db = list_ex (\<lambda>r. tr_secret r = secret) (db_tokens db)"

definition tokens_get :: "string \<Rightarrow> token_db \<Rightarrow> api_token option" where
  "tokens_get key db =
     (case toTokens (filter (\<lambda>(r, p). tr_secret r = key) (makeTokenProjectQuery db)) of
        [] \<Rightarrow> None
      | t # _ \<Rightarrow> Some t)"

text \<open>Deleting a token, or a project, deletes its rows of the link table.\<close>

definition tokens_delete :: "string \<Rightarrow> token_db \<Rightarrow> token_db" where
  "tokens_delete secret db =
     db\<lparr>db_tokens := filter (\<lambda>r. tr_secret r \<noteq> secret) (db_tokens db),
        db_links := filter (\<lambda>l. fst l \<noteq> secret) (db_links db)\<rparr>"

definition tokens_deleteAll :: "token_db \<Rightarrow> token_db" where
  "tokens_deleteAll db = db\<lparr>db_tokens := [], db_links := []\<rparr>"

definition projects_delete :: "string \<Rightarrow> token_db \<Rightarrow> token_db" where
  "projects_delete pid db =
     db\<lparr>db_projects := filter (\<lambda>p. p \<noteq> pid) (db_projects db),
        db_links := filter (\<lambda>l. snd l \<noteq> pid) (db_links db)\<rparr>"

text \<open>
  \<open>UPDATE api_tokens ... RETURNING *\<close>: the statement has no join, so the returned rows have the
  columns of \<open>api_tokens\<close> only.
\<close>

definition setExpiry :: "string \<Rightarrow> int option \<Rightarrow> token_db \<Rightarrow> exn + (api_token \<times> token_db)" where
  "setExpiry secret expiresAt db =
     (let db' = db\<lparr>db_tokens := map (\<lambda>r. if tr_secret r = secret then r\<lparr>tr_expires_at := expiresAt\<rparr> else r)
                                    (db_tokens db)\<rparr>;
          rows = map (\<lambda>r. (r, None)) (filter (\<lambda>r. tr_secret r = secret) (db_tokens db'))
      in case toTokens rows of
           [] \<Rightarrow> Inl (Api (NotFoundError (Some ''Could not find api-token.'')))
         | t # _ \<Rightarrow> Inr (t, db'))"

definition markSeenAt :: "int \<Rightarrow> string list \<Rightarrow> token_db \<Rightarrow> token_db" where
  "markSeenAt now secrets db =
     db\<lparr>db_tokens := map (\<lambda>r. if List.member secrets (tr_secret r) then r\<lparr>tr_seen_at := Some now\<rparr> else r)
                         (db_tokens db)\<rparr>"

end
