(* ===== verification/TokenService.thy ===== *)
theory TokenService
  imports ApiTokens
begin

text \<open>
  The API token service and the two middlewares that use it. The service keeps the active tokens
  it has last seen, whether it has fetched them, and the secrets used since the last write of
  \<open>seen_at\<close> (a set in insertion order). Every operation that another instance or the database may
  interleave with is a function of the whole state; the state holds the events the service stored.
\<close>

section \<open>Users\<close>

record user_info =
  ui_email :: "string option"
  ui_username :: "string option"
  ui_id :: "int option"
  ui_internalAdminTokenUserId :: "int option"

definition SYSTEM_USER_ID :: int where
  "SYSTEM_USER_ID = -1337"

definition SYSTEM_USER_username :: string where
  "SYSTEM_USER_username = ''unleash_system_user''"

definition ADMIN_TOKEN_USER_id :: int where
  "ADMIN_TOKEN_USER_id = -42"

text \<open>\<open>n || d\<close> on numbers.\<close>

definition num_or :: "int option \<Rightarrow> int \<Rightarrow> int" where
  "num_or n d = (case n of None \<Rightarrow> d | Some i \<Rightarrow> if i = 0 then d else i)"

definition extractUsernameFromUser :: "user_info option \<Rightarrow> string" where
  "extractUsernameFromUser user = (case user of
       None \<Rightarrow> SYSTEM_USER_username
     | Some u \<Rightarrow> or_else (ui_email u) (or_else (ui_username u) SYSTEM_USER_username))"

definition extractUserIdFromUser :: "user_info option \<Rightarrow> int" where
  "extractUserIdFromUser user = (case user of
       None \<Rightarrow> SYSTEM_USER_ID
     | Some u \<Rightarrow> num_or (ui_id u) (num_or (ui_internalAdminTokenUserId u) SYSTEM_USER_ID))"

record api_user =
  au_internalAdminTokenUserId :: "int option"
  au_username :: string
  au_permissions :: "string list"
  au_projects :: "string list"
  au_environment :: string
  au_type :: string
  au_secret :: string

record api_user_data =
  ud_permissions :: "string list option"
  ud_projects :: "string list option"
  ud_project :: "string option"
  ud_environment :: string
  ud_type :: string
  ud_secret :: string
  ud_tokenName :: "string option"

definition new_ApiUser :: "api_user_data \<Rightarrow> exn + api_user" where
  "new_ApiUser d =
     (if \<not> truthy (ud_tokenName d) then Inl (JoiError ''tokenName is required'' [])
      else Inr \<lparr>au_internalAdminTokenUserId = None, au_username = the (ud_tokenName d),
        au_permissions = default [''CLIENT''] (ud_permissions d),
        au_projects = (case ud_projects d of
            Some (p # ps) \<Rightarrow> p # ps
          | _ \<Rightarrow> if truthy (ud_project d) then [the (ud_project d)] else []),
        au_environment = ud_environment d, au_type = ud_type d, au_secret = ud_secret d\<rparr>)"


section \<open>The service\<close>

datatype token_event =
    ApiTokenCreated string int public_token \<comment> \<open>by, by user id, token\<close>
  | ApiTokenUpdated string int "public_token option" public_token
  | ApiTokenDeleted string int public_token

record token_service =
  ts_db :: token_db
  ts_activeTokens :: "api_token list"
  ts_initialized :: bool
  ts_lastSeenSecrets :: "string list"
  ts_events :: "token_event list"

text \<open>Who creates a token: nobody named, a name, or a user.\<close>

datatype creator = NoCreator | CreatorName string | CreatorUser user_info

fun event_createdBy :: "creator \<Rightarrow> string" where
  "event_createdBy (CreatorName s) = s"
| "event_createdBy (CreatorUser u) = extractUsernameFromUser (Some u)"
| "event_createdBy NoCreator = extractUsernameFromUser None"

definition resolveTokenPermissions :: "string \<Rightarrow> string list" where
  "resolveTokenPermissions tokenType =
     (if tokenType = token_ADMIN then [''ADMIN'']
      else if tokenType = token_CLIENT then [''CLIENT'']
      else if tokenType = token_FRONTEND then [''FRONTEND'']
      else [])"

definition fetchActiveTokens :: "int \<Rightarrow> token_service \<Rightarrow> token_service" where
  "fetchActiveTokens now s = s\<lparr>ts_activeTokens := getAllActive now (ts_db s), ts_initialized := True\<rparr>"

definition getToken :: "string \<Rightarrow> token_service \<Rightarrow> api_token option" where
  "getToken secret s = tokens_get secret (ts_db s)"

definition updateLastSeen :: "int \<Rightarrow> token_service \<Rightarrow> token_service" where
  "updateLastSeen now s =
     (if ts_lastSeenSecrets s \<noteq> []
      then s\<lparr>ts_lastSeenSecrets := [], ts_db := markSeenAt now (ts_lastSeenSecrets s) (ts_db s)\<rparr>
      else s)"

definition getAllTokens :: "token_service \<Rightarrow> api_token list" where
  "getAllTokens s = tokens_getAll (ts_db s)"

definition getAllActiveTokens :: "bool \<Rightarrow> int \<Rightarrow> token_service \<Rightarrow> api_token list \<times> token_service" where
  "getAllActiveTokens useMemoizedActiveTokens now s =
     (if useMemoizedActiveTokens
      then (let s' = (if ts_initialized s then s else fetchActiveTokens now s) in (ts_activeTokens s', s'))
      else (getAllActive now (ts_db s), s))"

definition findInvalidProject :: "string option \<Rightarrow> string list \<Rightarrow> string" where
  "findInvalidProject errorDetails projects =
     (if \<not> truthy errorDetails then ''invalid''
      else or_else (find (\<lambda>p. str_includes (the errorDetails) (''=('' @ p @ '')'')) projects) ''invalid'')"

definition insert_error :: "api_token_create \<Rightarrow> exn \<Rightarrow> exn" where
  "insert_error t e = (case e of
       DbError code constraint dtl message \<Rightarrow>
         if code = FOREIGN_KEY_VIOLATION
         then Api (BadDataError
                (if constraint = Some ''api_token_project_project_fkey''
                 then ''Project='' @ findInvalidProject dtl (tq_projects t) @ '' does not exist''
                 else if constraint = Some ''api_tokens_environment_fkey''
                 then ''Environment='' @ tq_environment t @ '' does not exist''
                 else message))
         else e
     | _ \<Rightarrow> e)"

definition insertNewApiToken ::
  "int \<Rightarrow> api_token_create \<Rightarrow> creator \<Rightarrow> int \<Rightarrow> token_service \<Rightarrow> exn + (api_token \<times> token_service)" where
  "insertNewApiToken now t createdBy createdByUserId s =
     (case tokens_insert now t (ts_db s) of
        Inl e \<Rightarrow> Inl (insert_error t e)
      | Inr (token, db') \<Rightarrow> Inr (token,
          s\<lparr>ts_db := db', ts_activeTokens := ts_activeTokens s @ [token],
            ts_events := ts_events s @
              [ApiTokenCreated (event_createdBy createdBy) createdByUserId (omit_secret token)]\<rparr>))"

definition generateSecretKey :: "string \<Rightarrow> token_request \<Rightarrow> string" where
  "generateSecretKey randomStr t = (case tq_projects t of
       [] \<Rightarrow> ''undefined:'' @ tq_environment t @ ''.'' @ randomStr
     | [p] \<Rightarrow> p @ '':'' @ tq_environment t @ ''.'' @ randomStr
     | _ \<Rightarrow> ''[]:'' @ tq_environment t @ ''.'' @ randomStr)"

definition internalCreateApiTokenWithProjects ::
  "string \<Rightarrow> int \<Rightarrow> token_request \<Rightarrow> creator \<Rightarrow> int \<Rightarrow> token_service \<Rightarrow> exn + (api_token \<times> token_service)" where
  "internalCreateApiTokenWithProjects randomStr now newToken createdBy createdByUserId s =
     bindR (validateApiToken newToken) (\<lambda>_.
     bindR (validateApiTokenEnvironment newToken (db_environments (ts_db s))) (\<lambda>_.
     insertNewApiToken now (with_secret newToken (generateSecretKey randomStr newToken))
       createdBy createdByUserId s))"

definition createApiToken ::
  "string \<Rightarrow> int \<Rightarrow> legacy_token \<Rightarrow> string option \<Rightarrow> int option \<Rightarrow> token_service
     \<Rightarrow> exn + (api_token \<times> token_service)" where
  "createApiToken randomStr now newToken createdBy createdByUserId s =
     bindR (mapLegacyToken newToken) (\<lambda>token.
       internalCreateApiTokenWithProjects randomStr now token
         (CreatorName (default SYSTEM_USER_username createdBy)) (default SYSTEM_USER_ID createdByUserId) s)"

definition createApiTokenWithProjects ::
  "string \<Rightarrow> int \<Rightarrow> token_request \<Rightarrow> creator \<Rightarrow> int option \<Rightarrow> token_service
     \<Rightarrow> exn + (api_token \<times> token_service)" where
  "createApiTokenWithProjects randomStr now newToken createdBy createdByUserId s =
     (case createdBy of
        NoCreator \<Rightarrow> internalCreateApiTokenWithProjects randomStr now newToken
          (CreatorName SYSTEM_USER_username) (num_or createdByUserId SYSTEM_USER_ID) s
      | CreatorName n \<Rightarrow> internalCreateApiTokenWithProjects randomStr now newToken
          (CreatorName (or_else (Some n) SYSTEM_USER_username)) (num_or createdByUserId SYSTEM_USER_ID) s
      | CreatorUser u \<Rightarrow>
          if num_or createdByUserId 0 \<noteq> 0
          then internalCreateApiTokenWithProjects randomStr now newToken
            (CreatorUser u) (num_or createdByUserId SYSTEM_USER_ID) s
          else internalCreateApiTokenWithProjects randomStr now newToken
            (CreatorName (extractUsernameFromUser (Some u))) (extractUserIdFromUser (Some u)) s)"

definition createMigratedProxyApiToken ::
  "string \<Rightarrow> int \<Rightarrow> token_request \<Rightarrow> token_service \<Rightarrow> exn + (api_token \<times> token_service)" where
  "createMigratedProxyApiToken randomStr now newToken s =
     bindR (validateApiToken newToken) (\<lambda>_.
       insertNewApiToken now (with_secret newToken (generateSecretKey randomStr newToken))
         (CreatorName ''system-migration'') SYSTEM_USER_ID s)"

text \<open>
  The initial tokens of the configuration: all insertions are started, one that fails does not stop
  the others, and the failure is logged. A token that cannot be mapped stops all of them.
\<close>

definition initApiTokens :: "int \<Rightarrow> (legacy_token \<times> string) list \<Rightarrow> token_service \<Rightarrow> token_service" where
  "initApiTokens now tokens s =
     (if tokens_count (ts_db s) > 0 then s
      else (case mapR mapLegacyTokenWithSecret tokens of
          Inl _ \<Rightarrow> s
        | Inr ts \<Rightarrow> foldl (\<lambda>s t. case insertNewApiToken now t (CreatorName ''init-api-tokens'') SYSTEM_USER_ID s of
                                 Inl _ \<Rightarrow> s | Inr (_, s') \<Rightarrow> s') s ts))"

definition updateExpiry ::
  "string \<Rightarrow> int option \<Rightarrow> string \<Rightarrow> int \<Rightarrow> token_service \<Rightarrow> exn + (api_token \<times> token_service)" where
  "updateExpiry secret expiresAt updatedBy updatedById s =
     (let previous = tokens_get secret (ts_db s) in
      bindR (setExpiry secret expiresAt (ts_db s)) (\<lambda>(token, db').
        Inr (token, s\<lparr>ts_db := db', ts_events := ts_events s @
          [ApiTokenUpdated updatedBy updatedById (map_option omit_secret previous) (omit_secret token)]\<rparr>)))"

definition token_delete :: "string \<Rightarrow> string \<Rightarrow> int \<Rightarrow> token_service \<Rightarrow> token_service" where
  "token_delete secret deletedBy deletedByUserId s =
     (if tokens_exists secret (ts_db s)
      then (case tokens_get secret (ts_db s) of
          None \<Rightarrow> s\<lparr>ts_db := tokens_delete secret (ts_db s)\<rparr>
        | Some token \<Rightarrow> s\<lparr>ts_db := tokens_delete secret (ts_db s),
            ts_events := ts_events s @ [ApiTokenDeleted deletedBy deletedByUserId (omit_secret token)]\<rparr>)
      else s)"


section \<open>Authentication\<close>

text \<open>
  \<open>Buffer.from(s, 'utf8')\<close> has two bytes for a code unit from 128 on; \<open>timingSafeEqual\<close> throws a
  RangeError on buffers of different lengths.
\<close>

definition utf8_length :: "string \<Rightarrow> nat" where
  "utf8_length s = sum_list (map (\<lambda>c. if (of_char c :: nat) < 128 then 1 else 2) s)"

definition constantTimeCompare :: "string \<Rightarrow> string \<Rightarrow> exn + bool" where
  "constantTimeCompare a b =
     (if a = [] \<or> b = [] \<or> length a \<noteq> length b then Inr False
      else if utf8_length a \<noteq> utf8_length b
      then Inl (JsError ''RangeError'' ''Input buffers must have the same byte length'')
      else Inr (a = b))"

text \<open>\<open>Array.prototype.find\<close> with a predicate that may throw.\<close>

fun findR :: "('a \<Rightarrow> 'e + bool) \<Rightarrow> 'a list \<Rightarrow> 'e + 'a option" where
  "findR P [] = Inr None"
| "findR P (x # xs) = bindR (P x) (\<lambda>b. if b then Inr (Some x) else findR P xs)"

definition find_active :: "string \<Rightarrow> api_token list \<Rightarrow> exn + api_token option" where
  "find_active secret tokens =
     bindR (findR (\<lambda>t. if at_secret t \<noteq> [] then constantTimeCompare (at_secret t) secret else Inr False) tokens)
       (\<lambda>token. case token of
          Some t \<Rightarrow> Inr (Some t)
        | None \<Rightarrow> findR (\<lambda>t. if truthy (at_alias t) then constantTimeCompare (the (at_alias t)) secret
                              else Inr False) tokens)"

definition api_user_of :: "api_token \<Rightarrow> exn + api_user" where
  "api_user_of token =
     bindR (new_ApiUser \<lparr>ud_permissions = Some (resolveTokenPermissions (at_type token)),
              ud_projects = Some (at_projects token), ud_project = None,
              ud_environment = at_environment token, ud_type = at_type token,
              ud_secret = at_secret token, ud_tokenName = at_tokenName token\<rparr>)
       (\<lambda>u. Inr (u\<lparr>au_internalAdminTokenUserId :=
                     (if at_type token = token_ADMIN then Some ADMIN_TOKEN_USER_id else None)\<rparr>))"

definition set_add :: "'a \<Rightarrow> 'a list \<Rightarrow> 'a list" where
  "set_add x xs = (if List.member xs x then xs else xs @ [x])"

definition getUserForToken ::
  "bool \<Rightarrow> string \<Rightarrow> token_service \<Rightarrow> (exn + api_user option) \<times> token_service" where
  "getUserForToken queryMissingTokens secret s =
     (if secret = [] then (Inr None, s)
      else (case find_active secret (ts_activeTokens s) of
          Inl e \<Rightarrow> (Inl e, s)
        | Inr found \<Rightarrow>
            (let queried = (if found = None \<and> queryMissingTokens then tokens_get secret (ts_db s) else None);
                 s1 = (case queried of None \<Rightarrow> s
                       | Some t \<Rightarrow> s\<lparr>ts_activeTokens := ts_activeTokens s @ [t]\<rparr>)
             in case (if found = None then queried else found) of
                  None \<Rightarrow> (Inr None, s1)
                | Some token \<Rightarrow>
                    (bindR (api_user_of token) (\<lambda>u. Inr (Some u)),
                     s1\<lparr>ts_lastSeenSecrets := set_add (at_secret token) (ts_lastSeenSecrets s1)\<rparr>))))"


section \<open>The middlewares\<close>

record http_request =
  rq_path :: "string option"
  rq_authorization :: "string option"
  rq_user :: "api_user option"
  rq_session_user :: "api_user option"

definition path_has :: "http_request \<Rightarrow> string \<Rightarrow> bool" where
  "path_has req p = (case rq_path req of None \<Rightarrow> False | Some path \<Rightarrow> str_includes path p)"

definition isClientApi :: "http_request \<Rightarrow> bool" where
  "isClientApi req = path_has req ''/api/client''"

definition isEdgeMetricsApi :: "http_request \<Rightarrow> bool" where
  "isEdgeMetricsApi req = path_has req ''/edge/metrics''"

definition isProxyApi :: "http_request \<Rightarrow> bool" where
  "isProxyApi req = (path_has req ''/api/proxy'' \<or> path_has req ''/api/development/proxy'' \<or>
     path_has req ''/api/production/proxy'' \<or> path_has req ''/api/frontend'')"

datatype mw_result = Next http_request | Send nat string

definition TOKEN_TYPE_ERROR_MESSAGE :: string where
  "TOKEN_TYPE_ERROR_MESSAGE = ''invalid token: expected a different token type for this endpoint''"

definition NO_TOKEN_WHERE_TOKEN_WAS_REQUIRED :: string where
  "NO_TOKEN_WHERE_TOKEN_WAS_REQUIRED = ''This endpoint requires an API token. Please add an authorization header to your request with a valid token''"

text \<open>The flags of the request's context are arguments; an exception is logged and the request goes on.\<close>

definition apiAccessMiddleware ::
  "bool \<Rightarrow> bool \<Rightarrow> bool \<Rightarrow> http_request \<Rightarrow> token_service \<Rightarrow> mw_result \<times> token_service" where
  "apiAccessMiddleware enableApiToken queryMissingTokens embedProxy req s =
     (if \<not> enableApiToken then (Next req, s)
      else if rq_user req \<noteq> None then (Next req, s)
      else if (case rq_authorization req of None \<Rightarrow> False | Some a \<Rightarrow> starts_with a ''user:'') then (Next req, s)
      else (case (if truthy (rq_authorization req)
                  then getUserForToken queryMissingTokens (the (rq_authorization req)) s
                  else (Inr None, s)) of
          (Inl _, s') \<Rightarrow> (Next req, s')
        | (Inr (Some apiUser), s') \<Rightarrow>
            (if (au_type apiUser = token_CLIENT \<and> \<not> isClientApi req \<and> \<not> isEdgeMetricsApi req)
               \<or> (au_type apiUser = token_FRONTEND \<and> \<not> isProxyApi req)
               \<or> (au_type apiUser = token_FRONTEND \<and> \<not> embedProxy)
             then Send 403 TOKEN_TYPE_ERROR_MESSAGE
             else Next (req\<lparr>rq_user := Some apiUser\<rparr>), s')
        | (Inr None, s') \<Rightarrow>
            (if isClientApi req \<or> isProxyApi req then Send 401 NO_TOKEN_WHERE_TOKEN_WAS_REQUIRED
             else Next req, s')))"

definition authorizationMiddleware :: "string \<Rightarrow> http_request \<Rightarrow> mw_result" where
  "authorizationMiddleware baseUriPath req =
     (if rq_session_user req \<noteq> None then Next (req\<lparr>rq_user := rq_session_user req\<rparr>)
      else if rq_user req \<noteq> None then Next req
      else if truthy (rq_authorization req) then Send 401 ''You must log in to use Unleash.''
      else Send 401 (''You must log in to use Unleash. Your request had no authorization header, so we could not authorize you. Try logging in at ''
             @ baseUriPath @ ''/auth/simple/login''))"

end
