(* ===== verification/TokenFacts.thy ===== *)
theory TokenFacts
  imports TokenService EvaluatorFacts
begin

text \<open>
  Lemmas of the token store and service: the keys the tables keep, what the queries return in terms
  of the tables, and the interface the authentication relies on (\<open>token_source\<close>).
\<close>

section \<open>The keys of the tables\<close>

definition token_db_ok :: "token_db \<Rightarrow> bool" where
  "token_db_ok db =
     (distinct (map tr_secret (db_tokens db)) \<and> distinct (db_links db) \<and>
      (\<forall>s p. (s, p) \<in> set (db_links db) \<longrightarrow>
         s \<in> tr_secret ` set (db_tokens db) \<and> p \<in> set (db_projects db) \<and> p \<noteq> ALL' \<and> p \<noteq> []) \<and>
      [] \<notin> set (db_projects db))"

text \<open>What a row reads as: with no link the token covers every project.\<close>

definition with_projects :: "api_token \<Rightarrow> string list \<Rightarrow> api_token" where
  "with_projects t ps = (if ps = [] then t else t\<lparr>at_projects := ps, at_project := join_with '','' ps\<rparr>)"

definition token_view :: "token_db \<Rightarrow> token_row \<Rightarrow> api_token" where
  "token_view db r = with_projects (token_of_row r) (links_of db (tr_secret r))"

lemma token_of_row_projects [simp]: "at_projects (token_of_row r) = [ALL']"
  by (simp add: token_of_row_def Let_def)

lemma token_of_row_secret [simp]: "at_secret (token_of_row r) = tr_secret r"
  by (simp add: token_of_row_def Let_def)

lemma token_of_row_expiry [simp]: "at_expiresAt (token_of_row r) = tr_expires_at r"
  by (simp add: token_of_row_def Let_def)

lemma token_view_simps [simp]:
  "at_secret (token_view db r) = tr_secret r"
  "at_expiresAt (token_view db r) = tr_expires_at r"
  "at_environment (token_view db r) = or_else (tr_environment r) ALL'"
  "at_type (token_view db r) = to_lower (tr_type r)"
  by (simp_all add: token_view_def with_projects_def, simp_all add: token_of_row_def Let_def)

lemma token_view_projects:
  "at_projects (token_view db r) = (if links_of db (tr_secret r) = [] then [ALL'] else links_of db (tr_secret r))"
  by (simp add: token_view_def with_projects_def)

lemma push_project_with:
  assumes "qs \<noteq> [ALL']"
  shows "push_project p (with_projects (token_of_row r) qs) = with_projects (token_of_row r) (qs @ [p])"
  using assms by (cases "qs = []")
    (simp_all add: push_project_def with_projects_def isAllProjects_def Let_def)

lemma links_of_ok:
  assumes "token_db_ok db" and "p \<in> set (links_of db s)"
  shows "p \<noteq> []" "p \<noteq> ALL'" "p \<in> set (db_projects db)" "s \<in> tr_secret ` set (db_tokens db)"
proof -
  from assms(2) have "(s, p) \<in> set (db_links db)"
    by (auto simp: links_of_def)
  with assms(1) show "p \<noteq> []" "p \<noteq> ALL'" "p \<in> set (db_projects db)" "s \<in> tr_secret ` set (db_tokens db)"
    by (auto simp: token_db_ok_def)
qed


lemma join_with_nonempty: "xs \<noteq> [] \<Longrightarrow> hd xs \<noteq> [] \<Longrightarrow> join_with sep xs \<noteq> []"
  by (cases xs rule: remdups_adj.cases) auto

text \<open>What the table's row of a created token reads as.\<close>

definition inserted_token :: "int \<Rightarrow> api_token_create \<Rightarrow> api_token" where
  "inserted_token now t =
     \<lparr>at_tokenName = tq_tokenName t, at_type = tq_type t,
      at_project = (let j = join_with '','' (tq_projects t) in if j = [] then ''*'' else j),
      at_projects = tq_projects t, at_environment = tq_environment t,
      at_expiresAt = tq_expiresAt t, at_createdAt = now,
      at_alias = (if truthy (tq_alias t) then tq_alias t else None), at_seenAt = None,
      at_username = tq_tokenName t, at_secret = tc_secret t\<rparr>"

lemma tokens_insert_answer:
  "tokens_insert now t db = Inr (tok, db') \<Longrightarrow> tok = inserted_token now t"
  by (auto simp: tokens_insert_def inserted_token_def bindR_Inr_iff)

lemma toRow_fields:
  "toRow now t = Some row \<Longrightarrow> tr_secret row = tc_secret t \<and> tr_type row = tq_type t \<and>
     tr_environment row = (if tq_environment t = ALL' then None else Some (tq_environment t))"
  by (auto simp: toRow_def Let_def)

lemma inserted_token_fields [simp]:
  "at_secret (inserted_token now t) = tc_secret t" "at_type (inserted_token now t) = tq_type t"
  "at_projects (inserted_token now t) = tq_projects t"
  "at_environment (inserted_token now t) = tq_environment t"
  by (simp_all add: inserted_token_def)

lemma or_else_Some: "e \<noteq> [] \<Longrightarrow> or_else (Some e) d = e"
  by (cases e) auto

lemma toRow_view:
  assumes "toRow now t = Some row" and "truthy (tq_tokenName t)" and "tq_environment t \<noteq> []"
    and "to_lower (tq_type t) = tq_type t"
  shows "token_of_row row = (inserted_token now t)\<lparr>at_projects := [ALL'], at_project := ALL'\<rparr>"
proof -
  from assms(2) obtain n where n: "tq_tokenName t = Some n" "n \<noteq> []" by (auto simp: truthy_iff)
  have row: "row = \<lparr>tr_secret = tc_secret t, tr_username = n, tr_token_name = Some n,
        tr_type = tq_type t, tr_environment = (if tq_environment t = ALL' then None else Some (tq_environment t)),
        tr_expires_at = tq_expiresAt t, tr_created_at = now,
        tr_alias = (if truthy (tq_alias t) then tq_alias t else None), tr_seen_at = None\<rparr>"
    using assms(1) n by (simp add: toRow_def)
  have "or_else None ALL' = ALL'" by simp
  then show ?thesis
    using assms(3,4) n by (simp add: row token_of_row_def inserted_token_def or_else_Some Let_def)
qed

lemma row_view_all:
  assumes "tq_projects t = [ALL']"
  shows "(inserted_token now t)\<lparr>at_projects := [ALL'], at_project := ALL'\<rparr> = inserted_token now t"
  using assms by (simp add: inserted_token_def token_type_defs)

lemma row_view_named:
  assumes "tq_projects t \<noteq> []" and "hd (tq_projects t) \<noteq> []"
  shows "with_projects ((inserted_token now t)\<lparr>at_projects := [ALL'], at_project := ALL'\<rparr>) (tq_projects t)
    = inserted_token now t"
  using assms join_with_nonempty [OF assms, of "'',''"]
  by (simp add: inserted_token_def with_projects_def)


section \<open>What the queries return\<close>

lemma map_other_keys:
  "x \<notin> fst ` set acc \<Longrightarrow> map (\<lambda>(k, t). (k, if k = x then f t else t)) acc = acc"
  by (intro map_idI) (force simp: image_iff)

lemma reducer_links:
  assumes "k = tr_secret r" and "k \<notin> fst ` set acc"
      and "\<forall>p\<in>set ps. p \<noteq> [] \<and> p \<noteq> ALL'" and "qs \<noteq> []" and "\<forall>p\<in>set qs. p \<noteq> ALL'"
  shows "foldl tokenRowReducer (acc @ [(k, with_projects (token_of_row r) qs)]) (map (\<lambda>p. (r, Some p)) ps)
       = acc @ [(k, with_projects (token_of_row r) (qs @ ps))]"
  using assms(3-5)
proof (induction ps arbitrary: qs)
  case Nil
  then show ?case by simp
next
  case (Cons p ps)
  have "qs \<noteq> [ALL']" using Cons.prems(3) by auto
  then have step: "tokenRowReducer (acc @ [(k, with_projects (token_of_row r) qs)]) (r, Some p)
      = acc @ [(k, with_projects (token_of_row r) (qs @ [p]))]"
    using assms(1,2) Cons.prems(1)
    by (simp add: tokenRowReducer_def Let_def push_project_with map_of_eq_None_iff map_other_keys)
  show ?case using Cons.IH [of "qs @ [p]"] Cons.prems step by simp
qed

lemma reducer_joined:
  assumes "token_db_ok db" and "tr_secret r \<notin> fst ` set acc"
  shows "foldl tokenRowReducer acc (joined db r) = acc @ [(tr_secret r, token_view db r)]"
proof (cases "links_of db (tr_secret r)")
  case Nil
  then show ?thesis using assms(2)
    by (simp add: joined_def tokenRowReducer_def Let_def token_view_def with_projects_def map_of_eq_None_iff)
next
  case (Cons p ps)
  have ok: "\<forall>q\<in>set (p # ps). q \<noteq> [] \<and> q \<noteq> ALL'"
    using links_of_ok [OF assms(1), of _ "tr_secret r"] Cons by auto
  have "tokenRowReducer acc (r, Some p) = acc @ [(tr_secret r, with_projects (token_of_row r) [p])]"
    using assms(2) ok push_project_with [of "[]" p r]
    by (simp add: tokenRowReducer_def Let_def map_of_eq_None_iff with_projects_def map_other_keys)
  then show ?thesis
    using reducer_links [of "tr_secret r" r acc ps "[p]"] assms(2) ok Cons
    by (simp add: joined_def token_view_def)
qed

lemma reducer_rows:
  assumes "token_db_ok db" and "distinct (map tr_secret rs)" and "fst ` set acc \<inter> tr_secret ` set rs = {}"
  shows "foldl tokenRowReducer acc (concat (map (joined db) rs))
       = acc @ map (\<lambda>r. (tr_secret r, token_view db r)) rs"
  using assms(2,3)
proof (induction rs arbitrary: acc)
  case Nil
  then show ?case by simp
next
  case (Cons r rs)
  have "tr_secret r \<notin> fst ` set acc" using Cons.prems(2) by auto
  then show ?case
    using Cons.IH [of "acc @ [(tr_secret r, token_view db r)]"] Cons.prems
    by (auto simp: reducer_joined [OF assms(1)] Int_def)
qed

lemma filter_joined:
  "filter (\<lambda>(r, p). P r) (concat (map (joined db) rs)) = concat (map (joined db) (filter P rs))"
proof -
  have "filter (\<lambda>(r, p). P r) (joined db r) = (if P r then joined db r else [])" for r
    by (auto simp: joined_def filter_empty_conv filter_id_conv split: list.splits)
  then show ?thesis by (induction rs) auto
qed

lemma map_of_keyed:
  "distinct (map f rs) \<Longrightarrow> r \<in> set rs \<Longrightarrow> map_of (map (\<lambda>r. (f r, g r)) rs) (f r) = Some (g r)"
  by (intro map_of_is_SomeI) (auto simp: comp_def)

lemma toTokens_rows:
  assumes "token_db_ok db" and "distinct (map tr_secret rs)"
  shows "set (toTokens (concat (map (joined db) rs))) = token_view db ` set rs"
proof -
  let ?m = "map (\<lambda>r. (tr_secret r, token_view db r)) rs"
  have "foldl tokenRowReducer [] (concat (map (joined db) rs)) = ?m"
    using reducer_rows [OF assms(1,2), of "[]"] by simp
  then have "toTokens (concat (map (joined db) rs)) = List.map_filter (map_of ?m) (object_keys ?m)"
    by (simp add: toTokens_def Let_def)
  moreover have "set (object_keys ?m) = tr_secret ` set rs"
    by (simp add: set_object_keys image_image)
  moreover have "map_of ?m (tr_secret r) = Some (token_view db r)" if "r \<in> set rs" for r
    using map_of_keyed [OF assms(2) that, of "token_view db"] .
  ultimately show ?thesis by (auto simp: List.map_filter_def image_iff)
qed

lemma find_row:
  assumes "distinct (map tr_secret rs)"
  shows "filter (\<lambda>r. tr_secret r = s) rs = (case find (\<lambda>r. tr_secret r = s) rs of None \<Rightarrow> [] | Some r \<Rightarrow> [r])"
  using assms
proof (induction rs)
  case Nil
  then show ?case by simp
next
  case (Cons a rs)
  have "filter (\<lambda>r. tr_secret r = tr_secret a) rs = []" using Cons.prems
    by (auto simp: filter_empty_conv) (metis image_eqI)
  with Cons show ?case by auto
qed

lemma toTokens_Nil [simp]: "toTokens [] = []"
  by (simp add: toTokens_def object_keys_def List.map_filter_def)

lemma toTokens_single [simp]: "toTokens [(r, None)] = [token_of_row r]"
  by (cases "is_index_key (tr_secret r)")
     (simp_all add: toTokens_def tokenRowReducer_def object_keys_def List.map_filter_def)

lemma toTokens_joined: "token_db_ok db \<Longrightarrow> toTokens (joined db r) = [token_view db r]"
  using reducer_joined [of db r "[]"]
  by (cases "is_index_key (tr_secret r)")
     (simp_all add: toTokens_def Let_def object_keys_def List.map_filter_def)

lemma tokens_get_spec:
  assumes "token_db_ok db"
  shows "tokens_get s db = map_option (token_view db) (find (\<lambda>r. tr_secret r = s) (db_tokens db))"
proof -
  have d: "distinct (map tr_secret (db_tokens db))" using assms by (simp add: token_db_ok_def)
  have "filter (\<lambda>(r, p). tr_secret r = s) (makeTokenProjectQuery db)
      = concat (map (joined db) (filter (\<lambda>r. tr_secret r = s) (db_tokens db)))"
    unfolding makeTokenProjectQuery_def by (rule filter_joined)
  then show ?thesis
    by (simp add: tokens_get_def find_row [OF d] toTokens_joined [OF assms] split: option.splits)
qed

lemma getAllActive_set:
  assumes "token_db_ok db"
  shows "set (getAllActive now db) = token_view db ` {r \<in> set (db_tokens db). row_active now r}"
proof -
  have "distinct (map tr_secret (filter (row_active now) (db_tokens db)))"
    using assms by (auto simp: token_db_ok_def distinct_map_filter)
  then show ?thesis
    using toTokens_rows [OF assms, of "filter (row_active now) (db_tokens db)"]
    by (simp add: getAllActive_def makeTokenProjectQuery_def filter_joined)
qed

lemma tokens_getAll_set:
  assumes "token_db_ok db"
  shows "set (tokens_getAll db) = token_view db ` set (db_tokens db)"
  using toTokens_rows [OF assms, of "db_tokens db"] assms
  by (simp add: tokens_getAll_def makeTokenProjectQuery_def token_db_ok_def)

lemma tokens_get_row:
  assumes "token_db_ok db" and "r \<in> set (db_tokens db)"
  shows "tokens_get (tr_secret r) db = Some (token_view db r)"
proof -
  have "find (\<lambda>x. tr_secret x = tr_secret r) (db_tokens db) = Some r"
    using assms by (intro find_key_distinct) (auto simp: token_db_ok_def)
  then show ?thesis by (simp add: tokens_get_spec [OF assms(1)])
qed


section \<open>Every operation keeps the keys\<close>

lemma with_secret_sel [simp]:
  "tc_secret (with_secret t s) = s" "tq_projects (with_secret t s) = tq_projects t"
  "tq_type (with_secret t s) = tq_type t" "tq_environment (with_secret t s) = tq_environment t"
  by (simp_all add: with_secret_def)

lemma insert_token_row_ok:
  "insert_token_row db row = Inr db' \<Longrightarrow> token_db_ok db \<Longrightarrow> token_db_ok db'"
  by (auto simp: insert_token_row_def token_db_ok_def split: option.splits if_splits) blast

lemma insert_link_ok:
  assumes "insert_link s db p = Inr db'" "token_db_ok db" "s \<in> tr_secret ` set (db_tokens db)" "p \<noteq> ALL'"
  shows "token_db_ok db' \<and> db_tokens db' = db_tokens db"
  using assms by (auto simp: insert_link_def token_db_ok_def split: if_splits) blast+

lemma insert_links_effect:
  assumes "foldR (insert_link s) db ps = Inr db'" "token_db_ok db" "s \<in> tr_secret ` set (db_tokens db)"
    and "\<forall>p\<in>set ps. p \<noteq> ALL'"
  shows "token_db_ok db' \<and> db' = db\<lparr>db_links := db_links db @ map (\<lambda>p. (s, p)) ps\<rparr>"
  using assms
proof (induction ps arbitrary: db)
  case Nil
  then show ?case by simp
next
  case (Cons p ps)
  from Cons.prems(1) obtain d where d: "insert_link s db p = Inr d" "foldR (insert_link s) d ps = Inr db'"
    by (auto simp: bindR_Inr_iff)
  have "d = db\<lparr>db_links := db_links db @ [(s, p)]\<rparr>"
    using d(1) by (auto simp: insert_link_def split: if_splits)
  moreover have "token_db_ok d" "db_tokens d = db_tokens db"
    using insert_link_ok [OF d(1)] Cons.prems by auto
  moreover from this have "token_db_ok db' \<and> db' = d\<lparr>db_links := db_links d @ map (\<lambda>p. (s, p)) ps\<rparr>"
    using Cons.prems by (intro Cons.IH [OF d(2)]) auto
  moreover have "db' = db\<lparr>db_links := db_links db @ map (\<lambda>p. (s, p)) (p # ps)\<rparr>"
    using calculation by simp
  ultimately show ?case by blast
qed

text \<open>What a successful insertion does: one row, one link for each named project.\<close>

lemma tokens_insert_effect:
  assumes "tokens_insert now t db = Inr (tok, db')" and "token_db_ok db"
  obtains row where "toRow now t = Some row" "tr_secret row \<notin> tr_secret ` set (db_tokens db)"
    "db' = db\<lparr>db_tokens := db_tokens db @ [row],
              db_links := db_links db @ map (\<lambda>p. (tc_secret t, p)) (filter (\<lambda>p. p \<noteq> ALL') (tq_projects t))\<rparr>"
    "token_db_ok db'"
proof -
  from assms(1) obtain d1 where d1: "insert_token_row db (toRow now t) = Inr d1"
    and d2: "foldR (insert_link (tc_secret t)) d1 (filter (\<lambda>p. p \<noteq> ALL') (tq_projects t)) = Inr db'"
    by (auto simp: tokens_insert_def bindR_Inr_iff)
  from d1 obtain row where row: "toRow now t = Some row" "tr_secret row \<notin> tr_secret ` set (db_tokens db)"
      "d1 = db\<lparr>db_tokens := db_tokens db @ [row]\<rparr>"
    by (auto simp: insert_token_row_def split: option.splits if_splits)
  have "tr_secret row = tc_secret t" using row(1) by (auto simp: toRow_def Let_def)
  then have "tc_secret t \<in> tr_secret ` set (db_tokens d1)" using row(3) by simp
  then have e: "token_db_ok db' \<and> db' = d1\<lparr>db_links := db_links d1 @ map (\<lambda>p. (tc_secret t, p))
      (filter (\<lambda>p. p \<noteq> ALL') (tq_projects t))\<rparr>"
    by (rule insert_links_effect [OF d2 insert_token_row_ok [OF d1 assms(2)]]) simp
  have "db' = db\<lparr>db_tokens := db_tokens db @ [row],
      db_links := db_links db @ map (\<lambda>p. (tc_secret t, p)) (filter (\<lambda>p. p \<noteq> ALL') (tq_projects t))\<rparr>"
    using e row(3) by simp
  then show thesis using e row by (intro that) blast+
qed

lemma tokens_insert_ok:
  "tokens_insert now t db = Inr (tok, db') \<Longrightarrow> token_db_ok db \<Longrightarrow> token_db_ok db'"
  by (erule tokens_insert_effect) auto

lemma tokens_delete_ok: "token_db_ok db \<Longrightarrow> token_db_ok (tokens_delete s db)"
  by (auto simp: token_db_ok_def tokens_delete_def distinct_map_filter image_iff)

lemma projects_delete_ok: "token_db_ok db \<Longrightarrow> token_db_ok (projects_delete p db)"
  by (auto simp: token_db_ok_def projects_delete_def)

lemma map_rows_ok:
  assumes "token_db_ok db" and "\<And>r. tr_secret (f r) = tr_secret r"
  shows "token_db_ok (db\<lparr>db_tokens := map f (db_tokens db)\<rparr>)"
  using assms by (simp add: token_db_ok_def comp_def image_image)

lemma markSeenAt_ok: "token_db_ok db \<Longrightarrow> token_db_ok (markSeenAt now ss db)"
  unfolding markSeenAt_def by (rule map_rows_ok) auto

lemma setExpiry_effect:
  assumes "setExpiry s e db = Inr (t, db')"
  shows "db' = db\<lparr>db_tokens := map (\<lambda>r. if tr_secret r = s then r\<lparr>tr_expires_at := e\<rparr> else r) (db_tokens db)\<rparr>"
  using assms by (auto simp: setExpiry_def Let_def split: list.splits)

lemma setExpiry_ok: "setExpiry s e db = Inr (t, db') \<Longrightarrow> token_db_ok db \<Longrightarrow> token_db_ok db'"
  by (drule setExpiry_effect) (auto intro: map_rows_ok)



section \<open>The interface of the cache of active tokens\<close>

text \<open>
  What authentication relies on when it looks a secret up in a refreshed cache: every token the
  source calls active is stored under its secret, and has not expired.
\<close>

lemma findR_Some_in: "findR P xs = Inr (Some x) \<Longrightarrow> x \<in> set xs \<and> P x = Inr True"
  by (induction xs) (auto simp: bindR_Inr_iff split: if_splits)

lemma findR_None_all: "findR P xs = Inr None \<Longrightarrow> x \<in> set xs \<Longrightarrow> P x = Inr False"
  by (induction xs) (auto simp: bindR_Inr_iff split: if_splits)

lemma constantTimeCompare_True: "constantTimeCompare a b = Inr True \<Longrightarrow> a = b \<and> a \<noteq> []"
  by (auto simp: constantTimeCompare_def split: if_splits)

lemma constantTimeCompare_False: "constantTimeCompare a b = Inr False \<Longrightarrow> a \<noteq> [] \<Longrightarrow> a \<noteq> b"
  by (auto simp: constantTimeCompare_def split: if_splits)

lemma find_active_Some:
  assumes "find_active secret ts = Inr (Some t)"
  shows "t \<in> set ts" "at_secret t = secret \<or> at_alias t = Some secret" "secret \<noteq> []"
proof -
  let ?P = "\<lambda>t. if at_secret t \<noteq> [] then constantTimeCompare (at_secret t) secret else Inr False"
  let ?Q = "\<lambda>t. if truthy (at_alias t) then constantTimeCompare (the (at_alias t)) secret else Inr False"
  from assms have "findR ?P ts = Inr (Some t) \<or> findR ?Q ts = Inr (Some t)"
    by (auto simp: find_active_def bindR_Inr_iff split: option.splits)
  then have "t \<in> set ts \<and> (?P t = Inr True \<or> ?Q t = Inr True)" by (blast dest: findR_Some_in)
  then have "t \<in> set ts \<and> (at_secret t = secret \<and> secret \<noteq> [] \<or> at_alias t = Some secret \<and> secret \<noteq> [])"
    by (auto simp: truthy_iff dest!: constantTimeCompare_True split: if_splits)
  then show "t \<in> set ts" "at_secret t = secret \<or> at_alias t = Some secret" "secret \<noteq> []" by blast+
qed

lemma find_active_None:
  assumes "find_active secret ts = Inr None" and "t \<in> set ts" and "secret \<noteq> []"
  shows "at_secret t \<noteq> secret" "at_alias t \<noteq> Some secret"
proof -
  let ?P = "\<lambda>t. if at_secret t \<noteq> [] then constantTimeCompare (at_secret t) secret else Inr False"
  let ?Q = "\<lambda>t. if truthy (at_alias t) then constantTimeCompare (the (at_alias t)) secret else Inr False"
  from assms(1) have "findR ?P ts = Inr None" "findR ?Q ts = Inr None"
    by (auto simp: find_active_def bindR_Inr_iff split: option.splits)
  then have t: "?P t = Inr False" "?Q t = Inr False" using assms(2) by (blast dest: findR_None_all)+
  show "at_secret t \<noteq> secret"
    using t(1) assms(3) by (auto dest: constantTimeCompare_False split: if_splits)
  show "at_alias t \<noteq> Some secret"
    using t(2) assms(3) by (auto dest: constantTimeCompare_False split: if_splits)
qed

locale token_source =
  fixes lookup :: "string \<Rightarrow> 'db \<Rightarrow> api_token option"
    and active :: "int \<Rightarrow> 'db \<Rightarrow> api_token list"
    and ok :: "'db \<Rightarrow> bool"
  assumes active_lookup: "ok db \<Longrightarrow> t \<in> set (active now db) \<Longrightarrow> lookup (at_secret t) db = Some t"
    and active_fresh: "ok db \<Longrightarrow> t \<in> set (active now db) \<Longrightarrow> at_expiresAt t = None \<or> now < the (at_expiresAt t)"
    and lookup_active: "ok db \<Longrightarrow> lookup s db = Some t
      \<Longrightarrow> at_expiresAt t = None \<or> now < the (at_expiresAt t) \<Longrightarrow> t \<in> set (active now db)"
begin

text \<open>A token found in a refreshed cache is stored and has not expired.\<close>

lemma found_is_active:
  assumes "ok db" and "find_active secret (active now db) = Inr (Some t)"
  shows "lookup (at_secret t) db = Some t \<and> (at_expiresAt t = None \<or> now < the (at_expiresAt t))
    \<and> (at_secret t = secret \<or> at_alias t = Some secret)"
  using active_lookup [OF assms(1)] active_fresh [OF assms(1)] find_active_Some [OF assms(2)] by blast

text \<open>A secret that is not found is not that of a stored token that has not expired.\<close>

lemma not_found_not_active:
  assumes "ok db" and "find_active secret (active now db) = Inr None" and "secret \<noteq> []"
    and "lookup s db = Some t" and "at_expiresAt t = None \<or> now < the (at_expiresAt t)"
  shows "at_secret t \<noteq> secret"
  using find_active_None(1) [OF assms(2) lookup_active [OF assms(1,4,5)] assms(3)] .

end

interpretation tokens: token_source tokens_get getAllActive token_db_ok
proof unfold_locales
  fix db t now
  assume db: "token_db_ok db" and "t \<in> set (getAllActive now db)"
  then obtain r where r: "r \<in> set (db_tokens db)" "row_active now r" "t = token_view db r"
    by (auto simp: getAllActive_set)
  then show "tokens_get (at_secret t) db = Some t" using tokens_get_row [OF db r(1)] by simp
  show "at_expiresAt t = None \<or> now < the (at_expiresAt t)"
    using r by (auto simp: row_active_def split: option.splits)
next
  fix db s t now
  assume db: "token_db_ok db" and "tokens_get s db = Some t"
    and e: "at_expiresAt t = None \<or> now < the (at_expiresAt t)"
  then obtain r where r: "r \<in> set (db_tokens db)" "t = token_view db r"
    by (auto simp: tokens_get_spec dest: find_Some_in)
  then show "t \<in> set (getAllActive now db)"
    using e by (auto simp: getAllActive_set [OF db] row_active_def split: option.splits)
qed


text \<open>A stored token gives a user: the row's name is not null, so the constructor does not throw.\<close>

lemma api_user_of_view:
  "tr_username r \<noteq> [] \<Longrightarrow> \<exists>u. api_user_of (token_view db r) = Inr u \<and> au_secret u = tr_secret r"
  by (simp add: api_user_of_def new_ApiUser_def token_view_def with_projects_def token_of_row_def Let_def)


section \<open>Reachable states of the service\<close>

text \<open>
  One operation of the service, or a change of the tables it reads by another service: a project is
  created or deleted. The configuration validates the initial tokens it parses.
\<close>

inductive token_step :: "token_service \<Rightarrow> token_service \<Rightarrow> bool" where
  step_create: "internalCreateApiTokenWithProjects rnd now t who uid s = Inr (tok, s') \<Longrightarrow> token_step s s'"
| step_migrate: "createMigratedProxyApiToken rnd now t s = Inr (tok, s') \<Longrightarrow> token_step s s'"
| step_init: "\<forall>(l, sec)\<in>set ts. \<forall>t. mapLegacyToken l = Inr t \<longrightarrow> validateApiToken t = Inr ()
    \<Longrightarrow> token_step s (initApiTokens now ts s)"
| step_fetch: "token_step s (fetchActiveTokens now s)"
| step_active: "token_step s (snd (getAllActiveTokens memo now s))"
| step_seen: "token_step s (updateLastSeen now s)"
| step_expiry: "updateExpiry secret e who uid s = Inr (tok, s') \<Longrightarrow> token_step s s'"
| step_delete: "token_step s (token_delete secret who uid s)"
| step_auth: "token_step s (snd (getUserForToken query secret s))"
| step_project: "pid \<noteq> [] \<Longrightarrow> token_step s (s\<lparr>ts_db := (ts_db s)\<lparr>db_projects := pid # db_projects (ts_db s)\<rparr>\<rparr>)"
| step_project_deleted: "token_step s (s\<lparr>ts_db := projects_delete pid (ts_db s)\<rparr>)"

text \<open>The scope the validation promises, on the tables.\<close>

definition scoped_row :: "token_db \<Rightarrow> token_row \<Rightarrow> bool" where
  "scoped_row db r =
     ((tr_type r = token_ADMIN \<longrightarrow> tr_environment r = None \<and> links_of db (tr_secret r) = []) \<and>
      (tr_type r = token_CLIENT \<or> tr_type r = token_FRONTEND \<longrightarrow> tr_environment r \<noteq> None))"

definition tokens_scoped :: "token_db \<Rightarrow> bool" where
  "tokens_scoped db = (token_db_ok db \<and> (\<forall>r\<in>set (db_tokens db). scoped_row db r))"

lemma validateApiToken_iff:
  "validateApiToken t = Inr () \<longleftrightarrow>
     (tq_type t = token_ADMIN \<longrightarrow> tq_projects t = [ALL'] \<and> tq_environment t = ALL') \<and>
     (tq_type t = token_CLIENT \<or> tq_type t = token_FRONTEND \<longrightarrow> tq_environment t \<noteq> ALL')"
  by (auto simp: validateApiToken_def isAllProjects_def token_type_defs)

lemma links_of_append [simp]:
  "links_of (db\<lparr>db_links := db_links db @ map (\<lambda>p. (s, p)) ps\<rparr>) s' =
     links_of db s' @ (if s' = s then ps else [])"
  by (auto simp: links_of_def filter_empty_conv comp_def)

lemma links_of_tokens_update [simp]: "links_of (db\<lparr>db_tokens := xs\<rparr>) = links_of db"
  by (auto simp: links_of_def fun_eq_iff)

lemma links_of_projects_update [simp]: "links_of (db\<lparr>db_projects := xs\<rparr>) = links_of db"
  by (auto simp: links_of_def fun_eq_iff)

lemma links_of_fresh:
  "token_db_ok db \<Longrightarrow> s \<notin> tr_secret ` set (db_tokens db) \<Longrightarrow> links_of db s = []"
  by (auto simp: links_of_def token_db_ok_def filter_empty_conv)


lemma tokens_insert_scoped:
  assumes "tokens_insert now t db = Inr (tok, db')" and "tokens_scoped db"
    and v: "(tq_type t = token_ADMIN \<longrightarrow> tq_projects t = [ALL'] \<and> tq_environment t = ALL') \<and>
      (tq_type t = token_CLIENT \<or> tq_type t = token_FRONTEND \<longrightarrow> tq_environment t \<noteq> ALL')"
  shows "tokens_scoped db'"
proof -
  have db: "token_db_ok db" using assms(2) by (simp add: tokens_scoped_def)
  from assms(1) db obtain row where row: "toRow now t = Some row" "tr_secret row \<notin> tr_secret ` set (db_tokens db)"
    and db': "db' = db\<lparr>db_tokens := db_tokens db @ [row],
        db_links := db_links db @ map (\<lambda>p. (tc_secret t, p)) (filter (\<lambda>p. p \<noteq> ALL') (tq_projects t))\<rparr>"
    and ok: "token_db_ok db'"
    by (rule tokens_insert_effect)
  have r: "tr_secret row = tc_secret t" "tr_type row = tq_type t"
      "tr_environment row = (if tq_environment t = ALL' then None else Some (tq_environment t))"
    using toRow_fields [OF row(1)] by simp_all
  have l: "links_of db' s = links_of db s @ (if s = tc_secret t then filter (\<lambda>p. p \<noteq> ALL') (tq_projects t) else [])" for s
    by (auto simp: db' links_of_def filter_empty_conv comp_def)
  have "scoped_row db' row"
    using v r links_of_fresh [OF db row(2)] by (auto simp: scoped_row_def l)
  moreover have "scoped_row db' x" if "x \<in> set (db_tokens db)" for x
  proof -
    have "tr_secret x \<noteq> tc_secret t" using that row(2) r(1) by (metis image_eqI)
    with that assms(2) show ?thesis by (auto simp: scoped_row_def l tokens_scoped_def)
  qed
  ultimately show ?thesis using ok by (auto simp: tokens_scoped_def db')
qed

lemma insertNewApiToken_scoped:
  assumes "insertNewApiToken now (with_secret t sec) c u s = Inr (tok, s')"
    and "validateApiToken t = Inr ()" and "tokens_scoped (ts_db s)"
  shows "tokens_scoped (ts_db s')"
proof -
  from assms(1) obtain db' where "tokens_insert now (with_secret t sec) (ts_db s) = Inr (tok, db')" "ts_db s' = db'"
    by (auto simp: insertNewApiToken_def split: sum.splits)
  then show ?thesis
    using tokens_insert_scoped [of now "with_secret t sec"] assms(2,3) by (simp add: validateApiToken_iff)
qed

lemma map_rows_scoped:
  assumes "tokens_scoped db" and "\<And>r. tr_secret (f r) = tr_secret r" "\<And>r. tr_type (f r) = tr_type r"
    "\<And>r. tr_environment (f r) = tr_environment r"
  shows "tokens_scoped (db\<lparr>db_tokens := map f (db_tokens db)\<rparr>)"
  using assms map_rows_ok [of db f] by (auto simp: tokens_scoped_def scoped_row_def)

lemma links_of_subset:
  "links_of db s = [] \<Longrightarrow> set (db_links db') \<subseteq> set (db_links db) \<Longrightarrow> links_of db' s = []"
  by (auto simp: links_of_def filter_empty_conv)

lemma delete_scoped:
  assumes "tokens_scoped db" and "token_db_ok db'"
    and "set (db_tokens db') \<subseteq> set (db_tokens db)" and "set (db_links db') \<subseteq> set (db_links db)"
  shows "tokens_scoped db'"
  using assms links_of_subset [OF _ assms(4)] by (auto simp: tokens_scoped_def scoped_row_def)

lemma initApiTokens_scoped:
  assumes v: "\<forall>(l, sec)\<in>set ts. \<forall>t. mapLegacyToken l = Inr t \<longrightarrow> validateApiToken t = Inr ()"
    and s: "tokens_scoped (ts_db s)"
  shows "tokens_scoped (ts_db (initApiTokens now ts s))"
proof (cases "mapR mapLegacyTokenWithSecret ts")
  case (Inl e)
  then show ?thesis using s by (simp add: initApiTokens_def)
next
  case (Inr cs)
  let ?ins = "\<lambda>s t. case insertNewApiToken now t (CreatorName ''init-api-tokens'') SYSTEM_USER_ID s of
                Inl _ \<Rightarrow> s | Inr (_, s') \<Rightarrow> s'"
  have cs: "\<forall>c\<in>set cs. \<exists>t sec. c = with_secret t sec \<and> validateApiToken t = Inr ()"
    using Inr v
    by (induction ts arbitrary: cs) (fastforce simp: bindR_Inr_iff mapLegacyTokenWithSecret_def)+
  have "tokens_scoped (ts_db (foldl ?ins s cs))"
    using cs s
  proof (induction cs arbitrary: s)
    case Nil
    then show ?case by simp
  next
    case (Cons c cs)
    then obtain t sec where c: "c = with_secret t sec" "validateApiToken t = Inr ()" by auto
    have "tokens_scoped (ts_db (?ins s c))"
      using insertNewApiToken_scoped [of now t sec, OF _ c(2) Cons.prems(2)] Cons.prems(2) c(1)
      by (auto split: sum.splits)
    then show ?case using Cons by simp
  qed
  then show ?thesis using s Inr by (simp add: initApiTokens_def)
qed

lemma getUserForToken_db [simp]: "ts_db (snd (getUserForToken q secret s)) = ts_db s"
  by (simp add: getUserForToken_def Let_def split: sum.splits option.splits)

lemma token_step_scoped:
  assumes "token_step s s'" and "tokens_scoped (ts_db s)"
  shows "tokens_scoped (ts_db s')"
  using assms
proof (cases rule: token_step.cases)
  case (step_create rnd now t who uid tok)
  then show ?thesis using assms(2)
    by (auto simp: internalCreateApiTokenWithProjects_def bindR_Inr_iff dest: insertNewApiToken_scoped)
next
  case (step_migrate rnd now t tok)
  then show ?thesis using assms(2)
    by (auto simp: createMigratedProxyApiToken_def bindR_Inr_iff dest: insertNewApiToken_scoped)
next
  case (step_init ts now)
  then show ?thesis using initApiTokens_scoped assms(2) by blast
next
  case (step_fetch now)
  then show ?thesis using assms(2) by (simp add: fetchActiveTokens_def)
next
  case (step_active memo now)
  then show ?thesis using assms(2) by (simp add: getAllActiveTokens_def fetchActiveTokens_def Let_def)
next
  case (step_seen now)
  have "tokens_scoped (markSeenAt now (ts_lastSeenSecrets s) (ts_db s))"
    unfolding markSeenAt_def using assms(2) by (rule map_rows_scoped) auto
  then show ?thesis using step_seen assms(2) by (simp add: updateLastSeen_def)
next
  case (step_expiry secret e who uid tok)
  then obtain db' where "setExpiry secret e (ts_db s) = Inr (tok, db')" "ts_db s' = db'"
    by (auto simp: updateExpiry_def Let_def bindR_Inr_iff)
  then show ?thesis using map_rows_scoped [OF assms(2)] by (auto dest!: setExpiry_effect)
next
  case (step_delete secret who uid)
  have "tokens_scoped (tokens_delete secret (ts_db s))"
    using assms(2) tokens_delete_ok [of "ts_db s" secret]
    by (rule delete_scoped) (use assms(2) in \<open>auto simp: tokens_scoped_def tokens_delete_def\<close>)
  then show ?thesis using step_delete assms(2) by (auto simp: token_delete_def split: option.splits)
next
  case (step_auth query secret)
  then show ?thesis using assms(2) by simp
next
  case (step_project pid)
  then show ?thesis using assms(2) by (auto simp: tokens_scoped_def scoped_row_def token_db_ok_def)
next
  case (step_project_deleted pid)
  have "tokens_scoped (projects_delete pid (ts_db s))"
    using assms(2) projects_delete_ok [of "ts_db s" pid]
    by (rule delete_scoped) (use assms(2) in \<open>auto simp: tokens_scoped_def projects_delete_def\<close>)
  then show ?thesis using step_project_deleted by simp
qed

lemma reachable_scoped:
  "token_step\<^sup>*\<^sup>* s s' \<Longrightarrow> tokens_scoped (ts_db s) \<Longrightarrow> tokens_scoped (ts_db s')"
  by (induction rule: rtranclp_induct) (auto intro: token_step_scoped)

end
