(* ===== verification/TokenProperties.thy ===== *)
theory TokenProperties
  imports TokenFacts
begin

text \<open>
  The properties of the API tokens: what is stored is what is read, the scope of every token in
  every reachable state, who is authenticated and until when, and what reaches the client API.
\<close>

section \<open>Concrete tables for the witnesses\<close>

definition row0 :: token_row where
  "row0 = \<lparr>tr_secret = ''p1:dev.aa'', tr_username = ''t0'', tr_token_name = Some ''t0'',
     tr_type = ''client'', tr_environment = Some ''dev'', tr_expires_at = Some 100, tr_created_at = 1,
     tr_alias = None, tr_seen_at = None\<rparr>"

definition db0 :: token_db where
  "db0 = \<lparr>db_tokens = [row0], db_links = [(''p1:dev.aa'', ''p1'')], db_projects = [''p1'', ''p2''],
     db_environments = [''dev''], db_message = (\<lambda>c. c)\<rparr>"

definition service0 :: token_service where
  "service0 = \<lparr>ts_db = db0, ts_activeTokens = [], ts_initialized = False, ts_lastSeenSecrets = [],
     ts_events = []\<rparr>"

definition request0 :: token_request where
  "request0 = \<lparr>tq_tokenName = Some ''new'', tq_alias = None, tq_type = ''client'', tq_environment = ''dev'',
     tq_projects = [''p1'', ''p2''], tq_expiresAt = None, tq_username = None\<rparr>"

definition http0 :: http_request where
  "http0 = \<lparr>rq_path = Some ''/api/client/features'', rq_authorization = Some ''p1:dev.aa'',
     rq_user = None, rq_session_user = None\<rparr>"

lemma db0_ok: "token_db_ok db0"
  by (simp add: token_db_ok_def db0_def row0_def token_type_defs)

lemma db0_scoped: "tokens_scoped db0"
  using db0_ok by (simp add: tokens_scoped_def db0_def scoped_row_def row0_def token_type_defs)


section \<open>Store\<close>

text \<open>
  C39: what \<open>insert\<close> answers for a request with a name, an environment and its projects (either all of
  them or named ones) is what \<open>get\<close> reads back for the secret.
\<close>

theorem token_roundtrip:
  assumes "token_db_ok db" and "tokens_insert now t db = Inr (tok, db')"
    and "truthy (tq_tokenName t)" and "tq_environment t \<noteq> []" and "tq_projects t \<noteq> []"
    and "ALL' \<in> set (tq_projects t) \<longrightarrow> tq_projects t = [ALL']" and "to_lower (tq_type t) = tq_type t"
  shows "tokens_get (tc_secret t) db' = Some tok"
proof -
  let ?ps = "filter (\<lambda>p. p \<noteq> ALL') (tq_projects t)"
  from assms(2,1) obtain row where row: "toRow now t = Some row" "tr_secret row \<notin> tr_secret ` set (db_tokens db)"
    and db': "db' = db\<lparr>db_tokens := db_tokens db @ [row],
        db_links := db_links db @ map (\<lambda>p. (tc_secret t, p)) ?ps\<rparr>" and ok: "token_db_ok db'"
    by (rule tokens_insert_effect)
  have sec: "tr_secret row = tc_secret t" using row(1) by (auto simp: toRow_def Let_def)
  have l: "links_of db' (tc_secret t) = ?ps"
    using links_of_fresh [OF assms(1) row(2)] sec
    by (simp add: db' links_of_def filter_empty_conv comp_def)
  have view: "tokens_get (tc_secret t) db' = Some (with_projects (token_of_row row) ?ps)"
    using tokens_get_row [OF ok, of row] sec l by (simp add: db' token_view_def)
  show ?thesis
  proof (cases "tq_projects t = [ALL']")
    case True
    then show ?thesis
      using view row_view_all [of t now] toRow_view [OF row(1) assms(3,4,7)] tokens_insert_answer [OF assms(2)]
      by (simp add: with_projects_def)
  next
    case False
    then have ps: "?ps = tq_projects t" using assms(6) by (auto simp: filter_id_conv)
    then have "hd (tq_projects t) \<noteq> []"
      using links_of_ok(1) [OF ok, of "hd (tq_projects t)" "tc_secret t"] l assms(5) by simp
    then show ?thesis
      using view ps row_view_named [OF assms(5), of now] toRow_view [OF row(1) assms(3,4,7)]
        tokens_insert_answer [OF assms(2)] by simp
  qed
qed

lemma token_roundtrip_witness:
  "\<exists>tok db'. tokens_insert 5 (with_secret request0 ''s'') db0 = Inr (tok, db') \<and>
     tokens_get ''s'' db' = Some tok"
proof -
  have "\<exists>tok db'. tokens_insert 5 (with_secret request0 ''s'') db0 = Inr (tok, db')"
    by (simp add: tokens_insert_def with_secret_def request0_def db0_def row0_def toRow_def
        insert_token_row_def insert_link_def token_type_defs)
  then obtain tok db' where ins: "tokens_insert 5 (with_secret request0 ''s'') db0 = Inr (tok, db')" by blast
  moreover have "tokens_get (tc_secret (with_secret request0 ''s'')) db' = Some tok"
    by (rule token_roundtrip [OF db0_ok ins])
      (simp_all add: with_secret_def request0_def token_type_defs to_lower_def lower_char_def Let_def)
  ultimately show ?thesis by auto
qed

text \<open>
  A token the service has created has the scope the validation promises: an admin token has
  every project and every environment; a client or frontend token has one existing environment; the
  projects it names exist, and the token is stored, cached and recorded in an event.
\<close>

theorem created_token_scope:
  assumes "internalCreateApiTokenWithProjects rnd now t who uid s = Inr (tok, s')"
    and "token_db_ok (ts_db s)"
  shows "(at_type tok = token_ADMIN \<longrightarrow> at_projects tok = [ALL'] \<and> at_environment tok = ALL')
    \<and> (at_type tok = token_CLIENT \<or> at_type tok = token_FRONTEND \<longrightarrow>
            at_environment tok \<in> set (db_environments (ts_db s)) - {ALL'})
    \<and> set (at_projects tok) \<subseteq> insert ALL' (set (db_projects (ts_db s)))
    \<and> tokens_exists (at_secret tok) (ts_db s') \<and> last (ts_activeTokens s') = tok
    \<and> last (ts_events s') = ApiTokenCreated (event_createdBy who) uid (omit_secret tok)"
proof -
  let ?t = "with_secret t (generateSecretKey rnd t)"
  from assms(1) obtain db' where v: "validateApiToken t = Inr ()"
    and e: "validateApiTokenEnvironment t (db_environments (ts_db s)) = Inr ()"
    and ins: "tokens_insert now ?t (ts_db s) = Inr (tok, db')"
    and s': "s' = s\<lparr>ts_db := db', ts_activeTokens := ts_activeTokens s @ [tok],
        ts_events := ts_events s @ [ApiTokenCreated (event_createdBy who) uid (omit_secret tok)]\<rparr>"
    by (auto simp: internalCreateApiTokenWithProjects_def bindR_Inr_iff insertNewApiToken_def split: sum.splits)
  have tok: "tok = inserted_token now ?t" by (rule tokens_insert_answer [OF ins])
  have env: "tq_environment t \<noteq> ALL' \<longrightarrow> tq_environment t \<in> set (db_environments (ts_db s))"
    using e by (auto simp: validateApiTokenEnvironment_def split: if_splits option.splits dest: find_Some_in)
  from ins assms(2) obtain row where row: "toRow now ?t = Some row"
    and db': "db' = (ts_db s)\<lparr>db_tokens := db_tokens (ts_db s) @ [row],
        db_links := db_links (ts_db s) @ map (\<lambda>p. (tc_secret ?t, p)) (filter (\<lambda>p. p \<noteq> ALL') (tq_projects ?t))\<rparr>"
    and ok: "token_db_ok db'"
    by (rule tokens_insert_effect)
  have "p \<in> set (db_projects db')" if "p \<in> set (tq_projects t)" "p \<noteq> ALL'" for p
  proof -
    have "(tc_secret ?t, p) \<in> set (db_links db')" using that by (auto simp: db')
    then show ?thesis using ok by (auto simp: token_db_ok_def)
  qed
  then have "set (at_projects tok) \<subseteq> insert ALL' (set (db_projects (ts_db s)))"
    unfolding tok by (auto simp: db')
  moreover have "tokens_exists (at_secret tok) db'"
    using toRow_fields [OF row] by (simp add: db' tokens_exists_def tok)
  ultimately show ?thesis using v env s' by (simp add: tok validateApiToken_iff)
qed

lemma created_token_scope_witness:
  "\<exists>tok s'. internalCreateApiTokenWithProjects ''r'' 5 request0 (CreatorName ''a'') 7 service0 = Inr (tok, s')
     \<and> at_environment tok = ''dev'' \<and> set (at_projects tok) \<subseteq> {''*'', ''p1'', ''p2''}"
proof -
  have "\<exists>tok s'. internalCreateApiTokenWithProjects ''r'' 5 request0 (CreatorName ''a'') 7 service0 = Inr (tok, s')"
    by (simp add: internalCreateApiTokenWithProjects_def insertNewApiToken_def tokens_insert_def with_secret_def
        request0_def service0_def db0_def row0_def toRow_def validateApiToken_def validateApiTokenEnvironment_def
        insert_token_row_def insert_link_def token_type_defs generateSecretKey_def)
  then obtain tok s' where c: "internalCreateApiTokenWithProjects ''r'' 5 request0 (CreatorName ''a'') 7 service0 = Inr (tok, s')"
    by blast
  have db: "token_db_ok (ts_db service0)" using db0_ok by (simp add: service0_def)
  have "at_type tok = token_CLIENT"
    using c by (auto simp: internalCreateApiTokenWithProjects_def insertNewApiToken_def bindR_Inr_iff
        request0_def token_CLIENT_def dest!: tokens_insert_answer split: sum.splits)
  then show ?thesis
    using created_token_scope [OF c db] c by (auto simp: service0_def db0_def token_type_defs)
qed



text \<open>
  deleting the last project a token is limited to does not revoke the token: it then reads as a
  token for every project.
\<close>

theorem project_deletion_widens_token:
  assumes "token_db_ok db" and "r \<in> set (db_tokens db)" and "links_of db (tr_secret r) = [p]"
  shows "\<exists>t t'. tokens_get (tr_secret r) db = Some t \<and> at_projects t = [p] \<and>
    tokens_get (tr_secret r) (projects_delete p db) = Some t' \<and> at_projects t' = [ALL'] \<and> at_type t' = at_type t"
proof -
  have "\<forall>l\<in>set (db_links db). fst l = tr_secret r \<longrightarrow> snd l = p"
    using arg_cong [OF assms(3), of set] by (force simp: links_of_def)
  then have "filter (\<lambda>l. snd l \<noteq> p \<and> fst l = tr_secret r) (db_links db) = []"
    by (auto simp: filter_empty_conv)
  then have "links_of (projects_delete p db) (tr_secret r) = []"
    by (simp add: links_of_def projects_delete_def filter_filter conj_commute)
  moreover have "r \<in> set (db_tokens (projects_delete p db))" using assms(2) by (simp add: projects_delete_def)
  ultimately show ?thesis
    using tokens_get_row [OF assms(1,2)] tokens_get_row [OF projects_delete_ok [OF assms(1)], of r p] assms(3)
    by (simp add: token_view_projects)
qed

lemma project_deletion_widens_token_witness:
  "\<exists>t'. tokens_get ''p1:dev.aa'' (projects_delete ''p1'' db0) = Some t' \<and> at_projects t' = [''*'']"
  using project_deletion_widens_token [OF db0_ok, of row0 "''p1''"]
  by (auto simp: db0_def row0_def links_of_def token_type_defs)

text \<open>
  \<open>updateExpiry\<close> changes the expiry and nothing else of the stored token, but the token it
  answers with (and writes in its event) claims every project, whatever the scope of the token.
\<close>

theorem expiry_update_reports_all_projects:
  assumes "updateExpiry secret e who uid s = Inr (tok, s')" and "token_db_ok (ts_db s)"
  shows "\<exists>t. tokens_get secret (ts_db s) = Some t \<and>
      tokens_get secret (ts_db s') = Some (t\<lparr>at_expiresAt := e\<rparr>) \<and>
      at_projects tok = [ALL'] \<and> at_expiresAt tok = e \<and> at_secret tok = secret"
proof -
  from assms(1) obtain db' where ex: "setExpiry secret e (ts_db s) = Inr (tok, db')" and s': "ts_db s' = db'"
    by (auto simp: updateExpiry_def Let_def bindR_Inr_iff)
  let ?f = "\<lambda>r. if tr_secret r = secret then r\<lparr>tr_expires_at := e\<rparr> else r"
  have db': "db' = (ts_db s)\<lparr>db_tokens := map ?f (db_tokens (ts_db s))\<rparr>" by (rule setExpiry_effect [OF ex])
  have d: "distinct (map tr_secret (db_tokens db'))"
    using setExpiry_ok [OF ex assms(2)] by (simp add: token_db_ok_def)
  obtain r' where r': "find (\<lambda>r. tr_secret r = secret) (db_tokens db') = Some r'"
    using ex find_row [OF d, of secret]
    by (cases "find (\<lambda>r. tr_secret r = secret) (db_tokens db')")
       (auto simp: setExpiry_def Let_def db')
  have tok: "tok = token_of_row r'"
    using ex find_row [OF d, of secret] r'
    by (simp add: setExpiry_def Let_def db')
  have in': "r' \<in> set (db_tokens db')" and sec: "tr_secret r' = secret"
    using find_Some_in [OF r'] by blast+
  have "db_tokens db' = map ?f (db_tokens (ts_db s))" by (simp add: db')
  with in' have "r' \<in> ?f ` set (db_tokens (ts_db s))" by (simp only: set_map)
  then obtain x where "r' = ?f x" "x \<in> set (db_tokens (ts_db s))" by (rule imageE)
  with sec have r: "x \<in> set (db_tokens (ts_db s))" "tr_secret x = secret" "r' = x\<lparr>tr_expires_at := e\<rparr>"
    by (simp_all split: if_splits)
  have "tokens_get secret db' = Some (token_view db' r')"
    using tokens_get_row [OF setExpiry_ok [OF ex assms(2)], of r'] find_Some_in [OF r'] by simp
  moreover have "token_view db' r' = (token_view (ts_db s) x)\<lparr>at_expiresAt := e\<rparr>"
    by (simp add: r(3) db' token_view_def with_projects_def token_of_row_def Let_def)
  ultimately show ?thesis
    using tokens_get_row [OF assms(2) r(1)] r s' tok by simp
qed

lemma expiry_update_reports_all_projects_witness:
  "\<exists>tok s'. updateExpiry ''p1:dev.aa'' (Some 9) ''a'' 7 service0 = Inr (tok, s') \<and> at_projects tok = [''*'']"
proof -
  have "\<exists>tok s'. updateExpiry ''p1:dev.aa'' (Some 9) ''a'' 7 service0 = Inr (tok, s')"
    by (simp add: updateExpiry_def setExpiry_def service0_def db0_def row0_def)
  then obtain tok s' where u: "updateExpiry ''p1:dev.aa'' (Some 9) ''a'' 7 service0 = Inr (tok, s')" by blast
  have "token_db_ok (ts_db service0)" using db0_ok by (simp add: service0_def)
  from expiry_update_reports_all_projects [OF u this] u show ?thesis by (auto simp: token_type_defs)
qed


section \<open>Authentication\<close>

text \<open>
  C14: on a refreshed cache, and with the query of missing tokens off, a secret authenticates only a
  stored token that has not expired and that has this secret (or, for migrated tokens, this alias);
  the user has the token's projects and environment and the permission of its type.
\<close>

theorem authentication_sound:
  assumes "token_db_ok (ts_db s)"
    and "fst (getUserForToken False secret (fetchActiveTokens now s)) = Inr (Some u)"
  shows "\<exists>t. tokens_get (at_secret t) (ts_db s) = Some t \<and> (at_expiresAt t = None \<or> now < the (at_expiresAt t)) \<and>
    (at_secret t = secret \<or> at_alias t = Some secret) \<and>
    au_secret u = at_secret t \<and> au_projects u = at_projects t \<and> au_environment u = at_environment t \<and>
    au_type u = at_type t \<and> au_permissions u = resolveTokenPermissions (at_type t) \<and>
    (au_internalAdminTokenUserId u \<noteq> None \<longleftrightarrow> at_type t = token_ADMIN)"
proof -
  from assms(2) obtain t where t: "find_active secret (getAllActive now (ts_db s)) = Inr (Some t)"
    and u: "api_user_of t = Inr u"
    by (auto simp: getUserForToken_def fetchActiveTokens_def Let_def bindR_Inr_iff
        split: if_splits sum.splits option.splits)
  have "tokens_get (at_secret t) (ts_db s) = Some t \<and> (at_expiresAt t = None \<or> now < the (at_expiresAt t))
      \<and> (at_secret t = secret \<or> at_alias t = Some secret)"
    by (rule tokens.found_is_active [OF assms(1) t])
  moreover obtain r where "t = token_view (ts_db s) r"
    using find_active_Some(1) [OF t] by (auto simp: getAllActive_set [OF assms(1)])
  then have "at_projects t \<noteq> []" by (simp add: token_view_projects)
  then have "au_secret u = at_secret t \<and> au_projects u = at_projects t \<and> au_environment u = at_environment t \<and>
      au_type u = at_type t \<and> au_permissions u = resolveTokenPermissions (at_type t) \<and>
      (au_internalAdminTokenUserId u \<noteq> None \<longleftrightarrow> at_type t = token_ADMIN)"
    using u by (auto simp: api_user_of_def new_ApiUser_def bindR_Inr_iff neq_Nil_conv split: if_splits)
  ultimately show ?thesis by blast
qed

lemma authentication_sound_witness:
  "\<exists>u. fst (getUserForToken False ''p1:dev.aa'' (fetchActiveTokens 3 service0)) = Inr (Some u) \<and>
     au_permissions u = [''CLIENT''] \<and> au_projects u = [''p1'']"
proof -
  have db: "token_db_ok (ts_db service0)" using db0_ok by (simp add: service0_def)
  have act: "getAllActive 3 db0 = [token_view db0 row0]"
  proof -
    have "db_tokens db0 = [row0]" "row_active 3 row0" by (simp_all add: db0_def row0_def row_active_def)
    moreover have "getAllActive 3 db0 = toTokens (concat (map (joined db0) (filter (row_active 3) (db_tokens db0))))"
      unfolding getAllActive_def makeTokenProjectQuery_def filter_joined ..
    ultimately show ?thesis by (simp add: toTokens_joined [OF db0_ok])
  qed
  have "find_active ''p1:dev.aa'' [token_view db0 row0] = Inr (Some (token_view db0 row0))"
    by (simp add: find_active_def constantTimeCompare_def row0_def)
  moreover have "ts_activeTokens (fetchActiveTokens 3 service0) = [token_view db0 row0]"
    using act by (simp add: fetchActiveTokens_def service0_def)
  moreover obtain u where "api_user_of (token_view db0 row0) = Inr u"
    using api_user_of_view [of row0 db0] by (auto simp: row0_def)
  ultimately have "\<exists>u. fst (getUserForToken False ''p1:dev.aa'' (fetchActiveTokens 3 service0)) = Inr (Some u)"
    by (simp add: getUserForToken_def Let_def)
  then obtain u where u: "fst (getUserForToken False ''p1:dev.aa'' (fetchActiveTokens 3 service0)) = Inr (Some u)"
    by blast
  from authentication_sound [OF db u] obtain t where t: "tokens_get (at_secret t) db0 = Some t"
      "au_projects u = at_projects t" "au_permissions u = resolveTokenPermissions (at_type t)"
    by (auto simp: service0_def)
  have "db_tokens db0 = [row0]" by (simp add: db0_def)
  then have "t = token_view db0 row0" using t(1)
    by (auto simp: tokens_get_spec [OF db0_ok] split: if_splits)
  then show ?thesis using t u
    by (simp add: token_view_projects db0_def row0_def links_of_def resolveTokenPermissions_def token_type_defs
        to_lower_def lower_char_def Let_def)
qed

text \<open>
  A revoked token is refused from the next refresh on, and not before: deleting it leaves every
  answer of the running service as it was, and after a refresh nobody is authenticated as it.
\<close>

theorem revocation_waits_for_refresh:
  assumes "token_db_ok (ts_db s)"
  shows "fst (getUserForToken False secret (token_delete secret who uid s)) = fst (getUserForToken False secret s)
    \<and> (\<forall>sec u. fst (getUserForToken False sec (fetchActiveTokens now (token_delete secret who uid s))) = Inr (Some u)
         \<longrightarrow> au_secret u \<noteq> secret)"
proof (intro conjI allI impI)
  have "ts_activeTokens (token_delete secret who uid s) = ts_activeTokens s"
    by (simp add: token_delete_def split: option.splits)
  then show "fst (getUserForToken False secret (token_delete secret who uid s)) = fst (getUserForToken False secret s)"
    by (simp add: getUserForToken_def Let_def split: sum.splits option.splits)
next
  fix sec u
  let ?s = "token_delete secret who uid s"
  assume "fst (getUserForToken False sec (fetchActiveTokens now ?s)) = Inr (Some u)"
  then obtain t where "find_active sec (getAllActive now (ts_db ?s)) = Inr (Some t)" and u: "api_user_of t = Inr u"
    by (auto simp: getUserForToken_def fetchActiveTokens_def Let_def bindR_Inr_iff
        split: if_splits sum.splits option.splits)
  moreover have db: "token_db_ok (ts_db ?s)"
    using assms tokens_delete_ok by (simp add: token_delete_def split: option.splits)
  ultimately obtain r where "r \<in> set (db_tokens (ts_db ?s))" "t = token_view (ts_db ?s) r"
    using find_active_Some(1) by (fastforce simp: getAllActive_set)
  moreover have "tr_secret r \<noteq> secret" if "r \<in> set (db_tokens (ts_db ?s))" for r
    using that by (auto simp: token_delete_def tokens_delete_def tokens_exists_def list_ex_iff
        split: if_splits option.splits)
  ultimately have "at_secret t \<noteq> secret" by simp
  then show "au_secret u \<noteq> secret"
    using u by (auto simp: api_user_of_def new_ApiUser_def bindR_Inr_iff split: if_splits)
qed

lemma revocation_waits_for_refresh_witness:
  "fst (getUserForToken False ''p1:dev.aa'' (token_delete ''p1:dev.aa'' ''a'' 7 service0))
     = fst (getUserForToken False ''p1:dev.aa'' service0)"
  using revocation_waits_for_refresh [of service0 "''p1:dev.aa''" "''a''" 7 0] db0_ok
  by (simp add: service0_def)

text \<open>
  With the query of missing tokens on, an expired token authenticates: \<open>store.get\<close> does not look
  at the expiry, and the token it returns enters the cache.
\<close>

theorem expired_token_authenticates_by_query:
  assumes "token_db_ok (ts_db s)" and "r \<in> set (db_tokens (ts_db s))" and "tr_expires_at r = Some e"
    and "tr_secret r \<noteq> []" and "tr_username r \<noteq> []"
    and "find_active (tr_secret r) (ts_activeTokens s) = Inr None"
  shows "\<exists>u s'. getUserForToken True (tr_secret r) s = (Inr (Some u), s') \<and> au_secret u = tr_secret r \<and>
    last (ts_activeTokens s') = token_view (ts_db s) r \<and>
    (\<forall>now\<ge>e. \<not> row_active now r)"
proof -
  have "tokens_get (tr_secret r) (ts_db s) = Some (token_view (ts_db s) r)"
    by (rule tokens_get_row [OF assms(1,2)])
  moreover have "\<exists>u. api_user_of (token_view (ts_db s) r) = Inr u \<and> au_secret u = tr_secret r"
    by (rule api_user_of_view [OF assms(5)])
  ultimately show ?thesis
    using assms(3,4,6) by (auto simp: getUserForToken_def row_active_def)
qed

lemma expired_token_authenticates_by_query_witness:
  "\<exists>u s'. getUserForToken True ''p1:dev.aa'' service0 = (Inr (Some u), s') \<and> au_secret u = ''p1:dev.aa''
     \<and> \<not> row_active 2000 row0"
  using expired_token_authenticates_by_query [of service0 row0 100] db0_ok
  by (auto simp: service0_def db0_def row0_def find_active_def)


section \<open>Requests\<close>

lemma http0_passes:
  "\<exists>u s'. apiAccessMiddleware True False True http0 (service0\<lparr>ts_activeTokens := [token_view db0 row0]\<rparr>)
     = (Next (http0\<lparr>rq_user := Some u\<rparr>), s')"
proof -
  have "find_active ''p1:dev.aa'' [token_view db0 row0] = Inr (Some (token_view db0 row0))"
    by (simp add: find_active_def constantTimeCompare_def row0_def)
  moreover obtain u where u: "api_user_of (token_view db0 row0) = Inr u"
    using api_user_of_view [of row0 db0] by (auto simp: row0_def)
  moreover have "au_type u = token_CLIENT"
    using u by (auto simp: api_user_of_def new_ApiUser_def bindR_Inr_iff row0_def token_CLIENT_def
        to_lower_def lower_char_def Let_def split: if_splits)
  moreover have "isClientApi http0"
    by (simp add: isClientApi_def path_has_def http0_def starts_with_def)
  ultimately show ?thesis
    by (simp add: apiAccessMiddleware_def getUserForToken_def Let_def http0_def starts_with_def token_type_defs)
qed

text \<open>
  A client token gets no further than the client API and the edge metrics, a frontend token no
  further than the frontend API and only with the embedded proxy on; other requests made with
  such a token are answered 403.
\<close>

theorem token_type_confines_request:
  assumes "apiAccessMiddleware True q embedProxy req s = (Next req', s')"
    and "rq_user req = None" and "rq_user req' = Some u"
  shows "(au_type u = token_CLIENT \<longrightarrow> isClientApi req \<or> isEdgeMetricsApi req) \<and>
    (au_type u = token_FRONTEND \<longrightarrow> isProxyApi req \<and> embedProxy) \<and>
    fst (getUserForToken q (the (rq_authorization req)) s) = Inr (Some u)"
proof -
  let ?r = "if truthy (rq_authorization req) then getUserForToken q (the (rq_authorization req)) s
            else (Inr None, s)"
  obtain res t where r: "?r = (res, t)" by (cases ?r)
  have nu: "\<not> (case rq_authorization req of None \<Rightarrow> False | Some a \<Rightarrow> starts_with a ''user:'')"
    using assms by (auto simp: apiAccessMiddleware_def split: if_splits)
  show ?thesis
  proof (cases "\<exists>v. res = Inr (Some v)")
    case True
    then obtain v where v: "res = Inr (Some v)" by blast
    then have "u = v" using assms r nu
      by (auto simp: apiAccessMiddleware_def split: if_splits)
    moreover have "fst ?r = Inr (Some v)" using r v by simp
    ultimately show ?thesis using assms r nu v
      by (auto simp: apiAccessMiddleware_def token_type_defs split: if_splits)
  next
    case False
    then show ?thesis using assms r nu
      by (cases res; cases "case res of Inr x \<Rightarrow> x | _ \<Rightarrow> None")
         (auto simp: apiAccessMiddleware_def split: if_splits option.splits)
  qed
qed

lemma token_type_confines_request_witness:
  "\<exists>u s'. apiAccessMiddleware True False True http0 (service0\<lparr>ts_activeTokens := [token_view db0 row0]\<rparr>)
     = (Next (http0\<lparr>rq_user := Some u\<rparr>), s') \<and>
     fst (getUserForToken False ''p1:dev.aa'' (service0\<lparr>ts_activeTokens := [token_view db0 row0]\<rparr>)) = Inr (Some u)"
proof -
  obtain u s' where "apiAccessMiddleware True False True http0 (service0\<lparr>ts_activeTokens := [token_view db0 row0]\<rparr>)
     = (Next (http0\<lparr>rq_user := Some u\<rparr>), s')" using http0_passes by blast
  with token_type_confines_request [OF this, of u] show ?thesis by (auto simp: http0_def)
qed

text \<open>
  With the API token middleware on, a request that comes through both middlewares to a client or
  proxy path has a session, had a user before, or carries a token that authenticates.
\<close>

theorem client_api_authenticated:
  assumes "apiAccessMiddleware True q embedProxy req s = (Next req', s')"
    and "authorizationMiddleware base req' = Next req''"
  shows "rq_session_user req \<noteq> None \<or> rq_user req \<noteq> None \<or>
    (\<exists>u. rq_user req'' = Some u \<and> fst (getUserForToken q (the (rq_authorization req)) s) = Inr (Some u))"
proof -
  have "rq_session_user req' = rq_session_user req"
    using assms(1) by (auto simp: apiAccessMiddleware_def split: if_splits option.splits sum.splits prod.splits)
  moreover have "rq_session_user req' \<noteq> None \<or> rq_user req' \<noteq> None \<and> req'' = req'"
    using assms(2) by (auto simp: authorizationMiddleware_def split: if_splits)
  moreover have "fst (getUserForToken q (the (rq_authorization req)) s) = Inr (rq_user req')"
    if "rq_user req' \<noteq> None" "rq_user req = None"
    using that assms(1)
    by (auto simp: apiAccessMiddleware_def split: if_splits option.splits sum.splits prod.splits)
  ultimately show ?thesis by fastforce
qed

lemma client_api_authenticated_witness:
  "\<exists>u. fst (getUserForToken False ''p1:dev.aa'' (service0\<lparr>ts_activeTokens := [token_view db0 row0]\<rparr>)) = Inr (Some u)"
proof -
  obtain u s' where a: "apiAccessMiddleware True False True http0 (service0\<lparr>ts_activeTokens := [token_view db0 row0]\<rparr>)
     = (Next (http0\<lparr>rq_user := Some u\<rparr>), s')" using http0_passes by blast
  have "authorizationMiddleware [] (http0\<lparr>rq_user := Some u\<rparr>) = Next (http0\<lparr>rq_user := Some u\<rparr>)"
    by (simp add: authorizationMiddleware_def http0_def)
  from client_api_authenticated [OF a this] show ?thesis by (auto simp: http0_def)
qed

end
