(* ===== verification/Access.thy ===== *)
theory Access
  imports Errors "HOL-Library.List_Lexorder"
begin

text \<open>
  The access store (\<open>db/access-store.ts\<close>) and the role store (\<open>db/role-store.ts\<close>) over the RBAC
  tables: roles, their users and groups per project, the groups with their members and root role,
  and the permissions of each role. A table is the list of its rows, with the keys and foreign keys
  of the migrations; SQL leaves the order of a result open, and the model takes that of the tables.
  Ids are integers, times are milliseconds, and the driver's text of an error is a parameter.
\<close>

section \<open>Tables\<close>

definition ADMIN :: string where
  "ADMIN = ''ADMIN''"

definition ALL_PROJECTS :: string where
  "ALL_PROJECTS = ''*''"

definition ALL_ENVS :: string where
  "ALL_ENVS = ''*''"

definition DEFAULT_PROJECT :: string where
  "DEFAULT_PROJECT = ''default''"

definition ROOT_ROLE_TYPES :: "string list" where
  "ROOT_ROLE_TYPES = [''root'', ''root-custom'']"

definition PROJECT_ROLE_TYPES :: "string list" where
  "PROJECT_ROLE_TYPES = [''project'', ''custom'']"

record role =
  ro_id :: int
  ro_name :: string
  ro_type :: string
  ro_description :: string

record role_user =
  ru_user :: int
  ru_role :: int
  ru_project :: string
  ru_created_at :: int

record group_role =
  gr_group :: int
  gr_role :: int
  gr_project :: string
  gr_created_by :: string

record group_row =
  g_id :: int
  g_name :: string
  g_root_role :: "int option"
  g_description :: "string option"
  g_mappings :: "string list" \<comment> \<open>\<open>mappings_sso\<close>, the external groups\<close>

record group_user =
  gu_group :: int
  gu_user :: int
  gu_created_by :: "string option"

record role_permission =
  rp_role :: int
  rp_permission :: string
  rp_environment :: "string option"

record permission_row =
  pm_id :: int
  pm_permission :: string
  pm_display_name :: string
  pm_type :: string

text \<open>A user's row; an account is active where it is neither deleted nor the system's.\<close>

record user_row =
  us_id :: int
  us_active :: bool
  us_is_service :: bool

record access_db =
  ac_roles :: "role list"
  ac_role_user :: "role_user list"
  ac_group_role :: "group_role list"
  ac_groups :: "group_row list"
  ac_group_user :: "group_user list"
  ac_role_permission :: "role_permission list"
  ac_permissions :: "permission_row list"
  ac_users :: "user_row list"
  ac_projects :: "string list"
  ac_personal_tokens :: "int list" \<comment> \<open>owners\<close>
  ac_signup_users :: "int list"
  ac_next_role :: int
  ac_next_group :: int
  ac_message :: "string \<Rightarrow> string"

definition role_has_type :: "access_db \<Rightarrow> string list \<Rightarrow> int \<Rightarrow> bool" where
  "role_has_type db types rid = list_ex (\<lambda>r. ro_id r = rid \<and> List.member types (ro_type r)) (ac_roles db)"

definition role_ids_of_type :: "access_db \<Rightarrow> string list \<Rightarrow> int list" where
  "role_ids_of_type db types = map ro_id (filter (\<lambda>r. List.member types (ro_type r)) (ac_roles db))"


section \<open>References to permissions\<close>

record permission_ref =
  pr_id :: "int option"
  pr_name :: "string option"
  pr_environment :: "string option"

definition permissionHasName :: "permission_ref \<Rightarrow> bool" where
  "permissionHasName p = (pr_name p \<noteq> None)"

text \<open>An unknown id makes the lookup \<open>rowByPermissionId[id].permission\<close> throw a TypeError.\<close>

definition undefined_permission :: exn where
  \<open>undefined_permission = JsError ''TypeError'' ''Cannot read properties of undefined (reading 'permission')''\<close>

definition permissionIdsToNames :: "access_db \<Rightarrow> permission_ref list \<Rightarrow> exn + permission_ref list" where
  "permissionIdsToNames db permissions =
     (if \<forall>p\<in>set permissions. pr_id p = None then Inr []
      else mapR (\<lambda>p. case find (\<lambda>row. Some (pm_id row) = pr_id p) (rev (ac_permissions db)) of
             None \<Rightarrow> Inl undefined_permission
           | Some row \<Rightarrow> Inr (p\<lparr>pr_name := Some (pm_permission row)\<rparr>)) permissions)"

text \<open>
  The permissions with their names. In the mixed case an id whose name was not found would give
  \<open>undefined\<close>; \<open>permissionIdsToNames\<close> has thrown before unless no id is set at all.
\<close>

definition resolvePermissions :: "access_db \<Rightarrow> permission_ref list \<Rightarrow> exn + permission_ref list" where
  "resolvePermissions db permissions =
     (let withoutNames = filter (\<lambda>p. \<not> permissionHasName p) permissions in
      if permissions = [] then Inr []
      else if length withoutNames = length permissions then permissionIdsToNames db withoutNames
      else if withoutNames = [] then Inr permissions
      else bindR (permissionIdsToNames db withoutNames) (\<lambda>named.
        mapR (\<lambda>p. if permissionHasName p then Inr p
                  else (case find (\<lambda>q. pr_id q = pr_id p) named of
                          Some q \<Rightarrow> Inr q
                        | None \<Rightarrow> Inl undefined_permission)) permissions))"


section \<open>Permissions of users and roles\<close>

record permission =
  pe_id :: int
  pe_name :: string
  pe_environment :: "string option"
  pe_displayName :: string
  pe_type :: string

definition mapPermission :: "permission_row \<Rightarrow> permission" where
  "mapPermission p =
     \<lparr>pe_id = pm_id p, pe_name = pm_permission p, pe_environment = None,
      pe_displayName = pm_display_name p, pe_type = pm_type p\<rparr>"

definition getAvailablePermissions :: "access_db \<Rightarrow> permission list" where
  "getAvailablePermissions db =
     map mapPermission (filter (\<lambda>p. pm_type p = ''project'' \<or> pm_type p = ''environment'' \<or> pm_type p = ''root'')
       (ac_permissions db))"

record user_permission =
  up_project :: "string option"
  up_environment :: "string option"
  up_permission :: string

text \<open>A row of the union: project, permission, environment, type, role id.\<close>

type_synonym permission_union_row = "string \<times> string \<times> string option \<times> string \<times> int"

definition permissions_of_role :: "access_db \<Rightarrow> int \<Rightarrow> (role_permission \<times> permission_row) list" where
  "permissions_of_role db rid =
     [(rp, p). rp \<leftarrow> ac_role_permission db, rp_role rp = rid, p \<leftarrow> ac_permissions db,
               pm_permission p = rp_permission rp]"

definition union_row :: "string \<Rightarrow> int \<Rightarrow> role_permission \<times> permission_row \<Rightarrow> permission_union_row" where
  "union_row project rid x = (project, rp_permission (fst x), rp_environment (fst x), pm_type (snd x), rid)"

definition user_permission_rows :: "access_db \<Rightarrow> int \<Rightarrow> permission_union_row list" where
  "user_permission_rows db userId = remdups
     ([union_row (ru_project ur) (ru_role ur) x.
         ur \<leftarrow> ac_role_user db, ru_user ur = userId, x \<leftarrow> permissions_of_role db (ru_role ur)]
      @ [union_row (gr_project gr) (gr_role gr) x.
         gu \<leftarrow> ac_group_user db, gu_user gu = userId, g \<leftarrow> ac_groups db, g_id g = gu_group gu,
         gr \<leftarrow> ac_group_role db, gr_group gr = gu_group gu, x \<leftarrow> permissions_of_role db (gr_role gr)]
      @ [union_row DEFAULT_PROJECT (the (g_root_role g)) x.
         gu \<leftarrow> ac_group_user db, gu_user gu = userId, g \<leftarrow> ac_groups db, g_id g = gu_group gu, g_root_role g \<noteq> None,
         x \<leftarrow> permissions_of_role db (the (g_root_role g))])"

definition mapUserPermission :: "permission_union_row \<Rightarrow> user_permission" where
  "mapUserPermission row = (case row of (project, permission, environment, ty, _) \<Rightarrow>
     \<lparr>up_project = (if ty \<noteq> ''root'' then Some project else None),
      up_environment = (if ty = ''environment'' then environment else None),
      up_permission = permission\<rparr>)"

definition store_getPermissionsForUser :: "access_db \<Rightarrow> int \<Rightarrow> user_permission list" where
  "store_getPermissionsForUser db userId = map mapUserPermission (user_permission_rows db userId)"

definition getPermissionsForRole :: "access_db \<Rightarrow> int \<Rightarrow> permission list" where
  "getPermissionsForRole db roleId =
     map (\<lambda>(rp, p). \<lparr>pe_id = pm_id p, pe_name = rp_permission rp, pe_environment = rp_environment rp,
                     pe_displayName = pm_display_name p, pe_type = pm_type p\<rparr>)
       (permissions_of_role db roleId)"


section \<open>Violations\<close>

definition CARDINALITY_VIOLATION :: string where
  "CARDINALITY_VIOLATION = ''21000''"

definition fk_error :: "access_db \<Rightarrow> string \<Rightarrow> exn" where
  "fk_error db c = DbError FOREIGN_KEY_VIOLATION (Some c) None (ac_message db c)"

definition unique_error :: "access_db \<Rightarrow> string \<Rightarrow> exn" where
  "unique_error db c = DbError UNIQUE_CONSTRAINT_VIOLATION (Some c) None (ac_message db c)"

definition cardinality_error :: "access_db \<Rightarrow> exn" where
  "cardinality_error db = DbError CARDINALITY_VIOLATION None None (ac_message db ''cardinality'')"

text \<open>\<open>err.message.includes('violates foreign key constraint ...')\<close>: the driver names the constraint.\<close>

fun violates_fk :: "exn \<Rightarrow> string \<Rightarrow> bool" where
  "violates_fk (DbError code constraint _ _) c = (code = FOREIGN_KEY_VIOLATION \<and> constraint = Some c)"
| "violates_fk _ c = False"

definition ru_key :: "role_user \<Rightarrow> int \<times> int \<times> string" where
  "ru_key r = (ru_role r, ru_user r, ru_project r)"

definition gr_key :: "group_role \<Rightarrow> int \<times> int \<times> string" where
  "gr_key r = (gr_group r, gr_role r, gr_project r)"

definition gu_key :: "group_user \<Rightarrow> int \<times> int" where
  "gu_key r = (gu_group r, gu_user r)"

definition ru_fk_check :: "access_db \<Rightarrow> role_user \<Rightarrow> exn + unit" where
  "ru_fk_check db r =
     (if ru_role r \<notin> ro_id ` set (ac_roles db) then Inl (fk_error db ''role_user_role_id_fkey'')
      else if ru_user r \<notin> us_id ` set (ac_users db) then Inl (fk_error db ''role_user_user_id_fkey'')
      else Inr ())"

definition gr_fk_check :: "access_db \<Rightarrow> group_role \<Rightarrow> exn + unit" where
  "gr_fk_check db r =
     (if gr_group r \<notin> g_id ` set (ac_groups db) then Inl (fk_error db ''group_role_group_id_fkey'')
      else if gr_role r \<notin> ro_id ` set (ac_roles db) then Inl (fk_error db ''group_role_role_id_fkey'')
      else if gr_project r \<notin> set (ac_projects db) then Inl (fk_error db ''fk_group_role_project'')
      else Inr ())"

text \<open>
  \<open>INSERT ... ON CONFLICT DO NOTHING\<close> keeps the first row of a key. \<open>ON CONFLICT DO UPDATE\<close>
  refuses to touch one row twice in a statement, and otherwise overwrites the columns of the
  conflicting row (the key itself, and \<open>created_by\<close>). The foreign keys are checked after the rows.
\<close>

definition ru_insert_ignore :: "role_user list \<Rightarrow> access_db \<Rightarrow> exn + access_db" where
  "ru_insert_ignore rows db =
     bindR (mapR (ru_fk_check db) rows) (\<lambda>_. Inr (db\<lparr>ac_role_user :=
       foldl (\<lambda>t r. if ru_key r \<in> ru_key ` set t then t else t @ [r]) (ac_role_user db) rows\<rparr>))"

definition ru_insert_merge :: "role_user list \<Rightarrow> access_db \<Rightarrow> exn + access_db" where
  "ru_insert_merge rows db =
     (if \<not> distinct (map ru_key rows) then Inl (cardinality_error db)
      else ru_insert_ignore rows db)"

definition gr_insert_ignore :: "group_role list \<Rightarrow> access_db \<Rightarrow> exn + access_db" where
  "gr_insert_ignore rows db =
     bindR (mapR (gr_fk_check db) rows) (\<lambda>_. Inr (db\<lparr>ac_group_role :=
       foldl (\<lambda>t r. if gr_key r \<in> gr_key ` set t then t else t @ [r]) (ac_group_role db) rows\<rparr>))"

definition gr_insert_merge :: "group_role list \<Rightarrow> access_db \<Rightarrow> exn + access_db" where
  "gr_insert_merge rows db =
     (if \<not> distinct (map gr_key rows) then Inl (cardinality_error db)
      else bindR (mapR (gr_fk_check db) rows) (\<lambda>_. Inr (db\<lparr>ac_group_role :=
        foldl (\<lambda>t r. if gr_key r \<in> gr_key ` set t then map (\<lambda>x. if gr_key x = gr_key r then r else x) t
                     else t @ [r]) (ac_group_role db) rows\<rparr>)))"


section \<open>Roles of users and groups\<close>

definition unlinkUserRoles :: "int \<Rightarrow> access_db \<Rightarrow> access_db" where
  "unlinkUserRoles userId db = db\<lparr>ac_role_user := filter (\<lambda>r. ru_user r \<noteq> userId) (ac_role_user db)\<rparr>"

definition unlinkUserGroups :: "int \<Rightarrow> access_db \<Rightarrow> access_db" where
  "unlinkUserGroups userId db = db\<lparr>ac_group_user := filter (\<lambda>gu. gu_user gu \<noteq> userId) (ac_group_user db)\<rparr>"

definition clearUserPersonalAccessTokens :: "int \<Rightarrow> access_db \<Rightarrow> access_db" where
  "clearUserPersonalAccessTokens userId db =
     db\<lparr>ac_personal_tokens := filter (\<lambda>u. u \<noteq> userId) (ac_personal_tokens db)\<rparr>"

definition clearPublicSignupUserTokens :: "int \<Rightarrow> access_db \<Rightarrow> access_db" where
  "clearPublicSignupUserTokens userId db =
     db\<lparr>ac_signup_users := filter (\<lambda>u. u \<noteq> userId) (ac_signup_users db)\<rparr>"

definition store_getProjectUsersForRole :: "access_db \<Rightarrow> int \<Rightarrow> string \<Rightarrow> (int \<times> int \<times> int) list" where
  "store_getProjectUsersForRole db roleId projectId =
     [(ru_user ru, roleId, ru_created_at ru). ru \<leftarrow> ac_role_user db, r \<leftarrow> ac_roles db, ru_role ru = ro_id r,
        ro_id r = roleId \<and> ru_project ru = projectId]"

record project_user =
  pu_id :: int
  pu_addedAt :: int
  pu_roleId :: int
  pu_roles :: "int list"

text \<open>The reducer: the first row of a user opens its entry, later rows append their role.\<close>

definition add_project_user :: "project_user list \<Rightarrow> role_user \<Rightarrow> project_user list" where
  "add_project_user acc row =
     (if \<exists>u\<in>set acc. pu_id u = ru_user row
      then map (\<lambda>u. if pu_id u = ru_user row then u\<lparr>pu_roles := pu_roles u @ [ru_role row]\<rparr> else u) acc
      else acc @ [\<lparr>pu_id = ru_user row, pu_addedAt = ru_created_at row, pu_roleId = ru_role row,
                   pu_roles = [ru_role row]\<rparr>])"

definition store_getProjectUsers :: "access_db \<Rightarrow> string \<Rightarrow> project_user list" where
  "store_getProjectUsers db projectId =
     foldl add_project_user []
       (filter (\<lambda>ru. role_has_type db PROJECT_ROLE_TYPES (ru_role ru) \<and> ru_project ru = projectId) (ac_role_user db))"

definition getRolesForUserId :: "access_db \<Rightarrow> int \<Rightarrow> (role \<times> string) list" where
  "getRolesForUserId db userId =
     [(r, ru_project ru). r \<leftarrow> ac_roles db, ru \<leftarrow> ac_role_user db, ru_role ru = ro_id r, ru_user ru = userId]"

definition store_getAllProjectRolesForUser :: "access_db \<Rightarrow> int \<Rightarrow> string \<Rightarrow> (role \<times> string) list" where
  "store_getAllProjectRolesForUser db userId project = remdups
     ([(r, ru_project ru). r \<leftarrow> ac_roles db, ru \<leftarrow> ac_role_user db, ru_role ru = ro_id r,
         ru_user ru = userId, ru_project ru = project \<or> ro_type r = ''root'']
      @ [(r, gr_project gr). r \<leftarrow> ac_roles db, gr \<leftarrow> ac_group_role db, gr_role gr = ro_id r,
         gu \<leftarrow> ac_group_user db, gu_group gu = gr_group gr, gu_user gu = userId,
         gr_project gr = project \<or> ro_type r = ''root''])"

definition store_getRootRoleForUser :: "access_db \<Rightarrow> int \<Rightarrow> role option" where
  "store_getRootRoleForUser db userId =
     find (\<lambda>r. List.member ROOT_ROLE_TYPES (ro_type r) \<and>
               list_ex (\<lambda>ru. ru_role ru = ro_id r \<and> ru_user ru = userId) (ac_role_user db)) (ac_roles db)"

definition getUserIdsForRole :: "access_db \<Rightarrow> int \<Rightarrow> int list" where
  "getUserIdsForRole db roleId = map ru_user (filter (\<lambda>ru. ru_role ru = roleId) (ac_role_user db))"

definition getGroupIdsForRole :: "access_db \<Rightarrow> int \<Rightarrow> int list" where
  "getGroupIdsForRole db roleId = map gr_group (filter (\<lambda>gr. gr_role gr = roleId) (ac_group_role db))"

record role_usage =
  rg_project :: string
  rg_role :: int
  rg_userCount :: nat
  rg_groupCount :: nat
  rg_serviceAccountCount :: nat

definition count_users :: "access_db \<Rightarrow> bool \<Rightarrow> int \<Rightarrow> string \<Rightarrow> nat" where
  "count_users db service roleId project = length
     [u. ru \<leftarrow> ac_role_user db, ru_role ru = roleId \<and> ru_project ru = project, u \<leftarrow> ac_users db,
         us_id u = ru_user ru \<and> us_is_service u = service]"

definition getProjectUserAndGroupCountsForRole :: "access_db \<Rightarrow> int \<Rightarrow> role_usage list" where
  "getProjectUserAndGroupCountsForRole db roleId =
     (let gs = filter (\<lambda>gr. gr_role gr = roleId) (ac_group_role db);
          us = filter (\<lambda>ru. ru_role ru = roleId) (ac_role_user db)
      in map (\<lambda>p. \<lparr>rg_project = p, rg_role = roleId, rg_userCount = count_users db False roleId p,
                   rg_groupCount = length (filter (\<lambda>gr. gr_project gr = p) gs),
                   rg_serviceAccountCount = count_users db True roleId p\<rparr>)
           (remdups (map gr_project gs @ map ru_project us)))"

definition store_addUserToRole :: "int \<Rightarrow> int \<Rightarrow> int \<Rightarrow> string \<Rightarrow> access_db \<Rightarrow> exn + access_db" where
  "store_addUserToRole now userId roleId projectId db =
     ru_insert_ignore [\<lparr>ru_user = userId, ru_role = roleId, ru_project = projectId, ru_created_at = now\<rparr>] db"

definition store_removeUserFromRole :: "int \<Rightarrow> int \<Rightarrow> string \<Rightarrow> access_db \<Rightarrow> access_db" where
  "store_removeUserFromRole userId roleId projectId db =
     db\<lparr>ac_role_user := filter (\<lambda>r. \<not> (ru_user r = userId \<and> ru_role r = roleId \<and> ru_project r = projectId))
                              (ac_role_user db)\<rparr>"

definition store_addGroupToRole :: "int \<Rightarrow> int \<Rightarrow> string \<Rightarrow> string \<Rightarrow> access_db \<Rightarrow> exn + access_db" where
  "store_addGroupToRole groupId roleId createdBy projectId db =
     (let row = \<lparr>gr_group = groupId, gr_role = roleId, gr_project = projectId, gr_created_by = createdBy\<rparr> in
      if gr_key row \<in> gr_key ` set (ac_group_role db) then Inl (unique_error db ''group_role_pkey'')
      else gr_insert_ignore [row] db)"

definition store_removeGroupFromRole :: "int \<Rightarrow> int \<Rightarrow> string \<Rightarrow> access_db \<Rightarrow> access_db" where
  "store_removeGroupFromRole groupId roleId projectId db =
     db\<lparr>ac_group_role := filter (\<lambda>r. \<not> (gr_group r = groupId \<and> gr_role r = roleId \<and> gr_project r = projectId))
                               (ac_group_role db)\<rparr>"

text \<open>\<open>UPDATE\<close> of the roles a user or group has in a project, those of type \<open>root\<close> excepted.\<close>

definition store_updateUserProjectRole :: "int \<Rightarrow> int \<Rightarrow> string \<Rightarrow> access_db \<Rightarrow> exn + access_db" where
  "store_updateUserProjectRole userId roleId projectId db =
     (let hit = (\<lambda>r. ru_user r = userId \<and> ru_project r = projectId \<and> \<not> role_has_type db [''root''] (ru_role r));
          rows = map (\<lambda>r. if hit r then r\<lparr>ru_role := roleId\<rparr> else r) (ac_role_user db)
      in if \<not> distinct (map ru_key rows) then Inl (unique_error db ''role_user_pkey'')
         else bindR (mapR (ru_fk_check db) (map (\<lambda>r. r\<lparr>ru_role := roleId\<rparr>) (filter hit (ac_role_user db))))
           (\<lambda>_. Inr (db\<lparr>ac_role_user := rows\<rparr>)))"

definition store_updateGroupProjectRole :: "int \<Rightarrow> int \<Rightarrow> string \<Rightarrow> access_db \<Rightarrow> exn + access_db" where
  "store_updateGroupProjectRole groupId roleId projectId db =
     (let hit = (\<lambda>r. gr_group r = groupId \<and> gr_project r = projectId \<and> \<not> role_has_type db [''root''] (gr_role r));
          rows = map (\<lambda>r. if hit r then r\<lparr>gr_role := roleId\<rparr> else r) (ac_group_role db)
      in if \<not> distinct (map gr_key rows) then Inl (unique_error db ''group_role_pkey'')
         else bindR (mapR (gr_fk_check db) (map (\<lambda>r. r\<lparr>gr_role := roleId\<rparr>) (filter hit (ac_group_role db))))
           (\<lambda>_. Inr (db\<lparr>ac_group_role := rows\<rparr>)))"


section \<open>Access to projects\<close>

definition user_rows :: "int \<Rightarrow> int list \<Rightarrow> int list \<Rightarrow> string \<Rightarrow> role_user list" where
  "user_rows now users roles projectId =
     [\<lparr>ru_user = u, ru_role = r, ru_project = projectId, ru_created_at = now\<rparr>. u \<leftarrow> users, r \<leftarrow> roles]"

definition group_rows :: "int list \<Rightarrow> int list \<Rightarrow> string \<Rightarrow> string \<Rightarrow> group_role list" where
  "group_rows groups roles projectId createdBy =
     [\<lparr>gr_group = g, gr_role = r, gr_project = projectId, gr_created_by = createdBy\<rparr>. g \<leftarrow> groups, r \<leftarrow> roles]"

definition store_addRoleAccessToProject ::
  "int \<Rightarrow> int list \<Rightarrow> int list \<Rightarrow> string \<Rightarrow> int \<Rightarrow> string \<Rightarrow> access_db \<Rightarrow> exn + access_db" where
  "store_addRoleAccessToProject now users groups projectId roleId createdBy db =
     bindR (if users = [] then Inr db else ru_insert_merge (user_rows now users [roleId] projectId) db) (\<lambda>db1.
       if groups = [] then Inr db1 else gr_insert_merge (group_rows groups [roleId] projectId createdBy) db1)"

text \<open>
  One statement of a transaction whose error is caught: it reports the error's message where the
  constraint is the named one, and aborts the transaction. In an aborted transaction every
  statement fails with \<open>25P02\<close>, and \<open>COMMIT\<close> rolls back without an error.
\<close>

record transaction =
  tx_db :: access_db
  tx_aborted :: bool
  tx_errors :: "string list"

definition caught :: "(access_db \<Rightarrow> exn + access_db) \<Rightarrow> string \<Rightarrow> string \<Rightarrow> transaction \<Rightarrow> transaction" where
  "caught statement constraint message tx =
     (if tx_aborted tx then tx
      else (case statement (tx_db tx) of
          Inr db' \<Rightarrow> tx\<lparr>tx_db := db'\<rparr>
        | Inl e \<Rightarrow> tx\<lparr>tx_aborted := True,
            tx_errors := tx_errors tx @ (if violates_fk e constraint then [message] else [])\<rparr>))"

definition access_transaction ::
  "int \<Rightarrow> int list \<Rightarrow> int list \<Rightarrow> int list \<Rightarrow> string \<Rightarrow> string \<Rightarrow> access_db \<Rightarrow> transaction" where
  "access_transaction now valid groups users projectId createdBy db =
     (let groupRows = group_rows groups valid projectId createdBy;
          userRows = user_rows now users valid projectId;
          tx0 = \<lparr>tx_db = db, tx_aborted = False, tx_errors = []\<rparr>;
          tx1 = (if groupRows = [] then tx0
                 else caught (gr_insert_merge groupRows) ''group_role_group_id_fkey''
                   (''Your request contains one or more group IDs that do not exist. You sent these group IDs: ''
                    @ join_with '', '' (map show_int groups) @ ''.'') tx0)
      in if userRows = [] then tx1
         else caught (ru_insert_merge userRows) ''role_user_user_id_fkey''
           (''Your request contains one or more user IDs that do not exist. You sent these user IDs: ''
            @ join_with '', '' (map show_int users) @ ''.'') tx1)"

definition store_addAccessToProject ::
  "int \<Rightarrow> int list \<Rightarrow> int list \<Rightarrow> int list \<Rightarrow> string \<Rightarrow> string \<Rightarrow> access_db \<Rightarrow> exn + access_db" where
  \<open>store_addAccessToProject now roles groups users projectId createdBy db =
     (let valid = filter (\<lambda>i. i \<in> set roles) (role_ids_of_type db PROJECT_ROLE_TYPES) in
      if length valid \<noteq> length roles
      then Inl (Api (BadDataError (''You can't add access to a project with roles that aren't project roles or that don't exist. These roles are not valid: ''
             @ join_with '', '' (map show_int (filter (\<lambda>r. r \<notin> set valid) roles)))))
      else
        (let tx = access_transaction now valid groups users projectId createdBy db in
         if tx_errors tx \<noteq> []
         then Inl (Api (BadDataError' [] (Some (map (\<lambda>m. (detail m)\<lparr>dt_description := None\<rparr>) (tx_errors tx)))))
         else Inr (if tx_aborted tx then db else tx_db tx)))\<close>

definition store_setProjectRolesForUser ::
  "int \<Rightarrow> string \<Rightarrow> int \<Rightarrow> int list \<Rightarrow> access_db \<Rightarrow> exn + access_db" where
  "store_setProjectRolesForUser now projectId userId roles db =
     (let projectRoleIds = role_ids_of_type db PROJECT_ROLE_TYPES;
          userRows = user_rows now [userId] (filter (\<lambda>r. r \<in> set projectRoleIds) roles) projectId;
          db1 = db\<lparr>ac_role_user := filter (\<lambda>r. \<not> (ru_project r = projectId \<and> ru_user r = userId \<and>
                    ru_role r \<in> set projectRoleIds)) (ac_role_user db)\<rparr>
      in if userRows = [] then Inr db1 else ru_insert_ignore userRows db1)"

definition store_getProjectRolesForUser :: "access_db \<Rightarrow> string \<Rightarrow> int \<Rightarrow> int list" where
  "store_getProjectRolesForUser db projectId userId =
     map ru_role (filter (\<lambda>ru. ru_project ru = projectId \<and> role_has_type db PROJECT_ROLE_TYPES (ru_role ru) \<and>
                               ru_user ru = userId) (ac_role_user db))"

definition store_setProjectRolesForGroup ::
  "string \<Rightarrow> int \<Rightarrow> int list \<Rightarrow> string \<Rightarrow> access_db \<Rightarrow> exn + access_db" where
  "store_setProjectRolesForGroup projectId groupId roles createdBy db =
     (let projectRoleIds = role_ids_of_type db PROJECT_ROLE_TYPES;
          groupRows = group_rows [groupId] (filter (\<lambda>r. r \<in> set projectRoleIds) roles) projectId createdBy;
          db1 = db\<lparr>ac_group_role := filter (\<lambda>r. \<not> (gr_project r = projectId \<and> gr_group r = groupId \<and>
                    gr_role r \<in> set projectRoleIds)) (ac_group_role db)\<rparr>
      in if groupRows = [] then Inr db1 else gr_insert_ignore groupRows db1)"

definition store_getProjectRolesForGroup :: "access_db \<Rightarrow> string \<Rightarrow> int \<Rightarrow> int list" where
  "store_getProjectRolesForGroup db projectId groupId =
     map gr_role (filter (\<lambda>gr. gr_project gr = projectId \<and> role_has_type db PROJECT_ROLE_TYPES (gr_role gr) \<and>
                               gr_group gr = groupId) (ac_group_role db))"

definition store_removeUserAccess :: "string \<Rightarrow> int \<Rightarrow> access_db \<Rightarrow> access_db" where
  "store_removeUserAccess projectId userId db =
     db\<lparr>ac_role_user := filter (\<lambda>r. \<not> (ru_user r = userId \<and> ru_project r = projectId \<and>
          ru_role r \<in> set (role_ids_of_type db PROJECT_ROLE_TYPES))) (ac_role_user db)\<rparr>"

definition store_removeGroupAccess :: "string \<Rightarrow> int \<Rightarrow> access_db \<Rightarrow> access_db" where
  "store_removeGroupAccess projectId groupId db =
     db\<lparr>ac_group_role := filter (\<lambda>r. \<not> (gr_group r = groupId \<and> gr_project r = projectId \<and>
          gr_role r \<in> set (role_ids_of_type db PROJECT_ROLE_TYPES))) (ac_group_role db)\<rparr>"

definition removeRolesOfTypeForUser :: "int \<Rightarrow> string list \<Rightarrow> access_db \<Rightarrow> access_db" where
  "removeRolesOfTypeForUser userId roleTypes db =
     db\<lparr>ac_role_user := filter (\<lambda>r. \<not> (ru_user r = userId \<and> ru_role r \<in> set (role_ids_of_type db roleTypes)))
                              (ac_role_user db)\<rparr>"


section \<open>Permissions of a role\<close>

text \<open>\<open>batchInsert\<close> into \<open>role_permission\<close>: a batch with an unknown role or permission inserts nothing.\<close>

definition insert_role_permissions :: "role_permission list \<Rightarrow> access_db \<Rightarrow> exn + access_db" where
  "insert_role_permissions rows db =
     (if \<exists>r\<in>set rows. rp_role r \<notin> ro_id ` set (ac_roles db)
      then Inl (fk_error db ''role_permission_role_id_fkey'')
      else if \<exists>r\<in>set rows. rp_permission r \<notin> pm_permission ` set (ac_permissions db)
      then Inl (fk_error db ''fk_role_permission_permission'')
      else Inr (db\<lparr>ac_role_permission := ac_role_permission db @ rows\<rparr>))"

definition addEnvironmentPermissionsToRole :: "int \<Rightarrow> permission_ref list \<Rightarrow> access_db \<Rightarrow> exn + access_db" where
  "addEnvironmentPermissionsToRole roleId permissions db =
     bindR (resolvePermissions db permissions) (\<lambda>resolved.
       insert_role_permissions (map (\<lambda>p. \<lparr>rp_role = roleId, rp_permission = the (pr_name p),
         rp_environment = pr_environment p\<rparr>) resolved) db)"

definition store_addPermissionsToRole ::
  "int \<Rightarrow> permission_ref list \<Rightarrow> string option \<Rightarrow> access_db \<Rightarrow> exn + access_db" where
  "store_addPermissionsToRole roleId permissions environment db =
     bindR (resolvePermissions db permissions) (\<lambda>named.
       insert_role_permissions (map (\<lambda>p. \<lparr>rp_role = roleId, rp_permission = the (pr_name p),
         rp_environment = environment\<rparr>) named) db)"

text \<open>Knex refuses to compile a condition on \<open>undefined\<close>.\<close>

definition store_removePermissionFromRole ::
  "int \<Rightarrow> string \<Rightarrow> string option \<Rightarrow> access_db \<Rightarrow> exn + access_db" where
  "store_removePermissionFromRole roleId permission environment db =
     (if environment = None then Inl (JsError ''Error'' (ac_message db ''undefined binding''))
      else Inr (db\<lparr>ac_role_permission := filter (\<lambda>r. \<not> (rp_role r = roleId \<and> rp_permission r = permission \<and>
             rp_environment r = environment)) (ac_role_permission db)\<rparr>))"

definition wipePermissionsFromRole :: "int \<Rightarrow> access_db \<Rightarrow> access_db" where
  "wipePermissionsFromRole roleId db =
     db\<lparr>ac_role_permission := filter (\<lambda>r. rp_role r \<noteq> roleId) (ac_role_permission db)\<rparr>"

definition cloneEnvironmentPermissions :: "string \<Rightarrow> string \<Rightarrow> access_db \<Rightarrow> access_db" where
  "cloneEnvironmentPermissions source destination db =
     db\<lparr>ac_role_permission := ac_role_permission db @
          map (\<lambda>r. r\<lparr>rp_environment := Some destination\<rparr>)
            (filter (\<lambda>r. rp_environment r = Some source) (ac_role_permission db))\<rparr>"


section \<open>Roles\<close>

text \<open>Deleting a role deletes its rows elsewhere, unless a group has it as root role (no cascade).\<close>

definition roles_delete :: "int \<Rightarrow> access_db \<Rightarrow> exn + access_db" where
  "roles_delete roleId db =
     (if (\<exists>g\<in>set (ac_groups db). g_root_role g = Some roleId) \<and> roleId \<in> ro_id ` set (ac_roles db)
      then Inl (fk_error db ''fk_group_role_id'')
      else Inr (db\<lparr>ac_roles := filter (\<lambda>r. ro_id r \<noteq> roleId) (ac_roles db),
             ac_role_user := filter (\<lambda>r. ru_role r \<noteq> roleId) (ac_role_user db),
             ac_group_role := filter (\<lambda>r. gr_role r \<noteq> roleId) (ac_group_role db),
             ac_role_permission := filter (\<lambda>r. rp_role r \<noteq> roleId) (ac_role_permission db)\<rparr>))"

definition roles_exists :: "int \<Rightarrow> access_db \<Rightarrow> bool" where
  "roles_exists key db = list_ex (\<lambda>r. ro_id r = key) (ac_roles db)"

definition roles_get :: "int \<Rightarrow> access_db \<Rightarrow> exn + role" where
  "roles_get key db = (case find (\<lambda>r. ro_id r = key) (ac_roles db) of
       None \<Rightarrow> Inl (Api (NotFoundError (Some (''Could not find role with id: '' @ show_int key))))
     | Some r \<Rightarrow> Inr r)"

text \<open>\<open>ORDER BY name ASC\<close> under a byte-wise collation.\<close>

definition roles_getAll :: "access_db \<Rightarrow> role list" where
  "roles_getAll db = sort_key (\<lambda>r. map (of_char :: char \<Rightarrow> nat) (ro_name r)) (ac_roles db)"

definition roles_count :: "access_db \<Rightarrow> nat" where
  "roles_count db = length (ac_roles db)"

definition filteredCount :: "string \<Rightarrow> access_db \<Rightarrow> nat" where
  "filteredCount ty db = length (filter (\<lambda>r. ro_type r = ty) (ac_roles db))"

definition filteredCountInUse :: "string \<Rightarrow> access_db \<Rightarrow> nat" where
  "filteredCountInUse ty db = length (remdups (map ro_id (filter (\<lambda>r. ro_type r = ty \<and>
     (list_ex (\<lambda>ru. ru_role ru = ro_id r) (ac_role_user db) \<or>
      list_ex (\<lambda>g. g_root_role g = Some (ro_id r)) (ac_groups db))) (ac_roles db))))"

definition roles_create :: "string \<Rightarrow> string \<Rightarrow> string \<Rightarrow> access_db \<Rightarrow> exn + (role \<times> access_db)" where
  "roles_create name description roleType db =
     (if name \<in> ro_name ` set (ac_roles db) then Inl (unique_error db ''unique_name'')
      else (let r = \<lparr>ro_id = ac_next_role db, ro_name = name, ro_type = roleType, ro_description = description\<rparr> in
        Inr (r, db\<lparr>ac_roles := ac_roles db @ [r], ac_next_role := ac_next_role db + 1\<rparr>)))"

text \<open>An undefined description leaves the column as it is.\<close>

definition roles_update :: "int \<Rightarrow> string \<Rightarrow> string option \<Rightarrow> access_db \<Rightarrow> exn + (role \<times> access_db)" where
  "roles_update rid name description db =
     (let rows = map (\<lambda>r. if ro_id r = rid then r\<lparr>ro_name := name, ro_description := default (ro_description r) description\<rparr> else r) (ac_roles db)
      in if \<exists>r\<in>set (ac_roles db). ro_id r \<noteq> rid \<and> ro_name r = name \<and> rid \<in> ro_id ` set (ac_roles db)
         then Inl (unique_error db ''unique_name'')
         else (case find (\<lambda>r. ro_id r = rid) rows of
             None \<Rightarrow> Inl (Api (NotFoundError (Some ''No row'')))
           | Some r \<Rightarrow> Inr (r, db\<lparr>ac_roles := rows\<rparr>)))"

text \<open>\<open>if (existingId)\<close>: an id of 0 is no id.\<close>

definition nameInUse :: "string \<Rightarrow> int option \<Rightarrow> access_db \<Rightarrow> bool" where
  "nameInUse name existingId db =
     list_ex (\<lambda>r. ro_name r = name \<and>
       (case existingId of None \<Rightarrow> True | Some i \<Rightarrow> i = 0 \<or> ro_id r \<noteq> i)) (ac_roles db)"

definition roles_of_types :: "string list \<Rightarrow> access_db \<Rightarrow> role list" where
  "roles_of_types types db = filter (\<lambda>r. List.member types (ro_type r)) (ac_roles db)"

definition store_getProjectRoles :: "access_db \<Rightarrow> role list" where
  "store_getProjectRoles db = roles_of_types PROJECT_ROLE_TYPES db"

definition store_getRootRoles :: "access_db \<Rightarrow> role list" where
  "store_getRootRoles db = roles_of_types ROOT_ROLE_TYPES db"

definition store_getRolesForProject :: "access_db \<Rightarrow> string \<Rightarrow> (role \<times> string) list" where
  "store_getRolesForProject db projectId =
     [(r, ru_project ru). ru \<leftarrow> ac_role_user db, ru_project ru = projectId, r \<leftarrow> ac_roles db, ru_role ru = ro_id r]"

definition removeRolesForProject :: "string \<Rightarrow> access_db \<Rightarrow> access_db" where
  "removeRolesForProject projectId db =
     db\<lparr>ac_role_user := filter (\<lambda>r. ru_project r \<noteq> projectId) (ac_role_user db)\<rparr>"

text \<open>\<open>DISTINCT ON (user_id)\<close> over the left join: a root role without users gives user 0 (a null).\<close>

definition getRootRoleForAllUsers :: "access_db \<Rightarrow> (int \<times> int) list" where
  "getRootRoleForAllUsers db =
     (let rows = concat (map (\<lambda>r. case filter (\<lambda>ru. ru_role ru = ro_id r) (ac_role_user db) of
            [] \<Rightarrow> [(ro_id r, 0)]
          | rus \<Rightarrow> map (\<lambda>ru. (ro_id r, ru_user ru)) rus) (store_getRootRoles db))
      in List.map_filter (\<lambda>u. find (\<lambda>x. snd x = u) rows) (remdups (map snd rows)))"

definition getRoleByName :: "access_db \<Rightarrow> string \<Rightarrow> role option" where
  "getRoleByName db name = find (\<lambda>r. ro_name r = name) (ac_roles db)"

end
