(* ===== verification/AccessService.thy ===== *)
theory AccessService
  imports Access TokenService
begin

text \<open>
  The access service (\<open>services/access-service.ts\<close>): who may do what, the roles of users and groups in
  projects, the root role of a user, and the custom roles; and the RBAC middleware
  (\<open>middleware/rbac-middleware.ts\<close>). The state is the RBAC tables, the environments and the events
  the service stored.
\<close>

section \<open>State\<close>

text \<open>The events of the roles; a permission is its name with its environment, empty ones dropped.\<close>

datatype role_event =
    RoleCreated string int role "(string \<times> string option) list"
  | RoleUpdated string int role "(string \<times> string option) list" role "(string \<times> string option) list"
  | RoleDeleted string int role "(string \<times> string option) list"

record access_service =
  as_db :: access_db
  as_environments :: "string list"
  as_events :: "role_event list"

definition with_db :: "access_service \<Rightarrow> access_db \<Rightarrow> access_service" where
  "with_db s db = s\<lparr>as_db := db\<rparr>"

definition on_db :: "(access_db \<Rightarrow> exn + access_db) \<Rightarrow> access_service \<Rightarrow> exn + access_service" where
  "on_db f s = bindR (f (as_db s)) (\<lambda>db. Inr (with_db s db))"


section \<open>Permission checks\<close>

text \<open>A user of the API has the permissions of its token; another user those of its roles.\<close>

record access_user =
  ax_id :: int
  ax_isAPI :: bool
  ax_permissions :: "string list option"

definition meetsAllPermissions ::
  "user_permission list \<Rightarrow> string list \<Rightarrow> string option \<Rightarrow> string option \<Rightarrow> bool" where
  "meetsAllPermissions userP permissionsArray projectId environment =
     list_ex (\<lambda>p. List.member permissionsArray (up_permission p) \<or> up_permission p = ADMIN)
       (filter (\<lambda>p. \<not> truthy (up_environment p) \<or> up_environment p = environment \<or> up_environment p = Some ALL_ENVS)
         (filter (\<lambda>p. \<not> truthy (up_project p) \<or> up_project p = projectId \<or> up_project p = Some ALL_PROJECTS) userP))"

text \<open>\<open>user.permissions?.map\<close>: the permissions of an API user may be undefined.\<close>

definition getPermissionsForUser :: "access_user \<Rightarrow> access_service \<Rightarrow> user_permission list option" where
  "getPermissionsForUser user s =
     (if ax_isAPI user
      then map_option (map (\<lambda>p. \<lparr>up_project = None, up_environment = None, up_permission = p\<rparr>)) (ax_permissions user)
      else Some (store_getPermissionsForUser (as_db s) (ax_id user)))"

text \<open>Undefined permissions make the check throw; the error is logged and the answer is no.\<close>

definition hasPermission ::
  "access_user \<Rightarrow> string list \<Rightarrow> string option \<Rightarrow> string option \<Rightarrow> access_service \<Rightarrow> bool" where
  "hasPermission user permissionsArray projectId environment s =
     (case getPermissionsForUser user s of
        None \<Rightarrow> False
      | Some userP \<Rightarrow> meetsAllPermissions userP permissionsArray projectId environment)"

definition getAllProjectRolesForUser :: "int \<Rightarrow> string \<Rightarrow> access_service \<Rightarrow> (role \<times> string) list" where
  "getAllProjectRolesForUser uid project s = store_getAllProjectRolesForUser (as_db s) uid project"

record available_permissions =
  av_root :: "permission list"
  av_project :: "permission list"
  av_environments :: "(string \<times> permission list) list"

definition getPermissions :: "access_service \<Rightarrow> available_permissions" where
  "getPermissions s = (let bindable = getAvailablePermissions (as_db s) in
     \<lparr>av_root = filter (\<lambda>p. pe_type p = ''root'') bindable,
      av_project = filter (\<lambda>p. pe_type p = ''project'') bindable,
      av_environments = map (\<lambda>env. (env, map (\<lambda>p. p\<lparr>pe_environment := Some env\<rparr>)
        (filter (\<lambda>p. pe_type p = ''environment'') bindable))) (as_environments s)\<rparr>)"

record permission_matrix =
  mx_root :: "(permission \<times> bool) list"
  mx_project :: "(permission \<times> bool) list"
  mx_environment :: "(permission \<times> bool) list"

definition permissionsMatrixForUser ::
  "access_user \<Rightarrow> string option \<Rightarrow> string option \<Rightarrow> access_service \<Rightarrow> exn + permission_matrix" where
  \<open>permissionsMatrixForUser user projectId environment s =
     (let permissions = getPermissions s;
          envs = (case find (\<lambda>ep. Some (fst ep) = environment) (av_environments permissions) of
                    None \<Rightarrow> [] | Some ep \<Rightarrow> snd ep)
      in case getPermissionsForUser user s of
           Some userP \<Rightarrow> Inr
             \<lparr>mx_root = map (\<lambda>p. (p, meetsAllPermissions userP [pe_name p] None None)) (av_root permissions),
              mx_project = map (\<lambda>p. (p, meetsAllPermissions userP [pe_name p] projectId None)) (av_project permissions),
              mx_environment = map (\<lambda>p. (p, meetsAllPermissions userP [pe_name p] projectId environment)) envs\<rparr>
         | None \<Rightarrow>
             if av_root permissions = [] \<and> av_project permissions = [] \<and> envs = []
             then Inr \<lparr>mx_root = [], mx_project = [], mx_environment = []\<rparr>
             else Inl (JsError ''TypeError'' ''Cannot read properties of undefined (reading 'filter')''))\<close>


section \<open>Roles of users and groups\<close>

definition addUserToRole :: "int \<Rightarrow> int \<Rightarrow> int \<Rightarrow> string \<Rightarrow> access_service \<Rightarrow> exn + access_service" where
  "addUserToRole now uid roleId projectId = on_db (store_addUserToRole now uid roleId projectId)"

definition addGroupToRole :: "int \<Rightarrow> int \<Rightarrow> string \<Rightarrow> string \<Rightarrow> access_service \<Rightarrow> exn + access_service" where
  "addGroupToRole groupId roleId createdBy projectId = on_db (store_addGroupToRole groupId roleId createdBy projectId)"

definition addRoleAccessToProject ::
  "int \<Rightarrow> int list \<Rightarrow> int list \<Rightarrow> string \<Rightarrow> int \<Rightarrow> string \<Rightarrow> access_service \<Rightarrow> exn + access_service" where
  "addRoleAccessToProject now users groups projectId roleId createdBy =
     on_db (store_addRoleAccessToProject now users groups projectId roleId createdBy)"

definition addAccessToProject ::
  "int \<Rightarrow> int list \<Rightarrow> int list \<Rightarrow> int list \<Rightarrow> string \<Rightarrow> string \<Rightarrow> access_service \<Rightarrow> exn + access_service" where
  "addAccessToProject now roles groups users projectId createdBy s =
     (if roles = []
      then Inl (Api (BadDataError ''You can't grant access without any roles. The roles array you sent was empty.''))
      else on_db (store_addAccessToProject now roles groups users projectId createdBy) s)"

definition setProjectRolesForUser ::
  "int \<Rightarrow> string \<Rightarrow> int \<Rightarrow> int list \<Rightarrow> access_service \<Rightarrow> exn + access_service" where
  "setProjectRolesForUser now projectId uid roles = on_db (store_setProjectRolesForUser now projectId uid roles)"

definition getProjectRolesForUser :: "string \<Rightarrow> int \<Rightarrow> access_service \<Rightarrow> int list" where
  "getProjectRolesForUser projectId uid s = store_getProjectRolesForUser (as_db s) projectId uid"

definition setProjectRolesForGroup ::
  "string \<Rightarrow> int \<Rightarrow> int list \<Rightarrow> string \<Rightarrow> access_service \<Rightarrow> exn + access_service" where
  "setProjectRolesForGroup projectId groupId roles createdBy =
     on_db (store_setProjectRolesForGroup projectId groupId roles createdBy)"

definition getProjectRolesForGroup :: "string \<Rightarrow> int \<Rightarrow> access_service \<Rightarrow> int list" where
  "getProjectRolesForGroup projectId groupId s = store_getProjectRolesForGroup (as_db s) projectId groupId"

definition removeUserAccess :: "string \<Rightarrow> int \<Rightarrow> access_service \<Rightarrow> access_service" where
  "removeUserAccess projectId uid s = with_db s (store_removeUserAccess projectId uid (as_db s))"

definition removeGroupAccess :: "string \<Rightarrow> int \<Rightarrow> access_service \<Rightarrow> access_service" where
  "removeGroupAccess projectId groupId s = with_db s (store_removeGroupAccess projectId groupId (as_db s))"

datatype role_key = RoleId int | RoleNamed string

fun show_role_key :: "role_key \<Rightarrow> string" where
  "show_role_key (RoleId i) = show_int i"
| "show_role_key (RoleNamed n) = n"

definition resolveRootRole :: "role_key \<Rightarrow> access_service \<Rightarrow> role option" where
  "resolveRootRole rootRole s = (let rootRoles = store_getRootRoles (as_db s) in
     case rootRole of
       RoleId i \<Rightarrow> find (\<lambda>r. ro_id r = i) rootRoles
     | RoleNamed n \<Rightarrow> find (\<lambda>r. ro_name r = n) rootRoles)"

text \<open>Not a transaction: where the second statement fails, the root roles are already gone.\<close>

definition setUserRootRole :: "int \<Rightarrow> int \<Rightarrow> role_key \<Rightarrow> access_service \<Rightarrow> (exn + unit) \<times> access_service" where
  "setUserRootRole now uid role s = (case resolveRootRole role s of
       None \<Rightarrow> (Inl (Api (BadDataError (''Could not find rootRole='' @ show_role_key role))), s)
     | Some newRootRole \<Rightarrow>
         (let db1 = removeRolesOfTypeForUser uid ROOT_ROLE_TYPES (as_db s) in
          case store_addUserToRole now uid (ro_id newRootRole) DEFAULT_PROJECT db1 of
            Inr db2 \<Rightarrow> (Inr (), with_db s db2)
          | Inl _ \<Rightarrow> (Inl (JsError ''Error'' (''Could not add role='' @ ro_name newRootRole @ '' to userId='' @ show_int uid)),
                     with_db s db1)))"

text \<open>The message interpolates the enum object instead of the name.\<close>

definition getPredefinedRole :: "string \<Rightarrow> access_service \<Rightarrow> exn + role" where
  "getPredefinedRole roleName s = (case getRoleByName (as_db s) roleName of
       None \<Rightarrow> Inl (Api (BadDataError ''Could not find pre-defined role with name [object Object]''))
     | Some r \<Rightarrow> Inr r)"

definition getRootRoleForUser :: "int \<Rightarrow> access_service \<Rightarrow> exn + role" where
  "getRootRoleForUser uid s = (case store_getRootRoleForUser (as_db s) uid of
       None \<Rightarrow> getPredefinedRole ''Viewer'' s
     | Some r \<Rightarrow> Inr r)"

definition removeUserFromRole :: "int \<Rightarrow> int \<Rightarrow> string \<Rightarrow> access_service \<Rightarrow> access_service" where
  "removeUserFromRole uid roleId projectId s = with_db s (store_removeUserFromRole uid roleId projectId (as_db s))"

definition removeGroupFromRole :: "int \<Rightarrow> int \<Rightarrow> string \<Rightarrow> access_service \<Rightarrow> access_service" where
  "removeGroupFromRole groupId roleId projectId s = with_db s (store_removeGroupFromRole groupId roleId projectId (as_db s))"

definition updateUserProjectRole :: "int \<Rightarrow> int \<Rightarrow> string \<Rightarrow> access_service \<Rightarrow> exn + access_service" where
  "updateUserProjectRole uid roleId projectId = on_db (store_updateUserProjectRole uid roleId projectId)"

definition updateGroupProjectRole :: "int \<Rightarrow> int \<Rightarrow> string \<Rightarrow> access_service \<Rightarrow> exn + access_service" where
  "updateGroupProjectRole groupId roleId projectId = on_db (store_updateGroupProjectRole groupId roleId projectId)"

definition PROJECT_ADMIN :: "string list" where
  "PROJECT_ADMIN = [''UPDATE_PROJECT'', ''DELETE_PROJECT'', ''CREATE_FEATURE'', ''UPDATE_FEATURE'', ''DELETE_FEATURE'']"

definition isProjectPermission :: "string \<Rightarrow> bool" where
  "isProjectPermission permission = List.member PROJECT_ADMIN permission"

definition no_project_error :: "string \<Rightarrow> exn" where
  "no_project_error permission = JsError ''Error'' (''ProjectId cannot be empty for permission='' @ permission)"

definition addPermissionToRole :: "int \<Rightarrow> string \<Rightarrow> string option \<Rightarrow> access_service \<Rightarrow> exn + access_service" where
  "addPermissionToRole roleId permission environment s =
     (if isProjectPermission permission \<and> \<not> truthy environment then Inl (no_project_error permission)
      else on_db (store_addPermissionsToRole roleId
        [\<lparr>pr_id = None, pr_name = Some permission, pr_environment = None\<rparr>] environment) s)"

definition removePermissionFromRole :: "int \<Rightarrow> string \<Rightarrow> string option \<Rightarrow> access_service \<Rightarrow> exn + access_service" where
  "removePermissionFromRole roleId permission environment s =
     (if isProjectPermission permission \<and> \<not> truthy environment then Inl (no_project_error permission)
      else on_db (store_removePermissionFromRole roleId permission environment) s)"


section \<open>Queries\<close>

text \<open>\<open>accountStore.getAllWithId\<close>: the active users among the given ids.\<close>

definition active_users_in :: "access_db \<Rightarrow> int list \<Rightarrow> int list" where
  "active_users_in db ids = map us_id (filter (\<lambda>u. us_active u \<and> List.member ids (us_id u)) (ac_users db))"

definition getRoles :: "access_service \<Rightarrow> role list" where
  "getRoles s = ac_roles (as_db s)"

definition getRole :: "int \<Rightarrow> access_service \<Rightarrow> exn + (role \<times> permission list)" where
  "getRole rid s = bindR (roles_get rid (as_db s)) (\<lambda>r. Inr (r, getPermissionsForRole (as_db s) (ro_id r)))"

definition getUsersForRole :: "int \<Rightarrow> access_service \<Rightarrow> int list" where
  "getUsersForRole rid s = (let ids = getUserIdsForRole (as_db s) rid in
     if ids \<noteq> [] then active_users_in (as_db s) ids else [])"

definition getGroupsForRole :: "int \<Rightarrow> access_service \<Rightarrow> int list" where
  "getGroupsForRole rid s = (let ids = getGroupIdsForRole (as_db s) rid in
     if ids \<noteq> [] then map g_id (filter (\<lambda>g. List.member ids (g_id g)) (ac_groups (as_db s))) else [])"

definition getRoleData :: "int \<Rightarrow> access_service \<Rightarrow> exn + (role \<times> permission list \<times> int list)" where
  "getRoleData rid s =
     bindR (roles_get rid (as_db s)) (\<lambda>r. Inr (r, getPermissionsForRole (as_db s) rid, getUsersForRole rid s))"

definition getProjectRoles :: "access_service \<Rightarrow> role list" where
  "getProjectRoles s = store_getProjectRoles (as_db s)"

definition getRolesForProject :: "string \<Rightarrow> access_service \<Rightarrow> (role \<times> string) list" where
  "getRolesForProject projectId s = store_getRolesForProject (as_db s) projectId"

definition getRolesForUser :: "int \<Rightarrow> access_service \<Rightarrow> (role \<times> string) list" where
  "getRolesForUser uid s = getRolesForUserId (as_db s) uid"

definition wipeUserPermissions :: "int \<Rightarrow> access_service \<Rightarrow> access_service" where
  "wipeUserPermissions uid s = with_db s (clearPublicSignupUserTokens uid
     (clearUserPersonalAccessTokens uid (unlinkUserGroups uid (unlinkUserRoles uid (as_db s)))))"

text \<open>Users with their id, when they were added and the role.\<close>

definition getProjectUsersForRole :: "int \<Rightarrow> string \<Rightarrow> access_service \<Rightarrow> (int \<times> int \<times> int) list" where
  "getProjectUsersForRole roleId projectId s =
     (let userRoleList = store_getProjectUsersForRole (as_db s) roleId projectId in
      List.map_filter (\<lambda>u. map_option (\<lambda>(_, _, addedAt). (u, addedAt, roleId))
                             (find (\<lambda>(i, _, _). i = u) userRoleList))
        (if userRoleList \<noteq> [] then active_users_in (as_db s) (map fst userRoleList) else []))"

definition getProjectUsers :: "string \<Rightarrow> access_service \<Rightarrow> project_user list" where
  "getProjectUsers projectId s =
     (let projectUsers = store_getProjectUsers (as_db s) projectId in
      if projectUsers \<noteq> []
      then concat (map (\<lambda>u. filter (\<lambda>pu. pu_id pu = u) projectUsers)
             (active_users_in (as_db s) (map pu_id projectUsers)))
      else [])"

text \<open>The groups of a project come from the group service: an argument.\<close>

definition getProjectRoleAccess ::
  "(string \<Rightarrow> 'g list) \<Rightarrow> string \<Rightarrow> access_service \<Rightarrow> role list \<times> 'g list \<times> project_user list" where
  "getProjectRoleAccess getProjectGroups projectId s =
     (getProjectRoles s, getProjectGroups projectId, getProjectUsers projectId s)"

definition getProjectRoleUsage :: "int \<Rightarrow> access_service \<Rightarrow> role_usage list" where
  "getProjectRoleUsage roleId s = getProjectUserAndGroupCountsForRole (as_db s) roleId"


section \<open>The roles of a project\<close>

definition createDefaultProjectRoles :: "int \<Rightarrow> int option \<Rightarrow> string \<Rightarrow> access_service \<Rightarrow> exn + access_service" where
  \<open>createDefaultProjectRoles now owner projectId s =
     (if projectId = [] then Inl (JsError ''Error'' ''ProjectId cannot be empty'')
      else if num_or owner 0 = 0 then Inr s
      else (case getRoleByName (as_db s) ''Owner'' of
          None \<Rightarrow> Inl (JsError ''TypeError'' ''Cannot read properties of undefined (reading 'id')'')
        | Some ownerRole \<Rightarrow> on_db (store_addUserToRole now (num_or owner 0) (ro_id ownerRole) projectId) s))\<close>

definition removeDefaultProjectRoles :: "string \<Rightarrow> access_service \<Rightarrow> access_service" where
  "removeDefaultProjectRoles projectId s = with_db s (removeRolesForProject projectId (as_db s))"


section \<open>Custom roles\<close>

record role_creation =
  rc_name :: string
  rc_description :: "string option"
  rc_type :: "string option"
  rc_permissions :: "permission_ref list option"
  rc_createdBy :: "string option"
  rc_createdByUserId :: int

text \<open>
  The role schema: a name that is not empty, and an id or a non-empty name for every permission;
  the description defaults to the empty string. How a permission prints is an argument.
\<close>

definition permission_errors :: "(permission_ref \<Rightarrow> string) \<Rightarrow> nat \<times> permission_ref \<Rightarrow> joi_detail list" where
  \<open>permission_errors json ip = (case ip of (i, p) \<Rightarrow>
     (if pr_name p = Some []
      then [\<lparr>jd_message = ''"permissions['' @ show_nat i @ ''].name" is not allowed to be empty'', jd_value = None\<rparr>] else []) @
     (if pr_id p = None \<and> pr_name p = None
      then [\<lparr>jd_message = ''"permissions['' @ show_nat i @ '']" must contain at least one of [id, name]'',
             jd_value = Some (json p)\<rparr>] else []))\<close>

definition roleSchema :: "(permission_ref \<Rightarrow> string) \<Rightarrow> role_creation \<Rightarrow> exn + string" where
  \<open>roleSchema json r =
     (let ds = (if rc_name r = [] then [\<lparr>jd_message = ''"name" is not allowed to be empty'', jd_value = None\<rparr>] else []) @
               concat (map (permission_errors json) (List.enumerate 0 (default [] (rc_permissions r))))
      in if ds = [] then Inr (default [] (rc_description r))
         else Inl (JoiError (join_with ''. '' (map jd_message ds)) ds))\<close>

definition validateRoleIsUnique :: "string \<Rightarrow> int option \<Rightarrow> access_service \<Rightarrow> exn + unit" where
  "validateRoleIsUnique roleName existingId s =
     throw_if (nameInUse roleName existingId (as_db s))
       (Api (NameExistsError (''There already exists a role with the name '' @ roleName)))"

definition validateRoleIsNotBuiltIn :: "int \<Rightarrow> access_service \<Rightarrow> exn + unit" where
  "validateRoleIsNotBuiltIn roleId s =
     bindR (roles_get roleId (as_db s)) (\<lambda>role.
       throw_if (ro_type role \<noteq> ''custom'' \<and> ro_type role \<noteq> ''root-custom'')
         (Api (InvalidOperationError ''You cannot change built in roles.'')))"

definition validateRole ::
  "(permission_ref \<Rightarrow> string) \<Rightarrow> role_creation \<Rightarrow> int option \<Rightarrow> access_service \<Rightarrow> exn + string" where
  "validateRole json role existingId s =
     bindR (roleSchema json role) (\<lambda>cleaned.
     bindR (if num_or existingId 0 \<noteq> 0 then validateRoleIsNotBuiltIn (the existingId) s else Inr ()) (\<lambda>_.
     bindR (validateRoleIsUnique (rc_name role) existingId s) (\<lambda>_. Inr cleaned)))"

definition sanitizePermissions :: "permission list \<Rightarrow> (string \<times> string option) list" where
  "sanitizePermissions ps =
     map (\<lambda>p. (pe_name p, if truthy (pe_environment p) then pe_environment p else None)) ps"

definition custom_role_type :: "role_creation \<Rightarrow> string" where
  "custom_role_type role = (if rc_type role = Some ''root-custom'' then ''root-custom'' else ''custom'')"

text \<open>The permissions of a custom root role have no environment, those of a project role their own.\<close>

definition add_role_permissions :: "string \<Rightarrow> int \<Rightarrow> permission_ref list \<Rightarrow> access_db \<Rightarrow> exn + access_db" where
  "add_role_permissions roleType rid ps =
     (if roleType = ''root-custom'' then store_addPermissionsToRole rid ps None
      else addEnvironmentPermissionsToRole rid ps)"

text \<open>
  The statements are not one transaction: where the permissions cannot be added, the role has been
  created (or, in an update, changed and its permissions wiped), and the state says so.
\<close>

definition createRole ::
  "(permission_ref \<Rightarrow> string) \<Rightarrow> role_creation \<Rightarrow> access_service \<Rightarrow> (exn + role) \<times> access_service" where
  "createRole json role s =
     (let roleType = custom_role_type role in
      case bindR (validateRole json role None s) (\<lambda>cleaned. roles_create (rc_name role) cleaned roleType (as_db s)) of
        Inl e \<Rightarrow> (Inl e, s)
      | Inr (newRole, db1) \<Rightarrow>
          (case (case rc_permissions role of None \<Rightarrow> Inr db1
                 | Some ps \<Rightarrow> add_role_permissions roleType (ro_id newRole) ps db1) of
             Inl e \<Rightarrow> (Inl e, with_db s db1)
           | Inr db2 \<Rightarrow> (Inr newRole, (with_db s db2)\<lparr>as_events := as_events s @
               [RoleCreated (or_else (rc_createdBy role) ''unknown'') (rc_createdByUserId role) newRole
                  (sanitizePermissions (getPermissionsForRole db2 (ro_id newRole)))]\<rparr>)))"

definition updateRole ::
  "(permission_ref \<Rightarrow> string) \<Rightarrow> int \<Rightarrow> role_creation \<Rightarrow> access_service \<Rightarrow> (exn + role) \<times> access_service" where
  "updateRole json rid role s =
     (let roleType = custom_role_type role in
      case bindR (validateRole json role (Some rid) s) (\<lambda>_.
           bindR (roles_get rid (as_db s)) (\<lambda>existingRole.
           bindR (roles_update rid (rc_name role) (rc_description role) (as_db s)) (\<lambda>(updatedRole, db1).
           Inr (existingRole, updatedRole, db1)))) of
        Inl e \<Rightarrow> (Inl e, s)
      | Inr (existingRole, updatedRole, db1) \<Rightarrow>
          (let existingPermissions = getPermissionsForRole db1 rid;
               wiped = (case rc_permissions role of None \<Rightarrow> db1 | Some _ \<Rightarrow> wipePermissionsFromRole (ro_id updatedRole) db1)
           in case (case rc_permissions role of None \<Rightarrow> Inr db1
                    | Some ps \<Rightarrow> add_role_permissions roleType (ro_id updatedRole) ps wiped) of
                Inl e \<Rightarrow> (Inl e, with_db s wiped)
              | Inr db2 \<Rightarrow> (Inr updatedRole, (with_db s db2)\<lparr>as_events := as_events s @
                  [RoleUpdated (or_else (rc_createdBy role) SYSTEM_USER_username) (rc_createdByUserId role)
                     updatedRole (sanitizePermissions (getPermissionsForRole db2 rid))
                     existingRole (sanitizePermissions existingPermissions)]\<rparr>)))"

definition deleteRole :: "int \<Rightarrow> string \<Rightarrow> int \<Rightarrow> access_service \<Rightarrow> exn + access_service" where
  "deleteRole rid deletedBy deletedByUserId s =
     bindR (validateRoleIsNotBuiltIn rid s) (\<lambda>_.
     let roleUsers = getUsersForRole rid s; roleGroups = getGroupsForRole rid s in
     if roleUsers \<noteq> [] \<or> roleGroups \<noteq> []
     then Inl (Api (RoleInUseError (''Role is in use by users('' @ show_nat (length roleUsers) @ '') or groups('' @
            show_nat (length roleGroups) @ ''). You cannot delete a role that is in use without first removing the role from the users and groups.'')))
     else bindR (roles_get rid (as_db s)) (\<lambda>existingRole.
          bindR (roles_delete rid (as_db s)) (\<lambda>db'.
          Inr ((with_db s db')\<lparr>as_events := as_events s @
            [RoleDeleted deletedBy deletedByUserId existingRole
               (sanitizePermissions (getPermissionsForRole (as_db s) rid))]\<rparr>))))"


section \<open>The RBAC middleware\<close>

record rbac_request =
  rb_user :: "user_info option"
  rb_isAPI :: bool
  rb_permissions :: "string list option"
  rb_params :: "(string \<times> string) list"
  rb_body :: "(string \<times> string) list option"

definition findParam :: "string \<Rightarrow> rbac_request \<Rightarrow> string option" where
  "findParam name req =
     (let found = (case map_of (rb_params req) name of
            Some v \<Rightarrow> Some v
          | None \<Rightarrow> (case rb_body req of None \<Rightarrow> None | Some b \<Rightarrow> map_of b name))
      in if truthy found then found else None)"

definition first_some :: "'a option \<Rightarrow> 'a option \<Rightarrow> 'a option" where
  "first_some a b = (case a of Some x \<Rightarrow> Some x | None \<Rightarrow> b)"

text \<open>
  The project of a request: named, that of the feature or segment (the stores are arguments), or the
  default one.
\<close>

definition rbac_project ::
  "(string option \<Rightarrow> exn + string option) \<Rightarrow> (string \<Rightarrow> exn + string option) \<Rightarrow> string list \<Rightarrow> rbac_request
     \<Rightarrow> exn + string option" where
  "rbac_project getProjectId segment_project permissionsArray req =
     (let named = first_some (findParam ''projectId'' req) (findParam ''project'' req) in
      bindR (if named = None \<and> (List.member permissionsArray ''DELETE_FEATURE'' \<or> List.member permissionsArray ''UPDATE_FEATURE'')
             then getProjectId (map_of (rb_params req) ''featureName'')
             else if named = None \<and> list_ex (\<lambda>p. p = ''CREATE_FEATURE'' \<or> ends_with p ''FEATURE_STRATEGY'') permissionsArray
             then Inr (Some ''default'')
             else Inr named) (\<lambda>projectId.
        if \<not> truthy projectId \<and> List.member permissionsArray ''UPDATE_PROJECT_SEGMENT''
           \<and> truthy (map_of (rb_params req) ''id'')
        then segment_project (the (map_of (rb_params req) ''id''))
        else Inr projectId))"

text \<open>The answer, and the id of the request's user afterwards.\<close>

definition checkRbac ::
  "(string option \<Rightarrow> exn + string option) \<Rightarrow> (string \<Rightarrow> exn + string option) \<Rightarrow> string list \<Rightarrow> rbac_request
     \<Rightarrow> access_service \<Rightarrow> exn + (bool \<times> int option)" where
  \<open>checkRbac getProjectId segment_project permissionsArray req s =
     (case rb_user req of
        None \<Rightarrow> Inr (False, None)
      | Some user \<Rightarrow>
          if rb_isAPI req
          then (case rb_permissions req of
                  None \<Rightarrow> Inl (JsError ''TypeError'' ''Cannot read properties of undefined (reading 'includes')'')
                | Some ps \<Rightarrow>
                    if List.member ps ADMIN
                    then Inr (True, if num_or (ui_id user) 0 = 0 then Some (extractUserIdFromUser (Some user)) else ui_id user)
                    else Inr (False, ui_id user))
          else if num_or (ui_id user) 0 = 0 then Inr (False, ui_id user)
          else bindR (rbac_project getProjectId segment_project permissionsArray req) (\<lambda>projectId.
            Inr (hasPermission \<lparr>ax_id = num_or (ui_id user) 0, ax_isAPI = False, ax_permissions = rb_permissions req\<rparr>
                   permissionsArray projectId
                   (first_some (findParam ''environment'' req) (findParam ''environmentId'' req)) s, ui_id user)))\<close>

end
