(* ===== verification/AccessFacts.thy ===== *)
theory AccessFacts
  imports AccessService
begin

text \<open>
  Lemmas of the access tables: the keys and references every operation keeps, what a permission
  check means in terms of the tables, and the interface that users and groups share for their roles
  in a project (\<open>project_roles\<close>).
\<close>

section \<open>Keys and references\<close>

definition access_ok :: "access_db \<Rightarrow> bool" where
  "access_ok db =
     (distinct (map ro_id (ac_roles db)) \<and> distinct (map ro_name (ac_roles db)) \<and>
      (\<forall>r\<in>set (ac_roles db). ro_id r < ac_next_role db) \<and>
      distinct (map ru_key (ac_role_user db)) \<and> distinct (map gr_key (ac_group_role db)) \<and>
      (\<forall>r\<in>set (ac_role_user db). ru_role r \<in> ro_id ` set (ac_roles db) \<and> ru_user r \<in> us_id ` set (ac_users db)) \<and>
      (\<forall>r\<in>set (ac_group_role db). gr_group r \<in> g_id ` set (ac_groups db) \<and> gr_role r \<in> ro_id ` set (ac_roles db) \<and>
         gr_project r \<in> set (ac_projects db)) \<and>
      (\<forall>r\<in>set (ac_role_permission db). rp_role r \<in> ro_id ` set (ac_roles db) \<and>
         rp_permission r \<in> pm_permission ` set (ac_permissions db)) \<and>
      (\<forall>g\<in>set (ac_groups db). \<forall>r. g_root_role g = Some r \<longrightarrow> r \<in> ro_id ` set (ac_roles db)) \<and>
      distinct (map g_id (ac_groups db)) \<and> 0 < ac_next_group db \<and>
      (\<forall>g\<in>set (ac_groups db). 0 < g_id g \<and> g_id g < ac_next_group db) \<and>
      distinct (map gu_key (ac_group_user db)) \<and>
      (\<forall>gu\<in>set (ac_group_user db). gu_group gu \<in> g_id ` set (ac_groups db) \<and> gu_user gu \<in> us_id ` set (ac_users db)))"

lemma ru_fk_checked:
  "mapR (ru_fk_check db) rows = Inr us \<Longrightarrow> r \<in> set rows \<Longrightarrow>
     ru_role r \<in> ro_id ` set (ac_roles db) \<and> ru_user r \<in> us_id ` set (ac_users db)"
  by (drule (1) mapR_unit) (auto simp: ru_fk_check_def split: if_splits)

lemma gr_fk_checked:
  "mapR (gr_fk_check db) rows = Inr us \<Longrightarrow> r \<in> set rows \<Longrightarrow>
     gr_group r \<in> g_id ` set (ac_groups db) \<and> gr_role r \<in> ro_id ` set (ac_roles db) \<and>
     gr_project r \<in> set (ac_projects db)"
  by (drule (1) mapR_unit) (auto simp: gr_fk_check_def split: if_splits)

text \<open>Insertions that ignore or overwrite a conflicting row keep the key of the table.\<close>

definition add_new :: "('a \<Rightarrow> 'k) \<Rightarrow> 'a list \<Rightarrow> 'a list \<Rightarrow> 'a list" where
  "add_new key t rows = foldl (\<lambda>t r. if key r \<in> key ` set t then t else t @ [r]) t rows"

lemma add_new_Nil [simp]: "add_new key t [] = t"
  by (simp add: add_new_def)

lemma add_new_Cons [simp]:
  "add_new key t (r # rows) = add_new key (if key r \<in> key ` set t then t else t @ [r]) rows"
  by (simp add: add_new_def)

lemma add_new_distinct: "distinct (map key t) \<Longrightarrow> distinct (map key (add_new key t rows))"
  by (induction rows arbitrary: t) auto

lemma add_new_subset: "set (add_new key t rows) \<subseteq> set t \<union> set rows"
proof (induction rows arbitrary: t)
  case (Cons r rows)
  have "set (if key r \<in> key ` set t then t else t @ [r]) \<subseteq> insert r (set t)" by auto
  then show ?case using Cons.IH [of "if key r \<in> key ` set t then t else t @ [r]"]
    by (simp only: add_new_Cons list.set) blast
qed simp

lemma add_new_keys: "key ` set (add_new key t rows) = key ` set t \<union> key ` set rows"
  by (induction rows arbitrary: t) auto

lemma add_new_superset: "set t \<subseteq> set (add_new key t rows)"
proof (induction rows arbitrary: t)
  case (Cons r rows)
  have "set t \<subseteq> set (if key r \<in> key ` set t then t else t @ [r])" by auto
  then show ?case using Cons.IH [of "if key r \<in> key ` set t then t else t @ [r]"]
    by (simp only: add_new_Cons)
qed simp

text \<open>The rows of another key are exactly what they were.\<close>

lemma add_new_filter:
  "(\<And>r. r \<in> set rows \<Longrightarrow> \<not> P r) \<Longrightarrow> filter P (add_new key t rows) = filter P t"
  by (induction rows arbitrary: t) auto

lemma ru_insert_ignore_iff:
  "ru_insert_ignore rows db = Inr db' \<longleftrightarrow>
     (\<exists>us. mapR (ru_fk_check db) rows = Inr us) \<and>
     db' = db\<lparr>ac_role_user := add_new ru_key (ac_role_user db) rows\<rparr>"
  by (auto simp: ru_insert_ignore_def add_new_def bindR_Inr_iff)

lemma gr_insert_ignore_iff:
  "gr_insert_ignore rows db = Inr db' \<longleftrightarrow>
     (\<exists>us. mapR (gr_fk_check db) rows = Inr us) \<and>
     db' = db\<lparr>ac_group_role := add_new gr_key (ac_group_role db) rows\<rparr>"
  by (auto simp: gr_insert_ignore_def add_new_def bindR_Inr_iff)

lemma ru_insert_ignore_ok:
  assumes "ru_insert_ignore rows db = Inr db'" and "access_ok db"
  shows "access_ok db'"
proof -
  from assms(1) obtain us where us: "mapR (ru_fk_check db) rows = Inr us"
    and db': "db' = db\<lparr>ac_role_user := add_new ru_key (ac_role_user db) rows\<rparr>"
    by (auto simp: ru_insert_ignore_iff)
  have "\<forall>r\<in>set (add_new ru_key (ac_role_user db) rows).
      ru_role r \<in> ro_id ` set (ac_roles db) \<and> ru_user r \<in> us_id ` set (ac_users db)"
    using add_new_subset [of ru_key "ac_role_user db" rows] ru_fk_checked [OF us] assms(2)
    unfolding access_ok_def by blast
  then show ?thesis using assms(2) add_new_distinct [of ru_key "ac_role_user db" rows] by (simp add: access_ok_def db')
qed

lemma gr_insert_ignore_ok:
  assumes "gr_insert_ignore rows db = Inr db'" and "access_ok db"
  shows "access_ok db'"
proof -
  from assms(1) obtain us where us: "mapR (gr_fk_check db) rows = Inr us"
    and db': "db' = db\<lparr>ac_group_role := add_new gr_key (ac_group_role db) rows\<rparr>"
    by (auto simp: gr_insert_ignore_iff)
  have "\<forall>r\<in>set (add_new gr_key (ac_group_role db) rows).
      gr_group r \<in> g_id ` set (ac_groups db) \<and> gr_role r \<in> ro_id ` set (ac_roles db) \<and>
      gr_project r \<in> set (ac_projects db)"
    using add_new_subset [of gr_key "ac_group_role db" rows] gr_fk_checked [OF us] assms(2)
    unfolding access_ok_def by blast
  then show ?thesis using assms(2) add_new_distinct [of gr_key "ac_group_role db" rows] by (simp add: access_ok_def db')
qed

lemma merge_step_keys:
  "map key (map (\<lambda>x. if key x = key r then r else x) t) = map key t"
  by auto

lemma gr_insert_merge_effect:
  assumes "gr_insert_merge rows db = Inr db'"
  obtains us t where "mapR (gr_fk_check db) rows = Inr us" "db' = db\<lparr>ac_group_role := t\<rparr>"
    "distinct (map gr_key (ac_group_role db)) \<longrightarrow> distinct (map gr_key t)"
    "set t \<subseteq> set (ac_group_role db) \<union> set rows"
    "gr_key ` set t = gr_key ` set (ac_group_role db) \<union> gr_key ` set rows"
proof -
  let ?f = "\<lambda>t r. if gr_key r \<in> gr_key ` set t then map (\<lambda>x. if gr_key x = gr_key r then r else x) t else t @ [r]"
  have fold: "(distinct (map gr_key t) \<longrightarrow> distinct (map gr_key (foldl ?f t rs))) \<and>
      set (foldl ?f t rs) \<subseteq> set t \<union> set rs \<and> gr_key ` set (foldl ?f t rs) = gr_key ` set t \<union> gr_key ` set rs" for t rs
  proof (induction rs arbitrary: t)
    case Nil
    then show ?case by simp
  next
    case (Cons r rs)
    have k: "gr_key ` set (?f t r) = insert (gr_key r) (gr_key ` set t)"
    proof (cases "gr_key r \<in> gr_key ` set t")
      case True
      have "gr_key ` set (map (\<lambda>x. if gr_key x = gr_key r then r else x) t) = gr_key ` set t"
        by (simp only: set_map [symmetric] merge_step_keys)
      with True show ?thesis by (simp only: if_True insert_absorb)
    qed simp
    have "distinct (map gr_key t) \<longrightarrow> distinct (map gr_key (?f t r))"
      by (cases "gr_key r \<in> gr_key ` set t") (simp_all only: if_True if_False merge_step_keys, auto)
    moreover have "set (?f t r) \<subseteq> insert r (set t)" by auto
    ultimately show ?case using Cons.IH [of "?f t r"] k by auto
  qed
  from assms obtain us where us: "mapR (gr_fk_check db) rows = Inr us"
    and db': "db' = db\<lparr>ac_group_role := foldl ?f (ac_group_role db) rows\<rparr>"
    by (auto simp: gr_insert_merge_def bindR_Inr_iff split: if_splits)
  show thesis by (rule that [OF us db']) (use fold [where t = "ac_group_role db" and rs = rows] in blast)+
qed


section \<open>What a permission check means\<close>

text \<open>
  The roles of a user and the project each covers: directly, through a group, or through the root role
  of a group (which covers the default project, as far as its permissions have a project at all).
\<close>

definition has_role :: "access_db \<Rightarrow> int \<Rightarrow> int \<Rightarrow> string \<Rightarrow> bool" where
  "has_role db uid rid project \<longleftrightarrow>
     (\<exists>ur\<in>set (ac_role_user db). ru_user ur = uid \<and> ru_role ur = rid \<and> ru_project ur = project) \<or>
     (\<exists>g\<in>set (ac_groups db). (\<exists>gu\<in>set (ac_group_user db). gu_group gu = g_id g \<and> gu_user gu = uid) \<and>
        ((\<exists>gr\<in>set (ac_group_role db). gr_group gr = g_id g \<and> gr_role gr = rid \<and> gr_project gr = project) \<or>
         g_root_role g = Some rid \<and> project = DEFAULT_PROJECT))"

definition role_grants :: "access_db \<Rightarrow> int \<Rightarrow> string \<Rightarrow> string \<Rightarrow> string option \<Rightarrow> bool" where
  "role_grants db rid permission ty environment \<longleftrightarrow>
     (\<exists>rp\<in>set (ac_role_permission db). rp_role rp = rid \<and> rp_permission rp = permission \<and>
        rp_environment rp = environment \<and>
        (\<exists>p\<in>set (ac_permissions db). pm_permission p = permission \<and> pm_type p = ty))"

text \<open>A root permission covers every project; only an environment permission is tied to one.\<close>

definition covers_project :: "string \<Rightarrow> string \<Rightarrow> string option \<Rightarrow> bool" where
  "covers_project ty project projectId \<longleftrightarrow>
     ty = ''root'' \<or> project = [] \<or> project = ALL_PROJECTS \<or> projectId = Some project"

definition covers_environment :: "string \<Rightarrow> string option \<Rightarrow> string option \<Rightarrow> bool" where
  "covers_environment ty env environment \<longleftrightarrow>
     ty \<noteq> ''environment'' \<or> \<not> truthy env \<or> env = Some ALL_ENVS \<or> env = environment"

lemma permissions_of_role_iff:
  "(rp, p) \<in> set (permissions_of_role db rid) \<longleftrightarrow>
     rp \<in> set (ac_role_permission db) \<and> rp_role rp = rid \<and> p \<in> set (ac_permissions db) \<and>
     pm_permission p = rp_permission rp"
  by (auto simp: permissions_of_role_def)

lemma user_permission_row_iff:
  "(project, permission, env, ty, rid) \<in> set (user_permission_rows db uid) \<longleftrightarrow>
     has_role db uid rid project \<and> role_grants db rid permission ty env"
proof -
  have u: "(\<exists>x\<in>set (permissions_of_role db r). (project, permission, env, ty, rid) = union_row pr r x) \<longleftrightarrow>
      r = rid \<and> pr = project \<and> role_grants db rid permission ty env" for r pr
    by (auto simp: permissions_of_role_iff union_row_def role_grants_def Bex_def)
  have "(project, permission, env, ty, rid) \<in> set (user_permission_rows db uid) \<longleftrightarrow>
      (\<exists>ur\<in>set (ac_role_user db). ru_user ur = uid \<and>
         (\<exists>x\<in>set (permissions_of_role db (ru_role ur)). (project, permission, env, ty, rid) = union_row (ru_project ur) (ru_role ur) x)) \<or>
      (\<exists>gu\<in>set (ac_group_user db). gu_user gu = uid \<and> (\<exists>g\<in>set (ac_groups db). g_id g = gu_group gu \<and>
         (\<exists>gr\<in>set (ac_group_role db). gr_group gr = gu_group gu \<and>
            (\<exists>x\<in>set (permissions_of_role db (gr_role gr)). (project, permission, env, ty, rid) = union_row (gr_project gr) (gr_role gr) x)))) \<or>
      (\<exists>gu\<in>set (ac_group_user db). gu_user gu = uid \<and> (\<exists>g\<in>set (ac_groups db). g_id g = gu_group gu \<and> g_root_role g \<noteq> None \<and>
         (\<exists>x\<in>set (permissions_of_role db (the (g_root_role g))).
            (project, permission, env, ty, rid) = union_row DEFAULT_PROJECT (the (g_root_role g)) x)))"
    unfolding user_permission_rows_def by (simp add: Bex_def) (simp add: image_iff Bex_def, blast)
  also have "\<dots> \<longleftrightarrow> has_role db uid rid project \<and> role_grants db rid permission ty env"
  proof (cases "role_grants db rid permission ty env")
    case True
    have root: "(\<exists>y. g_root_role g = Some y) \<and> the (g_root_role g) = rid \<and> DEFAULT_PROJECT = project \<longleftrightarrow>
        g_root_role g = Some rid \<and> project = DEFAULT_PROJECT" for g by auto
    show ?thesis unfolding u has_role_def using True by (simp add: root) fastforce
  next
    case False
    then show ?thesis unfolding u by simp
  qed
  finally show ?thesis .
qed

lemma meetsAll_iff:
  "meetsAllPermissions ps wanted projectId environment \<longleftrightarrow>
     (\<exists>p\<in>set ps. (up_permission p \<in> set wanted \<or> up_permission p = ADMIN) \<and>
        (\<not> truthy (up_project p) \<or> up_project p = projectId \<or> up_project p = Some ALL_PROJECTS) \<and>
        (\<not> truthy (up_environment p) \<or> up_environment p = environment \<or> up_environment p = Some ALL_ENVS))"
  by (auto simp: meetsAllPermissions_def list_ex_iff)


section \<open>Roles in a project\<close>

text \<open>
  Users and groups have their project roles through the same operations; what a caller relies on is
  stated once. \<open>assign\<close> replaces the project roles of one member in one project, \<open>revoke\<close> empties
  them, and nothing else changes.
\<close>

locale project_roles =
  fixes get :: "'db \<Rightarrow> string \<Rightarrow> int \<Rightarrow> int list"
    and assign :: "string \<Rightarrow> int \<Rightarrow> int list \<Rightarrow> 'db \<Rightarrow> exn + 'db"
    and revoke :: "string \<Rightarrow> int \<Rightarrow> 'db \<Rightarrow> 'db"
    and project_role :: "'db \<Rightarrow> int \<Rightarrow> bool"
    and ok :: "'db \<Rightarrow> bool"
  assumes get_assign: "ok db \<Longrightarrow> assign p i rs db = Inr db' \<Longrightarrow> set (get db' p i) = {r \<in> set rs. project_role db r}"
    and get_assign_other: "assign p i rs db = Inr db' \<Longrightarrow> (q, j) \<noteq> (p, i) \<Longrightarrow> get db' q j = get db q j"
    and assign_roles: "assign p i rs db = Inr db' \<Longrightarrow> project_role db' = project_role db"
    and assign_ok: "ok db \<Longrightarrow> assign p i rs db = Inr db' \<Longrightarrow> ok db'"
    and get_revoke: "get (revoke p i db) p i = []"
    and get_revoke_other: "(q, j) \<noteq> (p, i) \<Longrightarrow> get (revoke p i db) q j = get db q j"
    and revoke_roles: "project_role (revoke p i db) = project_role db"
    and revoke_ok: "ok db \<Longrightarrow> ok (revoke p i db)"
begin

text \<open>The last assignment wins, and an assignment after a revocation is that assignment.\<close>

lemma assign_twice:
  assumes "ok db" and "assign p i rs db = Inr db1" and "assign p i rs' db1 = Inr db2"
  shows "set (get db2 p i) = {r \<in> set rs'. project_role db r}"
  using get_assign [OF assign_ok [OF assms(1,2)] assms(3)] assign_roles [OF assms(2)] by simp

lemma revoke_assign:
  assumes "ok db" and "assign p i rs (revoke p i db) = Inr db1"
  shows "set (get db1 p i) = {r \<in> set rs. project_role db r}"
  using get_assign [OF revoke_ok [OF assms(1)] assms(2)] by (simp add: revoke_roles)

text \<open>Assigning no role is revoking.\<close>

lemma assign_none:
  assumes "ok db" and "assign p i [] db = Inr db1"
  shows "get db1 q j = get (revoke p i db) q j"
proof (cases "(q, j) = (p, i)")
  case True
  then show ?thesis using get_assign [OF assms] get_revoke by simp
next
  case False
  then show ?thesis using get_assign_other [OF assms(2)] get_revoke_other by metis
qed

end


lemma role_ids_of_type_iff: "rid \<in> set (role_ids_of_type db types) \<longleftrightarrow> role_has_type db types rid"
  by (auto simp: role_ids_of_type_def role_has_type_def list_ex_iff)

lemma role_has_type_cong: "ac_roles db' = ac_roles db \<Longrightarrow> role_has_type db' = role_has_type db"
  by (simp add: role_has_type_def fun_eq_iff)

lemma user_roles_iff:
  "r \<in> set (store_getProjectRolesForUser db p i) \<longleftrightarrow>
     (r, i, p) \<in> ru_key ` set (ac_role_user db) \<and> role_has_type db PROJECT_ROLE_TYPES r"
  by (auto simp: store_getProjectRolesForUser_def ru_key_def image_iff)

lemma group_roles_iff:
  "r \<in> set (store_getProjectRolesForGroup db p g) \<longleftrightarrow>
     (g, r, p) \<in> gr_key ` set (ac_group_role db) \<and> role_has_type db PROJECT_ROLE_TYPES r"
  by (auto simp: store_getProjectRolesForGroup_def gr_key_def image_iff)

text \<open>Both operations remove the project roles of the member, then add the new rows.\<close>

lemma ru_fk_check_update [simp]: "ru_fk_check (db\<lparr>ac_role_user := t\<rparr>) = ru_fk_check db"
  by (simp add: ru_fk_check_def fk_error_def fun_eq_iff)

lemma gr_fk_check_update [simp]: "gr_fk_check (db\<lparr>ac_group_role := t\<rparr>) = gr_fk_check db"
  by (simp add: gr_fk_check_def fk_error_def fun_eq_iff)

lemma setUser_effect:
  assumes "store_setProjectRolesForUser now p i rs db = Inr db'"
  shows "db' = db\<lparr>ac_role_user := add_new ru_key (ac_role_user (store_removeUserAccess p i db))
           (user_rows now [i] (filter (role_has_type db PROJECT_ROLE_TYPES) rs) p)\<rparr>"
    and "\<exists>us. mapR (ru_fk_check db) (user_rows now [i] (filter (role_has_type db PROJECT_ROLE_TYPES) rs) p) = Inr us"
proof -
  let ?db1 = "db\<lparr>ac_role_user := filter (\<lambda>r. \<not> (ru_project r = p \<and> ru_user r = i \<and>
      role_has_type db PROJECT_ROLE_TYPES (ru_role r))) (ac_role_user db)\<rparr>"
  have d: "?db1 = store_removeUserAccess p i db"
    by (simp add: store_removeUserAccess_def role_ids_of_type_iff conj_ac)
  have "(if user_rows now [i] (filter (role_has_type db PROJECT_ROLE_TYPES) rs) p = [] then Inr ?db1
      else ru_insert_ignore (user_rows now [i] (filter (role_has_type db PROJECT_ROLE_TYPES) rs) p) ?db1) = Inr db'"
    using assms unfolding store_setProjectRolesForUser_def Let_def role_ids_of_type_iff .
  then have "(\<exists>us. mapR (ru_fk_check db) (user_rows now [i] (filter (role_has_type db PROJECT_ROLE_TYPES) rs) p) = Inr us) \<and>
     db' = ?db1\<lparr>ac_role_user := add_new ru_key (ac_role_user ?db1)
        (user_rows now [i] (filter (role_has_type db PROJECT_ROLE_TYPES) rs) p)\<rparr>"
    by (auto simp: ru_insert_ignore_iff split: if_splits)
  then show "db' = db\<lparr>ac_role_user := add_new ru_key (ac_role_user (store_removeUserAccess p i db))
           (user_rows now [i] (filter (role_has_type db PROJECT_ROLE_TYPES) rs) p)\<rparr>"
    and "\<exists>us. mapR (ru_fk_check db) (user_rows now [i] (filter (role_has_type db PROJECT_ROLE_TYPES) rs) p) = Inr us"
    unfolding d [symmetric] by simp_all
qed

lemma setGroup_effect:
  assumes "store_setProjectRolesForGroup p i rs who db = Inr db'"
  shows "db' = db\<lparr>ac_group_role := add_new gr_key (ac_group_role (store_removeGroupAccess p i db))
           (group_rows [i] (filter (role_has_type db PROJECT_ROLE_TYPES) rs) p who)\<rparr>"
    and "\<exists>us. mapR (gr_fk_check db) (group_rows [i] (filter (role_has_type db PROJECT_ROLE_TYPES) rs) p who) = Inr us"
proof -
  let ?db1 = "db\<lparr>ac_group_role := filter (\<lambda>r. \<not> (gr_project r = p \<and> gr_group r = i \<and>
      role_has_type db PROJECT_ROLE_TYPES (gr_role r))) (ac_group_role db)\<rparr>"
  have d: "?db1 = store_removeGroupAccess p i db"
    by (simp add: store_removeGroupAccess_def role_ids_of_type_iff conj_ac)
  have "(if group_rows [i] (filter (role_has_type db PROJECT_ROLE_TYPES) rs) p who = [] then Inr ?db1
      else gr_insert_ignore (group_rows [i] (filter (role_has_type db PROJECT_ROLE_TYPES) rs) p who) ?db1) = Inr db'"
    using assms unfolding store_setProjectRolesForGroup_def Let_def role_ids_of_type_iff .
  then have "(\<exists>us. mapR (gr_fk_check db) (group_rows [i] (filter (role_has_type db PROJECT_ROLE_TYPES) rs) p who) = Inr us) \<and>
     db' = ?db1\<lparr>ac_group_role := add_new gr_key (ac_group_role ?db1)
        (group_rows [i] (filter (role_has_type db PROJECT_ROLE_TYPES) rs) p who)\<rparr>"
    by (auto simp: gr_insert_ignore_iff split: if_splits)
  then show "db' = db\<lparr>ac_group_role := add_new gr_key (ac_group_role (store_removeGroupAccess p i db))
           (group_rows [i] (filter (role_has_type db PROJECT_ROLE_TYPES) rs) p who)\<rparr>"
    and "\<exists>us. mapR (gr_fk_check db) (group_rows [i] (filter (role_has_type db PROJECT_ROLE_TYPES) rs) p who) = Inr us"
    unfolding d [symmetric] by simp_all
qed

lemma user_rows_keys: "ru_key ` set (user_rows now us rs p) = {(r, u, p) | r u. r \<in> set rs \<and> u \<in> set us}"
  by (auto simp: user_rows_def ru_key_def image_iff)

lemma group_rows_keys: "gr_key ` set (group_rows gs rs p who) = {(g, r, p) | g r. g \<in> set gs \<and> r \<in> set rs}"
  by (auto simp: group_rows_def gr_key_def image_iff)

lemma filter_ok:
  assumes "access_ok db"
  shows "access_ok (db\<lparr>ac_role_user := filter P (ac_role_user db)\<rparr>)"
    and "access_ok (db\<lparr>ac_group_role := filter Q (ac_group_role db)\<rparr>)"
    and "access_ok (db\<lparr>ac_role_permission := filter R (ac_role_permission db)\<rparr>)"
  using assms by (auto simp: access_ok_def distinct_map_filter)

lemma removeUserAccess_keys:
  "ru_key ` set (ac_role_user (store_removeUserAccess p i db)) =
     ru_key ` set (ac_role_user db) - {(r, i, p) | r. role_has_type db PROJECT_ROLE_TYPES r}"
  by (auto simp: store_removeUserAccess_def role_ids_of_type_iff ru_key_def image_iff)

lemma removeGroupAccess_keys:
  "gr_key ` set (ac_group_role (store_removeGroupAccess p i db)) =
     gr_key ` set (ac_group_role db) - {(i, r, p) | r. role_has_type db PROJECT_ROLE_TYPES r}"
  by (auto simp: store_removeGroupAccess_def role_ids_of_type_iff gr_key_def image_iff)


interpretation user_roles: project_roles
  store_getProjectRolesForUser "store_setProjectRolesForUser now" store_removeUserAccess
  "\<lambda>db. role_has_type db PROJECT_ROLE_TYPES" access_ok
  for now
proof unfold_locales
  fix db p i rs db'
  assume a: "store_setProjectRolesForUser now p i rs db = Inr db'"
  note e = setUser_effect [OF a]
  let ?P = "role_has_type db PROJECT_ROLE_TYPES"
  have roles: "role_has_type db' = role_has_type db" by (rule role_has_type_cong) (simp add: e(1))
  have keys: "ru_key ` set (ac_role_user db') =
      ru_key ` set (ac_role_user db) - {(r, i, p) | r. ?P r} \<union> {(r, i, p) | r. r \<in> set rs \<and> ?P r}"
    by (auto simp: e(1) add_new_keys removeUserAccess_keys user_rows_keys)
  show "(\<lambda>r. role_has_type db' PROJECT_ROLE_TYPES r) = ?P" by (simp add: roles)
  show "set (store_getProjectRolesForUser db' p i) = {r \<in> set rs. ?P r}"
    by (auto simp: user_roles_iff keys roles)
  have rest: "filter (\<lambda>r. ru_project r = q \<and> ru_user r = j) (ac_role_user db') =
      filter (\<lambda>r. ru_project r = q \<and> ru_user r = j) (ac_role_user db)" if "(q, j) \<noteq> (p, i)" for q j
  proof -
    have "filter (\<lambda>r. ru_project r = q \<and> ru_user r = j) (ac_role_user db') =
        filter (\<lambda>r. ru_project r = q \<and> ru_user r = j) (ac_role_user (store_removeUserAccess p i db))"
      unfolding e(1) using that by (auto simp: user_rows_def intro!: add_new_filter)
    then show ?thesis using that by (auto simp: store_removeUserAccess_def intro!: filter_cong)
  qed
  show "store_getProjectRolesForUser db' q j = store_getProjectRolesForUser db q j" if "(q, j) \<noteq> (p, i)" for q j
    using arg_cong [OF rest [OF that], of "filter (\<lambda>r. ?P (ru_role r))"]
    by (simp add: store_getProjectRolesForUser_def roles conj_ac)
  show "access_ok db'" if "access_ok db"
  proof -
    let ?rows = "user_rows now [i] (filter ?P rs) p"
    have "access_ok (store_removeUserAccess p i db)"
      unfolding store_removeUserAccess_def by (rule filter_ok(1) [OF that])
    moreover have "ru_insert_ignore ?rows (store_removeUserAccess p i db) = Inr db'"
      using e by (simp add: ru_insert_ignore_iff store_removeUserAccess_def)
    ultimately show ?thesis using ru_insert_ignore_ok by blast
  qed
next
  fix db p i q j
  show "store_getProjectRolesForUser (store_removeUserAccess p i db) p i = []"
    by (auto simp: store_getProjectRolesForUser_def store_removeUserAccess_def role_ids_of_type_iff
        filter_empty_conv role_has_type_def)
  show "role_has_type (store_removeUserAccess p i db) PROJECT_ROLE_TYPES = role_has_type db PROJECT_ROLE_TYPES"
    by (simp add: store_removeUserAccess_def role_has_type_def fun_eq_iff)
  show "store_getProjectRolesForUser (store_removeUserAccess p i db) q j = store_getProjectRolesForUser db q j"
    if "(q, j) \<noteq> (p, i)"
    using that by (auto simp: store_getProjectRolesForUser_def store_removeUserAccess_def role_has_type_def
        intro!: arg_cong [of _ _ "map ru_role"] filter_cong)
  show "access_ok (store_removeUserAccess p i db)" if "access_ok db"
    unfolding store_removeUserAccess_def by (rule filter_ok(1) [OF that])
qed


interpretation group_roles: project_roles
  store_getProjectRolesForGroup "\<lambda>p g rs. store_setProjectRolesForGroup p g rs who" store_removeGroupAccess
  "\<lambda>db. role_has_type db PROJECT_ROLE_TYPES" access_ok
  for who
proof unfold_locales
  fix db p i rs db'
  assume a: "store_setProjectRolesForGroup p i rs who db = Inr db'"
  note e = setGroup_effect [OF a]
  let ?P = "role_has_type db PROJECT_ROLE_TYPES"
  have roles: "role_has_type db' = role_has_type db" by (rule role_has_type_cong) (simp add: e(1))
  have keys: "gr_key ` set (ac_group_role db') =
      gr_key ` set (ac_group_role db) - {(i, r, p) | r. ?P r} \<union> {(i, r, p) | r. r \<in> set rs \<and> ?P r}"
    by (auto simp: e(1) add_new_keys removeGroupAccess_keys group_rows_keys)
  show "(\<lambda>r. role_has_type db' PROJECT_ROLE_TYPES r) = ?P" by (simp add: roles)
  show "set (store_getProjectRolesForGroup db' p i) = {r \<in> set rs. ?P r}"
    by (auto simp: group_roles_iff keys roles)
  have rest: "filter (\<lambda>r. gr_project r = q \<and> gr_group r = j) (ac_group_role db') =
      filter (\<lambda>r. gr_project r = q \<and> gr_group r = j) (ac_group_role db)" if "(q, j) \<noteq> (p, i)" for q j
  proof -
    have "filter (\<lambda>r. gr_project r = q \<and> gr_group r = j) (ac_group_role db') =
        filter (\<lambda>r. gr_project r = q \<and> gr_group r = j) (ac_group_role (store_removeGroupAccess p i db))"
      unfolding e(1) using that by (auto simp: group_rows_def intro!: add_new_filter)
    then show ?thesis using that by (auto simp: store_removeGroupAccess_def intro!: filter_cong)
  qed
  show "store_getProjectRolesForGroup db' q j = store_getProjectRolesForGroup db q j" if "(q, j) \<noteq> (p, i)" for q j
    using arg_cong [OF rest [OF that], of "filter (\<lambda>r. ?P (gr_role r))"]
    by (simp add: store_getProjectRolesForGroup_def roles conj_ac)
  show "access_ok db'" if "access_ok db"
  proof -
    let ?rows = "group_rows [i] (filter ?P rs) p who"
    have "access_ok (store_removeGroupAccess p i db)"
      unfolding store_removeGroupAccess_def by (rule filter_ok(2) [OF that])
    moreover have "gr_insert_ignore ?rows (store_removeGroupAccess p i db) = Inr db'"
      using e by (simp add: gr_insert_ignore_iff store_removeGroupAccess_def)
    ultimately show ?thesis using gr_insert_ignore_ok by blast
  qed
next
  fix db p i q j
  show "store_getProjectRolesForGroup (store_removeGroupAccess p i db) p i = []"
    by (auto simp: store_getProjectRolesForGroup_def store_removeGroupAccess_def role_ids_of_type_iff
        filter_empty_conv role_has_type_def)
  show "role_has_type (store_removeGroupAccess p i db) PROJECT_ROLE_TYPES = role_has_type db PROJECT_ROLE_TYPES"
    by (simp add: store_removeGroupAccess_def role_has_type_def fun_eq_iff)
  show "store_getProjectRolesForGroup (store_removeGroupAccess p i db) q j = store_getProjectRolesForGroup db q j"
    if "(q, j) \<noteq> (p, i)"
    using that by (auto simp: store_getProjectRolesForGroup_def store_removeGroupAccess_def role_has_type_def
        intro!: arg_cong [of _ _ "map gr_role"] filter_cong)
  show "access_ok (store_removeGroupAccess p i db)" if "access_ok db"
    unfolding store_removeGroupAccess_def by (rule filter_ok(2) [OF that])
qed


section \<open>Every operation keeps the keys and references\<close>

lemma ru_insert_merge_ok:
  "ru_insert_merge rows db = Inr db' \<Longrightarrow> access_ok db \<Longrightarrow> access_ok db'"
  by (auto simp: ru_insert_merge_def intro: ru_insert_ignore_ok split: if_splits)

lemma gr_insert_merge_ok:
  assumes "gr_insert_merge rows db = Inr db'" and "access_ok db"
  shows "access_ok db'"
proof -
  from assms(1) obtain us t where us: "mapR (gr_fk_check db) rows = Inr us" and db': "db' = db\<lparr>ac_group_role := t\<rparr>"
    and d: "distinct (map gr_key (ac_group_role db)) \<longrightarrow> distinct (map gr_key t)"
    and sub: "set t \<subseteq> set (ac_group_role db) \<union> set rows"
    by (rule gr_insert_merge_effect)
  have "\<forall>r\<in>set t. gr_group r \<in> g_id ` set (ac_groups db) \<and> gr_role r \<in> ro_id ` set (ac_roles db) \<and>
      gr_project r \<in> set (ac_projects db)"
    using sub gr_fk_checked [OF us] assms(2) unfolding access_ok_def by blast
  then show ?thesis using assms(2) d by (simp add: access_ok_def db')
qed

lemma addUserToRole_ok:
  "store_addUserToRole now uid rid p db = Inr db' \<Longrightarrow> access_ok db \<Longrightarrow> access_ok db'"
  by (auto simp: store_addUserToRole_def intro: ru_insert_ignore_ok)

lemma addGroupToRole_ok:
  "store_addGroupToRole gid rid who p db = Inr db' \<Longrightarrow> access_ok db \<Longrightarrow> access_ok db'"
  by (auto simp: store_addGroupToRole_def Let_def intro: gr_insert_ignore_ok split: if_splits)

lemma addRoleAccess_ok:
  "store_addRoleAccessToProject now us gs p rid who db = Inr db' \<Longrightarrow> access_ok db \<Longrightarrow> access_ok db'"
  by (auto simp: store_addRoleAccessToProject_def bindR_Inr_iff
      intro: ru_insert_merge_ok gr_insert_merge_ok split: if_splits)

lemma caught_ok:
  assumes "access_ok (tx_db tx)" and "\<And>db db'. f db = Inr db' \<Longrightarrow> access_ok db \<Longrightarrow> access_ok db'"
  shows "access_ok (tx_db (caught f c m tx))"
  using assms by (auto simp: caught_def split: sum.splits)

lemma addAccess_ok:
  "store_addAccessToProject now rs gs us p who db = Inr db' \<Longrightarrow> access_ok db \<Longrightarrow> access_ok db'"
  by (auto simp: store_addAccessToProject_def access_transaction_def Let_def intro!: caught_ok
      intro: ru_insert_merge_ok gr_insert_merge_ok split: if_splits)

lemma updateUserProjectRole_ok:
  assumes "store_updateUserProjectRole uid rid p db = Inr db'" and "access_ok db"
  shows "access_ok db'"
proof -
  let ?hit = "\<lambda>r. ru_user r = uid \<and> ru_project r = p \<and> \<not> role_has_type db [''root''] (ru_role r)"
  let ?rows = "map (\<lambda>r. if ?hit r then r\<lparr>ru_role := rid\<rparr> else r) (ac_role_user db)"
  from assms(1) obtain us where us: "mapR (ru_fk_check db) (map (\<lambda>r. r\<lparr>ru_role := rid\<rparr>) (filter ?hit (ac_role_user db))) = Inr us"
    and d: "distinct (map ru_key ?rows)" and db': "db' = db\<lparr>ac_role_user := ?rows\<rparr>"
    unfolding store_updateUserProjectRole_def Let_def by (auto simp: bindR_Inr_iff split: if_splits)
  have "\<forall>r\<in>set ?rows. ru_role r \<in> ro_id ` set (ac_roles db) \<and> ru_user r \<in> us_id ` set (ac_users db)"
  proof
    fix r assume "r \<in> set ?rows"
    then obtain x where x: "x \<in> set (ac_role_user db)" "r = (if ?hit x then x\<lparr>ru_role := rid\<rparr> else x)" by auto
    show "ru_role r \<in> ro_id ` set (ac_roles db) \<and> ru_user r \<in> us_id ` set (ac_users db)"
    proof (cases "?hit x")
      case True
      then have "r \<in> set (map (\<lambda>r. r\<lparr>ru_role := rid\<rparr>) (filter ?hit (ac_role_user db)))" using x by auto
      then show ?thesis by (rule ru_fk_checked [OF us])
    next
      case False
      then have "r = x" unfolding x(2) by (rule if_not_P)
      then show ?thesis using x(1) assms(2) by (simp add: access_ok_def)
    qed
  qed
  then show ?thesis using assms(2) d by (simp add: access_ok_def db' del: map_map)
qed

lemma updateGroupProjectRole_ok:
  assumes "store_updateGroupProjectRole gid rid p db = Inr db'" and "access_ok db"
  shows "access_ok db'"
proof -
  let ?hit = "\<lambda>r. gr_group r = gid \<and> gr_project r = p \<and> \<not> role_has_type db [''root''] (gr_role r)"
  let ?rows = "map (\<lambda>r. if ?hit r then r\<lparr>gr_role := rid\<rparr> else r) (ac_group_role db)"
  from assms(1) obtain us where us: "mapR (gr_fk_check db) (map (\<lambda>r. r\<lparr>gr_role := rid\<rparr>) (filter ?hit (ac_group_role db))) = Inr us"
    and d: "distinct (map gr_key ?rows)" and db': "db' = db\<lparr>ac_group_role := ?rows\<rparr>"
    unfolding store_updateGroupProjectRole_def Let_def by (auto simp: bindR_Inr_iff split: if_splits)
  have "\<forall>r\<in>set ?rows. gr_group r \<in> g_id ` set (ac_groups db) \<and> gr_role r \<in> ro_id ` set (ac_roles db) \<and>
      gr_project r \<in> set (ac_projects db)"
  proof
    fix r assume "r \<in> set ?rows"
    then obtain x where x: "x \<in> set (ac_group_role db)" "r = (if ?hit x then x\<lparr>gr_role := rid\<rparr> else x)" by auto
    show "gr_group r \<in> g_id ` set (ac_groups db) \<and> gr_role r \<in> ro_id ` set (ac_roles db) \<and>
        gr_project r \<in> set (ac_projects db)"
    proof (cases "?hit x")
      case True
      then have "r \<in> set (map (\<lambda>r. r\<lparr>gr_role := rid\<rparr>) (filter ?hit (ac_group_role db)))" using x by auto
      then show ?thesis by (rule gr_fk_checked [OF us])
    next
      case False
      then have "r = x" unfolding x(2) by (rule if_not_P)
      then show ?thesis using x(1) assms(2) by (simp add: access_ok_def)
    qed
  qed
  then show ?thesis using assms(2) d by (simp add: access_ok_def db' del: map_map)
qed


lemma insert_role_permissions_ok:
  assumes "insert_role_permissions rows db = Inr db'" and "access_ok db"
  shows "access_ok db'"
proof -
  have db': "db' = db\<lparr>ac_role_permission := ac_role_permission db @ rows\<rparr>"
    and "\<forall>r\<in>set rows. rp_role r \<in> ro_id ` set (ac_roles db)"
    and "\<forall>r\<in>set rows. rp_permission r \<in> pm_permission ` set (ac_permissions db)"
    using assms(1) by (auto simp: insert_role_permissions_def split: if_splits)
  then show ?thesis using assms(2) unfolding access_ok_def by (elim conjE, intro conjI) auto
qed

lemma addEnvironmentPermissions_ok:
  "addEnvironmentPermissionsToRole rid ps db = Inr db' \<Longrightarrow> access_ok db \<Longrightarrow> access_ok db'"
  by (auto simp: addEnvironmentPermissionsToRole_def bindR_Inr_iff intro: insert_role_permissions_ok)

lemma addPermissions_ok:
  "store_addPermissionsToRole rid ps env db = Inr db' \<Longrightarrow> access_ok db \<Longrightarrow> access_ok db'"
  by (auto simp: store_addPermissionsToRole_def bindR_Inr_iff intro: insert_role_permissions_ok)

lemma add_role_permissions_ok:
  "add_role_permissions ty rid ps db = Inr db' \<Longrightarrow> access_ok db \<Longrightarrow> access_ok db'"
  by (auto simp: add_role_permissions_def intro: addPermissions_ok addEnvironmentPermissions_ok split: if_splits)

lemma clone_ok: "access_ok db \<Longrightarrow> access_ok (cloneEnvironmentPermissions e e' db)"
  by (auto simp: access_ok_def cloneEnvironmentPermissions_def)

lemma roles_create_ok:
  assumes "roles_create name descr ty db = Inr (r, db')" and "access_ok db"
  shows "access_ok db'"
proof -
  have r: "r = \<lparr>ro_id = ac_next_role db, ro_name = name, ro_type = ty, ro_description = descr\<rparr>"
    and db': "db' = db\<lparr>ac_roles := ac_roles db @ [r], ac_next_role := ac_next_role db + 1\<rparr>"
    and new: "name \<notin> ro_name ` set (ac_roles db)"
    using assms(1) by (auto simp: roles_create_def Let_def split: if_splits)
  have "ac_next_role db \<notin> ro_id ` set (ac_roles db)" using assms(2) by (auto simp: access_ok_def)
  with new assms(2) show ?thesis unfolding access_ok_def
    by (elim conjE, intro conjI) (auto simp: db' r less_Suc_eq)
qed

lemma access_ok_roles:
  assumes "access_ok db" and ids: "map ro_id rs = map ro_id (ac_roles db)" and names: "distinct (map ro_name rs)"
  shows "access_ok (db\<lparr>ac_roles := rs\<rparr>)"
proof -
  have set_ids: "ro_id ` set rs = ro_id ` set (ac_roles db)" using arg_cong [OF ids, of set] by simp
  have "\<forall>r\<in>set rs. ro_id r < ac_next_role db"
  proof
    fix r assume "r \<in> set rs"
    then have "ro_id r \<in> ro_id ` set (ac_roles db)" unfolding set_ids [symmetric] by simp
    then show "ro_id r < ac_next_role db" using assms(1) by (auto simp: access_ok_def)
  qed
  then show ?thesis using assms(1) ids names by (simp add: access_ok_def set_ids)
qed

lemma roles_update_ok:
  assumes "roles_update rid name descr db = Inr (r, db')" and "access_ok db"
  shows "access_ok db'"
proof -
  let ?f = "\<lambda>r. if ro_id r = rid then r\<lparr>ro_name := name, ro_description := default (ro_description r) descr\<rparr> else r"
  have db': "db' = db\<lparr>ac_roles := map ?f (ac_roles db)\<rparr>"
    and new: "\<not> (\<exists>r\<in>set (ac_roles db). ro_id r \<noteq> rid \<and> ro_name r = name \<and> rid \<in> ro_id ` set (ac_roles db))"
    using assms(1) by (auto simp: roles_update_def Let_def split: if_splits option.splits)
  have ids: "map ro_id (map ?f xs) = map ro_id xs" for xs by auto
  have names: "distinct (map ro_name (map ?f xs))"
    if "distinct (map ro_name xs)" "distinct (map ro_id xs)" "set xs \<subseteq> set (ac_roles db)" for xs
    using that
  proof (induction xs)
    case (Cons x xs)
    have "ro_name (?f x) \<notin> ro_name ` set (map ?f xs)"
    proof
      assume "ro_name (?f x) \<in> ro_name ` set (map ?f xs)"
      then obtain y where y: "y \<in> set xs" "ro_name (?f x) = ro_name (?f y)" by auto
      have "ro_id x \<noteq> ro_id y" "ro_name x \<noteq> ro_name y" using Cons.prems y(1) by auto
      moreover have "x \<in> set (ac_roles db)" "y \<in> set (ac_roles db)" using Cons.prems(3) y(1) by auto
      ultimately show False using y(2) new by (auto split: if_splits)
    qed
    moreover have "distinct (map ro_name (map ?f xs))"
      by (rule Cons.IH) (use Cons.prems in auto)
    ultimately show ?case by (simp only: list.map distinct.simps set_map simp_thms)
  qed simp
  have ok: "distinct (map ro_name (ac_roles db))" "distinct (map ro_id (ac_roles db))"
    using assms(2) by (simp_all add: access_ok_def)
  show ?thesis unfolding db' by (rule access_ok_roles [OF assms(2) ids names [OF ok subset_refl]])
qed

lemma roles_delete_ok:
  assumes "roles_delete rid db = Inr db'" and "access_ok db"
  shows "access_ok db'"
proof -
  have db': "db' = db\<lparr>ac_roles := filter (\<lambda>r. ro_id r \<noteq> rid) (ac_roles db),
             ac_role_user := filter (\<lambda>r. ru_role r \<noteq> rid) (ac_role_user db),
             ac_group_role := filter (\<lambda>r. gr_role r \<noteq> rid) (ac_group_role db),
             ac_role_permission := filter (\<lambda>r. rp_role r \<noteq> rid) (ac_role_permission db)\<rparr>"
    and g: "\<not> ((\<exists>g\<in>set (ac_groups db). g_root_role g = Some rid) \<and> rid \<in> ro_id ` set (ac_roles db))"
    using assms(1) by (auto simp: roles_delete_def split: if_splits)
  have "x \<in> ro_id ` {r \<in> set (ac_roles db). ro_id r \<noteq> rid} \<longleftrightarrow> x \<in> ro_id ` set (ac_roles db) \<and> x \<noteq> rid" for x
    by auto
  then show ?thesis using assms(2) g unfolding access_ok_def db'
    by (simp add: distinct_map_filter) metis
qed

lemma setUserRootRole_ok:
  assumes "access_ok (as_db s)"
  shows "access_ok (as_db (snd (setUserRootRole now uid role s)))"
proof -
  have d: "access_ok (removeRolesOfTypeForUser uid ROOT_ROLE_TYPES (as_db s))"
    unfolding removeRolesOfTypeForUser_def by (rule filter_ok(1) [OF assms])
  then show ?thesis using assms addUserToRole_ok
    by (auto simp: setUserRootRole_def with_db_def Let_def split: option.splits sum.splits)
qed

lemma wipeUserPermissions_ok: "access_ok (as_db s) \<Longrightarrow> access_ok (as_db (wipeUserPermissions uid s))"
  using filter_ok(1) [of "as_db s" "\<lambda>r. ru_user r \<noteq> uid"]
  by (simp add: wipeUserPermissions_def with_db_def unlinkUserRoles_def unlinkUserGroups_def
      clearUserPersonalAccessTokens_def clearPublicSignupUserTokens_def access_ok_def distinct_map_filter)

lemma createRole_ok:
  assumes "access_ok (as_db s)"
  shows "access_ok (as_db (snd (createRole json role s)))"
  using assms
  by (auto simp: createRole_def Let_def with_db_def bindR_def split: sum.splits option.splits
      intro: roles_create_ok add_role_permissions_ok)

lemma updateRole_ok:
  assumes "access_ok (as_db s)"
  shows "access_ok (as_db (snd (updateRole json rid role s)))"
proof -
  have w: "access_ok (wipePermissionsFromRole i db)" if "access_ok db" for i db
    unfolding wipePermissionsFromRole_def by (rule filter_ok(3) [OF that])
  show ?thesis
    using assms
    by (auto simp: updateRole_def Let_def with_db_def bindR_def split: sum.splits option.splits
        intro: roles_update_ok add_role_permissions_ok w)
qed

lemma deleteRole_ok:
  "deleteRole rid who uid s = Inr s' \<Longrightarrow> access_ok (as_db s) \<Longrightarrow> access_ok (as_db s')"
  by (auto simp: deleteRole_def Let_def with_db_def bindR_Inr_iff intro: roles_delete_ok split: if_splits)


section \<open>The root role of a user\<close>

text \<open>What \<open>setUserRootRole\<close> does to the table: the root roles go, one row comes.\<close>

lemma setUserRootRole_effect:
  assumes "setUserRootRole now uid role s = (Inr (), s')"
  obtains r where "resolveRootRole role s = Some r" "r \<in> set (ac_roles (as_db s))" "ro_type r \<in> set ROOT_ROLE_TYPES"
    "as_db s' = (as_db s)\<lparr>ac_role_user :=
       filter (\<lambda>x. \<not> (ru_user x = uid \<and> role_has_type (as_db s) ROOT_ROLE_TYPES (ru_role x))) (ac_role_user (as_db s))
       @ [\<lparr>ru_user = uid, ru_role = ro_id r, ru_project = DEFAULT_PROJECT, ru_created_at = now\<rparr>]\<rparr>"
proof -
  let ?db1 = "removeRolesOfTypeForUser uid ROOT_ROLE_TYPES (as_db s)"
  from assms obtain r db2 where r: "resolveRootRole role s = Some r"
    and add: "store_addUserToRole now uid (ro_id r) DEFAULT_PROJECT ?db1 = Inr db2" and s': "as_db s' = db2"
    by (auto simp: setUserRootRole_def Let_def with_db_def split: option.splits sum.splits)
  let ?row = "\<lparr>ru_user = uid, ru_role = ro_id r, ru_project = DEFAULT_PROJECT, ru_created_at = now\<rparr>"
  have d2: "db2 = ?db1\<lparr>ac_role_user := add_new ru_key (ac_role_user ?db1) [?row]\<rparr>"
    using add by (simp add: store_addUserToRole_def ru_insert_ignore_iff)
  have rin: "r \<in> set (ac_roles (as_db s))" "ro_type r \<in> set ROOT_ROLE_TYPES"
    using r by (auto simp: resolveRootRole_def Let_def store_getRootRoles_def roles_of_types_def
        split: role_key.splits dest!: find_Some_in)
  then have root: "role_has_type (as_db s) ROOT_ROLE_TYPES (ro_id r)"
    by (auto simp: role_has_type_def list_ex_iff)
  have rows: "ac_role_user ?db1 = filter (\<lambda>x. \<not> (ru_user x = uid \<and> role_has_type (as_db s) ROOT_ROLE_TYPES (ru_role x)))
      (ac_role_user (as_db s))"
    by (simp add: removeRolesOfTypeForUser_def role_ids_of_type_iff)
  have "ru_key ?row \<notin> ru_key ` set (ac_role_user ?db1)"
    using root unfolding rows by (auto simp: ru_key_def)
  then have "db2 = (as_db s)\<lparr>ac_role_user := ac_role_user ?db1 @ [?row]\<rparr>"
    by (simp add: d2 removeRolesOfTypeForUser_def)
  then show thesis using that r rin unfolding rows s' by blast
qed

lemma root_role_not_project:
  assumes "access_ok db" and "role_has_type db ROOT_ROLE_TYPES i"
  shows "\<not> role_has_type db PROJECT_ROLE_TYPES i"
proof
  assume "role_has_type db PROJECT_ROLE_TYPES i"
  with assms(2) obtain x y where xy: "x \<in> set (ac_roles db)" "y \<in> set (ac_roles db)" "ro_id x = i" "ro_id y = i"
      "ro_type x \<in> set ROOT_ROLE_TYPES" "ro_type y \<in> set PROJECT_ROLE_TYPES"
    by (auto simp: role_has_type_def list_ex_iff)
  then have "x = y" using assms(1) by (auto simp: access_ok_def distinct_map inj_on_def)
  with xy show False by (auto simp: ROOT_ROLE_TYPES_def PROJECT_ROLE_TYPES_def)
qed

text \<open>A user whose only root role is \<open>r\<close> gets \<open>r\<close> from the query.\<close>

lemma root_role_query:
  assumes "access_ok db" and "r \<in> set (ac_roles db)" and "ro_type r \<in> set ROOT_ROLE_TYPES"
    and only: "{ru_role x | x. x \<in> set (ac_role_user db) \<and> ru_user x = uid \<and>
      role_has_type db ROOT_ROLE_TYPES (ru_role x)} = {ro_id r}"
  shows "store_getRootRoleForUser db uid = Some r"
proof -
  have "(List.member ROOT_ROLE_TYPES (ro_type x) \<and> list_ex (\<lambda>ru. ru_role ru = ro_id x \<and> ru_user ru = uid) (ac_role_user db))
      \<longleftrightarrow> ro_id x = ro_id r" if x: "x \<in> set (ac_roles db)" for x
  proof
    assume a: "List.member ROOT_ROLE_TYPES (ro_type x) \<and>
      list_ex (\<lambda>ru. ru_role ru = ro_id x \<and> ru_user ru = uid) (ac_role_user db)"
    then have "role_has_type db ROOT_ROLE_TYPES (ro_id x)" using x by (auto simp: role_has_type_def list_ex_iff)
    moreover obtain y where "y \<in> set (ac_role_user db)" "ru_role y = ro_id x" "ru_user y = uid"
      using a by (auto simp: list_ex_iff)
    ultimately have "ro_id x \<in> {ru_role x | x. x \<in> set (ac_role_user db) \<and> ru_user x = uid \<and>
        role_has_type db ROOT_ROLE_TYPES (ru_role x)}" by (intro CollectI exI [of _ y]) simp
    then show "ro_id x = ro_id r" using only by simp
  next
    assume e: "ro_id x = ro_id r"
    then have "x = r" using x assms(1,2) by (auto simp: access_ok_def distinct_map inj_on_def)
    moreover have "ro_id r \<in> {ru_role x | x. x \<in> set (ac_role_user db) \<and> ru_user x = uid \<and>
        role_has_type db ROOT_ROLE_TYPES (ru_role x)}" using only by simp
    ultimately show "List.member ROOT_ROLE_TYPES (ro_type x) \<and>
        list_ex (\<lambda>ru. ru_role ru = ro_id x \<and> ru_user ru = uid) (ac_role_user db)"
      using assms(3) by (auto simp: list_ex_iff)
  qed
  then have "store_getRootRoleForUser db uid = find (\<lambda>x. ro_id x = ro_id r) (ac_roles db)"
    unfolding store_getRootRoleForUser_def by (intro find_cong) auto
  also have "\<dots> = Some r" using assms(1,2) by (intro find_key_distinct) (auto simp: access_ok_def)
  finally show ?thesis .
qed


section \<open>Access for many users and groups\<close>

lemma mapR_unitI: "(\<And>x. x \<in> set xs \<Longrightarrow> \<exists>y. f x = Inr y) \<Longrightarrow> \<exists>ys. mapR f xs = Inr ys"
proof (induction xs)
  case (Cons x xs)
  then obtain y ys where "f x = Inr y" "mapR f xs = Inr ys" by (metis list.set_intros)
  then show ?case by simp
qed simp

text \<open>The roles that pass are the listed ones, each listed once.\<close>

lemma valid_roles:
  assumes "access_ok db" and "store_addAccessToProject now roles groups users p who db = Inr db'"
  shows "\<forall>r\<in>set roles. role_has_type db PROJECT_ROLE_TYPES r"
    and "set (filter (\<lambda>i. i \<in> set roles) (role_ids_of_type db PROJECT_ROLE_TYPES)) = set roles"
    and "distinct (filter (\<lambda>i. i \<in> set roles) (role_ids_of_type db PROJECT_ROLE_TYPES))"
    and "distinct roles"
proof -
  let ?valid = "filter (\<lambda>i. i \<in> set roles) (role_ids_of_type db PROJECT_ROLE_TYPES)"
  have len: "length ?valid = length roles"
    using assms(2) by (auto simp: store_addAccessToProject_def Let_def split: if_splits)
  show d: "distinct ?valid"
    using assms(1) by (auto simp: access_ok_def role_ids_of_type_def distinct_map_filter)
  have "set ?valid \<subseteq> set roles" by auto
  moreover have "card (set roles) \<le> card (set ?valid)"
    using card_length [of roles] distinct_card [OF d] len by simp
  ultimately show s: "set ?valid = set roles" by (intro card_seteq) auto
  then show "\<forall>r\<in>set roles. role_has_type db PROJECT_ROLE_TYPES r"
    by (auto simp: role_ids_of_type_iff)
  show "distinct roles"
    using len d s by (metis card_distinct distinct_card)
qed

text \<open>The two statements of the transaction, skipped where there is nothing to insert.\<close>

definition add_groups :: "int list \<Rightarrow> int list \<Rightarrow> string \<Rightarrow> string \<Rightarrow> access_db \<Rightarrow> exn + access_db" where
  "add_groups groups valid p who db =
     (if group_rows groups valid p who = [] then Inr db else gr_insert_merge (group_rows groups valid p who) db)"

definition add_users :: "int \<Rightarrow> int list \<Rightarrow> int list \<Rightarrow> string \<Rightarrow> access_db \<Rightarrow> exn + access_db" where
  "add_users now users valid p db =
     (if user_rows now users valid p = [] then Inr db else ru_insert_merge (user_rows now users valid p) db)"

lemma two_statements:
  fixes f g :: "access_db \<Rightarrow> exn + access_db"
  assumes "tx0 = \<lparr>tx_db = db, tx_aborted = False, tx_errors = []\<rparr>"
    and "tx1 = (if a then tx0 else caught f c m tx0)" and "tx2 = (if b then tx1 else caught g c' m' tx1)"
  shows "(if tx_aborted tx2 then db else tx_db tx2) =
    (case (if a then Inr db else f db) of
       Inl _ \<Rightarrow> db
     | Inr db1 \<Rightarrow> (case (if b then Inr db1 else g db1) of Inl _ \<Rightarrow> db | Inr db2 \<Rightarrow> db2))"
proof (cases "if a then Inr db else f db")
  case (Inl e)
  then have "tx_aborted tx1" using assms(1,2) by (simp add: caught_def split: if_splits)
  then have "tx_aborted tx2" using assms(3) by (simp add: caught_def)
  then show ?thesis using Inl by simp
next
  case (Inr db1)
  then have "tx_db tx1 = db1" "\<not> tx_aborted tx1" using assms(1,2) by (auto simp: caught_def split: if_splits)
  then show ?thesis using Inr assms(3) by (cases "g db1") (auto simp: caught_def)
qed

lemma add_access_cases:
  assumes "store_addAccessToProject now roles groups users p who db = Inr db'"
  shows "db' = (case add_groups groups (filter (\<lambda>i. i \<in> set roles) (role_ids_of_type db PROJECT_ROLE_TYPES)) p who db of
       Inl _ \<Rightarrow> db
     | Inr db1 \<Rightarrow> (case add_users now users (filter (\<lambda>i. i \<in> set roles) (role_ids_of_type db PROJECT_ROLE_TYPES)) p db1 of
           Inl _ \<Rightarrow> db | Inr db2 \<Rightarrow> db2))"
proof -
  let ?valid = "filter (\<lambda>i. i \<in> set roles) (role_ids_of_type db PROJECT_ROLE_TYPES)"
  have "db' = (if tx_aborted (access_transaction now ?valid groups users p who db) then db
      else tx_db (access_transaction now ?valid groups users p who db))"
    using assms unfolding store_addAccessToProject_def Let_def by (simp split: if_splits)
  then show ?thesis
    unfolding access_transaction_def Let_def add_groups_def add_users_def two_statements [OF refl refl refl] .
qed

lemma distinct_pairs:
  assumes "distinct xs" and "distinct ys"
  shows "distinct (concat (map (\<lambda>x. map (\<lambda>y. (x, y)) ys) xs))"
  using assms
proof (induction xs)
  case (Cons x xs)
  then show ?case by (auto simp: distinct_map inj_on_def)
qed simp

lemma user_rows_distinct:
  assumes "distinct users" and "distinct valid"
  shows "distinct (map ru_key (user_rows now users valid p))"
proof -
  have "map ru_key (user_rows now users valid p) =
      map (\<lambda>(u, r). (r, u, p)) (concat (map (\<lambda>x. map (\<lambda>y. (x, y)) valid) users))"
    by (simp add: user_rows_def ru_key_def map_concat comp_def)
  then show ?thesis using distinct_pairs [OF assms] by (auto simp: distinct_map inj_on_def)
qed

lemma group_rows_distinct:
  assumes "distinct groups" and "distinct valid"
  shows "distinct (map gr_key (group_rows groups valid p who))"
proof -
  have "map gr_key (group_rows groups valid p who) =
      map (\<lambda>(g, r). (g, r, p)) (concat (map (\<lambda>x. map (\<lambda>y. (x, y)) valid) groups))"
    by (simp add: group_rows_def gr_key_def map_concat comp_def)
  then show ?thesis using distinct_pairs [OF assms] by (auto simp: distinct_map inj_on_def)
qed

lemma add_users_effect:
  assumes "distinct valid" and "distinct users" and "set users \<subseteq> us_id ` set (ac_users db)"
    and "set valid \<subseteq> ro_id ` set (ac_roles db)"
  shows "\<exists>db'. add_users now users valid p db = Inr db' \<and>
    ru_key ` set (ac_role_user db') = ru_key ` set (ac_role_user db) \<union> {(r, u, p) | r u. r \<in> set valid \<and> u \<in> set users} \<and>
    ac_group_role db' = ac_group_role db"
proof -
  have "\<exists>us. mapR (ru_fk_check db) (user_rows now users valid p) = Inr us"
    using assms(3,4) by (intro mapR_unitI) (auto simp: user_rows_def ru_fk_check_def)
  then obtain us where us: "mapR (ru_fk_check db) (user_rows now users valid p) = Inr us" ..
  have "add_users now users valid p db =
      Inr (db\<lparr>ac_role_user := add_new ru_key (ac_role_user db) (user_rows now users valid p)\<rparr>)"
    using us user_rows_distinct [OF assms(2,1), of now p]
    by (simp add: add_users_def ru_insert_merge_def ru_insert_ignore_def add_new_def)
  then show ?thesis by (simp add: add_new_keys user_rows_keys)
qed

lemma add_groups_effect:
  assumes "distinct valid" and "distinct groups" and "set groups \<subseteq> g_id ` set (ac_groups db)"
    and "p \<in> set (ac_projects db)" and "set valid \<subseteq> ro_id ` set (ac_roles db)"
  shows "\<exists>db'. add_groups groups valid p who db = Inr db' \<and>
    gr_key ` set (ac_group_role db') = gr_key ` set (ac_group_role db) \<union> {(g, r, p) | g r. g \<in> set groups \<and> r \<in> set valid} \<and>
    ac_role_user db' = ac_role_user db \<and> ac_roles db' = ac_roles db \<and> ac_users db' = ac_users db"
proof (cases "group_rows groups valid p who = []")
  case True
  then show ?thesis using group_rows_keys [of groups valid p who] by (auto simp: add_groups_def)
next
  case False
  have "\<exists>us. mapR (gr_fk_check db) (group_rows groups valid p who) = Inr us"
    using assms(3-5) by (intro mapR_unitI) (auto simp: group_rows_def gr_fk_check_def)
  then obtain us where "mapR (gr_fk_check db) (group_rows groups valid p who) = Inr us" ..
  then obtain db' where ins: "gr_insert_merge (group_rows groups valid p who) db = Inr db'"
    using group_rows_distinct [OF assms(2,1), of p who] by (simp add: gr_insert_merge_def)
  then obtain us t where "db' = db\<lparr>ac_group_role := t\<rparr>"
    "gr_key ` set t = gr_key ` set (ac_group_role db) \<union> gr_key ` set (group_rows groups valid p who)"
    by (rule gr_insert_merge_effect)
  then show ?thesis using ins False by (simp add: add_groups_def group_rows_keys)
qed



section \<open>The answer of a permission check\<close>

lemma hasPermission_iff:
  "hasPermission \<lparr>ax_id = uid, ax_isAPI = False, ax_permissions = ps\<rparr> wanted projectId environment s \<longleftrightarrow>
     (\<exists>rid project permission ty env.
        has_role (as_db s) uid rid project \<and> role_grants (as_db s) rid permission ty env \<and>
        (permission \<in> set wanted \<or> permission = ADMIN) \<and>
        covers_project ty project projectId \<and> covers_environment ty env environment)"
proof -
  have "hasPermission \<lparr>ax_id = uid, ax_isAPI = False, ax_permissions = ps\<rparr> wanted projectId environment s \<longleftrightarrow>
      (\<exists>row\<in>set (user_permission_rows (as_db s) uid). meetsAllPermissions [mapUserPermission row] wanted projectId environment)"
    by (auto simp: hasPermission_def getPermissionsForUser_def store_getPermissionsForUser_def meetsAll_iff)
  also have "\<dots> \<longleftrightarrow> (\<exists>project permission env ty rid.
      (project, permission, env, ty, rid) \<in> set (user_permission_rows (as_db s) uid) \<and>
      meetsAllPermissions [mapUserPermission (project, permission, env, ty, rid)] wanted projectId environment)"
    by (auto simp: Bex_def)
  also have "\<dots> \<longleftrightarrow> (\<exists>project permission env ty rid.
      (has_role (as_db s) uid rid project \<and> role_grants (as_db s) rid permission ty env) \<and>
      (permission \<in> set wanted \<or> permission = ADMIN) \<and>
      covers_project ty project projectId \<and> covers_environment ty env environment)"
    unfolding user_permission_row_iff
    by (intro ex_cong1 conj_cong refl)
      (auto simp: meetsAll_iff mapUserPermission_def covers_project_def covers_environment_def truthy_def
        split: option.splits)
  finally show ?thesis by blast
qed


section \<open>Reachable states\<close>

inductive access_step :: "access_service \<Rightarrow> access_service \<Rightarrow> bool" where
  "addUserToRole now uid rid p s = Inr s' \<Longrightarrow> access_step s s'"
| "addGroupToRole gid rid who p s = Inr s' \<Longrightarrow> access_step s s'"
| "addRoleAccessToProject now us gs p rid who s = Inr s' \<Longrightarrow> access_step s s'"
| "addAccessToProject now rs gs us p who s = Inr s' \<Longrightarrow> access_step s s'"
| "setProjectRolesForUser now p i rs s = Inr s' \<Longrightarrow> access_step s s'"
| "setProjectRolesForGroup p i rs who s = Inr s' \<Longrightarrow> access_step s s'"
| "access_step s (removeUserAccess p uid s)"
| "access_step s (removeGroupAccess p gid s)"
| "access_step s (snd (setUserRootRole now uid role s))"
| "access_step s (removeUserFromRole uid rid p s)"
| "access_step s (removeGroupFromRole gid rid p s)"
| "updateUserProjectRole uid rid p s = Inr s' \<Longrightarrow> access_step s s'"
| "updateGroupProjectRole gid rid p s = Inr s' \<Longrightarrow> access_step s s'"
| "addPermissionToRole rid perm env s = Inr s' \<Longrightarrow> access_step s s'"
| "removePermissionFromRole rid perm env s = Inr s' \<Longrightarrow> access_step s s'"
| "access_step s (wipeUserPermissions uid s)"
| "createDefaultProjectRoles now owner p s = Inr s' \<Longrightarrow> access_step s s'"
| "access_step s (removeDefaultProjectRoles p s)"
| "access_step s (snd (createRole json r s))"
| "access_step s (snd (updateRole json rid r s))"
| "deleteRole rid who uid s = Inr s' \<Longrightarrow> access_step s s'"

lemma on_db_ok:
  assumes "on_db f s = Inr s'" and "access_ok (as_db s)"
    and "\<And>db'. f (as_db s) = Inr db' \<Longrightarrow> access_ok (as_db s) \<Longrightarrow> access_ok db'"
  shows "access_ok (as_db s')"
  using assms by (auto simp: on_db_def with_db_def bindR_Inr_iff)

lemmas access_ok_intros =
  addUserToRole_ok addGroupToRole_ok addRoleAccess_ok addAccess_ok updateUserProjectRole_ok
  updateGroupProjectRole_ok addPermissions_ok user_roles.assign_ok group_roles.assign_ok filter_ok
  user_roles.revoke_ok group_roles.revoke_ok

lemmas service_defs =
  addUserToRole_def addGroupToRole_def addRoleAccessToProject_def addAccessToProject_def
  setProjectRolesForUser_def setProjectRolesForGroup_def updateUserProjectRole_def
  updateGroupProjectRole_def addPermissionToRole_def removePermissionFromRole_def
  createDefaultProjectRoles_def store_removePermissionFromRole_def

lemma access_step_ok: "access_step s s' \<Longrightarrow> access_ok (as_db s) \<Longrightarrow> access_ok (as_db s')"
  by (cases rule: access_step.cases)
    (auto simp: service_defs removeUserAccess_def removeGroupAccess_def removeUserFromRole_def
      removeGroupFromRole_def removeDefaultProjectRoles_def removeRolesForProject_def
      store_removeUserFromRole_def store_removeGroupFromRole_def with_db_def
      intro: access_ok_intros setUserRootRole_ok wipeUserPermissions_ok createRole_ok updateRole_ok deleteRole_ok
      elim!: on_db_ok split: if_splits option.splits)

lemma access_reachable_ok: "access_step\<^sup>*\<^sup>* s s' \<Longrightarrow> access_ok (as_db s) \<Longrightarrow> access_ok (as_db s')"
  by (induction rule: rtranclp_induct) (auto intro: access_step_ok)

end
