(* ===== verification/AccessProperties.thy ===== *)
theory AccessProperties
  imports AccessFacts
begin

text \<open>
  The properties of access control: what a permission check answers, what the operations on roles do
  and leave alone, and which requests the RBAC middleware lets through.
\<close>

section \<open>Concrete tables for the witnesses\<close>

definition adb0 :: access_db where
  "adb0 =
     \<lparr>ac_roles = [\<lparr>ro_id = 1, ro_name = ''Admin'', ro_type = ''root'', ro_description = []\<rparr>,
                  \<lparr>ro_id = 2, ro_name = ''Viewer'', ro_type = ''root'', ro_description = []\<rparr>,
                  \<lparr>ro_id = 4, ro_name = ''Owner'', ro_type = ''project'', ro_description = []\<rparr>,
                  \<lparr>ro_id = 5, ro_name = ''Member'', ro_type = ''project'', ro_description = []\<rparr>,
                  \<lparr>ro_id = 6, ro_name = ''Ops'', ro_type = ''root-custom'', ro_description = []\<rparr>],
      ac_role_user = [\<lparr>ru_user = 10, ru_role = 2, ru_project = ''default'', ru_created_at = 0\<rparr>,
                      \<lparr>ru_user = 10, ru_role = 5, ru_project = ''p1'', ru_created_at = 0\<rparr>],
      ac_group_role = [],
      ac_groups = [\<lparr>g_id = 20, g_name = ''ops'', g_root_role = Some 6, g_description = None, g_mappings = []\<rparr>],
      ac_group_user = [\<lparr>gu_group = 20, gu_user = 10, gu_created_by = None\<rparr>],
      ac_role_permission = [\<lparr>rp_role = 5, rp_permission = ''CREATE_FEATURE'', rp_environment = None\<rparr>],
      ac_permissions = [\<lparr>pm_id = 1, pm_permission = ''CREATE_FEATURE'', pm_display_name = [], pm_type = ''project''\<rparr>],
      ac_users = [\<lparr>us_id = 10, us_active = True, us_is_service = False\<rparr>],
      ac_projects = [''default'', ''p1''], ac_personal_tokens = [], ac_signup_users = [], ac_next_role = 7, ac_next_group = 21,
      ac_message = (\<lambda>c. c)\<rparr>"

definition access0 :: access_service where
  "access0 = \<lparr>as_db = adb0, as_environments = [''dev''], as_events = []\<rparr>"

lemma adb0_ok: "access_ok adb0"
  by (simp add: access_ok_def adb0_def ru_key_def gu_key_def)

lemma access0_db [simp]: "as_db access0 = adb0"
  by (simp add: access0_def)


section \<open>Permission checks\<close>

text \<open>
  C4: a user has one of the wanted permissions exactly where one of its roles (its own, those of its
  groups, the root roles of its groups) grants one of them, or the admin permission, for a project and
  an environment that cover the request's.
\<close>

theorem has_permission_spec:
  "hasPermission \<lparr>ax_id = uid, ax_isAPI = False, ax_permissions = ps\<rparr> wanted projectId environment s \<longleftrightarrow>
     (\<exists>rid project permission ty env.
        has_role (as_db s) uid rid project \<and> role_grants (as_db s) rid permission ty env \<and>
        (permission \<in> set wanted \<or> permission = ADMIN) \<and>
        covers_project ty project projectId \<and> covers_environment ty env environment)"
  by (rule hasPermission_iff)

lemma has_role_mono:
  "has_role db uid rid p \<Longrightarrow> set (ac_role_user db) \<subseteq> set (ac_role_user db') \<Longrightarrow>
     set (ac_group_user db) \<subseteq> set (ac_group_user db') \<Longrightarrow> ac_groups db' = ac_groups db \<Longrightarrow>
     ac_group_role db' = ac_group_role db \<Longrightarrow> has_role db' uid rid p"
  unfolding has_role_def by (elim disjE bexE conjE) (simp; blast)+

text \<open>
  Removing a user from a project, or a user's permissions altogether, never gives anybody a
  permission; after the latter the user has none.
\<close>

theorem wiped_user_has_no_permission:
  "\<not> hasPermission \<lparr>ax_id = uid, ax_isAPI = False, ax_permissions = ps\<rparr> wanted projectId environment
       (wipeUserPermissions uid s)
   \<and> (hasPermission u wanted projectId environment (wipeUserPermissions uid s)
       \<longrightarrow> hasPermission u wanted projectId environment s)
   \<and> (hasPermission u wanted projectId environment (removeUserAccess p uid s)
       \<longrightarrow> hasPermission u wanted projectId environment s)"
proof -
  let ?w = "as_db (wipeUserPermissions uid s)" and ?r = "as_db (removeUserAccess p uid s)"
  note wd = wipeUserPermissions_def with_db_def unlinkUserRoles_def unlinkUserGroups_def
    clearUserPersonalAccessTokens_def clearPublicSignupUserTokens_def
  note rd = removeUserAccess_def with_db_def store_removeUserAccess_def
  have "\<not> has_role ?w uid rid project" for rid project by (simp add: has_role_def wd)
  moreover have "has_role (as_db s) i rid project" if "has_role ?w i rid project" for i rid project
    using has_role_mono [OF that, of "as_db s"] by (auto simp: wd)
  moreover have "has_role (as_db s) i rid project" if "has_role ?r i rid project" for i rid project
    using has_role_mono [OF that, of "as_db s"] by (auto simp: rd)
  moreover have "role_grants ?w = role_grants (as_db s)" "role_grants ?r = role_grants (as_db s)"
    by (simp_all add: role_grants_def wd rd fun_eq_iff)
  moreover have "hasPermission u wanted projectId environment t \<longleftrightarrow>
      (if ax_isAPI u then hasPermission u wanted projectId environment s
       else hasPermission \<lparr>ax_id = ax_id u, ax_isAPI = False, ax_permissions = ps\<rparr> wanted projectId environment t)" for t
    by (simp add: hasPermission_def getPermissionsForUser_def)
  ultimately show ?thesis unfolding hasPermission_iff by metis
qed

lemma wiped_user_has_no_permission_witness:
  "hasPermission \<lparr>ax_id = 10, ax_isAPI = False, ax_permissions = None\<rparr> [''CREATE_FEATURE''] (Some ''p1'') None access0 \<and>
   \<not> hasPermission \<lparr>ax_id = 10, ax_isAPI = False, ax_permissions = None\<rparr> [''CREATE_FEATURE''] (Some ''p1'') None
       (wipeUserPermissions 10 access0)"
proof -
  have "hasPermission \<lparr>ax_id = 10, ax_isAPI = False, ax_permissions = None\<rparr> [''CREATE_FEATURE''] (Some ''p1'') None access0"
    by (simp add: hasPermission_def getPermissionsForUser_def store_getPermissionsForUser_def meetsAll_iff
        user_permission_rows_def permissions_of_role_def union_row_def mapUserPermission_def adb0_def)
  then show ?thesis
    using wiped_user_has_no_permission [of 10 None "[''CREATE_FEATURE'']" "Some ''p1''" None access0] by blast
qed

text \<open>
  C40: of the API tokens, exactly the admin ones pass the RBAC check, whatever the request asks for; the
  user then acts with the id of the admin token user.
\<close>

theorem only_admin_tokens_pass_rbac:
  assumes "api_user_of t = Inr u" and "rb_isAPI req" and "rb_permissions req = Some (au_permissions u)"
    and "rb_user req = Some \<lparr>ui_email = None, ui_username = Some (au_username u), ui_id = None,
           ui_internalAdminTokenUserId = au_internalAdminTokenUserId u\<rparr>"
  shows "checkRbac gp sp permissions req s =
     (if au_type u = token_ADMIN then Inr (True, Some ADMIN_TOKEN_USER_id) else Inr (False, None))"
proof -
  have "au_permissions u = resolveTokenPermissions (au_type u)"
    "au_internalAdminTokenUserId u = (if au_type u = token_ADMIN then Some ADMIN_TOKEN_USER_id else None)"
    using assms(1) by (auto simp: api_user_of_def new_ApiUser_def bindR_Inr_iff split: if_splits)
  then show ?thesis using assms(2-4)
    by (simp add: checkRbac_def resolveTokenPermissions_def ADMIN_def num_or_def extractUserIdFromUser_def
        ADMIN_TOKEN_USER_id_def token_type_defs)
qed

definition sample_token :: "string \<Rightarrow> public_token" where
  "sample_token type = \<lparr>at_tokenName = Some ''ci'', at_type = type, at_project = ''*'', at_projects = [''*''],
     at_environment = ''*'', at_expiresAt = None, at_createdAt = 0, at_alias = None, at_seenAt = None,
     at_username = Some ''ci''\<rparr>"

definition api_token0 :: "string \<Rightarrow> api_token" where
  "api_token0 type = public_token.extend (sample_token type) \<lparr>at_secret = ''s''\<rparr>"

definition rbac1 :: "api_user \<Rightarrow> rbac_request" where
  "rbac1 u = \<lparr>rb_user = Some \<lparr>ui_email = None, ui_username = Some (au_username u), ui_id = None,
       ui_internalAdminTokenUserId = au_internalAdminTokenUserId u\<rparr>,
     rb_isAPI = True, rb_permissions = Some (au_permissions u), rb_params = [], rb_body = None\<rparr>"

lemma only_admin_tokens_pass_rbac_witness:
  "(\<exists>u. api_user_of (api_token0 token_ADMIN) = Inr u \<and>
        checkRbac (\<lambda>f. Inr None) (\<lambda>i. Inr None) [''CREATE_PROJECT''] (rbac1 u) access0 = Inr (True, Some ADMIN_TOKEN_USER_id)) \<and>
   (\<exists>u. api_user_of (api_token0 token_CLIENT) = Inr u \<and>
        checkRbac (\<lambda>f. Inr None) (\<lambda>i. Inr None) [''CREATE_PROJECT''] (rbac1 u) access0 = Inr (False, None))"
proof -
  have ex: "\<exists>u. api_user_of (api_token0 type) = Inr u \<and> au_type u = type" if "type \<in> {token_ADMIN, token_CLIENT}" for type
    using that by (auto simp: api_user_of_def new_ApiUser_def api_token0_def sample_token_def public_token.defs
        resolveTokenPermissions_def token_type_defs)
  have ne: "token_CLIENT \<noteq> token_ADMIN"
    by (simp add: token_type_defs)
  have "checkRbac (\<lambda>f. Inr None) (\<lambda>i. Inr None) [''CREATE_PROJECT''] (rbac1 u) access0 =
      (if au_type u = token_ADMIN then Inr (True, Some ADMIN_TOKEN_USER_id) else Inr (False, None))"
    if "api_user_of t = Inr u" for t u
    by (rule only_admin_tokens_pass_rbac [OF that]) (simp_all add: rbac1_def)
  then show ?thesis
    using ex [of token_ADMIN] ex [of token_CLIENT] ne by (metis insertCI)
qed

text \<open>
  Where the path names no project, the check uses the project named in the body of the request, and
  not the project of the feature the path names: the result does not depend on \<open>getProjectId\<close>.
\<close>

theorem body_project_decides_rbac:
  assumes "rb_user req = Some user" and "ui_id user = Some i" and "i \<noteq> 0" and "\<not> rb_isAPI req"
    and "map_of (rb_params req) ''projectId'' = None" and "map_of (rb_params req) ''project'' = None"
    and "rb_body req = Some b" and "map_of b ''projectId'' = None" and "map_of b ''project'' = Some p" and "p \<noteq> []"
  shows "checkRbac getProjectId segment_project wanted req s =
     Inr (hasPermission \<lparr>ax_id = i, ax_isAPI = False, ax_permissions = rb_permissions req\<rparr> wanted (Some p)
            (first_some (findParam ''environment'' req) (findParam ''environmentId'' req)) s, Some i)"
proof -
  have "rbac_project getProjectId segment_project wanted req = Inr (Some p)"
    using assms(5-10) by (simp add: rbac_project_def findParam_def first_some_def Let_def)
  then show ?thesis using assms(1-4) by (simp add: checkRbac_def num_or_def)
qed

definition rbac0 :: rbac_request where
  "rbac0 = \<lparr>rb_user = Some \<lparr>ui_email = None, ui_username = None, ui_id = Some 10, ui_internalAdminTokenUserId = None\<rparr>,
     rb_isAPI = False, rb_permissions = None, rb_params = [(''featureName'', ''other'')],
     rb_body = Some [(''project'', ''p1'')]\<rparr>"

lemma body_project_decides_rbac_witness:
  "checkRbac (\<lambda>f. Inr (Some ''p2'')) (\<lambda>i. Inr None) [''CREATE_FEATURE'', ''UPDATE_FEATURE''] rbac0 access0 = Inr (True, Some 10)"
proof -
  have "hasPermission \<lparr>ax_id = 10, ax_isAPI = False, ax_permissions = None\<rparr> [''CREATE_FEATURE'', ''UPDATE_FEATURE''] (Some ''p1'') None access0"
    by (simp add: hasPermission_def getPermissionsForUser_def store_getPermissionsForUser_def meetsAll_iff
        user_permission_rows_def permissions_of_role_def union_row_def mapUserPermission_def adb0_def)
  then show ?thesis
    using body_project_decides_rbac [of rbac0 _ 10 _ "''p1''" "\<lambda>f. Inr (Some ''p2'')" "\<lambda>i. Inr None"
        "[''CREATE_FEATURE'', ''UPDATE_FEATURE'']" access0]
    by (simp add: rbac0_def findParam_def first_some_def)
qed


section \<open>Roles in projects\<close>

text \<open>
  \<open>setProjectRolesForUser\<close> replaces: after two calls the user has exactly the project roles of the
  second (a role of another type is dropped), and no other user or project is affected.
\<close>

theorem project_roles_replaced:
  assumes "access_ok (as_db s)" and "setProjectRolesForUser t1 p i rs1 s = Inr s1"
    and "setProjectRolesForUser t2 p i rs2 s1 = Inr s2"
  shows "set (getProjectRolesForUser p i s2) = {r \<in> set rs2. role_has_type (as_db s) PROJECT_ROLE_TYPES r} \<and>
    (\<forall>q j. (q, j) \<noteq> (p, i) \<longrightarrow> getProjectRolesForUser q j s2 = getProjectRolesForUser q j s)"
proof -
  from assms(2,3) have a: "store_setProjectRolesForUser t1 p i rs1 (as_db s) = Inr (as_db s1)"
      "store_setProjectRolesForUser t2 p i rs2 (as_db s1) = Inr (as_db s2)"
    by (auto simp: setProjectRolesForUser_def on_db_def with_db_def bindR_Inr_iff)
  have "set (store_getProjectRolesForUser (as_db s2) p i) = {r \<in> set rs2. role_has_type (as_db s1) PROJECT_ROLE_TYPES r}"
    by (rule user_roles.get_assign [OF user_roles.assign_ok [OF assms(1) a(1)] a(2)])
  then show ?thesis
    using user_roles.assign_roles [OF a(1)] user_roles.get_assign_other [OF a(1)] user_roles.get_assign_other [OF a(2)]
    by (simp add: getProjectRolesForUser_def)
qed

lemma project_roles_replaced_witness:
  "\<exists>s1 s2. setProjectRolesForUser 1 ''p1'' 10 [5, 1] access0 = Inr s1 \<and> setProjectRolesForUser 2 ''p1'' 10 [4, 6] s1 = Inr s2 \<and>
     set (getProjectRolesForUser ''p1'' 10 s2) = {4}"
proof -
  have "\<exists>s1 s2. setProjectRolesForUser 1 ''p1'' 10 [5, 1] access0 = Inr s1 \<and>
      setProjectRolesForUser 2 ''p1'' 10 [4, 6] s1 = Inr s2"
    by (simp add: setProjectRolesForUser_def on_db_def with_db_def store_setProjectRolesForUser_def Let_def
        role_ids_of_type_def PROJECT_ROLE_TYPES_def user_rows_def ru_insert_ignore_def ru_fk_check_def ru_key_def
        access0_def adb0_def)
  then obtain s1 s2 where s: "setProjectRolesForUser 1 ''p1'' 10 [5, 1] access0 = Inr s1"
      "setProjectRolesForUser 2 ''p1'' 10 [4, 6] s1 = Inr s2" by blast
  have "{r \<in> set [4, 6]. role_has_type adb0 PROJECT_ROLE_TYPES r} = {4}"
    by (auto simp: role_has_type_def adb0_def PROJECT_ROLE_TYPES_def)
  then show ?thesis using project_roles_replaced [OF _ s] s adb0_ok by auto
qed

text \<open>
  Setting the root role of a user leaves it exactly one root role, the one asked for, and keeps its
  project roles.
\<close>

theorem set_root_role_unique:
  assumes "access_ok (as_db s)" and "setUserRootRole now uid role s = (Inr (), s')"
  shows "\<exists>r. resolveRootRole role s = Some r \<and>
     {ru_role x | x. x \<in> set (ac_role_user (as_db s')) \<and> ru_user x = uid \<and> role_has_type (as_db s') ROOT_ROLE_TYPES (ru_role x)} = {ro_id r} \<and>
     getRootRoleForUser uid s' = Inr r \<and>
     (\<forall>p j. getProjectRolesForUser p j s' = getProjectRolesForUser p j s)"
proof -
  from assms(2) obtain r where r: "resolveRootRole role s = Some r" "r \<in> set (ac_roles (as_db s))" "ro_type r \<in> set ROOT_ROLE_TYPES"
    and s': "as_db s' = (as_db s)\<lparr>ac_role_user :=
       filter (\<lambda>x. \<not> (ru_user x = uid \<and> role_has_type (as_db s) ROOT_ROLE_TYPES (ru_role x))) (ac_role_user (as_db s))
       @ [\<lparr>ru_user = uid, ru_role = ro_id r, ru_project = DEFAULT_PROJECT, ru_created_at = now\<rparr>]\<rparr>"
    by (rule setUserRootRole_effect)
  have ty: "role_has_type (as_db s') = role_has_type (as_db s)" by (rule role_has_type_cong) (simp add: s')
  have root: "role_has_type (as_db s) ROOT_ROLE_TYPES (ro_id r)"
    using r by (auto simp: role_has_type_def list_ex_iff)
  have "(x \<in> set (ac_role_user (as_db s')) \<and> ru_user x = uid \<and> role_has_type (as_db s') ROOT_ROLE_TYPES (ru_role x)) \<longleftrightarrow>
      x = \<lparr>ru_user = uid, ru_role = ro_id r, ru_project = DEFAULT_PROJECT, ru_created_at = now\<rparr>" for x
    unfolding ty using root by (auto simp: s')
  then have one: "{ru_role x | x. x \<in> set (ac_role_user (as_db s')) \<and> ru_user x = uid \<and>
      role_has_type (as_db s') ROOT_ROLE_TYPES (ru_role x)} = {ro_id r}" by simp
  have "access_ok (as_db s')" using setUserRootRole_ok [OF assms(1), of now uid role] assms(2) by simp
  then have "store_getRootRoleForUser (as_db s') uid = Some r"
    using root_role_query [OF _ _ r(3) one] r(2) by (simp add: s')
  then have "getRootRoleForUser uid s' = Inr r" by (simp add: getRootRoleForUser_def)
  moreover have "getProjectRolesForUser p j s' = getProjectRolesForUser p j s" for p j
    unfolding getProjectRolesForUser_def store_getProjectRolesForUser_def ty
    using root_role_not_project [OF assms(1)] root
    by (auto simp: s' intro!: arg_cong [of _ _ "map ru_role"] filter_cong)
  ultimately show ?thesis using r one by blast
qed

lemma set_root_role_unique_witness:
  "\<exists>s' r. setUserRootRole 3 10 (RoleNamed ''Admin'') access0 = (Inr (), s') \<and> getRootRoleForUser 10 s' = Inr r \<and> ro_id r = 1"
proof -
  have res: "\<exists>r. resolveRootRole (RoleNamed ''Admin'') access0 = Some r \<and> ro_id r = 1"
    by (simp add: resolveRootRole_def store_getRootRoles_def roles_of_types_def adb0_def ROOT_ROLE_TYPES_def)
  moreover have "\<exists>s'. setUserRootRole 3 10 (RoleNamed ''Admin'') access0 = (Inr (), s')"
    using res by (auto simp: setUserRootRole_def Let_def store_addUserToRole_def ru_insert_ignore_def
        ru_fk_check_def removeRolesOfTypeForUser_def adb0_def)
  ultimately show ?thesis using set_root_role_unique [of access0 3 10 "RoleNamed ''Admin''"] adb0_ok by fastforce
qed

text \<open>
  \<open>addAccessToProject\<close> gives only project roles (a role that is not one, or does not exist, is
  refused), and gives every listed user and group every listed role, keeping what they had.
\<close>

theorem add_access_grants:
  assumes "addAccessToProject now roles groups users p who s = Inr s'" and "access_ok (as_db s)"
    and "distinct users" and "distinct groups" and "set users \<subseteq> us_id ` set (ac_users (as_db s))"
    and "set groups \<subseteq> g_id ` set (ac_groups (as_db s))" and "p \<in> set (ac_projects (as_db s))"
  shows "(\<forall>r\<in>set roles. role_has_type (as_db s) PROJECT_ROLE_TYPES r) \<and>
    ru_key ` set (ac_role_user (as_db s')) =
      ru_key ` set (ac_role_user (as_db s)) \<union> {(r, u, p) | r u. r \<in> set roles \<and> u \<in> set users} \<and>
    gr_key ` set (ac_group_role (as_db s')) =
      gr_key ` set (ac_group_role (as_db s)) \<union> {(g, r, p) | g r. g \<in> set groups \<and> r \<in> set roles}"
proof -
  let ?db = "as_db s"
  have st: "store_addAccessToProject now roles groups users p who ?db = Inr (as_db s')"
    using assms(1) by (auto simp: addAccessToProject_def on_db_def with_db_def bindR_Inr_iff split: if_splits)
  note v = valid_roles [OF assms(2) st]
  let ?valid = "filter (\<lambda>i. i \<in> set roles) (role_ids_of_type ?db PROJECT_ROLE_TYPES)"
  have ids: "set ?valid \<subseteq> ro_id ` set (ac_roles ?db)" by (auto simp: role_ids_of_type_def)
  obtain db1 where g: "add_groups groups ?valid p who ?db = Inr db1"
    and gk: "gr_key ` set (ac_group_role db1) = gr_key ` set (ac_group_role ?db) \<union> {(g, r, p) | g r. g \<in> set groups \<and> r \<in> set ?valid}"
    and rest: "ac_role_user db1 = ac_role_user ?db" "ac_roles db1 = ac_roles ?db" "ac_users db1 = ac_users ?db"
    using add_groups_effect [OF v(3) assms(4,6,7) ids, of who] by blast
  obtain db2 where u: "add_users now users ?valid p db1 = Inr db2"
    and uk: "ru_key ` set (ac_role_user db2) = ru_key ` set (ac_role_user db1) \<union> {(r, u, p) | r u. r \<in> set ?valid \<and> u \<in> set users}"
    and same: "ac_group_role db2 = ac_group_role db1"
    using add_users_effect [OF v(3) assms(3), of db1 now p] assms(5) ids rest by auto
  have "as_db s' = db2" using add_access_cases [OF st] g u by simp
  then show ?thesis using v gk uk rest same by simp
qed

lemma add_access_grants_witness:
  "\<exists>s'. addAccessToProject 5 [4] [20] [10] ''p1'' ''me'' access0 = Inr s' \<and>
     (4, 10, ''p1'') \<in> ru_key ` set (ac_role_user (as_db s')) \<and> (20, 4, ''p1'') \<in> gr_key ` set (ac_group_role (as_db s'))"
proof -
  have "\<exists>s'. addAccessToProject 5 [4] [20] [10] ''p1'' ''me'' access0 = Inr s'"
    by (simp add: addAccessToProject_def on_db_def store_addAccessToProject_def access_transaction_def Let_def
        role_ids_of_type_def PROJECT_ROLE_TYPES_def group_rows_def user_rows_def caught_def gr_insert_merge_def
        ru_insert_merge_def ru_insert_ignore_def gr_fk_check_def ru_fk_check_def adb0_def)
  then obtain s' where s': "addAccessToProject 5 [4] [20] [10] ''p1'' ''me'' access0 = Inr s'" ..
  have "access_ok (as_db access0)" using adb0_ok by simp
  from add_access_grants [OF s' this] s' show ?thesis by (auto simp: adb0_def)
qed

text \<open>
  A user listed twice makes the insertion fail (one statement cannot update a row twice); the error is
  swallowed, the aborted transaction rolls back, and the call succeeds having given nobody access.
\<close>

theorem duplicate_users_lose_access:
  assumes "access_ok (as_db s)" and "roles \<noteq> []" and "distinct roles"
    and "\<forall>r\<in>set roles. role_has_type (as_db s) PROJECT_ROLE_TYPES r" and "\<not> distinct users"
  shows "addAccessToProject now roles [] users p who s = Inr s"
proof -
  let ?valid = "filter (\<lambda>i. i \<in> set roles) (role_ids_of_type (as_db s) PROJECT_ROLE_TYPES)"
  let ?rows = "user_rows now users ?valid p"
  have sv: "set ?valid = set roles" using assms(4) by (auto simp: role_ids_of_type_iff)
  have dv: "distinct ?valid" using assms(1) by (auto simp: access_ok_def role_ids_of_type_def distinct_map_filter)
  have len: "length ?valid = length roles" using sv dv assms(3) distinct_card by metis
  obtain r rest where v: "?valid = r # rest" using sv assms(2) by (cases ?valid) auto
  have nd: "\<not> distinct (map ru_key ?rows)"
  proof
    assume "distinct (map ru_key ?rows)"
    then have "distinct (map ru_key (filter (\<lambda>x. ru_role x = r) ?rows))" by (rule distinct_map_filter)
    moreover have "map ru_key (filter (\<lambda>x. ru_role x = r) (user_rows now us ?valid p)) = map (\<lambda>u. (r, u, p)) us" for us
    proof (induction us)
      case (Cons u us)
      have "filter (\<lambda>x. ru_role x = r) (map (\<lambda>r. \<lparr>ru_user = u, ru_role = r, ru_project = p, ru_created_at = now\<rparr>) rest) = []"
        using dv by (auto simp: v filter_empty_conv)
      then show ?case using Cons by (simp add: v user_rows_def ru_key_def)
    qed (simp add: user_rows_def)
    ultimately have "distinct (map (\<lambda>u. (r, u, p)) users)" by simp
    then show False using assms(5) by (simp add: distinct_map)
  qed
  then have "?rows \<noteq> []" by auto
  then have "access_transaction now ?valid [] users p who (as_db s) = \<lparr>tx_db = as_db s, tx_aborted = True, tx_errors = []\<rparr>"
    using nd by (simp add: access_transaction_def group_rows_def caught_def ru_insert_merge_def cardinality_error_def
        CARDINALITY_VIOLATION_def FOREIGN_KEY_VIOLATION_def)
  then show ?thesis using len assms(2)
    by (simp add: addAccessToProject_def on_db_def with_db_def store_addAccessToProject_def)
qed

lemma duplicate_users_lose_access_witness:
  "addAccessToProject 5 [4] [] [10, 10] ''p1'' ''me'' access0 = Inr access0"
  using adb0_ok by (intro duplicate_users_lose_access)
    (simp_all add: role_has_type_def adb0_def PROJECT_ROLE_TYPES_def)


section \<open>Roles\<close>

text \<open>
  only a custom role without active users and without project groups can be deleted, and nothing
  refers to it afterwards; but a role that is the root role of a group is not found to be in use, and
  deleting it ends in an error of the database, answered with status 500.
\<close>

theorem delete_role_in_use:
  assumes "access_ok (as_db s)" and "r \<in> set (ac_roles (as_db s))"
  shows "(\<forall>s'. deleteRole (ro_id r) who uid s = Inr s' \<longrightarrow>
      ro_type r \<in> {''custom'', ''root-custom''} \<and> getUsersForRole (ro_id r) s = [] \<and> getGroupsForRole (ro_id r) s = [] \<and>
      \<not> roles_exists (ro_id r) (as_db s') \<and> getPermissionsForRole (as_db s') (ro_id r) = [] \<and> (\<forall>u p. \<not> has_role (as_db s') u (ro_id r) p))
    \<and> ((\<exists>g\<in>set (ac_groups (as_db s)). g_root_role g = Some (ro_id r)) \<and> ro_type r \<in> {''custom'', ''root-custom''} \<and>
       getUsersForRole (ro_id r) s = [] \<and> getGroupsForRole (ro_id r) s = [] \<longrightarrow>
       (\<exists>e. deleteRole (ro_id r) who uid s = Inl e \<and> er_statusCode (fromLegacyError e) = 500))"
proof (intro conjI allI impI)
  have get: "roles_get (ro_id r) (as_db s) = Inr r"
  proof -
    have "find (\<lambda>x. ro_id x = ro_id r) (ac_roles (as_db s)) = Some r"
      using assms by (intro find_key_distinct) (auto simp: access_ok_def)
    then show ?thesis by (simp add: roles_get_def)
  qed
  note defs = deleteRole_def validateRoleIsNotBuiltIn_def get bindR_Inr_iff throw_if_iff Let_def with_db_def
  {
    fix s' assume "deleteRole (ro_id r) who uid s = Inr s'"
    then obtain db' where del: "roles_delete (ro_id r) (as_db s) = Inr db'" and s': "as_db s' = db'"
      and ty: "ro_type r \<in> {''custom'', ''root-custom''}"
      and none: "getUsersForRole (ro_id r) s = []" "getGroupsForRole (ro_id r) s = []"
      by (auto simp: defs split: if_splits)
    show "ro_type r \<in> {''custom'', ''root-custom''}" "getUsersForRole (ro_id r) s = []" "getGroupsForRole (ro_id r) s = []"
      by (rule ty, rule none, rule none)
    have db': "db' = (as_db s)\<lparr>ac_roles := filter (\<lambda>x. ro_id x \<noteq> ro_id r) (ac_roles (as_db s)),
             ac_role_user := filter (\<lambda>x. ru_role x \<noteq> ro_id r) (ac_role_user (as_db s)),
             ac_group_role := filter (\<lambda>x. gr_role x \<noteq> ro_id r) (ac_group_role (as_db s)),
             ac_role_permission := filter (\<lambda>x. rp_role x \<noteq> ro_id r) (ac_role_permission (as_db s))\<rparr>"
      and noroot: "\<forall>g\<in>set (ac_groups (as_db s)). g_root_role g \<noteq> Some (ro_id r)"
      using del assms(2) by (auto simp: roles_delete_def split: if_splits)
    show "\<not> roles_exists (ro_id r) (as_db s')" by (simp add: roles_exists_def s' db' list_ex_iff)
    show "getPermissionsForRole (as_db s') (ro_id r) = []"
      by (auto simp: getPermissionsForRole_def permissions_of_role_def s' db')
    show "\<not> has_role (as_db s') u (ro_id r) p" for u p using noroot by (auto simp: has_role_def s' db')
  }
  assume "(\<exists>g\<in>set (ac_groups (as_db s)). g_root_role g = Some (ro_id r)) \<and> ro_type r \<in> {''custom'', ''root-custom''} \<and>
       getUsersForRole (ro_id r) s = [] \<and> getGroupsForRole (ro_id r) s = []"
  then have "deleteRole (ro_id r) who uid s = Inl (fk_error (as_db s) ''fk_group_role_id'')"
    using assms(2) by (auto simp: defs roles_delete_def)
  moreover have "er_statusCode (fromLegacyError (fk_error (as_db s) ''fk_group_role_id'')) = 500"
    by (simp add: fk_error_def fromLegacyError_def Let_def UnleashApiErrorTypes_def getStatusCode_def status_table_def
        GenericUnleashError_def UnleashError_def)
  ultimately show "\<exists>e. deleteRole (ro_id r) who uid s = Inl e \<and> er_statusCode (fromLegacyError e) = 500" by blast
qed

lemma delete_role_in_use_witness:
  "\<exists>e. deleteRole 6 ''me'' 1 access0 = Inl e \<and> er_statusCode (fromLegacyError e) = 500"
proof -
  let ?r = "\<lparr>ro_id = 6, ro_name = ''Ops'', ro_type = ''root-custom'', ro_description = []\<rparr>"
  have "access_ok (as_db access0)" "?r \<in> set (ac_roles (as_db access0))" using adb0_ok by (simp_all add: adb0_def)
  from delete_role_in_use [OF this] show ?thesis
    by (simp add: adb0_def getUsersForRole_def getGroupsForRole_def getUserIdsForRole_def getGroupIdsForRole_def)
qed



end
