(* ===== verification/Operations.thy ===== *)
theory Operations
  imports Errors
begin

text \<open>
  Operations of a service: they may throw, and what they changed before they throw stays changed,
  since a request is not one transaction unless the controller opens one. Tasks given to
  \<open>Promise.all\<close> run one after the other, in the order of the list; all of them run, and the first
  failure is the answer.
\<close>

type_synonym ('s, 'a) op = "'s \<Rightarrow> (exn + 'a) \<times> 's"

definition returnS :: "'a \<Rightarrow> ('s, 'a) op" where
  "returnS x s = (Inr x, s)"

definition failS :: "exn \<Rightarrow> ('s, 'a) op" where
  "failS e s = (Inl e, s)"

definition bindS :: "('s, 'a) op \<Rightarrow> ('a \<Rightarrow> ('s, 'b) op) \<Rightarrow> ('s, 'b) op" where
  "bindS m k s = (case m s of (Inl e, s') \<Rightarrow> (Inl e, s') | (Inr x, s') \<Rightarrow> k x s')"

definition thenS :: "('s, 'a) op \<Rightarrow> ('s, 'b) op \<Rightarrow> ('s, 'b) op" where
  "thenS m k = bindS m (\<lambda>_. k)"

text \<open>A query, a query that may throw, an update, and an update that may throw.\<close>

definition askS :: "('s \<Rightarrow> 'a) \<Rightarrow> ('s, 'a) op" where
  "askS f s = (Inr (f s), s)"

definition tryS :: "('s \<Rightarrow> exn + 'a) \<Rightarrow> ('s, 'a) op" where
  "tryS f s = (f s, s)"

definition modS :: "('s \<Rightarrow> 's) \<Rightarrow> ('s, unit) op" where
  "modS f s = (Inr (), f s)"

definition guardS :: "bool \<Rightarrow> exn \<Rightarrow> ('s, unit) op" where
  "guardS b e s = (throw_if b e, s)"

definition whenS :: "bool \<Rightarrow> ('s, unit) op \<Rightarrow> ('s, unit) op" where
  "whenS b m = (if b then m else returnS ())"

fun eachS :: "('a \<Rightarrow> ('s, unit) op) \<Rightarrow> 'a list \<Rightarrow> ('s, unit) op" where
  "eachS f [] = returnS ()"
| "eachS f (x # xs) = thenS (f x) (eachS f xs)"

fun allS :: "('a \<Rightarrow> ('s, 'b) op) \<Rightarrow> 'a list \<Rightarrow> ('s, 'b list) op" where
  "allS f [] s = (Inr [], s)"
| "allS f (x # xs) s =
     (case f x s of (r, s1) \<Rightarrow>
      case allS f xs s1 of (rs, s2) \<Rightarrow> (bindR r (\<lambda>y. bindR rs (\<lambda>ys. Inr (y # ys))), s2))"

text \<open>\<open>try m catch (e) { throw h(e) }\<close>, a handler that goes on, and a transaction, which is rolled back when it throws.\<close>

definition catchS :: "('s, 'a) op \<Rightarrow> (exn \<Rightarrow> exn) \<Rightarrow> ('s, 'a) op" where
  "catchS m h s = (case m s of (Inl e, s') \<Rightarrow> (Inl (h e), s') | r \<Rightarrow> r)"

definition orElseS :: "('s, 'a) op \<Rightarrow> (exn \<Rightarrow> ('s, 'a) op) \<Rightarrow> ('s, 'a) op" where
  "orElseS m h s = (case m s of (Inl e, s') \<Rightarrow> h e s' | (Inr x, s') \<Rightarrow> (Inr x, s'))"

definition transactionS :: "('s, 'a) op \<Rightarrow> ('s, 'a) op" where
  "transactionS m s = (case m s of (Inl e, _) \<Rightarrow> (Inl e, s) | r \<Rightarrow> r)"


section \<open>Equations\<close>

named_theorems op_simps \<open>unfolding of the operations\<close>

lemma op_eqs [simp, op_simps]:
  "returnS x s = (Inr x, s)" "failS e s = (Inl e, s)" "askS f s = (Inr (f s), s)"
  "tryS g s = (g s, s)" "modS h s = (Inr (), h s)" "guardS b e s = (throw_if b e, s)"
  by (simp_all add: returnS_def failS_def askS_def tryS_def modS_def guardS_def)

lemma bindS_simps [op_simps]:
  "m s = (Inl e, s') \<Longrightarrow> bindS m k s = (Inl e, s')"
  "m s = (Inr x, s') \<Longrightarrow> bindS m k s = k x s'"
  "m s = (Inl e, s') \<Longrightarrow> thenS m n s = (Inl e, s')"
  "m s = (Inr x, s') \<Longrightarrow> thenS m n s = n s'"
  by (simp_all add: bindS_def thenS_def)

lemma bind_query [simp, op_simps]:
  "bindS (askS f) k s = k (f s) s" "bindS (modS h) k' s = k' () (h s)" "thenS (modS h) n s = n (h s)"
  "bindS (returnS x) k'' s = k'' x s" "thenS (returnS x) n s = n s"
  "thenS (askS f) n s = n s"
  by (simp_all add: bindS_def thenS_def)

lemma bindS_Inr_iff:
  "bindS m k s = (Inr y, t) \<longleftrightarrow> (\<exists>x s'. m s = (Inr x, s') \<and> k x s' = (Inr y, t))"
  by (auto simp: bindS_def split: prod.splits sum.splits)

lemma thenS_Inr_iff:
  "thenS m n s = (Inr y, t) \<longleftrightarrow> (\<exists>x s'. m s = (Inr x, s') \<and> n s' = (Inr y, t))"
  by (simp add: thenS_def bindS_Inr_iff)

lemma guardS_Inr_iff: "guardS b e s = (Inr u, t) \<longleftrightarrow> \<not> b \<and> t = s"
  by (auto simp: guardS_def throw_if_def)

lemma whenS_Inr_iff: "whenS b m s = (Inr u, t) \<longleftrightarrow> (if b then m s = (Inr u, t) else t = s)"
  by (auto simp: whenS_def)

lemmas op_iffs = bindS_Inr_iff thenS_Inr_iff guardS_Inr_iff whenS_Inr_iff


section \<open>Invariants\<close>

text \<open>
  An operation preserves \<open>I\<close> where \<open>I\<close> holds of the state afterwards, thrown or not. The rules follow
  the way operations are built.
\<close>

definition preserves :: "('s \<Rightarrow> bool) \<Rightarrow> ('s, 'a) op \<Rightarrow> bool" where
  "preserves I m = (\<forall>s. I s \<longrightarrow> I (snd (m s)))"

named_theorems preserves_intros \<open>rules for the preservation of an invariant\<close>

lemma preservesD: "preserves I m \<Longrightarrow> I s \<Longrightarrow> m s = (r, s') \<Longrightarrow> I s'"
  unfolding preserves_def by (metis snd_conv)

lemma preserves_pure [preserves_intros, intro]:
  "preserves I (returnS x)" "preserves I (failS e)" "preserves I (askS f)" "preserves I (tryS g)"
  "preserves I (guardS b e)"
  by (simp_all add: preserves_def)

lemma preserves_modS [preserves_intros]: "(\<And>s. I s \<Longrightarrow> I (f s)) \<Longrightarrow> preserves I (modS f)"
  by (simp add: preserves_def)

lemma preserves_bindS [preserves_intros, intro]:
  "preserves I m \<Longrightarrow> (\<And>x. preserves I (k x)) \<Longrightarrow> preserves I (bindS m k)"
  by (fastforce simp: preserves_def bindS_def split: prod.splits sum.splits)

text \<open>The continuation after a query may use what the query said of the state.\<close>

lemma preserves_askS:
  "(\<And>s. I s \<Longrightarrow> I (snd (k (f s) s))) \<Longrightarrow> preserves I (bindS (askS f) k)"
  by (simp add: preserves_def)

lemma preserves_thenS [preserves_intros, intro]:
  "preserves I m \<Longrightarrow> preserves I n \<Longrightarrow> preserves I (thenS m n)"
  by (simp add: thenS_def preserves_bindS)

lemma preserves_whenS [preserves_intros, intro]: "(b \<Longrightarrow> preserves I m) \<Longrightarrow> preserves I (whenS b m)"
  by (simp add: whenS_def preserves_pure)

lemma preserves_eachS [preserves_intros]:
  "(\<And>x. x \<in> set xs \<Longrightarrow> preserves I (f x)) \<Longrightarrow> preserves I (eachS f xs)"
  by (induction xs) (auto intro: preserves_intros)

lemma preserves_allS [preserves_intros]:
  assumes "\<And>x. x \<in> set xs \<Longrightarrow> preserves I (f x)"
  shows "preserves I (allS f xs)"
  using assms
proof (induction xs)
  case Nil
  then show ?case by (simp add: preserves_def)
next
  case (Cons x xs)
  have "I (snd (f x s))" if "I s" for s
    using Cons.prems [of x] that by (simp add: preserves_def)
  moreover have "preserves I (allS f xs)"
    using Cons by simp
  ultimately show ?case
    by (fastforce simp: preserves_def split: prod.splits)
qed

lemma preserves_catchS [preserves_intros]: "preserves I m \<Longrightarrow> preserves I (catchS m h)"
  by (fastforce simp: preserves_def catchS_def split: prod.splits sum.splits)

lemma preserves_orElseS [preserves_intros]:
  "preserves I m \<Longrightarrow> (\<And>e. preserves I (h e)) \<Longrightarrow> preserves I (orElseS m h)"
  by (fastforce simp: preserves_def orElseS_def split: prod.splits sum.splits)

lemma preserves_transactionS [preserves_intros]: "preserves I m \<Longrightarrow> preserves I (transactionS m)"
  by (fastforce simp: preserves_def transactionS_def split: prod.splits sum.splits)

lemma preserves_if [preserves_intros]:
  "(b \<Longrightarrow> preserves I m) \<Longrightarrow> (\<not> b \<Longrightarrow> preserves I n) \<Longrightarrow> preserves I (if b then m else n)"
  by simp

lemma preserves_option [preserves_intros]:
  "(x = None \<Longrightarrow> preserves I m) \<Longrightarrow> (\<And>y. x = Some y \<Longrightarrow> preserves I (k y)) \<Longrightarrow>
     preserves I (case x of None \<Rightarrow> m | Some y \<Rightarrow> k y)"
  by (cases x) auto

end
