(* ===== verification/Users.thy ===== *)
theory Users
  imports AccessService Operations
begin

text \<open>
  Users and what they log in with: the tables \<open>users\<close>, \<open>unleash_session\<close>, \<open>reset_tokens\<close>,
  \<open>personal_access_tokens\<close>, \<open>public_signup_tokens\<close> and \<open>public_signup_tokens_user\<close>, and their stores
  (\<open>db/user-store.ts\<close>, \<open>account-store.ts\<close>, \<open>session-store.ts\<close>, \<open>reset-token-store.ts\<close>,
  \<open>pat-store.ts\<close>, \<open>public-signup-token-store.ts\<close>). Times are milliseconds, an absent value is a null,
  and the order of a query's answer is that of the table. The length limits of the columns are left out.
\<close>

section \<open>Rows\<close>

record account_row =
  ur_id :: int
  ur_name :: "string option"
  ur_username :: "string option"
  ur_email :: "string option"
  ur_image_url :: "string option"
  ur_password_hash :: "string option"
  ur_login_attempts :: int
  ur_created_at :: int
  ur_seen_at :: "int option"
  ur_deleted_at :: "int option"
  ur_is_service :: bool
  ur_is_system :: bool

text \<open>Of the JSON in \<open>sess\<close> the queries read the id of the user.\<close>

record session_row =
  se_sid :: string
  se_user :: "int option"
  se_created_at :: int
  se_expired :: "int option"

record reset_row =
  rk_token :: string
  rk_user :: int
  rk_expires_at :: int
  rk_created_at :: int
  rk_created_by :: "string option"
  rk_used_at :: "int option"

record pat_row =
  pt_id :: int
  pt_secret :: string
  pt_description :: string
  pt_user :: int
  pt_expires_at :: int
  pt_created_at :: int
  pt_seen_at :: "int option"

record signup_row =
  sg_secret :: string
  sg_name :: string
  sg_expires_at :: int
  sg_created_at :: int
  sg_created_by :: "string option"
  sg_role :: int
  sg_url :: string
  sg_enabled :: bool

text \<open>Users as the code has them (\<open>types/user.ts\<close>), and the lookup of one.\<close>

record user =
  us_userId :: int
  us_name :: "string option"
  us_username :: "string option"
  us_email :: "string option"
  us_imageUrl :: string
  us_seenAt :: "int option"
  us_loginAttempts :: "int option"
  us_createdAt :: "int option"
  us_accountType :: string

record user_lookup =
  lk_id :: "int option"
  lk_username :: "string option"
  lk_email :: "string option"

text \<open>The columns of a write; a field that is \<open>undefined\<close> is left out of the statement.\<close>

record user_fields =
  uf_name :: "string option"
  uf_username :: "string option"
  uf_email :: "string option"
  uf_imageUrl :: "string option"

definition no_fields :: user_fields where
  "no_fields = \<lparr>uf_name = None, uf_username = None, uf_email = None, uf_imageUrl = None\<rparr>"


section \<open>Configuration and state\<close>

text \<open>
  What the code uses of other packages: Joi's check of an e-mail address, bcrypt with a counter for its
  salts, the strength test of OWASP (whether a password is strong, and its complaints), hashes, random
  bytes, local days, and the driver's text of an error; and the options of the server.
\<close>

record account_config =
  cf_email_error :: "string \<Rightarrow> exn option"
  cf_hash :: "string \<Rightarrow> nat \<Rightarrow> string"
  cf_compare :: "string \<Rightarrow> string \<Rightarrow> bool"
  cf_owasp :: "string \<Rightarrow> bool \<times> string list"
  cf_sha256 :: "string \<Rightarrow> string"
  cf_random :: "nat \<Rightarrow> string"
  cf_next_day :: "int \<Rightarrow> int"
  cf_next_month :: "int \<Rightarrow> int"
  cf_show_time :: "int \<Rightarrow> string"
  cf_message :: "string \<Rightarrow> string"
  cf_unleashUrl :: string
  cf_baseUriPath :: string

text \<open>What an event says of a user: id, name, username, e-mail, root role.\<close>

type_synonym user_event_data = "int \<times> string option \<times> string option \<times> string option \<times> int"

text \<open>
  What a group is created with (\<open>IStoreGroup\<close>): an absent field is \<open>None\<close>; a root role of 0 is none. The events
  of groups list the members by their ids.
\<close>

record group_input =
  gi_name :: string
  gi_description :: "string option"
  gi_mappings :: "string list option"
  gi_rootRole :: "int option"

datatype account_event =
    UserCreated string int user_event_data \<comment> \<open>by, by user id, user\<close>
  | UserUpdated string int user_event_data user_event_data
  | UserDeleted string int user_event_data
  | PatCreated string int string int \<comment> \<open>by, by user id, description, expiry\<close>
  | PatDeleted string int string int
  | SignupTokenCreated string int string
  | SignupTokenUpdated string int string "int option" "bool option"
  | SignupTokenUserAdded string int string int
  | GroupCreated string int group_input "int list option"
  | GroupUpdated string int "group_row \<times> int list" "group_row \<times> int list" \<comment> \<open>data, preData\<close>
  | GroupDeleted string int "group_row \<times> int list"
  | GroupUserAdded string int int int \<comment> \<open>group, user\<close>
  | GroupUserRemoved string int int int

record accounts =
  aw_users :: "account_row list"
  aw_next_user :: int
  aw_sessions :: "session_row list"
  aw_resets :: "reset_row list"
  aw_pats :: "pat_row list"
  aw_next_pat :: int
  aw_signups :: "signup_row list"
  aw_signup_users :: "(string \<times> int) list"
  aw_access :: access_service
  aw_simple_auth_disabled :: bool
  aw_reset_timeouts :: "int list"
  aw_pats_seen :: "string list"
  aw_draws :: nat
  aw_mails :: "(string option \<times> string option \<times> string) list"
  aw_events :: "account_event list"

type_synonym 'a account_op = "(accounts, 'a) op"

definition draw :: "nat account_op" where
  "draw s = (Inr (aw_draws s), s\<lparr>aw_draws := Suc (aw_draws s)\<rparr>)"

definition account_unique_error :: "account_config \<Rightarrow> string \<Rightarrow> exn" where
  "account_unique_error cfg c = DbError UNIQUE_CONSTRAINT_VIOLATION (Some c) None (cf_message cfg c)"

definition account_fk_error :: "account_config \<Rightarrow> string \<Rightarrow> exn" where
  "account_fk_error cfg c = DbError FOREIGN_KEY_VIOLATION (Some c) None (cf_message cfg c)"

definition add_event :: "account_event \<Rightarrow> unit account_op" where
  "add_event e = modS (\<lambda>s. s\<lparr>aw_events := aw_events s @ [e]\<rparr>)"


section \<open>The tables access control shares\<close>

text \<open>
  The access service sees the users, the owners of personal tokens and the users of sign-up tokens
  through the RBAC state: the view is computed from the tables, and the rows whose owner the service
  has removed are dropped when it returns.
\<close>

definition access_row :: "account_row \<Rightarrow> user_row" where
  "access_row r = \<lparr>us_id = ur_id r, us_active = (ur_deleted_at r = None \<and> \<not> ur_is_system r),
     us_is_service = ur_is_service r\<rparr>"

definition access_view :: "accounts \<Rightarrow> access_service" where
  "access_view s = with_db (aw_access s) ((as_db (aw_access s))
     \<lparr>ac_users := map access_row (aw_users s), ac_personal_tokens := map pt_user (aw_pats s),
      ac_signup_users := map snd (aw_signup_users s)\<rparr>)"

text \<open>A deleted role takes its sign-up tokens with it, and they their users.\<close>

definition with_access :: "accounts \<Rightarrow> access_service \<Rightarrow> accounts" where
  "with_access s a =
     (let signups = filter (\<lambda>t. sg_role t \<in> ro_id ` set (ac_roles (as_db a))) (aw_signups s) in
      s\<lparr>aw_access := a, aw_signups := signups,
        aw_pats := filter (\<lambda>p. List.member (ac_personal_tokens (as_db a)) (pt_user p)) (aw_pats s),
        aw_signup_users := filter (\<lambda>u. List.member (ac_signup_users (as_db a)) (snd u) \<and>
          fst u \<in> sg_secret ` set signups) (aw_signup_users s)\<rparr>)"

definition ask_access :: "(access_service \<Rightarrow> exn + 'a) \<Rightarrow> 'a account_op" where
  "ask_access f = tryS (\<lambda>s. f (access_view s))"

definition on_access :: "(access_service \<Rightarrow> (exn + unit) \<times> access_service) \<Rightarrow> unit account_op" where
  "on_access f s = (case f (access_view s) of (r, a) \<Rightarrow> (r, with_access s a))"


section \<open>Users (\<open>types/user.ts\<close>)\<close>

definition emptify :: "string option \<Rightarrow> string option" where
  "emptify v = (if truthy v then v else None)"

definition safeToLower :: "string option \<Rightarrow> string option" where
  "safeToLower v = map_option to_lower v"

text \<open>\<open>indexOf('@')\<close> is falsy only where the identifier starts with an at sign.\<close>

definition generateImageUrl :: "account_config \<Rightarrow> string option \<Rightarrow> string option \<Rightarrow> int \<Rightarrow> string" where
  "generateImageUrl cfg email username i =
     (let ident = or_else email (or_else username (show_int i));
          ident' = (if starts_with ident ''@'' then trim ident else trim (to_lower ident))
      in ''https://gravatar.com/avatar/'' @ cf_sha256 cfg ident' @ ''?s=42&d=retro&r=g'')"

definition new_User :: "account_config \<Rightarrow> account_row \<Rightarrow> exn + user" where
  "new_User cfg r =
     (if ur_id r = 0 then Inl (JoiError ''Id is required'' [])
      else case (case emptify (ur_email r) of None \<Rightarrow> None | Some e \<Rightarrow> cf_email_error cfg e) of
        Some e \<Rightarrow> Inl e
      | None \<Rightarrow> Inr \<lparr>us_userId = ur_id r, us_name = emptify (ur_name r), us_username = emptify (ur_username r),
          us_email = emptify (ur_email r),
          us_imageUrl = or_else (emptify (ur_image_url r))
            (generateImageUrl cfg (emptify (ur_email r)) (emptify (ur_username r)) (ur_id r)),
          us_seenAt = ur_seen_at r, us_loginAttempts = Some (ur_login_attempts r), us_createdAt = Some (ur_created_at r),
          us_accountType = (if ur_is_service r then ''Service Account'' else ''User'')\<rparr>)"

definition rowToUser :: "account_config \<Rightarrow> account_row option \<Rightarrow> exn + user" where
  "rowToUser cfg row = (case row of None \<Rightarrow> Inl (Api (NotFoundError (Some ''No user found''))) | Some r \<Rightarrow> new_User cfg r)"

text \<open>Queries of the public columns know neither the login attempts nor the creation time.\<close>

definition public_user :: "user \<Rightarrow> user" where
  "public_user u = u\<lparr>us_loginAttempts := None, us_createdAt := None\<rparr>"


section \<open>The user store (\<open>user-store.ts\<close>)\<close>

definition activeAll :: "account_row \<Rightarrow> bool" where
  "activeAll r = (ur_deleted_at r = None)"

definition activeUsers :: "account_row \<Rightarrow> bool" where
  "activeUsers r = (ur_deleted_at r = None \<and> \<not> ur_is_service r \<and> \<not> ur_is_system r)"

definition lookup_error :: exn where
  "lookup_error = JsError ''Error'' ''Can only find users with id, username or email.''"

definition select_where :: "(account_row \<Rightarrow> bool) \<Rightarrow> user_lookup \<Rightarrow> exn + (account_row \<Rightarrow> bool)" where
  "select_where act q =
     (if num_or (lk_id q) 0 \<noteq> 0 then Inr (\<lambda>r. act r \<and> Some (ur_id r) = lk_id q)
      else if truthy (lk_email q) then Inr (\<lambda>r. act r \<and> ur_email r = safeToLower (lk_email q))
      else if truthy (lk_username q) then Inr (\<lambda>r. act r \<and> ur_username r = lk_username q)
      else Inl lookup_error)"

definition buildSelectUser :: "user_lookup \<Rightarrow> exn + (account_row \<Rightarrow> bool)" where
  "buildSelectUser q = select_where activeAll q"

definition hasUser :: "user_lookup \<Rightarrow> accounts \<Rightarrow> exn + int option" where
  "hasUser q s = bindR (buildSelectUser q) (\<lambda>p. Inr (map_option ur_id (find p (aw_users s))))"

definition users_get :: "account_config \<Rightarrow> int \<Rightarrow> accounts \<Rightarrow> exn + user" where
  "users_get cfg i s = rowToUser cfg (find (\<lambda>r. activeUsers r \<and> ur_id r = i) (aw_users s))"

definition users_getAll :: "account_config \<Rightarrow> accounts \<Rightarrow> exn + user list" where
  "users_getAll cfg s = mapR (new_User cfg) (filter activeUsers (aw_users s))"

definition getByQuery :: "account_config \<Rightarrow> user_lookup \<Rightarrow> accounts \<Rightarrow> exn + user" where
  "getByQuery cfg q s = bindR (buildSelectUser q) (\<lambda>p. rowToUser cfg (find p (aw_users s)))"

definition users_getAllWithId :: "account_config \<Rightarrow> int list \<Rightarrow> accounts \<Rightarrow> exn + user list" where
  "users_getAllWithId cfg ids s = bindR (mapR (new_User cfg)
     (filter (\<lambda>r. activeUsers r \<and> List.member ids (ur_id r)) (aw_users s))) (\<lambda>us. Inr (map public_user us))"

text \<open>\<open>ILIKE\<close>: a percent sign is any text, an underscore any character, a backslash quotes; without case.\<close>

fun like :: "string \<Rightarrow> string \<Rightarrow> bool" where
  "like [] s = (s = [])"
| "like (c # p) [] = (c = CHR ''%'' \<and> like p [])"
| "like (c # p) (x # s) =
     (if c = CHR ''%'' then like p (x # s) \<or> like (c # p) s
      else if c = CHR ''_'' then like p s
      else if c = CHR 0x5C then (case p of [] \<Rightarrow> False | d # p' \<Rightarrow> d = x \<and> like p' s)
      else c = x \<and> like p s)"

definition ilike :: "string option \<Rightarrow> string \<Rightarrow> bool" where
  "ilike v pat = (case v of None \<Rightarrow> False | Some x \<Rightarrow> like (to_lower pat) (to_lower x))"

text \<open>The conditions of a search: AND binds tighter than OR.\<close>

definition search_where :: "(account_row \<Rightarrow> bool) \<Rightarrow> string \<Rightarrow> account_row \<Rightarrow> bool" where
  "search_where act q r = (act r \<and> ilike (ur_name r) (''%'' @ q @ ''%'') \<or>
     ilike (ur_username r) (q @ ''%'') \<or> ilike (ur_email r) (q @ ''%''))"

definition users_search :: "account_config \<Rightarrow> string \<Rightarrow> accounts \<Rightarrow> exn + user list" where
  "users_search cfg q s = bindR (mapR (new_User cfg) (filter (search_where activeUsers q) (aw_users s)))
     (\<lambda>us. Inr (map public_user us))"

definition getPasswordHash :: "int \<Rightarrow> accounts \<Rightarrow> exn + string option" where
  "getPasswordHash i s = (case find (\<lambda>r. activeUsers r \<and> ur_id r = i) (aw_users s) of
       None \<Rightarrow> Inl (Api (NotFoundError (Some ''User not found''))) | Some r \<Rightarrow> Inr (ur_password_hash r))"

definition users_count :: "accounts \<Rightarrow> nat" where
  "users_count s = length (filter activeUsers (aw_users s))"

definition countServiceAccounts :: "accounts \<Rightarrow> nat" where
  "countServiceAccounts s = length (filter (\<lambda>r. activeAll r \<and> ur_is_service r) (aw_users s))"

text \<open>\<open>deleted_at = null\<close>: a comparison with null is never true.\<close>

definition equals_null :: "int option \<Rightarrow> bool" where
  "equals_null v = False"

definition users_exists :: "int \<Rightarrow> accounts \<Rightarrow> bool" where
  "users_exists i s = list_ex (\<lambda>r. ur_id r = i \<and> equals_null (ur_deleted_at r)) (aw_users s)"


section \<open>Writes to users\<close>

definition map_users :: "(account_row \<Rightarrow> bool) \<Rightarrow> (account_row \<Rightarrow> account_row) \<Rightarrow> accounts \<Rightarrow> accounts" where
  "map_users p f s = s\<lparr>aw_users := map (\<lambda>r. if p r then f r else r) (aw_users s)\<rparr>"

definition mapUserToColumns :: "user_fields \<Rightarrow> user_fields" where
  "mapUserToColumns f = f\<lparr>uf_email := safeToLower (uf_email f)\<rparr>"

definition write_fields :: "user_fields \<Rightarrow> account_row \<Rightarrow> account_row" where
  "write_fields f r = r\<lparr>ur_name := (if uf_name f = None then ur_name r else uf_name f),
     ur_username := (if uf_username f = None then ur_username r else uf_username f),
     ur_email := (if uf_email f = None then ur_email r else uf_email f),
     ur_image_url := (if uf_imageUrl f = None then ur_image_url r else uf_imageUrl f)\<rparr>"

text \<open>The unique columns: nulls never collide.\<close>

definition distinct_column :: "(account_row \<Rightarrow> string option) \<Rightarrow> account_row list \<Rightarrow> bool" where
  "distinct_column f rows = distinct (List.map_filter f rows)"

definition check_unique :: "account_config \<Rightarrow> account_row list \<Rightarrow> exn + unit" where
  "check_unique cfg rows =
     (if \<not> distinct_column ur_username rows then Inl (account_unique_error cfg ''users_username_key'')
      else if \<not> distinct_column ur_email rows then Inl (account_unique_error cfg ''users_email_key'')
      else Inr ())"

definition checked_users :: "account_config \<Rightarrow> (accounts \<Rightarrow> accounts) \<Rightarrow> unit account_op" where
  "checked_users cfg f s = (let s' = f s in
     case check_unique cfg (aw_users s') of Inl e \<Rightarrow> (Inl e, s) | Inr _ \<Rightarrow> (Inr (), s'))"

definition users_update :: "account_config \<Rightarrow> int \<Rightarrow> user_fields \<Rightarrow> user account_op" where
  "users_update cfg i f =
     (let cols = mapUserToColumns f in
      thenS (guardS (cols = no_fields) (JsError ''Error'' (cf_message cfg ''empty update'')))
      (thenS (checked_users cfg (map_users (\<lambda>r. activeUsers r \<and> ur_id r = i) (write_fields cols)))
      (tryS (users_get cfg i))))"

definition inserted_row :: "int \<Rightarrow> user_fields \<Rightarrow> int \<Rightarrow> account_row" where
  "inserted_row now f i = write_fields (mapUserToColumns f)
     \<lparr>ur_id = i, ur_name = None, ur_username = None, ur_email = None, ur_image_url = None,
      ur_password_hash = None, ur_login_attempts = 0, ur_created_at = now, ur_seen_at = None,
      ur_deleted_at = None, ur_is_service = False, ur_is_system = False\<rparr>"

text \<open>The number of the sequence is used up even where the row is refused.\<close>

definition users_insert :: "account_config \<Rightarrow> int \<Rightarrow> user_fields \<Rightarrow> user account_op" where
  "users_insert cfg now f =
     bindS (askS aw_next_user) (\<lambda>i.
      thenS (modS (\<lambda>s. s\<lparr>aw_next_user := i + 1\<rparr>))
     (thenS (checked_users cfg (\<lambda>s. s\<lparr>aw_users := aw_users s @ [inserted_row now f i]\<rparr>))
      (tryS (\<lambda>s. new_User cfg (inserted_row now f i)))))"

definition users_upsert :: "account_config \<Rightarrow> int \<Rightarrow> user_fields \<Rightarrow> user account_op" where
  "users_upsert cfg now f =
     bindS (tryS (hasUser \<lparr>lk_id = None, lk_username = uf_username f, lk_email = uf_email f\<rparr>)) (\<lambda>i.
     if num_or i 0 \<noteq> 0 then users_update cfg (the i) f else users_insert cfg now f)"

definition delete_user_row :: "int \<Rightarrow> account_row \<Rightarrow> account_row" where
  "delete_user_row now r = r\<lparr>ur_deleted_at := Some now, ur_email := None, ur_username := None,
     ur_name := map_option (\<lambda>n. n @ ''(Deleted)'') (ur_name r)\<rparr>"

definition users_delete :: "int \<Rightarrow> int \<Rightarrow> unit account_op" where
  "users_delete now i = modS (map_users (\<lambda>r. activeUsers r \<and> ur_id r = i) (delete_user_row now))"

definition setPasswordHash :: "int \<Rightarrow> string \<Rightarrow> unit account_op" where
  "setPasswordHash i h =
     modS (map_users (\<lambda>r. activeUsers r \<and> ur_id r = i) (\<lambda>r. r\<lparr>ur_password_hash := Some h\<rparr>))"

definition user_lookup_of :: "user \<Rightarrow> user_lookup" where
  "user_lookup_of u = \<lparr>lk_id = Some (us_userId u), lk_username = us_username u, lk_email = us_email u\<rparr>"

definition incLoginAttempts :: "user \<Rightarrow> unit account_op" where
  "incLoginAttempts u = bindS (tryS (\<lambda>_. buildSelectUser (user_lookup_of u)))
     (\<lambda>p. modS (map_users p (\<lambda>r. r\<lparr>ur_login_attempts := ur_login_attempts r + 1\<rparr>)))"

definition successfullyLogin :: "int \<Rightarrow> user \<Rightarrow> unit account_op" where
  "successfullyLogin now u = bindS (tryS (\<lambda>_. buildSelectUser (user_lookup_of u)))
     (\<lambda>p. modS (map_users p (\<lambda>r. r\<lparr>ur_login_attempts := 0, ur_seen_at := Some now\<rparr>)))"

end
