(* ===== verification/Credentials.thy ===== *)
theory Credentials
  imports Users
begin

text \<open>
  The account store, and the stores of sessions, reset tokens, personal access tokens and sign-up tokens
  (\<open>account-store.ts\<close>, \<open>session-store.ts\<close>, \<open>reset-token-store.ts\<close>, \<open>pat-store.ts\<close>,
  \<open>public-signup-token-store.ts\<close>), with the small services over them (\<open>session-service.ts\<close>,
  \<open>reset-token-service.ts\<close>, \<open>pat-service.ts\<close>, \<open>account-service.ts\<close>) and the middleware for personal
  access tokens (\<open>pat-middleware.ts\<close>).
\<close>

section \<open>Accounts (\<open>account-store.ts\<close>)\<close>

text \<open>Accounts are users and service accounts.\<close>

definition activeAccounts :: "account_row \<Rightarrow> bool" where
  "activeAccounts r = (ur_deleted_at r = None \<and> \<not> ur_is_system r)"

definition hasAccount :: "user_lookup \<Rightarrow> accounts \<Rightarrow> exn + int option" where
  "hasAccount q s = bindR (select_where activeAccounts q) (\<lambda>p. Inr (map_option ur_id (find p (aw_users s))))"

definition accounts_getAll :: "account_config \<Rightarrow> accounts \<Rightarrow> exn + user list" where
  "accounts_getAll cfg s = mapR (new_User cfg) (filter activeAccounts (aw_users s))"

definition accounts_search :: "account_config \<Rightarrow> string \<Rightarrow> accounts \<Rightarrow> exn + user list" where
  "accounts_search cfg q s = bindR (mapR (new_User cfg) (filter (search_where activeAccounts q) (aw_users s)))
     (\<lambda>us. Inr (map public_user us))"

definition accounts_getAllWithId :: "account_config \<Rightarrow> int list \<Rightarrow> accounts \<Rightarrow> exn + user list" where
  "accounts_getAllWithId cfg ids s = bindR (mapR (new_User cfg)
     (filter (\<lambda>r. activeAccounts r \<and> List.member ids (ur_id r)) (aw_users s))) (\<lambda>us. Inr (map public_user us))"

definition accounts_getByQuery :: "account_config \<Rightarrow> user_lookup \<Rightarrow> accounts \<Rightarrow> exn + user" where
  "accounts_getByQuery cfg q s =
     bindR (select_where activeAccounts q) (\<lambda>p. rowToUser cfg (find p (aw_users s)))"

definition accounts_delete :: "int \<Rightarrow> int \<Rightarrow> unit account_op" where
  "accounts_delete now i = modS (map_users (\<lambda>r. activeAccounts r \<and> ur_id r = i) (delete_user_row now))"

definition accounts_count :: "accounts \<Rightarrow> nat" where
  "accounts_count s = length (filter activeAccounts (aw_users s))"

definition accounts_get :: "account_config \<Rightarrow> int \<Rightarrow> accounts \<Rightarrow> exn + user" where
  "accounts_get cfg i s = rowToUser cfg (find (\<lambda>r. activeAccounts r \<and> ur_id r = i) (aw_users s))"

definition store_getAccountByPersonalAccessToken :: "account_config \<Rightarrow> int \<Rightarrow> string \<Rightarrow> accounts \<Rightarrow> exn + user" where
  "store_getAccountByPersonalAccessToken cfg now secret s =
     rowToUser cfg (find (\<lambda>r. activeAccounts r \<and>
       list_ex (\<lambda>p. pt_user p = ur_id r \<and> pt_secret p = secret \<and> now < pt_expires_at p) (aw_pats s)) (aw_users s))"

definition pats_markSeenAt :: "int \<Rightarrow> string list \<Rightarrow> unit account_op" where
  "pats_markSeenAt now secrets = modS (\<lambda>s. s\<lparr>aw_pats :=
     map (\<lambda>p. if List.member secrets (pt_secret p) then p\<lparr>pt_seen_at := Some now\<rparr> else p) (aw_pats s)\<rparr>)"

record admin_count =
  am_password :: nat
  am_noPassword :: nat
  am_service :: nat

text \<open>An inner join: a user counts once for every row of the role Admin.\<close>

definition getAdminCount :: "accounts \<Rightarrow> admin_count" where
  "getAdminCount s =
     (let rows = [r. r \<leftarrow> filter activeAccounts (aw_users s), ru \<leftarrow> ac_role_user (as_db (aw_access s)),
                    ru_user ru = ur_id r \<and> Some (ru_role ru) = map_option ro_id (getRoleByName (as_db (aw_access s)) ''Admin'')]
      in \<lparr>am_password = length (filter (\<lambda>r. ur_password_hash r \<noteq> None \<and> \<not> ur_is_service r) rows),
          am_noPassword = length (filter (\<lambda>r. ur_password_hash r = None \<and> \<not> ur_is_service r) rows),
          am_service = length (filter ur_is_service rows)\<rparr>)"


section \<open>Sessions (\<open>session-store.ts\<close>, \<open>session-service.ts\<close>)\<close>

text \<open>\<open>ORDER BY created_at DESC\<close>.\<close>

definition getActiveSessions :: "int \<Rightarrow> accounts \<Rightarrow> session_row list" where
  "getActiveSessions now s = sort_key (\<lambda>r. - se_created_at r)
     (filter (\<lambda>r. case se_expired r of None \<Rightarrow> True | Some e \<Rightarrow> now < e) (aw_sessions s))"

definition getSessionsForUser :: "int \<Rightarrow> accounts \<Rightarrow> exn + session_row list" where
  "getSessionsForUser i s = (let rows = filter (\<lambda>r. se_user r = Some i) (aw_sessions s) in
     if rows \<noteq> [] then Inr rows
     else Inl (Api (NotFoundError (Some (''Could not find sessions for user with id '' @ show_int i)))))"

definition sessions_get :: "string \<Rightarrow> accounts \<Rightarrow> exn + session_row" where
  "sessions_get sid s = (case find (\<lambda>r. se_sid r = sid) (aw_sessions s) of
       None \<Rightarrow> Inl (Api (NotFoundError (Some (''Could not find session with sid '' @ sid)))) | Some r \<Rightarrow> Inr r)"

definition deleteSessionsForUser :: "int \<Rightarrow> unit account_op" where
  "deleteSessionsForUser i = modS (\<lambda>s. s\<lparr>aw_sessions := filter (\<lambda>r. se_user r \<noteq> Some i) (aw_sessions s)\<rparr>)"

definition sessions_delete :: "string \<Rightarrow> unit account_op" where
  "sessions_delete sid = modS (\<lambda>s. s\<lparr>aw_sessions := filter (\<lambda>r. se_sid r \<noteq> sid) (aw_sessions s)\<rparr>)"

definition sessions_exists :: "string \<Rightarrow> accounts \<Rightarrow> bool" where
  "sessions_exists sid s = list_ex (\<lambda>r. se_sid r = sid) (aw_sessions s)"

definition sessions_deleteAll :: "unit account_op" where
  "sessions_deleteAll = modS (\<lambda>s. s\<lparr>aw_sessions := []\<rparr>)"

text \<open>
  The answer is made of the list of inserted rows instead of its first row, so all its fields are
  undefined.
\<close>

record session_answer =
  sa_sid :: "string option"
  sa_user :: "int option"
  sa_created_at :: "int option"
  sa_expired :: "int option"

definition insertSession ::
  "account_config \<Rightarrow> int \<Rightarrow> string \<Rightarrow> int option \<Rightarrow> int option \<Rightarrow> session_answer account_op" where
  "insertSession cfg now sid i expired =
     bindS (askS (sessions_exists sid)) (\<lambda>taken.
     thenS (guardS taken (account_unique_error cfg ''unleash_session_pkey''))
     (thenS (modS (\<lambda>s. s\<lparr>aw_sessions := aw_sessions s @ [\<lparr>se_sid = sid, se_user = i, se_created_at = now,
          se_expired = (if expired = None then Some (cf_next_day cfg now) else expired)\<rparr>]\<rparr>))
     (returnS \<lparr>sa_sid = None, sa_user = None, sa_created_at = None, sa_expired = None\<rparr>)))"


section \<open>Reset tokens (\<open>reset-token-store.ts\<close>)\<close>

definition resets_getActive :: "int \<Rightarrow> string \<Rightarrow> accounts \<Rightarrow> exn + reset_row" where
  "resets_getActive now token s = (case find (\<lambda>r. rk_token r = token \<and> now < rk_expires_at r) (aw_resets s) of
       None \<Rightarrow> Inl (Api (NotFoundError (Some ''Could not find an active token''))) | Some r \<Rightarrow> Inr r)"

definition getActiveTokens :: "int \<Rightarrow> accounts \<Rightarrow> reset_row list" where
  "getActiveTokens now s = filter (\<lambda>r. rk_used_at r = None \<and> now < rk_expires_at r) (aw_resets s)"

definition resets_insert :: "account_config \<Rightarrow> int \<Rightarrow> string \<Rightarrow> int \<Rightarrow> int \<Rightarrow> string option \<Rightarrow> reset_row account_op" where
  "resets_insert cfg now token i expires createdBy =
     (let r = \<lparr>rk_token = token, rk_user = i, rk_expires_at = expires, rk_created_at = now,
               rk_created_by = createdBy, rk_used_at = None\<rparr> in
      bindS (askS id) (\<lambda>s.
      thenS (guardS (token \<in> rk_token ` set (aw_resets s)) (account_unique_error cfg ''reset_tokens_pkey''))
      (thenS (guardS (i \<notin> ur_id ` set (aw_users s)) (account_fk_error cfg ''reset_tokens_user_id_fkey''))
      (thenS (modS (\<lambda>s. s\<lparr>aw_resets := aw_resets s @ [r]\<rparr>)) (returnS r)))))"

text \<open>Nothing in the statement asks whether the token has been used.\<close>

definition useToken :: "int \<Rightarrow> int \<Rightarrow> string \<Rightarrow> bool account_op" where
  "useToken now i token = thenS (modS (\<lambda>s. s\<lparr>aw_resets := map (\<lambda>r.
       if rk_token r = token \<and> rk_user r = i then r\<lparr>rk_used_at := Some now\<rparr> else r) (aw_resets s)\<rparr>)) (returnS True)"

definition resets_deleteAll :: "unit account_op" where
  "resets_deleteAll = modS (\<lambda>s. s\<lparr>aw_resets := []\<rparr>)"

definition deleteExpired :: "int \<Rightarrow> unit account_op" where
  "deleteExpired now = modS (\<lambda>s. s\<lparr>aw_resets := filter (\<lambda>r. \<not> rk_expires_at r < now) (aw_resets s)\<rparr>)"

definition expireExistingTokensForUser :: "int \<Rightarrow> int \<Rightarrow> unit account_op" where
  "expireExistingTokensForUser now i = modS (\<lambda>s. s\<lparr>aw_resets :=
     map (\<lambda>r. if rk_user r = i then r\<lparr>rk_expires_at := now\<rparr> else r) (aw_resets s)\<rparr>)"

definition resets_delete :: "string \<Rightarrow> unit account_op" where
  "resets_delete token = modS (\<lambda>s. s\<lparr>aw_resets := filter (\<lambda>r. rk_token r \<noteq> token) (aw_resets s)\<rparr>)"

definition resets_exists :: "string \<Rightarrow> accounts \<Rightarrow> bool" where
  "resets_exists token s = list_ex (\<lambda>r. rk_token r = token) (aw_resets s)"


section \<open>Reset tokens: the service (\<open>reset-token-service.ts\<close>)\<close>

definition isValid :: "account_config \<Rightarrow> int \<Rightarrow> string \<Rightarrow> accounts \<Rightarrow> exn + reset_row" where
  "isValid cfg now token s = (case resets_getActive now token s of
       Inl _ \<Rightarrow> Inl (Api InvalidTokenError)
     | Inr t \<Rightarrow> (case rk_used_at t of
           None \<Rightarrow> Inr t | Some usedAt \<Rightarrow> Inl (Api (UsedTokenError (cf_show_time cfg usedAt)))))"

definition useAccessToken :: "account_config \<Rightarrow> int \<Rightarrow> int \<Rightarrow> string \<Rightarrow> bool account_op" where
  "useAccessToken cfg now i token =
     orElseS (thenS (tryS (isValid cfg now token)) (thenS (useToken now i token) (returnS True))) (\<lambda>_. returnS False)"

definition reset_url :: "account_config \<Rightarrow> string \<Rightarrow> string \<Rightarrow> string" where
  "reset_url cfg path token = cf_unleashUrl cfg @ path @ ''?token='' @ token"

text \<open>The links by user; a later token of a user takes the place of an earlier one.\<close>

definition getActiveInvitations :: "account_config \<Rightarrow> int \<Rightarrow> accounts \<Rightarrow> int \<Rightarrow> string option" where
  "getActiveInvitations cfg now s =
     foldl (\<lambda>acc t. acc(rk_user t \<mapsto> reset_url cfg ''/new-user'' (rk_token t))) Map.empty (getActiveTokens now s)"

definition RESET_EXPIRY :: int where
  "RESET_EXPIRY = 24 * 60 * 60 * 1000"

definition createToken :: "account_config \<Rightarrow> int \<Rightarrow> int \<Rightarrow> string option \<Rightarrow> int \<Rightarrow> reset_row account_op" where
  "createToken cfg now i creator expiryDelta =
     bindS draw (\<lambda>k. thenS (expireExistingTokensForUser now i)
       (resets_insert cfg now (cf_hash cfg (cf_random cfg k) k) i (now + expiryDelta) creator))"

definition createResetUrl :: "account_config \<Rightarrow> int \<Rightarrow> int \<Rightarrow> string option \<Rightarrow> string \<Rightarrow> string account_op" where
  "createResetUrl cfg now i creator path =
     bindS (createToken cfg now i creator RESET_EXPIRY) (\<lambda>t. returnS (reset_url cfg path (rk_token t)))"

definition createResetPasswordUrl :: "account_config \<Rightarrow> int \<Rightarrow> int \<Rightarrow> string option \<Rightarrow> string account_op" where
  "createResetPasswordUrl cfg now i creator = createResetUrl cfg now i creator ''/reset-password''"

definition createNewUserUrl :: "account_config \<Rightarrow> int \<Rightarrow> int \<Rightarrow> string option \<Rightarrow> string account_op" where
  "createNewUserUrl cfg now i creator = createResetUrl cfg now i creator ''/new-user''"


section \<open>Personal access tokens (\<open>pat-store.ts\<close>, \<open>pat-service.ts\<close>, \<open>pat-middleware.ts\<close>)\<close>

definition pats_create :: "account_config \<Rightarrow> int \<Rightarrow> string \<Rightarrow> int \<Rightarrow> string \<Rightarrow> int \<Rightarrow> pat_row account_op" where
  "pats_create cfg now description expires secret i =
     bindS (askS id) (\<lambda>s0.
     let r = \<lparr>pt_id = aw_next_pat s0, pt_secret = secret, pt_description = description, pt_user = i,
              pt_expires_at = expires, pt_created_at = now, pt_seen_at = None\<rparr> in
     thenS (modS (\<lambda>s. s\<lparr>aw_next_pat := aw_next_pat s + 1\<rparr>))
     (thenS (guardS (i \<notin> ur_id ` set (aw_users s0)) (account_fk_error cfg ''personal_access_tokens_user_id_fkey''))
     (thenS (modS (\<lambda>s. s\<lparr>aw_pats := aw_pats s @ [r]\<rparr>)) (returnS r))))"

definition pats_delete :: "int \<Rightarrow> unit account_op" where
  "pats_delete i = modS (\<lambda>s. s\<lparr>aw_pats := filter (\<lambda>p. pt_id p \<noteq> i) (aw_pats s)\<rparr>)"

definition deleteForUser :: "int \<Rightarrow> int \<Rightarrow> unit account_op" where
  "deleteForUser i u = modS (\<lambda>s. s\<lparr>aw_pats := filter (\<lambda>p. \<not> (pt_id p = i \<and> pt_user p = u)) (aw_pats s)\<rparr>)"

definition pats_deleteAll :: "unit account_op" where
  "pats_deleteAll = modS (\<lambda>s. s\<lparr>aw_pats := []\<rparr>)"

definition pats_exists :: "int \<Rightarrow> accounts \<Rightarrow> bool" where
  "pats_exists i s = list_ex (\<lambda>p. pt_id p = i) (aw_pats s)"

definition existsWithDescriptionByUser :: "string \<Rightarrow> int \<Rightarrow> accounts \<Rightarrow> bool" where
  "existsWithDescriptionByUser d u s = list_ex (\<lambda>p. pt_description p = d \<and> pt_user p = u) (aw_pats s)"

definition countByUser :: "int \<Rightarrow> accounts \<Rightarrow> nat" where
  "countByUser u s = length (filter (\<lambda>p. pt_user p = u) (aw_pats s))"

definition pats_get :: "int \<Rightarrow> accounts \<Rightarrow> exn + pat_row" where
  "pats_get i s = (case find (\<lambda>p. pt_id p = i) (aw_pats s) of
       None \<Rightarrow> Inl (Api (NotFoundError (Some ''No PAT found.''))) | Some p \<Rightarrow> Inr p)"

definition getAllByUser :: "int \<Rightarrow> accounts \<Rightarrow> pat_row list" where
  "getAllByUser u s = filter (\<lambda>p. pt_user p = u) (aw_pats s)"

definition PAT_LIMIT :: nat where
  "PAT_LIMIT = 10"

definition validatePat :: "int \<Rightarrow> string \<Rightarrow> int \<Rightarrow> int \<Rightarrow> accounts \<Rightarrow> exn + unit" where
  "validatePat now description expiresAt u s =
     (if description = [] then Inl (Api (BadDataError ''PAT description cannot be empty.''))
      else if expiresAt < now then Inl (Api (BadDataError ''The expiry date should be in future.''))
      else if PAT_LIMIT \<le> countByUser u s
      then Inl (Api (OperationDeniedError (''Too many PATs ('' @ show_nat PAT_LIMIT @ '') already exist for this user.'')))
      else throw_if (existsWithDescriptionByUser description u s) (Api (NameExistsError ''PAT description already exists.'')))"

definition createPat ::
  "account_config \<Rightarrow> int \<Rightarrow> string \<Rightarrow> int \<Rightarrow> int \<Rightarrow> user_info option \<Rightarrow> pat_row account_op" where
  "createPat cfg now description expiresAt u byUser =
     thenS (tryS (validatePat now description expiresAt u))
     (bindS draw (\<lambda>k. bindS (pats_create cfg now description expiresAt (''user:'' @ cf_random cfg k) u) (\<lambda>p.
       thenS (add_event (PatCreated (extractUsernameFromUser byUser) (extractUserIdFromUser byUser) description expiresAt))
       (returnS p))))"

text \<open>The event is stored before the deletion, which only deletes a token of that user.\<close>

definition deletePat :: "int \<Rightarrow> int \<Rightarrow> user_info option \<Rightarrow> unit account_op" where
  "deletePat i u byUser =
     bindS (tryS (pats_get i)) (\<lambda>p.
     thenS (add_event (PatDeleted (extractUsernameFromUser byUser) (extractUserIdFromUser byUser)
              (pt_description p) (pt_expires_at p)))
     (deleteForUser i u))"

definition addPATSeen :: "string \<Rightarrow> unit account_op" where
  "addPATSeen secret = modS (\<lambda>s. s\<lparr>aw_pats_seen :=
     (if List.member (aw_pats_seen s) secret then aw_pats_seen s else aw_pats_seen s @ [secret])\<rparr>)"

definition pats_updateLastSeen :: "int \<Rightarrow> unit account_op" where
  "pats_updateLastSeen now = bindS (askS aw_pats_seen) (\<lambda>secrets.
     whenS (secrets \<noteq> []) (thenS (modS (\<lambda>s. s\<lparr>aw_pats_seen := []\<rparr>)) (pats_markSeenAt now secrets)))"

text \<open>The middleware sets the user of the request, or leaves it; it never refuses.\<close>

definition patMiddleware :: "account_config \<Rightarrow> int \<Rightarrow> string option \<Rightarrow> user option account_op" where
  "patMiddleware cfg now authorization = (case authorization of
       Some secret \<Rightarrow>
         if starts_with secret ''user:''
         then orElseS (bindS (tryS (store_getAccountByPersonalAccessToken cfg now secret)) (\<lambda>u.
                thenS (addPATSeen secret) (returnS (Some u)))) (\<lambda>_. returnS None)
         else returnS None
     | None \<Rightarrow> returnS None)"

text \<open>All accounts with their root role, Viewer where they have none.\<close>

definition with_root_roles :: "user list \<Rightarrow> accounts \<Rightarrow> exn + (user \<times> int) list" where
  "with_root_roles users s =
     bindR (getPredefinedRole ''Viewer'' (access_view s)) (\<lambda>defaultRole.
     Inr (map (\<lambda>u. (u, case find (\<lambda>r. snd r = us_userId u) (getRootRoleForAllUsers (as_db (access_view s))) of
         None \<Rightarrow> ro_id defaultRole | Some r \<Rightarrow> fst r)) users))"

definition accountService_getAll :: "account_config \<Rightarrow> accounts \<Rightarrow> exn + (user \<times> int) list" where
  "accountService_getAll cfg s = bindR (accounts_getAll cfg s) (\<lambda>us. with_root_roles us s)"

end
