(* ===== verification/UserService.thy ===== *)
theory UserService
  imports Credentials
begin

text \<open>
  The user service (\<open>services/user-service.ts\<close>): creation, change and deletion of users, logins, and
  passwords with their reset tokens; the service of public sign-up tokens
  (\<open>services/public-signup-token-service.ts\<close>, \<open>db/public-signup-token-store.ts\<close>); and the handlers of
  the routes that log in, sign up and change a password. An operation runs at one time \<open>now\<close>, statement
  by statement, and keeps what it has written when it throws.
\<close>

section \<open>E-mail addresses (\<open>util/is-email.ts\<close>)\<close>

definition is_letter :: "char \<Rightarrow> bool" where
  "is_letter c = (let n = (of_char c :: nat) in (65 \<le> n \<and> n \<le> 90) \<or> (97 \<le> n \<and> n \<le> 122))"

text \<open>The class \<open>[A-Z0-9.!#$%&'*+-/=?^_{|}~]\<close>; the plus sign opens a range to the slash.\<close>

definition email_char :: "char \<Rightarrow> bool" where
  \<open>email_char c = (is_letter c \<or> is_digit c \<or> List.member ''.!#$%&'*+,-/=?^_{|}~'' c)\<close>

text \<open>What follows the at sign: an alphanumeric, the class, a dot and two letters at least.\<close>

definition email_domain :: "string \<Rightarrow> bool" where
  "email_domain s = (case s of
       [] \<Rightarrow> False
     | c # rest \<Rightarrow> (is_letter c \<or> is_digit c) \<and>
         list_ex (\<lambda>i. rest ! i = CHR ''.'' \<and> list_all email_char (take i rest) \<and>
           2 \<le> length (drop (Suc i) rest) \<and> list_all is_letter (drop (Suc i) rest)) [0..<length rest])"

text \<open>The match may start anywhere: some character of the class, an at sign, a domain up to the end.\<close>

definition isEmail :: "string \<Rightarrow> bool" where
  "isEmail v = (length v \<le> 500 \<and>
     list_ex (\<lambda>i. 0 < i \<and> email_char (v ! (i - 1)) \<and> v ! i = CHR ''@'' \<and> email_domain (drop (Suc i) v)) [0..<length v])"


section \<open>Reading users\<close>

definition validatePassword :: "account_config \<Rightarrow> string \<Rightarrow> exn + unit" where
  "validatePassword cfg password =
     (if password = [] then Inl (Api PasswordUndefinedError)
      else throw_if (\<not> fst (cf_owasp cfg password)) (Api (OwaspValidationError (snd (cf_owasp cfg password)))))"

definition userService_getAll :: "account_config \<Rightarrow> accounts \<Rightarrow> exn + (user \<times> int) list" where
  "userService_getAll cfg s = bindR (users_getAll cfg s) (\<lambda>us. with_root_roles us s)"

definition getUser :: "account_config \<Rightarrow> int \<Rightarrow> accounts \<Rightarrow> exn + (user \<times> int)" where
  "getUser cfg i s = bindR (users_get cfg i s) (\<lambda>u.
     bindR (getRootRoleForUser i (access_view s)) (\<lambda>r. Inr (u, ro_id r)))"

definition by_email :: "string \<Rightarrow> user_lookup" where
  "by_email e = \<lparr>lk_id = None, lk_username = None, lk_email = Some e\<rparr>"

definition by_username :: "string \<Rightarrow> user_lookup" where
  "by_username n = \<lparr>lk_id = None, lk_username = Some n, lk_email = None\<rparr>"

definition getByEmail :: "account_config \<Rightarrow> string \<Rightarrow> accounts \<Rightarrow> exn + user" where
  "getByEmail cfg e = getByQuery cfg (by_email e)"

text \<open>Who did it: the name in the event of a change.\<close>

definition getCreatedBy :: "user_info option \<Rightarrow> string" where
  "getCreatedBy updatedBy = (case updatedBy of
       None \<Rightarrow> SYSTEM_USER_username
     | Some u \<Rightarrow> default SYSTEM_USER_username (if truthy (ui_username u) then ui_username u else ui_email u))"

definition event_data :: "user \<times> int \<Rightarrow> user_event_data" where
  "event_data ur = (us_userId (fst ur), us_name (fst ur), us_username (fst ur), us_email (fst ur), snd ur)"

definition email_ok :: "account_config \<Rightarrow> string option \<Rightarrow> exn + unit" where
  "email_ok cfg e = (if truthy e then (case cf_email_error cfg (the e) of None \<Rightarrow> Inr () | Some err \<Rightarrow> Inl err) else Inr ())"


section \<open>Creating, changing and deleting users\<close>

record new_user =
  nu_username :: "string option"
  nu_email :: "string option"
  nu_name :: "string option"
  nu_password :: "string option"
  nu_rootRole :: role_key

definition hash_password :: "account_config \<Rightarrow> string \<Rightarrow> string account_op" where
  "hash_password cfg password = bindS draw (\<lambda>k. returnS (cf_hash cfg password k))"

text \<open>
  An e-mail address hides the user name from the check for an existing user; and the user stays when
  its root role cannot be set.
\<close>

definition createUser ::
  "account_config \<Rightarrow> int \<Rightarrow> new_user \<Rightarrow> user_info option \<Rightarrow> (user \<times> int) account_op" where
  "createUser cfg now d updatedBy =
     thenS (guardS (\<not> truthy (nu_username d) \<and> \<not> truthy (nu_email d))
              (Api (BadDataError ''You must specify username or email'')))
     (thenS (tryS (\<lambda>_. email_ok cfg (nu_email d)))
     (bindS (tryS (hasUser \<lparr>lk_id = None, lk_username = nu_username d, lk_email = nu_email d\<rparr>)) (\<lambda>found.
      thenS (guardS (num_or found 0 \<noteq> 0) (Api (BadDataError ''User already exists'')))
     (bindS (users_insert cfg now \<lparr>uf_name = nu_name d, uf_username = nu_username d, uf_email = nu_email d, uf_imageUrl = None\<rparr>) (\<lambda>user.
      thenS (on_access (setUserRootRole now (us_userId user) (nu_rootRole d)))
     (thenS (whenS (truthy (nu_password d))
              (bindS (hash_password cfg (the (nu_password d))) (setPasswordHash (us_userId user))))
     (bindS (tryS (getUser cfg (us_userId user))) (\<lambda>userCreated.
      thenS (add_event (UserCreated (getCreatedBy updatedBy) (us_userId user) (event_data userCreated)))
      (returnS userCreated)))))))))"

definition role_given :: "role_key option \<Rightarrow> bool" where
  "role_given r = (case r of None \<Rightarrow> False | Some (RoleId i) \<Rightarrow> i \<noteq> 0 | Some (RoleNamed n) \<Rightarrow> n \<noteq> [])"

text \<open>\<open>a || b\<close> on optional strings: the value of \<open>b\<close> where \<open>a\<close> is not truthy.\<close>

definition or_opt :: "string option \<Rightarrow> string option \<Rightarrow> string option" where
  "or_opt a b = (if truthy a then a else b)"

definition updateUser ::
  "account_config \<Rightarrow> int \<Rightarrow> int \<Rightarrow> string option \<Rightarrow> string option \<Rightarrow> role_key option \<Rightarrow> user_info option
     \<Rightarrow> (user \<times> int) account_op" where
  "updateUser cfg now i name email rootRole updatedBy =
     bindS (tryS (getUser cfg i)) (\<lambda>preUser.
      thenS (tryS (\<lambda>_. email_ok cfg email))
     (thenS (whenS (role_given rootRole) (on_access (setUserRootRole now i (the rootRole))))
     (let name' = or_opt name (us_name (fst preUser)); email' = or_opt email (us_email (fst preUser)) in
      bindS (if name' \<noteq> None \<or> email' \<noteq> None
             then users_update cfg i (no_fields\<lparr>uf_name := name', uf_email := email'\<rparr>)
             else returnS (fst preUser)) (\<lambda>user.
      bindS (tryS (getUser cfg (us_userId user))) (\<lambda>storedUser.
      thenS (add_event (UserUpdated (getCreatedBy updatedBy) (us_userId user) (event_data preUser) (event_data storedUser)))
      (returnS storedUser))))))"

definition deleteUser :: "account_config \<Rightarrow> int \<Rightarrow> int \<Rightarrow> user_info option \<Rightarrow> unit account_op" where
  "deleteUser cfg now i updatedBy =
     bindS (tryS (getUser cfg i)) (\<lambda>user.
      thenS (on_access (\<lambda>a. (Inr (), wipeUserPermissions i a)))
     (thenS (deleteSessionsForUser i)
     (thenS (users_delete now i)
      (add_event (UserDeleted (getCreatedBy updatedBy)
        (case updatedBy of None \<Rightarrow> -1337 | Some u \<Rightarrow> num_or (ui_id u) (-1337)) (event_data user))))))"

record admin_options =
  ao_createAdminUser :: bool
  ao_initialAdminUser :: "(string \<times> string) option"

definition initial_admin :: "admin_options \<Rightarrow> string \<times> string" where
  "initial_admin opts = (case ao_initialAdminUser opts of
       Some up \<Rightarrow> if ao_createAdminUser opts then up else (''admin'', ''unleash4all'')
     | None \<Rightarrow> (''admin'', ''unleash4all''))"

text \<open>Errors are logged only.\<close>

definition initAdminUser :: "account_config \<Rightarrow> int \<Rightarrow> admin_options \<Rightarrow> unit account_op" where
  "initAdminUser cfg now opts =
     (let (username, password) = initial_admin opts in
      bindS (askS users_count) (\<lambda>n.
      whenS (n = 0 \<and> username \<noteq> [] \<and> password \<noteq> [])
       (orElseS
         (bindS (users_insert cfg now (no_fields\<lparr>uf_username := Some username\<rparr>)) (\<lambda>user.
          bindS (hash_password cfg password) (\<lambda>h.
          thenS (setPasswordHash (us_userId user) h)
          (on_access (setUserRootRole now (us_userId user) (RoleNamed ''Admin''))))))
         (\<lambda>_. returnS ()))))"


section \<open>Logins\<close>

definition login_query :: "string \<Rightarrow> user_lookup" where
  "login_query usernameOrEmail = (if isEmail usernameOrEmail then by_email usernameOrEmail else by_username usernameOrEmail)"

text \<open>The user, and the hash where it has one: an error of either query is dropped.\<close>

definition credentials :: "account_config \<Rightarrow> string \<Rightarrow> accounts \<Rightarrow> user option \<times> string option" where
  "credentials cfg usernameOrEmail s = (case getByQuery cfg (login_query usernameOrEmail) s of
       Inl _ \<Rightarrow> (None, None)
     | Inr u \<Rightarrow> (Some u, case getPasswordHash (us_userId u) s of Inl _ \<Rightarrow> None | Inr h \<Rightarrow> h))"

definition mismatch :: "account_config \<Rightarrow> string \<Rightarrow> exn" where
  "mismatch cfg intro = Api (PasswordMismatchError (Some (intro @
     '' If you have forgotten your password, visit '' @ cf_baseUriPath cfg @
     ''/forgotten-password or get in touch with your instance administrator.'')))"

definition login_failed :: "account_config \<Rightarrow> exn" where
  "login_failed cfg = mismatch cfg ''The combination of password and username you provided is invalid.''"

definition login_disabled :: exn where
  "login_disabled = Api (DisabledError ''Logging in with username/password has been disabled.'')"

definition loginUser :: "account_config \<Rightarrow> int \<Rightarrow> string \<Rightarrow> string \<Rightarrow> user account_op" where
  "loginUser cfg now usernameOrEmail password =
     bindS (askS aw_simple_auth_disabled) (\<lambda>disabled.
      thenS (guardS disabled login_disabled)
     (bindS (askS (credentials cfg usernameOrEmail)) (\<lambda>uh. case uh of
        (Some u, Some h) \<Rightarrow>
          if h \<noteq> [] \<and> cf_compare cfg password h
          then thenS (successfullyLogin now u) (returnS u)
          else failS (login_failed cfg)
      | _ \<Rightarrow> failS (login_failed cfg))))"

text \<open>
  Every error of the lookup and of the update, not only that there is no such user, leads to the
  creation of one.
\<close>

definition loginUserSSO ::
  "account_config \<Rightarrow> int \<Rightarrow> string \<Rightarrow> string option \<Rightarrow> role_key option \<Rightarrow> bool \<Rightarrow> user account_op" where
  "loginUserSSO cfg now email name rootRole autoCreate =
     bindS (orElseS
       (bindS (tryS (getByQuery cfg (by_email email))) (\<lambda>u.
        if truthy name \<and> us_name u \<noteq> name
        then users_update cfg (us_userId u) (no_fields\<lparr>uf_name := name, uf_email := Some email\<rparr>)
        else returnS u))
       (\<lambda>e. if autoCreate
            then bindS (createUser cfg now \<lparr>nu_username = None, nu_email = Some email, nu_name = name, nu_password = None,
                   nu_rootRole = (if role_given rootRole then the rootRole else RoleNamed ''Editor'')\<rparr> None)
                 (\<lambda>u. returnS (fst u))
            else failS e))
     (\<lambda>u. thenS (successfullyLogin now u) (returnS u))"

definition loginUserWithoutPassword :: "account_config \<Rightarrow> int \<Rightarrow> string \<Rightarrow> bool \<Rightarrow> user account_op" where
  "loginUserWithoutPassword cfg now email autoCreateUser = loginUserSSO cfg now email None None autoCreateUser"

text \<open>
  The handler of \<open>POST /auth/simple/login\<close> (\<open>simple-password-provider.ts\<close>): the session gets the user,
  and the session middleware stores it under its id at the end of the request.
\<close>

definition put_session :: "int \<Rightarrow> string \<Rightarrow> int \<Rightarrow> int \<Rightarrow> unit account_op" where
  "put_session now sid expires i = modS (\<lambda>s. s\<lparr>aw_sessions := filter (\<lambda>r. se_sid r \<noteq> sid) (aw_sessions s) @
     [\<lparr>se_sid = sid, se_user = Some i, se_created_at = now, se_expired = Some expires\<rparr>]\<rparr>)"

definition login_handler :: "account_config \<Rightarrow> int \<Rightarrow> string \<Rightarrow> int \<Rightarrow> string \<Rightarrow> string \<Rightarrow> user account_op" where
  "login_handler cfg now sid expires username password =
     bindS (loginUser cfg now username password) (\<lambda>u.
      thenS (put_session now sid expires (us_userId u)) (returnS u))"


section \<open>Passwords\<close>

definition changePassword :: "account_config \<Rightarrow> int \<Rightarrow> int \<Rightarrow> string \<Rightarrow> unit account_op" where
  "changePassword cfg now i password =
     thenS (tryS (\<lambda>_. validatePassword cfg password))
     (bindS (hash_password cfg password) (\<lambda>h.
      thenS (setPasswordHash i h)
     (thenS (deleteSessionsForUser i)
      (expireExistingTokensForUser now i))))"

text \<open>bcrypt refuses to compare with a hash that is not a string.\<close>

definition changePasswordWithVerification ::
  "account_config \<Rightarrow> int \<Rightarrow> int \<Rightarrow> string \<Rightarrow> string \<Rightarrow> unit account_op" where
  "changePasswordWithVerification cfg now i newPassword oldPassword =
     bindS (tryS (getPasswordHash i)) (\<lambda>h. case h of
        None \<Rightarrow> failS (JsError ''Error'' (''Illegal arguments: string, object''))
      | Some h \<Rightarrow>
          thenS (guardS (\<not> cf_compare cfg oldPassword h) (mismatch cfg ''The old password you provided is invalid.''))
          (changePassword cfg now i newPassword))"

text \<open>The handler of \<open>POST /api/admin/user/change-password\<close>: whether it answers 200 or 400.\<close>

definition changeMyPassword ::
  "account_config \<Rightarrow> int \<Rightarrow> int \<Rightarrow> string \<Rightarrow> string option \<Rightarrow> string option \<Rightarrow> nat account_op" where
  "changeMyPassword cfg now i password confirmPassword oldPassword =
     (if Some password = confirmPassword \<and> oldPassword \<noteq> None
      then thenS (tryS (\<lambda>_. validatePassword cfg password))
           (thenS (changePasswordWithVerification cfg now i password (the oldPassword)) (returnS 200))
      else returnS 400)"

record token_user =
  tu_token :: string
  tu_createdBy :: "string option"
  tu_email :: "string option"
  tu_name :: "string option"
  tu_id :: int
  tu_role :: role

definition getUserForResetToken :: "account_config \<Rightarrow> int \<Rightarrow> string \<Rightarrow> accounts \<Rightarrow> exn + token_user" where
  "getUserForResetToken cfg now token s =
     bindR (isValid cfg now token s) (\<lambda>t.
     bindR (getUser cfg (rk_user t) s) (\<lambda>(u, rootRole).
     bindR (getRoleData rootRole (access_view s)) (\<lambda>(role, _).
     Inr \<lparr>tu_token = token, tu_createdBy = rk_created_by t, tu_email = us_email u, tu_name = us_name u,
          tu_id = us_userId u, tu_role = role\<rparr>)))"

text \<open>
  The reset in its three parts: the checks up to the second look at the token, the mark that the token
  is used, and the change of the password. Requests may interleave between them.
\<close>

definition reset_check :: "account_config \<Rightarrow> int \<Rightarrow> string \<Rightarrow> string \<Rightarrow> accounts \<Rightarrow> exn + int" where
  "reset_check cfg now token password s =
     bindR (validatePassword cfg password) (\<lambda>_. bindR (getUserForResetToken cfg now token s) (\<lambda>u. Inr (tu_id u)))"

definition resetPassword :: "account_config \<Rightarrow> int \<Rightarrow> string \<Rightarrow> string \<Rightarrow> unit account_op" where
  "resetPassword cfg now token password =
     bindS (tryS (reset_check cfg now token password)) (\<lambda>i.
     bindS (useAccessToken cfg now i token) (\<lambda>allowed.
     if allowed then changePassword cfg now i password else failS (Api InvalidTokenError)))"

text \<open>One mail a minute for a user: the entry of a user goes when its timer fires.\<close>

definition send_reset_mail :: "user \<Rightarrow> string \<Rightarrow> unit account_op" where
  "send_reset_mail receiver link = modS (\<lambda>s. s\<lparr>aw_reset_timeouts := us_userId receiver # aw_reset_timeouts s,
     aw_mails := aw_mails s @ [(us_name receiver, us_email receiver, link)]\<rparr>)"

definition createResetPasswordEmail ::
  "account_config \<Rightarrow> int \<Rightarrow> string \<Rightarrow> user_info option \<Rightarrow> string option account_op" where
  "createResetPasswordEmail cfg now receiverEmail user =
     bindS (tryS (getByEmail cfg receiverEmail)) (\<lambda>receiver.
     bindS (askS (\<lambda>s. List.member (aw_reset_timeouts s) (us_userId receiver))) (\<lambda>waiting.
     if waiting then returnS None
     else bindS (createResetPasswordUrl cfg now (us_userId receiver)
            (case user of None \<Rightarrow> Some SYSTEM_USER_username
             | Some u \<Rightarrow> or_opt (ui_username u) (ui_email u))) (\<lambda>link.
          thenS (send_reset_mail receiver link) (returnS (Some link)))))"

definition reset_timer_fires :: "int \<Rightarrow> unit account_op" where
  "reset_timer_fires i = modS (\<lambda>s. s\<lparr>aw_reset_timeouts := filter (\<lambda>j. j \<noteq> i) (aw_reset_timeouts s)\<rparr>)"

end
