(* ===== verification/Signups.thy ===== *)
theory Signups
  imports UserService
begin

text \<open>
  Public sign-up tokens: anybody who has one makes a user of its role (\<open>db/public-signup-token-store.ts\<close>,
  \<open>services/public-signup-token-service.ts\<close>, \<open>routes/public-invite.ts\<close>).
\<close>

section \<open>The store\<close>

text \<open>A token with its role, and its users by id, name and user name.\<close>

record signup_token =
  st_row :: signup_row
  st_role :: "role option"
  st_users :: "(int \<times> string option \<times> string option) list"

text \<open>The left joins with users and roles, and the reducer that collects the users of a token.\<close>

definition toToken :: "accounts \<Rightarrow> signup_row \<Rightarrow> signup_token" where
  "toToken s t =
     \<lparr>st_row = t, st_role = find (\<lambda>r. ro_id r = sg_role t) (ac_roles (as_db (aw_access s))),
      st_users = List.map_filter (\<lambda>u. map_option (\<lambda>r. (ur_id r, ur_name r, ur_username r))
          (find (\<lambda>r. ur_id r = snd u) (aw_users s)))
        (filter (\<lambda>u. fst u = sg_secret t) (aw_signup_users s))\<rparr>"

definition signups_count :: "accounts \<Rightarrow> nat" where
  "signups_count s = length (aw_signups s)"

definition signups_getAll :: "accounts \<Rightarrow> signup_token list" where
  "signups_getAll s = map (toToken s) (aw_signups s)"

definition signups_getAllActive :: "int \<Rightarrow> accounts \<Rightarrow> signup_token list" where
  "signups_getAllActive now s = map (toToken s) (filter (\<lambda>t. now < sg_expires_at t) (aw_signups s))"

definition signup_error :: exn where
  "signup_error = Api (NotFoundError (Some ''Could not find public signup token.''))"

definition signups_get :: "string \<Rightarrow> accounts \<Rightarrow> exn + signup_token" where
  "signups_get secret s = (case find (\<lambda>t. sg_secret t = secret) (aw_signups s) of
       None \<Rightarrow> Inl signup_error | Some t \<Rightarrow> Inr (toToken s t))"

definition signups_exists :: "string \<Rightarrow> accounts \<Rightarrow> bool" where
  "signups_exists secret s = list_ex (\<lambda>t. sg_secret t = secret) (aw_signups s)"

definition DAY :: int where
  "DAY = 24 * 60 * 60 * 1000"

text \<open>\<open>expires_at::date\<close> is the midnight before (of the database's zone, UTC here).\<close>

definition midnight :: "int \<Rightarrow> int" where
  "midnight t = t div DAY * DAY"

definition signups_isValid :: "int \<Rightarrow> string \<Rightarrow> accounts \<Rightarrow> bool" where
  "signups_isValid now secret s =
     list_ex (\<lambda>t. sg_secret t = secret \<and> now < midnight (sg_expires_at t) \<and> sg_enabled t) (aw_signups s)"

definition signups_insert :: "account_config \<Rightarrow> signup_row \<Rightarrow> signup_token account_op" where
  "signups_insert cfg t =
     bindS (askS id) (\<lambda>s.
      thenS (guardS (signups_exists (sg_secret t) s) (account_unique_error cfg ''public_signup_tokens_pkey''))
     (thenS (guardS (sg_role t \<notin> ro_id ` set (ac_roles (as_db (aw_access s))))
              (account_fk_error cfg ''public_signup_tokens_role_id_fkey''))
     (thenS (modS (\<lambda>s. s\<lparr>aw_signups := aw_signups s @ [t]\<rparr>))
      (tryS (signups_get (sg_secret t))))))"

definition signups_addTokenUser :: "account_config \<Rightarrow> string \<Rightarrow> int \<Rightarrow> unit account_op" where
  "signups_addTokenUser cfg secret i =
     bindS (askS id) (\<lambda>s.
      thenS (guardS ((secret, i) \<in> set (aw_signup_users s)) (account_unique_error cfg ''public_signup_tokens_user_pkey''))
     (thenS (guardS (\<not> signups_exists secret s) (account_fk_error cfg ''public_signup_tokens_user_secret_fkey''))
     (thenS (guardS (i \<notin> ur_id ` set (aw_users s)) (account_fk_error cfg ''public_signup_tokens_user_user_id_fkey''))
      (modS (\<lambda>s. s\<lparr>aw_signup_users := aw_signup_users s @ [(secret, i)]\<rparr>)))))"

text \<open>The statement returns the rows of the table alone, without role and users.\<close>

definition signups_update :: "account_config \<Rightarrow> string \<Rightarrow> int option \<Rightarrow> bool option \<Rightarrow> signup_row account_op" where
  "signups_update cfg secret expiresAt enabled =
      thenS (guardS (expiresAt = None \<and> enabled = None) (JsError ''Error'' (cf_message cfg ''empty update'')))
     (thenS (modS (\<lambda>s. s\<lparr>aw_signups := map (\<lambda>t. if sg_secret t = secret
          then t\<lparr>sg_expires_at := default (sg_expires_at t) expiresAt, sg_enabled := default (sg_enabled t) enabled\<rparr>
          else t) (aw_signups s)\<rparr>))
      (tryS (\<lambda>s. case find (\<lambda>t. sg_secret t = secret) (aw_signups s) of None \<Rightarrow> Inl signup_error | Some t \<Rightarrow> Inr t)))"

text \<open>The users of a deleted token go with it.\<close>

definition signups_delete :: "string \<Rightarrow> unit account_op" where
  "signups_delete secret = modS (\<lambda>s. s\<lparr>aw_signups := filter (\<lambda>t. sg_secret t \<noteq> secret) (aw_signups s),
     aw_signup_users := filter (\<lambda>u. fst u \<noteq> secret) (aw_signup_users s)\<rparr>)"

definition signups_deleteAll :: "unit account_op" where
  "signups_deleteAll = modS (\<lambda>s. s\<lparr>aw_signups := [], aw_signup_users := []\<rparr>)"


section \<open>The service\<close>

definition signup_update ::
  "account_config \<Rightarrow> string \<Rightarrow> int option \<Rightarrow> bool option \<Rightarrow> string \<Rightarrow> int \<Rightarrow> signup_row account_op" where
  "signup_update cfg secret expiresAt enabled createdBy uid =
     bindS (signups_update cfg secret expiresAt enabled) (\<lambda>t.
      thenS (add_event (SignupTokenUpdated createdBy uid secret expiresAt enabled)) (returnS t))"

text \<open>A role that is gone leaves an undefined id, which names no root role.\<close>

definition token_role :: "signup_token \<Rightarrow> role_key" where
  "token_role t = (case st_role t of None \<Rightarrow> RoleNamed ''null'' | Some r \<Rightarrow> RoleId (ro_id r))"

definition addTokenUser :: "account_config \<Rightarrow> int \<Rightarrow> string \<Rightarrow> new_user \<Rightarrow> (user \<times> int) account_op" where
  "addTokenUser cfg now secret d =
     bindS (tryS (signups_get secret)) (\<lambda>token.
     bindS (createUser cfg now (d\<lparr>nu_rootRole := token_role token\<rparr>) None) (\<lambda>user.
      thenS (signups_addTokenUser cfg secret (us_userId (fst user)))
     (thenS (add_event (SignupTokenUserAdded SYSTEM_USER_username SYSTEM_USER_ID secret (us_userId (fst user))))
      (returnS user))))"

text \<open>A token lives for a month at most, and gives the role Viewer.\<close>

definition createNewPublicSignupToken ::
  "account_config \<Rightarrow> int \<Rightarrow> string \<Rightarrow> int \<Rightarrow> string \<Rightarrow> int \<Rightarrow> signup_token account_op" where
  "createNewPublicSignupToken cfg now name expiresAt createdBy uid =
     bindS (askS (\<lambda>s. getRoleByName (as_db (aw_access s)) ''Viewer'')) (\<lambda>viewerRole.
     bindS draw (\<lambda>k.
     bindS (signups_insert cfg
       \<lparr>sg_secret = cf_random cfg k, sg_name = name,
        sg_expires_at = (if expiresAt < cf_next_month cfg now then expiresAt else cf_next_month cfg now),
        sg_created_at = now, sg_created_by = (if createdBy = [] then None else Some createdBy),
        sg_role = (case viewerRole of None \<Rightarrow> -1 | Some r \<Rightarrow> ro_id r),
        sg_url = cf_unleashUrl cfg @ ''/new-user?invite='' @ cf_random cfg k, sg_enabled = True\<rparr>) (\<lambda>token.
      thenS (add_event (SignupTokenCreated createdBy uid (sg_secret (st_row token)))) (returnS token))))"


section \<open>The route (\<open>public-invite.ts\<close>)\<close>

text \<open>The status of the answer, with the user where one was made.\<close>

definition invite_handler :: "account_config \<Rightarrow> int \<Rightarrow> string \<Rightarrow> new_user \<Rightarrow> (nat \<times> (user \<times> int) option) account_op" where
  "invite_handler cfg now secret d =
     bindS (askS (signups_isValid now secret)) (\<lambda>valid.
     if valid then bindS (addTokenUser cfg now secret d) (\<lambda>user. returnS (201, Some user))
     else returnS (400, None))"

end
