(* ===== verification/UserGroups.thy ===== *)
theory UserGroups
  imports Signups
begin

text \<open>
  Groups of users (\<open>db/group-store.ts\<close>, \<open>types/group.ts\<close>, \<open>services/group-service.ts\<close>): their
  members, the root role and the project roles the members have through them, and the external groups
  of a single sign-on whose users join them. When a row was made is not kept.
\<close>

section \<open>The store\<close>

text \<open>The group tables are among those access control sees; a write may fail.\<close>

definition group_view :: "accounts \<Rightarrow> access_db" where
  "group_view s = as_db (access_view s)"

definition group_write :: "(access_db \<Rightarrow> (exn + 'a) \<times> access_db) \<Rightarrow> 'a account_op" where
  "group_write f s = (case f (group_view s) of (r, db) \<Rightarrow> (r, with_access s (with_db (access_view s) db)))"

definition may_fail :: "(access_db \<Rightarrow> exn + access_db) \<Rightarrow> access_db \<Rightarrow> (exn + unit) \<times> access_db" where
  "may_fail f db = (case f db of Inl e \<Rightarrow> (Inl e, db) | Inr db' \<Rightarrow> (Inr (), db'))"

definition group_ask :: "(access_db \<Rightarrow> 'a) \<Rightarrow> 'a account_op" where
  "group_ask f = askS (\<lambda>s. f (group_view s))"

definition group_try :: "(access_db \<Rightarrow> exn + 'a) \<Rightarrow> 'a account_op" where
  "group_try f = tryS (\<lambda>s. f (group_view s))"

text \<open>The constructor of \<open>Group\<close>: Joi refuses an empty name.\<close>

definition rowToGroup :: "access_db \<Rightarrow> group_row option \<Rightarrow> exn + group_row" where
  "rowToGroup db row = (case row of
       None \<Rightarrow> Inl (Api (NotFoundError (Some ''No group found'')))
     | Some g \<Rightarrow>
         if g_id g = 0 then Inl (JoiError ''Id is required'' [])
         else if g_name g = [] then Inl (JoiError (ac_message db ''Name'') [])
         else Inr g)"

definition rowsToGroups :: "access_db \<Rightarrow> group_row list \<Rightarrow> exn + group_row list" where
  "rowsToGroups db rows = mapR (\<lambda>g. rowToGroup db (Some g)) rows"

definition groups_getAllWithId :: "int list \<Rightarrow> access_db \<Rightarrow> exn + group_row list" where
  "groups_getAllWithId ids db = rowsToGroups db (filter (\<lambda>g. List.member ids (g_id g)) (ac_groups db))"

definition groups_getAll :: "access_db \<Rightarrow> exn + group_row list" where
  "groups_getAll db = rowsToGroups db (ac_groups db)"

definition groups_get :: "int \<Rightarrow> access_db \<Rightarrow> exn + group_row" where
  "groups_get i db = rowToGroup db (find (\<lambda>g. g_id g = i) (ac_groups db))"

definition groups_exists :: "int \<Rightarrow> access_db \<Rightarrow> bool" where
  "groups_exists i db = list_ex (\<lambda>g. g_id g = i) (ac_groups db)"

definition existsWithName :: "string \<Rightarrow> access_db \<Rightarrow> bool" where
  "existsWithName name db = list_ex (\<lambda>g. g_name g = name) (ac_groups db)"

definition groups_count :: "access_db \<Rightarrow> nat" where
  "groups_count db = length (ac_groups db)"

definition hasProjectRole :: "int \<Rightarrow> access_db \<Rightarrow> bool" where
  "hasProjectRole i db = list_ex (\<lambda>r. gr_group r = i) (ac_group_role db)"

text \<open>\<open>group.rootRole || null\<close>, and the foreign key of the column.\<close>

definition root_role_column :: "group_input \<Rightarrow> int option" where
  "root_role_column g = (if num_or (gi_rootRole g) 0 = 0 then None else gi_rootRole g)"

definition bad_root_role :: "group_input \<Rightarrow> access_db \<Rightarrow> bool" where
  "bad_root_role g db = (case root_role_column g of None \<Rightarrow> False | Some r \<Rightarrow> r \<notin> ro_id ` set (ac_roles db))"

definition root_role_error :: "group_input \<Rightarrow> exn" where
  "root_role_error g = Api (BadDataError (''Incorrect role id '' @ show_int (the (gi_rootRole g))))"

definition groups_update :: "int \<Rightarrow> group_input \<Rightarrow> access_db \<Rightarrow> (exn + group_row) \<times> access_db" where
  "groups_update i g db =
     (let upd = (\<lambda>r. r\<lparr>g_name := gi_name g, g_root_role := root_role_column g,
            g_description := (if gi_description g = None then g_description r else gi_description g),
            g_mappings := default (g_mappings r) (gi_mappings g)\<rparr>)
      in if groups_exists i db \<and> bad_root_role g db then (Inl (root_role_error g), db)
         else (rowToGroup db (map_option upd (find (\<lambda>r. g_id r = i) (ac_groups db))),
               db\<lparr>ac_groups := map (\<lambda>r. if g_id r = i then upd r else r) (ac_groups db)\<rparr>))"

text \<open>The number of the sequence is used up even where the row is refused.\<close>

definition groups_create :: "group_input \<Rightarrow> access_db \<Rightarrow> (exn + group_row) \<times> access_db" where
  "groups_create g db =
     (let row = \<lparr>g_id = ac_next_group db, g_name = gi_name g, g_root_role = root_role_column g,
                 g_description = gi_description g, g_mappings = default [] (gi_mappings g)\<rparr>;
          db1 = db\<lparr>ac_next_group := ac_next_group db + 1\<rparr>
      in if bad_root_role g db then (Inl (root_role_error g), db1)
         else (rowToGroup db (Some row), db1\<lparr>ac_groups := ac_groups db @ [row]\<rparr>))"

text \<open>A group takes its members and roles with it.\<close>

definition groups_drop :: "(int \<Rightarrow> bool) \<Rightarrow> access_db \<Rightarrow> access_db" where
  "groups_drop p db = db\<lparr>ac_groups := filter (\<lambda>g. \<not> p (g_id g)) (ac_groups db),
     ac_group_user := filter (\<lambda>r. \<not> p (gu_group r)) (ac_group_user db),
     ac_group_role := filter (\<lambda>r. \<not> p (gr_group r)) (ac_group_role db)\<rparr>"

definition groups_delete :: "int \<Rightarrow> access_db \<Rightarrow> access_db" where
  "groups_delete i = groups_drop (\<lambda>j. j = i)"

definition groups_deleteAll :: "access_db \<Rightarrow> access_db" where
  "groups_deleteAll = groups_drop (\<lambda>_. True)"


section \<open>Members and roles\<close>

definition gu_fk_check :: "access_db \<Rightarrow> group_user \<Rightarrow> exn + unit" where
  "gu_fk_check db r =
     (if gu_group r \<notin> g_id ` set (ac_groups db) then Inl (fk_error db ''group_user_group_id_fkey'')
      else if gu_user r \<notin> us_id ` set (ac_users db) then Inl (fk_error db ''group_user_user_id_fkey'')
      else Inr ())"

text \<open>\<open>batchInsert\<close> is one transaction.\<close>

definition gu_insert :: "group_user list \<Rightarrow> access_db \<Rightarrow> exn + access_db" where
  "gu_insert rows db =
     (if \<not> distinct (map gu_key (ac_group_user db @ rows)) then Inl (unique_error db ''group_user_pkey'')
      else bindR (mapR (gu_fk_check db) rows) (\<lambda>_. Inr (db\<lparr>ac_group_user := ac_group_user db @ rows\<rparr>)))"

definition addUsersToGroup :: "int \<Rightarrow> int list \<Rightarrow> string \<Rightarrow> access_db \<Rightarrow> exn + access_db" where
  "addUsersToGroup groupId users userName db =
     (case gu_insert (map (\<lambda>u. \<lparr>gu_group = groupId, gu_user = u, gu_created_by = Some userName\<rparr>) users) db of
        Inl e \<Rightarrow> Inl (if violates_fk e ''group_user_user_id_fkey''
                     then Api (BadDataError ''Incorrect user id in the users group'') else e)
      | Inr db' \<Rightarrow> Inr db')"

definition deleteUsersFromGroup :: "(int \<times> int) list \<Rightarrow> access_db \<Rightarrow> access_db" where
  "deleteUsersFromGroup keys db =
     db\<lparr>ac_group_user := filter (\<lambda>r. \<not> List.member keys (gu_key r)) (ac_group_user db)\<rparr>"

definition addUserToGroups :: "int \<Rightarrow> int list \<Rightarrow> string option \<Rightarrow> access_db \<Rightarrow> exn + access_db" where
  "addUserToGroups memberId groupIds createdBy =
     gu_insert (map (\<lambda>g. \<lparr>gu_group = g, gu_user = memberId, gu_created_by = createdBy\<rparr>) groupIds)"

text \<open>The members of groups, deleted users among them.\<close>

definition getAllUsersByGroups :: "int list \<Rightarrow> access_db \<Rightarrow> group_user list" where
  "getAllUsersByGroups ids db =
     [gu. gu \<leftarrow> ac_group_user db, List.member ids (gu_group gu) \<and> gu_user gu \<in> us_id ` set (ac_users db) \<and>
          gu_group gu \<in> g_id ` set (ac_groups db)]"

text \<open>Roles per project: the first row of a group opens its entry, later rows append their role.\<close>

record project_group =
  pg_id :: int
  pg_roleId :: int
  pg_roles :: "int list"

definition add_project_group :: "project_group list \<Rightarrow> group_role \<Rightarrow> project_group list" where
  "add_project_group acc row =
     (if \<exists>g\<in>set acc. pg_id g = gr_group row
      then map (\<lambda>g. if pg_id g = gr_group row then g\<lparr>pg_roles := pg_roles g @ [gr_role row]\<rparr> else g) acc
      else acc @ [\<lparr>pg_id = gr_group row, pg_roleId = gr_role row, pg_roles = [gr_role row]\<rparr>])"

definition store_getProjectGroups :: "string \<Rightarrow> access_db \<Rightarrow> project_group list" where
  "store_getProjectGroups projectId db =
     foldl add_project_group []
       (filter (\<lambda>gr. role_has_type db PROJECT_ROLE_TYPES (gr_role gr) \<and> gr_project gr = projectId) (ac_group_role db))"

definition getProjectGroupRoles :: "string \<Rightarrow> access_db \<Rightarrow> (int \<times> int \<times> string) list" where
  "getProjectGroupRoles projectId db =
     [(gr_group gr, gr_role gr, ro_name r). gr \<leftarrow> ac_group_role db, gr_project gr = projectId,
        r \<leftarrow> ac_roles db, ro_id r = gr_role gr]"

definition getGroupProjects :: "int list \<Rightarrow> access_db \<Rightarrow> (int \<times> string) list" where
  "getGroupProjects ids db =
     remdups (map (\<lambda>r. (gr_group r, gr_project r)) (filter (\<lambda>r. List.member ids (gr_group r)) (ac_group_role db)))"

definition store_getGroupsForUser :: "int \<Rightarrow> access_db \<Rightarrow> exn + group_row list" where
  "store_getGroupsForUser memberId db =
     rowsToGroups db [g. g \<leftarrow> ac_groups db, gu \<leftarrow> ac_group_user db, gu_group gu = g_id g \<and> gu_user gu = memberId]"


section \<open>External groups\<close>

text \<open>\<open>mappings_sso ?| groups\<close>: one of the names is among the mappings.\<close>

definition mapped :: "string list \<Rightarrow> group_row \<Rightarrow> bool" where
  "mapped externalGroups g = list_ex (\<lambda>m. List.member externalGroups m) (g_mappings g)"

definition is_group_member :: "access_db \<Rightarrow> int \<Rightarrow> int \<Rightarrow> bool" where
  "is_group_member db u g = list_ex (\<lambda>gu. gu_group gu = g \<and> gu_user gu = u) (ac_group_user db)"

definition getNewGroupsForExternalUser :: "int \<Rightarrow> string list \<Rightarrow> access_db \<Rightarrow> exn + group_row list" where
  "getNewGroupsForExternalUser memberId externalGroups db =
     rowsToGroups db (filter (\<lambda>g. \<not> is_group_member db memberId (g_id g) \<and> mapped externalGroups g) (ac_groups db))"

text \<open>Members the single sign-on added, where the group has mappings and none of them is named.\<close>

definition getOldGroupsForExternalUser :: "int \<Rightarrow> string list \<Rightarrow> access_db \<Rightarrow> (int \<times> int) list" where
  "getOldGroupsForExternalUser memberId externalGroups db =
     (let stays = map g_id (filter (\<lambda>g. mapped externalGroups g \<or> g_mappings g = []) (ac_groups db))
      in map gu_key (filter (\<lambda>gu. gu_user gu = memberId \<and> gu_created_by gu = Some ''SSO'' \<and>
           \<not> List.member stays (gu_group gu)) (ac_group_user db)))"


section \<open>The service\<close>

text \<open>A group with its members, each with who added it, and its projects where they are asked for.\<close>

record group_model =
  gm_group :: group_row
  gm_users :: "(user \<times> string option) list"
  gm_projects :: "string list option"

definition mapGroupWithUsers :: "group_row \<Rightarrow> group_user list \<Rightarrow> user list \<Rightarrow> group_model" where
  "mapGroupWithUsers g allGroupUsers allUsers =
     (let groupUsers = filter (\<lambda>gu. gu_group gu = g_id g) allGroupUsers;
          selected = filter (\<lambda>u. List.member (map gu_user groupUsers) (us_userId u)) allUsers
      in \<lparr>gm_group = g,
          gm_users = map (\<lambda>u. (u, case find (\<lambda>gu. gu_user gu = us_userId u) groupUsers of
              None \<Rightarrow> None | Some gu \<Rightarrow> gu_created_by gu)) selected,
          gm_projects = None\<rparr>)"

definition mapGroupWithProjects :: "(int \<times> string) list \<Rightarrow> group_model \<Rightarrow> group_model" where
  "mapGroupWithProjects groupProjects m =
     m\<lparr>gm_projects := Some (map snd (filter (\<lambda>p. fst p = g_id (gm_group m)) groupProjects))\<rparr>"

definition group_getAll :: "account_config \<Rightarrow> accounts \<Rightarrow> exn + group_model list" where
  "group_getAll cfg s =
     bindR (groups_getAll (group_view s)) (\<lambda>groups.
      let members = getAllUsersByGroups (map g_id groups) (group_view s);
          projects = getGroupProjects (map g_id groups) (group_view s)
      in bindR (accounts_getAllWithId cfg (map gu_user members) s) (\<lambda>users.
           Inr (map (\<lambda>g. mapGroupWithProjects projects (mapGroupWithUsers g members users)) groups)))"

definition getGroup :: "account_config \<Rightarrow> int \<Rightarrow> accounts \<Rightarrow> exn + group_model" where
  "getGroup cfg i s =
     bindR (groups_get i (group_view s)) (\<lambda>g.
      let members = getAllUsersByGroups [i] (group_view s)
      in bindR (accounts_getAllWithId cfg (map gu_user members) s) (\<lambda>users.
           Inr (mapGroupWithUsers g members users)))"

definition validateGroup :: "string \<Rightarrow> group_row option \<Rightarrow> access_db \<Rightarrow> exn + unit" where
  "validateGroup name existingGroup db =
     (if name = [] then Inl (Api (BadDataError ''Group name cannot be empty''))
      else if map_option g_name existingGroup \<noteq> Some name \<and> existsWithName name db
      then Inl (Api (NameExistsError ''Group name already exists''))
      else Inr ())"

text \<open>No transaction: where a user is refused, the group is there without members.\<close>

definition createGroup :: "group_input \<Rightarrow> int list option \<Rightarrow> string \<Rightarrow> int \<Rightarrow> group_row account_op" where
  "createGroup g users userName uid =
     thenS (group_try (validateGroup (gi_name g) None))
     (bindS (group_write (groups_create g)) (\<lambda>new.
      thenS (case users of None \<Rightarrow> returnS ()
             | Some us \<Rightarrow> group_write (may_fail (addUsersToGroup (g_id new) us userName)))
      (thenS (add_event (GroupCreated userName uid g users)) (returnS new))))"

definition updateGroupUsers :: "int \<Rightarrow> int list \<Rightarrow> (int \<times> int) list \<Rightarrow> string \<Rightarrow> unit account_op" where
  "updateGroupUsers groupId newUsers deletable userName =
     thenS (group_write (may_fail (addUsersToGroup groupId newUsers userName)))
       (group_write (\<lambda>db. (Inr (), deleteUsersFromGroup deletable db)))"

definition updateGroup :: "int \<Rightarrow> group_input \<Rightarrow> int list \<Rightarrow> string \<Rightarrow> int \<Rightarrow> group_row account_op" where
  "updateGroup i g users userName uid =
     bindS (group_try (groups_get i)) (\<lambda>existing.
     thenS (group_try (validateGroup (gi_name g) (Some existing)))
     (bindS (group_write (groups_update i g)) (\<lambda>new.
      bindS (group_ask (getAllUsersByGroups [i])) (\<lambda>existingUsers.
      let existingIds = map gu_user existingUsers
      in thenS (updateGroupUsers (g_id new) (filter (\<lambda>u. \<not> List.member existingIds u) users)
              (map gu_key (filter (\<lambda>gu. \<not> List.member users (gu_user gu)) existingUsers)) userName)
        (thenS (add_event (GroupUpdated userName uid (new, users) (existing, existingIds))) (returnS new))))))"

definition deleteGroup :: "int \<Rightarrow> string \<Rightarrow> int \<Rightarrow> unit account_op" where
  "deleteGroup i userName uid =
     bindS (group_try (groups_get i)) (\<lambda>g.
     bindS (group_ask (getAllUsersByGroups [g_id g])) (\<lambda>existingUsers.
      thenS (group_write (\<lambda>db. (Inr (), groups_delete i db)))
        (add_event (GroupDeleted userName uid (g, map gu_user existingUsers)))))"

definition group_getProjectGroups :: "account_config \<Rightarrow> string \<Rightarrow> accounts \<Rightarrow> exn + (group_model \<times> project_group) list" where
  "group_getProjectGroups cfg projectId s =
     (let projectGroups = store_getProjectGroups projectId (group_view s) in
      if projectGroups = [] then Inr []
      else bindR (groups_getAllWithId (map pg_id projectGroups) (group_view s)) (\<lambda>groups.
        let members = getAllUsersByGroups (map g_id groups) (group_view s)
        in bindR (accounts_getAllWithId cfg (map gu_user members) s) (\<lambda>users.
             Inr [(mapGroupWithUsers g members users, gr). g \<leftarrow> groups, gr \<leftarrow> projectGroups, pg_id gr = g_id g])))"

text \<open>
  Sign-on: the groups mapped to the names given are joined, and those joined this way before whose
  mappings are not among the names are left.
\<close>

definition syncExternalGroups ::
  "int \<Rightarrow> string list \<Rightarrow> string option \<Rightarrow> int option \<Rightarrow> unit account_op" where
  "syncExternalGroups memberId externalGroups createdBy createdById =
     bindS (group_try (getNewGroupsForExternalUser memberId externalGroups)) (\<lambda>newGroups.
     thenS (group_write (may_fail (addUserToGroups memberId (map g_id newGroups) createdBy)))
     (bindS (group_ask (getOldGroupsForExternalUser memberId externalGroups)) (\<lambda>oldGroups.
      thenS (group_write (\<lambda>db. (Inr (), deleteUsersFromGroup oldGroups db)))
      (eachS add_event
        (map (\<lambda>g. GroupUserAdded (default ''unknown'' createdBy) (default (-9999) createdById) (g_id g) memberId) newGroups
         @ map (\<lambda>k. GroupUserRemoved (default ''unknown'' createdBy) (default (-9999) createdById) (fst k) memberId) oldGroups)))))"

end
