(* ===== verification/GroupFacts.thy ===== *)
theory GroupFacts
  imports UserGroups AccessFacts
begin

text \<open>
  The writes of the group store as steps on the RBAC tables; they keep the keys and references of the
  tables and leave users and roles alone.
\<close>

section \<open>Steps\<close>

inductive group_step :: "access_db \<Rightarrow> access_db \<Rightarrow> bool" where
  group_same: "group_step db db"
| group_create: "group_step db (snd (groups_create g db))"
| group_update: "group_step db (snd (groups_update i g db))"
| group_drop: "group_step db (groups_drop p db)"
| group_insert: "gu_insert rows db = Inr db' \<Longrightarrow> group_step db db'"
| group_remove: "group_step db (deleteUsersFromGroup keys db)"

lemma may_fail_step: "(\<And>db'. f db = Inr db' \<Longrightarrow> group_step db db') \<Longrightarrow> group_step db (snd (may_fail f db))"
  by (cases "f db") (simp_all add: may_fail_def group_same)

lemma addUsersToGroup_insert:
  "addUsersToGroup i us who db = Inr db' \<Longrightarrow> \<exists>rows. gu_insert rows db = Inr db'"
  by (auto simp: addUsersToGroup_def split: sum.splits)

lemma group_writes:
  "group_step db (snd (groups_create g db))" "group_step db (snd (groups_update i g db))"
  "group_step db (snd ((\<lambda>db. (Inr (), groups_delete i db)) db))"
  "group_step db (snd (may_fail (addUsersToGroup i us who) db))"
  "group_step db (snd (may_fail (addUserToGroups u is creator) db))"
  "group_step db (snd ((\<lambda>db. (Inr (), deleteUsersFromGroup keys db)) db))"
proof -
  show "group_step db (snd (may_fail (addUsersToGroup i us who) db))"
    by (rule may_fail_step) (auto dest: addUsersToGroup_insert intro: group_insert)
  show "group_step db (snd (may_fail (addUserToGroups u is creator) db))"
    by (rule may_fail_step) (simp add: addUserToGroups_def group_insert)
qed (simp_all add: groups_delete_def group_step.intros)


section \<open>What they keep\<close>

lemma bad_root_role_iff:
  "bad_root_role g db \<longleftrightarrow> (\<exists>r. root_role_column g = Some r \<and> r \<notin> ro_id ` set (ac_roles db))"
  by (simp add: bad_root_role_def split: option.splits)

lemma gu_insert_rows:
  assumes "gu_insert rows db = Inr db'"
  shows "db' = db\<lparr>ac_group_user := ac_group_user db @ rows\<rparr>" and "distinct (map gu_key (ac_group_user db @ rows))"
    and "r \<in> set rows \<Longrightarrow> gu_group r \<in> g_id ` set (ac_groups db) \<and> gu_user r \<in> us_id ` set (ac_users db)"
proof -
  show "db' = db\<lparr>ac_group_user := ac_group_user db @ rows\<rparr>" "distinct (map gu_key (ac_group_user db @ rows))"
    using assms by (auto simp: gu_insert_def bindR_Inr_iff split: if_splits)
  obtain us where "mapR (gu_fk_check db) rows = Inr us"
    using assms by (auto simp: gu_insert_def bindR_Inr_iff split: if_splits)
  then show "r \<in> set rows \<Longrightarrow> gu_group r \<in> g_id ` set (ac_groups db) \<and> gu_user r \<in> us_id ` set (ac_users db)"
    by (drule_tac mapR_unit) (auto simp: gu_fk_check_def split: if_splits)
qed

lemma group_rows_ok:
  assumes "access_ok db" and ids: "map g_id rows = map g_id (ac_groups db)"
    and "\<forall>x\<in>set rows. \<forall>r. g_root_role x = Some r \<longrightarrow> r \<in> ro_id ` set (ac_roles db)"
  shows "access_ok (db\<lparr>ac_groups := rows\<rparr>)"
proof -
  have set_ids: "g_id ` set rows = g_id ` set (ac_groups db)" using ids by (metis list.set_map)
  have "\<forall>i\<in>g_id ` set (ac_groups db). 0 < i \<and> i < ac_next_group db" using assms(1) by (auto simp: access_ok_def)
  then have "\<forall>g\<in>set rows. 0 < g_id g \<and> g_id g < ac_next_group db" unfolding set_ids [symmetric] by simp
  then show ?thesis using assms ids set_ids by (simp add: access_ok_def)
qed

lemma groups_update_ok:
  assumes "access_ok db"
  shows "access_ok (snd (groups_update i g db))"
proof (cases "groups_exists i db \<and> bad_root_role g db")
  case False
  let ?upd = "\<lambda>r. r\<lparr>g_name := gi_name g, g_root_role := root_role_column g,
      g_description := (if gi_description g = None then g_description r else gi_description g),
      g_mappings := default (g_mappings r) (gi_mappings g)\<rparr>"
  have "access_ok (db\<lparr>ac_groups := map (\<lambda>r. if g_id r = i then ?upd r else r) (ac_groups db)\<rparr>)"
    using assms False
    by (intro group_rows_ok) (auto simp: access_ok_def bad_root_role_iff groups_exists_def list_ex_iff)
  then show ?thesis using False by (auto simp: groups_update_def Let_def)
next
  case True
  then show ?thesis using assms by (simp add: groups_update_def Let_def)
qed

lemma groups_create_ok:
  assumes "access_ok db"
  shows "access_ok (snd (groups_create g db))"
proof -
  have "ac_next_group db \<notin> g_id ` set (ac_groups db)" using assms by (auto simp: access_ok_def)
  then show ?thesis
    using assms by (auto simp: groups_create_def Let_def access_ok_def bad_root_role_iff)
qed

lemma groups_drop_ok:
  assumes "access_ok db"
  shows "access_ok (groups_drop p db)"
proof -
  have "g_id ` set (filter (\<lambda>g. \<not> p (g_id g)) (ac_groups db)) = {i \<in> g_id ` set (ac_groups db). \<not> p i}" by auto
  then show ?thesis using assms by (auto simp: groups_drop_def access_ok_def distinct_map_filter)
qed

lemma group_step_ok: "group_step db db' \<Longrightarrow> access_ok db \<Longrightarrow> access_ok db'"
proof (induction rule: group_step.induct)
  case (group_insert rows db db')
  have "\<forall>r\<in>set rows. gu_group r \<in> g_id ` set (ac_groups db) \<and> gu_user r \<in> us_id ` set (ac_users db)"
    using gu_insert_rows(3) [OF group_insert.hyps] by blast
  then show ?case
    using group_insert.prems gu_insert_rows(2) [OF group_insert.hyps]
    unfolding gu_insert_rows(1) [OF group_insert.hyps] access_ok_def by auto
next
  case (group_remove db keys)
  then show ?case by (auto simp: deleteUsersFromGroup_def access_ok_def distinct_map_filter)
qed (simp_all add: groups_create_ok groups_update_ok groups_drop_ok)

lemma group_step_rest:
  assumes "group_step db db'"
  shows "ac_users db' = ac_users db \<and> ac_roles db' = ac_roles db \<and> ac_role_user db' = ac_role_user db \<and>
    ac_personal_tokens db' = ac_personal_tokens db \<and> ac_signup_users db' = ac_signup_users db"
  using assms
  by cases (auto simp: groups_create_def groups_update_def groups_drop_def deleteUsersFromGroup_def Let_def
      dest!: gu_insert_rows(1))

lemma rowsToGroups_Inr: "rowsToGroups db rows = Inr gs \<Longrightarrow> gs = rows"
  unfolding rowsToGroups_def
  by (induction rows arbitrary: gs) (auto simp: bindR_Inr_iff rowToGroup_def split: if_splits)

end
