(* ===== verification/AccountFacts.thy ===== *)
theory AccountFacts
  imports GroupFacts
begin

text \<open>
  The invariant of the account tables, and that every operation keeps it: keys and unique columns, the
  references between the tables, and with them the consistency of the RBAC tables that the access
  service sees.
\<close>

section \<open>The access service leaves the users alone\<close>

definition same_users :: "access_db \<Rightarrow> access_db \<Rightarrow> bool" where
  "same_users db db' = (ac_users db' = ac_users db)"

lemma same_users_refl [simp]: "same_users db db"
  by (simp add: same_users_def)

lemma same_users_trans: "same_users db db' \<Longrightarrow> same_users db' db'' \<Longrightarrow> same_users db db''"
  by (simp add: same_users_def)

lemma bindR_users:
  "bindR x k = Inr db' \<Longrightarrow> (\<And>y. x = Inr y \<Longrightarrow> k y = Inr db' \<Longrightarrow> P) \<Longrightarrow> P"
  by (auto simp: bindR_Inr_iff)

lemma same_users_inserts:
  "ru_insert_ignore rows db = Inr db' \<Longrightarrow> same_users db db'"
  "gr_insert_ignore rows' db = Inr db' \<Longrightarrow> same_users db db'"
  "ru_insert_merge rows db = Inr db' \<Longrightarrow> same_users db db'"
  "gr_insert_merge rows' db = Inr db' \<Longrightarrow> same_users db db'"
  by (auto simp: same_users_def ru_insert_ignore_def gr_insert_ignore_def ru_insert_merge_def gr_insert_merge_def
      bindR_Inr_iff split: if_splits)

lemma same_users_permissions:
  "insert_role_permissions rs db = Inr db' \<Longrightarrow> same_users db db'"
  "store_addPermissionsToRole rid ps env db = Inr db' \<Longrightarrow> same_users db db'"
  "addEnvironmentPermissionsToRole rid ps db = Inr db' \<Longrightarrow> same_users db db'"
  "add_role_permissions ty rid ps db = Inr db' \<Longrightarrow> same_users db db'"
  "store_removePermissionFromRole rid p env db = Inr db' \<Longrightarrow> same_users db db'"
  by (auto simp: same_users_def insert_role_permissions_def store_addPermissionsToRole_def
      addEnvironmentPermissionsToRole_def add_role_permissions_def store_removePermissionFromRole_def
      bindR_Inr_iff split: if_splits)

lemma same_users_caught:
  assumes "same_users db (tx_db tx)" and "\<And>db' db''. stm db' = Inr db'' \<Longrightarrow> same_users db' db''"
  shows "same_users db (tx_db (caught stm c m tx))"
  using assms by (auto simp: caught_def intro: same_users_trans split: sum.splits)

lemma same_users_transaction: "same_users db (tx_db (access_transaction now valid gs us p who db))"
  by (auto simp: access_transaction_def Let_def intro!: same_users_caught intro: same_users_inserts)

lemma same_users_stores:
  "store_addUserToRole now uid rid p db = Inr db' \<Longrightarrow> same_users db db'"
  "store_addGroupToRole gid rid who p db = Inr db' \<Longrightarrow> same_users db db'"
  "store_addRoleAccessToProject now us gs p rid who db = Inr db' \<Longrightarrow> same_users db db'"
  "store_addAccessToProject now rs gs us p who db = Inr db' \<Longrightarrow> same_users db db'"
  "store_setProjectRolesForUser now p uid rs db = Inr db' \<Longrightarrow> same_users db db'"
  "store_setProjectRolesForGroup p gid rs who db = Inr db' \<Longrightarrow> same_users db db'"
  "store_updateUserProjectRole uid rid p db = Inr db' \<Longrightarrow> same_users db db'"
  "store_updateGroupProjectRole gid rid p db = Inr db' \<Longrightarrow> same_users db db'"
proof -
  show "store_addUserToRole now uid rid p db = Inr db' \<Longrightarrow> same_users db db'"
    "store_addGroupToRole gid rid who p db = Inr db' \<Longrightarrow> same_users db db'"
    by (auto simp: store_addUserToRole_def store_addGroupToRole_def Let_def dest: same_users_inserts split: if_splits)
  show "store_addRoleAccessToProject now us gs p rid who db = Inr db' \<Longrightarrow> same_users db db'"
    by (auto simp: store_addRoleAccessToProject_def bindR_Inr_iff split: if_splits
        dest: same_users_inserts intro: same_users_trans)
  show "store_addAccessToProject now rs gs us p who db = Inr db' \<Longrightarrow> same_users db db'"
    by (auto simp: store_addAccessToProject_def Let_def same_users_transaction split: if_splits)
  show "store_setProjectRolesForUser now p uid rs db = Inr db' \<Longrightarrow> same_users db db'"
    "store_setProjectRolesForGroup p gid rs who db = Inr db' \<Longrightarrow> same_users db db'"
    by (auto simp: store_setProjectRolesForUser_def store_setProjectRolesForGroup_def Let_def same_users_def
        split: if_splits dest!: same_users_inserts)
  show "store_updateUserProjectRole uid rid p db = Inr db' \<Longrightarrow> same_users db db'"
    "store_updateGroupProjectRole gid rid p db = Inr db' \<Longrightarrow> same_users db db'"
    by (auto simp: store_updateUserProjectRole_def store_updateGroupProjectRole_def Let_def same_users_def
        bindR_Inr_iff split: if_splits)
qed

lemma same_users_roles:
  "roles_create n d ty db = Inr (r, db') \<Longrightarrow> same_users db db'"
  "roles_update rid n desc db = Inr (r, db') \<Longrightarrow> same_users db db'"
  "roles_delete rid db = Inr db' \<Longrightarrow> same_users db db'"
  by (auto simp: same_users_def roles_create_def roles_update_def roles_delete_def Let_def
      split: if_splits option.splits)

lemma same_users_root_role: "same_users (as_db s) (as_db (snd (setUserRootRole now uid role s)))"
  by (auto simp: setUserRootRole_def Let_def with_db_def split: option.splits sum.splits
      dest!: same_users_stores(1)) (auto simp: same_users_def removeRolesOfTypeForUser_def)

lemma same_users_wipe: "same_users (as_db s) (as_db (wipeUserPermissions uid s))"
  by (simp add: same_users_def wipeUserPermissions_def with_db_def unlinkUserRoles_def unlinkUserGroups_def
      clearUserPersonalAccessTokens_def clearPublicSignupUserTokens_def)

lemma same_users_custom_roles:
  "same_users (as_db s) (as_db (snd (createRole json r s)))"
  "same_users (as_db s) (as_db (snd (updateRole json rid r s)))"
  "deleteRole rid who uid s = Inr s' \<Longrightarrow> same_users (as_db s) (as_db s')"
proof -
  show "same_users (as_db s) (as_db (snd (createRole json r s)))"
    by (auto simp: createRole_def Let_def with_db_def bindR_Inr_iff split: sum.splits option.splits
        dest!: same_users_roles same_users_permissions) (auto simp: same_users_def)
  show "same_users (as_db s) (as_db (snd (updateRole json rid r s)))"
    by (auto simp: updateRole_def Let_def with_db_def bindR_Inr_iff wipePermissionsFromRole_def
        split: sum.splits option.splits prod.splits
        dest!: same_users_roles same_users_permissions) (auto simp: same_users_def)
  show "deleteRole rid who uid s = Inr s' \<Longrightarrow> same_users (as_db s) (as_db s')"
    by (auto simp: deleteRole_def Let_def with_db_def bindR_Inr_iff dest!: same_users_roles split: if_splits)
qed

lemma on_db_users:
  assumes "on_db f s = Inr s'" and "\<And>db'. f (as_db s) = Inr db' \<Longrightarrow> same_users (as_db s) db'"
  shows "same_users (as_db s) (as_db s')"
  using assms by (auto simp: on_db_def with_db_def bindR_Inr_iff)

lemma same_users_filters:
  "same_users db (store_removeUserAccess p uid db)" "same_users db (store_removeGroupAccess p gid db)"
  "same_users db (store_removeUserFromRole uid rid p db)" "same_users db (store_removeGroupFromRole gid rid p db)"
  "same_users db (removeRolesForProject p db)"
  by (simp_all add: same_users_def store_removeUserAccess_def store_removeGroupAccess_def
      store_removeUserFromRole_def store_removeGroupFromRole_def removeRolesForProject_def)

lemma access_step_users:
  assumes "access_step s s'"
  shows "same_users (as_db s) (as_db s')"
  using assms
proof cases
  case 1
  then show ?thesis unfolding addUserToRole_def by (rule on_db_users) (rule same_users_stores)
next
  case 2
  then show ?thesis unfolding addGroupToRole_def by (rule on_db_users) (rule same_users_stores)
next
  case 3
  then show ?thesis unfolding addRoleAccessToProject_def by (rule on_db_users) (rule same_users_stores)
next
  case (4 now rs gs us p who)
  then have "on_db (store_addAccessToProject now rs gs us p who) s = Inr s'"
    by (simp add: addAccessToProject_def split: if_splits)
  then show ?thesis by (rule on_db_users) (rule same_users_stores)
next
  case 5
  then show ?thesis unfolding setProjectRolesForUser_def by (rule on_db_users) (rule same_users_stores)
next
  case 6
  then show ?thesis unfolding setProjectRolesForGroup_def by (rule on_db_users) (rule same_users_stores)
next
  case 12
  then show ?thesis unfolding updateUserProjectRole_def by (rule on_db_users) (rule same_users_stores)
next
  case 13
  then show ?thesis unfolding updateGroupProjectRole_def by (rule on_db_users) (rule same_users_stores)
next
  case (14 rid perm env)
  then have "on_db (store_addPermissionsToRole rid [\<lparr>pr_id = None, pr_name = Some perm, pr_environment = None\<rparr>] env) s = Inr s'"
    by (simp add: addPermissionToRole_def split: if_splits)
  then show ?thesis by (rule on_db_users) (rule same_users_permissions)
next
  case (15 rid perm env)
  then have "on_db (store_removePermissionFromRole rid perm env) s = Inr s'"
    by (simp add: removePermissionFromRole_def split: if_splits)
  then show ?thesis by (rule on_db_users) (rule same_users_permissions)
next
  case (17 now owner p)
  then have "s' = s \<or> (\<exists>uid rid. on_db (store_addUserToRole now uid rid p) s = Inr s')"
    by (auto simp: createDefaultProjectRoles_def split: if_splits option.splits)
  then show ?thesis by (auto elim!: on_db_users intro: same_users_stores(1))
next
  case 21
  then show ?thesis by (rule same_users_custom_roles)
qed (simp_all add: removeUserAccess_def removeGroupAccess_def removeUserFromRole_def removeGroupFromRole_def
    removeDefaultProjectRoles_def with_db_def same_users_filters same_users_root_role same_users_wipe
    same_users_custom_roles)


section \<open>The invariant\<close>

definition account_ids :: "account_row list \<Rightarrow> int set" where
  "account_ids us = ur_id ` set us"

definition lower_email :: "account_row \<Rightarrow> bool" where
  "lower_email r = (map_option to_lower (ur_email r) = ur_email r)"

definition users_ok :: "account_row list \<Rightarrow> int \<Rightarrow> bool" where
  "users_ok us n =
     (distinct (map ur_id us) \<and> (\<forall>r\<in>set us. ur_id r < n \<and> ur_id r \<noteq> 0) \<and> 0 < n \<and>
      distinct_column ur_username us \<and> distinct_column ur_email us \<and>
      (\<forall>r\<in>set us. lower_email r) \<and>
      (\<forall>r\<in>set us. ur_deleted_at r \<noteq> None \<longrightarrow> ur_username r = None \<and> ur_email r = None))"

text \<open>The rows that refer to users, and their keys.\<close>

definition resets_ok :: "reset_row list \<Rightarrow> int set \<Rightarrow> bool" where
  "resets_ok ts ids = (distinct (map rk_token ts) \<and> rk_user ` set ts \<subseteq> ids)"

definition pats_ok :: "pat_row list \<Rightarrow> int \<Rightarrow> int set \<Rightarrow> bool" where
  "pats_ok ps n ids = (distinct (map pt_id ps) \<and> (\<forall>p\<in>set ps. pt_id p < n) \<and> pt_user ` set ps \<subseteq> ids)"

definition signups_ok :: "signup_row list \<Rightarrow> (string \<times> int) list \<Rightarrow> int set \<Rightarrow> int set \<Rightarrow> bool" where
  "signups_ok ts us roles ids =
     (distinct (map sg_secret ts) \<and> sg_role ` set ts \<subseteq> roles \<and>
      distinct us \<and> fst ` set us \<subseteq> sg_secret ` set ts \<and> snd ` set us \<subseteq> ids)"

definition sessions_ok :: "session_row list \<Rightarrow> bool" where
  "sessions_ok ss = distinct (map se_sid ss)"

definition role_ids :: "accounts \<Rightarrow> int set" where
  "role_ids s = ro_id ` set (ac_roles (as_db (aw_access s)))"

definition accounts_ok :: "accounts \<Rightarrow> bool" where
  "accounts_ok s =
     (users_ok (aw_users s) (aw_next_user s) \<and> resets_ok (aw_resets s) (account_ids (aw_users s)) \<and>
      pats_ok (aw_pats s) (aw_next_pat s) (account_ids (aw_users s)) \<and> sessions_ok (aw_sessions s) \<and>
      signups_ok (aw_signups s) (aw_signup_users s) (role_ids s) (account_ids (aw_users s)) \<and>
      access_ok (as_db (access_view s)))"

lemmas accounts_ok_parts = users_ok_def resets_ok_def pats_ok_def signups_ok_def sessions_ok_def

text \<open>What access control needs of the users is the set of their ids.\<close>

definition view_users :: "accounts \<Rightarrow> int set" where
  "view_users s = us_id ` set (map access_row (aw_users s))"

lemma view_users_ids [simp]: "us_id ` access_row ` A = ur_id ` A"
  by (simp add: image_image access_row_def)

lemma access_view_ok:
  "access_ok (as_db (access_view s)) =
     access_ok ((as_db (aw_access s))\<lparr>ac_users := map access_row (aw_users s)\<rparr>)"
  by (simp add: access_view_def with_db_def access_ok_def)

lemma access_ok_users:
  assumes "access_ok (db\<lparr>ac_users := us\<rparr>)" and "us_id ` set us \<subseteq> us_id ` set us'"
  shows "access_ok (db\<lparr>ac_users := us'\<rparr>)"
  using assms by (auto simp: access_ok_def)

text \<open>Growing the set of users keeps what refers to it.\<close>

lemma accounts_ok_users:
  assumes "accounts_ok s" and "users_ok us n" and "account_ids (aw_users s) \<subseteq> account_ids us"
  shows "accounts_ok (s\<lparr>aw_users := us, aw_next_user := n\<rparr>)"
proof -
  have "access_ok (as_db (access_view (s\<lparr>aw_users := us, aw_next_user := n\<rparr>)))"
    using assms access_ok_users [of "map access_row (aw_users s)" "as_db (aw_access s)" "map access_row us"]
    by (simp add: accounts_ok_def access_view_ok account_ids_def)
  with assms show ?thesis
    by (auto simp: accounts_ok_def resets_ok_def pats_ok_def signups_ok_def role_ids_def)
qed

lemma accounts_ok_frame:
  assumes "accounts_ok s" and "aw_users s' = aw_users s" and "aw_next_user s' = aw_next_user s"
    and "aw_access s' = aw_access s"
    and "resets_ok (aw_resets s') (account_ids (aw_users s))" and "pats_ok (aw_pats s') (aw_next_pat s') (account_ids (aw_users s))"
    and "sessions_ok (aw_sessions s')"
    and "signups_ok (aw_signups s') (aw_signup_users s') (role_ids s) (account_ids (aw_users s))"
  shows "accounts_ok s'"
  using assms by (simp add: accounts_ok_def access_view_ok role_ids_def)


section \<open>Writes to users\<close>

lemma distinct_column_map:
  assumes "\<And>r. r \<in> set us \<Longrightarrow> f (g r) = f r"
  shows "distinct_column f (map g us) = distinct_column f us"
proof -
  have "List.map_filter f (map g us) = List.map_filter f us"
    using assms by (induction us) (auto simp: map_filter_simps split: option.splits)
  then show ?thesis by (simp add: distinct_column_def)
qed

lemma set_map_filter_col: "x \<in> set (List.map_filter f us) \<longleftrightarrow> (\<exists>r\<in>set us. f r = Some x)"
  by (auto simp: List.map_filter_def) force

lemma distinct_column_clear:
  assumes "distinct_column f us" and "\<And>r. r \<in> set us \<Longrightarrow> f (g r) = f r \<or> f (g r) = None"
  shows "distinct_column f (map g us)"
  using assms
proof (induction us)
  case (Cons r us)
  have sub: "set (List.map_filter f (map g us)) \<subseteq> set (List.map_filter f us)"
    using Cons.prems(2) by (auto simp: set_map_filter_col) (metis option.distinct(1))+
  have "distinct_column f (map g us)"
    using Cons by (simp add: distinct_column_def map_filter_simps split: option.splits)
  then show ?case
    using Cons.prems(1) Cons.prems(2) [of r] sub [THEN subsetD]
    by (auto simp: distinct_column_def map_filter_simps split: option.splits)
qed simp

lemma distinct_column_inj:
  "distinct_column f us \<Longrightarrow> r \<in> set us \<Longrightarrow> r' \<in> set us \<Longrightarrow> f r = Some x \<Longrightarrow> f r' = Some x \<Longrightarrow> r = r'"
  by (induction us) (auto simp: distinct_column_def map_filter_simps set_map_filter_col split: option.splits)

lemma users_ok_map:
  assumes ok: "users_ok us n"
    and ids: "\<And>r. ur_id (g r) = ur_id r"
    and username: "\<And>r. r \<in> set us \<Longrightarrow> ur_username (g r) = ur_username r \<or> ur_username (g r) = None"
    and email: "\<And>r. r \<in> set us \<Longrightarrow> ur_email (g r) = ur_email r \<or> ur_email (g r) = None"
    and gone: "\<And>r. r \<in> set us \<Longrightarrow> ur_deleted_at (g r) \<noteq> None \<Longrightarrow>
      ur_deleted_at r \<noteq> None \<or> ur_username (g r) = None \<and> ur_email (g r) = None"
  shows "users_ok (map g us) n"
proof -
  have "distinct_column ur_username (map g us)" "distinct_column ur_email (map g us)"
    using ok by (simp_all add: users_ok_def distinct_column_clear username email)
  moreover have "map ur_id (map g us) = map ur_id us" by (simp add: ids)
  moreover have "lower_email r" if "r \<in> set (map g us)" for r
    using that ok email by (fastforce simp: users_ok_def lower_email_def)
  moreover have "ur_username r = None \<and> ur_email r = None" if "r \<in> set (map g us)" "ur_deleted_at r \<noteq> None" for r
    using that ok username email gone by (fastforce simp: users_ok_def)
  ultimately show ?thesis using ok by (auto simp: users_ok_def ids comp_def)
qed

lemma account_ids_map [simp]: "(\<And>r. ur_id (g r) = ur_id r) \<Longrightarrow> account_ids (map g us) = account_ids us"
  by (auto simp: account_ids_def image_image)


lemma map_users_ok:
  assumes "accounts_ok s" and "\<And>r. ur_id (f r) = ur_id r" and "\<And>r. ur_username (f r) \<in> {ur_username r, None}"
    and "\<And>r. ur_email (f r) \<in> {ur_email r, None}"
    and "\<And>r. ur_deleted_at (f r) = ur_deleted_at r \<or> ur_username (f r) = None \<and> ur_email (f r) = None"
  shows "accounts_ok (map_users p f s)"
proof -
  let ?g = "\<lambda>r. if p r then f r else r"
  have "users_ok (map ?g (aw_users s)) (aw_next_user s)"
  proof (rule users_ok_map)
    show "users_ok (aw_users s) (aw_next_user s)" using assms(1) by (simp add: accounts_ok_def)
    fix r
    show "ur_id (?g r) = ur_id r" "ur_username (?g r) = ur_username r \<or> ur_username (?g r) = None"
      "ur_email (?g r) = ur_email r \<or> ur_email (?g r) = None"
      using assms(2,3,4) [of r] by auto
    show "ur_deleted_at (?g r) \<noteq> None \<Longrightarrow>
        ur_deleted_at r \<noteq> None \<or> ur_username (?g r) = None \<and> ur_email (?g r) = None"
      using assms(5) [of r] by (auto split: if_splits)
  qed
  moreover have "account_ids (map ?g (aw_users s)) = account_ids (aw_users s)"
    using assms(2) by (simp add: account_ids_map)
  ultimately show ?thesis
    using accounts_ok_users [OF assms(1), of "map ?g (aw_users s)" "aw_next_user s"] by (simp add: map_users_def)
qed

end
