(* ===== verification/AccountInvariants.thy ===== *)
theory AccountInvariants
  imports AccountFacts
begin

text \<open>
  Invariants of accounts: what a predicate on the state must survive (the writes to the tables at one
  time \<open>now\<close>), as a locale, from which every operation of the services keeps it; the steps of the system
  at a time, and its runs, on which the clock does not go back.
\<close>

section \<open>Steps and runs\<close>

text \<open>
  The operations of the services, and the statements of a password reset one by one, so that requests
  interleave in a run.
\<close>

inductive account_step :: "account_config \<Rightarrow> int \<Rightarrow> accounts \<Rightarrow> accounts \<Rightarrow> bool"
  for cfg :: account_config and now :: int where
  "account_step cfg now s (snd (createUser cfg now d who s))"
| "account_step cfg now s (snd (updateUser cfg now i name email role who s))"
| "account_step cfg now s (snd (deleteUser cfg now i who s))"
| "account_step cfg now s (snd (initAdminUser cfg now opts s))"
| "account_step cfg now s (snd (loginUser cfg now login password s))"
| "account_step cfg now s (snd (loginUserSSO cfg now mail name role auto s))"
| "account_step cfg now s (snd (login_handler cfg now sid expires login password s))"
| "account_step cfg now s (snd (sessions_delete sid s))"
| "account_step cfg now s (snd (deleteSessionsForUser i s))"
| "account_step cfg now s (snd (changePassword cfg now i password s))"
| "account_step cfg now s (snd (changeMyPassword cfg now i password confirm old s))"
| "account_step cfg now s (snd (resetPassword cfg now token password s))"
| "account_step cfg now s (snd (useToken now i token s))"
| "account_step cfg now s (snd (createResetPasswordEmail cfg now mail who s))"
| "account_step cfg now s (snd (createNewUserUrl cfg now i creator s))"
| "account_step cfg now s (snd (reset_timer_fires i s))"
| "account_step cfg now s (snd (deleteExpired now s))"
| "account_step cfg now s (snd (createPat cfg now d e i who s))"
| "account_step cfg now s (snd (deletePat p i who s))"
| "account_step cfg now s (snd (patMiddleware cfg now header s))"
| "account_step cfg now s (snd (pats_updateLastSeen now s))"
| "account_step cfg now s (snd (createNewPublicSignupToken cfg now name e creator uid s))"
| "account_step cfg now s (snd (signup_update cfg secret e enabled creator uid s))"
| "account_step cfg now s (snd (invite_handler cfg now secret nu s))"
| "access_step (access_view s) a \<Longrightarrow> account_step cfg now s (with_access s a)"
| "account_step cfg now s (snd (createGroup g us creator uid s))"
| "account_step cfg now s (snd (updateGroup i g members creator uid s))"
| "account_step cfg now s (snd (deleteGroup i creator uid s))"
| "account_step cfg now s (snd (syncExternalGroups i names from id' s))"

inductive account_run :: "account_config \<Rightarrow> int \<Rightarrow> accounts \<Rightarrow> int \<Rightarrow> accounts \<Rightarrow> bool" for cfg :: account_config where
  run_start: "account_run cfg t s t s"
| run_step: "account_run cfg t s t' s' \<Longrightarrow> t' \<le> now \<Longrightarrow> account_step cfg now s' s'' \<Longrightarrow> account_run cfg t s now s''"

lemma account_run_time: "account_run cfg t s t' s' \<Longrightarrow> t \<le> t'"
  by (induction rule: account_run.induct) auto


section \<open>What an invariant must survive\<close>

locale account_invariant =
  fixes cfg :: account_config and now :: int and I :: "accounts \<Rightarrow> bool"
  assumes write_users: "preserves I (users_update cfg i f)" "preserves I (users_insert cfg now f)"
      "preserves I (users_delete now i)" "preserves I (setPasswordHash i h)" "preserves I (successfullyLogin now u)"
    and write_sessions: "preserves I (deleteSessionsForUser i)" "preserves I (sessions_delete sid)"
      "preserves I (put_session now sid expires i)"
    and write_resets: "preserves I (createToken cfg now i creator delta)" "preserves I (useToken now i token)"
      "preserves I (expireExistingTokensForUser now i)" "preserves I (deleteExpired now)"
    and write_pats: "preserves I (pats_create cfg now d e secret i)" "preserves I (deleteForUser p i)"
      "preserves I (pats_updateLastSeen now)"
    and write_signups: "preserves I (signups_insert cfg t)" "preserves I (signups_update cfg secret e' enabled)"
      "preserves I (signups_addTokenUser cfg secret i)"
    and write_memory: "preserves I draw" "preserves I (add_event ev)" "preserves I (addPATSeen secret)"
      "preserves I (send_reset_mail u link)" "preserves I (reset_timer_fires i)"
    and access_changes: "I s \<Longrightarrow> access_step (access_view s) a \<Longrightarrow> I (with_access s a)"
    and group_changes: "I s \<Longrightarrow> group_step (group_view s) db \<Longrightarrow> I (with_access s (with_db (access_view s) db))"
begin

lemmas writes = write_users write_sessions write_resets write_pats write_signups write_memory

lemma on_access_keeps: "(\<And>a. access_step a (snd (f a))) \<Longrightarrow> preserves I (on_access f)"
  using access_changes by (auto simp: preserves_def on_access_def split: prod.splits) (metis snd_conv)

lemma root_role_keeps: "preserves I (on_access (setUserRootRole now i role))"
  by (rule on_access_keeps) (rule access_step.intros)

lemma wipe_keeps: "preserves I (on_access (\<lambda>a. (Inr (), wipeUserPermissions i a)))"
  by (rule on_access_keeps) (simp add: access_step.intros(16))

lemmas keeps = preserves_intros writes root_role_keeps wipe_keeps

lemma hash_password_keeps: "preserves I (hash_password cfg p)"
  unfolding hash_password_def by (intro keeps)

lemma createUser_keeps: "preserves I (createUser cfg now d who)"
  unfolding createUser_def by (intro keeps hash_password_keeps)

lemma updateUser_keeps: "preserves I (updateUser cfg now i name email role who)"
  unfolding updateUser_def Let_def by (intro keeps)

lemma deleteUser_keeps: "preserves I (deleteUser cfg now i who)"
  unfolding deleteUser_def by (intro keeps)

lemma initAdminUser_keeps: "preserves I (initAdminUser cfg now opts)"
  unfolding initAdminUser_def by (cases "initial_admin opts") (simp, intro keeps hash_password_keeps)

lemma loginUser_keeps: "preserves I (loginUser cfg now login p)"
proof -
  have "preserves I (case uh of
      (Some u, Some h) \<Rightarrow> if h \<noteq> [] \<and> cf_compare cfg p h then thenS (successfullyLogin now u) (returnS u)
                          else failS (login_failed cfg)
    | _ \<Rightarrow> failS (login_failed cfg))" for uh
    by (cases uh; cases "fst uh"; cases "snd uh") (auto intro!: keeps)
  then show ?thesis unfolding loginUser_def by (intro keeps)
qed

lemma loginUserSSO_keeps: "preserves I (loginUserSSO cfg now email name role auto)"
  unfolding loginUserSSO_def by (intro keeps createUser_keeps)

lemma login_handler_keeps: "preserves I (login_handler cfg now sid expires login p)"
  unfolding login_handler_def by (intro keeps loginUser_keeps)

lemma changePassword_keeps: "preserves I (changePassword cfg now i p)"
  unfolding changePassword_def by (intro keeps hash_password_keeps)

lemma changeMyPassword_keeps: "preserves I (changeMyPassword cfg now i p c old)"
  unfolding changeMyPassword_def changePasswordWithVerification_def by (intro keeps changePassword_keeps)

lemma resetPassword_keeps: "preserves I (resetPassword cfg now token p)"
  unfolding resetPassword_def useAccessToken_def by (intro keeps changePassword_keeps)

lemma createUrl_keeps:
  "preserves I (createResetPasswordUrl cfg now i creator)" "preserves I (createNewUserUrl cfg now i creator)"
  unfolding createResetPasswordUrl_def createNewUserUrl_def createResetUrl_def by (intro keeps)+

lemma createResetPasswordEmail_keeps: "preserves I (createResetPasswordEmail cfg now e u)"
  unfolding createResetPasswordEmail_def by (intro keeps createUrl_keeps)

lemma pats_keep:
  "preserves I (createPat cfg now d e u who)" "preserves I (deletePat p u who)" "preserves I (patMiddleware cfg now header)"
  unfolding createPat_def deletePat_def patMiddleware_def by (intro keeps)+

lemma signups_keep:
  "preserves I (createNewPublicSignupToken cfg now name e creator uid)"
  "preserves I (signup_update cfg secret e' enabled creator uid)" "preserves I (invite_handler cfg now secret nu)"
  unfolding createNewPublicSignupToken_def signup_update_def invite_handler_def addTokenUser_def
  by (intro keeps createUser_keeps)+

lemma group_write_keeps: "(\<And>db. group_step db (snd (f db))) \<Longrightarrow> preserves I (group_write f)"
  using group_changes by (auto simp: preserves_def group_write_def split: prod.splits) (metis snd_conv)

lemma groups_keep:
  "preserves I (createGroup g us creator uid)" "preserves I (updateGroup i g members creator uid)"
  "preserves I (deleteGroup i creator uid)" "preserves I (syncExternalGroups i names from id')"
  unfolding createGroup_def updateGroup_def updateGroupUsers_def deleteGroup_def syncExternalGroups_def Let_def
    group_ask_def group_try_def
  by (intro keeps group_write_keeps group_writes)+

lemma preserves_snd: "preserves I m \<Longrightarrow> I s \<Longrightarrow> I (snd (m s))"
  by (simp add: preserves_def)

lemma step_keeps:
  assumes "account_step cfg now s s'" and "I s"
  shows "I s'"
  using assms(1)
proof cases
  case (25 a)
  then show ?thesis using assms(2) by (simp add: access_changes)
qed (simp_all add: preserves_snd [OF _ assms(2)] createUser_keeps updateUser_keeps deleteUser_keeps
    initAdminUser_keeps loginUser_keeps loginUserSSO_keeps login_handler_keeps writes changePassword_keeps
    changeMyPassword_keeps resetPassword_keeps createResetPasswordEmail_keeps createUrl_keeps pats_keep signups_keep groups_keep)

end

end
