(* ===== verification/AccountSteps.thy ===== *)
theory AccountSteps
  imports AccountInvariants
begin

text \<open>
  The invariants of accounts, as interpretations of \<open>account_invariant\<close>: the consistency of the tables,
  a deleted user stays deleted, a dead reset token stays dead, and a user has one active reset token at
  most; with what they say of runs.
\<close>

section \<open>Users\<close>

lemma checked_users_ok:
  assumes "\<And>s. accounts_ok s \<Longrightarrow> check_unique cfg (aw_users (f s)) = Inr () \<Longrightarrow> accounts_ok (f s)"
  shows "preserves accounts_ok (checked_users cfg f)"
  using assms by (auto simp: preserves_def checked_users_def Let_def split: sum.splits)

lemma check_unique_iff:
  "check_unique cfg us = Inr u \<longleftrightarrow> distinct_column ur_username us \<and> distinct_column ur_email us"
  by (simp add: check_unique_def)

lemma write_fields_simps [simp]:
  "ur_id (write_fields f r) = ur_id r" "ur_deleted_at (write_fields f r) = ur_deleted_at r"
  "ur_is_service (write_fields f r) = ur_is_service r" "ur_is_system (write_fields f r) = ur_is_system r"
  "ur_password_hash (write_fields f r) = ur_password_hash r"
  by (simp_all add: write_fields_def)

lemma to_lower_idem [simp]: "to_lower (to_lower x) = to_lower x"
proof -
  have "lower_char (lower_char c) = lower_char c" for c
    by (simp add: lower_char_def Let_def)
  then show ?thesis by (simp add: to_lower_def)
qed

lemma write_fields_lower: "lower_email r \<Longrightarrow> lower_email (write_fields (mapUserToColumns f) r)"
  by (simp add: lower_email_def write_fields_def mapUserToColumns_def safeToLower_def option.map_comp comp_def)

lemma users_update_ok [preserves_intros]: "preserves accounts_ok (users_update cfg i f)"
proof -
  let ?p = "\<lambda>r. activeUsers r \<and> ur_id r = i" and ?w = "write_fields (mapUserToColumns f)"
  have "accounts_ok (map_users ?p ?w s)"
    if ok: "accounts_ok s" and uniq: "check_unique cfg (aw_users (map_users ?p ?w s)) = Inr ()" for s
  proof -
    let ?us = "map (\<lambda>r. if ?p r then ?w r else r) (aw_users s)"
    have u: "users_ok (aw_users s) (aw_next_user s)" using ok by (simp add: accounts_ok_def)
    have ids: "map ur_id ?us = map ur_id (aw_users s)" by (simp add: if_distrib [of ur_id] comp_def)
    have "distinct (map ur_id ?us)" unfolding ids using u by (simp add: users_ok_def)
    moreover have "lower_email r" if "r \<in> set ?us" for r
      using that u write_fields_lower by (auto simp: users_ok_def)
    moreover have "ur_username r = None \<and> ur_email r = None" if "r \<in> set ?us" "ur_deleted_at r \<noteq> None" for r
      using that u by (auto simp: users_ok_def activeUsers_def split: if_splits)
    ultimately have "users_ok ?us (aw_next_user s)"
      using u uniq by (auto simp: users_ok_def check_unique_iff map_users_def)
    moreover have "account_ids ?us = account_ids (aw_users s)" by (simp add: account_ids_map)
    ultimately show ?thesis
      using accounts_ok_users [OF ok, of ?us "aw_next_user s"] by (simp add: map_users_def)
  qed
  then show ?thesis
    unfolding users_update_def Let_def by (intro preserves_intros checked_users_ok) blast+
qed

lemma inserted_row_simps [simp]:
  "ur_id (inserted_row now f i) = i" "ur_deleted_at (inserted_row now f i) = None"
  "ur_is_service (inserted_row now f i) = False" "ur_is_system (inserted_row now f i) = False"
  "ur_password_hash (inserted_row now f i) = None"
  by (simp_all add: inserted_row_def)

lemma inserted_row_columns:
  "ur_username (inserted_row now f i) = uf_username f"
  "ur_email (inserted_row now f i) = safeToLower (uf_email f)" "ur_name (inserted_row now f i) = uf_name f"
  by (auto simp: inserted_row_def write_fields_def mapUserToColumns_def safeToLower_def)

lemma inserted_row_lower [simp]: "lower_email (inserted_row now f i)"
  by (simp add: lower_email_def inserted_row_columns safeToLower_def option.map_comp comp_def)

lemma next_user_ok:
  assumes "accounts_ok s"
  shows "accounts_ok (s\<lparr>aw_next_user := aw_next_user s + 1\<rparr>)"
proof -
  have "users_ok (aw_users s) (aw_next_user s + 1)" using assms by (auto simp: accounts_ok_def users_ok_def)
  then show ?thesis using accounts_ok_users [OF assms, of "aw_users s" "aw_next_user s + 1"] by simp
qed

lemma insert_row_ok:
  assumes ok: "accounts_ok s" and r: "ur_id r = aw_next_user s" "lower_email r" "ur_deleted_at r = None"
    and uniq: "check_unique cfg (aw_users s @ [r]) = Inr ()"
  shows "accounts_ok (s\<lparr>aw_next_user := aw_next_user s + 1, aw_users := aw_users s @ [r]\<rparr>)"
proof -
  have u: "users_ok (aw_users s) (aw_next_user s)" using ok by (simp add: accounts_ok_def)
  then have "aw_next_user s \<notin> ur_id ` set (aw_users s)" by (auto simp: users_ok_def)
  then have "users_ok (aw_users s @ [r]) (aw_next_user s + 1)"
    using u uniq r by (auto simp: users_ok_def check_unique_iff)
  then have "accounts_ok (s\<lparr>aw_users := aw_users s @ [r], aw_next_user := aw_next_user s + 1\<rparr>)"
    using accounts_ok_users [OF ok, of "aw_users s @ [r]" "aw_next_user s + 1"]
    by (auto simp: account_ids_def)
  then show ?thesis by (cases s) simp
qed

lemma users_insert_ok [preserves_intros]: "preserves accounts_ok (users_insert cfg now f)"
  unfolding users_insert_def
  by (intro preserves_askS)
    (auto simp: thenS_def checked_users_def bindS_def next_user_ok insert_row_ok split: sum.splits prod.splits)

lemma users_upsert_ok [preserves_intros]: "preserves accounts_ok (users_upsert cfg now f)"
  unfolding users_upsert_def by (intro preserves_intros)

lemma user_writes_ok [preserves_intros]:
  "preserves accounts_ok (users_delete now i)" "preserves accounts_ok (accounts_delete now i)"
  "preserves accounts_ok (setPasswordHash i h)" "preserves accounts_ok (incLoginAttempts u)"
  "preserves accounts_ok (successfullyLogin now u)"
  unfolding users_delete_def accounts_delete_def setPasswordHash_def incLoginAttempts_def successfullyLogin_def
  by (intro preserves_intros map_users_ok; simp add: delete_user_row_def)+


section \<open>Access control\<close>

lemma with_access_ok:
  assumes ok: "accounts_ok s" and a: "access_ok (as_db a)" "same_users (as_db (access_view s)) (as_db a)"
  shows "accounts_ok (with_access s a)"
proof -
  let ?t = "with_access s a"
  have "map access_row (aw_users s) = ac_users (as_db a)"
    using a(2) by (simp add: same_users_def access_view_def with_db_def)
  moreover have "access_ok (as_db (access_view ?t)) = access_ok ((as_db a)\<lparr>ac_users := map access_row (aw_users s)\<rparr>)"
    by (simp add: access_view_ok with_access_def Let_def)
  ultimately have "access_ok (as_db (access_view ?t))"
    using a(1) by simp
  moreover have "distinct (map pt_id (filter P (aw_pats s)))" "distinct (map sg_secret (filter Q (aw_signups s)))" for P Q
    using ok by (simp_all add: accounts_ok_def pats_ok_def signups_ok_def distinct_map_filter)
  ultimately show ?thesis
    using ok by (auto simp: accounts_ok_def pats_ok_def signups_ok_def role_ids_def with_access_def Let_def)
qed

lemma on_access_ok:
  assumes "\<And>a. access_ok (as_db a) \<Longrightarrow> access_ok (as_db (snd (f a))) \<and> same_users (as_db a) (as_db (snd (f a)))"
  shows "preserves accounts_ok (on_access f)"
  using assms with_access_ok
  by (fastforce simp: preserves_def on_access_def accounts_ok_def split: prod.splits)

lemma access_operations_ok [preserves_intros]:
  "preserves accounts_ok (on_access (setUserRootRole now i role))"
  "preserves accounts_ok (on_access (\<lambda>a. (Inr (), wipeUserPermissions i a)))"
  by (auto intro!: on_access_ok simp: same_users_root_role same_users_wipe setUserRootRole_ok wipeUserPermissions_ok)

lemma access_step_accounts_ok:
  "accounts_ok s \<Longrightarrow> access_step (access_view s) a \<Longrightarrow> accounts_ok (with_access s a)"
  by (rule with_access_ok) (auto simp: accounts_ok_def intro: access_step_ok access_step_users)

lemma group_step_accounts_ok:
  assumes "accounts_ok s" and "group_step (group_view s) db"
  shows "accounts_ok (with_access s (with_db (access_view s) db))"
  using assms group_step_ok group_step_rest
  by (intro with_access_ok) (auto simp: accounts_ok_def group_view_def with_db_def same_users_def)


section \<open>Sessions, tokens, events\<close>

lemma modS_ok:
  assumes "\<And>s. accounts_ok s \<Longrightarrow> aw_users (f s) = aw_users s \<and> aw_next_user (f s) = aw_next_user s \<and> aw_access (f s) = aw_access s"
    and "\<And>s. resets_ok (aw_resets s) (account_ids (aw_users s)) \<Longrightarrow> resets_ok (aw_resets (f s)) (account_ids (aw_users s))"
    and "\<And>s. pats_ok (aw_pats s) (aw_next_pat s) (account_ids (aw_users s)) \<Longrightarrow>
      pats_ok (aw_pats (f s)) (aw_next_pat (f s)) (account_ids (aw_users s))"
    and "\<And>s. sessions_ok (aw_sessions s) \<Longrightarrow> sessions_ok (aw_sessions (f s))"
    and "\<And>s. signups_ok (aw_signups s) (aw_signup_users s) (role_ids s) (account_ids (aw_users s)) \<Longrightarrow>
      signups_ok (aw_signups (f s)) (aw_signup_users (f s)) (role_ids s) (account_ids (aw_users s))"
  shows "preserves accounts_ok (modS f)"
proof (rule preserves_modS)
  fix s
  assume ok: "accounts_ok s"
  then show "accounts_ok (f s)"
    using accounts_ok_frame [OF ok, of "f s"] assms by (simp add: accounts_ok_def)
qed

lemma accounts_okD:
  assumes "accounts_ok s"
  shows "users_ok (aw_users s) (aw_next_user s)" "resets_ok (aw_resets s) (account_ids (aw_users s))"
    "pats_ok (aw_pats s) (aw_next_pat s) (account_ids (aw_users s))" "sessions_ok (aw_sessions s)"
    "signups_ok (aw_signups s) (aw_signup_users s) (role_ids s) (account_ids (aw_users s))"
    "access_ok (as_db (access_view s))"
  using assms by (simp_all add: accounts_ok_def)

lemma resets_ok_map:
  "(\<And>r. rk_token (g r) = rk_token r) \<Longrightarrow> (\<And>r. rk_user (g r) = rk_user r) \<Longrightarrow> resets_ok (map g ts) ids = resets_ok ts ids"
  by (simp add: resets_ok_def comp_def image_image)

lemma pats_ok_map:
  "(\<And>r. pt_id (g r) = pt_id r) \<Longrightarrow> (\<And>r. pt_user (g r) = pt_user r) \<Longrightarrow> pats_ok (map g ts) n ids = pats_ok ts n ids"
  by (simp add: pats_ok_def comp_def image_image)

text \<open>Some fields the invariant does not read.\<close>

lemma accounts_ok_other [simp]:
  "accounts_ok (s\<lparr>aw_draws := n\<rparr>) = accounts_ok s" "accounts_ok (s\<lparr>aw_pats_seen := xs\<rparr>) = accounts_ok s"
  "accounts_ok (s\<lparr>aw_reset_timeouts := is\<rparr>) = accounts_ok s" "accounts_ok (s\<lparr>aw_mails := ms\<rparr>) = accounts_ok s"
  "accounts_ok (s\<lparr>aw_events := es\<rparr>) = accounts_ok s"
  by (simp_all add: accounts_ok_def access_view_ok role_ids_def)

lemma simple_writes_ok [preserves_intros]:
  "preserves accounts_ok draw" "preserves accounts_ok (add_event e)" "preserves accounts_ok (addPATSeen secret)"
  "preserves accounts_ok (reset_timer_fires i)"
  by (simp_all add: preserves_def draw_def add_event_def addPATSeen_def reset_timer_fires_def)

lemma session_writes_ok [preserves_intros]:
  "preserves accounts_ok (deleteSessionsForUser i)" "preserves accounts_ok (sessions_delete sid)"
  "preserves accounts_ok sessions_deleteAll"
  unfolding deleteSessionsForUser_def sessions_delete_def sessions_deleteAll_def
  by (rule modS_ok; simp add: sessions_ok_def distinct_map_filter)+

lemma insertSession_ok [preserves_intros]: "preserves accounts_ok (insertSession cfg now sid i expired)"
proof -
  have "accounts_ok (s\<lparr>aw_sessions := aw_sessions s @ [r]\<rparr>)"
    if "accounts_ok s" "\<not> sessions_exists (se_sid r) s" for s and r :: session_row
    using accounts_okD [OF that(1)] that(2)
    by (intro accounts_ok_frame [OF that(1)]) (auto simp: sessions_ok_def sessions_exists_def list_ex_iff)
  then show ?thesis
    unfolding insertSession_def
    by (intro preserves_askS) (auto simp: thenS_def bindS_def throw_if_def split: if_splits)
qed

lemma reset_writes_ok [preserves_intros]:
  "preserves accounts_ok (useToken now i token)" "preserves accounts_ok resets_deleteAll"
  "preserves accounts_ok (deleteExpired now)" "preserves accounts_ok (expireExistingTokensForUser now i)"
  "preserves accounts_ok (resets_delete token)"
  unfolding useToken_def resets_deleteAll_def deleteExpired_def expireExistingTokensForUser_def resets_delete_def
  by (intro preserves_thenS preserves_pure modS_ok;
      (simp add: resets_ok_map)?; (simp add: resets_ok_def distinct_map_filter image_subset_iff)?)+

lemma resets_insert_ok [preserves_intros]: "preserves accounts_ok (resets_insert cfg now token i expires by')"
proof -
  have "accounts_ok (s\<lparr>aw_resets := aw_resets s @ [r]\<rparr>)"
    if "accounts_ok s" "rk_token r \<notin> rk_token ` set (aw_resets s)" "rk_user r \<in> ur_id ` set (aw_users s)"
    for s and r :: reset_row
    using accounts_okD [OF that(1)] that(2,3)
    by (intro accounts_ok_frame [OF that(1)]) (auto simp: resets_ok_def account_ids_def)
  then show ?thesis
    unfolding resets_insert_def Let_def
    by (intro preserves_askS) (auto simp: thenS_def bindS_def throw_if_def split: if_splits)
qed

lemma pat_writes_ok [preserves_intros]:
  "preserves accounts_ok (pats_delete i)" "preserves accounts_ok (deleteForUser i u)"
  "preserves accounts_ok pats_deleteAll" "preserves accounts_ok (pats_markSeenAt now secrets)"
  unfolding pats_delete_def deleteForUser_def pats_deleteAll_def pats_markSeenAt_def
  by (rule modS_ok; (simp add: pats_ok_map)?; (auto simp: pats_ok_def distinct_map_filter)?)+

lemma pats_create_ok [preserves_intros]: "preserves accounts_ok (pats_create cfg now d e secret i)"
proof -
  have number: "accounts_ok (s\<lparr>aw_next_pat := aw_next_pat s + 1\<rparr>)" if "accounts_ok s" for s
    using accounts_okD [OF that] by (intro accounts_ok_frame [OF that]) (auto simp: pats_ok_def)
  have "accounts_ok (s\<lparr>aw_next_pat := aw_next_pat s + 1, aw_pats := aw_pats s @ [r]\<rparr>)"
    if "accounts_ok s" "pt_id r = aw_next_pat s" "pt_user r \<in> ur_id ` set (aw_users s)"
    for s and r :: pat_row
    using accounts_okD [OF that(1)] that(2,3)
    by (intro accounts_ok_frame [OF that(1)]) (auto simp: pats_ok_def account_ids_def)
  with number show ?thesis
    unfolding pats_create_def Let_def
    by (intro preserves_askS) (auto simp: thenS_def bindS_def throw_if_def split: if_splits)
qed


lemma createToken_ok [preserves_intros]: "preserves accounts_ok (createToken cfg now i creator delta)"
  unfolding createToken_def by (intro preserves_intros)

lemma put_session_ok [preserves_intros]: "preserves accounts_ok (put_session now sid expires i)"
proof -
  have "accounts_ok (s\<lparr>aw_sessions := filter (\<lambda>r. se_sid r \<noteq> se_sid x) (aw_sessions s) @ [x]\<rparr>)"
    if "accounts_ok s" for s and x :: session_row
    using accounts_okD [OF that]
    by (intro accounts_ok_frame [OF that]) (auto simp: sessions_ok_def distinct_map_filter)
  from this [of _ "\<lparr>se_sid = sid, se_user = Some i, se_created_at = now, se_expired = Some expires\<rparr>"]
  show ?thesis unfolding put_session_def by (intro preserves_modS) simp
qed

lemma memory_ok [preserves_intros]:
  "preserves accounts_ok (send_reset_mail u link)" "preserves accounts_ok (pats_updateLastSeen now)"
  unfolding send_reset_mail_def pats_updateLastSeen_def by (intro preserves_intros; simp)+

lemma signups_ok_map:
  "(\<And>t. sg_secret (g t) = sg_secret t) \<Longrightarrow> (\<And>t. sg_role (g t) = sg_role t) \<Longrightarrow>
     signups_ok (map g ts) us roles ids = signups_ok ts us roles ids"
  by (simp add: signups_ok_def comp_def image_image)

lemma signup_writes_ok [preserves_intros]:
  "preserves accounts_ok (signups_insert cfg t)" "preserves accounts_ok (signups_update cfg secret e enabled)"
  "preserves accounts_ok (signups_addTokenUser cfg secret i)"
proof -
  have "accounts_ok (s\<lparr>aw_signups := aw_signups s @ [t]\<rparr>)"
    if "accounts_ok s" "\<not> signups_exists (sg_secret t) s" "sg_role t \<in> role_ids s" for s
    using accounts_okD [OF that(1)] that(2,3)
    by (intro accounts_ok_frame [OF that(1)]) (auto simp: signups_ok_def signups_exists_def list_ex_iff)
  then show "preserves accounts_ok (signups_insert cfg t)"
    unfolding signups_insert_def
    by (intro preserves_askS) (auto simp: thenS_def bindS_def throw_if_def role_ids_def split: if_splits)
  have "accounts_ok (s\<lparr>aw_signup_users := aw_signup_users s @ [(secret, i)]\<rparr>)"
    if "accounts_ok s" "signups_exists secret s" "i \<in> ur_id ` set (aw_users s)" "(secret, i) \<notin> set (aw_signup_users s)" for s
    using accounts_okD [OF that(1)] that(2-)
    by (intro accounts_ok_frame [OF that(1)]) (auto simp: signups_ok_def signups_exists_def list_ex_iff account_ids_def)
  then show "preserves accounts_ok (signups_addTokenUser cfg secret i)"
    unfolding signups_addTokenUser_def
    by (intro preserves_askS) (auto simp: thenS_def bindS_def throw_if_def split: if_splits)
  let ?g = "\<lambda>t. if sg_secret t = secret
    then t\<lparr>sg_expires_at := default (sg_expires_at t) e, sg_enabled := default (sg_enabled t) enabled\<rparr> else t"
  have "signups_ok (map ?g ts) us roles ids = signups_ok ts us roles ids" for ts us roles ids
    by (rule signups_ok_map) auto
  then have "accounts_ok (s\<lparr>aw_signups := map ?g (aw_signups s)\<rparr>)" if "accounts_ok s" for s
    using accounts_okD [OF that] by (intro accounts_ok_frame [OF that]) simp_all
  then show "preserves accounts_ok (signups_update cfg secret e enabled)"
    unfolding signups_update_def by (intro preserves_intros)
qed

interpretation ok: account_invariant cfg now accounts_ok for cfg now
  by unfold_locales (auto intro: preserves_intros access_step_accounts_ok group_step_accounts_ok)

lemma account_run_ok: "account_run cfg t s t' s' \<Longrightarrow> accounts_ok s \<Longrightarrow> accounts_ok s'"
  by (induction rule: account_run.induct) (auto intro: ok.step_keeps)


section \<open>What a write leaves alone\<close>

definition leaves :: "(accounts \<Rightarrow> 'b) \<Rightarrow> 'a account_op \<Rightarrow> bool" where
  "leaves f m = (\<forall>s. f (snd (m s)) = f s)"

named_theorems leaves_intros \<open>rules for what an operation leaves alone\<close>

lemma leaves_pure [leaves_intros]:
  "leaves f (returnS x)" "leaves f (failS e)" "leaves f (askS g)" "leaves f (tryS h)" "leaves f (guardS b e)"
  by (simp_all add: leaves_def)

lemma leaves_modS [leaves_intros]: "(\<And>s. f (g s) = f s) \<Longrightarrow> leaves f (modS g)"
  by (simp add: leaves_def)

lemma leaves_bindS [leaves_intros]: "leaves f m \<Longrightarrow> (\<And>x. leaves f (k x)) \<Longrightarrow> leaves f (bindS m k)"
  unfolding leaves_def bindS_def by (simp add: prod.case_eq_if split: sum.splits)

lemma leaves_thenS [leaves_intros]: "leaves f m \<Longrightarrow> leaves f n \<Longrightarrow> leaves f (thenS m n)"
  by (simp add: thenS_def leaves_bindS)

lemma leaves_whenS [leaves_intros]: "leaves f m \<Longrightarrow> leaves f (whenS b m)"
  by (simp add: whenS_def leaves_pure)

lemma leaves_preserves: "leaves f m \<Longrightarrow> (\<And>s s'. I s \<Longrightarrow> f s' = f s \<Longrightarrow> I s') \<Longrightarrow> preserves I m"
  by (auto simp: leaves_def preserves_def)

lemma leaves_draw [leaves_intros]: "(\<And>s n. f (s\<lparr>aw_draws := n\<rparr>) = f s) \<Longrightarrow> leaves f draw"
  by (simp add: leaves_def draw_def)

definition users_of :: "accounts \<Rightarrow> account_row list \<times> int" where
  "users_of s = (aw_users s, aw_next_user s)"

definition resets_of :: "accounts \<Rightarrow> reset_row list \<times> nat" where
  "resets_of s = (aw_resets s, aw_draws s)"

lemmas write_defs =
  deleteSessionsForUser_def sessions_delete_def put_session_def useToken_def expireExistingTokensForUser_def
  deleteExpired_def createToken_def resets_insert_def pats_create_def deleteForUser_def pats_updateLastSeen_def
  pats_markSeenAt_def signups_insert_def signups_update_def signups_addTokenUser_def add_event_def addPATSeen_def
  send_reset_mail_def reset_timer_fires_def

lemma writes_leave_users:
  "leaves users_of (deleteSessionsForUser i)" "leaves users_of (sessions_delete sid)"
  "leaves users_of (put_session now sid expires i)"
  "leaves users_of (createToken cfg now i creator delta)" "leaves users_of (useToken now i token)"
  "leaves users_of (expireExistingTokensForUser now i)" "leaves users_of (deleteExpired now)"
  "leaves users_of (pats_create cfg now d e secret i)" "leaves users_of (deleteForUser p i)"
  "leaves users_of (pats_updateLastSeen now)"
  "leaves users_of (signups_insert cfg t)" "leaves users_of (signups_update cfg secret e' enabled)"
  "leaves users_of (signups_addTokenUser cfg secret i)"
  "leaves users_of draw" "leaves users_of (add_event ev)" "leaves users_of (addPATSeen secret)"
  "leaves users_of (send_reset_mail u link)" "leaves users_of (reset_timer_fires i)"
  unfolding write_defs Let_def by (intro leaves_intros; simp add: users_of_def)+

lemma leaves_checked: "(\<And>s. f (g s) = f s) \<Longrightarrow> leaves f (checked_users cfg g)"
  by (auto simp: leaves_def checked_users_def Let_def split: sum.splits)

lemma writes_leave_resets:
  "leaves resets_of (users_update cfg i f)" "leaves resets_of (users_insert cfg now f)"
  "leaves resets_of (users_delete now i)" "leaves resets_of (setPasswordHash i h)"
  "leaves resets_of (successfullyLogin now u)"
  "leaves resets_of (deleteSessionsForUser i)" "leaves resets_of (sessions_delete sid)"
  "leaves resets_of (put_session now sid expires i)"
  "leaves resets_of (pats_create cfg now d e secret i)" "leaves resets_of (deleteForUser p i)"
  "leaves resets_of (pats_updateLastSeen now)"
  "leaves resets_of (signups_insert cfg t)" "leaves resets_of (signups_update cfg secret e' enabled)"
  "leaves resets_of (signups_addTokenUser cfg secret i)"
  "leaves resets_of (add_event ev)" "leaves resets_of (addPATSeen secret)"
  "leaves resets_of (send_reset_mail u link)" "leaves resets_of (reset_timer_fires i)"
  unfolding write_defs Let_def users_update_def users_insert_def users_delete_def setPasswordHash_def
    successfullyLogin_def
  by (intro leaves_intros leaves_checked; simp add: resets_of_def map_users_def)+

lemma with_access_leaves [simp]: "users_of (with_access s a) = users_of s" "resets_of (with_access s a) = resets_of s"
  by (simp_all add: with_access_def Let_def users_of_def resets_of_def)


section \<open>A deleted user stays deleted\<close>

definition gone :: "int \<Rightarrow> accounts \<Rightarrow> bool" where
  "gone i s = (i < aw_next_user s \<and> (\<forall>r\<in>set (aw_users s). ur_id r = i \<longrightarrow> ur_deleted_at r \<noteq> None))"

lemma gone_leaves: "leaves users_of m \<Longrightarrow> preserves (gone i) m"
  by (erule leaves_preserves) (auto simp: users_of_def gone_def)

lemma gone_map:
  "(\<And>r. ur_id (f r) = ur_id r) \<Longrightarrow> (\<And>r. ur_deleted_at r \<noteq> None \<Longrightarrow> ur_deleted_at (f r) \<noteq> None) \<Longrightarrow>
     gone i s \<Longrightarrow> gone i (map_users p f s)"
  by (auto simp: gone_def map_users_def)

lemma gone_users:
  "preserves (gone j) (users_update cfg i f)" "preserves (gone j) (users_insert cfg now f)"
  "preserves (gone j) (users_delete now i)" "preserves (gone j) (setPasswordHash i h)"
  "preserves (gone j) (successfullyLogin now u)"
proof -
  have "gone j (map_users p (write_fields (mapUserToColumns f)) s)" if "gone j s" for p s
    by (rule gone_map) (use that in simp_all)
  then have "preserves (gone j) (checked_users cfg (map_users p (write_fields (mapUserToColumns f))))" for p
    by (auto simp: preserves_def checked_users_def Let_def split: sum.splits)
  then show "preserves (gone j) (users_update cfg i f)"
    unfolding users_update_def Let_def by (intro preserves_intros)
  show "preserves (gone j) (users_insert cfg now f)"
    unfolding users_insert_def
    by (intro preserves_askS)
      (auto simp: thenS_def checked_users_def bindS_def gone_def split: sum.splits prod.splits)
  show "preserves (gone j) (users_delete now i)" "preserves (gone j) (setPasswordHash i h)"
    "preserves (gone j) (successfullyLogin now u)"
    unfolding users_delete_def setPasswordHash_def successfullyLogin_def
    by (intro preserves_intros gone_map; simp add: delete_user_row_def)+
qed

interpretation gone: account_invariant cfg now "gone i" for cfg now i
  by unfold_locales
    (auto simp: gone_users gone_leaves writes_leave_users,
     (metis with_access_leaves(1) users_of_def gone_def prod.inject)+)

lemma account_run_gone: "account_run cfg t s t' s' \<Longrightarrow> gone i s \<Longrightarrow> gone i s'"
  by (induction rule: account_run.induct) (auto intro: gone.step_keeps)


section \<open>Reset tokens\<close>

text \<open>A token is dead where it is used or expired, and no later draw gives its text again.\<close>

definition no_redraw :: "account_config \<Rightarrow> string \<Rightarrow> nat \<Rightarrow> bool" where
  "no_redraw cfg token n = (\<forall>k\<ge>n. cf_hash cfg (cf_random cfg k) k \<noteq> token)"

definition dead_token :: "account_config \<Rightarrow> int \<Rightarrow> string \<Rightarrow> accounts \<Rightarrow> bool" where
  "dead_token cfg now token s = (no_redraw cfg token (aw_draws s) \<and>
     (\<forall>r\<in>set (aw_resets s). rk_token r = token \<longrightarrow> rk_used_at r \<noteq> None \<or> rk_expires_at r \<le> now))"

text \<open>At most one token of a user is active.\<close>

definition active_resets :: "int \<Rightarrow> int \<Rightarrow> reset_row list \<Rightarrow> reset_row list" where
  "active_resets now u ts = filter (\<lambda>r. rk_user r = u \<and> now < rk_expires_at r) ts"

definition one_active :: "int \<Rightarrow> accounts \<Rightarrow> bool" where
  "one_active now s = (\<forall>u. length (active_resets now u (aw_resets s)) \<le> 1)"

lemma active_resets_simps [simp]:
  "active_resets now u [] = []" "active_resets now u (ts @ ts') = active_resets now u ts @ active_resets now u ts'"
  "active_resets now u [r] = (if rk_user r = u \<and> now < rk_expires_at r then [r] else [])"
  by (simp_all add: active_resets_def)

lemma active_resets_map:
  assumes "\<And>r. rk_user (g r) = rk_user r" and "\<And>r. r \<in> set ts \<Longrightarrow> rk_expires_at (g r) = rk_expires_at r"
  shows "length (active_resets now u (map g ts)) = length (active_resets now u ts)"
  using assms by (induction ts) (auto simp: active_resets_def)

lemma active_resets_expired:
  "length (active_resets now u (map (\<lambda>r. if rk_user r = i then r\<lparr>rk_expires_at := now\<rparr> else r) ts)) =
     (if u = i then 0 else length (active_resets now u ts))"
proof (cases "u = i")
  case True
  then show ?thesis by (auto simp: active_resets_def filter_empty_conv)
next
  case False
  then show ?thesis by (induction ts) (simp_all add: active_resets_def)
qed

lemma active_resets_filter: "length (active_resets now u (filter p ts)) \<le> length (active_resets now u ts)"
  by (induction ts) (auto simp: active_resets_def)

lemma dead_leaves: "leaves resets_of m \<Longrightarrow> preserves (dead_token cfg now token) m"
  by (erule leaves_preserves) (auto simp: resets_of_def dead_token_def)

lemma one_leaves: "leaves resets_of m \<Longrightarrow> preserves (one_active now) m"
  by (erule leaves_preserves) (auto simp: resets_of_def one_active_def)

text \<open>A new token: the draw, the expiry of the others, the new row.\<close>

lemma createToken_cases:
  assumes "createToken cfg now i creator delta s = (res, s')"
  defines "k \<equiv> aw_draws s"
  defines "expired \<equiv> map (\<lambda>r. if rk_user r = i then r\<lparr>rk_expires_at := now\<rparr> else r) (aw_resets s)"
  shows "aw_draws s' = Suc k \<and> (aw_resets s' = expired \<and> (\<exists>e. res = Inl e) \<or>
    (\<exists>r. aw_resets s' = expired @ [r] \<and> res = Inr r \<and> rk_token r = cf_hash cfg (cf_random cfg k) k \<and> rk_user r = i \<and>
       rk_expires_at r = now + delta \<and> rk_used_at r = None))"
  using assms
  by (auto simp: createToken_def draw_def bindS_def thenS_def expireExistingTokensForUser_def resets_insert_def
      Let_def throw_if_def split: if_splits)

lemma dead_createToken: "preserves (dead_token cfg now token) (createToken cfg now i creator delta)"
proof (clarsimp simp: preserves_def)
  fix s
  assume dead: "dead_token cfg now token s"
  obtain res s' where run: "createToken cfg now i creator delta s = (res, s')" by fastforce
  let ?expired = "map (\<lambda>r. if rk_user r = i then r\<lparr>rk_expires_at := now\<rparr> else r) (aw_resets s)"
  have new: "cf_hash cfg (cf_random cfg (aw_draws s)) (aw_draws s) \<noteq> token"
    using dead unfolding dead_token_def no_redraw_def by blast
  have old: "rk_used_at r \<noteq> None \<or> rk_expires_at r \<le> now" if "r \<in> set ?expired" "rk_token r = token" for r
    using dead that by (auto simp: dead_token_def)
  have "rk_used_at r \<noteq> None \<or> rk_expires_at r \<le> now" if "r \<in> set (aw_resets s')" "rk_token r = token" for r
  proof -
    have "r \<in> set ?expired \<or> rk_token r = cf_hash cfg (cf_random cfg (aw_draws s)) (aw_draws s)"
      using createToken_cases [OF run] that(1) by (elim conjE disjE) auto
    with old [of r] new that(2) show ?thesis by argo
  qed
  moreover have "no_redraw cfg token (aw_draws s')"
    using dead createToken_cases [OF run] by (auto simp: dead_token_def no_redraw_def)
  ultimately show "dead_token cfg now token (snd (createToken cfg now i creator delta s))"
    using run by (simp add: dead_token_def)
qed

lemma one_createToken: "preserves (one_active now) (createToken cfg now i creator delta)"
proof (clarsimp simp: preserves_def)
  fix s
  assume one: "one_active now s"
  obtain res s' where run: "createToken cfg now i creator delta s = (res, s')" by fastforce
  have "length (active_resets now u (aw_resets s')) \<le> 1" for u
    using one createToken_cases [OF run] unfolding one_active_def
    by (elim conjE disjE exE) (auto simp: active_resets_expired)
  then show "one_active now (snd (createToken cfg now i creator delta s))"
    using run by (simp add: one_active_def)
qed

interpretation dead: account_invariant cfg now "dead_token cfg now token" for cfg now token
proof unfold_locales
  show "preserves (dead_token cfg now token) draw"
    by (auto simp: preserves_def draw_def dead_token_def no_redraw_def)
  show "preserves (dead_token cfg now token) (useToken now i t)"
    "preserves (dead_token cfg now token) (expireExistingTokensForUser now i)"
    "preserves (dead_token cfg now token) (deleteExpired now)" for i t
    unfolding useToken_def expireExistingTokensForUser_def deleteExpired_def
    by (intro preserves_intros; auto simp: dead_token_def)+
  show "dead_token cfg now token s \<Longrightarrow> dead_token cfg now token (with_access s a)" for s a
    using with_access_leaves(2) [of s a] by (simp add: dead_token_def resets_of_def)
  then show "dead_token cfg now token s \<Longrightarrow>
      dead_token cfg now token (with_access s (with_db (access_view s) db))" for s db .
qed (auto simp: dead_createToken dead_leaves writes_leave_resets)

interpretation one: account_invariant cfg now "one_active now" for cfg now
proof unfold_locales
  show "preserves (one_active now) draw" by (auto simp: preserves_def draw_def one_active_def)
  show "preserves (one_active now) (useToken now i t)"
    "preserves (one_active now) (expireExistingTokensForUser now i)"
    "preserves (one_active now) (deleteExpired now)" for i t
    unfolding useToken_def expireExistingTokensForUser_def deleteExpired_def
    by (intro preserves_intros;
        auto simp: one_active_def active_resets_map active_resets_expired intro: order_trans [OF active_resets_filter])+
  show "one_active now s \<Longrightarrow> one_active now (with_access s a)" for s a
    using with_access_leaves(2) [of s a] by (simp add: one_active_def resets_of_def)
  then show "one_active now s \<Longrightarrow> one_active now (with_access s (with_db (access_view s) db))" for s db .
qed (auto simp: one_createToken one_leaves writes_leave_resets)

lemma dead_later: "dead_token cfg t token s \<Longrightarrow> t \<le> t' \<Longrightarrow> dead_token cfg t' token s"
  by (fastforce simp: dead_token_def)

lemma one_later:
  assumes "one_active t s" and "t \<le> t'"
  shows "one_active t' s"
proof -
  have "length (active_resets t' u ts) \<le> length (active_resets t u ts)" for u ts
    using assms(2) by (induction ts) (auto simp: active_resets_def)
  then show ?thesis using assms(1) by (auto simp: one_active_def intro: order_trans)
qed

lemma account_run_dead: "account_run cfg t s t' s' \<Longrightarrow> dead_token cfg t token s \<Longrightarrow> dead_token cfg t' token s'"
  by (induction rule: account_run.induct) (auto intro: dead.step_keeps dead_later)

lemma account_run_one: "account_run cfg t s t' s' \<Longrightarrow> one_active t s \<Longrightarrow> one_active t' s'"
  by (induction rule: account_run.induct) (auto intro: one.step_keeps one_later)

lemma dead_token_invalid: "dead_token cfg t token s \<Longrightarrow> t \<le> t' \<Longrightarrow> \<exists>e. isValid cfg t' token s = Inl e"
  by (auto simp: isValid_def resets_getActive_def dead_token_def find_Some_iff split: option.splits)

end
