(* ===== verification/AccountEffects.thy ===== *)
theory AccountEffects
  imports AccountSteps
begin

text \<open>What the operations on accounts do where they succeed: logins, passwords, creations, deletions.\<close>

section \<open>Finding users\<close>

lemma find_unique:
  assumes "x \<in> set xs" and "P x" and "\<And>y. y \<in> set xs \<Longrightarrow> P y \<Longrightarrow> y = x"
  shows "find P xs = Some x"
proof (cases "find P xs")
  case None
  then have "\<forall>y\<in>set xs. \<not> P y" by (simp add: find_None_iff')
  with assms(1,2) show ?thesis by blast
next
  case (Some y)
  then show ?thesis using assms(3) [of y] find_Some_in [OF Some] by simp
qed

lemma users_by_id:
  assumes "accounts_ok s" and "r \<in> set (aw_users s)" and "r' \<in> set (aw_users s)" and "ur_id r = ur_id r'"
  shows "r = r'"
  using assms by (auto simp: accounts_ok_def users_ok_def distinct_map inj_on_def)

lemma users_by_column:
  assumes "accounts_ok s" and "r \<in> set (aw_users s)" and "r' \<in> set (aw_users s)"
  shows "ur_email r = Some e \<Longrightarrow> ur_email r' = Some e \<Longrightarrow> r = r'"
    and "ur_username r = Some n \<Longrightarrow> ur_username r' = Some n \<Longrightarrow> r = r'"
  using assms distinct_column_inj [of ur_email] distinct_column_inj [of ur_username]
  by (auto simp: accounts_ok_def users_ok_def)

lemma find_user:
  "accounts_ok s \<Longrightarrow> r \<in> set (aw_users s) \<Longrightarrow> P r \<Longrightarrow> find (\<lambda>x. P x \<and> ur_id x = ur_id r) (aw_users s) = Some r"
  by (rule find_unique) (auto dest: users_by_id)

lemma new_User_id: "new_User cfg r = Inr u \<Longrightarrow> us_userId u = ur_id r"
  by (auto simp: new_User_def split: if_splits option.splits)

lemma rowToUser_iff: "rowToUser cfg row = Inr u \<longleftrightarrow> (\<exists>r. row = Some r \<and> new_User cfg r = Inr u)"
  by (auto simp: rowToUser_def split: option.splits)

lemma users_get_iff:
  assumes "accounts_ok s"
  shows "users_get cfg i s = Inr u \<longleftrightarrow> (\<exists>r\<in>set (aw_users s). activeUsers r \<and> ur_id r = i \<and> new_User cfg r = Inr u)"
  using find_user [OF assms, where P = activeUsers]
  by (auto simp: users_get_def rowToUser_iff dest!: find_Some_in)

lemma getPasswordHash_iff:
  assumes "accounts_ok s"
  shows "getPasswordHash i s = Inr h \<longleftrightarrow> (\<exists>r\<in>set (aw_users s). activeUsers r \<and> ur_id r = i \<and> ur_password_hash r = h)"
proof
  assume "getPasswordHash i s = Inr h"
  then show "\<exists>r\<in>set (aw_users s). activeUsers r \<and> ur_id r = i \<and> ur_password_hash r = h"
    by (auto simp: getPasswordHash_def split: option.splits dest!: find_Some_in)
next
  assume "\<exists>r\<in>set (aw_users s). activeUsers r \<and> ur_id r = i \<and> ur_password_hash r = h"
  then show "getPasswordHash i s = Inr h"
    using find_user [OF assms, where P = activeUsers] by (auto simp: getPasswordHash_def)
qed

text \<open>The user a login names.\<close>

definition names_user :: "string \<Rightarrow> account_row \<Rightarrow> bool" where
  "names_user login r = (if isEmail login then ur_email r = Some (to_lower login)
     else login \<noteq> [] \<and> ur_username r = Some login)"

lemma isEmail_nonempty: "isEmail v \<Longrightarrow> v \<noteq> []"
  by (auto simp: isEmail_def)

lemma getByQuery_iff:
  assumes "accounts_ok s"
  shows "getByQuery cfg (login_query login) s = Inr u \<longleftrightarrow>
     (\<exists>r\<in>set (aw_users s). activeAll r \<and> names_user login r \<and> new_User cfg r = Inr u)"
proof -
  have f: "find (\<lambda>r. activeAll r \<and> names_user login r) (aw_users s) = Some r"
    if "r \<in> set (aw_users s)" "activeAll r" "names_user login r" for r
    using that by (intro find_unique) (auto simp: names_user_def dest: users_by_column [OF assms] split: if_splits)
  have "getByQuery cfg (login_query login) s =
      (if login = [] then Inl lookup_error else rowToUser cfg (find (\<lambda>r. activeAll r \<and> names_user login r) (aw_users s)))"
    by (auto simp: getByQuery_def buildSelectUser_def select_where_def login_query_def by_email_def by_username_def
        num_or_def truthy_def safeToLower_def names_user_def dest: isEmail_nonempty)
  moreover have "\<not> names_user [] r" for r by (auto simp: names_user_def dest: isEmail_nonempty)
  ultimately show ?thesis using f by (auto simp: rowToUser_iff dest!: find_Some_in)
qed


section \<open>Logins\<close>

text \<open>Who may log in with a password: the specification of \<open>loginUser\<close>.\<close>

definition may_log_in :: "account_config \<Rightarrow> string \<Rightarrow> string \<Rightarrow> accounts \<Rightarrow> account_row \<Rightarrow> bool" where
  "may_log_in cfg login password s r =
     (\<not> aw_simple_auth_disabled s \<and> r \<in> set (aw_users s) \<and> activeUsers r \<and> names_user login r \<and>
      (case ur_password_hash r of None \<Rightarrow> False | Some h \<Rightarrow> h \<noteq> [] \<and> cf_compare cfg password h))"

lemma credentials_iff:
  assumes "accounts_ok s"
  shows "credentials cfg login s = (Some u, Some h) \<longleftrightarrow>
    (\<exists>r\<in>set (aw_users s). activeUsers r \<and> names_user login r \<and> new_User cfg r = Inr u \<and> ur_password_hash r = Some h)"
proof -
  have "credentials cfg login s = (Some u, Some h) \<longleftrightarrow>
      getByQuery cfg (login_query login) s = Inr u \<and> getPasswordHash (us_userId u) s = Inr (Some h)"
    by (auto simp: credentials_def split: sum.splits)
  also have "\<dots> \<longleftrightarrow> (\<exists>r\<in>set (aw_users s). activeUsers r \<and> names_user login r \<and> new_User cfg r = Inr u \<and>
      ur_password_hash r = Some h)"
    unfolding getByQuery_iff [OF assms] getPasswordHash_iff [OF assms]
    using new_User_id users_by_id [OF assms] by (fastforce simp: activeAll_def activeUsers_def)
  finally show ?thesis .
qed

lemma bind_tryS [simp]: "bindS (tryS f) k s = (case f s of Inl e \<Rightarrow> (Inl e, s) | Inr x \<Rightarrow> k x s)"
  by (simp add: bindS_def split: sum.splits)

lemma successfullyLogin_result:
  "us_userId u \<noteq> 0 \<Longrightarrow> successfullyLogin now u s =
     (Inr (), map_users (\<lambda>r. activeAll r \<and> ur_id r = us_userId u) (\<lambda>r. r\<lparr>ur_login_attempts := 0, ur_seen_at := Some now\<rparr>) s)"
  by (simp add: successfullyLogin_def buildSelectUser_def select_where_def user_lookup_of_def num_or_def)

lemma loginUser_cases:
  "loginUser cfg now login password s =
     (if aw_simple_auth_disabled s then (Inl login_disabled, s)
      else case credentials cfg login s of
        (Some u, Some h) \<Rightarrow>
          if h \<noteq> [] \<and> cf_compare cfg password h then thenS (successfullyLogin now u) (returnS u) s
          else (Inl (login_failed cfg), s)
      | _ \<Rightarrow> (Inl (login_failed cfg), s))"
  by (auto simp: loginUser_def bindS_def thenS_def throw_if_def split: option.splits prod.splits)

lemma new_User_id_nonzero: "new_User cfg r = Inr u \<Longrightarrow> us_userId u \<noteq> 0"
  by (auto simp: new_User_def split: if_splits option.splits)

lemma loginUser_iff:
  assumes "accounts_ok s"
  shows "fst (loginUser cfg now login password s) = Inr u \<longleftrightarrow>
     (\<exists>r. may_log_in cfg login password s r \<and> new_User cfg r = Inr u)"
proof (cases "\<exists>v h. credentials cfg login s = (Some v, Some h)")
  case True
  then obtain v h where c: "credentials cfg login s = (Some v, Some h)" by blast
  then obtain r where r: "r \<in> set (aw_users s)" "activeUsers r" "names_user login r" "new_User cfg r = Inr v"
      "ur_password_hash r = Some h"
    unfolding credentials_iff [OF assms] by blast
  have same: "r' = r" if "may_log_in cfg login password s r'" for r'
    using that r(1,3) users_by_column [OF assms, of r' r]
    by (auto simp: may_log_in_def names_user_def split: if_splits)
  have "(\<exists>r. may_log_in cfg login password s r \<and> new_User cfg r = Inr u) \<longleftrightarrow>
      may_log_in cfg login password s r \<and> u = v"
    using same r(4) by (metis sum.inject(2))
  moreover have "fst (loginUser cfg now login password s) = Inr u \<longleftrightarrow> may_log_in cfg login password s r \<and> u = v"
    using r by (auto simp: loginUser_cases c may_log_in_def thenS_def bindS_def
        successfullyLogin_result [OF new_User_id_nonzero [OF r(4)]])
  ultimately show ?thesis by simp
next
  case False
  have "\<not> may_log_in cfg login password s r" if "new_User cfg r = Inr u" for r
    using False credentials_iff [OF assms] that by (force simp: may_log_in_def split: option.splits)
  moreover have "fst (loginUser cfg now login password s) \<noteq> Inr u"
    using False by (auto simp: loginUser_cases split: option.splits prod.splits)
  ultimately show ?thesis by blast
qed


section \<open>Passwords\<close>

definition set_hash :: "int \<Rightarrow> string \<Rightarrow> account_row \<Rightarrow> account_row" where
  "set_hash i h r = (if activeUsers r \<and> ur_id r = i then r\<lparr>ur_password_hash := Some h\<rparr> else r)"

definition expire_token :: "int \<Rightarrow> int \<Rightarrow> reset_row \<Rightarrow> reset_row" where
  "expire_token now i r = (if rk_user r = i then r\<lparr>rk_expires_at := now\<rparr> else r)"

lemma changePassword_result:
  "changePassword cfg now i p s = (case validatePassword cfg p of Inl e \<Rightarrow> (Inl e, s) | Inr _ \<Rightarrow>
     (Inr (), s\<lparr>aw_draws := Suc (aw_draws s),
        aw_users := map (set_hash i (cf_hash cfg p (aw_draws s))) (aw_users s),
        aw_sessions := filter (\<lambda>r. se_user r \<noteq> Some i) (aw_sessions s),
        aw_resets := map (expire_token now i) (aw_resets s)\<rparr>))"
  by (auto simp: changePassword_def hash_password_def draw_def thenS_def bindS_def setPasswordHash_def map_users_def
      deleteSessionsForUser_def expireExistingTokensForUser_def set_hash_def expire_token_def fun_eq_iff
      intro!: map_cong split: sum.splits)

lemma set_hash_simps [simp]:
  "ur_id (set_hash i h r) = ur_id r" "activeUsers (set_hash i h r) = activeUsers r"
  "names_user login (set_hash i h r) = names_user login r"
  "new_User cfg (set_hash i h r) = new_User cfg r"
  by (simp_all add: set_hash_def activeUsers_def names_user_def new_User_def split: option.split)

lemma expire_token_simps [simp]:
  "rk_token (expire_token now i r) = rk_token r" "rk_user (expire_token now i r) = rk_user r"
  "rk_used_at (expire_token now i r) = rk_used_at r"
  by (simp_all add: expire_token_def)

text \<open>A reset of a password uses its token.\<close>

lemma isValid_iff: "isValid cfg now token s = Inr t \<longleftrightarrow>
    find (\<lambda>r. rk_token r = token \<and> now < rk_expires_at r) (aw_resets s) = Some t \<and> rk_used_at t = None"
  by (auto simp: isValid_def resets_getActive_def split: option.splits)

lemma getUser_iff:
  "getUser cfg i s = Inr ur \<longleftrightarrow> (\<exists>r. users_get cfg i s = Inr (fst ur) \<and>
     getRootRoleForUser i (access_view s) = Inr r \<and> snd ur = ro_id r)"
  by (cases ur) (auto simp: getUser_def bindR_Inr_iff)

lemma reset_check_iff:
  "reset_check cfg now token p s = Inr i \<longleftrightarrow> validatePassword cfg p = Inr () \<and>
     (\<exists>u. getUserForResetToken cfg now token s = Inr u \<and> tu_id u = i)"
  by (auto simp: reset_check_def bindR_Inr_iff)

lemma reset_user:
  assumes "accounts_ok s" and "getUserForResetToken cfg now token s = Inr u"
  obtains t r where "isValid cfg now token s = Inr t" "rk_user t = tu_id u"
    "r \<in> set (aw_users s)" "activeUsers r" "ur_id r = tu_id u"
proof -
  from assms(2) obtain t v where t: "isValid cfg now token s = Inr t" and v: "getUser cfg (rk_user t) s = Inr v"
    and u: "tu_id u = us_userId (fst v)"
    by (auto simp: getUserForResetToken_def bindR_Inr_iff)
  from v obtain r where r: "r \<in> set (aw_users s)" "activeUsers r" "ur_id r = rk_user t" "new_User cfg r = Inr (fst v)"
    by (auto simp: getUser_iff users_get_iff [OF assms(1)])
  show thesis using that [OF t _ r(1,2)] r u new_User_id by fastforce
qed

definition use_token :: "int \<Rightarrow> int \<Rightarrow> string \<Rightarrow> reset_row \<Rightarrow> reset_row" where
  "use_token now i token r = (if rk_token r = token \<and> rk_user r = i then r\<lparr>rk_used_at := Some now\<rparr> else r)"

lemma useToken_result: "useToken now i token s = (Inr True, s\<lparr>aw_resets := map (use_token now i token) (aw_resets s)\<rparr>)"
  by (simp add: useToken_def use_token_def thenS_def bindS_def)

lemma resetPassword_iff:
  "resetPassword cfg now token p s = (Inr (), s') \<longleftrightarrow> (\<exists>i.
     reset_check cfg now token p s = Inr i \<and>
     changePassword cfg now i p (s\<lparr>aw_resets := map (use_token now i token) (aw_resets s)\<rparr>) = (Inr (), s'))"
proof -
  have "useAccessToken cfg now i token s = (if (\<exists>t. isValid cfg now token s = Inr t)
      then (Inr True, s\<lparr>aw_resets := map (use_token now i token) (aw_resets s)\<rparr>) else (Inr False, s))" for i
    by (cases "isValid cfg now token s")
      (simp_all add: useAccessToken_def orElseS_def thenS_def useToken_result bindS_def)
  moreover have "\<exists>t. isValid cfg now token s = Inr t" if "reset_check cfg now token p s = Inr i" for i
    using that by (auto simp: reset_check_iff getUserForResetToken_def bindR_Inr_iff)
  ultimately show ?thesis
    by (auto simp: resetPassword_def bindS_def split: sum.splits prod.splits)
qed

lemma reset_marks_token:
  assumes ok: "accounts_ok s" and run: "resetPassword cfg now token p s = (Inr (), s')"
  obtains i where "reset_check cfg now token p s = Inr i" "i \<in> ur_id ` set (aw_users s)"
    "\<forall>r\<in>set (aw_resets s'). rk_token r = token \<longrightarrow> rk_used_at r = Some now"
    "aw_users s' = map (set_hash i (cf_hash cfg p (aw_draws s))) (aw_users s)" "aw_draws s' = Suc (aw_draws s)"
proof -
  from run obtain i where i: "reset_check cfg now token p s = Inr i" and
    ch: "changePassword cfg now i p (s\<lparr>aw_resets := map (use_token now i token) (aw_resets s)\<rparr>) = (Inr (), s')"
    unfolding resetPassword_iff by blast
  from i obtain u where u: "getUserForResetToken cfg now token s = Inr u" "tu_id u = i"
    by (auto simp: reset_check_iff)
  from reset_user [OF ok u(1)] obtain t r where t: "isValid cfg now token s = Inr t" "rk_user t = i"
    and r: "r \<in> set (aw_users s)" "ur_id r = i" unfolding u(2) by metis
  have "t \<in> set (aw_resets s)" "rk_token t = token" using t(1) by (auto simp: isValid_iff dest: find_Some_in)
  moreover have "inj_on rk_token (set (aw_resets s))"
    using ok by (simp add: accounts_ok_def resets_ok_def distinct_map)
  ultimately have user: "rk_user x = i" if "x \<in> set (aw_resets s)" "rk_token x = token" for x
    using that t(2) by (metis inj_onD)
  have s': "aw_resets s' = map (expire_token now i \<circ> use_token now i token) (aw_resets s)"
    "aw_users s' = map (set_hash i (cf_hash cfg p (aw_draws s))) (aw_users s)" "aw_draws s' = Suc (aw_draws s)"
    using ch by (auto simp: changePassword_result split: sum.splits)
  have "\<forall>x\<in>set (aw_resets s'). rk_token x = token \<longrightarrow> rk_used_at x = Some now"
    using user unfolding s' by (auto simp: use_token_def)
  then show thesis using that i r s' by blast
qed


section \<open>Deletion\<close>

lemma deleteUser_iff:
  "deleteUser cfg now i who s = (Inr (), s') \<longleftrightarrow> (\<exists>u. getUser cfg i s = Inr u \<and>
     s' = snd (add_event (UserDeleted (getCreatedBy who)
        (case who of None \<Rightarrow> -1337 | Some u \<Rightarrow> num_or (ui_id u) (-1337)) (event_data u))
      (map_users (\<lambda>r. activeUsers r \<and> ur_id r = i) (delete_user_row now)
        (snd (deleteSessionsForUser i (with_access s (wipeUserPermissions i (access_view s))))))))"
  by (auto simp: deleteUser_def thenS_def bindS_def on_access_def users_delete_def deleteSessionsForUser_def
      add_event_def split: sum.splits)

lemma deleteUser_effect:
  assumes ok: "accounts_ok s" and run: "deleteUser cfg now i who s = (Inr (), s')"
  shows "gone i s'" and "filter (\<lambda>r. se_user r = Some i) (aw_sessions s') = []"
    and "filter (\<lambda>p. pt_user p = i) (aw_pats s') = []" and "\<not> has_role (as_db (access_view s')) i rid project"
proof -
  from run obtain u where u: "getUser cfg i s = Inr u" and s': "s' = snd (add_event
        (UserDeleted (getCreatedBy who) (case who of None \<Rightarrow> -1337 | Some u \<Rightarrow> num_or (ui_id u) (-1337)) (event_data u))
      (map_users (\<lambda>r. activeUsers r \<and> ur_id r = i) (delete_user_row now)
        (snd (deleteSessionsForUser i (with_access s (wipeUserPermissions i (access_view s)))))))"
    unfolding deleteUser_iff by blast
  from u obtain x where x: "x \<in> set (aw_users s)" "activeUsers x" "ur_id x = i"
    by (auto simp: getUser_iff users_get_iff [OF ok])
  have users: "aw_users s' = map (\<lambda>r. if activeUsers r \<and> ur_id r = i then delete_user_row now r else r) (aw_users s)"
    "aw_next_user s' = aw_next_user s"
    by (simp_all add: s' add_event_def map_users_def deleteSessionsForUser_def with_access_def Let_def)
  have "ur_deleted_at r \<noteq> None" if r: "r \<in> set (aw_users s')" "ur_id r = i" for r
  proof -
    from r(1) obtain r0 where r0: "r0 \<in> set (aw_users s)"
      "r = (if activeUsers r0 \<and> ur_id r0 = i then delete_user_row now r0 else r0)" unfolding users by auto
    then have "ur_id r0 = i" using r(2) by (simp add: delete_user_row_def split: if_splits)
    then have "r0 = x" using users_by_id [OF ok r0(1) x(1)] x(3) by simp
    then show ?thesis using r0(2) x by (simp add: delete_user_row_def)
  qed
  moreover have "i < aw_next_user s'" using x ok by (auto simp: users accounts_ok_def users_ok_def)
  ultimately show "gone i s'" by (simp add: gone_def)
  show "filter (\<lambda>r. se_user r = Some i) (aw_sessions s') = []"
    by (simp add: s' add_event_def map_users_def deleteSessionsForUser_def filter_empty_conv)
  note wd = wipeUserPermissions_def with_db_def unlinkUserRoles_def unlinkUserGroups_def
    clearUserPersonalAccessTokens_def clearPublicSignupUserTokens_def
  show "filter (\<lambda>p. pt_user p = i) (aw_pats s') = []"
    by (simp add: s' add_event_def map_users_def deleteSessionsForUser_def with_access_def Let_def wd
        access_view_def filter_empty_conv)
  show "\<not> has_role (as_db (access_view s')) i rid project"
    by (simp add: s' add_event_def map_users_def deleteSessionsForUser_def with_access_def Let_def wd
        access_view_def has_role_def)
qed

lemma gone_inactive: "gone i s \<Longrightarrow> r \<in> set (aw_users s) \<Longrightarrow> ur_deleted_at r = None \<Longrightarrow> ur_id r \<noteq> i"
  by (auto simp: gone_def)


section \<open>Creation\<close>

lemma users_insert_iff:
  "users_insert cfg now f s = (Inr u, s') \<longleftrightarrow>
     (let r = inserted_row now f (aw_next_user s) in
      check_unique cfg (aw_users s @ [r]) = Inr () \<and> new_User cfg r = Inr u \<and>
      s' = s\<lparr>aw_next_user := aw_next_user s + 1, aw_users := aw_users s @ [r]\<rparr>)"
  by (auto simp: users_insert_def thenS_def bindS_def checked_users_def Let_def split: sum.splits)

lemma on_access_iff: "on_access f s = (Inr (), s') \<longleftrightarrow> (\<exists>a. f (access_view s) = (Inr (), a) \<and> s' = with_access s a)"
  by (auto simp: on_access_def split: prod.splits)

lemma with_access_users [simp]:
  "aw_users (with_access s a) = aw_users s" "aw_draws (with_access s a) = aw_draws s" "aw_access (with_access s a) = a"
  "aw_simple_auth_disabled (with_access s a) = aw_simple_auth_disabled s" "aw_next_user (with_access s a) = aw_next_user s"
  by (simp_all add: with_access_def Let_def)

lemma resolve_view_users [simp]:
  "resolveRootRole role (access_view (s\<lparr>aw_next_user := n, aw_users := us\<rparr>)) = resolveRootRole role (access_view s)"
  by (simp add: resolveRootRole_def access_view_def with_db_def store_getRootRoles_def roles_of_types_def)

text \<open>The new row, with the hash of the password where one was given.\<close>

definition created_row :: "account_config \<Rightarrow> int \<Rightarrow> new_user \<Rightarrow> accounts \<Rightarrow> account_row" where
  "created_row cfg now d s =
     (let r = inserted_row now \<lparr>uf_name = nu_name d, uf_username = nu_username d, uf_email = nu_email d, uf_imageUrl = None\<rparr>
                (aw_next_user s)
      in if truthy (nu_password d) then r\<lparr>ur_password_hash := Some (cf_hash cfg (the (nu_password d)) (aw_draws s))\<rparr> else r)"


lemma createUser_iff:
  "createUser cfg now d who s = (Inr ur, s') \<longleftrightarrow>
     (truthy (nu_username d) \<or> truthy (nu_email d)) \<and> email_ok cfg (nu_email d) = Inr () \<and>
     (\<exists>found. hasUser \<lparr>lk_id = None, lk_username = nu_username d, lk_email = nu_email d\<rparr> s = Inr found \<and> num_or found 0 = 0) \<and>
     (\<exists>u s1 a s2. users_insert cfg now \<lparr>uf_name = nu_name d, uf_username = nu_username d, uf_email = nu_email d, uf_imageUrl = None\<rparr> s
          = (Inr u, s1) \<and>
        setUserRootRole now (us_userId u) (nu_rootRole d) (access_view s1) = (Inr (), a) \<and>
        s2 = (if truthy (nu_password d)
              then snd (setPasswordHash (us_userId u) (cf_hash cfg (the (nu_password d)) (aw_draws s1))
                (with_access s1 a\<lparr>aw_draws := Suc (aw_draws s1)\<rparr>))
              else with_access s1 a) \<and>
        getUser cfg (us_userId u) s2 = Inr ur \<and>
        s' = snd (add_event (UserCreated (getCreatedBy who) (us_userId u) (event_data ur)) s2))"
proof -
  let ?b = "\<lambda>u. whenS (truthy (nu_password d))
     (bindS (hash_password cfg (the (nu_password d))) (setPasswordHash (us_userId u)))"
  have b: "?b u t = (Inr (), if truthy (nu_password d)
      then snd (setPasswordHash (us_userId u) (cf_hash cfg (the (nu_password d)) (aw_draws t)) (t\<lparr>aw_draws := Suc (aw_draws t)\<rparr>))
      else t)" for u t
    by (simp add: whenS_def hash_password_def draw_def bindS_def setPasswordHash_def)
  have g: "thenS (guardS c e) m t = (Inr y, t') \<longleftrightarrow> \<not> c \<and> m t = (Inr y, t')" for c e t t' y and m :: "(user \<times> int) account_op"
    by (auto simp: thenS_Inr_iff guardS_Inr_iff)
  have q: "thenS (tryS f) m t = (Inr y, t') \<longleftrightarrow> f t = Inr () \<and> m t = (Inr y, t')" for f t t' y and m :: "(user \<times> int) account_op"
    by (auto simp: thenS_Inr_iff)
  have q': "bindS (tryS f) k t = (Inr y, t') \<longleftrightarrow> (\<exists>x. f t = Inr x \<and> k x t = (Inr y, t'))"
    for f :: "accounts \<Rightarrow> exn + 'z" and k t t' and y :: "user \<times> int"
    by (auto split: sum.splits)
  have a: "thenS (on_access f) m t = (Inr y, t') \<longleftrightarrow> (\<exists>a. f (access_view t) = (Inr (), a) \<and> m (with_access t a) = (Inr y, t'))"
    for f t t' y and m :: "(user \<times> int) account_op"
    by (auto simp: thenS_Inr_iff on_access_iff)
  have w: "thenS (?b u) m t = (Inr y, t') \<longleftrightarrow> m (snd (?b u t)) = (Inr y, t')" for u t t' y and m :: "(user \<times> int) account_op"
    by (simp add: thenS_Inr_iff b)
  have e: "thenS (add_event ev) (returnS y) t = (Inr z, t') \<longleftrightarrow> z = y \<and> t' = snd (add_event ev t)" for ev and y z :: "user \<times> int" and t t'
    by (auto simp: add_event_def thenS_def bindS_def)
  show ?thesis
    unfolding createUser_def g q q' bindS_Inr_iff [of "users_insert _ _ _"] a w e b with_access_users
    by (auto simp del: bind_tryS split_paired_Ex split del: if_split)
qed

lemma getUser_other [simp]: "getUser cfg i (s\<lparr>aw_events := es\<rparr>) = getUser cfg i s"
  by (simp add: getUser_def users_get_def access_view_def)

lemma getRootRole_view:
  "getRootRoleForUser i (access_view s) = getRootRoleForUser i (aw_access s)"
  by (simp add: getRootRoleForUser_def getPredefinedRole_def getRoleByName_def access_view_def with_db_def
      store_getRootRoleForUser_def store_getRootRoles_def roles_of_types_def split: option.split)

lemma createUser_row:
  assumes ok: "accounts_ok s" and run: "createUser cfg now d who s = (Inr ur, s')"
  shows "aw_users s' = aw_users s @ [created_row cfg now d s]" and "new_User cfg (created_row cfg now d s) = Inr (fst ur)"
    and "aw_simple_auth_disabled s' = aw_simple_auth_disabled s"
    and "\<exists>role. resolveRootRole (nu_rootRole d) (access_view s) = Some role \<and> snd ur = ro_id role \<and>
       store_getRootRoleForUser (as_db (aw_access s')) (us_userId (fst ur)) = Some role"
proof -
  let ?f = "\<lparr>uf_name = nu_name d, uf_username = nu_username d, uf_email = nu_email d, uf_imageUrl = None\<rparr>"
  let ?r = "inserted_row now ?f (aw_next_user s)"
  from run obtain u s1 a s2 where ins: "users_insert cfg now ?f s = (Inr u, s1)"
    and role: "setUserRootRole now (us_userId u) (nu_rootRole d) (access_view s1) = (Inr (), a)"
    and s2: "s2 = (if truthy (nu_password d)
              then snd (setPasswordHash (us_userId u) (cf_hash cfg (the (nu_password d)) (aw_draws s1))
                (with_access s1 a\<lparr>aw_draws := Suc (aw_draws s1)\<rparr>))
              else with_access s1 a)"
    and get: "getUser cfg (us_userId u) s2 = Inr ur"
    and s': "s' = snd (add_event (UserCreated (getCreatedBy who) (us_userId u) (event_data ur)) s2)"
    unfolding createUser_iff by metis
  have u: "new_User cfg ?r = Inr u" "us_userId u = aw_next_user s"
    and s1: "s1 = s\<lparr>aw_next_user := aw_next_user s + 1, aw_users := aw_users s @ [?r]\<rparr>"
    using ins new_User_id by (auto simp: users_insert_iff Let_def)
  have fresh: "ur_id x \<noteq> aw_next_user s" if "x \<in> set (aw_users s)" for x
    using that ok by (auto simp: accounts_ok_def users_ok_def)
  have "activeUsers ?r" by (simp add: activeUsers_def)
  then have users: "aw_users s2 = aw_users s @ [created_row cfg now d s]"
    using fresh by (auto simp: s2 s1 u(2) setPasswordHash_def map_users_def created_row_def Let_def intro!: map_idI)
  then show "aw_users s' = aw_users s @ [created_row cfg now d s]" by (simp add: s' add_event_def)
  have "new_User cfg (r\<lparr>ur_password_hash := h\<rparr>) = new_User cfg r" for r h
    by (simp add: new_User_def split: option.split)
  then have row: "new_User cfg (created_row cfg now d s) = Inr u" using u(1) by (simp add: created_row_def Let_def)
  have id: "ur_id (created_row cfg now d s) = aw_next_user s" "activeUsers (created_row cfg now d s)"
    by (simp_all add: created_row_def Let_def activeUsers_def)
  have "find (\<lambda>r. activeUsers r \<and> ur_id r = us_userId u) (aw_users s2) = Some (created_row cfg now d s)"
    using fresh by (intro find_unique) (auto simp: users id u(2))
  then have fst: "fst ur = u" using get row by (auto simp: getUser_iff users_get_def rowToUser_def)
  with row show "new_User cfg (created_row cfg now d s) = Inr (fst ur)" by simp
  show "aw_simple_auth_disabled s' = aw_simple_auth_disabled s"
    by (simp add: s' add_event_def s2 setPasswordHash_def map_users_def s1)
  have acc: "aw_access s2 = a" by (simp add: s2 setPasswordHash_def map_users_def)
  have ok1: "accounts_ok s1" using preservesD [OF users_insert_ok ok ins] .
  obtain r where r: "resolveRootRole (nu_rootRole d) (access_view s1) = Some r"
      "r \<in> set (ac_roles (as_db (access_view s1)))" "ro_type r \<in> set ROOT_ROLE_TYPES"
    and a: "as_db a = (as_db (access_view s1))\<lparr>ac_role_user :=
       filter (\<lambda>x. \<not> (ru_user x = us_userId u \<and> role_has_type (as_db (access_view s1)) ROOT_ROLE_TYPES (ru_role x)))
         (ac_role_user (as_db (access_view s1)))
       @ [\<lparr>ru_user = us_userId u, ru_role = ro_id r, ru_project = DEFAULT_PROJECT, ru_created_at = now\<rparr>]\<rparr>"
    by (rule setUserRootRole_effect [OF role])
  have oka: "access_ok (as_db a)"
    using setUserRootRole_ok [of "access_view s1" now "us_userId u" "nu_rootRole d"] role ok1 by (simp add: accounts_ok_def)
  have types: "role_has_type (as_db a) = role_has_type (as_db (access_view s1))"
    by (rule role_has_type_cong) (simp add: a)
  have root: "role_has_type (as_db (access_view s1)) ROOT_ROLE_TYPES (ro_id r)"
    using r by (auto simp: role_has_type_def list_ex_iff)
  have "{ru_role x | x. x \<in> set (ac_role_user (as_db a)) \<and> ru_user x = us_userId u \<and>
      role_has_type (as_db a) ROOT_ROLE_TYPES (ru_role x)} = {ro_id r}"
    unfolding types using root by (auto simp: a intro!: exI [of _ "\<lparr>ru_user = us_userId u, ru_role = ro_id r,
      ru_project = DEFAULT_PROJECT, ru_created_at = now\<rparr>"])
  moreover have "r \<in> set (ac_roles (as_db a))" using r(2) by (simp add: a)
  ultimately have q: "store_getRootRoleForUser (as_db a) (us_userId u) = Some r"
    using oka r(3) by (intro root_role_query)
  then have "getRootRoleForUser (us_userId u) (access_view s2) = Inr r"
    unfolding getRootRole_view acc by (simp add: getRootRoleForUser_def)
  then have "snd ur = ro_id r" using get by (auto simp: getUser_iff)
  with q fst r(1) show "\<exists>role. resolveRootRole (nu_rootRole d) (access_view s) = Some role \<and> snd ur = ro_id role \<and>
       store_getRootRoleForUser (as_db (aw_access s')) (us_userId (fst ur)) = Some role"
    by (simp add: s1 s' add_event_def acc)
qed

end
