(* ===== verification/AccountProperties.thy ===== *)
theory AccountProperties
  imports AccountEffects
begin

text \<open>
  The properties of accounts: who logs in, what a reset token and a changed password do, what a deleted
  user can still do (nothing), and where the code does not do what it means to.
\<close>

section \<open>Concrete accounts for the witnesses\<close>

text \<open>A hash that can be read back, draws of growing length, and every password is strong.\<close>

definition acfg0 :: account_config where
  "acfg0 = \<lparr>cf_email_error = (\<lambda>_. None), cf_hash = (\<lambda>p k. CHR ''#'' # p), cf_compare = (\<lambda>p h. h = CHR ''#'' # p),
     cf_owasp = (\<lambda>_. (True, [])), cf_sha256 = (\<lambda>x. x), cf_random = (\<lambda>k. replicate k (CHR ''r'')),
     cf_next_day = (\<lambda>t. t + 86400000), cf_next_month = (\<lambda>t. t + 2592000000), cf_show_time = show_int,
     cf_message = (\<lambda>c. c), cf_unleashUrl = ''http://u'', cf_baseUriPath = []\<rparr>"

definition arow0 :: "int \<Rightarrow> string \<Rightarrow> bool \<Rightarrow> account_row" where
  "arow0 i n service = \<lparr>ur_id = i, ur_name = None, ur_username = Some n, ur_email = None, ur_image_url = Some ''img'',
     ur_password_hash = (if service then None else Some (CHR ''#'' # ''old'')), ur_login_attempts = 0, ur_created_at = 0,
     ur_seen_at = None, ur_deleted_at = None, ur_is_service = service, ur_is_system = False\<rparr>"

definition access_tables0 :: access_service where
  "access_tables0 = \<lparr>as_db =
     \<lparr>ac_roles = [\<lparr>ro_id = 1, ro_name = ''Admin'', ro_type = ''root'', ro_description = []\<rparr>,
                  \<lparr>ro_id = 3, ro_name = ''Viewer'', ro_type = ''root'', ro_description = []\<rparr>],
      ac_role_user = [\<lparr>ru_user = 5, ru_role = 1, ru_project = ''default'', ru_created_at = 0\<rparr>],
      ac_group_role = [], ac_groups = [], ac_group_user = [], ac_role_permission = [], ac_permissions = [], ac_users = [],
      ac_projects = [''default''], ac_personal_tokens = [], ac_signup_users = [], ac_next_role = 7, ac_next_group = 21,
      ac_message = (\<lambda>c. c)\<rparr>, as_environments = [], as_events = []\<rparr>"

definition token0 :: reset_row where
  "token0 = \<lparr>rk_token = ''#r'', rk_user = 5, rk_expires_at = 100, rk_created_at = 0, rk_created_by = None, rk_used_at = None\<rparr>"

definition accounts0 :: accounts where
  "accounts0 = \<lparr>aw_users = [arow0 5 ''ann'' False, arow0 6 ''annbot'' True], aw_next_user = 7,
     aw_sessions = [\<lparr>se_sid = ''s'', se_user = Some 5, se_created_at = 0, se_expired = Some 1000\<rparr>],
     aw_resets = [token0], aw_pats = [], aw_next_pat = 1,
     aw_signups = [\<lparr>sg_secret = ''inv'', sg_name = ''n'', sg_expires_at = 86400005, sg_created_at = 0, sg_created_by = None,
                    sg_role = 3, sg_url = [], sg_enabled = True\<rparr>],
     aw_signup_users = [], aw_access = access_tables0, aw_simple_auth_disabled = False, aw_reset_timeouts = [], aw_pats_seen = [],
     aw_draws = 2, aw_mails = [], aw_events = []\<rparr>"

lemma accounts0_ok: "accounts_ok accounts0"
  by (simp add: accounts_ok_def users_ok_def resets_ok_def pats_ok_def sessions_ok_def signups_ok_def accounts0_def
      access_view_def with_db_def access_ok_def access_tables0_def arow0_def token0_def distinct_column_def lower_email_def account_ids_def
      role_ids_def ru_key_def access_row_def map_filter_simps)

definition ann0 :: user where
  "ann0 = \<lparr>us_userId = 5, us_name = None, us_username = Some ''ann'', us_email = None, us_imageUrl = ''img'', us_seenAt = None,
     us_loginAttempts = Some 0, us_createdAt = Some 0, us_accountType = ''User''\<rparr>"

lemma ann: "new_User acfg0 (arow0 5 ''ann'' False) = Inr ann0"
  by (simp add: new_User_def arow0_def emptify_def truthy_def or_else_def ann0_def)

lemma ann_get: "getUser acfg0 5 accounts0 = Inr (ann0, 1)"
proof -
  have "users_get acfg0 5 accounts0 = Inr ann0"
    using ann by (simp add: users_get_def rowToUser_def accounts0_def activeUsers_def arow0_def)
  moreover have "getRootRoleForUser 5 (access_view accounts0) =
      Inr \<lparr>ro_id = 1, ro_name = ''Admin'', ro_type = ''root'', ro_description = []\<rparr>"
    by (simp add: getRootRoleForUser_def store_getRootRoleForUser_def accounts0_def access_tables0_def access_view_def
        with_db_def store_getRootRoles_def roles_of_types_def ROOT_ROLE_TYPES_def)
  ultimately show ?thesis by (simp add: getUser_def bindR_def)
qed

lemma not_email_ann: "\<not> isEmail ''ann''"
  by (simp add: isEmail_def upt_conv_Cons)


section \<open>Logins\<close>

text \<open>
  C8: a login with a password succeeds exactly for a user who is neither deleted nor a service account nor
  the system, whose e-mail address in lower case (where what was typed looks like one) or user name it is,
  and whose stored hash matches, while logins with passwords are on; the answer is that user.
\<close>

theorem login_exactly_with_password:
  assumes "accounts_ok s"
  shows "fst (loginUser cfg now login password s) = Inr u \<longleftrightarrow>
     \<not> aw_simple_auth_disabled s \<and>
     (\<exists>r\<in>set (aw_users s). activeUsers r \<and> new_User cfg r = Inr u \<and>
        (if isEmail login then ur_email r = Some (to_lower login) else login \<noteq> [] \<and> ur_username r = Some login) \<and>
        (\<exists>h. ur_password_hash r = Some h \<and> h \<noteq> [] \<and> cf_compare cfg password h))"
  unfolding loginUser_iff [OF assms]
  by (auto simp: may_log_in_def names_user_def split: option.splits)

lemma login_exactly_with_password_witness:
  "(\<exists>u. fst (loginUser acfg0 9 ''ann'' ''old'' accounts0) = Inr u \<and> us_userId u = 5) \<and>
   \<not> (\<exists>u. fst (loginUser acfg0 9 ''annbot'' ''old'' accounts0) = Inr u)"
proof -
  have "arow0 5 ''ann'' False \<in> set (aw_users accounts0)" by (simp add: accounts0_def)
  moreover have "\<not> isEmail ''annbot''" by (simp add: isEmail_def upt_conv_Cons)
  ultimately show ?thesis
    unfolding login_exactly_with_password [OF accounts0_ok]
    using not_email_ann ann
    by (auto simp: accounts0_def arow0_def activeUsers_def acfg0_def ann0_def)
qed

text \<open>
  a login that fails leaves everything as it is and gives the same error whatever was wrong, the
  name or the password, unless logins with passwords are off.
\<close>

theorem failed_logins_alike:
  assumes "accounts_ok s" and "fst (loginUser cfg now login password s) = Inl e"
  shows "e = (if aw_simple_auth_disabled s then login_disabled else login_failed cfg) \<and>
     snd (loginUser cfg now login password s) = s"
proof -
  have *: "\<exists>u h. credentials cfg login s = (Some u, Some h) \<and> us_userId u \<noteq> 0"
    if "credentials cfg login s = (Some u, Some h)" for u h
    using that credentials_iff [OF assms(1)] new_User_id_nonzero by blast
  show ?thesis
    using assms(2) * by (auto simp: loginUser_cases thenS_def bindS_def successfullyLogin_result
        split: option.splits prod.splits if_splits)
qed

lemma failed_logins_alike_witness:
  "loginUser acfg0 9 ''ann'' ''new'' accounts0 = (Inl (login_failed acfg0), accounts0) \<and>
   loginUser acfg0 9 ''nobody'' ''new'' accounts0 = (Inl (login_failed acfg0), accounts0)"
proof -
  have f: "fst (loginUser acfg0 9 login ''new'' accounts0) \<noteq> Inr u" for login u
    unfolding loginUser_iff [OF accounts0_ok]
    by (auto simp: may_log_in_def accounts0_def arow0_def acfg0_def activeUsers_def)
  have "loginUser acfg0 9 login ''new'' accounts0 = (Inl (login_failed acfg0), accounts0)" for login
  proof (cases "fst (loginUser acfg0 9 login ''new'' accounts0)")
    case (Inl e)
    from failed_logins_alike [OF accounts0_ok Inl] show ?thesis
      using Inl by (simp add: prod_eq_iff accounts0_def)
  next
    case (Inr u)
    then show ?thesis using f by blast
  qed
  then show ?thesis by blast
qed


section \<open>Deleted users\<close>

text \<open>
  C7: once a user is deleted it has no session, no personal access token and no permission, and whatever
  is done later, it neither logs in with any password nor with any personal access token, and is not found.
\<close>

theorem deleted_user_locked_out:
  assumes "accounts_ok s" and "deleteUser cfg now i who s = (Inr (), s1)" and "account_run cfg now s1 t s2"
  shows "filter (\<lambda>r. se_user r = Some i) (aw_sessions s1) = [] \<and> filter (\<lambda>p. pt_user p = i) (aw_pats s1) = [] \<and>
     \<not> hasPermission \<lparr>ax_id = i, ax_isAPI = False, ax_permissions = ps\<rparr> wanted project environment (access_view s1) \<and>
     \<not> (\<exists>u. fst (loginUser cfg t login password s2) = Inr u \<and> us_userId u = i) \<and>
     \<not> (\<exists>u. fst (patMiddleware cfg t header s2) = Inr (Some u) \<and> us_userId u = i) \<and>
     \<not> (\<exists>u. users_get cfg i s2 = Inr u)"
proof -
  note eff = deleteUser_effect [OF assms(1,2)]
  have ok1: "accounts_ok s1" using preservesD [OF ok.deleteUser_keeps assms(1,2)] .
  then have ok2: "accounts_ok s2" using account_run_ok assms(3) by blast
  have gone: "gone i s2" using account_run_gone assms(3) eff(1) by blast
  then have inactive: "ur_id r \<noteq> i" if "r \<in> set (aw_users s2)" "ur_deleted_at r = None" for r
    using that gone_inactive by blast
  have "\<not> (\<exists>u. fst (loginUser cfg t login password s2) = Inr u \<and> us_userId u = i)"
    using inactive new_User_id by (fastforce simp: loginUser_iff [OF ok2] may_log_in_def activeUsers_def)
  moreover have "\<not> (\<exists>u. fst (patMiddleware cfg t header s2) = Inr (Some u) \<and> us_userId u = i)"
    using inactive new_User_id
    by (fastforce simp: patMiddleware_def orElseS_def bindS_def thenS_def addPATSeen_def rowToUser_iff
        store_getAccountByPersonalAccessToken_def activeAccounts_def split: option.splits sum.splits if_splits
        dest: find_Some_in)
  moreover have "\<not> (\<exists>u. users_get cfg i s2 = Inr u)"
    using inactive by (auto simp: users_get_iff [OF ok2] activeUsers_def)
  ultimately show ?thesis using eff by (simp add: hasPermission_iff)
qed

lemma deleted_user_locked_out_witness:
  "\<exists>s1. deleteUser acfg0 1 5 None accounts0 = (Inr (), s1) \<and>
     \<not> (\<exists>u. fst (loginUser acfg0 1 ''ann'' ''old'' s1) = Inr u \<and> us_userId u = 5)"
proof -
  from ann_get obtain s1 where s1: "deleteUser acfg0 1 5 None accounts0 = (Inr (), s1)"
    unfolding deleteUser_iff by blast
  from deleted_user_locked_out [OF accounts0_ok s1 run_start] s1 show ?thesis by blast
qed


section \<open>Passwords and reset tokens\<close>

text \<open>
  C18: a changed password ends every session of the user and every reset token, now and later, and from
  then on the new password logs the user in.
\<close>

theorem changed_password:
  assumes ok: "accounts_ok s" and run: "changePassword cfg now i password s = (Inr (), s')"
    and law: "\<And>k. cf_compare cfg password (cf_hash cfg password k) \<and> cf_hash cfg password k \<noteq> []"
    and r: "r \<in> set (aw_users s)" "activeUsers r" "ur_id r = i" "names_user login r" "new_User cfg r = Inr u"
    and on: "\<not> aw_simple_auth_disabled s" and t: "now \<le> t"
  shows "filter (\<lambda>x. se_user x = Some i) (aw_sessions s') = [] \<and>
     \<not> (\<exists>token x. isValid cfg t token s' = Inr x \<and> rk_user x = i) \<and>
     fst (loginUser cfg t login password s') = Inr u"
proof -
  let ?h = "cf_hash cfg password (aw_draws s)"
  from run have s': "s' = s\<lparr>aw_draws := Suc (aw_draws s), aw_users := map (set_hash i ?h) (aw_users s),
        aw_sessions := filter (\<lambda>r. se_user r \<noteq> Some i) (aw_sessions s),
        aw_resets := map (expire_token now i) (aw_resets s)\<rparr>"
    by (simp add: changePassword_result split: sum.splits)
  have ok': "accounts_ok s'" using preservesD [OF ok.changePassword_keeps ok run] .
  have "may_log_in cfg login password s' (set_hash i ?h r)"
    using r on law by (auto simp: may_log_in_def s') (simp add: set_hash_def)
  then have "fst (loginUser cfg t login password s') = Inr u"
    unfolding loginUser_iff [OF ok'] using r(5) by (metis set_hash_simps(4))
  moreover have "rk_user x \<noteq> i" if x: "isValid cfg t token s' = Inr x" for token x
  proof -
    from x have f: "find (\<lambda>r. rk_token r = token \<and> t < rk_expires_at r) (map (expire_token now i) (aw_resets s)) = Some x"
      by (simp add: isValid_iff s')
    from find_Some_in [OF this] obtain y where "x = expire_token now i y" "t < rk_expires_at x" by auto
    then show ?thesis using t by (cases "rk_user y = i") (simp_all add: expire_token_def)
  qed
  ultimately show ?thesis by (auto simp: s' filter_empty_conv)
qed

lemma changed_password_witness:
  "\<exists>s'. changePassword acfg0 3 5 ''new'' accounts0 = (Inr (), s') \<and>
     filter (\<lambda>x. se_user x = Some 5) (aw_sessions s') = [] \<and> (\<exists>u. fst (loginUser acfg0 4 ''ann'' ''new'' s') = Inr u)"
proof -
  have "validatePassword acfg0 ''new'' = Inr ()" by (simp add: validatePassword_def acfg0_def throw_if_def)
  then obtain s' where s': "changePassword acfg0 3 5 ''new'' accounts0 = (Inr (), s')"
    by (simp add: changePassword_result)
  have "arow0 5 ''ann'' False \<in> set (aw_users accounts0)" "\<not> aw_simple_auth_disabled accounts0" by (simp_all add: accounts0_def)
  from changed_password [OF accounts0_ok s' _ this(1) _ _ _ ann this(2), where login = "''ann''" and t = 4] s'
  show ?thesis
    using not_email_ann by (auto simp: acfg0_def arow0_def activeUsers_def names_user_def)
qed

text \<open>
  C24: a reset token that has been used is refused from then on, whatever is done in between: provided no
  later draw gives the same token, no request that starts afterwards gets past it.
\<close>

theorem used_reset_token_refused:
  assumes ok: "accounts_ok s" and run: "resetPassword cfg now token password s = (Inr (), s1)"
    and fresh: "no_redraw cfg token (aw_draws s)" and later: "account_run cfg now s1 t s2"
  shows "(\<exists>e. resetPassword cfg t token password' s2 = (Inl e, s2)) \<and> (\<exists>e. getUserForResetToken cfg t token s2 = Inl e)"
proof -
  obtain i where "\<forall>r\<in>set (aw_resets s1). rk_token r = token \<longrightarrow> rk_used_at r = Some now" "aw_draws s1 = Suc (aw_draws s)"
    using reset_marks_token [OF ok run] by metis
  then have "dead_token cfg now token s1" using fresh by (auto simp: dead_token_def no_redraw_def)
  then have "dead_token cfg t token s2" using account_run_dead later by blast
  then obtain e where e: "isValid cfg t token s2 = Inl e" using dead_token_invalid by blast
  then have "getUserForResetToken cfg t token s2 = Inl e" by (simp add: getUserForResetToken_def)
  moreover from this have "\<exists>e'. resetPassword cfg t token password' s2 = (Inl e', s2)"
    by (cases "validatePassword cfg password'") (simp_all add: resetPassword_def reset_check_def)
  ultimately show ?thesis by blast
qed

lemma reset_ann: "reset_check acfg0 3 ''#r'' p accounts0 = Inr 5" if "p \<noteq> []"
proof -
  have "isValid acfg0 3 ''#r'' accounts0 = Inr token0"
    by (simp add: isValid_iff accounts0_def token0_def)
  moreover have "\<exists>x. getRoleData 1 (access_view accounts0) = Inr x"
    by (simp add: getRoleData_def roles_get_def accounts0_def access_tables0_def access_view_def with_db_def)
  ultimately show ?thesis
    using that ann_get
    by (auto simp: reset_check_iff validatePassword_def throw_if_def getUserForResetToken_def bindR_Inr_iff token0_def
        ann0_def acfg0_def)
qed

lemma acfg0_fresh: "no_redraw acfg0 ''#r'' 2"
proof -
  have "CHR ''#'' # replicate k (CHR ''r'') \<noteq> ''#r''" if "2 \<le> k" for k
  proof
    assume "CHR ''#'' # replicate k (CHR ''r'') = ''#r''"
    from arg_cong [OF this, of length] that show False by simp
  qed
  then show ?thesis by (simp add: no_redraw_def acfg0_def)
qed

lemma reset_runs: "\<exists>s1. resetPassword acfg0 3 ''#r'' ''new'' accounts0 = (Inr (), s1)"
  using reset_ann [of "''new''"]
  by (auto simp: resetPassword_iff changePassword_result validatePassword_def throw_if_def acfg0_def)

lemma used_reset_token_refused_witness:
  "\<exists>s1. resetPassword acfg0 3 ''#r'' ''new'' accounts0 = (Inr (), s1) \<and>
     (\<exists>e. resetPassword acfg0 3 ''#r'' ''other'' s1 = (Inl e, s1))"
proof -
  from reset_runs obtain s1 where s1: "resetPassword acfg0 3 ''#r'' ''new'' accounts0 = (Inr (), s1)" by blast
  have "no_redraw acfg0 ''#r'' (aw_draws accounts0)" using acfg0_fresh by (simp add: accounts0_def)
  from used_reset_token_refused [OF accounts0_ok s1 this run_start] s1 show ?thesis by blast
qed

text \<open>
  Two requests with one reset token can both change the password: the statement that marks the token
  as used does not ask whether it is, so a request that has made its checks before the other one wrote
  still goes through, and its password wins.
\<close>

theorem concurrent_resets_both_succeed:
  assumes ok: "accounts_ok s" and first: "resetPassword cfg now token p1 s = (Inr (), s1)"
    and second: "reset_check cfg now token p2 s = Inr i" and r: "r \<in> set (aw_users s)" "activeUsers r" "ur_id r = i"
  shows "\<exists>s2. thenS (useToken now i token) (changePassword cfg now i p2) s1 = (Inr (), s2) \<and>
     (\<exists>r'\<in>set (aw_users s2). ur_id r' = i \<and> ur_password_hash r' = Some (cf_hash cfg p2 (Suc (aw_draws s))))"
proof -
  obtain j where s1: "aw_users s1 = map (set_hash j (cf_hash cfg p1 (aw_draws s))) (aw_users s)"
      "aw_draws s1 = Suc (aw_draws s)"
    using reset_marks_token [OF ok first] by metis
  have "validatePassword cfg p2 = Inr ()" using second by (simp add: reset_check_iff)
  then obtain s2 where s2: "thenS (useToken now i token) (changePassword cfg now i p2) s1 = (Inr (), s2)"
    and users: "aw_users s2 = map (set_hash i (cf_hash cfg p2 (aw_draws s1))) (aw_users s1)"
    by (simp add: thenS_def bindS_def useToken_result changePassword_result)
  let ?r = "set_hash i (cf_hash cfg p2 (aw_draws s1)) (set_hash j (cf_hash cfg p1 (aw_draws s)) r)"
  have "?r \<in> set (aw_users s2)" using r(1) by (simp add: users s1)
  moreover have "ur_id ?r = i \<and> ur_password_hash ?r = Some (cf_hash cfg p2 (Suc (aw_draws s)))"
    using r by (simp add: s1(2)) (simp add: set_hash_def [of i] activeUsers_def set_hash_def)
  ultimately show ?thesis using s2 by blast
qed

lemma concurrent_resets_both_succeed_witness:
  "\<exists>s1. resetPassword acfg0 3 ''#r'' ''new'' accounts0 = (Inr (), s1) \<and>
     (\<exists>s2. thenS (useToken 3 5 ''#r'') (changePassword acfg0 3 5 ''other'') s1 = (Inr (), s2))"
proof -
  from reset_runs obtain s1 where s1: "resetPassword acfg0 3 ''#r'' ''new'' accounts0 = (Inr (), s1)" by blast
  have "arow0 5 ''ann'' False \<in> set (aw_users accounts0)" by (simp add: accounts0_def)
  from concurrent_resets_both_succeed [OF accounts0_ok s1 reset_ann this] s1 show ?thesis
    by (auto simp: arow0_def activeUsers_def)
qed

lemma distinct_alike:
  assumes "distinct xs" and "\<And>x y. x \<in> set xs \<Longrightarrow> y \<in> set xs \<Longrightarrow> x = y"
  shows "length xs \<le> 1"
proof (rule ccontr)
  assume "\<not> length xs \<le> 1"
  then obtain a b zs where "xs = a # b # zs" by (cases xs; cases "tl xs") auto
  with assms(1) assms(2) [of a b] show False by simp
qed




section \<open>Creating users\<close>

lemma distinct_column_snoc:
  "distinct_column f (us @ [r]) \<longleftrightarrow> distinct_column f us \<and> (\<forall>x. f r = Some x \<longrightarrow> (\<forall>r'\<in>set us. f r' \<noteq> Some x))"
  by (auto simp: distinct_column_def List.map_filter_def image_iff)


text \<open>
  where the root role of a new user cannot be set, the answer is an error but the user stays, without
  a role: it is found by its e-mail address, and a second attempt is told that it exists.
\<close>

theorem failed_creation_leaves_user:
  assumes ok: "accounts_ok s" and d: "nu_email d = Some e" "e \<noteq> []" "email_ok cfg (Some e) = Inr ()"
    and new: "filter (\<lambda>r. ur_email r = Some (to_lower e) \<or> ur_username r \<noteq> None \<and> ur_username r = nu_username d) (aw_users s) = []"
    and user: "new_User cfg (inserted_row now \<lparr>uf_name = nu_name d, uf_username = nu_username d, uf_email = Some e, uf_imageUrl = None\<rparr>
        (aw_next_user s)) = Inr u"
    and role: "resolveRootRole (nu_rootRole d) (access_view s) = None"
  shows "\<exists>err s'. createUser cfg now d who s = (Inl (Api (BadDataError err)), s') \<and>
     (\<exists>r\<in>set (aw_users s'). activeUsers r \<and> ur_email r = Some (to_lower e)) \<and>
     fst (createUser cfg t (d\<lparr>nu_rootRole := any\<rparr>) who s') = Inl (Api (BadDataError ''User already exists''))"
proof -
  let ?f = "\<lparr>uf_name = nu_name d, uf_username = nu_username d, uf_email = Some e, uf_imageUrl = None\<rparr>"
  let ?r = "inserted_row now ?f (aw_next_user s)"
  let ?s1 = "s\<lparr>aw_next_user := aw_next_user s + 1, aw_users := aw_users s @ [?r]\<rparr>"
  let ?q = "\<lparr>lk_id = None, lk_username = nu_username d, lk_email = Some e\<rparr>"
  have has: "hasUser ?q s' = Inr (map_option ur_id (find (\<lambda>r. activeAll r \<and> ur_email r = Some (to_lower e)) (aw_users s')))" for s'
    using d(2) by (simp add: hasUser_def buildSelectUser_def select_where_def num_or_def truthy_def safeToLower_def)
  have none: "find (\<lambda>r. activeAll r \<and> ur_email r = Some (to_lower e)) (aw_users s) = None"
    using new by (auto simp: find_None_iff' filter_empty_conv)
  have "ur_username r \<noteq> Some x" if "r \<in> set (aw_users s)" "nu_username d = Some x" for r x
    using new that by (auto simp: filter_empty_conv)
  moreover have "ur_email r \<noteq> Some (to_lower e)" if "r \<in> set (aw_users s)" for r
    using new that by (auto simp: filter_empty_conv)
  ultimately have uniq: "distinct_column ur_username (aw_users s @ [?r]) \<and> distinct_column ur_email (aw_users s @ [?r])"
    using ok
    by (auto simp: distinct_column_snoc inserted_row_columns safeToLower_def accounts_ok_def users_ok_def)
  then have ins: "users_insert cfg now ?f s = (Inr u, ?s1)"
    using user by (simp add: users_insert_iff check_unique_iff)
  have id: "us_userId u \<noteq> 0" "us_userId u = aw_next_user s" using new_User_id [OF user] new_User_id_nonzero [OF user] by auto
  have run: "createUser cfg now d who s =
      (Inl (Api (BadDataError (''Could not find rootRole='' @ show_role_key (nu_rootRole d)))), with_access ?s1 (access_view ?s1))"
    using d none ins role
    by (simp add: createUser_def thenS_def bindS_def throw_if_def truthy_def has num_or_def on_access_def setUserRootRole_def)
  let ?s' = "with_access ?s1 (access_view ?s1)"
  have "find (\<lambda>r. activeAll r \<and> ur_email r = Some (to_lower e)) (aw_users ?s') = Some ?r"
    using new by (intro find_unique) (auto simp: filter_empty_conv activeAll_def inserted_row_columns safeToLower_def)
  then have again: "fst (createUser cfg t (d\<lparr>nu_rootRole := any\<rparr>) who ?s') = Inl (Api (BadDataError ''User already exists''))"
    using d id by (simp add: createUser_def thenS_def bindS_def throw_if_def truthy_def has num_or_def)
  have "?r \<in> set (aw_users ?s')" "activeUsers ?r" "ur_email ?r = Some (to_lower e)"
    by (simp_all add: activeUsers_def inserted_row_columns safeToLower_def)
  with run again show ?thesis by blast
qed

lemma new_User_valid: "ur_id r \<noteq> 0 \<Longrightarrow> (\<And>e. cf_email_error cfg e = None) \<Longrightarrow> \<exists>u. new_User cfg r = Inr u"
  by (auto simp: new_User_def split: option.splits)


lemma failed_creation_leaves_user_witness:
  "\<exists>err s'. createUser acfg0 3 \<lparr>nu_username = None, nu_email = Some ''b@c.de'', nu_name = None, nu_password = None,
       nu_rootRole = RoleNamed ''Nobody''\<rparr> None accounts0 = (Inl (Api (BadDataError err)), s') \<and>
     fst (createUser acfg0 4 \<lparr>nu_username = None, nu_email = Some ''b@c.de'', nu_name = None, nu_password = None,
       nu_rootRole = RoleId 3\<rparr> None s') = Inl (Api (BadDataError ''User already exists''))"
proof -
  let ?d = "\<lparr>nu_username = None, nu_email = Some ''b@c.de'', nu_name = None, nu_password = None, nu_rootRole = RoleNamed ''Nobody''\<rparr>"
  obtain u where u: "new_User acfg0 (inserted_row 3 \<lparr>uf_name = None, uf_username = None, uf_email = Some ''b@c.de'', uf_imageUrl = None\<rparr>
      (aw_next_user accounts0)) = Inr u"
    using new_User_valid [of "inserted_row 3 _ 7" acfg0] by (auto simp: accounts0_def acfg0_def)
  have role: "resolveRootRole (RoleNamed ''Nobody'') (access_view accounts0) = None"
    by (simp add: resolveRootRole_def access_view_def with_db_def accounts0_def access_tables0_def store_getRootRoles_def roles_of_types_def)
  have "\<exists>err s'. createUser acfg0 3 ?d None accounts0 = (Inl (Api (BadDataError err)), s') \<and>
     (\<exists>r\<in>set (aw_users s'). activeUsers r \<and> ur_email r = Some (to_lower ''b@c.de'')) \<and>
     fst (createUser acfg0 4 (?d\<lparr>nu_rootRole := RoleId 3\<rparr>) None s') = Inl (Api (BadDataError ''User already exists''))"
    by (rule failed_creation_leaves_user [OF accounts0_ok])
      (use u role in \<open>simp_all add: email_ok_def acfg0_def accounts0_def arow0_def\<close>)
  then show ?thesis by auto
qed



section \<open>Tokens, invitations, searches\<close>

text \<open>
  A personal access token gives a request the user whose token it is, only before it expires, only
  where that account is neither deleted nor the system's, and only for secrets of the form \<open>user:...\<close>.
\<close>

theorem personal_token_authenticates_owner:
  assumes "fst (patMiddleware cfg now header s) = Inr (Some u)"
  shows "\<exists>secret. header = Some secret \<and> starts_with secret ''user:'' \<and>
     (\<exists>p\<in>set (aw_pats s). pt_secret p = secret \<and> now < pt_expires_at p \<and>
        (\<exists>r\<in>set (aw_users s). ur_id r = pt_user p \<and> ur_deleted_at r = None \<and> \<not> ur_is_system r \<and> new_User cfg r = Inr u))"
proof -
  from assms obtain secret where secret: "header = Some secret" "starts_with secret ''user:''"
    and u: "store_getAccountByPersonalAccessToken cfg now secret s = Inr u"
    by (auto simp: patMiddleware_def orElseS_def bindS_def thenS_def addPATSeen_def split: option.splits if_splits sum.splits)
  from u obtain r where "r \<in> set (aw_users s)" "activeAccounts r" "new_User cfg r = Inr u"
    and "list_ex (\<lambda>p. pt_user p = ur_id r \<and> pt_secret p = secret \<and> now < pt_expires_at p) (aw_pats s)"
    by (auto simp: store_getAccountByPersonalAccessToken_def rowToUser_iff dest!: find_Some_in)
  with secret show ?thesis by (fastforce simp: activeAccounts_def list_ex_iff)
qed

lemma personal_token_authenticates_owner_witness:
  "\<exists>u. fst (patMiddleware acfg0 9 (Some ''user:x'') (accounts0\<lparr>aw_pats := [\<lparr>pt_id = 1, pt_secret = ''user:x'', pt_description = ''d'',
     pt_user = 5, pt_expires_at = 10, pt_created_at = 0, pt_seen_at = None\<rparr>]\<rparr>)) = Inr (Some u) \<and> us_userId u = 5"
proof -
  let ?s = "accounts0\<lparr>aw_pats := [\<lparr>pt_id = 1, pt_secret = ''user:x'', pt_description = ''d'',
     pt_user = 5, pt_expires_at = 10, pt_created_at = 0, pt_seen_at = None\<rparr>]\<rparr>"
  have "store_getAccountByPersonalAccessToken acfg0 9 ''user:x'' ?s = Inr ann0"
    using ann by (simp add: store_getAccountByPersonalAccessToken_def accounts0_def activeAccounts_def arow0_def rowToUser_def)
  then have run: "fst (patMiddleware acfg0 9 (Some ''user:x'') ?s) = Inr (Some ann0)"
    by (simp add: patMiddleware_def starts_with_def orElseS_def bindS_def thenS_def addPATSeen_def)
  from personal_token_authenticates_owner [OF run] obtain p where "p \<in> set (aw_pats ?s)" "us_userId ann0 = pt_user p"
    using new_User_id by auto
  with run show ?thesis by auto
qed

lemma mapR_map: "mapR f xs = Inr ys \<Longrightarrow> (\<And>x y. f x = Inr y \<Longrightarrow> g y = h x) \<Longrightarrow> map g ys = map h xs"
  by (induction xs arbitrary: ys) (auto simp: bindR_Inr_iff)

text \<open>
  A search for users lists every account whose user name or e-mail address starts with the text,
  service accounts and the system's user too: the condition that leaves those out binds to the match of
  the name only.
\<close>

theorem search_ignores_account_type:
  assumes "users_search cfg q s = Inr us" and "r \<in> set (aw_users s)"
    and "ilike (ur_username r) (q @ ''%'') \<or> ilike (ur_email r) (q @ ''%'')"
  shows "ur_id r \<in> us_userId ` set us"
proof -
  from assms(1) obtain vs where vs: "mapR (new_User cfg) (filter (search_where activeUsers q) (aw_users s)) = Inr vs"
    and us: "us = map public_user vs"
    by (auto simp: users_search_def bindR_Inr_iff)
  have "map us_userId vs = map ur_id (filter (search_where activeUsers q) (aw_users s))"
    using vs new_User_id by (rule mapR_map)
  moreover have "r \<in> set (filter (search_where activeUsers q) (aw_users s))"
    using assms(2,3) by (auto simp: search_where_def)
  ultimately have "ur_id r \<in> us_userId ` set vs" by (metis image_eqI list.set_map)
  then show ?thesis by (simp add: us image_image public_user_def)
qed

lemma search_ignores_account_type_witness:
  "\<exists>us. users_search acfg0 ''annb'' accounts0 = Inr us \<and> 6 \<in> us_userId ` set us \<and>
     filter (\<lambda>r. ur_id r = 6 \<and> activeUsers r) (aw_users accounts0) = []"
proof -
  have like: "ilike (Some ''annbot'') (''annb'' @ ''%'')" by (simp add: ilike_def to_lower_def lower_char_def)
  have "\<exists>vs. mapR (new_User acfg0) rows = Inr vs" if "\<forall>r\<in>set rows. ur_id r \<noteq> 0" for rows
    using that
  proof (induction rows)
    case (Cons r rows)
    moreover obtain u where "new_User acfg0 r = Inr u" using new_User_valid [of r acfg0] Cons.prems by (auto simp: acfg0_def)
    ultimately show ?case by auto
  qed simp
  moreover have "\<forall>r\<in>set (filter (search_where activeUsers ''annb'') (aw_users accounts0)). ur_id r \<noteq> 0"
    by (auto simp: accounts0_def arow0_def)
  ultimately obtain us where us: "users_search acfg0 ''annb'' accounts0 = Inr us"
    unfolding users_search_def by fastforce
  have row: "arow0 6 ''annbot'' True \<in> set (aw_users accounts0)" by (simp add: accounts0_def)
  have "ur_id (arow0 6 ''annbot'' True) \<in> us_userId ` set us"
    by (rule search_ignores_account_type [OF us row]) (use like in \<open>simp add: arow0_def\<close>)
  with us show ?thesis by (simp add: arow0_def accounts0_def activeUsers_def)
qed

text \<open>
  An invitation is refused from the midnight before it expires on, although it has not expired: the
  query compares the date of the expiry with the time of the request.
\<close>

theorem invitation_refused_on_last_day:
  assumes "accounts_ok s" and "t \<in> set (aw_signups s)" and "midnight (sg_expires_at t) \<le> now" and "now < sg_expires_at t"
  shows "invite_handler cfg now (sg_secret t) d s = (Inr (400, None), s) \<and>
     sg_secret t \<in> (\<lambda>x. sg_secret (st_row x)) ` set (signups_getAllActive now s)"
proof -
  have "x = t" if "x \<in> set (aw_signups s)" "sg_secret x = sg_secret t" for x
    using assms(1,2) that by (auto simp: accounts_ok_def signups_ok_def distinct_map inj_on_def)
  then have "\<not> signups_isValid now (sg_secret t) s"
    using assms(3) by (fastforce simp: signups_isValid_def list_ex_iff)
  moreover have "t \<in> set (filter (\<lambda>t. now < sg_expires_at t) (aw_signups s))" using assms(2,4) by simp
  then have "sg_secret t \<in> (\<lambda>x. sg_secret (st_row x)) ` set (signups_getAllActive now s)"
    by (force simp: signups_getAllActive_def toToken_def)
  ultimately show ?thesis by (simp add: invite_handler_def)
qed

lemma invitation_refused_on_last_day_witness:
  "invite_handler acfg0 86400003 ''inv'' \<lparr>nu_username = None, nu_email = None, nu_name = None, nu_password = None,
     nu_rootRole = RoleId 3\<rparr> accounts0 = (Inr (400, None), accounts0) \<and>
   signups_isValid 86399999 ''inv'' accounts0"
proof -
  let ?t = "\<lparr>sg_secret = ''inv'', sg_name = ''n'', sg_expires_at = 86400005, sg_created_at = 0, sg_created_by = None,
             sg_role = 3, sg_url = [], sg_enabled = True\<rparr>"
  have "?t \<in> set (aw_signups accounts0)" by (simp add: accounts0_def)
  from invitation_refused_on_last_day [OF accounts0_ok this, of 86400003] show ?thesis
    by (simp add: midnight_def DAY_def signups_isValid_def accounts0_def)
qed

text \<open>
  Deleting a personal access token of somebody else changes no token, but stores the event of its
  deletion, with its description, and reports success.
\<close>

theorem foreign_token_deletion_reported:
  assumes "accounts_ok s" and "p \<in> set (aw_pats s)" and "pt_user p \<noteq> i"
  shows "deletePat (pt_id p) i who s = (Inr (), s\<lparr>aw_events := aw_events s @
     [PatDeleted (extractUsernameFromUser who) (extractUserIdFromUser who) (pt_description p) (pt_expires_at p)]\<rparr>)"
proof -
  have same: "x = p" if "x \<in> set (aw_pats s)" "pt_id x = pt_id p" for x
    using assms(1,2) that by (auto simp: accounts_ok_def pats_ok_def distinct_map inj_on_def)
  have "find (\<lambda>x. pt_id x = pt_id p) (aw_pats s) = Some p"
    using assms(2) same by (intro find_unique) auto
  moreover have "filter (\<lambda>x. \<not> (pt_id x = pt_id p \<and> pt_user x = i)) (aw_pats s) = aw_pats s"
    using same assms(3) by (auto simp: filter_id_conv)
  ultimately show ?thesis
    by (simp add: deletePat_def pats_get_def add_event_def deleteForUser_def thenS_def bindS_def)
qed

lemma foreign_token_deletion_reported_witness:
  "\<exists>e. deletePat 1 6 None (accounts0\<lparr>aw_pats := [\<lparr>pt_id = 1, pt_secret = ''user:x'', pt_description = ''d'',
     pt_user = 5, pt_expires_at = 10, pt_created_at = 0, pt_seen_at = None\<rparr>], aw_next_pat := 2\<rparr>) =
   (Inr (), accounts0\<lparr>aw_pats := [\<lparr>pt_id = 1, pt_secret = ''user:x'', pt_description = ''d'',
     pt_user = 5, pt_expires_at = 10, pt_created_at = 0, pt_seen_at = None\<rparr>], aw_next_pat := 2, aw_events := [e]\<rparr>)"
proof -
  let ?p = "\<lparr>pt_id = 1, pt_secret = ''user:x'', pt_description = ''d'',
     pt_user = 5, pt_expires_at = 10, pt_created_at = 0, pt_seen_at = None\<rparr>"
  let ?s = "accounts0\<lparr>aw_pats := [?p], aw_next_pat := 2\<rparr>"
  have ok: "accounts_ok ?s"
    by (rule accounts_ok_frame [OF accounts0_ok])
      (use accounts0_ok in \<open>simp_all add: accounts_ok_def pats_ok_def account_ids_def accounts0_def arow0_def role_ids_def\<close>)
  from foreign_token_deletion_reported [OF ok, of ?p 6 None] show ?thesis by (simp add: accounts0_def)
qed

end
