(* ===== verification/FeatureTypes.thy ===== *)
theory FeatureTypes
  imports Operations AccessService Evaluator
begin

text \<open>
  The data of the feature service: the tables it works on, the values it takes and returns, the
  schemas (\<open>schema/feature-schema.ts\<close>) and the validators of constraints
  (\<open>util/validators/constraint-types.ts\<close>). Joi, semver, regular expressions, uuids and collation are
  not under \<open>src/\<close>: they are the fields of \<open>feature_config\<close>.
\<close>

section \<open>Configuration\<close>

record feature_config =
  fc_now :: int
  fc_uuid :: "nat \<Rightarrow> string" \<comment> \<open>the n-th value of \<open>uuid.v4()\<close>\<close>
  fc_collate :: "string \<Rightarrow> string" \<comment> \<open>the sort key of a string: \<open>localeCompare\<close> compares the keys\<close>
  fc_regex :: "string \<Rightarrow> string \<Rightarrow> bool" \<comment> \<open>\<open>new RegExp(`^${p}$`).test(s)\<close>\<close>
  fc_json :: "string \<Rightarrow> string" \<comment> \<open>\<open>JSON.stringify\<close> of a string\<close>
  fc_is_json :: "string \<Rightarrow> bool" \<comment> \<open>\<open>JSON.parse\<close> does not throw\<close>
  fc_is_number :: "string \<Rightarrow> bool" \<comment> \<open>\<open>joi.number()\<close> accepts it\<close>
  fc_is_date :: "string \<Rightarrow> bool" \<comment> \<open>\<open>joi.date()\<close> accepts it\<close>
  fc_semver_clean :: "string \<Rightarrow> string option"
  fc_semver_parses :: "string \<Rightarrow> bool"
  fc_strategySegmentsLimit :: nat
  fc_segmentValuesLimit :: nat
  fc_isEnterprise :: bool


section \<open>Tables\<close>

record weighted_variant = variant_def +
  wv_weightType :: "string option"

record feature_row =
  ft_name :: string
  ft_description :: "string option"
  ft_type :: string
  ft_project :: string
  ft_stale :: bool
  ft_created_at :: int
  ft_last_seen_at :: "int option"
  ft_impression_data :: bool
  ft_archived_at :: "int option"
  ft_created_by_user_id :: "int option"
  ft_potentially_stale :: "bool option"

record feature_env =
  en_environment :: string
  en_feature :: string
  en_enabled :: bool
  en_variants :: "weighted_variant list"

record strategy_row =
  sr_id :: string
  sr_feature :: string
  sr_project :: string
  sr_environment :: string
  sr_name :: string
  sr_title :: "string option"
  sr_parameters :: parameters
  sr_constraints :: "constraint list"
  sr_variants :: "weighted_variant list"
  sr_sort_order :: int
  sr_created_at :: int
  sr_disabled :: bool

record segment_row =
  sw_id :: int
  sw_name :: string
  sw_description :: "string option"
  sw_project :: "string option"
  sw_constraints :: "constraint list"
  sw_created_by :: "string option"
  sw_created_at :: int

record dependency_row =
  dr_parent :: string
  dr_child :: string
  dr_enabled :: bool
  dr_variants :: "string list"

record environment_row =
  nv_name :: string
  nv_type :: string
  nv_sort_order :: int
  nv_enabled :: bool
  nv_protected :: bool

text \<open>
  A row of \<open>projects\<close> with its row of \<open>project_settings\<close>, where it has one; the columns of the settings are
  null where it has none.
\<close>

record project_row =
  pj_id :: string
  pj_name :: string
  pj_description :: "string option"
  pj_created_at :: int
  pj_health :: int
  pj_updated_at :: "int option"
  pj_has_settings :: bool
  pj_mode :: "string option"
  pj_naming_pattern :: "string option"
  pj_naming_example :: "string option"
  pj_naming_description :: "string option"
  pj_default_stickiness :: "string option"
  pj_feature_limit :: "int option"

text \<open>What is asked for when a strategy is created, the project's default strategy included.\<close>

record strategy_input = strategy_config +
  si_title :: "string option"
  si_variants :: "weighted_variant list"
  si_sortOrder :: "int option"
  si_segments :: "int list option"

record project_env =
  pv_project :: string
  pv_environment :: string
  pv_default_strategy :: "strategy_input option"

record tag_row =
  tg_feature :: string
  tg_type :: string
  tg_value :: string

record feature_db =
  fd_features :: "feature_row list"
  fd_envs :: "feature_env list"
  fd_strategies :: "strategy_row list"
  fd_segments :: "segment_row list"
  fd_strategy_segments :: "(string \<times> int) list" \<comment> \<open>strategy, segment\<close>
  fd_dependencies :: "dependency_row list"
  fd_environments :: "environment_row list"
  fd_projects :: "project_row list"
  fd_project_envs :: "project_env list"
  fd_context_fields :: "(string \<times> string list) list" \<comment> \<open>name, legal values\<close>
  fd_strategy_types :: "string list"
  fd_change_requests :: "(string \<times> string) list" \<comment> \<open>project, environment\<close>
  fd_cr_segments :: "(int \<times> string) list" \<comment> \<open>segment, project of an open change request that uses it\<close>
  fd_tags :: "tag_row list"
  fd_feature_types :: "(string \<times> int option) list" \<comment> \<open>id, lifetime in days\<close>
  fd_next_segment :: int
  fd_message :: "string \<Rightarrow> string"


section \<open>Values\<close>

record feature_toggle =
  tf_name :: string
  tf_description :: "string option"
  tf_type :: string
  tf_project :: string
  tf_stale :: bool
  tf_createdAt :: int
  tf_lastSeenAt :: "int option"
  tf_impressionData :: bool
  tf_archivedAt :: "int option"
  tf_archived :: bool

text \<open>
  \<open>FeatureToggleDTO\<close>. An absent field is \<open>None\<close>; for the description, \<open>Some None\<close> is an explicit \<open>null\<close>.
\<close>

record feature_dto =
  dto_name :: string
  dto_description :: "string option option"
  dto_type :: "string option"
  dto_stale :: "bool option"
  dto_archived :: "bool option"
  dto_createdAt :: "int option"
  dto_impressionData :: "bool option"
  dto_variants :: "weighted_variant list option"
  dto_createdByUserId :: "int option"

text \<open>\<open>Partial<IStrategyConfig>\<close>: \<open>None\<close> for a field that is absent or \<open>null\<close>.\<close>

record strategy_update =
  su_name :: "string option"
  su_title :: "string option"
  su_disabled :: "bool option"
  su_constraints :: "constraint list option"
  su_variants :: "weighted_variant list option"
  su_parameters :: "parameters option"
  su_segments :: "int list option"

definition no_update :: strategy_update where
  "no_update = \<lparr>su_name = None, su_title = None, su_disabled = None, su_constraints = None,
     su_variants = None, su_parameters = None, su_segments = None\<rparr>"

text \<open>\<open>Saved<IStrategyConfig>\<close>: a strategy as the API and the events show it.\<close>

record public_strategy =
  pb_id :: string
  pb_name :: string
  pb_title :: "string option"
  pb_disabled :: bool
  pb_constraints :: "constraint list"
  pb_parameters :: parameters
  pb_variants :: "weighted_variant list"
  pb_sortOrder :: int
  pb_segments :: "int list"

text \<open>Events: what happened, to which feature of which project, by whom.\<close>

datatype feature_event_kind =
    FeatureCreated feature_toggle
  | FeatureArchived
  | FeatureRevived
  | FeatureDeleted feature_toggle "(string \<times> string) list"
  | FeatureStaleOn | FeatureStaleOff | PotentiallyStaleOn
  | MetadataUpdated feature_toggle feature_toggle \<comment> \<open>data, preData\<close>
  | ProjectChanged string string \<comment> \<open>old, new\<close>
  | EnvironmentEnabled string | EnvironmentDisabled string
  | StrategyAdded string public_strategy
  | StrategyUpdated string public_strategy public_strategy \<comment> \<open>environment, data, preData\<close>
  | StrategyRemoved string public_strategy
  | StrategyOrderChanged string "string list" "string list" \<comment> \<open>environment, preData, data\<close>
  | VariantsUpdated "weighted_variant list" "weighted_variant list" \<comment> \<open>old, new\<close>
  | EnvVariantsUpdated string "weighted_variant list" "weighted_variant list"
  | DependencyAdded string bool "string list option"
  | DependencyRemoved string
  | DependenciesRemoved
  | SegmentCreated segment_row
  | SegmentUpdated segment_row segment_row
  | SegmentDeleted segment_row
  | ProjectEnvironmentAdded string | ProjectEnvironmentRemoved string
  | DefaultStrategyUpdated string "strategy_input option" strategy_input \<comment> \<open>environment, preData, data\<close>

record feature_event =
  ek_kind :: feature_event_kind
  ek_project :: "string option"
  ek_feature :: "string option"
  ek_createdBy :: "string option"
  ek_createdByUserId :: int

text \<open>Who acts: the user the access service knows, with its names.\<close>

record acting_user = access_user +
  act_email :: "string option"
  act_username :: "string option"

definition username_of :: "acting_user \<Rightarrow> string" where
  "username_of u = extractUsernameFromUser (Some \<lparr>ui_email = act_email u, ui_username = act_username u,
     ui_id = Some (ax_id u), ui_internalAdminTokenUserId = None\<rparr>)"

text \<open>\<open>user?.id || SYSTEM_USER_ID\<close>\<close>

definition user_id_of :: "acting_user option \<Rightarrow> int" where
  "user_id_of user = num_or (map_option ax_id user) SYSTEM_USER_ID"

record feature_service =
  fs_db :: feature_db
  fs_access :: access_service
  fs_events :: "feature_event list"
  fs_drawn :: nat \<comment> \<open>uuids drawn so far\<close>

type_synonym 'a feature_op = "(feature_service, 'a) op"

definition with_fdb :: "(feature_db \<Rightarrow> feature_db) \<Rightarrow> feature_service \<Rightarrow> feature_service" where
  "with_fdb f s = s\<lparr>fs_db := f (fs_db s)\<rparr>"

text \<open>A query of the tables, one that may throw, a statement, and one that may be refused.\<close>

definition ask_db :: "(feature_db \<Rightarrow> 'a) \<Rightarrow> 'a feature_op" where
  "ask_db f = askS (\<lambda>s. f (fs_db s))"

definition try_db :: "(feature_db \<Rightarrow> exn + 'a) \<Rightarrow> 'a feature_op" where
  "try_db f = tryS (\<lambda>s. f (fs_db s))"

definition run_db :: "(feature_db \<Rightarrow> feature_db) \<Rightarrow> unit feature_op" where
  "run_db f = modS (with_fdb f)"

definition exec_db :: "(feature_db \<Rightarrow> exn + ('a \<times> feature_db)) \<Rightarrow> 'a feature_op" where
  "exec_db f s = (case f (fs_db s) of Inl e \<Rightarrow> (Inl e, s) | Inr (x, db) \<Rightarrow> (Inr x, s\<lparr>fs_db := db\<rparr>))"

definition store_event_by ::
  "string option \<Rightarrow> feature_event_kind \<Rightarrow> string option \<Rightarrow> string option \<Rightarrow> int \<Rightarrow> unit feature_op" where
  "store_event_by by kind project feature uid = modS (\<lambda>s. s\<lparr>fs_events := fs_events s @
     [\<lparr>ek_kind = kind, ek_project = project, ek_feature = feature, ek_createdBy = by,
       ek_createdByUserId = uid\<rparr>]\<rparr>)"

definition store_event :: "feature_event_kind \<Rightarrow> string option \<Rightarrow> string option \<Rightarrow> string \<Rightarrow> int \<Rightarrow> unit feature_op" where
  "store_event kind project feature by uid = store_event_by (Some by) kind project feature uid"


section \<open>Names\<close>

text \<open>\<open>encodeURIComponent(s) === s\<close>\<close>

definition url_friendly :: "string \<Rightarrow> bool" where
  \<open>url_friendly s = list_all (\<lambda>c. let n = (of_char c :: nat) in
     48 \<le> n \<and> n \<le> 57 \<or> 65 \<le> n \<and> n \<le> 90 \<or> 97 \<le> n \<and> n \<le> 122 \<or> c \<in> set ''-_.!~*'()'') s\<close>

text \<open>The errors of \<open>nameType\<close> for a field with a label.\<close>

definition name_errors :: "feature_config \<Rightarrow> string \<Rightarrow> string \<Rightarrow> joi_detail list" where
  \<open>name_errors cfg label name =
     (if name = [] then [\<lparr>jd_message = label @ '' is not allowed to be empty'', jd_value = None\<rparr>]
      else if \<not> url_friendly name
      then [\<lparr>jd_message = label @ '' must be URL friendly'', jd_value = Some (fc_json cfg name)\<rparr>]
      else if 100 < length name
      then [\<lparr>jd_message = label @ '' length must be less than or equal to 100 characters long'',
             jd_value = Some (fc_json cfg name)\<rparr>]
      else [])\<close>

definition joi_error :: "joi_detail list \<Rightarrow> exn + unit" where
  "joi_error ds = (if ds = [] then Inr () else Inl (JoiError (join_with ''. '' (map jd_message ds)) ds))"

text \<open>With \<open>abortEarly\<close>, the default, only the first error is reported.\<close>

definition joi_first :: "joi_detail list \<Rightarrow> exn + unit" where
  "joi_first ds = joi_error (take 1 ds)"

definition nameSchema :: "feature_config \<Rightarrow> string \<Rightarrow> exn + unit" where
  \<open>nameSchema cfg name = joi_error (name_errors cfg ''"name"'' name)\<close>


section \<open>Variants\<close>

definition variant_errors :: "feature_config \<Rightarrow> nat \<times> weighted_variant \<Rightarrow> joi_detail list" where
  \<open>variant_errors cfg iv = (case iv of (i, v) \<Rightarrow>
     (let lbl = (\<lambda>f. ''"['' @ show_nat i @ ''].'' @ f @ ''"'') in
      name_errors cfg (lbl ''name'') (vd_name v) @
      (if vd_weight v < 0
       then [\<lparr>jd_message = lbl ''weight'' @ '' must be greater than or equal to 0'', jd_value = Some (show_int (vd_weight v))\<rparr>] else []) @
      (if 1000 < vd_weight v
       then [\<lparr>jd_message = lbl ''weight'' @ '' must be less than or equal to 1000'', jd_value = Some (show_int (vd_weight v))\<rparr>] else []) @
      (case wv_weightType v of
         Some t \<Rightarrow> (if t \<in> {''variable'', ''fix''} then []
           else [\<lparr>jd_message = lbl ''weightType'' @ '' must be one of [variable, fix]'', jd_value = Some (fc_json cfg t)\<rparr>])
       | None \<Rightarrow> []) @
      (case vd_payload v of
         Some p \<Rightarrow>
           (if pl_type p = [] then [\<lparr>jd_message = lbl ''payload.type'' @ '' is not allowed to be empty'', jd_value = None\<rparr>] else []) @
           (if pl_value p = [] then [\<lparr>jd_message = lbl ''payload.value'' @ '' is not allowed to be empty'', jd_value = None\<rparr>]
            else if pl_type p = ''json'' \<and> \<not> fc_is_json cfg (pl_value p)
            then [\<lparr>jd_message = CHR 0x27 # ''value' must be a valid json string when 'type' is json'', jd_value = Some (fc_json cfg (pl_value p))\<rparr>]
            else [])
       | None \<Rightarrow> []) @
      (if vd_stickiness v = Some [] then [\<lparr>jd_message = lbl ''stickiness'' @ '' is not allowed to be empty'', jd_value = None\<rparr>] else []) @
      concat (map (\<lambda>(k, ov).
          (if ov_contextName ov = []
           then [\<lparr>jd_message = lbl (''overrides['' @ show_nat k @ ''].contextName'') @ '' is not allowed to be empty'', jd_value = None\<rparr>] else []) @
          (if [] \<in> set (ov_values ov)
           then [\<lparr>jd_message = lbl (''overrides['' @ show_nat k @ ''].values'') @ '' is not allowed to be empty'', jd_value = None\<rparr>] else []))
        (List.enumerate 0 (default [] (vd_overrides v))))))\<close>

definition duplicate_errors :: "(nat \<times> weighted_variant) list \<Rightarrow> joi_detail list" where
  \<open>duplicate_errors ivs = concat (map (\<lambda>(i, v).
     if \<exists>(j, w)\<in>set ivs. j < i \<and> vd_name w = vd_name v
     then [\<lparr>jd_message = ''"['' @ show_nat i @ '']" contains a duplicate value'', jd_value = None\<rparr>] else []) ivs)\<close>

text \<open>Only whether it throws is used: the callers keep the variants they were given.\<close>

definition variantsArraySchema :: "feature_config \<Rightarrow> weighted_variant list \<Rightarrow> exn + unit" where
  "variantsArraySchema cfg vs =
     (let ivs = List.enumerate 0 vs in
      joi_first (concat (map (variant_errors cfg) ivs) @ duplicate_errors ivs))"

text \<open>
  \<open>featureMetadataSchema\<close>, with the defaults it fills in. It removes unknown fields, and reports all errors.
\<close>

definition featureMetadataSchema :: "feature_config \<Rightarrow> feature_dto \<Rightarrow> exn + feature_dto" where
  \<open>featureMetadataSchema cfg f =
     (let ivs = List.enumerate 0 (default [] (dto_variants f)) in
      bindR (joi_error (name_errors cfg ''"name"'' (dto_name f) @
               (if dto_type f = Some [] then [\<lparr>jd_message = ''"type" is not allowed to be empty'', jd_value = None\<rparr>] else []) @
               concat (map (variant_errors cfg) ivs) @ duplicate_errors ivs)) (\<lambda>_.
      Inr (f\<lparr>dto_stale := Some (default False (dto_stale f)),
             dto_archived := Some (default False (dto_archived f)),
             dto_type := Some (default ''release'' (dto_type f)),
             dto_impressionData := Some (default False (dto_impressionData f))\<rparr>)))\<close>


section \<open>Constraints\<close>

definition NUM_OPERATORS :: "operator list" where
  "NUM_OPERATORS = [NUM_EQ, NUM_GT, NUM_GTE, NUM_LT, NUM_LTE]"

definition STRING_OPERATORS :: "operator list" where
  "STRING_OPERATORS = [STR_ENDS_WITH, STR_STARTS_WITH, STR_CONTAINS, IN, NOT_IN]"

definition SEMVER_OPERATORS :: "operator list" where
  "SEMVER_OPERATORS = [SEMVER_EQ, SEMVER_GT, SEMVER_LT]"

definition DATE_OPERATORS :: "operator list" where
  "DATE_OPERATORS = [DATE_AFTER, DATE_BEFORE]"

definition constraint_errors :: "feature_config \<Rightarrow> (string \<Rightarrow> string) \<Rightarrow> constraint \<Rightarrow> joi_detail list" where
  \<open>constraint_errors cfg lbl c =
     (if contextName c = [] then [\<lparr>jd_message = lbl ''contextName'' @ '' is not allowed to be empty'', jd_value = None\<rparr>] else []) @
     (case operator c of
        OtherOperator s \<Rightarrow> [\<lparr>jd_message = lbl ''operator'' @ '' must be one of [NOT_IN, IN, STR_ENDS_WITH, STR_STARTS_WITH, STR_CONTAINS, NUM_EQ, NUM_GT, NUM_GTE, NUM_LT, NUM_LTE, DATE_AFTER, DATE_BEFORE, SEMVER_EQ, SEMVER_GT, SEMVER_LT]'',
                             jd_value = Some (fc_json cfg s)\<rparr>]
      | _ \<Rightarrow> []) @
     concat (map (\<lambda>(i, v).
       (if v = [] then [\<lparr>jd_message = lbl (''values['' @ show_nat i @ '']'') @ '' is not allowed to be empty'', jd_value = None\<rparr>]
        else if 100 < length v
        then [\<lparr>jd_message = lbl (''values['' @ show_nat i @ '']'') @ '' length must be less than or equal to 100 characters long'',
               jd_value = Some (fc_json cfg v)\<rparr>]
        else [])) (List.enumerate 0 (vals c)))\<close>

definition constraintSchema :: "feature_config \<Rightarrow> constraint \<Rightarrow> exn + constraint" where
  \<open>constraintSchema cfg c =
     bindR (joi_first (constraint_errors cfg (\<lambda>f. ''"'' @ f @ ''"'') c)) (\<lambda>_. Inr c)\<close>

definition validateNumber :: "feature_config \<Rightarrow> string option \<Rightarrow> exn + unit" where
  \<open>validateNumber cfg value = (case value of
       None \<Rightarrow> Inr ()
     | Some v \<Rightarrow> if fc_is_number cfg v then Inr ()
         else joi_first [\<lparr>jd_message = ''"value" must be a number'', jd_value = (if v = [] then None else Some (fc_json cfg v))\<rparr>])\<close>

definition validateString :: "string list \<Rightarrow> exn + unit" where
  \<open>validateString values =
     (if [] \<in> set values then joi_first [\<lparr>jd_message = ''"[0]" is not allowed to be empty'', jd_value = None\<rparr>]
      else if values = [] then joi_first [\<lparr>jd_message = ''"value" must contain at least 1 items'', jd_value = Some ''[]''\<rparr>]
      else Inr ())\<close>

definition parseStrictSemVer :: "feature_config \<Rightarrow> string \<Rightarrow> bool" where
  "parseStrictSemVer cfg version = (fc_semver_clean cfg version = Some version \<and> fc_semver_parses cfg version)"

definition validateSemver :: "feature_config \<Rightarrow> string option \<Rightarrow> exn + unit" where
  "validateSemver cfg value = (case value of
       None \<Rightarrow> Inl (Api (BadDataError ''the provided value is not a string.''))
     | Some v \<Rightarrow> throw_if (\<not> parseStrictSemVer cfg v)
         (Api (BadDataError (''the provided value is not a valid semver format. The value provided was: '' @ v))))"

definition validateDate :: "feature_config \<Rightarrow> string option \<Rightarrow> exn + unit" where
  \<open>validateDate cfg value = (case value of
       None \<Rightarrow> Inr ()
     | Some v \<Rightarrow> if fc_is_date cfg v then Inr ()
         else joi_first [\<lparr>jd_message = ''"value" must be a valid date'', jd_value = (if v = [] then None else Some (fc_json cfg v))\<rparr>])\<close>

text \<open>What is matched against the legal values: the list, or the single value.\<close>

definition validateLegalValues :: "string list \<Rightarrow> string list + string option \<Rightarrow> exn + unit" where
  "validateLegalValues legal match = (case match of
       Inl vs \<Rightarrow> throw_if (\<not> list_all (\<lambda>v. List.member legal v) vs)
         (Api (BadDataError ''input values are not specified as a legal value on this context field''))
     | Inr value \<Rightarrow> throw_if (\<not> list_ex (\<lambda>l. value = Some l) legal)
         (Api (BadDataError (default ''undefined'' value @ '' is not specified as a legal value on this context field''))))"

definition context_field_get :: "string \<Rightarrow> feature_db \<Rightarrow> exn + string list" where
  "context_field_get key db = (case map_of (fd_context_fields db) key of
       None \<Rightarrow> Inl (Api (NotFoundError (Some (''Could not find Context field with name '' @ key))))
     | Some legal \<Rightarrow> Inr legal)"

definition validateConstraint :: "feature_config \<Rightarrow> constraint \<Rightarrow> feature_db \<Rightarrow> exn + constraint" where
  "validateConstraint cfg input db =
     bindR (constraintSchema cfg input) (\<lambda>c.
     bindR (context_field_get (contextName c) db) (\<lambda>legal.
     bindR (if List.member NUM_OPERATORS (operator c) then validateNumber cfg (cvalue c) else Inr ()) (\<lambda>_.
     bindR (if List.member STRING_OPERATORS (operator c) then validateString (vals c) else Inr ()) (\<lambda>_.
     bindR (if List.member SEMVER_OPERATORS (operator c) then validateSemver cfg (cvalue c) else Inr ()) (\<lambda>_.
     bindR (if List.member DATE_OPERATORS (operator c) then validateDate cfg (cvalue c) else Inr ()) (\<lambda>_.
     bindR (if legal \<noteq> []
            then validateLegalValues legal
                   (if List.member (DATE_OPERATORS @ SEMVER_OPERATORS @ NUM_OPERATORS) (operator c)
                    then Inr (cvalue c) else Inl (vals c))
            else Inr ()) (\<lambda>_. Inr c)))))))"

definition validateConstraints :: "feature_config \<Rightarrow> constraint list \<Rightarrow> feature_db \<Rightarrow> exn + constraint list" where
  "validateConstraints cfg constraints db = mapR (\<lambda>c. validateConstraint cfg c db) constraints"

end
