(* ===== verification/FeatureTables.thy ===== *)
theory FeatureTables
  imports FeatureTypes "HOL-Library.Char_ord"
begin

text \<open>
  The stores of features, their environments and their strategies (\<open>feature-toggle-store.ts\<close>,
  \<open>feature-environment-store.ts\<close>, \<open>feature-toggle-strategies-store.ts\<close>) and the queries of the project
  store that the feature service uses. A table is the list of its rows in the order of insertion.
\<close>

section \<open>Errors of the database\<close>

definition fd_fk_error :: "feature_db \<Rightarrow> string \<Rightarrow> exn" where
  "fd_fk_error db c = DbError FOREIGN_KEY_VIOLATION (Some c) None (fd_message db c)"

definition fd_unique_error :: "feature_db \<Rightarrow> string \<Rightarrow> exn" where
  "fd_unique_error db c = DbError UNIQUE_CONSTRAINT_VIOLATION (Some c) (Some ''already exists'') (fd_message db c)"

definition fd_cardinality_error :: "feature_db \<Rightarrow> exn" where
  "fd_cardinality_error db = DbError CARDINALITY_VIOLATION None None (fd_message db ''cardinality'')"

definition feature_names :: "feature_db \<Rightarrow> string list" where
  "feature_names db = map ft_name (fd_features db)"

definition environment_names :: "feature_db \<Rightarrow> string list" where
  "environment_names db = map nv_name (fd_environments db)"


section \<open>Features\<close>

definition rowToFeature :: "feature_row \<Rightarrow> feature_toggle" where
  "rowToFeature row =
     \<lparr>tf_name = ft_name row, tf_description = ft_description row, tf_type = ft_type row,
      tf_project = ft_project row, tf_stale = ft_stale row, tf_createdAt = ft_created_at row,
      tf_lastSeenAt = ft_last_seen_at row, tf_impressionData = ft_impression_data row,
      tf_archivedAt = ft_archived_at row, tf_archived = (ft_archived_at row \<noteq> None)\<rparr>"

definition no_feature :: exn where
  "no_feature = Api (NotFoundError (Some ''No feature toggle found''))"

definition feature_row_of :: "string \<Rightarrow> feature_db \<Rightarrow> feature_row option" where
  "feature_row_of name db = find (\<lambda>r. ft_name r = name) (fd_features db)"

definition features_get :: "string \<Rightarrow> feature_db \<Rightarrow> exn + feature_toggle" where
  "features_get name db = (case feature_row_of name db of
       None \<Rightarrow> Inl no_feature
     | Some r \<Rightarrow> Inr (rowToFeature r))"

text \<open>\<open>filterByArchived\<close>\<close>

definition filterByArchived :: "bool \<Rightarrow> feature_row \<Rightarrow> bool" where
  "filterByArchived archived r = (if archived then ft_archived_at r \<noteq> None else ft_archived_at r = None)"

definition features_count :: "bool \<Rightarrow> string \<Rightarrow> feature_db \<Rightarrow> nat" where
  "features_count archived project db =
     length (filter (\<lambda>r. ft_project r = project \<and> filterByArchived archived r) (fd_features db))"

definition getAllByNames :: "string list \<Rightarrow> feature_db \<Rightarrow> feature_toggle list" where
  "getAllByNames names db =
     map rowToFeature (sort_key ft_name (filter (\<lambda>r. List.member names (ft_name r)) (fd_features db)))"

definition store_getProjectId :: "string \<Rightarrow> feature_db \<Rightarrow> string option" where
  "store_getProjectId name db = map_option ft_project (feature_row_of name db)"

definition features_exists :: "string \<Rightarrow> feature_db \<Rightarrow> bool" where
  "features_exists name db = list_ex (\<lambda>r. ft_name r = name) (fd_features db)"

text \<open>Absent columns take their defaults; \<open>created_at\<close> is that of the insertion where none is given.\<close>

definition insertToRow :: "feature_config \<Rightarrow> string \<Rightarrow> feature_dto \<Rightarrow> feature_row" where
  "insertToRow cfg project data =
     \<lparr>ft_name = dto_name data, ft_description = default None (dto_description data),
      ft_type = default ''release'' (dto_type data), ft_project = project,
      ft_stale = default False (dto_stale data), ft_created_at = default (fc_now cfg) (dto_createdAt data),
      ft_last_seen_at = None, ft_impression_data = default False (dto_impressionData data),
      ft_archived_at = (if default False (dto_archived data) then Some (fc_now cfg) else None),
      ft_created_by_user_id = dto_createdByUserId data, ft_potentially_stale = None\<rparr>"

text \<open>The columns an update sets: an absent field is left as it is, \<open>archived_at\<close> never is.\<close>

definition dtoToUpdateRow :: "feature_config \<Rightarrow> string \<Rightarrow> feature_dto \<Rightarrow> feature_row \<Rightarrow> feature_row" where
  "dtoToUpdateRow cfg project data row =
     row\<lparr>ft_description := default (ft_description row) (dto_description data),
         ft_type := default (ft_type row) (dto_type data), ft_project := project,
         ft_archived_at := (if default False (dto_archived data) then Some (fc_now cfg) else None),
         ft_stale := default (ft_stale row) (dto_stale data),
         ft_impression_data := default (ft_impression_data row) (dto_impressionData data)\<rparr>"

definition dto_of :: "feature_toggle \<Rightarrow> feature_dto" where
  "dto_of t = \<lparr>dto_name = tf_name t, dto_description = Some (tf_description t), dto_type = Some (tf_type t),
     dto_stale = Some (tf_stale t), dto_archived = Some (tf_archived t), dto_createdAt = Some (tf_createdAt t),
     dto_impressionData = Some (tf_impressionData t), dto_variants = None, dto_createdByUserId = None\<rparr>"

definition features_create :: "feature_config \<Rightarrow> string \<Rightarrow> feature_dto \<Rightarrow> feature_db \<Rightarrow> exn + (feature_toggle \<times> feature_db)" where
  "features_create cfg project data db =
     (let row = insertToRow cfg project data in
      if List.member (feature_names db) (ft_name row)
      then Inl (Api (NameExistsError (''Feature '' @ dto_name data @ '' already exists'')))
      else Inr (rowToFeature row, db\<lparr>fd_features := fd_features db @ [row]\<rparr>))"

definition map_features :: "(feature_row \<Rightarrow> bool) \<Rightarrow> (feature_row \<Rightarrow> feature_row) \<Rightarrow> feature_db \<Rightarrow> feature_db" where
  "map_features p f db = db\<lparr>fd_features := map (\<lambda>r. if p r then f r else r) (fd_features db)\<rparr>"

text \<open>\<open>UPDATE ... RETURNING\<close> of one feature: the row afterwards, or the error of an empty result.\<close>

definition update_one :: "string \<Rightarrow> (feature_row \<Rightarrow> feature_row) \<Rightarrow> feature_db \<Rightarrow> exn + (feature_toggle \<times> feature_db)" where
  "update_one name f db =
     (case feature_row_of name db of
        None \<Rightarrow> Inl no_feature
      | Some r \<Rightarrow> Inr (rowToFeature (f r), map_features (\<lambda>r. ft_name r = name) f db))"

definition features_update :: "feature_config \<Rightarrow> string \<Rightarrow> feature_dto \<Rightarrow> feature_db \<Rightarrow> exn + (feature_toggle \<times> feature_db)" where
  "features_update cfg project data db = update_one (dto_name data) (dtoToUpdateRow cfg project data) db"

definition features_archive :: "feature_config \<Rightarrow> string \<Rightarrow> feature_db \<Rightarrow> exn + (feature_toggle \<times> feature_db)" where
  "features_archive cfg name db = update_one name (\<lambda>r. r\<lparr>ft_archived_at := Some (fc_now cfg)\<rparr>) db"

definition batchArchive :: "feature_config \<Rightarrow> string list \<Rightarrow> feature_db \<Rightarrow> feature_db" where
  "batchArchive cfg names = map_features (\<lambda>r. List.member names (ft_name r)) (\<lambda>r. r\<lparr>ft_archived_at := Some (fc_now cfg)\<rparr>)"

definition batchStale :: "string list \<Rightarrow> bool \<Rightarrow> feature_db \<Rightarrow> feature_db" where
  "batchStale names stale = map_features (\<lambda>r. List.member names (ft_name r)) (\<lambda>r. r\<lparr>ft_stale := stale\<rparr>)"

definition features_revive :: "string \<Rightarrow> feature_db \<Rightarrow> exn + (feature_toggle \<times> feature_db)" where
  "features_revive name db = update_one name (\<lambda>r. r\<lparr>ft_archived_at := None\<rparr>) db"

definition batchRevive :: "string list \<Rightarrow> feature_db \<Rightarrow> feature_db" where
  "batchRevive names = map_features (\<lambda>r. List.member names (ft_name r)) (\<lambda>r. r\<lparr>ft_archived_at := None\<rparr>)"

text \<open>
  The deletion of one row: refused while the feature is a parent (\<open>ON DELETE RESTRICT\<close>), and otherwise
  with everything that refers to it (\<open>ON DELETE CASCADE\<close>).
\<close>

definition delete_row :: "feature_db \<Rightarrow> string \<Rightarrow> exn + feature_db" where
  "delete_row db name =
     (if \<exists>d\<in>set (fd_dependencies db). dr_parent d = name
      then Inl (fd_fk_error db ''dependent_features_parent_fkey'')
      else let gone = map sr_id (filter (\<lambda>s. sr_feature s = name) (fd_strategies db)) in
        Inr (db\<lparr>fd_features := filter (\<lambda>r. ft_name r \<noteq> name) (fd_features db),
                fd_envs := filter (\<lambda>e. en_feature e \<noteq> name) (fd_envs db),
                fd_strategies := filter (\<lambda>s. sr_feature s \<noteq> name) (fd_strategies db),
                fd_strategy_segments := filter (\<lambda>l. \<not> List.member gone (fst l)) (fd_strategy_segments db),
                fd_dependencies := filter (\<lambda>d. dr_child d \<noteq> name) (fd_dependencies db),
                fd_tags := filter (\<lambda>t. tg_feature t \<noteq> name) (fd_tags db)\<rparr>))"

text \<open>Only archived features are deleted; one statement is all or nothing.\<close>

definition batchDelete :: "string list \<Rightarrow> feature_db \<Rightarrow> exn + feature_db" where
  "batchDelete names db =
     foldR delete_row db (map ft_name (filter (\<lambda>r. List.member names (ft_name r) \<and> ft_archived_at r \<noteq> None) (fd_features db)))"

definition features_delete :: "string \<Rightarrow> feature_db \<Rightarrow> exn + feature_db" where
  "features_delete name = batchDelete [name]"

definition map_envs :: "(feature_env \<Rightarrow> bool) \<Rightarrow> (feature_env \<Rightarrow> feature_env) \<Rightarrow> feature_db \<Rightarrow> feature_db" where
  "map_envs p f db = db\<lparr>fd_envs := map (\<lambda>e. if p e then f e else e) (fd_envs db)\<rparr>"

definition disableAllEnvironmentsForFeatures :: "string list \<Rightarrow> feature_db \<Rightarrow> feature_db" where
  "disableAllEnvironmentsForFeatures names =
     map_envs (\<lambda>e. List.member names (en_feature e)) (\<lambda>e. e\<lparr>en_enabled := False\<rparr>)"

definition sort_variants :: "feature_config \<Rightarrow> weighted_variant list \<Rightarrow> weighted_variant list" where
  "sort_variants cfg = sort_key (\<lambda>v. fc_collate cfg (vd_name v))"

definition rowToEnvVariants :: "feature_config \<Rightarrow> weighted_variant list list \<Rightarrow> weighted_variant list" where
  "rowToEnvVariants cfg rows = (case rows of [] \<Rightarrow> [] | vs # _ \<Rightarrow> sort_variants cfg vs)"

definition store_getVariants :: "feature_config \<Rightarrow> string \<Rightarrow> feature_db \<Rightarrow> exn + weighted_variant list" where
  "store_getVariants cfg name db =
     (if \<not> features_exists name db then Inl no_feature
      else Inr (rowToEnvVariants cfg (map en_variants (filter (\<lambda>e. en_feature e = name) (fd_envs db)))))"

text \<open>The variants of every environment are written before the feature is looked up in the project.\<close>

definition store_saveVariants ::
  "string \<Rightarrow> string \<Rightarrow> weighted_variant list \<Rightarrow> feature_db \<Rightarrow> (exn + feature_toggle) \<times> feature_db" where
  "store_saveVariants project name vs db =
     (let db' = map_envs (\<lambda>e. en_feature e = name) (\<lambda>e. e\<lparr>en_variants := vs\<rparr>) db in
      (case feature_row_of name db' of
         Some r \<Rightarrow> (if ft_project r = project then Inr (rowToFeature r) else Inl no_feature)
       | None \<Rightarrow> Inl no_feature, db'))"

text \<open>A day is 86400000 ms; a type without a lifetime, or an unknown type, never makes a feature stale.\<close>

definition current_staleness :: "int \<Rightarrow> feature_db \<Rightarrow> feature_row \<Rightarrow> bool" where
  "current_staleness now db r = (case map_of (fd_feature_types db) (ft_type r) of
       Some (Some days) \<Rightarrow> now > ft_created_at r + days * 86400000
     | _ \<Rightarrow> False)"

definition store_updatePotentiallyStaleFeatures ::
  "int \<Rightarrow> feature_db \<Rightarrow> (string \<times> bool \<times> string) list \<times> feature_db" where
  "store_updatePotentiallyStaleFeatures now db =
     (let candidates = filter (\<lambda>r. \<not> ft_stale r \<and> ft_archived_at r = None) (fd_features db);
          changed = filter (\<lambda>r. default False (ft_potentially_stale r) \<noteq> current_staleness now db r) candidates;
          result = map (\<lambda>r. (ft_name r, current_staleness now db r, ft_project r)) changed;
          names = (\<lambda>b. map fst (filter (\<lambda>(_, p, _). p = b) result))
      in (result, map_features (\<lambda>r. List.member (names False) (ft_name r)) (\<lambda>r. r\<lparr>ft_potentially_stale := Some False\<rparr>)
           (map_features (\<lambda>r. List.member (names True) (ft_name r)) (\<lambda>r. r\<lparr>ft_potentially_stale := Some True\<rparr>) db)))"


section \<open>Projects\<close>

definition project_of :: "string \<Rightarrow> feature_db \<Rightarrow> project_row option" where
  "project_of p db = find (\<lambda>r. pj_id r = p) (fd_projects db)"

definition hasProject :: "string \<Rightarrow> feature_db \<Rightarrow> bool" where
  "hasProject p db = list_ex (\<lambda>r. pj_id r = p) (fd_projects db)"

text \<open>
  The left join has a row without a feature only for a project that has none: where all features are
  archived there is no row, and no limit is reached.
\<close>

definition isFeatureLimitReached :: "string \<Rightarrow> feature_db \<Rightarrow> bool" where
  "isFeatureLimitReached p db =
     (let fs = filter (\<lambda>r. ft_project r = p) (fd_features db);
          active = filter (\<lambda>r. ft_archived_at r = None) fs
      in case Option.bind (project_of p db) pj_feature_limit of
           None \<Rightarrow> False
         | Some l \<Rightarrow> (fs = [] \<or> active \<noteq> []) \<and> l \<le> int (length active))"

definition store_getDefaultStrategy :: "string \<Rightarrow> string \<Rightarrow> feature_db \<Rightarrow> strategy_input option" where
  "store_getDefaultStrategy p e db =
     Option.bind (find (\<lambda>r. pv_project r = p \<and> pv_environment r = e) (fd_project_envs db)) pv_default_strategy"

definition deleteEnvironmentForProject :: "string \<Rightarrow> string \<Rightarrow> feature_db \<Rightarrow> feature_db" where
  "deleteEnvironmentForProject p e db =
     db\<lparr>fd_project_envs := filter (\<lambda>r. \<not> (pv_project r = p \<and> pv_environment r = e)) (fd_project_envs db)\<rparr>"

end
