(* ===== verification/FeatureEnvironments.thy ===== *)
theory FeatureEnvironments
  imports FeatureTables "HOL-Library.Product_Lexorder"
begin

text \<open>
  The stores of the environments of features (\<open>db/feature-environment-store.ts\<close>) and of their strategies
  (\<open>feature-toggle-strategies-store.ts\<close>).
\<close>

section \<open>Environments of features\<close>

definition en_key :: "feature_env \<Rightarrow> string \<times> string" where
  "en_key e = (en_feature e, en_environment e)"

definition is_env :: "string \<Rightarrow> string \<Rightarrow> feature_env \<Rightarrow> bool" where
  "is_env name env e = (en_feature e = name \<and> en_environment e = env)"

definition env_row :: "string \<Rightarrow> string \<Rightarrow> feature_db \<Rightarrow> feature_env option" where
  "env_row name env db = find (is_env name env) (fd_envs db)"

definition no_env :: "string \<Rightarrow> string \<Rightarrow> exn" where
  "no_env name env = Api (NotFoundError (Some (''Could not find '' @ name @ '' in '' @ env)))"

definition envs_get :: "string \<Rightarrow> string \<Rightarrow> feature_db \<Rightarrow> exn + feature_env" where
  "envs_get name env db = (case env_row name env db of None \<Rightarrow> Inl (no_env name env) | Some e \<Rightarrow> Inr e)"

definition featureHasEnvironment :: "string \<Rightarrow> string \<Rightarrow> feature_db \<Rightarrow> bool" where
  "featureHasEnvironment env name db = list_ex (is_env name env) (fd_envs db)"

definition getEnvironmentsForFeature :: "string \<Rightarrow> feature_db \<Rightarrow> feature_env list" where
  "getEnvironmentsForFeature name db = filter (\<lambda>e. en_feature e = name) (fd_envs db)"

definition isEnvironmentEnabled :: "string \<Rightarrow> string \<Rightarrow> feature_db \<Rightarrow> exn + bool" where
  \<open>isEnvironmentEnabled name env db = (case env_row name env db of
       None \<Rightarrow> Inl (JsError ''TypeError'' ''Cannot read properties of undefined (reading 'enabled')'')
     | Some e \<Rightarrow> Inr (en_enabled e))\<close>

text \<open>The foreign keys of a new row.\<close>

definition en_fk_check :: "feature_db \<Rightarrow> feature_env \<Rightarrow> exn + unit" where
  "en_fk_check db e =
     (if \<not> List.member (environment_names db) (en_environment e) then Inl (fd_fk_error db ''feature_environments_environment_fkey'')
      else if \<not> List.member (feature_names db) (en_feature e) then Inl (fd_fk_error db ''feature_environments_feature_name_fkey'')
      else Inr ())"

text \<open>\<open>INSERT ... ON CONFLICT\<close> of one row: \<open>merge\<close> is what the conflicting row becomes.\<close>

definition en_upsert :: "(feature_env \<Rightarrow> feature_env) \<Rightarrow> feature_db \<Rightarrow> feature_env \<Rightarrow> exn + feature_db" where
  "en_upsert merge db e =
     (if list_ex (is_env (en_feature e) (en_environment e)) (fd_envs db)
      then Inr (map_envs (is_env (en_feature e) (en_environment e)) merge db)
      else bindR (en_fk_check db e) (\<lambda>_. Inr (db\<lparr>fd_envs := fd_envs db @ [e]\<rparr>)))"

definition en_upsert_all ::
  "(feature_env \<Rightarrow> feature_env \<Rightarrow> feature_env) \<Rightarrow> feature_env list \<Rightarrow> feature_db \<Rightarrow> exn + feature_db" where
  "en_upsert_all merge rows db =
     (if \<not> distinct (map en_key rows) then Inl (fd_cardinality_error db)
      else foldR (\<lambda>db e. en_upsert (merge e) db e) db rows)"

definition disableEnvironmentIfNoStrategies :: "string \<Rightarrow> string \<Rightarrow> feature_db \<Rightarrow> feature_db" where
  "disableEnvironmentIfNoStrategies name env db =
     (if list_ex (\<lambda>s. sr_feature s = name \<and> sr_environment s = env) (fd_strategies db) then db
      else map_envs (is_env name env) (\<lambda>e. e\<lparr>en_enabled := False\<rparr>) db)"

definition addEnvironmentToFeature :: "string \<Rightarrow> string \<Rightarrow> bool \<Rightarrow> feature_db \<Rightarrow> exn + feature_db" where
  "addEnvironmentToFeature name env enabled db =
     en_upsert (\<lambda>e. e\<lparr>en_enabled := enabled\<rparr>) db
       \<lparr>en_environment = env, en_feature = name, en_enabled = enabled, en_variants = []\<rparr>"

text \<open>The last statement of the source selects the strategies of the environment and drops the result.\<close>

definition disconnectFeatures :: "string \<Rightarrow> string \<Rightarrow> feature_db \<Rightarrow> feature_db" where
  "disconnectFeatures env project db =
     (let names = map ft_name (filter (\<lambda>r. ft_project r = project) (fd_features db)) in
      db\<lparr>fd_envs := filter (\<lambda>e. \<not> (en_environment e = env \<and> List.member names (en_feature e))) (fd_envs db)\<rparr>)"

definition removeEnvironmentForFeature :: "string \<Rightarrow> string \<Rightarrow> feature_db \<Rightarrow> feature_db" where
  "removeEnvironmentForFeature name env db = db\<lparr>fd_envs := filter (\<lambda>e. \<not> is_env name env e) (fd_envs db)\<rparr>"

text \<open>The number of rows whose status changed.\<close>

definition setEnvironmentEnabledStatus :: "string \<Rightarrow> string \<Rightarrow> bool \<Rightarrow> feature_db \<Rightarrow> nat \<times> feature_db" where
  "setEnvironmentEnabledStatus env name enabled db =
     (let p = (\<lambda>e. is_env name env e \<and> en_enabled e = (\<not> enabled)) in
      (length (filter p (fd_envs db)), map_envs p (\<lambda>e. e\<lparr>en_enabled := enabled\<rparr>) db))"

definition connectProject :: "string \<Rightarrow> string \<Rightarrow> bool \<Rightarrow> feature_db \<Rightarrow> exn + feature_db" where
  "connectProject env project idempotent db =
     (if list_ex (\<lambda>r. pv_project r = project \<and> pv_environment r = env) (fd_project_envs db)
      then (if idempotent then Inr db else Inl (fd_unique_error db ''project_environments_pkey''))
      else if \<not> hasProject project db then Inl (fd_fk_error db ''project_environments_project_id_fkey'')
      else if \<not> List.member (environment_names db) env then Inl (fd_fk_error db ''project_environments_environment_name_fkey'')
      else Inr (db\<lparr>fd_project_envs := fd_project_envs db @
             [\<lparr>pv_project = project, pv_environment = env, pv_default_strategy = None\<rparr>]\<rparr>))"

definition connectFeatures :: "string \<Rightarrow> string \<Rightarrow> feature_db \<Rightarrow> exn + feature_db" where
  "connectFeatures env project db =
     foldR (\<lambda>db f. en_upsert (\<lambda>e. e) db
         \<lparr>en_environment = env, en_feature = ft_name f, en_enabled = False, en_variants = []\<rparr>) db
       (filter (\<lambda>r. ft_project r = project) (fd_features db))"

definition disconnectProject :: "string \<Rightarrow> string \<Rightarrow> feature_db \<Rightarrow> feature_db" where
  "disconnectProject env project = deleteEnvironmentForProject project env"

definition connectFeatureToEnvironmentsForProject :: "string \<Rightarrow> string \<Rightarrow> feature_db \<Rightarrow> exn + feature_db" where
  "connectFeatureToEnvironmentsForProject name project db =
     foldR (\<lambda>db r. en_upsert (\<lambda>e. e) db
         \<lparr>en_environment = pv_environment r, en_feature = name, en_enabled = False, en_variants = []\<rparr>) db
       (filter (\<lambda>r. pv_project r = project) (fd_project_envs db))"

definition copyEnvironmentFeaturesByProjects :: "string \<Rightarrow> string \<Rightarrow> string list \<Rightarrow> feature_db \<Rightarrow> exn + feature_db" where
  "copyEnvironmentFeaturesByProjects source destination projects db =
     (let names = map ft_name (filter (\<lambda>r. List.member projects (ft_project r)) (fd_features db));
          rows = map (\<lambda>e. e\<lparr>en_environment := destination\<rparr>)
            (filter (\<lambda>e. en_environment e = source \<and> List.member names (en_feature e)) (fd_envs db))
      in if list_ex (\<lambda>e. list_ex (is_env (en_feature e) destination) (fd_envs db)) rows
         then Inl (fd_unique_error db ''feature_environments_pkey'')
         else bindR (mapR (en_fk_check db) rows) (\<lambda>_. Inr (db\<lparr>fd_envs := fd_envs db @ rows\<rparr>)))"

text \<open>One row per feature is taken from the other environments; an existing row only gets the variants.\<close>

definition clonePreviousVariants :: "string \<Rightarrow> string \<Rightarrow> feature_db \<Rightarrow> exn + feature_db" where
  "clonePreviousVariants env project db =
     (let names = map ft_name (filter (\<lambda>r. ft_project r = project) (fd_features db));
          others = (\<lambda>name. find (\<lambda>e. en_feature e = name \<and> en_environment e \<noteq> env) (fd_envs db));
          rows = map (\<lambda>e. e\<lparr>en_environment := env\<rparr>) (List.map_filter others names)
      in en_upsert_all (\<lambda>new e. e\<lparr>en_variants := en_variants new\<rparr>) rows db)"

definition setVariantsToFeatureEnvironments ::
  "feature_config \<Rightarrow> string \<Rightarrow> string list \<Rightarrow> weighted_variant list \<Rightarrow> feature_db \<Rightarrow> exn + feature_db" where
  "setVariantsToFeatureEnvironments cfg name envs vs db =
     (let v = sort_variants cfg vs in
      en_upsert_all (\<lambda>new e. e\<lparr>en_variants := en_variants new\<rparr>)
        (map (\<lambda>env. \<lparr>en_environment = env, en_feature = name, en_enabled = False, en_variants = v\<rparr>) envs) db)"

definition addFeatureEnvironment :: "feature_config \<Rightarrow> feature_env \<Rightarrow> feature_db \<Rightarrow> exn + feature_db" where
  "addFeatureEnvironment cfg fe db =
     (let row = fe\<lparr>en_variants := sort_variants cfg (en_variants fe)\<rparr> in
      en_upsert (\<lambda>e. e\<lparr>en_variants := en_variants row, en_enabled := en_enabled row\<rparr>) db row)"


section \<open>Strategies\<close>

definition strategies_get :: "string \<Rightarrow> feature_db \<Rightarrow> exn + strategy_row" where
  "strategies_get key db = (case find (\<lambda>s. sr_id s = key) (fd_strategies db) of
       None \<Rightarrow> Inl (Api (NotFoundError (Some (''Could not find strategy with id='' @ key))))
     | Some s \<Rightarrow> Inr s)"

definition getStrategyById :: "string \<Rightarrow> feature_db \<Rightarrow> exn + strategy_row" where
  "getStrategyById key db = (case find (\<lambda>s. sr_id s = key) (fd_strategies db) of
       None \<Rightarrow> Inl (Api (NotFoundError (Some (''Could not find strategy with id: '' @ key))))
     | Some s \<Rightarrow> Inr s)"

text \<open>Deleting strategies deletes their links to segments.\<close>

definition remove_strategies :: "(strategy_row \<Rightarrow> bool) \<Rightarrow> feature_db \<Rightarrow> feature_db" where
  "remove_strategies p db =
     (let gone = map sr_id (filter p (fd_strategies db)) in
      db\<lparr>fd_strategies := filter (\<lambda>s. \<not> p s) (fd_strategies db),
         fd_strategy_segments := filter (\<lambda>l. \<not> List.member gone (fst l)) (fd_strategy_segments db)\<rparr>)"

definition strategies_delete :: "string \<Rightarrow> feature_db \<Rightarrow> feature_db" where
  "strategies_delete key = remove_strategies (\<lambda>s. sr_id s = key)"

definition removeAllStrategiesForFeatureEnv :: "string \<Rightarrow> string \<Rightarrow> feature_db \<Rightarrow> feature_db" where
  "removeAllStrategiesForFeatureEnv name env = remove_strategies (\<lambda>s. sr_feature s = name \<and> sr_environment s = env)"

definition deleteConfigurationsForProjectAndEnvironment :: "string \<Rightarrow> string \<Rightarrow> feature_db \<Rightarrow> feature_db" where
  "deleteConfigurationsForProjectAndEnvironment project env =
     remove_strategies (\<lambda>s. sr_project s = project \<and> sr_environment s = env)"

definition nextSortOrder :: "string \<Rightarrow> string \<Rightarrow> feature_db \<Rightarrow> int" where
  "nextSortOrder name env db =
     (case map sr_sort_order (filter (\<lambda>s. sr_feature s = name \<and> sr_environment s = env) (fd_strategies db)) of
        [] \<Rightarrow> 0
      | x # xs \<Rightarrow> fold max xs x + 1)"

definition getDefaultStickiness :: "string \<Rightarrow> feature_db \<Rightarrow> string" where
  "getDefaultStickiness project db = or_else (Option.bind (project_of project db) pj_default_stickiness) ''default''"

definition parametersWithDefaults :: "string \<Rightarrow> string \<Rightarrow> parameters \<Rightarrow> string \<Rightarrow> parameters" where
  "parametersWithDefaults name strategyName ps stickiness =
     (if strategyName = ''gradualRollout''
      then [''rollout'' \<mapsto> ''100'', ''stickiness'' \<mapsto> stickiness, ''groupId'' \<mapsto> name] ++ ps
      else ps)"

definition strategy_fk_check :: "feature_db \<Rightarrow> strategy_row \<Rightarrow> exn + unit" where
  "strategy_fk_check db s =
     (if \<not> List.member (feature_names db) (sr_feature s) then Inl (fd_fk_error db ''feature_strategies_feature_name_fkey'')
      else if \<not> List.member (environment_names db) (sr_environment s) then Inl (fd_fk_error db ''feature_strategies_environment_fkey'')
      else Inr ())"

definition new_strategy_row ::
  "feature_config \<Rightarrow> string \<Rightarrow> string \<Rightarrow> string \<Rightarrow> string \<Rightarrow> strategy_input \<Rightarrow> feature_db \<Rightarrow> strategy_row" where
  "new_strategy_row cfg ident project name env c db =
     \<lparr>sr_id = ident, sr_feature = name, sr_project = project, sr_environment = env,
      sr_name = sc_name c, sr_title = si_title c,
      sr_parameters = parametersWithDefaults name (sc_name c) (default Map.empty (sc_parameters c))
        (getDefaultStickiness project db),
      sr_constraints = sc_constraints c, sr_variants = si_variants c,
      sr_sort_order = default (nextSortOrder name env db) (si_sortOrder c),
      sr_created_at = fc_now cfg, sr_disabled = sc_disabled c\<rparr>"

definition createStrategyFeatureEnv ::
  "feature_config \<Rightarrow> string \<Rightarrow> string \<Rightarrow> string \<Rightarrow> strategy_input \<Rightarrow> strategy_row feature_op" where
  "createStrategyFeatureEnv cfg project name env c s =
     (let row = new_strategy_row cfg (fc_uuid cfg (fs_drawn s)) project name env c (fs_db s);
          s' = s\<lparr>fs_drawn := Suc (fs_drawn s)\<rparr>
      in case strategy_fk_check (fs_db s) row of
           Inl e \<Rightarrow> (Inl e, s')
         | Inr _ \<Rightarrow> (Inr row, with_fdb (\<lambda>db. db\<lparr>fd_strategies := fd_strategies db @ [row]\<rparr>) s'))"

definition getStrategiesForFeatureEnv :: "string \<Rightarrow> string \<Rightarrow> string \<Rightarrow> feature_db \<Rightarrow> strategy_row list" where
  "getStrategiesForFeatureEnv project name env db =
     sort_key (\<lambda>s. (sr_sort_order s, sr_created_at s))
       (filter (\<lambda>s. sr_project s = project \<and> sr_feature s = name \<and> sr_environment s = env) (fd_strategies db))"

definition map_strategies :: "(strategy_row \<Rightarrow> bool) \<Rightarrow> (strategy_row \<Rightarrow> strategy_row) \<Rightarrow> feature_db \<Rightarrow> feature_db" where
  "map_strategies p f db = db\<lparr>fd_strategies := map (\<lambda>s. if p s then f s else s) (fd_strategies db)\<rparr>"

definition store_updateSortOrder :: "string \<Rightarrow> int \<Rightarrow> feature_db \<Rightarrow> feature_db" where
  "store_updateSortOrder key n = map_strategies (\<lambda>s. sr_id s = key) (\<lambda>s. s\<lparr>sr_sort_order := n\<rparr>)"

text \<open>
  The update sets the name, the parameters, the title and the flag only where they are given; the
  constraints and the variants always.
\<close>

definition mapStrategyUpdate :: "strategy_update \<Rightarrow> strategy_row \<Rightarrow> strategy_row" where
  "mapStrategyUpdate u s =
     s\<lparr>sr_name := default (sr_name s) (su_name u), sr_parameters := default (sr_parameters s) (su_parameters u),
       sr_title := (case su_title u of None \<Rightarrow> sr_title s | t \<Rightarrow> t),
       sr_disabled := default (sr_disabled s) (su_disabled u),
       sr_constraints := default [] (su_constraints u), sr_variants := default [] (su_variants u)\<rparr>"

definition store_updateStrategy :: "string \<Rightarrow> strategy_update \<Rightarrow> feature_db \<Rightarrow> exn + (strategy_row \<times> feature_db)" where
  \<open>store_updateStrategy key u db =
     (case find (\<lambda>s. sr_id s = key) (fd_strategies db) of
        None \<Rightarrow> Inl (JsError ''TypeError'' ''Cannot read properties of undefined (reading 'id')'')
      | Some s \<Rightarrow> Inr (mapStrategyUpdate u s, map_strategies (\<lambda>s. sr_id s = key) (mapStrategyUpdate u) db))\<close>

definition setProjectForStrategiesBelongingToFeature :: "string \<Rightarrow> string \<Rightarrow> feature_db \<Rightarrow> feature_db" where
  "setProjectForStrategiesBelongingToFeature name project =
     map_strategies (\<lambda>s. sr_feature s = name) (\<lambda>s. s\<lparr>sr_project := project\<rparr>)"

text \<open>The strategies of features that are not archived.\<close>

definition getStrategiesBySegment :: "int \<Rightarrow> feature_db \<Rightarrow> strategy_row list" where
  "getStrategiesBySegment seg db =
     filter (\<lambda>s. List.member (fd_strategy_segments db) (sr_id s, seg) \<and>
                 list_ex (\<lambda>f. ft_name f = sr_feature s \<and> ft_archived_at f = None) (fd_features db)) (fd_strategies db)"

text \<open>
  The strategies of an environment are copied to another one, with their segments. The copy has
  neither title nor \<open>disabled\<close>: those columns get their defaults.
\<close>

definition cloned_strategy :: "feature_config \<Rightarrow> string \<Rightarrow> string \<Rightarrow> strategy_row \<Rightarrow> strategy_row" where
  "cloned_strategy cfg ident env s =
     s\<lparr>sr_id := ident, sr_environment := env, sr_title := None, sr_created_at := fc_now cfg, sr_disabled := False\<rparr>"

definition cloneStrategies :: "feature_config \<Rightarrow> string \<Rightarrow> string \<Rightarrow> unit feature_op" where
  "cloneStrategies cfg source destination s =
     (let db = fs_db s;
          src = filter (\<lambda>r. sr_environment r = source) (fd_strategies db);
          pairs = map (\<lambda>(i, r). (sr_id r, cloned_strategy cfg (fc_uuid cfg (fs_drawn s + i)) destination r)) (List.enumerate 0 src);
          s' = s\<lparr>fs_drawn := fs_drawn s + length src\<rparr>
      in case mapR (strategy_fk_check db) (map snd pairs) of
           Inl e \<Rightarrow> (Inl e, s')
         | Inr _ \<Rightarrow> (Inr (), with_fdb (\<lambda>db. db\<lparr>fd_strategies := fd_strategies db @ map snd pairs,
             fd_strategy_segments := fd_strategy_segments db @
               [(sr_id r, snd l). l \<leftarrow> fd_strategy_segments db, (i, r) \<leftarrow> pairs, i = fst l]\<rparr>) s'))"


section \<open>A feature with its environments\<close>

record env_detail =
  ed_name :: "string option"
  ed_enabled :: bool
  ed_type :: string
  ed_sortOrder :: int
  ed_strategies :: "public_strategy list"
  ed_variants :: "weighted_variant list"

record feature_with_envs =
  fw_toggle :: feature_toggle
  fw_environments :: "env_detail list"
  fw_variants :: "weighted_variant list"

definition getAdminStrategy :: "feature_db \<Rightarrow> strategy_row \<Rightarrow> public_strategy" where
  "getAdminStrategy db s =
     \<lparr>pb_id = sr_id s, pb_name = sr_name s, pb_title = Some (or_else (sr_title s) []), pb_disabled = sr_disabled s,
      pb_constraints = sr_constraints s, pb_parameters = sr_parameters s, pb_variants = sr_variants s,
      pb_sortOrder = sr_sort_order s,
      pb_segments = map snd (filter (\<lambda>l. fst l = sr_id s) (fd_strategy_segments db))\<rparr>"

text \<open>An environment without strategies shows as disabled, whatever its row says.\<close>

definition env_detail_of :: "feature_config \<Rightarrow> feature_db \<Rightarrow> feature_env \<Rightarrow> env_detail" where
  "env_detail_of cfg db e =
     (let sts = sort_key pb_sortOrder (map (getAdminStrategy db)
            (filter (\<lambda>s. sr_feature s = en_feature e \<and> sr_environment s = en_environment e) (fd_strategies db)));
          nv = find (\<lambda>r. nv_name r = en_environment e) (fd_environments db)
      in \<lparr>ed_name = Some (en_environment e), ed_enabled = (en_enabled e \<and> sts \<noteq> []),
          ed_type = (case nv of None \<Rightarrow> [] | Some r \<Rightarrow> nv_type r),
          ed_sortOrder = (case nv of None \<Rightarrow> 0 | Some r \<Rightarrow> nv_sort_order r),
          ed_strategies = sts, ed_variants = sort_variants cfg (en_variants e)\<rparr>)"

text \<open>A \<open>Map\<close> by name: a later variant replaces the value of an earlier one, in its place.\<close>

definition merge_variants :: "weighted_variant list \<Rightarrow> weighted_variant list \<Rightarrow> weighted_variant list" where
  "merge_variants = foldl (\<lambda>acc v. if list_ex (\<lambda>w. vd_name w = vd_name v) acc
     then map (\<lambda>w. if vd_name w = vd_name v then v else w) acc else acc @ [v])"

text \<open>The left joins leave one row, of an environment without a name, for a feature that has none.\<close>

definition nameless_env :: env_detail where
  "nameless_env = \<lparr>ed_name = None, ed_enabled = False, ed_type = [], ed_sortOrder = 0, ed_strategies = [], ed_variants = []\<rparr>"

definition loadFeatureToggleWithEnvs :: "feature_config \<Rightarrow> string \<Rightarrow> bool \<Rightarrow> feature_db \<Rightarrow> exn + feature_with_envs" where
  "loadFeatureToggleWithEnvs cfg name archived db =
     (case find (\<lambda>r. ft_name r = name \<and> filterByArchived archived r) (fd_features db) of
        None \<Rightarrow> Inl (Api (NotFoundError (Some (''Could not find feature toggle with name '' @ name))))
      | Some r \<Rightarrow>
          (let envs = map (env_detail_of cfg db) (getEnvironmentsForFeature name db) in
           Inr \<lparr>fw_toggle = (rowToFeature r)\<lparr>tf_archived := archived\<rparr>,
                fw_environments = (if envs = [] then [nameless_env] else sort_key ed_sortOrder envs),
                fw_variants = foldl merge_variants [] (map ed_variants envs)\<rparr>))"

end
