(* ===== verification/Segments.thy ===== *)
theory Segments
  imports FeatureEnvironments
begin

text \<open>
  Change requests as far as they stop an operation (\<open>change-request-access-service\<close>), and the segments:
  \<open>segment-store.ts\<close>, \<open>segment-service.ts\<close> and the deletion of the controller.
\<close>

section \<open>Change requests\<close>

definition SKIP_CHANGE_REQUEST :: string where
  "SKIP_CHANGE_REQUEST = ''SKIP_CHANGE_REQUEST''"

definition isChangeRequestsEnabled :: "string \<Rightarrow> string \<Rightarrow> feature_db \<Rightarrow> bool" where
  "isChangeRequestsEnabled project env db = List.member (fd_change_requests db) (project, env)"

definition isChangeRequestsEnabledForProject :: "string \<Rightarrow> feature_db \<Rightarrow> bool" where
  "isChangeRequestsEnabledForProject project db = list_ex (\<lambda>(p, e). p = project) (fd_change_requests db)"

definition may :: "acting_user option \<Rightarrow> string \<Rightarrow> string \<Rightarrow> string option \<Rightarrow> feature_service \<Rightarrow> bool" where
  "may user permission project env s = (case user of
       None \<Rightarrow> False
     | Some u \<Rightarrow> hasPermission (access_user.truncate u) [permission] (Some project) env (fs_access s))"

definition canBypassChangeRequest :: "string \<Rightarrow> string \<Rightarrow> acting_user option \<Rightarrow> feature_service \<Rightarrow> bool" where
  "canBypassChangeRequest project env user s =
     (may user SKIP_CHANGE_REQUEST project (Some env) s \<or> \<not> isChangeRequestsEnabled project env (fs_db s))"

definition canBypassChangeRequestForProject :: "string \<Rightarrow> acting_user option \<Rightarrow> feature_service \<Rightarrow> bool" where
  "canBypassChangeRequestForProject project user s =
     (may user SKIP_CHANGE_REQUEST project None s \<or> \<not> isChangeRequestsEnabledForProject project (fs_db s))"

definition stop_project :: "string \<Rightarrow> acting_user option \<Rightarrow> unit feature_op" where
  "stop_project project user = bindS (askS (canBypassChangeRequestForProject project user)) (\<lambda>ok.
     guardS (\<not> ok) (Api (PermissionError [SKIP_CHANGE_REQUEST] None)))"

text \<open>\<open>stopWhenChangeRequestsEnabled\<close> of the feature service: for the environment, or the whole project.\<close>

definition stopWhenChangeRequestsEnabled :: "string \<Rightarrow> string option \<Rightarrow> acting_user option \<Rightarrow> unit feature_op" where
  "stopWhenChangeRequestsEnabled project env user =
     (if truthy env
      then bindS (askS (canBypassChangeRequest project (the env) user)) (\<lambda>ok.
        guardS (\<not> ok) (Api (PermissionError [SKIP_CHANGE_REQUEST] None)))
      else stop_project project user)"


section \<open>The store\<close>

record segment_input =
  sp_name :: string
  sp_description :: "string option"
  sp_project :: "string option"
  sp_constraints :: "constraint list"

definition segments_get :: "int \<Rightarrow> feature_db \<Rightarrow> exn + segment_row" where
  \<open>segments_get sid db = (case find (\<lambda>r. sw_id r = sid) (fd_segments db) of
       None \<Rightarrow> Inl (Api (NotFoundError (Some (''No segment exists with ID "'' @ show_int sid @ ''"''))))
     | Some r \<Rightarrow> Inr r)\<close>

definition getByStrategy :: "string \<Rightarrow> feature_db \<Rightarrow> segment_row list" where
  "getByStrategy strategyId db =
     [r. l \<leftarrow> fd_strategy_segments db, fst l = strategyId, r \<leftarrow> fd_segments db, sw_id r = snd l]"

definition existsByName :: "string \<Rightarrow> feature_db \<Rightarrow> bool" where
  "existsByName name db = list_ex (\<lambda>r. sw_name r = name) (fd_segments db)"

definition segment_project :: "segment_input \<Rightarrow> string option" where
  "segment_project i = (if truthy (sp_project i) then sp_project i else None)"

definition segment_fk_check :: "feature_db \<Rightarrow> string option \<Rightarrow> exn + unit" where
  "segment_fk_check db p = (case p of
       None \<Rightarrow> Inr ()
     | Some project \<Rightarrow> throw_if (\<not> hasProject project db) (fd_fk_error db ''segments_segment_project_id_fkey''))"

definition segments_create ::
  "feature_config \<Rightarrow> segment_input \<Rightarrow> acting_user \<Rightarrow> feature_db \<Rightarrow> exn + (segment_row \<times> feature_db)" where
  "segments_create cfg i user db =
     (let row = \<lparr>sw_id = fd_next_segment db, sw_name = sp_name i, sw_description = sp_description i,
            sw_project = segment_project i, sw_constraints = sp_constraints i,
            sw_created_by = (if truthy (act_username user) then act_username user else act_email user),
            sw_created_at = fc_now cfg\<rparr>
      in bindR (segment_fk_check db (segment_project i)) (\<lambda>_.
           Inr (row, db\<lparr>fd_segments := fd_segments db @ [row], fd_next_segment := fd_next_segment db + 1\<rparr>)))"

definition segments_update :: "int \<Rightarrow> segment_input \<Rightarrow> feature_db \<Rightarrow> exn + (segment_row \<times> feature_db)" where
  "segments_update sid i db =
     (let f = (\<lambda>r. r\<lparr>sw_name := sp_name i,
            sw_description := (case sp_description i of None \<Rightarrow> sw_description r | d \<Rightarrow> d),
            sw_project := segment_project i, sw_constraints := sp_constraints i\<rparr>)
      in case find (\<lambda>r. sw_id r = sid) (fd_segments db) of
           None \<Rightarrow> Inl (Api (NotFoundError (Some ''No row'')))
         | Some r \<Rightarrow> bindR (segment_fk_check db (segment_project i)) (\<lambda>_.
             Inr (f r, db\<lparr>fd_segments := map (\<lambda>r. if sw_id r = sid then f r else r) (fd_segments db)\<rparr>)))"

definition segments_delete :: "int \<Rightarrow> feature_db \<Rightarrow> feature_db" where
  "segments_delete sid db =
     db\<lparr>fd_segments := filter (\<lambda>r. sw_id r \<noteq> sid) (fd_segments db),
        fd_strategy_segments := filter (\<lambda>l. snd l \<noteq> sid) (fd_strategy_segments db)\<rparr>"

definition store_addToStrategy :: "int \<Rightarrow> string \<Rightarrow> feature_db \<Rightarrow> exn + feature_db" where
  "store_addToStrategy sid strategyId db =
     (if List.member (fd_strategy_segments db) (strategyId, sid)
      then Inl (fd_unique_error db ''feature_strategy_segment_pkey'')
      else if \<not> list_ex (\<lambda>s. sr_id s = strategyId) (fd_strategies db)
      then Inl (fd_fk_error db ''feature_strategy_segment_feature_strategy_id_fkey'')
      else if \<not> list_ex (\<lambda>r. sw_id r = sid) (fd_segments db)
      then Inl (fd_fk_error db ''feature_strategy_segment_segment_id_fkey'')
      else Inr (db\<lparr>fd_strategy_segments := fd_strategy_segments db @ [(strategyId, sid)]\<rparr>))"

definition removeFromStrategy :: "int \<Rightarrow> string \<Rightarrow> feature_db \<Rightarrow> feature_db" where
  "removeFromStrategy sid strategyId db =
     db\<lparr>fd_strategy_segments := filter (\<lambda>l. l \<noteq> (strategyId, sid)) (fd_strategy_segments db)\<rparr>"


section \<open>The service\<close>

definition stmt :: "(feature_db \<Rightarrow> exn + feature_db) \<Rightarrow> unit feature_op" where
  "stmt f = exec_db (\<lambda>db. bindR (f db) (\<lambda>db'. Inr ((), db')))"

text \<open>The projects of the strategies that use a segment: those of features, and those of open change requests.\<close>

definition getAllStrategies :: "feature_config \<Rightarrow> int \<Rightarrow> feature_db \<Rightarrow> strategy_row list \<times> string list" where
  "getAllStrategies cfg sid db =
     (getStrategiesBySegment sid db,
      if fc_isEnterprise cfg then map snd (filter (\<lambda>(i, p). i = sid) (fd_cr_segments db)) else [])"

definition segment_isInUse :: "feature_config \<Rightarrow> int \<Rightarrow> feature_db \<Rightarrow> bool" where
  "segment_isInUse cfg sid db = (case getAllStrategies cfg sid db of (sts, crs) \<Rightarrow> sts \<noteq> [] \<or> crs \<noteq> [])"

definition segmentSchema :: "feature_config \<Rightarrow> segment_input \<Rightarrow> exn + segment_input" where
  \<open>segmentSchema cfg i =
     bindR (joi_first ((if sp_name i = [] then [\<lparr>jd_message = ''"name" is not allowed to be empty'', jd_value = None\<rparr>] else []) @
        concat (map (\<lambda>(k, c). constraint_errors cfg (\<lambda>f. ''"constraints['' @ show_nat k @ ''].'' @ f @ ''"'') c)
          (List.enumerate 0 (sp_constraints i))))) (\<lambda>_. Inr i)\<close>

definition segment_validateName :: "string \<Rightarrow> feature_db \<Rightarrow> exn + unit" where
  "segment_validateName name db =
     (if name = [] then Inl (Api (BadDataError ''Segment name cannot be empty''))
      else throw_if (existsByName name db) (Api (NameExistsError ''Segment name already exists'')))"

definition validateSegmentValuesLimit :: "feature_config \<Rightarrow> segment_input \<Rightarrow> exn + unit" where
  "validateSegmentValuesLimit cfg i =
     throw_if (fc_segmentValuesLimit cfg < sum_list (map (\<lambda>c. length (vals c)) (sp_constraints i)))
       (Api (BadDataError (''Segments may not have more than '' @ show_nat (fc_segmentValuesLimit cfg) @ '' values'')))"

definition validateSegmentProject :: "feature_config \<Rightarrow> int \<Rightarrow> segment_input \<Rightarrow> feature_db \<Rightarrow> exn + unit" where
  "validateSegmentProject cfg sid i db =
     (case getAllStrategies cfg sid db of (sts, crs) \<Rightarrow>
       let projectsUsed = remdups (map sr_project sts @ crs) in
       throw_if (truthy (sp_project i) \<and> (1 < length projectsUsed \<or>
                   length projectsUsed = 1 \<and> \<not> List.member projectsUsed (the (sp_project i))))
         (Api (BadDataError (''Invalid project. Segment is being used by strategies in other projects: '' @
            join_with '', '' projectsUsed))))"

definition stop_segment :: "string option \<Rightarrow> acting_user option \<Rightarrow> unit feature_op" where
  "stop_segment project user = (if truthy project then stop_project (the project) user else returnS ())"

definition segment_create :: "feature_config \<Rightarrow> segment_input \<Rightarrow> acting_user \<Rightarrow> segment_row feature_op" where
  "segment_create cfg data user =
     bindS (tryS (\<lambda>_. segmentSchema cfg data)) (\<lambda>input.
     thenS (tryS (\<lambda>_. validateSegmentValuesLimit cfg input))
     (thenS (try_db (segment_validateName (sp_name input)))
     (bindS (exec_db (segments_create cfg input user)) (\<lambda>segment.
     thenS (store_event (SegmentCreated segment) (sw_project segment) None (username_of user) (user_id_of (Some user)))
       (returnS segment)))))"

text \<open>\<open>user.email || user.username\<close>\<close>

definition known_as :: "acting_user \<Rightarrow> string option" where
  "known_as u = (if truthy (act_email u) then act_email u else act_username u)"

definition segment_unprotectedUpdate :: "feature_config \<Rightarrow> int \<Rightarrow> segment_input \<Rightarrow> acting_user \<Rightarrow> unit feature_op" where
  "segment_unprotectedUpdate cfg sid data user =
     bindS (tryS (\<lambda>_. segmentSchema cfg data)) (\<lambda>input.
     thenS (tryS (\<lambda>_. validateSegmentValuesLimit cfg input))
     (bindS (try_db (segments_get sid)) (\<lambda>preData.
     thenS (if sw_name preData \<noteq> sp_name input then try_db (segment_validateName (sp_name input)) else returnS ())
     (thenS (try_db (validateSegmentProject cfg sid input))
     (bindS (exec_db (segments_update sid input)) (\<lambda>segment.
       store_event (SegmentUpdated segment preData) (sw_project segment) None (or_else (known_as user) ''unknown'') (ax_id user)))))))"

text \<open>The change requests asked about are those of the project in the data, not of the stored segment.\<close>

definition segment_update :: "feature_config \<Rightarrow> int \<Rightarrow> segment_input \<Rightarrow> acting_user \<Rightarrow> unit feature_op" where
  "segment_update cfg sid data user =
     bindS (tryS (\<lambda>_. segmentSchema cfg data)) (\<lambda>input.
     thenS (stop_segment (sp_project input) (Some user)) (segment_unprotectedUpdate cfg sid data user))"

definition segment_unprotectedDelete :: "int \<Rightarrow> acting_user \<Rightarrow> unit feature_op" where
  "segment_unprotectedDelete sid user =
     bindS (try_db (segments_get sid)) (\<lambda>segment.
     thenS (run_db (segments_delete sid))
       (store_event_by (known_as user) (SegmentDeleted segment) None None (ax_id user)))"

definition segment_delete :: "int \<Rightarrow> acting_user \<Rightarrow> unit feature_op" where
  "segment_delete sid user =
     bindS (try_db (segments_get sid)) (\<lambda>segment.
     thenS (stop_segment (sw_project segment) (Some user))
     (thenS (run_db (segments_delete sid))
       (store_event_by (known_as user) (SegmentDeleted segment) (sw_project segment) None (ax_id user))))"

text \<open>The controller's handler, with the status it answers.\<close>

definition removeSegment :: "feature_config \<Rightarrow> int \<Rightarrow> acting_user \<Rightarrow> nat feature_op" where
  "removeSegment cfg sid user =
     bindS (ask_db (segment_isInUse cfg sid)) (\<lambda>inUse.
       if inUse then returnS 409 else thenS (segment_delete sid user) (returnS 204))"

definition validateStrategySegmentLimit :: "feature_config \<Rightarrow> string \<Rightarrow> feature_db \<Rightarrow> exn + unit" where
  "validateStrategySegmentLimit cfg strategyId db =
     throw_if (fc_strategySegmentsLimit cfg \<le> length (getByStrategy strategyId db))
       (Api (BadDataError (''Strategies may not have more than '' @ show_nat (fc_strategySegmentsLimit cfg) @ '' segments'')))"

definition addToStrategy :: "feature_config \<Rightarrow> int \<Rightarrow> string \<Rightarrow> unit feature_op" where
  "addToStrategy cfg sid strategyId =
     thenS (try_db (validateStrategySegmentLimit cfg strategyId)) (stmt (store_addToStrategy sid strategyId))"

definition cloneStrategySegments :: "feature_config \<Rightarrow> string \<Rightarrow> string \<Rightarrow> unit feature_op" where
  "cloneStrategySegments cfg source target =
     bindS (ask_db (getByStrategy source)) (\<lambda>segments.
     thenS (allS (\<lambda>r. addToStrategy cfg (sw_id r) target) segments) (returnS ()))"

definition updateStrategySegments :: "feature_config \<Rightarrow> string \<Rightarrow> int list \<Rightarrow> unit feature_op" where
  "updateStrategySegments cfg strategyId segmentIds =
     thenS (guardS (fc_strategySegmentsLimit cfg < length segmentIds)
       (Api (BadDataError (''Strategies may not have more than '' @ show_nat (fc_strategySegmentsLimit cfg) @ '' segments''))))
     (bindS (ask_db (\<lambda>db. map sw_id (getByStrategy strategyId db))) (\<lambda>current.
      thenS (allS (\<lambda>i. run_db (removeFromStrategy i strategyId)) (filter (\<lambda>i. \<not> List.member segmentIds i) current))
     (thenS (allS (\<lambda>i. addToStrategy cfg i strategyId) (filter (\<lambda>i. \<not> List.member current i) segmentIds))
       (returnS ()))))"

end
