(* ===== verification/Dependencies.thy ===== *)
theory Dependencies
  imports Segments
begin

text \<open>
  The dependencies between features (\<open>features/dependent-features\<close>): the store, the read model and the
  service. A feature has at most one parent, a parent has no parent of its own, and both are in one project.
\<close>

section \<open>The read model\<close>

definition getChildren :: "string list \<Rightarrow> feature_db \<Rightarrow> string list" where
  "getChildren parents db = dedup (map dr_child (filter (\<lambda>d. List.member parents (dr_parent d)) (fd_dependencies db)))"

definition getParents :: "string \<Rightarrow> feature_db \<Rightarrow> dependency_row list" where
  "getParents child db = filter (\<lambda>d. dr_child d = child) (fd_dependencies db)"

text \<open>The parents among the given features that have a child outside of them.\<close>

definition getOrphanParents :: "string list \<Rightarrow> feature_db \<Rightarrow> string list" where
  "getOrphanParents names db =
     dedup (map dr_parent (filter (\<lambda>d. List.member names (dr_parent d) \<and>
       list_ex (\<lambda>d'. dr_parent d' = dr_parent d \<and> \<not> List.member names (dr_child d')) (fd_dependencies db)) (fd_dependencies db)))"

definition getDependencies :: "string list \<Rightarrow> feature_db \<Rightarrow> (string \<times> dependency_row) list" where
  "getDependencies children db =
     map (\<lambda>d. (dr_child d, d)) (filter (\<lambda>d. List.member children (dr_child d)) (fd_dependencies db))"

definition getParentOptions :: "string \<Rightarrow> feature_db \<Rightarrow> string list" where
  "getParentOptions child db = (case store_getProjectId child db of
       None \<Rightarrow> []
     | Some project \<Rightarrow> sort (map ft_name (filter (\<lambda>r. ft_project r = project \<and> ft_name r \<noteq> child \<and>
         getParents (ft_name r) db = [] \<and> ft_archived_at r = None) (fd_features db))))"

definition haveDependencies :: "string list \<Rightarrow> feature_db \<Rightarrow> bool" where
  "haveDependencies names db =
     list_ex (\<lambda>d. List.member names (dr_parent d) \<or> List.member names (dr_child d)) (fd_dependencies db)"

definition hasAnyDependencies :: "feature_db \<Rightarrow> bool" where
  "hasAnyDependencies db = (fd_dependencies db \<noteq> [])"

text \<open>\<open>features-read-model.ts\<close>\<close>

definition featureExists :: "string \<Rightarrow> feature_db \<Rightarrow> bool" where
  "featureExists name db = list_ex (\<lambda>r. ft_name r = name \<and> ft_archived_at r = None) (fd_features db)"

definition featuresInTheSameProject :: "string \<Rightarrow> string \<Rightarrow> feature_db \<Rightarrow> bool" where
  "featuresInTheSameProject a b db =
     (length (remdups (map ft_project (filter (\<lambda>r. ft_name r = a \<or> ft_name r = b) (fd_features db)))) = 1)"


section \<open>The store\<close>

definition dependency_upsert :: "dependency_row \<Rightarrow> feature_db \<Rightarrow> (exn + unit) \<times> feature_db" where
  "dependency_upsert d db =
     (let db1 = db\<lparr>fd_dependencies := filter (\<lambda>x. dr_child x \<noteq> dr_child d) (fd_dependencies db)\<rparr> in
      if \<not> List.member (feature_names db) (dr_parent d) then (Inl (fd_fk_error db ''dependent_features_parent_fkey''), db1)
      else if \<not> List.member (feature_names db) (dr_child d) then (Inl (fd_fk_error db ''dependent_features_child_fkey''), db1)
      else (Inr (), db1\<lparr>fd_dependencies := fd_dependencies db1 @ [d]\<rparr>))"

definition dependency_delete :: "string \<Rightarrow> string \<Rightarrow> feature_db \<Rightarrow> feature_db" where
  "dependency_delete parent child db =
     db\<lparr>fd_dependencies := filter (\<lambda>x. \<not> (dr_parent x = parent \<and> dr_child x = child)) (fd_dependencies db)\<rparr>"

definition dependency_deleteAll :: "string list \<Rightarrow> feature_db \<Rightarrow> feature_db" where
  "dependency_deleteAll names db =
     db\<lparr>fd_dependencies := filter (\<lambda>x. \<not> List.member names (dr_child x)) (fd_dependencies db)\<rparr>"


section \<open>The service\<close>

record dependency_input =
  di_feature :: string
  di_enabled :: "bool option"
  di_variants :: "string list option"

definition dependency_of :: "string \<Rightarrow> dependency_input \<Rightarrow> dependency_row" where
  "dependency_of child i =
     \<lparr>dr_parent = di_feature i, dr_child = child, dr_enabled = (di_enabled i \<noteq> Some False),
      dr_variants = (if di_enabled i = Some False then [] else default [] (di_variants i))\<rparr>"

definition invalid :: "string \<Rightarrow> exn" where
  "invalid m = Api (InvalidOperationError m)"

text \<open>The checks of \<open>unprotectedUpsertFeatureDependency\<close>, then its writes.\<close>

definition dependency_check :: "string \<Rightarrow> string \<Rightarrow> feature_db \<Rightarrow> exn + unit" where
  "dependency_check child parent db =
     (if child = parent then Inl (invalid ''A feature flag cannot depend on itself.'')
      else if getChildren [child] db \<noteq> []
      then Inl (invalid ''Transitive dependency detected. Cannot add a dependency to the feature that other features depend on.'')
      else if getParents parent db \<noteq> []
      then Inl (invalid ''Transitive dependency detected. Cannot add a dependency to the feature that has parent dependency.'')
      else if \<not> featureExists parent db then Inl (invalid (''No active feature '' @ parent @ '' exists''))
      else if \<not> featuresInTheSameProject child parent db
      then Inl (invalid ''Parent and child features should be in the same project'')
      else Inr ())"

definition dependency_write :: "string \<Rightarrow> string \<Rightarrow> dependency_input \<Rightarrow> string \<Rightarrow> int \<Rightarrow> unit feature_op" where
  "dependency_write child project i by uid =
     thenS (\<lambda>s. case dependency_upsert (dependency_of child i) (fs_db s) of (r, db) \<Rightarrow> (r, s\<lparr>fs_db := db\<rparr>))
       (store_event (DependencyAdded (di_feature i) (dr_enabled (dependency_of child i)) (di_variants i))
         (Some project) (Some child) by uid)"

definition unprotectedUpsertFeatureDependency ::
  "string \<Rightarrow> string \<Rightarrow> dependency_input \<Rightarrow> string \<Rightarrow> int \<Rightarrow> unit feature_op" where
  "unprotectedUpsertFeatureDependency child project i by uid =
     thenS (try_db (dependency_check child (di_feature i))) (dependency_write child project i by uid)"

definition upsertFeatureDependency :: "string \<Rightarrow> string \<Rightarrow> dependency_input \<Rightarrow> acting_user \<Rightarrow> unit feature_op" where
  "upsertFeatureDependency child project i user =
     thenS (stop_project project (Some user))
       (unprotectedUpsertFeatureDependency child project i (username_of user) (ax_id user))"

definition cloneDependencies :: "string \<Rightarrow> string \<Rightarrow> string \<Rightarrow> string \<Rightarrow> int \<Rightarrow> unit feature_op" where
  "cloneDependencies name newName project by uid =
     bindS (ask_db (getParents name)) (\<lambda>parents.
     thenS (allS (\<lambda>d. unprotectedUpsertFeatureDependency newName project
         \<lparr>di_feature = dr_parent d, di_enabled = Some (dr_enabled d), di_variants = Some (dr_variants d)\<rparr> by uid) parents)
       (returnS ()))"

definition unprotectedDeleteFeatureDependency :: "string \<Rightarrow> string \<Rightarrow> string \<Rightarrow> string \<Rightarrow> int \<Rightarrow> unit feature_op" where
  "unprotectedDeleteFeatureDependency parent child project by uid =
     thenS (run_db (dependency_delete parent child))
       (store_event (DependencyRemoved parent) (Some project) (Some child) by uid)"

definition deleteFeatureDependency :: "string \<Rightarrow> string \<Rightarrow> string \<Rightarrow> acting_user \<Rightarrow> unit feature_op" where
  "deleteFeatureDependency parent child project user =
     thenS (stop_project project (Some user))
       (unprotectedDeleteFeatureDependency parent child project (username_of user) (ax_id user))"

definition unprotectedDeleteFeaturesDependencies :: "string list \<Rightarrow> string \<Rightarrow> string \<Rightarrow> int \<Rightarrow> unit feature_op" where
  "unprotectedDeleteFeaturesDependencies names project by uid =
     thenS (run_db (dependency_deleteAll names))
       (eachS (\<lambda>name. store_event DependenciesRemoved (Some project) (Some name) by uid) names)"

definition deleteFeaturesDependencies :: "string list \<Rightarrow> string \<Rightarrow> acting_user \<Rightarrow> unit feature_op" where
  "deleteFeaturesDependencies names project user =
     thenS (stop_project project (Some user))
       (unprotectedDeleteFeaturesDependencies names project (username_of user) (ax_id user))"

end
