(* ===== verification/FeatureService.thy ===== *)
theory FeatureService
  imports Dependencies
begin

text \<open>
  The feature service (\<open>feature-toggle-service.ts\<close>): features, their environments, strategies and
  variants. An operation runs statement by statement on the tables, and keeps what it has written when
  it throws.
\<close>

section \<open>Validations\<close>

definition validateFeaturesContext :: "string list \<Rightarrow> string \<Rightarrow> feature_db \<Rightarrow> exn + unit" where
  \<open>validateFeaturesContext names project db =
     (let wrong = dedup (filter (\<lambda>p. p \<noteq> project) (map tf_project (getAllByNames names db))) in
      throw_if (wrong \<noteq> []) (invalid (''The operation could not be completed. The features exist, but the provided project ids ("''
        @ join_with '','' wrong @ ''") does not match the project provided in request URL ("'' @ project @ ''").'')))\<close>

definition validateFeatureBelongsToProject :: "string \<Rightarrow> string \<Rightarrow> feature_db \<Rightarrow> exn + unit" where
  \<open>validateFeatureBelongsToProject name project db =
     (let ident = store_getProjectId name db in
      throw_if (ident \<noteq> Some project) (Api (NotFoundError (Some
        (''There's no feature named "'' @ name @ ''" in project "'' @ project @ ''"'' @
         (case ident of None \<Rightarrow> ''.'' | Some p \<Rightarrow> '', but there's a feature with that name in project "'' @ p @ ''"''))))))\<close>

definition validateFeatureIsNotArchived :: "string \<Rightarrow> feature_db \<Rightarrow> exn + unit" where
  "validateFeatureIsNotArchived name db =
     bindR (features_get name db) (\<lambda>t. throw_if (tf_archived t) (Api (ArchivedFeatureError None)))"

definition validateNoChildren :: "string \<Rightarrow> feature_db \<Rightarrow> exn + unit" where
  "validateNoChildren name db = throw_if (getChildren [name] db \<noteq> [])
     (invalid ''You can not archive/delete this feature since other features depend on it.'')"

definition validateNoOrphanParents :: "string list \<Rightarrow> feature_db \<Rightarrow> exn + unit" where
  "validateNoOrphanParents names db = throw_if (names \<noteq> [] \<and> getOrphanParents names db \<noteq> [])
     (invalid (if 1 < length names
        then ''You can not archive/delete those features since other features depend on them.''
        else ''You can not archive/delete this feature since other features depend on it.''))"

definition validateUpdatedProperties :: "string \<Rightarrow> string \<Rightarrow> strategy_row \<Rightarrow> exn + unit" where
  "validateUpdatedProperties name project s =
     (if sr_project s \<noteq> project then Inl (invalid ''You can not change the projectId for an activation strategy.'')
      else if sr_feature s \<noteq> name then Inl (invalid ''You can not change the featureName for an activation strategy.'')
      else throw_if (sr_parameters s ''stickiness'' = Some []) (invalid ''You can not have an empty string for stickiness.''))"

definition validateProjectCanAccessSegments :: "string \<Rightarrow> int list option \<Rightarrow> feature_db \<Rightarrow> exn + unit" where
  \<open>validateProjectCanAccessSegments project segmentIds db =
     bindR (mapR (\<lambda>i. segments_get i db) (default [] segmentIds)) (\<lambda>segments.
     bindR (mapR (\<lambda>r. throw_if (truthy (sw_project r) \<and> sw_project r \<noteq> Some project)
         (Api (BadDataError (''The segment "'' @ sw_name r @ ''" with id '' @ show_int (sw_id r) @
            '' does not belong to project "'' @ project @ ''".'')))) segments) (\<lambda>_. Inr ()))\<close>

definition validateStrategyType :: "string option \<Rightarrow> feature_db \<Rightarrow> exn + unit" where
  "validateStrategyType strategyName db = (case strategyName of
       None \<Rightarrow> Inr ()
     | Some n \<Rightarrow> throw_if (\<not> List.member (fd_strategy_types db) n)
         (Api (BadDataError (''Could not find strategy type with name '' @ n))))"

definition validateUniqueFeatureName :: "string \<Rightarrow> feature_db \<Rightarrow> exn + unit" where
  "validateUniqueFeatureName name db = (case features_get name db of
       Inl _ \<Rightarrow> Inr ()
     | Inr t \<Rightarrow> Inl (Api (NameExistsError (if tf_archived t then ''An archived toggle with that name already exists''
                                                else ''A toggle with that name already exists''))))"

definition validateName :: "feature_config \<Rightarrow> string \<Rightarrow> feature_db \<Rightarrow> exn + unit" where
  "validateName cfg name db = bindR (nameSchema cfg name) (\<lambda>_. validateUniqueFeatureName name db)"

text \<open>The names a project's pattern does not match; an unknown project has none.\<close>

definition checkFeatureFlagNamesAgainstPattern :: "feature_config \<Rightarrow> string list \<Rightarrow> string option \<Rightarrow> string list" where
  "checkFeatureFlagNamesAgainstPattern cfg names pattern =
     (if truthy pattern then filter (\<lambda>n. \<not> fc_regex cfg (the pattern) n) names else [])"

definition validateFeatureFlagNameAgainstPattern :: "feature_config \<Rightarrow> string \<Rightarrow> string \<Rightarrow> feature_db \<Rightarrow> exn + unit" where
  \<open>validateFeatureFlagNameAgainstPattern cfg name project db =
     (case (if project = [] then None else project_of project db) of
        None \<Rightarrow> Inr ()
      | Some p \<Rightarrow> throw_if (checkFeatureFlagNamesAgainstPattern cfg [name] (pj_naming_pattern p) \<noteq> [])
          (Api (PatternError (''The feature flag name "'' @ name @ ''" does not match the project's naming pattern: "'' @
              default [] (pj_naming_pattern p) @ ''".'' @
              (if truthy (pj_naming_example p)
               then '' Here's an example of a name that does match the pattern: "'' @ the (pj_naming_example p) @ ''"."'' else []) @
              (if truthy (pj_naming_description p)
               then '' The pattern's description is: "'' @ the (pj_naming_description p) @ ''"'' else []))
            (Some [''The flag name does not match the pattern.'']))))\<close>


section \<open>Weights of variants\<close>

text \<open>The first \<open>r\<close> variable variants get one more than the others.\<close>

fun distribute :: "int \<Rightarrow> nat \<Rightarrow> weighted_variant list \<Rightarrow> weighted_variant list" where
  "distribute avg r [] = []"
| "distribute avg r (v # vs) = v\<lparr>vd_weight := avg + (if 0 < r then 1 else 0)\<rparr> # distribute avg (r - 1) vs"

definition fixVariantWeights :: "feature_config \<Rightarrow> weighted_variant list \<Rightarrow> exn + weighted_variant list" where
  \<open>fixVariantWeights cfg variants =
     (let variable = filter (\<lambda>v. wv_weightType v = Some ''variable'') variants;
          fixed = filter (\<lambda>v. wv_weightType v = Some ''fix'') variants;
          fixedWeights = sum_list (map vd_weight fixed);
          n = int (length variable)
      in if variants \<noteq> [] \<and> variable = [] then Inl (Api (BadDataError ''There must be at least one "variable" variant''))
         else if 1000 < fixedWeights then Inl (Api (BadDataError ''The traffic distribution total must equal 100%''))
         else Inr (sort_variants cfg
           (distribute ((1000 - fixedWeights) div n) (nat ((1000 - fixedWeights) mod n)) variable @ fixed)))\<close>

definition checked_variants :: "feature_config \<Rightarrow> weighted_variant list \<Rightarrow> exn + weighted_variant list" where
  "checked_variants cfg vs = bindR (variantsArraySchema cfg vs) (\<lambda>_. fixVariantWeights cfg vs)"


section \<open>Strategies\<close>

definition featureStrategyToPublic :: "strategy_row \<Rightarrow> segment_row list \<Rightarrow> public_strategy" where
  "featureStrategyToPublic s segments =
     \<lparr>pb_id = sr_id s, pb_name = sr_name s, pb_title = sr_title s, pb_disabled = sr_disabled s,
      pb_constraints = sr_constraints s, pb_parameters = sr_parameters s, pb_variants = sr_variants s,
      pb_sortOrder = sr_sort_order s, pb_segments = map sw_id segments\<rparr>"

definition public_of :: "feature_db \<Rightarrow> strategy_row \<Rightarrow> public_strategy" where
  "public_of db s = featureStrategyToPublic s (getByStrategy (sr_id s) db)"

definition getStrategiesForEnvironment :: "string \<Rightarrow> string \<Rightarrow> string \<Rightarrow> feature_db \<Rightarrow> exn + public_strategy list" where
  "getStrategiesForEnvironment project name env db =
     (if featureHasEnvironment env name db
      then Inr (map (public_of db) (getStrategiesForFeatureEnv project name env db))
      else Inl (Api (NotFoundError (Some (''Feature '' @ name @ '' does not have environment '' @ env)))))"

definition feature_getStrategy :: "string \<Rightarrow> feature_db \<Rightarrow> exn + public_strategy" where
  "feature_getStrategy key db = bindR (getStrategyById key db) (\<lambda>s. Inr (public_of db s))"

text \<open>Every id given gets its new position, wherever its strategy is.\<close>

definition unprotectedUpdateStrategiesSortOrder ::
  "string \<Rightarrow> string \<Rightarrow> string \<Rightarrow> (string \<times> int) list \<Rightarrow> string \<Rightarrow> int \<Rightarrow> unit feature_op" where
  "unprotectedUpdateStrategiesSortOrder project name env sortOrders by uid =
     bindS (try_db (getStrategiesForEnvironment project name env)) (\<lambda>before.
     thenS (eachS (\<lambda>(i, n). run_db (store_updateSortOrder i n)) sortOrders)
     (bindS (try_db (getStrategiesForEnvironment project name env)) (\<lambda>after.
       store_event (StrategyOrderChanged env (map pb_id (sort_key pb_sortOrder before)) (map pb_id (sort_key pb_sortOrder after)))
         (Some project) (Some name) by uid)))"

definition updateStrategiesSortOrder ::
  "string \<Rightarrow> string \<Rightarrow> string \<Rightarrow> (string \<times> int) list \<Rightarrow> string \<Rightarrow> acting_user option \<Rightarrow> unit feature_op" where
  "updateStrategiesSortOrder project name env sortOrders by user =
     thenS (stopWhenChangeRequestsEnabled project (Some env) user)
       (unprotectedUpdateStrategiesSortOrder project name env sortOrders by (user_id_of user))"

text \<open>The error of a missing environment stands for every foreign key.\<close>

fun environment_not_added :: "exn \<Rightarrow> exn" where
  "environment_not_added (DbError code c d m) =
     (if code = FOREIGN_KEY_VIOLATION then Api (BadDataError ''You have not added the current environment to the project'')
      else DbError code c d m)"
| "environment_not_added e = e"

definition stickiness_default :: "parameters option \<Rightarrow> parameters option" where
  "stickiness_default ps = map_option (\<lambda>m. if m ''stickiness'' = Some [] then m(''stickiness'' \<mapsto> ''default'') else m) ps"

definition insert_strategy ::
  "feature_config \<Rightarrow> strategy_input \<Rightarrow> string \<Rightarrow> string \<Rightarrow> string \<Rightarrow> string \<Rightarrow> int \<Rightarrow> public_strategy feature_op" where
  "insert_strategy cfg c project name env by uid =
     bindS (createStrategyFeatureEnv cfg project name env c) (\<lambda>row.
     thenS (case si_segments c of None \<Rightarrow> returnS () | Some ids \<Rightarrow> updateStrategySegments cfg (sr_id row) ids)
     (bindS (ask_db (\<lambda>db. public_of db row)) (\<lambda>strategy.
     thenS (store_event (StrategyAdded env strategy) (Some project) (Some name) by uid) (returnS strategy))))"

definition unprotectedCreateStrategy ::
  "feature_config \<Rightarrow> strategy_input \<Rightarrow> string \<Rightarrow> string \<Rightarrow> string \<Rightarrow> string \<Rightarrow> int \<Rightarrow> public_strategy feature_op" where
  "unprotectedCreateStrategy cfg c project name env by uid =
     thenS (try_db (validateFeatureBelongsToProject name project))
     (thenS (try_db (validateStrategyType (Some (sc_name c))))
     (thenS (try_db (validateProjectCanAccessSegments project (si_segments c)))
     (bindS (try_db (validateConstraints cfg (sc_constraints c))) (\<lambda>constraints.
     bindS (tryS (\<lambda>_. if si_variants c = [] then Inr [] else checked_variants cfg (si_variants c))) (\<lambda>variants.
       catchS (insert_strategy cfg (c\<lparr>sc_constraints := constraints, sc_parameters := stickiness_default (sc_parameters c),
                 si_variants := variants\<rparr>) project name env by uid) environment_not_added)))))"

definition createStrategy ::
  "feature_config \<Rightarrow> strategy_input \<Rightarrow> string \<Rightarrow> string \<Rightarrow> string \<Rightarrow> string \<Rightarrow> acting_user option \<Rightarrow> public_strategy feature_op" where
  "createStrategy cfg c project name env by user =
     thenS (stopWhenChangeRequestsEnabled project (Some env) user)
       (unprotectedCreateStrategy cfg c project name env by (user_id_of user))"


section \<open>Turning an environment on and off\<close>

definition updateEnabled_checks :: "string \<Rightarrow> string \<Rightarrow> string \<Rightarrow> unit feature_op" where
  "updateEnabled_checks project name env =
     thenS (try_db (validateFeatureBelongsToProject name project))
     (thenS (try_db (\<lambda>db. throw_if (\<not> featureHasEnvironment env name db)
        (Api (NotFoundError (Some (''Could not find environment '' @ env @ '' for feature: '' @ name))))))
       (try_db (validateFeatureIsNotArchived name)))"

definition set_enabled ::
  "string \<Rightarrow> string \<Rightarrow> string \<Rightarrow> bool \<Rightarrow> string \<Rightarrow> acting_user option \<Rightarrow> feature_toggle feature_op" where
  "set_enabled project name env enabled by user =
     bindS (exec_db (\<lambda>db. Inr (setEnvironmentEnabledStatus env name enabled db))) (\<lambda>changed.
     bindS (try_db (features_get name)) (\<lambda>feature.
     thenS (whenS (0 < changed)
         (store_event (if enabled then EnvironmentEnabled env else EnvironmentDisabled env)
            (Some project) (Some name) by (user_id_of user)))
       (returnS feature)))"

text \<open>\<open>unprotectedUpdateEnabled\<close> with \<open>false\<close>, which calls none of the operations below.\<close>

definition disable_environment ::
  "string \<Rightarrow> string \<Rightarrow> string \<Rightarrow> string \<Rightarrow> acting_user option \<Rightarrow> feature_toggle feature_op" where
  "disable_environment project name env by user =
     thenS (updateEnabled_checks project name env) (set_enabled project name env False by user)"

definition optionallyDisableFeature ::
  "feature_config \<Rightarrow> string \<Rightarrow> string \<Rightarrow> string \<Rightarrow> string \<Rightarrow> acting_user option \<Rightarrow> unit feature_op" where
  "optionallyDisableFeature cfg name env project by user =
     bindS (try_db (loadFeatureToggleWithEnvs cfg name False)) (\<lambda>feature.
       case find (\<lambda>e. ed_name e = Some env) (fw_environments feature) of
         None \<Rightarrow> returnS ()
       | Some e \<Rightarrow> whenS (list_all pb_disabled (ed_strategies e))
           (thenS (disable_environment project name env by user) (returnS ())))"

definition unprotectedUpdateStrategy ::
  "feature_config \<Rightarrow> string \<Rightarrow> strategy_update \<Rightarrow> string \<Rightarrow> string \<Rightarrow> string \<Rightarrow> string \<Rightarrow> acting_user option \<Rightarrow> public_strategy feature_op" where
  "unprotectedUpdateStrategy cfg key u project name env by user =
     bindS (try_db (strategies_get key)) (\<lambda>existing.
     thenS (tryS (\<lambda>_. validateUpdatedProperties name project existing))
     (thenS (try_db (validateStrategyType (su_name u)))
     (thenS (try_db (validateProjectCanAccessSegments project (su_segments u)))
     (bindS (ask_db (\<lambda>db. public_of db existing)) (\<lambda>preData.
     bindS (case su_constraints u of
              Some (c # cs) \<Rightarrow> bindS (try_db (validateConstraints cfg (c # cs))) (\<lambda>v. returnS (Some v))
            | cs \<Rightarrow> returnS cs) (\<lambda>constraints.
     bindS (tryS (\<lambda>_. case su_variants u of
              Some (v # vs) \<Rightarrow> bindR (checked_variants cfg (v # vs)) (\<lambda>w. Inr (Some w))
            | vs \<Rightarrow> Inr vs)) (\<lambda>variants.
     bindS (exec_db (store_updateStrategy key (u\<lparr>su_constraints := constraints, su_variants := variants\<rparr>))) (\<lambda>strategy.
     thenS (case su_segments u of None \<Rightarrow> returnS () | Some ids \<Rightarrow> updateStrategySegments cfg (sr_id strategy) ids)
     (bindS (ask_db (\<lambda>db. public_of db strategy)) (\<lambda>data.
     thenS (store_event (StrategyUpdated env data preData) (Some project) (Some name) by (user_id_of user))
     (thenS (optionallyDisableFeature cfg name env project by user)
       (returnS data))))))))))))"

definition updateStrategy ::
  "feature_config \<Rightarrow> string \<Rightarrow> strategy_update \<Rightarrow> string \<Rightarrow> string \<Rightarrow> string \<Rightarrow> string \<Rightarrow> acting_user option \<Rightarrow> public_strategy feature_op" where
  "updateStrategy cfg key u project name env by user =
     thenS (stopWhenChangeRequestsEnabled project (Some env) user)
       (unprotectedUpdateStrategy cfg key u project name env by user)"

text \<open>
  The parameter is written into the object that was read, so the event's \<open>preData\<close> has the new value too.
\<close>

definition updateStrategyParameter ::
  "string \<Rightarrow> string \<Rightarrow> string \<Rightarrow> string \<Rightarrow> string \<Rightarrow> string \<Rightarrow> string \<Rightarrow> int \<Rightarrow> public_strategy feature_op" where
  "updateStrategyParameter key param value project name env by uid =
     bindS (try_db (strategies_get key)) (\<lambda>found.
     thenS (tryS (\<lambda>_. validateUpdatedProperties name project found))
     (let existing = found\<lparr>sr_parameters := (sr_parameters found)(param \<mapsto> value)\<rparr> in
      bindS (ask_db (\<lambda>db. public_of db existing)) (\<lambda>preData.
      bindS (exec_db (store_updateStrategy key \<lparr>su_name = None, su_title = sr_title existing,
          su_disabled = Some (sr_disabled existing), su_constraints = Some (sr_constraints existing),
          su_variants = Some (sr_variants existing), su_parameters = Some (sr_parameters existing), su_segments = None\<rparr>)) (\<lambda>strategy.
      bindS (ask_db (\<lambda>db. public_of db strategy)) (\<lambda>data.
      thenS (store_event (StrategyUpdated env data preData) (Some project) (Some name) by uid) (returnS data))))))"

definition unprotectedDeleteStrategy ::
  "string \<Rightarrow> string \<Rightarrow> string \<Rightarrow> string \<Rightarrow> string \<Rightarrow> acting_user option \<Rightarrow> unit feature_op" where
  "unprotectedDeleteStrategy key project name env by user =
     bindS (try_db (strategies_get key)) (\<lambda>existing.
     thenS (tryS (\<lambda>_. validateUpdatedProperties name project existing))
     (thenS (run_db (strategies_delete key))
     (bindS (ask_db (getStrategiesForFeatureEnv project name env)) (\<lambda>left.
     thenS (whenS (list_all sr_disabled left)
         (thenS (disable_environment project name env by user) (returnS ())))
     (thenS (store_event (StrategyRemoved env (featureStrategyToPublic existing [])) (Some project) (Some name) by (user_id_of user))
       (run_db (disableEnvironmentIfNoStrategies name env)))))))"

definition deleteStrategy ::
  "string \<Rightarrow> string \<Rightarrow> string \<Rightarrow> string \<Rightarrow> string \<Rightarrow> acting_user option \<Rightarrow> unit feature_op" where
  "deleteStrategy key project name env by user =
     thenS (stopWhenChangeRequestsEnabled project (Some env) user)
       (unprotectedDeleteStrategy key project name env by user)"

definition default_strategy_input :: "strategy_config \<Rightarrow> strategy_input" where
  "default_strategy_input c = strategy_config.extend c \<lparr>si_title = None, si_variants = [], si_sortOrder = None, si_segments = None\<rparr>"

text \<open>The strategy a feature gets when it is turned on without an active one.\<close>

definition strategy_to_add :: "string \<Rightarrow> string \<Rightarrow> string \<Rightarrow> feature_db \<Rightarrow> strategy_input" where
  "strategy_to_add project name env db = (case store_getDefaultStrategy project env db of
       Some d \<Rightarrow> getProjectDefaultStrategy d name
     | None \<Rightarrow> default_strategy_input (getDefaultStrategy name))"

text \<open>The strategies are read once: what is disabled is decided before any of them is activated.\<close>

definition prepare_strategies ::
  "feature_config \<Rightarrow> string \<Rightarrow> string \<Rightarrow> string \<Rightarrow> string \<Rightarrow> acting_user option \<Rightarrow> bool \<Rightarrow> unit feature_op" where
  "prepare_strategies cfg project name env by user activate =
     bindS (try_db (getStrategiesForEnvironment project name env)) (\<lambda>strategies.
     thenS (whenS (list_ex pb_disabled strategies \<and> activate)
         (thenS (allS (\<lambda>p. updateStrategy cfg (pb_id p) (no_update\<lparr>su_disabled := Some False\<rparr>) project name env by user) strategies)
           (returnS ())))
       (whenS (strategies = [] \<or> list_all pb_disabled strategies \<and> \<not> activate)
         (bindS (ask_db (strategy_to_add project name env)) (\<lambda>c.
          thenS (unprotectedCreateStrategy cfg c project name env by (user_id_of user)) (returnS ())))))"

definition unprotectedUpdateEnabled ::
  "feature_config \<Rightarrow> string \<Rightarrow> string \<Rightarrow> string \<Rightarrow> bool \<Rightarrow> string \<Rightarrow> acting_user option \<Rightarrow> bool \<Rightarrow> feature_toggle feature_op" where
  "unprotectedUpdateEnabled cfg project name env enabled by user activate =
     thenS (updateEnabled_checks project name env)
     (thenS (whenS enabled (prepare_strategies cfg project name env by user activate))
       (set_enabled project name env enabled by user))"

definition CREATE_FEATURE_STRATEGY :: string where
  "CREATE_FEATURE_STRATEGY = ''CREATE_FEATURE_STRATEGY''"

definition stopWhenCannotCreateStrategies :: "string \<Rightarrow> string \<Rightarrow> string \<Rightarrow> acting_user option \<Rightarrow> unit feature_op" where
  "stopWhenCannotCreateStrategies project env name user =
     bindS (ask_db (\<lambda>db. featureHasEnvironment env name db \<and> getStrategiesForFeatureEnv project name env db = [])) (\<lambda>none.
     whenS none
       (bindS (askS (may user CREATE_FEATURE_STRATEGY project (Some env))) (\<lambda>ok.
         guardS (\<not> ok) (Api (PermissionError [CREATE_FEATURE_STRATEGY] None)))))"

definition updateEnabled ::
  "feature_config \<Rightarrow> string \<Rightarrow> string \<Rightarrow> string \<Rightarrow> bool \<Rightarrow> string \<Rightarrow> acting_user option \<Rightarrow> bool \<Rightarrow> feature_toggle feature_op" where
  "updateEnabled cfg project name env enabled by user activate =
     thenS (stopWhenChangeRequestsEnabled project (Some env) user)
     (thenS (whenS enabled (stopWhenCannotCreateStrategies project env name user))
       (unprotectedUpdateEnabled cfg project name env enabled by user activate))"

definition bulkUpdateEnabled ::
  "feature_config \<Rightarrow> string \<Rightarrow> string list \<Rightarrow> string \<Rightarrow> bool \<Rightarrow> string \<Rightarrow> acting_user option \<Rightarrow> bool \<Rightarrow> unit feature_op" where
  "bulkUpdateEnabled cfg project names env enabled by user activate =
     thenS (allS (\<lambda>name. updateEnabled cfg project name env enabled by user activate) names) (returnS ())"

definition toggle :: "feature_config \<Rightarrow> string \<Rightarrow> string \<Rightarrow> string \<Rightarrow> string \<Rightarrow> feature_toggle feature_op" where
  "toggle cfg project name env by =
     thenS (try_db (features_get name))
     (bindS (try_db (isEnvironmentEnabled name env)) (\<lambda>on. updateEnabled cfg project name env (\<not> on) by None False))"

end
