(* ===== verification/FeatureLifecycle.thy ===== *)
theory FeatureLifecycle
  imports FeatureService
begin

text \<open>
  The second half of the feature service: features are created, cloned, updated, moved, archived, revived
  and deleted, and their variants are saved.
\<close>

section \<open>Creation\<close>

definition createFeatureToggle ::
  "feature_config \<Rightarrow> string \<Rightarrow> feature_dto \<Rightarrow> string \<Rightarrow> int \<Rightarrow> bool \<Rightarrow> feature_toggle feature_op" where
  "createFeatureToggle cfg project value by uid isValidated =
     thenS (try_db (validateName cfg (dto_name value)))
     (thenS (try_db (validateFeatureFlagNameAgainstPattern cfg (dto_name value) project))
     (bindS (ask_db (hasProject project)) (\<lambda>exists.
     thenS (try_db (\<lambda>db. throw_if (isFeatureLimitReached project db)
        (invalid ''You have reached the maximum number of feature toggles for this project.'')))
     (if \<not> exists
      then failS (Api (NotFoundError (Some (''Project with id '' @ project @ '' does not exist''))))
      else
        bindS (tryS (\<lambda>_. if isValidated then Inr value else featureMetadataSchema cfg value)) (\<lambda>validated.
        let data = (case dto_createdByUserId validated of None \<Rightarrow> validated\<lparr>dto_createdByUserId := Some uid\<rparr> | Some _ \<Rightarrow> validated) in
        bindS (exec_db (features_create cfg project data)) (\<lambda>created.
        thenS (stmt (connectFeatureToEnvironmentsForProject (dto_name data) project))
        (thenS (case dto_variants value of
            Some (v # vs) \<Rightarrow> bindS (ask_db (\<lambda>db. map en_environment (getEnvironmentsForFeature (dto_name data) db))) (\<lambda>envs.
              stmt (setVariantsToFeatureEnvironments cfg (dto_name data) envs (v # vs)))
          | _ \<Rightarrow> returnS ())
        (thenS (store_event (FeatureCreated created) (Some project) (Some (dto_name data)) by uid)
          (returnS created)))))))))"

text \<open>What a strategy of the original becomes: a group id is replaced by the name of the clone.\<close>

definition cloned_input :: "bool \<Rightarrow> string \<Rightarrow> public_strategy \<Rightarrow> strategy_input" where
  "cloned_input replaceGroupId newName p =
     \<lparr>sc_name = pb_name p, sc_constraints = pb_constraints p, sc_disabled = pb_disabled p,
      sc_parameters = Some (if replaceGroupId \<and> pb_parameters p ''groupId'' \<noteq> None
        then (pb_parameters p)(''groupId'' \<mapsto> newName) else pb_parameters p),
      si_title = pb_title p, si_variants = pb_variants p, si_sortOrder = Some (pb_sortOrder p),
      si_segments = Some (pb_segments p)\<rparr>"

definition clone_variants :: "feature_config \<Rightarrow> string \<Rightarrow> env_detail \<Rightarrow> unit feature_op" where
  "clone_variants cfg newName e = (case ed_name e of
       None \<Rightarrow> bindS (ask_db (\<lambda>db. fd_message db ''environment'')) (\<lambda>m.
         failS (DbError NOT_NULL_VIOLATION None None m))
     | Some env \<Rightarrow> stmt (setVariantsToFeatureEnvironments cfg newName [env] (ed_variants e)))"

definition cloneFeatureToggle ::
  "feature_config \<Rightarrow> string \<Rightarrow> string \<Rightarrow> string \<Rightarrow> string \<Rightarrow> int \<Rightarrow> bool \<Rightarrow> feature_toggle feature_op" where
  "cloneFeatureToggle cfg name project newName by uid replaceGroupId =
     bindS (ask_db (isChangeRequestsEnabledForProject project)) (\<lambda>cr.
     thenS (guardS cr (Api (ForbiddenError (''Cloning not allowed. Project '' @ project @ '' has change requests enabled.''))))
     (thenS (try_db (validateName cfg newName))
     (bindS (try_db (loadFeatureToggleWithEnvs cfg name False)) (\<lambda>original.
     bindS (createFeatureToggle cfg project ((dto_of (fw_toggle original))\<lparr>dto_name := newName, dto_createdAt := None\<rparr>) by uid False) (\<lambda>created.
     thenS (allS (\<lambda>task. task)
       (map (clone_variants cfg newName) (fw_environments original) @
        [thenS (createStrategy cfg (cloned_input replaceGroupId newName p) project newName (default [] (ed_name e)) by None) (returnS ()).
           e \<leftarrow> fw_environments original, p \<leftarrow> ed_strategies e] @
        [cloneDependencies name newName project by uid]))
      (returnS created))))))"


section \<open>Metadata\<close>

definition updateFeatureToggle ::
  "feature_config \<Rightarrow> string \<Rightarrow> feature_dto \<Rightarrow> string \<Rightarrow> string \<Rightarrow> int \<Rightarrow> feature_toggle feature_op" where
  "updateFeatureToggle cfg project updated by name uid =
     thenS (try_db (validateFeatureBelongsToProject name project))
     (bindS (tryS (\<lambda>_. featureMetadataSchema cfg updated)) (\<lambda>data.
      bindS (try_db (features_get name)) (\<lambda>preData.
      bindS (exec_db (features_update cfg project (data\<lparr>dto_name := name\<rparr>))) (\<lambda>feature.
      thenS (store_event (MetadataUpdated feature preData) (Some project) (Some name) by uid) (returnS feature)))))"

definition stale_event :: "bool \<Rightarrow> feature_event_kind" where
  "stale_event stale = (if stale then FeatureStaleOn else FeatureStaleOff)"

text \<open>\<open>paths\<close> are the paths of the patch's operations, \<open>patch\<close> what \<open>applyPatch\<close> makes of the feature.\<close>

definition patchFeature ::
  "feature_config \<Rightarrow> string \<Rightarrow> string \<Rightarrow> string \<Rightarrow> string list \<Rightarrow> (feature_toggle \<Rightarrow> exn + feature_dto) \<Rightarrow> int \<Rightarrow> feature_toggle feature_op" where
  "patchFeature cfg project name by paths patch uid =
     bindS (try_db (features_get name)) (\<lambda>feature.
     thenS (guardS (list_ex (\<lambda>p. str_includes p ''/variants'') paths)
       (Api (OperationDeniedError ''Changing variants is done via PATCH operation to /api/admin/projects/:project/features/:feature/variants'')))
     (bindS (tryS (\<lambda>_. patch feature)) (\<lambda>document.
      bindS (updateFeatureToggle cfg project document by name uid) (\<lambda>updated.
      thenS (whenS (Some (tf_stale feature) \<noteq> dto_stale document)
         (store_event (stale_event (dto_stale document = Some True)) (Some project) (Some name) by uid))
       (returnS updated)))))"

definition updateStale :: "feature_config \<Rightarrow> string \<Rightarrow> bool \<Rightarrow> string \<Rightarrow> int \<Rightarrow> feature_toggle feature_op" where
  "updateStale cfg name isStale by uid =
     bindS (try_db (features_get name)) (\<lambda>found.
     let feature = found\<lparr>tf_stale := isStale\<rparr> in
     thenS (exec_db (features_update cfg (tf_project feature) (dto_of feature)))
     (thenS (store_event (stale_event isStale) (Some (tf_project feature)) (Some name) by uid)
       (returnS feature)))"

definition setToggleStaleness :: "string list \<Rightarrow> bool \<Rightarrow> string \<Rightarrow> string \<Rightarrow> int \<Rightarrow> unit feature_op" where
  "setToggleStaleness names stale by project uid =
     thenS (try_db (validateFeaturesContext names project))
     (bindS (ask_db (\<lambda>db. map tf_name (filter (\<lambda>t. tf_stale t \<noteq> stale) (getAllByNames names db)))) (\<lambda>relevant.
      thenS (run_db (batchStale relevant stale))
       (eachS (\<lambda>n. store_event (stale_event stale) (Some project) (Some n) by uid) relevant)))"

definition updatePotentiallyStaleFeatures :: "feature_config \<Rightarrow> unit feature_op" where
  "updatePotentiallyStaleFeatures cfg =
     bindS (exec_db (\<lambda>db. Inr (store_updatePotentiallyStaleFeatures (fc_now cfg) db))) (\<lambda>changed.
       eachS (\<lambda>(name, _, project). store_event PotentiallyStaleOn (Some project) (Some name) ''unleash-system'' SYSTEM_USER_ID)
         (filter (\<lambda>(_, p, _). p) changed))"

definition changeProject :: "feature_config \<Rightarrow> string \<Rightarrow> string \<Rightarrow> string \<Rightarrow> int \<Rightarrow> unit feature_op" where
  "changeProject cfg name newProject by uid =
     bindS (ask_db (isChangeRequestsEnabledForProject newProject)) (\<lambda>cr.
     thenS (guardS cr (Api (ForbiddenError (''Changing project not allowed. Project '' @ newProject @ '' has change requests enabled.''))))
     (thenS (try_db (\<lambda>db. throw_if (haveDependencies [name] db)
        (Api (ForbiddenError ''Changing project not allowed. Feature has dependencies.''))))
     (bindS (try_db (features_get name)) (\<lambda>feature.
      thenS (exec_db (features_update cfg newProject (dto_of (feature\<lparr>tf_project := newProject\<rparr>))))
       (store_event (ProjectChanged (tf_project feature) newProject) (Some newProject) (Some name) by uid)))))"

definition updateFeatureStrategyProject :: "string \<Rightarrow> string \<Rightarrow> unit feature_op" where
  "updateFeatureStrategyProject name newProject = run_db (setProjectForStrategiesBelongingToFeature name newProject)"

definition deleteEnvironment :: "string \<Rightarrow> string \<Rightarrow> unit feature_op" where
  "deleteEnvironment project env =
     thenS (run_db (deleteConfigurationsForProjectAndEnvironment project env))
       (run_db (deleteEnvironmentForProject project env))"

definition removeAllStrategiesForEnv :: "string \<Rightarrow> string \<Rightarrow> unit feature_op" where
  "removeAllStrategiesForEnv name env = run_db (removeAllStrategiesForFeatureEnv name env)"


section \<open>Archive\<close>

definition unprotectedArchiveToggle :: "feature_config \<Rightarrow> string \<Rightarrow> string \<Rightarrow> int \<Rightarrow> string option \<Rightarrow> unit feature_op" where
  "unprotectedArchiveToggle cfg name by uid project =
     bindS (try_db (features_get name)) (\<lambda>feature.
     thenS (if truthy project
            then thenS (try_db (validateFeatureBelongsToProject name (the project))) (try_db (validateNoOrphanParents [name]))
            else returnS ())
     (thenS (try_db (validateNoChildren name))
     (thenS (exec_db (features_archive cfg name))
     (thenS (whenS (truthy project) (unprotectedDeleteFeaturesDependencies [name] (the project) by uid))
       (store_event FeatureArchived (Some (tf_project feature)) (Some name) by uid)))))"

definition archiveToggle :: "feature_config \<Rightarrow> string \<Rightarrow> acting_user \<Rightarrow> string option \<Rightarrow> unit feature_op" where
  "archiveToggle cfg name user project =
     thenS (if truthy project then stopWhenChangeRequestsEnabled (the project) None (Some user) else returnS ())
       (unprotectedArchiveToggle cfg name (username_of user) (ax_id user) project)"

definition validateArchiveToggles :: "string list \<Rightarrow> feature_db \<Rightarrow> bool \<times> string list" where
  "validateArchiveToggles names db = (haveDependencies names db, getOrphanParents names db)"

definition unprotectedArchiveToggles :: "feature_config \<Rightarrow> string list \<Rightarrow> string \<Rightarrow> string \<Rightarrow> int \<Rightarrow> unit feature_op" where
  "unprotectedArchiveToggles cfg names by project uid =
     thenS (try_db (validateFeaturesContext names project))
     (thenS (try_db (validateNoOrphanParents names))
     (bindS (ask_db (getAllByNames names)) (\<lambda>features.
      thenS (run_db (batchArchive cfg names))
     (thenS (unprotectedDeleteFeaturesDependencies names project by uid)
       (eachS (\<lambda>t. store_event FeatureArchived (Some (tf_project t)) (Some (tf_name t)) by uid) features)))))"

definition archiveToggles :: "feature_config \<Rightarrow> string list \<Rightarrow> acting_user \<Rightarrow> string \<Rightarrow> unit feature_op" where
  "archiveToggles cfg names user project =
     thenS (stopWhenChangeRequestsEnabled project None (Some user))
       (unprotectedArchiveToggles cfg names (username_of user) project (ax_id user))"

definition feature_tags :: "string \<Rightarrow> feature_db \<Rightarrow> (string \<times> string) list" where
  "feature_tags name db = map (\<lambda>t. (tg_value t, tg_type t)) (filter (\<lambda>t. tg_feature t = name) (fd_tags db))"

text \<open>The store deletes only archived features; the event is stored in any case.\<close>

definition deleteFeature :: "string \<Rightarrow> string \<Rightarrow> int \<Rightarrow> unit feature_op" where
  "deleteFeature name by uid =
     thenS (try_db (validateNoChildren name))
     (bindS (try_db (features_get name)) (\<lambda>feature.
      bindS (ask_db (feature_tags name)) (\<lambda>tags.
      thenS (stmt (features_delete name))
       (store_event (FeatureDeleted feature tags) (Some (tf_project feature)) (Some name) by uid))))"

definition archived_of :: "string list \<Rightarrow> feature_db \<Rightarrow> feature_toggle list" where
  "archived_of names db = filter (\<lambda>t. tf_archivedAt t \<noteq> None) (getAllByNames names db)"

definition deleteFeatures :: "string list \<Rightarrow> string \<Rightarrow> string \<Rightarrow> int \<Rightarrow> unit feature_op" where
  "deleteFeatures names project by uid =
     thenS (try_db (validateFeaturesContext names project))
     (thenS (try_db (validateNoOrphanParents names))
     (bindS (ask_db (archived_of names)) (\<lambda>eligible.
      bindS (ask_db (\<lambda>db. map (\<lambda>t. (t, feature_tags (tf_name t) db)) eligible)) (\<lambda>tagged.
      thenS (stmt (batchDelete (map tf_name eligible)))
       (eachS (\<lambda>(t, tags). store_event (FeatureDeleted t tags) (Some (tf_project t)) (Some (tf_name t)) by uid) tagged)))))"

definition reviveFeatures :: "string list \<Rightarrow> string \<Rightarrow> string \<Rightarrow> int \<Rightarrow> unit feature_op" where
  "reviveFeatures names project by uid =
     thenS (try_db (validateFeaturesContext names project))
     (bindS (ask_db (archived_of names)) (\<lambda>eligible.
      thenS (run_db (batchRevive (map tf_name eligible)))
     (thenS (run_db (disableAllEnvironmentsForFeatures (map tf_name eligible)))
       (eachS (\<lambda>t. store_event FeatureRevived (Some (tf_project t)) (Some (tf_name t)) by uid) eligible))))"

definition reviveFeature :: "string \<Rightarrow> string \<Rightarrow> int \<Rightarrow> unit feature_op" where
  "reviveFeature name by uid =
     bindS (exec_db (features_revive name)) (\<lambda>feature.
     thenS (run_db (disableAllEnvironmentsForFeatures [name]))
       (store_event FeatureRevived (Some (tf_project feature)) (Some name) by uid))"


section \<open>Variants\<close>

definition getVariantsForEnv :: "string \<Rightarrow> string \<Rightarrow> feature_db \<Rightarrow> exn + weighted_variant list" where
  "getVariantsForEnv name env db = bindR (envs_get name env db) (\<lambda>e. Inr (en_variants e))"

definition saveVariants ::
  "feature_config \<Rightarrow> string \<Rightarrow> string \<Rightarrow> weighted_variant list \<Rightarrow> string \<Rightarrow> int \<Rightarrow> (feature_toggle \<times> weighted_variant list) feature_op" where
  "saveVariants cfg name project newVariants by uid =
     bindS (tryS (\<lambda>_. checked_variants cfg newVariants)) (\<lambda>fixed.
     bindS (try_db (store_getVariants cfg name)) (\<lambda>old.
     bindS (\<lambda>s. case store_saveVariants project name fixed (fs_db s) of (r, db) \<Rightarrow> (r, s\<lparr>fs_db := db\<rparr>)) (\<lambda>feature.
     thenS (store_event (VariantsUpdated old fixed) (Some project) (Some name) by uid)
       (returnS (feature, fixed)))))"

definition saveVariantsOnEnv ::
  "feature_config \<Rightarrow> string \<Rightarrow> string \<Rightarrow> string \<Rightarrow> weighted_variant list \<Rightarrow> acting_user \<Rightarrow> weighted_variant list option
     \<Rightarrow> weighted_variant list feature_op" where
  "saveVariantsOnEnv cfg project name env newVariants user oldVariants =
     bindS (tryS (\<lambda>_. checked_variants cfg newVariants)) (\<lambda>fixed.
     bindS (case oldVariants of Some old \<Rightarrow> returnS old | None \<Rightarrow> try_db (getVariantsForEnv name env)) (\<lambda>old.
     thenS (store_event (EnvVariantsUpdated env old fixed) (Some project) (Some name) (username_of user) (ax_id user))
     (thenS (stmt (setVariantsToFeatureEnvironments cfg name [env] fixed))
       (returnS fixed))))"

definition crProtectedSaveVariantsOnEnv ::
  "feature_config \<Rightarrow> string \<Rightarrow> string \<Rightarrow> string \<Rightarrow> weighted_variant list \<Rightarrow> acting_user \<Rightarrow> weighted_variant list option
     \<Rightarrow> weighted_variant list feature_op" where
  "crProtectedSaveVariantsOnEnv cfg project name env newVariants user oldVariants =
     thenS (stopWhenChangeRequestsEnabled project (Some env) (Some user))
       (saveVariantsOnEnv cfg project name env newVariants user oldVariants)"

definition setVariantsOnEnvs ::
  "feature_config \<Rightarrow> string \<Rightarrow> string \<Rightarrow> string list \<Rightarrow> weighted_variant list \<Rightarrow> acting_user \<Rightarrow> weighted_variant list feature_op" where
  "setVariantsOnEnvs cfg project name envs newVariants user =
     bindS (tryS (\<lambda>_. checked_variants cfg newVariants)) (\<lambda>fixed.
     bindS (try_db (\<lambda>db. mapR (\<lambda>env. bindR (envs_get name env db) (\<lambda>e. Inr (env, en_variants e))) envs)) (\<lambda>old.
     thenS (eachS (\<lambda>env. store_event (EnvVariantsUpdated env (default [] (map_of old env)) fixed) (Some project) (Some name)
         (username_of user) (ax_id user)) envs)
     (thenS (stmt (setVariantsToFeatureEnvironments cfg name envs fixed))
       (returnS fixed))))"

text \<open>The user is not passed on to the check.\<close>

definition crProtectedSetVariantsOnEnvs ::
  "feature_config \<Rightarrow> string \<Rightarrow> string \<Rightarrow> string list \<Rightarrow> weighted_variant list \<Rightarrow> acting_user \<Rightarrow> weighted_variant list feature_op" where
  "crProtectedSetVariantsOnEnvs cfg project name envs newVariants user =
     thenS (eachS (\<lambda>env. stopWhenChangeRequestsEnabled project (Some env) None) envs)
       (setVariantsOnEnvs cfg project name envs newVariants user)"

definition updateVariantsOnEnv ::
  "feature_config \<Rightarrow> string \<Rightarrow> string \<Rightarrow> string \<Rightarrow> (weighted_variant list \<Rightarrow> exn + weighted_variant list) \<Rightarrow> acting_user
     \<Rightarrow> weighted_variant list feature_op" where
  "updateVariantsOnEnv cfg name project env patch user =
     bindS (try_db (getVariantsForEnv name env)) (\<lambda>old.
     bindS (tryS (\<lambda>_. patch old)) (\<lambda>document.
       crProtectedSaveVariantsOnEnv cfg project name env document user (Some old)))"

text \<open>The answer is the variants of the first environment.\<close>

definition updateVariants ::
  "feature_config \<Rightarrow> string \<Rightarrow> string \<Rightarrow> (weighted_variant list \<Rightarrow> exn + weighted_variant list) \<Rightarrow> acting_user
     \<Rightarrow> weighted_variant list feature_op" where
  "updateVariants cfg name project patch user =
     bindS (try_db (loadFeatureToggleWithEnvs cfg name False)) (\<lambda>feature.
     bindS (allS (\<lambda>e. updateVariantsOnEnv cfg name project (default [] (ed_name e)) patch user) (fw_environments feature)) (\<lambda>results.
       returnS (case results of [] \<Rightarrow> [] | vs # _ \<Rightarrow> vs)))"


section \<open>Queries\<close>

record environment_info =
  ei_name :: string
  ei_environment :: string
  ei_enabled :: bool
  ei_strategies :: "strategy_row list"
  ei_defaultStrategy :: "strategy_input option"

definition getEnvironmentInfo :: "string \<Rightarrow> string \<Rightarrow> string \<Rightarrow> feature_db \<Rightarrow> exn + environment_info" where
  "getEnvironmentInfo project env name db =
     bindR (envs_get name env db) (\<lambda>e. Inr \<lparr>ei_name = name, ei_environment = env, ei_enabled = en_enabled e,
       ei_strategies = getStrategiesForFeatureEnv project name env db,
       ei_defaultStrategy = store_getDefaultStrategy project env db\<rparr>)"

definition getFeature ::
  "feature_config \<Rightarrow> string \<Rightarrow> bool \<Rightarrow> string option \<Rightarrow> feature_db \<Rightarrow> exn + (feature_with_envs \<times> dependency_row list \<times> string list)" where
  "getFeature cfg name archived project db =
     bindR (if truthy project then validateFeatureBelongsToProject name (the project) db else Inr ()) (\<lambda>_.
     bindR (loadFeatureToggleWithEnvs cfg name archived db) (\<lambda>f. Inr (f, getParents name db, getChildren [name] db)))"

definition getFeatureToggleLegacy :: "feature_config \<Rightarrow> string \<Rightarrow> feature_db \<Rightarrow> exn + (feature_toggle \<times> bool \<times> public_strategy list)" where
  "getFeatureToggleLegacy cfg name db =
     bindR (loadFeatureToggleWithEnvs cfg name False db) (\<lambda>f.
       Inr (case find (\<lambda>e. ed_name e = Some ''default'') (fw_environments f) of
              None \<Rightarrow> (fw_toggle f, False, [])
            | Some e \<Rightarrow> (fw_toggle f, ed_enabled e, ed_strategies e)))"

end
