(* ===== verification/FeatureFacts.thy ===== *)
theory FeatureFacts
  imports FeatureLifecycle "HOL-Library.Multiset"
begin

text \<open>
  Facts of the feature service: the weights of variants, the interface of the dependency store, and the
  invariant of the tables with its preservation by every operation.
\<close>

section \<open>Weights of variants\<close>

definition variants_ok :: "weighted_variant list \<Rightarrow> bool" where
  "variants_ok vs = (vs = [] \<or> (\<forall>v\<in>set vs. 0 \<le> vd_weight v) \<and> sum_list (map vd_weight vs) = 1000)"

lemma distribute_length [simp]: "length (distribute avg r vs) = length vs"
  by (induction avg r vs rule: distribute.induct) simp_all

lemma distribute_sum:
  "sum_list (map vd_weight (distribute avg r vs)) = avg * int (length vs) + int (min r (length vs))"
proof (induction avg r vs rule: distribute.induct)
  case (2 avg r v vs)
  then show ?case by (cases r) (simp_all add: algebra_simps)
qed simp

lemma distribute_weights:
  "v \<in> set (distribute avg r vs) \<Longrightarrow> vd_weight v = avg \<or> vd_weight v = avg + 1"
  by (induction avg r vs rule: distribute.induct) (auto split: if_splits)

lemma distribute_keeps:
  "map (\<lambda>v. v\<lparr>vd_weight := 0\<rparr>) (distribute avg r vs) = map (\<lambda>v. v\<lparr>vd_weight := 0\<rparr>) vs"
  by (induction avg r vs rule: distribute.induct) simp_all

lemma distribute_types: "v \<in> set (distribute avg r vs) \<Longrightarrow> \<exists>w\<in>set vs. wv_weightType v = wv_weightType w"
  by (induction avg r vs rule: distribute.induct) auto

lemma distribute_mset:
  "image_mset (\<lambda>v. v\<lparr>vd_weight := 0\<rparr>) (mset (distribute avg r vs)) = image_mset (\<lambda>v. v\<lparr>vd_weight := 0\<rparr>) (mset vs)"
  by (metis distribute_keeps mset_map)

lemma sort_variants_mset [simp]: "mset (sort_variants cfg vs) = mset vs" "set (sort_variants cfg vs) = set vs"
  by (simp_all add: sort_variants_def)

lemma sum_sort_variants [simp]:
  "sum_list (map vd_weight (sort_variants cfg vs)) = sum_list (map vd_weight vs)"
  by (metis sort_variants_mset(1) mset_map sum_mset_sum_list)

text \<open>What \<open>fixVariantWeights\<close> returns where it does not throw.\<close>

lemma fixVariantWeights_cases:
  assumes "fixVariantWeights cfg vs = Inr ws"
  obtains "vs = []" "ws = []"
  | variable fixed n avg r where
    "variable = filter (\<lambda>v. wv_weightType v = Some ''variable'') vs"
    "fixed = filter (\<lambda>v. wv_weightType v = Some ''fix'') vs"
    "variable \<noteq> []" "sum_list (map vd_weight fixed) \<le> 1000"
    "n = int (length variable)" "avg = (1000 - sum_list (map vd_weight fixed)) div n"
    "r = (1000 - sum_list (map vd_weight fixed)) mod n"
    "ws = sort_variants cfg (distribute avg (nat r) variable @ fixed)"
  using assms by (auto simp: fixVariantWeights_def Let_def sort_variants_def split: if_splits)

lemma distribute_total:
  assumes "variable \<noteq> []" "n = int (length variable)"
  shows "sum_list (map vd_weight (distribute (x div n) (nat (x mod n)) variable)) = x"
proof -
  have n: "0 < n" using assms by simp
  then have "nat (x mod n) < length variable"
    using assms(2) by (simp add: nat_less_iff)
  then have "sum_list (map vd_weight (distribute (x div n) (nat (x mod n)) variable)) = x div n * n + x mod n"
    using n by (simp add: distribute_sum min_def assms(2))
  then show ?thesis by simp
qed

lemma fixVariantWeights_total:
  assumes "fixVariantWeights cfg vs = Inr ws" "vs \<noteq> []"
  shows "sum_list (map vd_weight ws) = 1000"
  using assms(1) by (cases rule: fixVariantWeights_cases) (use assms(2) in \<open>auto simp: distribute_total\<close>)

lemma fixVariantWeights_nonneg:
  assumes "fixVariantWeights cfg vs = Inr ws" "\<forall>v\<in>set vs. 0 \<le> vd_weight v" "w \<in> set ws"
  shows "0 \<le> vd_weight w"
  using assms(1)
proof (cases rule: fixVariantWeights_cases)
  case 1
  then show ?thesis using assms(3) by simp
next
  case (2 variable fixed n avg r)
  then have "0 \<le> avg" by (simp add: pos_imp_zdiv_nonneg_iff)
  moreover have "w \<in> set (distribute avg (nat r) variable) \<or> w \<in> set fixed"
    using 2 assms(3) by simp
  ultimately show ?thesis
    using assms(2) 2(2) distribute_weights by fastforce
qed

lemma variant_errors_weight: "variant_errors cfg (i, v) = [] \<Longrightarrow> 0 \<le> vd_weight v \<and> vd_weight v \<le> 1000"
  by (auto simp: variant_errors_def Let_def split: if_splits)

lemma variantsArraySchema_weight:
  assumes "variantsArraySchema cfg vs = Inr u" "v \<in> set vs"
  shows "0 \<le> vd_weight v" "vd_weight v \<le> 1000"
proof -
  have none: "\<forall>iv\<in>set (List.enumerate 0 vs). variant_errors cfg iv = []"
    using assms(1) by (simp add: variantsArraySchema_def Let_def joi_first_def joi_error_def split: if_splits)
  obtain i where "(i, v) \<in> set (List.enumerate 0 vs)"
    using assms(2) by (metis enumerate_eq_zip in_set_impl_in_set_zip2 length_upt add_diff_cancel_left')
  with none show "0 \<le> vd_weight v" "vd_weight v \<le> 1000"
    using variant_errors_weight by blast+
qed

lemma checked_variants_ok:
  assumes "checked_variants cfg vs = Inr ws"
  shows "variants_ok ws"
proof (cases "vs = []")
  case True
  with assms show ?thesis
    by (auto simp: checked_variants_def bindR_Inr_iff variants_ok_def fixVariantWeights_def Let_def sort_variants_def)
next
  case False
  from assms obtain u where u: "variantsArraySchema cfg vs = Inr u" and f: "fixVariantWeights cfg vs = Inr ws"
    by (auto simp: checked_variants_def bindR_Inr_iff)
  have "\<forall>v\<in>set vs. 0 \<le> vd_weight v"
    using variantsArraySchema_weight(1) [OF u] by blast
  then show ?thesis
    using fixVariantWeights_total [OF f False] fixVariantWeights_nonneg [OF f] by (simp add: variants_ok_def)
qed


section \<open>The interface of the dependency store\<close>

text \<open>
  What the dependency service relies on: adding a dependency replaces that of the child and adds nothing
  else, and removing some adds none. Under these laws, the checks of the service keep the dependencies
  one level deep.
\<close>

locale dependency_store =
  fixes edges :: "'db \<Rightarrow> 'row set"
    and parent :: "'row \<Rightarrow> 'n"
    and child :: "'row \<Rightarrow> 'n"
    and link :: "'row \<Rightarrow> 'db \<Rightarrow> 'db"
    and cut :: "('row \<Rightarrow> bool) \<Rightarrow> 'db \<Rightarrow> 'db"
  assumes edges_link: "edges (link d db) \<subseteq> insert d {e \<in> edges db. child e \<noteq> child d}"
    and edges_cut: "edges (cut p db) = {e \<in> edges db. \<not> p e}"
begin

definition one_level :: "'db \<Rightarrow> bool" where
  "one_level db = (\<forall>d\<in>edges db. \<forall>e\<in>edges db. parent d \<noteq> child e \<and> (child d = child e \<longrightarrow> d = e))"

lemma one_level_cut: "one_level db \<Longrightarrow> one_level (cut p db)"
  by (auto simp: one_level_def edges_cut)

lemma one_level_link:
  assumes "one_level db" "parent d \<noteq> child d"
    and no_children: "\<forall>e\<in>edges db. parent e \<noteq> child d"
    and no_parents: "\<forall>e\<in>edges db. child e \<noteq> parent d"
  shows "one_level (link d db)"
  unfolding one_level_def
proof (intro ballI)
  fix a b assume "a \<in> edges (link d db)" "b \<in> edges (link d db)"
  then have "a = d \<or> a \<in> edges db \<and> child a \<noteq> child d" "b = d \<or> b \<in> edges db \<and> child b \<noteq> child d"
    using edges_link [of d db] by auto
  with assms show "parent a \<noteq> child b \<and> (child a = child b \<longrightarrow> a = b)"
    unfolding one_level_def by metis
qed

text \<open>The dependencies as a relation have no chain of two, and so no cycle.\<close>

definition depends :: "'db \<Rightarrow> ('n \<times> 'n) set" where
  "depends db = (\<lambda>d. (child d, parent d)) ` edges db"

lemma no_chain: "one_level db \<Longrightarrow> (a, b) \<in> depends db \<Longrightarrow> (b, c) \<notin> depends db"
  by (auto simp: one_level_def depends_def)

lemma acyclic_depends: "one_level db \<Longrightarrow> acyclic (depends db)"
proof -
  assume *: "one_level db"
  have "(depends db)\<^sup>+ = depends db"
    by (rule trancl_id, rule transI) (use no_chain [OF *] in blast)
  then show "acyclic (depends db)"
    using no_chain [OF *] unfolding acyclic_def by metis
qed

lemma one_parent: "one_level db \<Longrightarrow> (a, b) \<in> depends db \<Longrightarrow> (a, c) \<in> depends db \<Longrightarrow> b = c"
  by (auto simp: one_level_def depends_def)

end

definition dependency_edges :: "feature_db \<Rightarrow> dependency_row set" where
  "dependency_edges db = set (fd_dependencies db)"

definition dependency_cut :: "(dependency_row \<Rightarrow> bool) \<Rightarrow> feature_db \<Rightarrow> feature_db" where
  "dependency_cut p db = db\<lparr>fd_dependencies := filter (\<lambda>d. \<not> p d) (fd_dependencies db)\<rparr>"

interpretation deps: dependency_store dependency_edges dr_parent dr_child "\<lambda>d db. snd (dependency_upsert d db)" dependency_cut
  by unfold_locales (auto simp: dependency_edges_def dependency_cut_def dependency_upsert_def Let_def)

lemma dependency_deletions:
  "dependency_delete parent child db = dependency_cut (\<lambda>x. dr_parent x = parent \<and> dr_child x = child) db"
  "dependency_deleteAll names db = dependency_cut (\<lambda>x. List.member names (dr_child x)) db"
  by (simp_all add: dependency_delete_def dependency_deleteAll_def dependency_cut_def)

end
