(* ===== verification/FeatureInvariants.thy ===== *)
theory FeatureInvariants
  imports FeatureFacts
begin

text \<open>
  The invariant of the tables of features, and its preservation by every statement of the stores and by
  every operation of the services.
\<close>

section \<open>The invariant\<close>

definition feature_keys :: "feature_db \<Rightarrow> (string \<times> string) list" where
  "feature_keys db = map (\<lambda>r. (ft_name r, ft_project r)) (fd_features db)"

text \<open>The projects, the environments and the links between them; a link is to ones that exist.\<close>

definition link_key :: "project_env \<Rightarrow> string \<times> string" where
  "link_key l = (pv_project l, pv_environment l)"

definition catalog_ok :: "feature_db \<Rightarrow> bool" where
  "catalog_ok db = (distinct (environment_names db) \<and> distinct (map pj_id (fd_projects db)) \<and>
     distinct (map link_key (fd_project_envs db)) \<and>
     (\<forall>l\<in>set (fd_project_envs db). pv_project l \<in> pj_id ` set (fd_projects db) \<and>
        pv_environment l \<in> set (environment_names db)))"

definition envs_ok :: "feature_db \<Rightarrow> bool" where
  "envs_ok db = (distinct (map en_key (fd_envs db)) \<and>
     (\<forall>e\<in>set (fd_envs db). en_feature e \<in> fst ` set (feature_keys db) \<and> en_environment e \<in> set (environment_names db)))"

definition strategies_ok :: "feature_db \<Rightarrow> bool" where
  "strategies_ok db = (\<forall>s\<in>set (fd_strategies db).
     sr_feature s \<in> fst ` set (feature_keys db) \<and> sr_environment s \<in> set (environment_names db) \<and>
     variants_ok (sr_variants s))"

definition links_ok :: "feature_db \<Rightarrow> bool" where
  "links_ok db = (\<forall>l\<in>set (fd_strategy_segments db).
     fst l \<in> sr_id ` set (fd_strategies db) \<and> snd l \<in> sw_id ` set (fd_segments db))"

text \<open>Dependencies are one level deep, and between features of one project.\<close>

definition dependencies_ok :: "feature_db \<Rightarrow> bool" where
  "dependencies_ok db = (deps.one_level db \<and>
     (\<forall>d\<in>set (fd_dependencies db). \<exists>p. (dr_parent d, p) \<in> set (feature_keys db) \<and> (dr_child d, p) \<in> set (feature_keys db)))"

definition feature_db_ok :: "feature_db \<Rightarrow> bool" where
  "feature_db_ok db = (distinct (feature_names db) \<and> catalog_ok db \<and> envs_ok db \<and> strategies_ok db \<and>
     links_ok db \<and> dependencies_ok db)"

lemma feature_names_keys: "feature_names db = map fst (feature_keys db)"
  by (simp add: feature_names_def feature_keys_def)

lemmas ok_defs = feature_db_ok_def envs_ok_def strategies_ok_def links_ok_def dependencies_ok_def
  deps.one_level_def dependency_edges_def feature_names_keys

definition catalog :: "feature_db \<Rightarrow> environment_row list \<times> project_row list \<times> project_env list" where
  "catalog db = (fd_environments db, fd_projects db, fd_project_envs db)"

lemma catalog_eqD:
  "catalog db' = catalog db \<Longrightarrow> catalog_ok db' = catalog_ok db \<and> environment_names db' = environment_names db"
  by (simp add: catalog_def catalog_ok_def environment_names_def)

lemma catalog_updates [simp]:
  "catalog (db\<lparr>fd_features := f\<rparr>) = catalog db" "catalog (db\<lparr>fd_envs := a\<rparr>) = catalog db"
  "catalog (db\<lparr>fd_strategies := b\<rparr>) = catalog db" "catalog (db\<lparr>fd_segments := c\<rparr>) = catalog db"
  "catalog (db\<lparr>fd_strategy_segments := d\<rparr>) = catalog db" "catalog (db\<lparr>fd_dependencies := e\<rparr>) = catalog db"
  "catalog (db\<lparr>fd_next_segment := n\<rparr>) = catalog db" "catalog (db\<lparr>fd_tags := t\<rparr>) = catalog db"
  "catalog (db\<lparr>fd_change_requests := r\<rparr>) = catalog db"
  by (simp_all add: catalog_def)

lemmas catalog_ok_updates [simp] = catalog_updates [THEN catalog_eqD, THEN conjunct1]

lemma environment_names_updates [simp]:
  "environment_names (db\<lparr>fd_project_envs := l\<rparr>) = environment_names db"
  "environment_names (db\<lparr>fd_projects := p\<rparr>) = environment_names db"
  by (simp_all add: environment_names_def)

lemmas environment_names_kept [simp] = catalog_updates [THEN catalog_eqD, THEN conjunct2]

text \<open>An update that leaves these tables alone keeps the invariant.\<close>

lemma feature_db_ok_cong:
  assumes "feature_keys db' = feature_keys db" "fd_envs db' = fd_envs db" "fd_strategies db' = fd_strategies db"
    "fd_strategy_segments db' = fd_strategy_segments db" "fd_segments db' = fd_segments db"
    "fd_dependencies db' = fd_dependencies db" "catalog db' = catalog db"
  shows "feature_db_ok db' = feature_db_ok db"
  using assms catalog_eqD [OF assms(7)] by (simp add: ok_defs)

lemma feature_db_ok_strategies:
  assumes "feature_db_ok db" "strategies_ok db'" "links_ok db'"
    "feature_keys db' = feature_keys db" "fd_envs db' = fd_envs db" "fd_dependencies db' = fd_dependencies db"
    "catalog db' = catalog db"
  shows "feature_db_ok db'"
  using assms catalog_eqD [OF assms(7)] unfolding feature_db_ok_def envs_ok_def dependencies_ok_def deps.one_level_def
    dependency_edges_def feature_names_keys by simp

lemma feature_keys_updates [simp]:
  "feature_keys (db\<lparr>fd_envs := a\<rparr>) = feature_keys db" "feature_keys (db\<lparr>fd_strategies := b\<rparr>) = feature_keys db"
  "feature_keys (db\<lparr>fd_segments := c\<rparr>) = feature_keys db" "feature_keys (db\<lparr>fd_strategy_segments := d\<rparr>) = feature_keys db"
  "feature_keys (db\<lparr>fd_dependencies := e\<rparr>) = feature_keys db" "feature_keys (db\<lparr>fd_project_envs := f\<rparr>) = feature_keys db"
  "feature_keys (db\<lparr>fd_next_segment := n\<rparr>) = feature_keys db" "feature_keys (db\<lparr>fd_tags := t\<rparr>) = feature_keys db"
  by (simp_all add: feature_keys_def)

lemma feature_keys_names: "fst ` set (feature_keys db) = set (feature_names db)"
  by (simp add: feature_names_keys)

lemma key_unique:
  "feature_db_ok db \<Longrightarrow> (n, p) \<in> set (feature_keys db) \<Longrightarrow> (n, q) \<in> set (feature_keys db) \<Longrightarrow> p = q"
  unfolding feature_db_ok_def feature_names_keys using eq_key_imp_eq_value by fastforce

lemma feature_row_key: "feature_row_of n db = Some r \<Longrightarrow> (n, ft_project r) \<in> set (feature_keys db)"
  by (auto simp: feature_row_of_def feature_keys_def dest!: find_Some_in)

lemma getProjectId_key: "store_getProjectId n db = Some p \<Longrightarrow> (n, p) \<in> set (feature_keys db)"
  by (auto simp: store_getProjectId_def dest: feature_row_key)


section \<open>Statements\<close>

text \<open>Updates of rows that keep what the invariant speaks of.\<close>

lemma map_features_ok:
  assumes "\<And>r. ft_name (f r) = ft_name r" "\<And>r. ft_project (f r) = ft_project r" "feature_db_ok db"
  shows "feature_db_ok (map_features p f db)"
proof -
  have "feature_keys (map_features p f db) = feature_keys db"
    using assms(1,2) by (auto simp: feature_keys_def map_features_def)
  then show ?thesis
    using assms(3) by (subst feature_db_ok_cong) (simp_all add: map_features_def)
qed

lemma map_envs_ok:
  assumes "\<And>e. en_key (f e) = en_key e" "feature_db_ok db"
  shows "feature_db_ok (map_envs p f db)"
proof -
  have *: "map en_key (map (\<lambda>e. if p e then f e else e) es) = map en_key es" for es
    using assms(1) by simp
  have "en_feature (f e) = en_feature e" "en_environment (f e) = en_environment e" for e
    using assms(1) [of e] by (simp_all add: en_key_def)
  then show ?thesis
    using assms(2) unfolding ok_defs map_envs_def by (simp add: * del: map_map) auto
qed

lemma filter_envs_ok: "feature_db_ok db \<Longrightarrow> feature_db_ok (db\<lparr>fd_envs := filter p (fd_envs db)\<rparr>)"
  unfolding ok_defs by (simp add: distinct_map_filter)

lemma map_strategies_ok:
  assumes "\<And>s. sr_id (f s) = sr_id s" "\<And>s. sr_feature (f s) = sr_feature s \<and> sr_environment (f s) = sr_environment s"
    "\<And>s. variants_ok (sr_variants s) \<Longrightarrow> variants_ok (sr_variants (f s))" "feature_db_ok db"
  shows "feature_db_ok (map_strategies p f db)"
proof (rule feature_db_ok_strategies [OF assms(4)])
  show "strategies_ok (map_strategies p f db)"
    using assms by (auto simp: feature_db_ok_def strategies_ok_def map_strategies_def)
  have ids: "sr_id ` (\<lambda>s. if p s then f s else s) ` S = sr_id ` S" for S
    unfolding image_image using assms(1) by (intro image_cong) auto
  have "links_ok db" using assms(4) by (simp add: feature_db_ok_def)
  then show "links_ok (map_strategies p f db)"
    unfolding links_ok_def map_strategies_def by (simp add: ids del: if_image_distrib)
qed (simp_all add: map_strategies_def)

lemma remove_strategies_ok:
  assumes "feature_db_ok db"
  shows "feature_db_ok (remove_strategies p db)"
proof (rule feature_db_ok_strategies [OF assms])
  show "strategies_ok (remove_strategies p db)"
    using assms by (simp add: feature_db_ok_def strategies_ok_def remove_strategies_def Let_def)
  show "links_ok (remove_strategies p db)"
    unfolding links_ok_def
  proof
    fix l assume "l \<in> set (fd_strategy_segments (remove_strategies p db))"
    then have m: "l \<in> set (fd_strategy_segments db)" and gone: "fst l \<notin> set (map sr_id (filter p (fd_strategies db)))"
      by (simp_all add: remove_strategies_def Let_def)
    have keep: "\<forall>s\<in>set (fd_strategies db). p s \<longrightarrow> sr_id s \<noteq> fst l"
      using gone by (auto simp: image_iff)
    from m assms obtain s where s: "s \<in> set (fd_strategies db)" "sr_id s = fst l" and g: "snd l \<in> sw_id ` set (fd_segments db)"
      unfolding feature_db_ok_def links_ok_def by force
    with keep have "s \<in> set (fd_strategies (remove_strategies p db))"
      by (auto simp: remove_strategies_def Let_def)
    with s(2) have "fst l \<in> sr_id ` set (fd_strategies (remove_strategies p db))" by (metis image_eqI)
    with g show "fst l \<in> sr_id ` set (fd_strategies (remove_strategies p db)) \<and>
        snd l \<in> sw_id ` set (fd_segments (remove_strategies p db))"
      by (simp add: remove_strategies_def Let_def)
  qed
qed (simp_all add: remove_strategies_def Let_def)

lemma en_upsert_ok:
  assumes "en_upsert merge db e = Inr db'" "\<And>x. en_key (merge x) = en_key x" "feature_db_ok db"
  shows "feature_db_ok db'"
proof (cases "list_ex (is_env (en_feature e) (en_environment e)) (fd_envs db)")
  case True
  with assms map_envs_ok show ?thesis by (auto simp: en_upsert_def)
next
  case False
  then have new: "en_key e \<notin> en_key ` set (fd_envs db)"
    by (auto simp: list_ex_iff is_env_def en_key_def)
  from False assms(1) have db': "db' = db\<lparr>fd_envs := fd_envs db @ [e]\<rparr>" and f: "en_feature e \<in> set (feature_names db)" "en_environment e \<in> set (environment_names db)"
    by (auto simp: en_upsert_def bindR_Inr_iff en_fk_check_def split: if_splits)
  show ?thesis
    using assms(3) new f unfolding db' ok_defs by (auto simp: image_iff)
qed

lemma en_upsert_fold_ok:
  assumes "foldR (\<lambda>db x. en_upsert (merge x) db (row x)) db xs = Inr db'" "\<And>x e. en_key (merge x e) = en_key e"
    "feature_db_ok db"
  shows "feature_db_ok db'"
  using foldR_invariant [where I = feature_db_ok, OF _ assms(1,3)] en_upsert_ok assms(2) by blast

lemma en_upsert_all_ok:
  assumes "en_upsert_all merge rows db = Inr db'" "\<And>x e. en_key (merge x e) = en_key e" "feature_db_ok db"
  shows "feature_db_ok db'"
  using assms en_upsert_fold_ok [where row = "\<lambda>x. x"] by (auto simp: en_upsert_all_def split: if_splits)

text \<open>The deletion of features takes away what refers to them.\<close>

lemma delete_row_ok:
  assumes "delete_row db n = Inr db'" "feature_db_ok db"
  shows "feature_db_ok db'"
proof -
  let ?db1 = "remove_strategies (\<lambda>s. sr_feature s = n) (db\<lparr>fd_envs := filter (\<lambda>e. en_feature e \<noteq> n) (fd_envs db)\<rparr>)"
  have db': "db' = ?db1\<lparr>fd_features := filter (\<lambda>r. ft_name r \<noteq> n) (fd_features db),
      fd_dependencies := filter (\<lambda>d. dr_child d \<noteq> n) (fd_dependencies db), fd_tags := filter (\<lambda>t. tg_feature t \<noteq> n) (fd_tags db)\<rparr>"
    and top: "\<forall>d\<in>set (fd_dependencies db). dr_parent d \<noteq> n"
    using assms(1) by (auto simp: delete_row_def remove_strategies_def Let_def split: if_splits)
  have keys: "feature_keys db' = filter (\<lambda>k. fst k \<noteq> n) (feature_keys db)"
    unfolding db' feature_keys_def by (simp add: filter_map o_def remove_strategies_def Let_def)
  have ok1: "feature_db_ok ?db1"
    using assms(2) filter_envs_ok remove_strategies_ok by blast
  have parts: "envs_ok ?db1" "strategies_ok ?db1" "links_ok ?db1"
    using ok1 by (simp_all add: feature_db_ok_def)
  have "distinct (feature_names db')"
    using assms(2) unfolding feature_db_ok_def feature_names_keys keys by (simp add: distinct_map_filter)
  moreover have "envs_ok db'"
    using parts(1) unfolding envs_ok_def keys by (auto simp: db' remove_strategies_def Let_def)
  moreover have "strategies_ok db'"
    using parts(2) unfolding strategies_ok_def keys by (auto simp: db' remove_strategies_def Let_def)
  moreover have "links_ok db'"
    using parts(3) unfolding links_ok_def by (simp add: db')
  moreover have "dependencies_ok db'"
  proof -
    have "deps.one_level db'"
      using assms(2) by (auto simp: feature_db_ok_def dependencies_ok_def deps.one_level_def dependency_edges_def db')
    moreover have "\<exists>p. (dr_parent d, p) \<in> set (feature_keys db') \<and> (dr_child d, p) \<in> set (feature_keys db')"
      if "d \<in> set (fd_dependencies db')" for d
      using that top assms(2) unfolding feature_db_ok_def dependencies_ok_def keys by (auto simp: db')
    ultimately show ?thesis by (simp add: dependencies_ok_def)
  qed
  moreover have "catalog_ok db'"
    using ok1 by (simp add: db' feature_db_ok_def)
  ultimately show ?thesis by (simp add: feature_db_ok_def)
qed

lemma batchDelete_ok: "batchDelete names db = Inr db' \<Longrightarrow> feature_db_ok db \<Longrightarrow> feature_db_ok db'"
  unfolding batchDelete_def by (rule foldR_invariant [where I = feature_db_ok]) (auto intro: delete_row_ok)

lemma features_create_ok:
  assumes "features_create cfg project data db = Inr (t, db')" "feature_db_ok db"
  shows "feature_db_ok db'"
proof -
  let ?row = "insertToRow cfg project data"
  have db': "db' = db\<lparr>fd_features := fd_features db @ [?row]\<rparr>" and new: "ft_name ?row \<notin> set (feature_names db)"
    using assms(1) by (auto simp: features_create_def Let_def split: if_splits)
  have keys: "feature_keys db' = feature_keys db @ [(ft_name ?row, project)]"
    by (simp add: db' feature_keys_def insertToRow_def)
  show ?thesis
    using assms(2) new unfolding ok_defs keys by (auto simp: db')
qed

text \<open>A feature may get another project only where it has no dependencies.\<close>

lemma update_project_ok:
  assumes "\<And>r. ft_name (f r) = ft_name r" "\<And>r. ft_project (f r) = project" "feature_db_ok db"
    "(n, project) \<in> set (feature_keys db) \<or> \<not> haveDependencies [n] db"
  shows "feature_db_ok (map_features (\<lambda>r. ft_name r = n) f db)"
proof -
  let ?db = "map_features (\<lambda>r. ft_name r = n) f db"
  have keys: "feature_keys ?db = map (\<lambda>(m, p). (m, if m = n then project else p)) (feature_keys db)"
    using assms(1,2) by (simp add: feature_keys_def map_features_def)
  have names: "map fst (feature_keys ?db) = map fst (feature_keys db)"
    by (simp add: keys case_prod_unfold comp_def)
  then have images: "fst ` set (feature_keys ?db) = fst ` set (feature_keys db)"
    by (metis list.set_map)
  have "\<exists>p. (dr_parent d, p) \<in> set (feature_keys ?db) \<and> (dr_child d, p) \<in> set (feature_keys ?db)"
    if d: "d \<in> set (fd_dependencies db)" for d
  proof -
    obtain p where p: "(dr_parent d, p) \<in> set (feature_keys db)" "(dr_child d, p) \<in> set (feature_keys db)"
      using assms(3) d unfolding feature_db_ok_def dependencies_ok_def by blast
    have same: "(m, p) \<in> set (feature_keys ?db)" if "(m, p) \<in> set (feature_keys db)" "m = n \<Longrightarrow> p = project" for m
      unfolding keys using that by force
    have "m = n \<Longrightarrow> p = project" if "m = dr_parent d \<or> m = dr_child d" for m
      using assms(4) d p that key_unique [OF assms(3)] by (auto simp: haveDependencies_def list_ex_iff)
    then show ?thesis using same p by blast
  qed
  moreover have "fd_envs ?db = fd_envs db" "fd_strategies ?db = fd_strategies db" "fd_segments ?db = fd_segments db"
    "fd_strategy_segments ?db = fd_strategy_segments db" "fd_dependencies ?db = fd_dependencies db"
    "catalog_ok ?db = catalog_ok db" "environment_names ?db = environment_names db"
    by (simp_all add: map_features_def)
  ultimately show ?thesis
    using assms(3) unfolding ok_defs images names by simp
qed

text \<open>Segments and their links.\<close>

lemma segments_create_ok: "segments_create cfg i user db = Inr (r, db') \<Longrightarrow> feature_db_ok db \<Longrightarrow> feature_db_ok db'"
  by (auto simp: segments_create_def Let_def bindR_Inr_iff links_ok_def strategies_ok_def intro!: feature_db_ok_strategies [of db])
    (auto simp: feature_db_ok_def strategies_ok_def links_ok_def)

lemma segments_update_ok:
  assumes "segments_update sid i db = Inr (r, db')" "feature_db_ok db"
  shows "feature_db_ok db'"
proof -
  obtain f where db': "db' = db\<lparr>fd_segments := map (\<lambda>r. if sw_id r = sid then f r else r) (fd_segments db)\<rparr>"
    and f: "\<And>r. sw_id (f r) = sw_id r"
    using assms(1) by (fastforce simp: segments_update_def Let_def bindR_Inr_iff split: option.splits)
  have "sw_id ` (\<lambda>r. if sw_id r = sid then f r else r) ` S = sw_id ` S" for S
    unfolding image_image using f by (intro image_cong) auto
  then show ?thesis
    using assms(2) unfolding ok_defs db' by (simp del: if_image_distrib)
qed

lemma segments_delete_ok: "feature_db_ok db \<Longrightarrow> feature_db_ok (segments_delete sid db)"
  by (rule feature_db_ok_strategies [of db])
    (auto simp: segments_delete_def feature_db_ok_def strategies_ok_def links_ok_def image_iff, metis fst_conv snd_conv)

lemma store_addToStrategy_ok: "store_addToStrategy sid st db = Inr db' \<Longrightarrow> feature_db_ok db \<Longrightarrow> feature_db_ok db'"
  by (rule feature_db_ok_strategies [of db])
    (auto simp: store_addToStrategy_def feature_db_ok_def strategies_ok_def links_ok_def list_ex_iff image_iff split: if_splits,
      (metis fst_conv snd_conv)+)

lemma removeFromStrategy_ok: "feature_db_ok db \<Longrightarrow> feature_db_ok (removeFromStrategy sid st db)"
  by (rule feature_db_ok_strategies [of db])
    (auto simp: removeFromStrategy_def feature_db_ok_def strategies_ok_def links_ok_def)

text \<open>Dependencies: the checks of the service give what the interface asks for.\<close>

lemma dependency_check_iff:
  "dependency_check c p db = Inr u \<longleftrightarrow>
     c \<noteq> p \<and> (\<forall>d\<in>set (fd_dependencies db). dr_parent d \<noteq> c \<and> dr_child d \<noteq> p) \<and>
     featureExists p db \<and> featuresInTheSameProject c p db"
proof -
  have "getChildren [c] db = [] \<longleftrightarrow> (\<forall>d\<in>set (fd_dependencies db). dr_parent d \<noteq> c)"
    by (simp flip: set_empty add: getChildren_def) auto
  moreover have "getParents p db = [] \<longleftrightarrow> (\<forall>d\<in>set (fd_dependencies db). dr_child d \<noteq> p)"
    by (simp add: getParents_def filter_empty_conv)
  ultimately show ?thesis by (auto simp: dependency_check_def)
qed

lemma featuresInTheSameProject_key:
  assumes "featuresInTheSameProject a b db" "(a, p) \<in> set (feature_keys db)" "(b, q) \<in> set (feature_keys db)"
  shows "p = q"
proof -
  let ?ps = "map ft_project (filter (\<lambda>r. ft_name r = a \<or> ft_name r = b) (fd_features db))"
  have "card (set ?ps) = 1"
    using assms(1) by (simp only: featuresInTheSameProject_def length_remdups_card_conv)
  then obtain x where x: "set ?ps = {x}" by (auto simp: card_1_singleton_iff)
  have "p \<in> set ?ps" "q \<in> set ?ps"
    using assms(2,3) by (auto simp: feature_keys_def)
  with x show ?thesis by simp
qed

lemma dependency_cut_ok: "feature_db_ok db \<Longrightarrow> feature_db_ok (dependency_cut p db)"
proof -
  assume ok: "feature_db_ok db"
  then have "deps.one_level (dependency_cut p db)"
    using deps.one_level_cut by (simp add: feature_db_ok_def dependencies_ok_def)
  with ok show ?thesis
    by (auto simp: feature_db_ok_def envs_ok_def strategies_ok_def links_ok_def dependencies_ok_def dependency_cut_def feature_names_keys)
qed

lemma dependency_upsert_ok:
  assumes "feature_db_ok db" "dependency_check (dr_child d) (dr_parent d) db = Inr u"
  shows "feature_db_ok (snd (dependency_upsert d db))"
proof -
  let ?db = "snd (dependency_upsert d db)"
  from assms(1) have "deps.one_level db" by (simp add: feature_db_ok_def dependencies_ok_def)
  then have one: "deps.one_level ?db"
    by (rule deps.one_level_link) (use assms(2) in \<open>auto simp: dependency_check_iff dependency_edges_def\<close>)
  have "\<exists>p. (dr_parent e, p) \<in> set (feature_keys db) \<and> (dr_child e, p) \<in> set (feature_keys db)"
    if e: "e \<in> set (fd_dependencies ?db)" for e
  proof (cases "e \<in> set (fd_dependencies db)")
    case True
    then show ?thesis using assms(1) by (auto simp: feature_db_ok_def dependencies_ok_def)
  next
    case False
    with e have "e = d" "dr_parent d \<in> fst ` set (feature_keys db)" "dr_child d \<in> fst ` set (feature_keys db)"
      by (auto simp: dependency_upsert_def Let_def feature_names_keys split: if_splits)
    then show ?thesis
      using featuresInTheSameProject_key assms(2) unfolding dependency_check_iff by fastforce
  qed
  moreover have "feature_keys ?db = feature_keys db" "fd_envs ?db = fd_envs db" "fd_strategies ?db = fd_strategies db"
    "fd_strategy_segments ?db = fd_strategy_segments db" "fd_segments ?db = fd_segments db"
    "catalog_ok ?db = catalog_ok db" "environment_names ?db = environment_names db"
    by (simp_all add: dependency_upsert_def Let_def)
  ultimately show ?thesis
    using assms(1) one by (simp add: feature_db_ok_def envs_ok_def strategies_ok_def links_ok_def dependencies_ok_def feature_names_keys)
qed

end
