(* ===== verification/FeatureSteps.thy ===== *)
theory FeatureSteps
  imports FeatureInvariants
begin

text \<open>
  Every operation of the feature, segment and dependency services keeps the invariant, whether it throws
  or not; \<open>feature_step\<close> is one operation, by any user and with any arguments.
\<close>

section \<open>Rules\<close>

text \<open>A predicate of the tables, whatever the events and the access tables are.\<close>

definition on_tables :: "(feature_db \<Rightarrow> bool) \<Rightarrow> feature_service \<Rightarrow> bool" where
  "on_tables Q s = Q (fs_db s)"

abbreviation feature_ok :: "feature_service \<Rightarrow> bool" where
  "feature_ok \<equiv> on_tables feature_db_ok"

abbreviation keeps_ok :: "'a feature_op \<Rightarrow> bool" where
  "keeps_ok \<equiv> preserves feature_ok"

lemma on_tables_queries [preserves_intros, intro]: "preserves (on_tables Q) (ask_db f)" "preserves (on_tables Q) (try_db g)"
  "preserves (on_tables Q) (store_event_by b k p n u)" "preserves (on_tables Q) (store_event k p n c u)"
  by (simp_all add: preserves_def ask_db_def try_db_def store_event_def store_event_by_def on_tables_def)

lemma on_tables_run_db [preserves_intros]: "(\<And>db. Q db \<Longrightarrow> Q (f db)) \<Longrightarrow> preserves (on_tables Q) (run_db f)"
  by (simp add: preserves_def run_db_def with_fdb_def on_tables_def)

lemma on_tables_exec_db [preserves_intros]:
  "(\<And>db x db'. f db = Inr (x, db') \<Longrightarrow> Q db \<Longrightarrow> Q db') \<Longrightarrow> preserves (on_tables Q) (exec_db f)"
  by (auto simp: preserves_def exec_db_def on_tables_def split: sum.splits)

lemma on_tables_stmt [preserves_intros]:
  "(\<And>db db'. f db = Inr db' \<Longrightarrow> Q db \<Longrightarrow> Q db') \<Longrightarrow> preserves (on_tables Q) (stmt f)"
  unfolding stmt_def by (rule on_tables_exec_db) (auto simp: bindR_Inr_iff)

text \<open>The value of a query that may throw, where its check does not depend on the state.\<close>

lemma preserves_tryS_value: "(\<And>x s. g s = Inr x \<Longrightarrow> preserves I (k x)) \<Longrightarrow> preserves I (bindS (tryS g) k)"
  by (fastforce simp: preserves_def bindS_def split: sum.splits)

lemma preserves_list [preserves_intros]:
  "(xs = [] \<Longrightarrow> preserves I m) \<Longrightarrow> (\<And>y ys. xs = y # ys \<Longrightarrow> preserves I (k y ys)) \<Longrightarrow>
     preserves I (case xs of [] \<Rightarrow> m | y # ys \<Rightarrow> k y ys)"
  by (cases xs) auto

lemma preserves_prod [preserves_intros]:
  "(\<And>a b. x = (a, b) \<Longrightarrow> preserves I (k a b)) \<Longrightarrow> preserves I (case x of (a, b) \<Rightarrow> k a b)"
  by (cases x) auto

text \<open>Rules at a state, for operations whose write depends on what was read before.\<close>

lemma keeps_at_state: "(\<And>s. feature_ok s \<Longrightarrow> feature_ok (snd (m s))) \<Longrightarrow> keeps_ok m"
  by (simp add: preserves_def)

lemma at_try:
  "feature_ok s \<Longrightarrow> (\<And>x. g (fs_db s) = Inr x \<Longrightarrow> feature_ok (snd (k x s))) \<Longrightarrow> feature_ok (snd (bindS (try_db g) k s))"
  "feature_ok s \<Longrightarrow> (\<And>x. g (fs_db s) = Inr x \<Longrightarrow> feature_ok (snd (n s))) \<Longrightarrow> feature_ok (snd (thenS (try_db g) n s))"
  "feature_ok s \<Longrightarrow> (\<And>x. h s = Inr x \<Longrightarrow> feature_ok (snd (k' x s))) \<Longrightarrow> feature_ok (snd (bindS (tryS h) k' s))"
  "feature_ok s \<Longrightarrow> (\<And>x. h s = Inr x \<Longrightarrow> feature_ok (snd (n s))) \<Longrightarrow> feature_ok (snd (thenS (tryS h) n s))"
  "feature_ok (snd (k'' (f (fs_db s)) s)) \<Longrightarrow> feature_ok (snd (bindS (ask_db f) k'' s))"
  "feature_ok s \<Longrightarrow> feature_ok (snd (n s)) \<Longrightarrow> feature_ok (snd (thenS (guardS b e) n s))"
  by (auto simp: bindS_def thenS_def try_db_def ask_db_def throw_if_def split: sum.splits)

lemma at_write:
  "feature_ok (snd (m s)) \<Longrightarrow> (\<And>x. keeps_ok (k x)) \<Longrightarrow> feature_ok (snd (bindS m k s))"
  "feature_ok (snd (m s)) \<Longrightarrow> keeps_ok n \<Longrightarrow> feature_ok (snd (thenS m n s))"
  by (fastforce simp: bindS_def thenS_def preserves_def split: sum.splits prod.splits)+

lemma at_exec_db:
  "feature_ok s \<Longrightarrow> (\<And>x db'. f (fs_db s) = Inr (x, db') \<Longrightarrow> feature_db_ok db') \<Longrightarrow> feature_ok (snd (exec_db f s))"
  by (auto simp: exec_db_def on_tables_def split: sum.splits)


section \<open>Segments and dependencies\<close>

lemma on_tables_stop [preserves_intros, intro]: "preserves (on_tables Q) (stop_project p u)"
  "preserves (on_tables Q) (stopWhenChangeRequestsEnabled p e u)" "preserves (on_tables Q) (stop_segment q u)"
  unfolding stopWhenChangeRequestsEnabled_def stop_segment_def stop_project_def
  by (auto intro!: preserves_intros)

lemma keeps_addToStrategy [preserves_intros]: "keeps_ok (addToStrategy cfg i st)"
  unfolding addToStrategy_def by (intro preserves_intros) (rule store_addToStrategy_ok)

lemma keeps_updateStrategySegments [preserves_intros]: "keeps_ok (updateStrategySegments cfg st ids)"
  unfolding updateStrategySegments_def by (intro preserves_intros removeFromStrategy_ok)

lemma keeps_segment_ops:
  "keeps_ok (segment_create cfg data user)" "keeps_ok (segment_update cfg sid data user)"
  "keeps_ok (segment_delete sid user)" "keeps_ok (segment_unprotectedDelete sid user)"
  "keeps_ok (segment_unprotectedUpdate cfg sid data user)" "keeps_ok (cloneStrategySegments cfg st st')"
proof -
  show "keeps_ok (segment_create cfg data user)"
    unfolding segment_create_def by (intro preserves_intros) (rule segments_create_ok)
  show *: "keeps_ok (segment_unprotectedUpdate cfg sid data user)"
    unfolding segment_unprotectedUpdate_def by (intro preserves_intros) (rule segments_update_ok)
  show "keeps_ok (segment_update cfg sid data user)"
    unfolding segment_update_def by (intro preserves_intros *)
  show "keeps_ok (segment_delete sid user)" "keeps_ok (segment_unprotectedDelete sid user)"
    unfolding segment_delete_def segment_unprotectedDelete_def by (intro preserves_intros segments_delete_ok; assumption)+
  show "keeps_ok (cloneStrategySegments cfg st st')"
    unfolding cloneStrategySegments_def by (intro preserves_intros)
qed

lemma keeps_removeSegment: "keeps_ok (removeSegment cfg sid user)"
  unfolding removeSegment_def by (intro preserves_intros keeps_segment_ops)

lemma keeps_dependency_upsert [preserves_intros]:
  "keeps_ok (unprotectedUpsertFeatureDependency child project i by' uid)"
  unfolding unprotectedUpsertFeatureDependency_def dependency_write_def
proof (rule keeps_at_state, intro at_try at_write preserves_intros)
  fix s u
  assume ok: "feature_ok s" and c: "dependency_check child (di_feature i) (fs_db s) = Inr u"
  show "feature_ok (snd (case dependency_upsert (dependency_of child i) (fs_db s) of (r, db) \<Rightarrow> (r, s\<lparr>fs_db := db\<rparr>)))"
    using dependency_upsert_ok [of "fs_db s" "dependency_of child i" u] ok c
    by (auto simp: on_tables_def dependency_of_def split: prod.splits)
qed

lemma keeps_dependency_deletions [preserves_intros]:
  "keeps_ok (unprotectedDeleteFeatureDependency parent child project by' uid)"
  "keeps_ok (unprotectedDeleteFeaturesDependencies names project by' uid)"
  unfolding unprotectedDeleteFeatureDependency_def unprotectedDeleteFeaturesDependencies_def
  by (intro preserves_intros; simp add: dependency_deletions dependency_cut_ok)+

lemma keeps_dependency_ops:
  "keeps_ok (upsertFeatureDependency child project i user)" "keeps_ok (cloneDependencies name newName project by' uid)"
  "keeps_ok (deleteFeatureDependency parent child project user)" "keeps_ok (deleteFeaturesDependencies names project user)"
  unfolding upsertFeatureDependency_def cloneDependencies_def deleteFeatureDependency_def deleteFeaturesDependencies_def
  by (intro preserves_intros)+


section \<open>Strategies and environments\<close>

lemma append_strategies_ok:
  assumes "feature_db_ok db" "\<forall>r\<in>set rows. sr_feature r \<in> set (feature_names db) \<and>
      sr_environment r \<in> set (environment_names db) \<and> variants_ok (sr_variants r)"
    "\<forall>l\<in>set ls. fst l \<in> sr_id ` set rows \<and> snd l \<in> sw_id ` set (fd_segments db)"
  shows "feature_db_ok (db\<lparr>fd_strategies := fd_strategies db @ rows, fd_strategy_segments := fd_strategy_segments db @ ls\<rparr>)"
    (is "feature_db_ok ?db")
proof (rule feature_db_ok_strategies [OF assms(1)])
  show "strategies_ok ?db"
    using assms(1,2) by (auto simp: feature_db_ok_def strategies_ok_def feature_keys_names)
  show "links_ok ?db"
    using assms(1,3) unfolding feature_db_ok_def links_ok_def by (auto simp: image_Un)
qed simp_all

lemma strategy_fk_check_name:
  "strategy_fk_check db s = Inr u \<Longrightarrow> sr_feature s \<in> set (feature_names db) \<and> sr_environment s \<in> set (environment_names db)"
  by (auto simp: strategy_fk_check_def split: if_splits)

lemma keeps_createStrategyFeatureEnv:
  assumes "variants_ok (si_variants c)"
  shows "keeps_ok (createStrategyFeatureEnv cfg project name env c)"
proof (rule keeps_at_state)
  fix s assume ok: "feature_ok s"
  let ?row = "new_strategy_row cfg (fc_uuid cfg (fs_drawn s)) project name env c (fs_db s)"
  have "feature_db_ok (fs_db s\<lparr>fd_strategies := fd_strategies (fs_db s) @ [?row]\<rparr>)"
    if "strategy_fk_check (fs_db s) ?row = Inr u" for u
    using append_strategies_ok [of "fs_db s" "[?row]" "[]"] strategy_fk_check_name [OF that] ok assms
    by (simp add: on_tables_def new_strategy_row_def)
  with ok show "feature_ok (snd (createStrategyFeatureEnv cfg project name env c s))"
    by (auto simp: createStrategyFeatureEnv_def Let_def on_tables_def with_fdb_def split: sum.splits)
qed

lemma mapStrategyUpdate_fields [simp]:
  "sr_id (mapStrategyUpdate u s) = sr_id s" "sr_feature (mapStrategyUpdate u s) = sr_feature s"
  "sr_environment (mapStrategyUpdate u s) = sr_environment s"
  "sr_variants (mapStrategyUpdate u s) = default [] (su_variants u)"
  by (simp_all add: mapStrategyUpdate_def)

lemma store_updateStrategy_ok:
  assumes "store_updateStrategy key u db = Inr (x, db')" "variants_ok (default [] (su_variants u))" "feature_db_ok db"
  shows "feature_db_ok db'"
proof -
  have "feature_db_ok (map_strategies (\<lambda>s. sr_id s = key) (mapStrategyUpdate u) db)"
    by (rule map_strategies_ok) (simp_all add: assms)
  with assms(1) show ?thesis by (auto simp: store_updateStrategy_def split: option.splits)
qed

lemma variants_ok_Nil [simp]: "variants_ok []"
  by (simp add: variants_ok_def)

lemma keeps_insert_strategy:
  "variants_ok (si_variants c) \<Longrightarrow> keeps_ok (insert_strategy cfg c project name env by' uid)"
  unfolding insert_strategy_def by (intro preserves_intros keeps_createStrategyFeatureEnv)

lemma keeps_unprotectedCreateStrategy [preserves_intros]:
  "keeps_ok (unprotectedCreateStrategy cfg c project name env by' uid)"
  unfolding unprotectedCreateStrategy_def
proof (intro preserves_tryS_value preserves_intros)
  fix constraints variants s
  assume "(if si_variants c = [] then Inr [] else checked_variants cfg (si_variants c)) = Inr variants"
  then have "variants_ok variants" by (auto intro: checked_variants_ok split: if_splits)
  then show "keeps_ok (insert_strategy cfg (c\<lparr>sc_constraints := constraints, sc_parameters := stickiness_default (sc_parameters c),
      si_variants := variants\<rparr>) project name env by' uid)"
    by (intro keeps_insert_strategy) simp
qed

lemma keeps_createStrategy [preserves_intros]: "keeps_ok (createStrategy cfg c project name env by' user)"
  unfolding createStrategy_def by (intro preserves_intros)

lemma keeps_set_enabled [preserves_intros]: "keeps_ok (set_enabled project name env enabled by' user)"
  unfolding set_enabled_def
  by (intro preserves_intros) (auto simp: setEnvironmentEnabledStatus_def Let_def en_key_def intro!: map_envs_ok)

lemma keeps_disable_environment [preserves_intros]: "keeps_ok (disable_environment project name env by' user)"
  unfolding disable_environment_def updateEnabled_checks_def by (intro preserves_intros)

lemma keeps_optionallyDisableFeature [preserves_intros]: "keeps_ok (optionallyDisableFeature cfg name env project by' user)"
  unfolding optionallyDisableFeature_def by (intro preserves_intros)

lemma keeps_unprotectedUpdateStrategy [preserves_intros]:
  "keeps_ok (unprotectedUpdateStrategy cfg key u project name env by' user)"
  unfolding unprotectedUpdateStrategy_def
proof (intro preserves_tryS_value preserves_intros)
  fix db x db' constraints variants s
  assume v: "(case su_variants u of
      Some (v # vs) \<Rightarrow> bindR (checked_variants cfg (v # vs)) (\<lambda>w. Inr (Some w)) | vs \<Rightarrow> Inr vs) = Inr variants"
    and *: "store_updateStrategy key (u\<lparr>su_constraints := constraints, su_variants := variants\<rparr>) db = Inr (x, db')"
      "feature_db_ok db"
  have "variants_ok (default [] variants)"
    using v by (cases "su_variants u" rule: option.exhaust; cases "the (su_variants u)")
      (auto simp: bindR_Inr_iff intro: checked_variants_ok)
  with * show "feature_db_ok db'" by (intro store_updateStrategy_ok [OF *(1)]) simp_all
qed

lemma keeps_updateStrategy [preserves_intros]: "keeps_ok (updateStrategy cfg key u project name env by' user)"
  unfolding updateStrategy_def by (intro preserves_intros)

lemma keeps_updateStrategyParameter: "keeps_ok (updateStrategyParameter key param value project name env by' uid)"
  unfolding updateStrategyParameter_def Let_def
proof (rule keeps_at_state, intro at_try at_write at_exec_db preserves_intros)
  fix s found y db'
  assume ok: "feature_ok s" and found: "strategies_get key (fs_db s) = Inr found"
    and w: "store_updateStrategy key \<lparr>su_name = None, su_title = sr_title (found\<lparr>sr_parameters := (sr_parameters found)(param \<mapsto> value)\<rparr>),
      su_disabled = Some (sr_disabled (found\<lparr>sr_parameters := (sr_parameters found)(param \<mapsto> value)\<rparr>)),
      su_constraints = Some (sr_constraints (found\<lparr>sr_parameters := (sr_parameters found)(param \<mapsto> value)\<rparr>)),
      su_variants = Some (sr_variants (found\<lparr>sr_parameters := (sr_parameters found)(param \<mapsto> value)\<rparr>)),
      su_parameters = Some (sr_parameters (found\<lparr>sr_parameters := (sr_parameters found)(param \<mapsto> value)\<rparr>)), su_segments = None\<rparr>
      (fs_db s) = Inr (y, db')"
  from found have "found \<in> set (fd_strategies (fs_db s))"
    by (auto simp: strategies_get_def split: option.splits dest: find_Some_in)
  with ok have "variants_ok (sr_variants found)"
    by (simp add: on_tables_def feature_db_ok_def strategies_ok_def)
  with ok show "feature_db_ok db'"
    by (intro store_updateStrategy_ok [OF w]) (simp_all add: on_tables_def)
qed

lemma keeps_deleteStrategy:
  "keeps_ok (unprotectedDeleteStrategy key project name env by' user)" "keeps_ok (deleteStrategy key project name env by' user)"
proof -
  show *: "keeps_ok (unprotectedDeleteStrategy key project name env by' user)"
    unfolding unprotectedDeleteStrategy_def
    by (intro preserves_intros)
      (auto simp: strategies_delete_def disableEnvironmentIfNoStrategies_def en_key_def intro!: remove_strategies_ok map_envs_ok)
  show "keeps_ok (deleteStrategy key project name env by' user)"
    unfolding deleteStrategy_def by (intro preserves_intros *)
qed

lemma keeps_updateSortOrder:
  "keeps_ok (unprotectedUpdateStrategiesSortOrder project name env orders by' uid)"
  "keeps_ok (updateStrategiesSortOrder project name env orders by' user)"
proof -
  show *: "keeps_ok (unprotectedUpdateStrategiesSortOrder project name env orders by' uid)" for uid
    unfolding unprotectedUpdateStrategiesSortOrder_def
    by (intro preserves_intros) (auto simp: store_updateSortOrder_def case_prod_unfold intro!: preserves_intros map_strategies_ok)
  show "keeps_ok (updateStrategiesSortOrder project name env orders by' user)"
    unfolding updateStrategiesSortOrder_def by (intro preserves_intros *)
qed

lemma keeps_updateEnabled [preserves_intros]:
  "keeps_ok (unprotectedUpdateEnabled cfg project name env enabled by' user activate)"
  "keeps_ok (updateEnabled cfg project name env enabled by' user activate)"
proof -
  show *: "keeps_ok (unprotectedUpdateEnabled cfg project name env enabled by' user activate)"
    unfolding unprotectedUpdateEnabled_def updateEnabled_checks_def prepare_strategies_def by (intro preserves_intros)
  show "keeps_ok (updateEnabled cfg project name env enabled by' user activate)"
    unfolding updateEnabled_def stopWhenCannotCreateStrategies_def by (intro preserves_intros *)
qed

lemma keeps_bulk: "keeps_ok (bulkUpdateEnabled cfg project names env enabled by' user activate)"
  "keeps_ok (toggle cfg project name env by')"
  unfolding bulkUpdateEnabled_def toggle_def by (intro preserves_intros)+


section \<open>Features\<close>

lemma features_update_ok:
  assumes "features_update cfg project data db = Inr (t, db')" "feature_db_ok db"
    "(dto_name data, project) \<in> set (feature_keys db) \<or> \<not> haveDependencies [dto_name data] db"
  shows "feature_db_ok db'"
proof -
  have "feature_db_ok (map_features (\<lambda>r. ft_name r = dto_name data) (dtoToUpdateRow cfg project data) db)"
    by (rule update_project_ok) (use assms(2,3) in \<open>simp_all add: dtoToUpdateRow_def\<close>)
  with assms(1) show ?thesis by (auto simp: features_update_def update_one_def split: option.splits)
qed

lemma update_one_ok:
  assumes "update_one name f db = Inr (t, db')" "\<And>r. ft_name (f r) = ft_name r" "\<And>r. ft_project (f r) = ft_project r"
    "feature_db_ok db"
  shows "feature_db_ok db'"
  using assms map_features_ok [OF assms(2,3,4)] by (auto simp: update_one_def split: option.splits)

lemma validateFeatureBelongsToProject_iff:
  "validateFeatureBelongsToProject name project db = Inr u \<longleftrightarrow> store_getProjectId name db = Some project"
  by (simp add: validateFeatureBelongsToProject_def Let_def throw_if_iff)

lemma features_get_key: "features_get n db = Inr t \<Longrightarrow> (n, tf_project t) \<in> set (feature_keys db)"
  by (auto simp: features_get_def rowToFeature_def split: option.splits dest: feature_row_key)

lemma features_get_name: "features_get n db = Inr t \<Longrightarrow> tf_name t = n"
  by (auto simp: features_get_def feature_row_of_def rowToFeature_def split: option.splits dest: find_Some_in)

lemma keeps_updateFeatureToggle [preserves_intros]: "keeps_ok (updateFeatureToggle cfg project updated by' name uid)"
  unfolding updateFeatureToggle_def
proof (rule keeps_at_state, intro at_try at_write at_exec_db preserves_intros)
  fix s u data preData t db'
  assume ok: "feature_ok s" and v: "validateFeatureBelongsToProject name project (fs_db s) = Inr u"
    and w: "features_update cfg project (data\<lparr>dto_name := name\<rparr>) (fs_db s) = Inr (t, db')"
  have "(name, project) \<in> set (feature_keys (fs_db s))"
    using v getProjectId_key by (simp only: validateFeatureBelongsToProject_iff)
  with ok show "feature_db_ok db'"
    by (intro features_update_ok [OF w]) (simp_all add: on_tables_def)
qed

lemma keeps_patchFeature: "keeps_ok (patchFeature cfg project name by' paths patch uid)"
  unfolding patchFeature_def by (intro preserves_intros)

lemma keeps_updateStale: "keeps_ok (updateStale cfg name isStale by' uid)"
  unfolding updateStale_def Let_def
proof (rule keeps_at_state, intro at_try at_write at_exec_db preserves_intros)
  fix s found t db'
  assume ok: "feature_ok s" and found: "features_get name (fs_db s) = Inr found"
    and w: "features_update cfg (tf_project (found\<lparr>tf_stale := isStale\<rparr>)) (dto_of (found\<lparr>tf_stale := isStale\<rparr>)) (fs_db s) = Inr (t, db')"
  have "dto_name (dto_of (found\<lparr>tf_stale := isStale\<rparr>)) = name"
    using features_get_name [OF found] by (simp add: dto_of_def)
  with ok features_get_key [OF found] show "feature_db_ok db'"
    by (intro features_update_ok [OF w]) (simp_all add: on_tables_def)
qed

lemma keeps_changeProject: "keeps_ok (changeProject cfg name newProject by' uid)"
  unfolding changeProject_def
proof (rule keeps_at_state, intro at_try at_write at_exec_db preserves_intros)
  fix s u feature t db'
  assume ok: "feature_ok s" and v: "throw_if (haveDependencies [name] (fs_db s))
      (Api (ForbiddenError ''Changing project not allowed. Feature has dependencies.'')) = Inr u"
    and found: "features_get name (fs_db s) = Inr feature"
    and w: "features_update cfg newProject (dto_of (feature\<lparr>tf_project := newProject\<rparr>)) (fs_db s) = Inr (t, db')"
  have "dto_name (dto_of (feature\<lparr>tf_project := newProject\<rparr>)) = name"
    using features_get_name [OF found] by (simp add: dto_of_def)
  with ok v show "feature_db_ok db'"
    by (intro features_update_ok [OF w]) (simp_all add: on_tables_def throw_if_iff)
qed

lemma keeps_setToggleStaleness: "keeps_ok (setToggleStaleness names stale by' project uid)"
  unfolding setToggleStaleness_def batchStale_def by (intro preserves_intros map_features_ok) simp_all

lemma keeps_updatePotentiallyStaleFeatures: "keeps_ok (updatePotentiallyStaleFeatures cfg)"
proof -
  have "feature_db_ok (snd (store_updatePotentiallyStaleFeatures now db))" if "feature_db_ok db" for now db
    unfolding store_updatePotentiallyStaleFeatures_def Let_def snd_conv
    by (intro map_features_ok that) simp_all
  then have "keeps_ok (exec_db (\<lambda>db. Inr (store_updatePotentiallyStaleFeatures now db)))" for now
    by (intro on_tables_exec_db) (metis snd_conv sum.inject(2))
  then show ?thesis
    unfolding updatePotentiallyStaleFeatures_def by (rule preserves_bindS) (intro preserves_intros)
qed

text \<open>A change of the links between projects and environments.\<close>

lemma project_envs_ok:
  assumes "feature_db_ok db" "distinct (map link_key ls)"
    "\<forall>l\<in>set ls. pv_project l \<in> pj_id ` set (fd_projects db) \<and> pv_environment l \<in> set (environment_names db)"
  shows "feature_db_ok (db\<lparr>fd_project_envs := ls\<rparr>)"
  using assms unfolding ok_defs by (simp add: catalog_ok_def)

lemma deleteEnvironmentForProject_ok: "feature_db_ok db \<Longrightarrow> feature_db_ok (deleteEnvironmentForProject p e db)"
  unfolding deleteEnvironmentForProject_def
  by (rule project_envs_ok) (auto simp: feature_db_ok_def catalog_ok_def distinct_map_filter)

lemma keeps_strategy_tables:
  "keeps_ok (updateFeatureStrategyProject name newProject)" "keeps_ok (deleteEnvironment project env)"
  "keeps_ok (removeAllStrategiesForEnv name env)"
proof -
  show "keeps_ok (updateFeatureStrategyProject name newProject)"
    unfolding updateFeatureStrategyProject_def setProjectForStrategiesBelongingToFeature_def
    by (intro preserves_intros map_strategies_ok) simp_all
  show "keeps_ok (deleteEnvironment project env)"
    unfolding deleteEnvironment_def deleteConfigurationsForProjectAndEnvironment_def
    by (intro preserves_intros remove_strategies_ok deleteEnvironmentForProject_ok)
  show "keeps_ok (removeAllStrategiesForEnv name env)"
    unfolding removeAllStrategiesForEnv_def removeAllStrategiesForFeatureEnv_def
    by (intro preserves_intros remove_strategies_ok)
qed

lemma setVariantsToFeatureEnvironments_ok:
  "setVariantsToFeatureEnvironments cfg name envs vs db = Inr db' \<Longrightarrow> feature_db_ok db \<Longrightarrow> feature_db_ok db'"
  unfolding setVariantsToFeatureEnvironments_def Let_def by (erule en_upsert_all_ok) (simp_all add: en_key_def)

lemma connectFeatureToEnvironmentsForProject_ok:
  "connectFeatureToEnvironmentsForProject name project db = Inr db' \<Longrightarrow> feature_db_ok db \<Longrightarrow> feature_db_ok db'"
  unfolding connectFeatureToEnvironmentsForProject_def by (erule en_upsert_fold_ok) simp_all

lemma keeps_createFeatureToggle [preserves_intros]: "keeps_ok (createFeatureToggle cfg project value by' uid isValidated)"
  unfolding createFeatureToggle_def Let_def
  by (intro preserves_intros)
    (blast intro: features_create_ok connectFeatureToEnvironmentsForProject_ok setVariantsToFeatureEnvironments_ok)+

lemma keeps_cloneFeatureToggle: "keeps_ok (cloneFeatureToggle cfg name project newName by' uid replaceGroupId)"
proof -
  have "keeps_ok (clone_variants cfg newName e)" for e
    unfolding clone_variants_def by (intro preserves_intros) (rule setVariantsToFeatureEnvironments_ok)
  then have "keeps_ok task" if "task \<in> set (map (clone_variants cfg newName) es @
      [thenS (createStrategy cfg (cloned_input replaceGroupId newName p) project newName (default [] (ed_name e)) by' None) (returnS ()).
         e \<leftarrow> es, p \<leftarrow> ed_strategies e] @ [cloneDependencies name newName project by' uid])" for task es
    using that by (auto intro!: preserves_intros keeps_dependency_ops)
  then show ?thesis
    unfolding cloneFeatureToggle_def by (intro preserves_intros)
qed

lemma keeps_archive [preserves_intros]:
  "keeps_ok (unprotectedArchiveToggle cfg name by' uid p)" "keeps_ok (unprotectedArchiveToggles cfg names by' project uid)"
proof -
  show "keeps_ok (unprotectedArchiveToggle cfg name by' uid p)"
    unfolding unprotectedArchiveToggle_def features_archive_def
    by (intro preserves_intros; erule update_one_ok; simp)
  show "keeps_ok (unprotectedArchiveToggles cfg names by' project uid)"
    unfolding unprotectedArchiveToggles_def batchArchive_def by (intro preserves_intros map_features_ok) simp_all
qed

lemma keeps_archive_ops: "keeps_ok (archiveToggle cfg name user p)" "keeps_ok (archiveToggles cfg names user project)"
  unfolding archiveToggle_def archiveToggles_def by (intro preserves_intros)+

lemma keeps_deletion: "keeps_ok (deleteFeature name by' uid)" "keeps_ok (deleteFeatures names project by' uid)"
proof -
  show "keeps_ok (deleteFeature name by' uid)"
    unfolding deleteFeature_def features_delete_def by (intro preserves_intros) (rule batchDelete_ok)
  show "keeps_ok (deleteFeatures names project by' uid)"
    unfolding deleteFeatures_def by (intro preserves_intros; (rule batchDelete_ok)?) (auto intro!: preserves_intros)
qed

lemma keeps_revival: "keeps_ok (reviveFeature name by' uid)" "keeps_ok (reviveFeatures names project by' uid)"
proof -
  show "keeps_ok (reviveFeature name by' uid)"
    unfolding reviveFeature_def features_revive_def disableAllEnvironmentsForFeatures_def
    by (intro preserves_intros map_envs_ok; (erule update_one_ok)?) (simp_all add: en_key_def)
  show "keeps_ok (reviveFeatures names project by' uid)"
    unfolding reviveFeatures_def batchRevive_def disableAllEnvironmentsForFeatures_def
    by (intro preserves_intros map_envs_ok map_features_ok) (simp_all add: en_key_def)
qed


section \<open>Variants\<close>

lemma keeps_saveVariants: "keeps_ok (saveVariants cfg name project vs by' uid)"
proof -
  have "feature_ok (snd (case store_saveVariants project name fixed (fs_db s) of (r, db) \<Rightarrow> (r, s\<lparr>fs_db := db\<rparr>)))"
    if "feature_ok s" for fixed s
    using that map_envs_ok [of "\<lambda>e. e\<lparr>en_variants := fixed\<rparr>"]
    by (simp add: store_saveVariants_def Let_def on_tables_def en_key_def)
  then have "keeps_ok (\<lambda>s. case store_saveVariants project name fixed (fs_db s) of (r, db) \<Rightarrow> (r, s\<lparr>fs_db := db\<rparr>))" for fixed
    by (rule keeps_at_state)
  then show ?thesis
    unfolding saveVariants_def by (intro preserves_intros)
qed

lemma keeps_saveVariantsOnEnv [preserves_intros]:
  "keeps_ok (saveVariantsOnEnv cfg project name env vs user old)"
  "keeps_ok (crProtectedSaveVariantsOnEnv cfg project name env vs user old)"
proof -
  show *: "keeps_ok (saveVariantsOnEnv cfg project name env vs user old)"
    unfolding saveVariantsOnEnv_def by (intro preserves_intros) (rule setVariantsToFeatureEnvironments_ok)
  show "keeps_ok (crProtectedSaveVariantsOnEnv cfg project name env vs user old)"
    unfolding crProtectedSaveVariantsOnEnv_def by (intro preserves_intros *)
qed

lemma keeps_setVariantsOnEnvs:
  "keeps_ok (setVariantsOnEnvs cfg project name envs vs user)" "keeps_ok (crProtectedSetVariantsOnEnvs cfg project name envs vs user)"
proof -
  show *: "keeps_ok (setVariantsOnEnvs cfg project name envs vs user)"
    unfolding setVariantsOnEnvs_def by (intro preserves_intros) (rule setVariantsToFeatureEnvironments_ok)
  show "keeps_ok (crProtectedSetVariantsOnEnvs cfg project name envs vs user)"
    unfolding crProtectedSetVariantsOnEnvs_def by (intro preserves_intros *)
qed

lemma keeps_updateVariants:
  "keeps_ok (updateVariantsOnEnv cfg name project env patch user)" "keeps_ok (updateVariants cfg name project patch user)"
  unfolding updateVariants_def updateVariantsOnEnv_def by (intro preserves_intros)+


section \<open>Environments\<close>

lemma append_envs_ok:
  assumes "feature_db_ok db" "distinct (map en_key rows)" "en_key ` set rows \<inter> en_key ` set (fd_envs db) = {}"
    "en_feature ` set rows \<subseteq> set (feature_names db)" "en_environment ` set rows \<subseteq> set (environment_names db)"
  shows "feature_db_ok (db\<lparr>fd_envs := fd_envs db @ rows\<rparr>)"
proof -
  have "envs_ok (db\<lparr>fd_envs := fd_envs db @ rows\<rparr>)"
    using assms unfolding feature_db_ok_def envs_ok_def feature_keys_updates feature_keys_names by auto
  then show ?thesis
    using assms(1) unfolding feature_db_ok_def strategies_ok_def links_ok_def dependencies_ok_def deps.one_level_def
      dependency_edges_def feature_names_keys by simp
qed

lemma copyEnvironmentFeaturesByProjects_ok:
  assumes "copyEnvironmentFeaturesByProjects source dest projects db = Inr db'" "feature_db_ok db"
  shows "feature_db_ok db'"
proof -
  let ?p = "\<lambda>e. en_environment e = source \<and>
    List.member (map ft_name (filter (\<lambda>r. List.member projects (ft_project r)) (fd_features db))) (en_feature e)"
  let ?rows = "map (\<lambda>e. e\<lparr>en_environment := dest\<rparr>) (filter ?p (fd_envs db))"
  have db': "db' = db\<lparr>fd_envs := fd_envs db @ ?rows\<rparr>"
    and new: "\<not> list_ex (\<lambda>e. list_ex (is_env (en_feature e) dest) (fd_envs db)) ?rows"
    and check: "\<exists>us. mapR (en_fk_check db) ?rows = Inr us"
    using assms(1) unfolding copyEnvironmentFeaturesByProjects_def Let_def by (auto simp: bindR_Inr_iff split: if_splits)
  have known: "en_environment ` set ?rows \<subseteq> set (environment_names db)"
  proof
    fix n assume "n \<in> en_environment ` set ?rows"
    then obtain e where e: "e \<in> set ?rows" "n = en_environment e" by (rule imageE) simp
    with check obtain u where "en_fk_check db e = Inr u" using mapR_unit by metis
    then show "n \<in> set (environment_names db)" by (auto simp: e(2) en_fk_check_def split: if_splits)
  qed
  have envs: "distinct (map en_key (fd_envs db))" "\<forall>e\<in>set (fd_envs db). en_feature e \<in> set (feature_names db)"
    using assms(2) by (auto simp: feature_db_ok_def envs_ok_def feature_keys_names)
  have "inj_on en_key (set (filter ?p (fd_envs db)))" "distinct (filter ?p (fd_envs db))"
    using distinct_map_filter [OF envs(1), of ?p] by (simp_all only: distinct_map)
  then have "distinct (map (\<lambda>e. (en_feature e, dest)) (filter ?p (fd_envs db)))"
    unfolding distinct_map inj_on_def en_key_def by simp
  then have "distinct (map en_key ?rows)"
    by (simp add: en_key_def comp_def)
  moreover have "en_key ` set ?rows \<inter> en_key ` set (fd_envs db) = {}"
  proof -
    have "en_key (e\<lparr>en_environment := dest\<rparr>) \<notin> en_key ` set (fd_envs db)" if "e \<in> set (fd_envs db)" "?p e" for e
      using new that by (auto simp: list_ex_iff is_env_def en_key_def) (metis (mono_tags, lifting) image_eqI mem_Collect_eq)
    then show ?thesis by auto (metis (mono_tags, lifting) image_eqI mem_Collect_eq)
  qed
  moreover have "en_feature ` set ?rows \<subseteq> set (feature_names db)"
    using envs(2) by auto
  ultimately show ?thesis
    unfolding db' by (intro append_envs_ok assms(2) known)
qed

lemma keeps_cloneStrategies: "keeps_ok (cloneStrategies cfg source dest)"
proof (rule keeps_at_state)
  fix s assume ok: "feature_ok s"
  let ?db = "fs_db s" and ?src = "filter (\<lambda>r. sr_environment r = source) (fd_strategies (fs_db s))"
  let ?pairs = "map (\<lambda>(i, r). (sr_id r, cloned_strategy cfg (fc_uuid cfg (fs_drawn s + i)) dest r)) (List.enumerate 0 ?src)"
  let ?links = "[(sr_id r, snd l). l \<leftarrow> fd_strategy_segments ?db, (i, r) \<leftarrow> ?pairs, i = fst l]"
  have "\<forall>r\<in>set (map snd ?pairs). variants_ok (sr_variants r)"
    using ok unfolding on_tables_def feature_db_ok_def strategies_ok_def feature_keys_names
    by (auto simp: cloned_strategy_def dest!: set_zip_rightD simp: enumerate_eq_zip)
  moreover have "\<forall>l\<in>set ?links. fst l \<in> sr_id ` set (map snd ?pairs) \<and> snd l \<in> sw_id ` set (fd_segments ?db)"
    using ok unfolding on_tables_def feature_db_ok_def links_ok_def by force
  ultimately have "feature_db_ok (?db\<lparr>fd_strategies := fd_strategies ?db @ map snd ?pairs,
      fd_strategy_segments := fd_strategy_segments ?db @ ?links\<rparr>)"
    if "mapR (strategy_fk_check ?db) (map snd ?pairs) = Inr us" for us
    using ok append_strategies_ok mapR_unit [OF that] strategy_fk_check_name unfolding on_tables_def by blast
  with ok show "feature_ok (snd (cloneStrategies cfg source dest s))"
    unfolding cloneStrategies_def Let_def on_tables_def with_fdb_def by (simp split: sum.split)
qed

lemma connectProject_ok:
  assumes "connectProject env project idem db = Inr db'" "feature_db_ok db"
  shows "feature_db_ok db'"
proof (cases "list_ex (\<lambda>r. pv_project r = project \<and> pv_environment r = env) (fd_project_envs db)")
  case True
  with assms show ?thesis by (auto simp: connectProject_def split: if_splits)
next
  case False
  let ?l = "\<lparr>pv_project = project, pv_environment = env, pv_default_strategy = None\<rparr>"
  from False have "link_key ?l \<notin> link_key ` set (fd_project_envs db)"
    by (auto simp: list_ex_iff link_key_def)
  moreover have "project \<in> pj_id ` set (fd_projects db)" "env \<in> set (environment_names db)"
    and db': "db' = db\<lparr>fd_project_envs := fd_project_envs db @ [?l]\<rparr>"
    using False assms(1) by (auto simp: connectProject_def hasProject_def list_ex_iff split: if_splits)
  ultimately show ?thesis
    using assms(2) unfolding db' by (intro project_envs_ok) (auto simp: feature_db_ok_def catalog_ok_def)
qed

lemma environment_statements_ok:
  "addEnvironmentToFeature name env enabled db = Inr db' \<Longrightarrow> feature_db_ok db \<Longrightarrow> feature_db_ok db'"
  "connectProject env project idem db = Inr db' \<Longrightarrow> feature_db_ok db \<Longrightarrow> feature_db_ok db'"
  "connectFeatures env project db = Inr db' \<Longrightarrow> feature_db_ok db \<Longrightarrow> feature_db_ok db'"
  "clonePreviousVariants env project db = Inr db' \<Longrightarrow> feature_db_ok db \<Longrightarrow> feature_db_ok db'"
  "addFeatureEnvironment cfg fe db = Inr db' \<Longrightarrow> feature_db_ok db \<Longrightarrow> feature_db_ok db'"
proof -
  show "addEnvironmentToFeature name env enabled db = Inr db' \<Longrightarrow> feature_db_ok db \<Longrightarrow> feature_db_ok db'"
    unfolding addEnvironmentToFeature_def by (erule en_upsert_ok) (simp_all add: en_key_def)
  show "connectFeatures env project db = Inr db' \<Longrightarrow> feature_db_ok db \<Longrightarrow> feature_db_ok db'"
    unfolding connectFeatures_def by (erule en_upsert_fold_ok) simp_all
  show "clonePreviousVariants env project db = Inr db' \<Longrightarrow> feature_db_ok db \<Longrightarrow> feature_db_ok db'"
    unfolding clonePreviousVariants_def Let_def by (erule en_upsert_all_ok) (simp_all add: en_key_def)
  show "addFeatureEnvironment cfg fe db = Inr db' \<Longrightarrow> feature_db_ok db \<Longrightarrow> feature_db_ok db'"
    unfolding addFeatureEnvironment_def Let_def by (erule en_upsert_ok) (simp_all add: en_key_def)
  show "connectProject env project idem db = Inr db' \<Longrightarrow> feature_db_ok db \<Longrightarrow> feature_db_ok db'"
    using connectProject_ok .
qed

lemma environment_removals_ok:
  "feature_db_ok db \<Longrightarrow> feature_db_ok (removeEnvironmentForFeature name env db)"
  "feature_db_ok db \<Longrightarrow> feature_db_ok (disconnectFeatures env project db)"
  "feature_db_ok db \<Longrightarrow> feature_db_ok (disconnectProject env project db)"
  unfolding removeEnvironmentForFeature_def disconnectFeatures_def disconnectProject_def Let_def
  by (rule filter_envs_ok deleteEnvironmentForProject_ok; assumption)+


section \<open>Steps\<close>

text \<open>One operation of one of the services; it may have thrown.\<close>

inductive feature_step :: "feature_config \<Rightarrow> feature_service \<Rightarrow> feature_service \<Rightarrow> bool" for cfg where
  "feature_step cfg s (snd (createFeatureToggle cfg project value who uid validated s))"
| "feature_step cfg s (snd (cloneFeatureToggle cfg name project newName who uid replaceGroupId s))"
| "feature_step cfg s (snd (updateFeatureToggle cfg project updated who name uid s))"
| "feature_step cfg s (snd (patchFeature cfg project name who paths patch uid s))"
| "feature_step cfg s (snd (updateStale cfg name stale who uid s))"
| "feature_step cfg s (snd (setToggleStaleness names stale who project uid s))"
| "feature_step cfg s (snd (updatePotentiallyStaleFeatures cfg s))"
| "feature_step cfg s (snd (changeProject cfg name project who uid s))"
| "feature_step cfg s (snd (updateFeatureStrategyProject name project s))"
| "feature_step cfg s (snd (archiveToggle cfg name user p s))"
| "feature_step cfg s (snd (archiveToggles cfg names user project s))"
| "feature_step cfg s (snd (deleteFeature name who uid s))"
| "feature_step cfg s (snd (deleteFeatures names project who uid s))"
| "feature_step cfg s (snd (reviveFeature name who uid s))"
| "feature_step cfg s (snd (reviveFeatures names project who uid s))"
| "feature_step cfg s (snd (createStrategy cfg c project name env who by_user s))"
| "feature_step cfg s (snd (updateStrategy cfg key u project name env who by_user s))"
| "feature_step cfg s (snd (updateStrategyParameter key param v project name env who uid s))"
| "feature_step cfg s (snd (deleteStrategy key project name env who by_user s))"
| "feature_step cfg s (snd (updateStrategiesSortOrder project name env orders who by_user s))"
| "feature_step cfg s (snd (updateEnabled cfg project name env enabled who by_user activate s))"
| "feature_step cfg s (snd (bulkUpdateEnabled cfg project names env enabled who by_user activate s))"
| "feature_step cfg s (snd (toggle cfg project name env who s))"
| "feature_step cfg s (snd (saveVariants cfg name project vs who uid s))"
| "feature_step cfg s (snd (saveVariantsOnEnv cfg project name env vs user old s))"
| "feature_step cfg s (snd (crProtectedSaveVariantsOnEnv cfg project name env vs user old s))"
| "feature_step cfg s (snd (setVariantsOnEnvs cfg project name envs vs user s))"
| "feature_step cfg s (snd (crProtectedSetVariantsOnEnvs cfg project name envs vs user s))"
| "feature_step cfg s (snd (updateVariants cfg name project vpatch user s))"
| "feature_step cfg s (snd (deleteEnvironment project env s))"
| "feature_step cfg s (snd (removeAllStrategiesForEnv name env s))"
| "feature_step cfg s (snd (upsertFeatureDependency child project i user s))"
| "feature_step cfg s (snd (deleteFeatureDependency parent child project user s))"
| "feature_step cfg s (snd (deleteFeaturesDependencies names project user s))"
| "feature_step cfg s (snd (segment_create cfg data user s))"
| "feature_step cfg s (snd (segment_update cfg sid data user s))"
| "feature_step cfg s (snd (removeSegment cfg sid user s))"
| "feature_step cfg s (snd (updateStrategySegments cfg key ids s))"
| "feature_step cfg s (snd (cloneStrategySegments cfg key target s))"
| "feature_step cfg s (snd (cloneStrategies cfg source dest s))"
| "copyEnvironmentFeaturesByProjects source dest names (fs_db s) = Inr db' \<Longrightarrow> feature_step cfg s (s\<lparr>fs_db := db'\<rparr>)"
| "connectFeatures env project (fs_db s) = Inr db' \<Longrightarrow> feature_step cfg s (s\<lparr>fs_db := db'\<rparr>)"
| "connectProject env project idem (fs_db s) = Inr db' \<Longrightarrow> feature_step cfg s (s\<lparr>fs_db := db'\<rparr>)"
| "clonePreviousVariants env project (fs_db s) = Inr db' \<Longrightarrow> feature_step cfg s (s\<lparr>fs_db := db'\<rparr>)"
| "addEnvironmentToFeature name env enabled (fs_db s) = Inr db' \<Longrightarrow> feature_step cfg s (s\<lparr>fs_db := db'\<rparr>)"
| "addFeatureEnvironment cfg fe (fs_db s) = Inr db' \<Longrightarrow> feature_step cfg s (s\<lparr>fs_db := db'\<rparr>)"
| "feature_step cfg s (with_fdb (removeEnvironmentForFeature name env) s)"
| "feature_step cfg s (with_fdb (disconnectFeatures env project) s)"
| "feature_step cfg s (with_fdb (disconnectProject env project) s)"

lemmas keeps_operations = keeps_createFeatureToggle keeps_cloneFeatureToggle keeps_updateFeatureToggle keeps_patchFeature
  keeps_updateStale keeps_setToggleStaleness keeps_updatePotentiallyStaleFeatures keeps_changeProject keeps_strategy_tables
  keeps_archive_ops keeps_deletion keeps_revival keeps_createStrategy keeps_updateStrategy keeps_updateStrategyParameter
  keeps_deleteStrategy keeps_updateSortOrder keeps_updateEnabled keeps_bulk keeps_saveVariants keeps_saveVariantsOnEnv
  keeps_setVariantsOnEnvs keeps_updateVariants keeps_dependency_ops keeps_segment_ops keeps_removeSegment
  keeps_updateStrategySegments keeps_cloneStrategies

lemmas keeps_state = keeps_operations [unfolded preserves_def, rule_format]

lemma feature_step_ok: "feature_step cfg s s' \<Longrightarrow> feature_ok s \<Longrightarrow> feature_ok s'"
  by (induction rule: feature_step.induct)
    (rule keeps_state, assumption |
     (simp add: on_tables_def with_fdb_def, blast intro: environment_statements_ok copyEnvironmentFeaturesByProjects_ok environment_removals_ok))+

lemma feature_reachable_ok: "(feature_step cfg)\<^sup>*\<^sup>* s s' \<Longrightarrow> feature_ok s \<Longrightarrow> feature_ok s'"
  by (induction rule: rtranclp_induct) (auto intro: feature_step_ok)

end
