(* ===== verification/FeatureEffects.thy ===== *)
theory FeatureEffects
  imports FeatureSteps
begin

text \<open>
  What operations that succeed have done: equations for their results, one operation after the other.
\<close>

section \<open>Successful operations\<close>

lemma try_db_Inr_iff: "try_db g s = (Inr x, t) \<longleftrightarrow> g (fs_db s) = Inr x \<and> t = s"
  by (auto simp: try_db_def)

lemma ask_db_Inr_iff: "ask_db f s = (Inr x, t) \<longleftrightarrow> x = f (fs_db s) \<and> t = s"
  by (auto simp: ask_db_def)

lemma exec_db_Inr_iff: "exec_db f s = (Inr x, t) \<longleftrightarrow> (\<exists>db'. f (fs_db s) = Inr (x, db') \<and> t = s\<lparr>fs_db := db'\<rparr>)"
  by (auto simp: exec_db_def split: sum.splits)

lemma run_db_Inr_iff: "run_db f s = (Inr x, t) \<longleftrightarrow> t = s\<lparr>fs_db := f (fs_db s)\<rparr>"
  by (auto simp: run_db_def with_fdb_def)

lemma store_event_Inr_iff: "store_event k p n c u s = (Inr x, t) \<longleftrightarrow> t = s\<lparr>fs_events := fs_events s @
     [\<lparr>ek_kind = k, ek_project = p, ek_feature = n, ek_createdBy = Some c, ek_createdByUserId = u\<rparr>]\<rparr>"
  by (auto simp: store_event_def store_event_by_def)

lemma catchS_Inr_iff: "catchS m h s = (Inr x, t) \<longleftrightarrow> m s = (Inr x, t)"
  by (auto simp: catchS_def split: prod.splits sum.splits)

lemma tryS_Inr_iff: "tryS g s = (Inr x, t) \<longleftrightarrow> g s = Inr x \<and> t = s"
  by auto

lemmas feature_iffs = op_iffs try_db_Inr_iff ask_db_Inr_iff exec_db_Inr_iff run_db_Inr_iff store_event_Inr_iff
  catchS_Inr_iff tryS_Inr_iff

lemma allS_Inr_Cons:
  "allS f (x # xs) s = (Inr ys, t) \<longleftrightarrow>
     (\<exists>y s1 ys'. f x s = (Inr y, s1) \<and> allS f xs s1 = (Inr ys', t) \<and> ys = y # ys')"
  by (auto simp: bindR_Inr_iff split: prod.splits)

lemma on_tables_after: "preserves (on_tables Q) m \<Longrightarrow> m s = (r, t) \<Longrightarrow> Q (fs_db s) \<Longrightarrow> Q (fs_db t)"
  using preservesD [of "on_tables Q" m s r t] by (simp add: on_tables_def)


lemma succeeds: "isl (fst m) = False \<Longrightarrow> \<exists>x t. m = (Inr x, t)"
  by (metis isl_def obj_sumE prod.exhaust_sel)


section \<open>Environments\<close>

abbreviation strategies_stay :: "strategy_row list \<Rightarrow> 'a feature_op \<Rightarrow> bool" where
  "strategies_stay S \<equiv> preserves (on_tables (\<lambda>db. fd_strategies db = S))"

lemma setEnvironmentEnabledStatus_fields:
  "fd_strategies (snd (setEnvironmentEnabledStatus env name b db)) = fd_strategies db"
  "fd_features (snd (setEnvironmentEnabledStatus env name b db)) = fd_features db"
  by (simp_all add: setEnvironmentEnabledStatus_def Let_def map_envs_def)

lemma setEnvironmentEnabledStatus_enabled:
  assumes "e \<in> set (fd_envs (snd (setEnvironmentEnabledStatus env name b db)))" "is_env name env e"
  shows "en_enabled e = b"
proof -
  obtain x where "e = (if is_env name env x \<and> en_enabled x = (\<not> b) then x\<lparr>en_enabled := b\<rparr> else x)"
    using assms(1) unfolding setEnvironmentEnabledStatus_def Let_def map_envs_def by fastforce
  with assms(2) show ?thesis by (cases "is_env name env x \<and> en_enabled x = (\<not> b)") auto
qed

lemma set_enabled_Inr:
  assumes "set_enabled project name env b by' user s = (Inr t, s')"
  shows "fs_db s' = snd (setEnvironmentEnabledStatus env name b (fs_db s))"
proof -
  obtain n db' where "setEnvironmentEnabledStatus env name b (fs_db s) = (n, db')" by (cases "setEnvironmentEnabledStatus env name b (fs_db s)")
  with assms show ?thesis
    unfolding set_enabled_def feature_iffs by (clarsimp split: if_splits)
qed

lemma updateEnabled_checks_Inr:
  assumes "updateEnabled_checks project name env s = (Inr u, s')"
  shows "s' = s" "featureHasEnvironment env name (fs_db s)"
  using assms unfolding updateEnabled_checks_def by (auto simp: feature_iffs throw_if_iff)

lemma disable_environment_Inr:
  "disable_environment project name env by' user s = (Inr t, s') \<Longrightarrow>
     fs_db s' = snd (setEnvironmentEnabledStatus env name False (fs_db s))"
  unfolding disable_environment_def by (auto simp: feature_iffs dest: set_enabled_Inr updateEnabled_checks_Inr)

lemma stays_disable [preserves_intros]: "strategies_stay S (disable_environment project name env by' user)"
  unfolding disable_environment_def set_enabled_def updateEnabled_checks_def
  by (intro preserves_intros) (auto simp: setEnvironmentEnabledStatus_def Let_def map_envs_def)

lemma stays_optionallyDisableFeature [preserves_intros]: "strategies_stay S (optionallyDisableFeature cfg name env project by' user)"
  unfolding optionallyDisableFeature_def by (intro preserves_intros)

lemma stays_updateStrategySegments [preserves_intros]: "strategies_stay S (updateStrategySegments cfg key ids)"
  unfolding updateStrategySegments_def addToStrategy_def
  by (intro preserves_intros) (auto simp: removeFromStrategy_def store_addToStrategy_def split: if_splits)

lemma env_detail_strategies:
  "pb \<in> set (ed_strategies (env_detail_of cfg db e)) \<longleftrightarrow>
     (\<exists>r\<in>set (fd_strategies db). sr_feature r = en_feature e \<and> sr_environment r = en_environment e \<and> pb = getAdminStrategy db r)"
  by (auto simp: env_detail_of_def Let_def)

text \<open>
  The environment the operation names goes off where it has only disabled strategies. The environments
  are unique, as in every state within reach.
\<close>

lemma optionallyDisableFeature_Inr:
  assumes "optionallyDisableFeature cfg name env project by' user s = (Inr u, s')"
    and off: "\<forall>r\<in>set (fd_strategies (fs_db s)). sr_feature r = name \<and> sr_environment r = env \<longrightarrow> sr_disabled r"
    and e: "e \<in> set (fd_envs (fs_db s'))" "is_env name env e"
  shows "\<not> en_enabled e"
proof -
  from assms(1) obtain fw where fw: "loadFeatureToggleWithEnvs cfg name False (fs_db s) = Inr fw"
    and rest: "(case find (\<lambda>e. ed_name e = Some env) (fw_environments fw) of
         None \<Rightarrow> returnS ()
       | Some e \<Rightarrow> whenS (list_all pb_disabled (ed_strategies e))
           (thenS (disable_environment project name env by' user) (returnS ()))) s = (Inr u, s')"
    by (auto simp: optionallyDisableFeature_def feature_iffs)
  let ?envs = "getEnvironmentsForFeature name (fs_db s)"
  have list: "set (fw_environments fw) =
      (if ?envs = [] then {nameless_env} else env_detail_of cfg (fs_db s) ` set ?envs)"
    using fw by (auto simp: loadFeatureToggleWithEnvs_def Let_def split: option.splits)
  show ?thesis
  proof (cases "find (\<lambda>e. ed_name e = Some env) (fw_environments fw)")
    case None
    then have "\<forall>x\<in>set (fw_environments fw). ed_name x \<noteq> Some env" by (simp add: find_None_iff')
    moreover have "e \<in> set ?envs"
      using e rest None by (simp add: getEnvironmentsForFeature_def is_env_def)
    moreover from this have "?envs \<noteq> []" by auto
    ultimately show ?thesis
      using e list by (auto simp: getEnvironmentsForFeature_def is_env_def env_detail_of_def Let_def split: if_splits)
  next
    case (Some ed)
    then have ed: "ed \<in> set (fw_environments fw)" "ed_name ed = Some env"
      by (auto dest: find_Some_in)
    then obtain x where x: "x \<in> set ?envs" "ed = env_detail_of cfg (fs_db s) x"
      using list by (auto simp: nameless_env_def split: if_splits)
    have "list_all pb_disabled (ed_strategies ed)"
      using off x ed(2) unfolding list_all_iff x(2) env_detail_strategies
      by (auto simp: getAdminStrategy_def getEnvironmentsForFeature_def env_detail_of_def Let_def)
    then have "fs_db s' = snd (setEnvironmentEnabledStatus env name False (fs_db s))"
      using rest Some by (auto simp: feature_iffs dest: disable_environment_Inr)
    then show ?thesis
      using setEnvironmentEnabledStatus_enabled e by metis
  qed
qed


section \<open>Strategies\<close>

text \<open>The strategy with the id is the only one that changes, and the environment is looked after.\<close>

lemma unprotectedUpdateStrategy_Inr:
  assumes "unprotectedUpdateStrategy cfg key u project name env by' user s = (Inr p, s')"
  obtains u' s1 where
    "su_constraints u = None \<Longrightarrow> su_constraints u' = None" "su_variants u = None \<Longrightarrow> su_variants u' = None"
    "u' = u\<lparr>su_constraints := su_constraints u', su_variants := su_variants u'\<rparr>"
    "fd_strategies (fs_db s') = map (\<lambda>r. if sr_id r = key then mapStrategyUpdate u' r else r) (fd_strategies (fs_db s))"
    "fd_strategies (fs_db s1) = fd_strategies (fs_db s')"
    "optionallyDisableFeature cfg name env project by' user s1 = (Inr (), s')"
proof -
  let ?segments = "\<lambda>st. case su_segments u of None \<Rightarrow> returnS () | Some ids \<Rightarrow> updateStrategySegments cfg (sr_id st) ids"
  from assms obtain constraints variants st db' s1 s2 data where
    c: "(case su_constraints u of
              Some (c # cs) \<Rightarrow> bindS (try_db (validateConstraints cfg (c # cs))) (\<lambda>v. returnS (Some v))
            | cs \<Rightarrow> returnS cs) s = (Inr constraints, s)"
    and v: "(case su_variants u of
              Some (v # vs) \<Rightarrow> bindR (checked_variants cfg (v # vs)) (\<lambda>w. Inr (Some w))
            | vs \<Rightarrow> Inr vs) = Inr variants"
    and w: "store_updateStrategy key (u\<lparr>su_constraints := constraints, su_variants := variants\<rparr>) (fs_db s) = Inr (st, db')"
    and seg: "?segments st (s\<lparr>fs_db := db'\<rparr>) = (Inr (), s1)"
    and s2: "s2 = s1\<lparr>fs_events := fs_events s1 @ data\<rparr>"
    and opt: "optionallyDisableFeature cfg name env project by' user s2 = (Inr (), s')"
    unfolding unprotectedUpdateStrategy_def feature_iffs
    by (fastforce simp: feature_iffs split: option.splits list.splits)
  let ?u = "u\<lparr>su_constraints := constraints, su_variants := variants\<rparr>"
  have "fd_strategies db' = map (\<lambda>r. if sr_id r = key then mapStrategyUpdate ?u r else r) (fd_strategies (fs_db s))"
    using w by (auto simp: store_updateStrategy_def map_strategies_def split: option.splits)
  moreover have "strategies_stay (fd_strategies db') (?segments st)"
    by (intro preserves_intros)
  then have "fd_strategies (fs_db s1) = fd_strategies db'"
    using on_tables_after seg by fastforce
  moreover have "fd_strategies (fs_db s') = fd_strategies (fs_db s2)"
    using on_tables_after [OF stays_optionallyDisableFeature opt] by simp
  ultimately show thesis
    using c v opt s2 by (intro that [of ?u s2]) (auto split: option.splits)
qed

lemma unprotectedCreateStrategy_Inr:
  assumes "unprotectedCreateStrategy cfg c project name env by' uid s = (Inr p, s')"
  obtains row where "fd_strategies (fs_db s') = fd_strategies (fs_db s) @ [row]"
    "sr_feature row = name" "sr_project row = project" "sr_environment row = env" "sr_disabled row = sc_disabled c"
proof -
  from assms obtain c' s1 s2 row where row: "createStrategyFeatureEnv cfg project name env c' s = (Inr row, s1)"
    and c': "sc_disabled c' = sc_disabled c"
    and seg: "(case si_segments c of None \<Rightarrow> returnS () | Some ids \<Rightarrow> updateStrategySegments cfg (sr_id row) ids) s1 = (Inr (), s2)"
    and s': "fs_db s' = fs_db s2"
    unfolding unprotectedCreateStrategy_def insert_strategy_def feature_iffs
    by (fastforce simp: feature_iffs split: option.splits)
  have "strategies_stay S (case si_segments c of None \<Rightarrow> returnS () | Some ids \<Rightarrow> updateStrategySegments cfg (sr_id row) ids)" for S
    by (intro preserves_intros)
  then have "fd_strategies (fs_db s2) = fd_strategies (fs_db s1)"
    using on_tables_after seg by fastforce
  moreover have "fd_strategies (fs_db s1) = fd_strategies (fs_db s) @ [row]" "sr_feature row = name" "sr_project row = project"
    "sr_environment row = env" "sr_disabled row = sc_disabled c'"
    using row by (auto simp: createStrategyFeatureEnv_def Let_def with_fdb_def new_strategy_row_def split: sum.splits)
  ultimately show thesis
    using that s' c' by simp
qed

lemma unprotectedDeleteStrategy_strategies:
  assumes "strategies_get key (fs_db s) = Inr existing" "validateUpdatedProperties name project existing = Inr u"
  shows "fd_strategies (fs_db (snd (unprotectedDeleteStrategy key project name env by' user s))) =
    filter (\<lambda>r. sr_id r \<noteq> key) (fd_strategies (fs_db s))"
proof -
  let ?S = "filter (\<lambda>r. sr_id r \<noteq> key) (fd_strategies (fs_db s))"
  let ?s1 = "s\<lparr>fs_db := strategies_delete key (fs_db s)\<rparr>"
  let ?tail = "bindS (ask_db (getStrategiesForFeatureEnv project name env)) (\<lambda>left.
     thenS (whenS (list_all sr_disabled left)
         (thenS (disable_environment project name env by' user) (returnS ())))
     (thenS (store_event (StrategyRemoved env (featureStrategyToPublic existing [])) (Some project) (Some name) by' (user_id_of user))
       (run_db (disableEnvironmentIfNoStrategies name env))))"
  have "unprotectedDeleteStrategy key project name env by' user s = ?tail ?s1"
    using assms by (simp add: unprotectedDeleteStrategy_def bindS_def thenS_def try_db_def run_db_def with_fdb_def)
  moreover have "strategies_stay ?S ?tail"
    by (intro preserves_intros) (auto simp: disableEnvironmentIfNoStrategies_def map_envs_def)
  moreover have "fd_strategies (fs_db ?s1) = ?S"
    by (simp add: strategies_delete_def remove_strategies_def Let_def)
  ultimately show ?thesis
    unfolding preserves_def on_tables_def by simp
qed

text \<open>Tasks that each replace the strategy with one id, one after the other.\<close>

lemma allS_strategies:
  assumes "\<And>x s y t. x \<in> set xs \<Longrightarrow> f x s = (Inr y, t) \<Longrightarrow>
      fd_strategies (fs_db t) = map (\<lambda>r. if sr_id r = k x then g r else r) (fd_strategies (fs_db s))"
    and id: "\<And>r. sr_id (g r) = sr_id r" "\<And>r. g (g r) = g r"
    and "allS f xs s = (Inr ys, t)"
  shows "fd_strategies (fs_db t) = map (\<lambda>r. if sr_id r \<in> k ` set xs then g r else r) (fd_strategies (fs_db s))"
  using assms(1,4)
proof (induction xs arbitrary: s ys)
  case Nil
  then show ?case by simp
next
  case (Cons x xs)
  from Cons.prems(2) obtain y s1 ys' where x: "f x s = (Inr y, s1)" and xs: "allS f xs s1 = (Inr ys', t)"
    unfolding allS_Inr_Cons by blast
  have "fd_strategies (fs_db s1) = map (\<lambda>r. if sr_id r = k x then g r else r) (fd_strategies (fs_db s))"
    using Cons.prems(1) [OF _ x] by simp
  moreover have "fd_strategies (fs_db t) = map (\<lambda>r. if sr_id r \<in> k ` set xs then g r else r) (fd_strategies (fs_db s1))"
    using Cons.IH [OF _ xs] Cons.prems(1) by simp
  ultimately show ?case by (auto simp: id)
qed


section \<open>Turning an environment on\<close>

text \<open>What activation makes of a strategy: it is on, and its constraints and variants are gone.\<close>

definition activated :: "strategy_row \<Rightarrow> strategy_row" where
  "activated r = r\<lparr>sr_disabled := False, sr_constraints := [], sr_variants := []\<rparr>"

lemma mapStrategyUpdate_activate: "mapStrategyUpdate (no_update\<lparr>su_disabled := Some False\<rparr>) r = activated r"
  by (simp add: mapStrategyUpdate_def no_update_def activated_def)

lemma activated_idem [simp]: "activated (activated r) = activated r" "sr_id (activated r) = sr_id r"
  "sr_feature (activated r) = sr_feature r" "sr_environment (activated r) = sr_environment r"
  "sr_project (activated r) = sr_project r" "\<not> sr_disabled (activated r)"
  by (simp_all add: activated_def)

lemma stop_Inr: "stopWhenChangeRequestsEnabled project e user s = (Inr u, s') \<Longrightarrow> s' = s"
  by (auto simp: stopWhenChangeRequestsEnabled_def stop_project_def feature_iffs split: if_splits)

lemma activate_strategy:
  assumes "updateStrategy cfg key (no_update\<lparr>su_disabled := Some False\<rparr>) project name env by' user s = (Inr p, s')"
  shows "fd_strategies (fs_db s') = map (\<lambda>r. if sr_id r = key then activated r else r) (fd_strategies (fs_db s))"
proof -
  from assms have "unprotectedUpdateStrategy cfg key (no_update\<lparr>su_disabled := Some False\<rparr>) project name env by' user s = (Inr p, s')"
    unfolding updateStrategy_def feature_iffs by (auto dest: stop_Inr)
  then obtain u' where "su_constraints u' = None" "su_variants u' = None"
    "u' = (no_update\<lparr>su_disabled := Some False\<rparr>)\<lparr>su_constraints := su_constraints u', su_variants := su_variants u'\<rparr>"
    "fd_strategies (fs_db s') = map (\<lambda>r. if sr_id r = key then mapStrategyUpdate u' r else r) (fd_strategies (fs_db s))"
    by (rule unprotectedUpdateStrategy_Inr) (simp_all add: no_update_def)
  then show ?thesis
    by (simp add: no_update_def mapStrategyUpdate_def activated_def)
qed

abbreviation strategy_in :: "string \<Rightarrow> string \<Rightarrow> string \<Rightarrow> strategy_row \<Rightarrow> bool" where
  "strategy_in project name env r \<equiv> sr_project r = project \<and> sr_feature r = name \<and> sr_environment r = env"

lemma getStrategiesForEnvironment_Inr:
  assumes "getStrategiesForEnvironment project name env db = Inr strategies"
  shows "p \<in> set strategies \<longleftrightarrow> (\<exists>r\<in>set (fd_strategies db). strategy_in project name env r \<and> p = public_of db r)"
  using assms by (auto simp: getStrategiesForEnvironment_def getStrategiesForFeatureEnv_def split: if_splits)

lemma public_of_fields [simp]: "pb_id (public_of db r) = sr_id r" "pb_disabled (public_of db r) = sr_disabled r"
  by (simp_all add: public_of_def featureStrategyToPublic_def)

text \<open>The three cases of the preparation: strategies are activated, one is added, or nothing is done.\<close>

lemma prepare_strategies_Inr:
  assumes "prepare_strategies cfg project name env by' user activate s = (Inr u, s')"
  obtains
    (activated) "activate" "\<exists>r\<in>set (fd_strategies (fs_db s)). strategy_in project name env r \<and> sr_disabled r"
      "fd_strategies (fs_db s') = map (\<lambda>r. if sr_id r \<in> sr_id ` {r \<in> set (fd_strategies (fs_db s)). strategy_in project name env r}
         then activated r else r) (fd_strategies (fs_db s))"
  | (added) row where "\<not> (activate \<and> (\<exists>r\<in>set (fd_strategies (fs_db s)). strategy_in project name env r \<and> sr_disabled r))"
      "fd_strategies (fs_db s') = fd_strategies (fs_db s) @ [row]" "strategy_in project name env row"
      "sr_disabled row = sc_disabled (strategy_to_add project name env (fs_db s))"
  | (nothing) "\<not> (activate \<and> (\<exists>r\<in>set (fd_strategies (fs_db s)). strategy_in project name env r \<and> sr_disabled r))"
      "s' = s" "\<exists>r\<in>set (fd_strategies (fs_db s)). strategy_in project name env r \<and> \<not> sr_disabled r"
proof -
  let ?act = "\<lambda>p. updateStrategy cfg (pb_id p) (no_update\<lparr>su_disabled := Some False\<rparr>) project name env by' user"
  from assms obtain strategies s1 where st: "getStrategiesForEnvironment project name env (fs_db s) = Inr strategies"
    and act: "whenS (list_ex pb_disabled strategies \<and> activate) (thenS (allS ?act strategies) (returnS ())) s = (Inr (), s1)"
    and add: "whenS (strategies = [] \<or> list_all pb_disabled strategies \<and> \<not> activate)
         (bindS (ask_db (strategy_to_add project name env)) (\<lambda>c.
          thenS (unprotectedCreateStrategy cfg c project name env by' (user_id_of user)) (returnS ()))) s1 = (Inr (), s')"
    unfolding prepare_strategies_def by (auto simp: feature_iffs)
  note mem = getStrategiesForEnvironment_Inr [OF st]
  have ex: "list_ex pb_disabled strategies \<longleftrightarrow> (\<exists>r\<in>set (fd_strategies (fs_db s)). strategy_in project name env r \<and> sr_disabled r)"
    unfolding list_ex_iff using mem by (metis public_of_fields(2))
  consider "list_ex pb_disabled strategies \<and> activate" | "\<not> (list_ex pb_disabled strategies \<and> activate)"
    "strategies = [] \<or> list_all pb_disabled strategies \<and> \<not> activate"
    | "\<not> (list_ex pb_disabled strategies \<and> activate)" "\<not> (strategies = [] \<or> list_all pb_disabled strategies \<and> \<not> activate)"
    by blast
  then show thesis
  proof cases
    case 1
    then have ne: "strategies \<noteq> []" by auto
    from 1 act obtain ys where ys: "allS ?act strategies s = (Inr ys, s1)" by (auto simp: feature_iffs)
    have "fd_strategies (fs_db s1) = map (\<lambda>r. if sr_id r \<in> pb_id ` set strategies then activated r else r) (fd_strategies (fs_db s))"
      by (rule allS_strategies [OF _ _ _ ys]) (auto dest: activate_strategy)
    moreover have "pb_id ` set strategies = sr_id ` {r \<in> set (fd_strategies (fs_db s)). strategy_in project name env r}"
    proof -
      have "set strategies = public_of (fs_db s) ` {r \<in> set (fd_strategies (fs_db s)). strategy_in project name env r}"
        using mem by blast
      then show ?thesis by (simp add: image_image)
    qed
    moreover have "s' = s1" using add ne 1 by (auto simp: whenS_Inr_iff)
    moreover have "\<exists>r\<in>set (fd_strategies (fs_db s)). strategy_in project name env r \<and> sr_disabled r"
      using 1 ex by blast
    ultimately show thesis using activated 1 by simp
  next
    case 2
    then have "s1 = s" using act by (auto simp: whenS_Inr_iff)
    with 2 add obtain p where
      "unprotectedCreateStrategy cfg (strategy_to_add project name env (fs_db s)) project name env by' (user_id_of user) s = (Inr p, s')"
      by (auto simp: feature_iffs)
    then show thesis by (rule unprotectedCreateStrategy_Inr) (use added 2(1) ex in auto)
  next
    case 3
    then have "s1 = s" using act by (auto simp: whenS_Inr_iff)
    with 3 add have same: "s' = s" by (auto simp: whenS_Inr_iff)
    have no: "\<not> (activate \<and> (\<exists>r\<in>set (fd_strategies (fs_db s)). strategy_in project name env r \<and> sr_disabled r))"
      using 3(1) ex by blast
    have "\<exists>p\<in>set strategies. \<not> pb_disabled p"
      using 3 by (auto simp: list_ex_iff list_all_iff neq_Nil_conv)
    then have "\<exists>r\<in>set (fd_strategies (fs_db s)). strategy_in project name env r \<and> \<not> sr_disabled r"
      using mem by (metis public_of_fields(2))
    with no same show thesis by (rule nothing)
  qed
qed

lemma unprotectedUpdateEnabled_True:
  assumes "unprotectedUpdateEnabled cfg project name env True by' user activate s = (Inr t, s')"
  obtains s1 where "featureHasEnvironment env name (fs_db s)"
    "prepare_strategies cfg project name env by' user activate s = (Inr (), s1)"
    "fs_db s' = snd (setEnvironmentEnabledStatus env name True (fs_db s1))"
proof -
  from assms obtain u s0 s1 where c: "updateEnabled_checks project name env s = (Inr u, s0)"
    and p: "prepare_strategies cfg project name env by' user activate s0 = (Inr (), s1)"
    and e: "set_enabled project name env True by' user s1 = (Inr t, s')"
    unfolding unprotectedUpdateEnabled_def feature_iffs by auto
  from updateEnabled_checks_Inr [OF c] p set_enabled_Inr [OF e] show thesis
    by (intro that) simp_all
qed

lemma prepare_activates:
  assumes "prepare_strategies cfg project name env by' user True s = (Inr u, s')"
    "d \<in> set (fd_strategies (fs_db s))" "strategy_in project name env d" "sr_disabled d"
  shows "fd_strategies (fs_db s') = map (\<lambda>r. if sr_id r \<in> sr_id ` {r \<in> set (fd_strategies (fs_db s)). strategy_in project name env r}
     then activated r else r) (fd_strategies (fs_db s))"
  using assms(1) by (cases rule: prepare_strategies_Inr) (use assms(2-4) in blast)+

text \<open>The environments a feature has are not touched, only their status.\<close>

abbreviation envs_stay :: "(string \<times> string) list \<Rightarrow> 'a feature_op \<Rightarrow> bool" where
  "envs_stay K \<equiv> preserves (on_tables (\<lambda>db. map en_key (fd_envs db) = K))"

lemma setEnvironmentEnabledStatus_keys:
  "map en_key (fd_envs (snd (setEnvironmentEnabledStatus env name b db))) = map en_key (fd_envs db)"
  by (simp add: setEnvironmentEnabledStatus_def Let_def map_envs_def en_key_def)

lemma envs_set_enabled [preserves_intros]: "envs_stay K (set_enabled project name env b by' user)"
  unfolding set_enabled_def
  by (intro preserves_intros) (auto simp: setEnvironmentEnabledStatus_def Let_def map_envs_def en_key_def)

lemma envs_optionallyDisableFeature [preserves_intros]: "envs_stay K (optionallyDisableFeature cfg name env project by' user)"
  unfolding optionallyDisableFeature_def disable_environment_def updateEnabled_checks_def by (intro preserves_intros)

lemma envs_updateStrategySegments [preserves_intros]: "envs_stay K (updateStrategySegments cfg key ids)"
  unfolding updateStrategySegments_def addToStrategy_def
  by (intro preserves_intros) (auto simp: removeFromStrategy_def store_addToStrategy_def split: if_splits)

lemma envs_updateStrategy [preserves_intros]: "envs_stay K (updateStrategy cfg key u project name env by' user)"
  unfolding updateStrategy_def unprotectedUpdateStrategy_def
  by (intro preserves_intros) (auto simp: store_updateStrategy_def map_strategies_def split: option.splits)

lemma envs_createStrategy [preserves_intros]: "envs_stay K (unprotectedCreateStrategy cfg c project name env by' uid)"
proof -
  have "envs_stay K (createStrategyFeatureEnv cfg project name env c')" for c'
    by (auto simp: preserves_def on_tables_def createStrategyFeatureEnv_def Let_def with_fdb_def split: sum.splits)
  then show ?thesis
    unfolding unprotectedCreateStrategy_def insert_strategy_def by (intro preserves_intros)
qed

lemma envs_prepare_strategies: "envs_stay K (prepare_strategies cfg project name env by' user activate)"
  unfolding prepare_strategies_def by (intro preserves_intros)

lemma enabled_environment_exists:
  assumes "unprotectedUpdateEnabled cfg project name env True by' user activate s = (Inr t, s')"
  shows "\<exists>e\<in>set (fd_envs (fs_db s')). is_env name env e"
proof -
  from assms obtain s1 where h: "featureHasEnvironment env name (fs_db s)"
    and p: "prepare_strategies cfg project name env by' user activate s = (Inr (), s1)"
    and s': "fs_db s' = snd (setEnvironmentEnabledStatus env name True (fs_db s1))"
    by (rule unprotectedUpdateEnabled_True)
  have "map en_key (fd_envs (fs_db s')) = map en_key (fd_envs (fs_db s))"
    using on_tables_after [OF envs_prepare_strategies p] by (simp add: s' setEnvironmentEnabledStatus_keys)
  then have keys: "en_key ` set (fd_envs (fs_db s')) = en_key ` set (fd_envs (fs_db s))" by (metis list.set_map)
  have "(name, env) \<in> en_key ` set (fd_envs (fs_db s))"
    using h by (force simp: featureHasEnvironment_def list_ex_iff is_env_def en_key_def)
  then show ?thesis
    unfolding keys [symmetric] by (auto simp: is_env_def en_key_def)
qed


section \<open>Deletion of a strategy\<close>

lemma unprotectedDeleteStrategy_off:
  assumes "unprotectedDeleteStrategy key project name env by' user s = (Inr u, s')"
    and off: "\<forall>r\<in>set (fd_strategies (fs_db s')). sr_feature r = name \<and> sr_environment r = env \<longrightarrow> sr_disabled r"
    and e: "e \<in> set (fd_envs (fs_db s'))" "is_env name env e"
  shows "\<not> en_enabled e"
proof -
  let ?db = "strategies_delete key (fs_db s)"
  let ?left = "getStrategiesForFeatureEnv project name env ?db"
  from assms(1) obtain s1 where
    w: "whenS (list_all sr_disabled ?left) (thenS (disable_environment project name env by' user) (returnS ())) (s\<lparr>fs_db := ?db\<rparr>) = (Inr (), s1)"
    and s': "fs_db s' = disableEnvironmentIfNoStrategies name env (fs_db s1)"
    unfolding unprotectedDeleteStrategy_def by (auto simp: feature_iffs)
  have "strategies_stay S (whenS (list_all sr_disabled ?left) (thenS (disable_environment project name env by' user) (returnS ())))" for S
    by (intro preserves_intros)
  from on_tables_after [OF this w] have "fd_strategies (fs_db s1) = fd_strategies ?db" by simp
  then have "fd_strategies (fs_db s') = fd_strategies ?db"
    by (simp add: s' disableEnvironmentIfNoStrategies_def map_envs_def)
  with off have "list_all sr_disabled ?left"
    by (auto simp: getStrategiesForFeatureEnv_def list_all_iff)
  with w have s1: "fs_db s1 = snd (setEnvironmentEnabledStatus env name False ?db)"
    by (auto simp: feature_iffs dest: disable_environment_Inr)
  from e(1) obtain x where x: "x \<in> set (fd_envs (fs_db s1))" "e = x \<or> e = x\<lparr>en_enabled := False\<rparr>"
    by (auto simp: s' disableEnvironmentIfNoStrategies_def map_envs_def split: if_splits)
  from x(2) show ?thesis
  proof
    assume "e = x"
    with x(1) e(2) setEnvironmentEnabledStatus_enabled show ?thesis unfolding s1 by metis
  qed simp
qed

end
