(* ===== verification/FeatureProperties.thy ===== *)
theory FeatureProperties
  imports FeatureEffects EvaluatorProperties
begin

text \<open>
  The properties of the services for features, strategies, segments and dependencies.
\<close>

section \<open>A configuration and tables for the witnesses\<close>

definition fcfg0 :: feature_config where
  "fcfg0 = \<lparr>fc_now = 1000, fc_uuid = (\<lambda>n. ''id-'' @ show_nat n), fc_collate = (\<lambda>s. s), fc_regex = (\<lambda>_ _. True),
     fc_json = (\<lambda>s. s), fc_is_json = (\<lambda>_. True), fc_is_number = (\<lambda>_. True), fc_is_date = (\<lambda>_. True),
     fc_semver_clean = Some, fc_semver_parses = (\<lambda>_. True), fc_strategySegmentsLimit = 5,
     fc_segmentValuesLimit = 1000, fc_isEnterprise = False\<rparr>"

definition frow0 :: "string \<Rightarrow> string \<Rightarrow> int option \<Rightarrow> feature_row" where
  "frow0 name project archived = \<lparr>ft_name = name, ft_description = None, ft_type = ''release'', ft_project = project,
     ft_stale = False, ft_created_at = 0, ft_last_seen_at = None, ft_impression_data = False,
     ft_archived_at = archived, ft_created_by_user_id = None, ft_potentially_stale = None\<rparr>"

definition wv0 :: "string \<Rightarrow> int \<Rightarrow> string \<Rightarrow> weighted_variant" where
  "wv0 name weight ty = \<lparr>vd_name = name, vd_weight = weight, vd_stickiness = None, vd_payload = None,
     vd_overrides = None, wv_weightType = Some ty\<rparr>"

definition cond0 :: constraint where
  "cond0 = \<lparr>contextName = ''userId'', operator = IN, inverted = False, vals = [''7''], cvalue = None, caseInsensitive = None\<rparr>"

definition srow0 :: "string \<Rightarrow> string \<Rightarrow> bool \<Rightarrow> strategy_row" where
  "srow0 key env disabled = \<lparr>sr_id = key, sr_feature = ''a'', sr_project = ''p'', sr_environment = env, sr_name = ''default'',
     sr_title = None, sr_parameters = Map.empty, sr_constraints = [cond0], sr_variants = [wv0 ''v'' 1000 ''variable''],
     sr_sort_order = 0, sr_created_at = 0, sr_disabled = disabled\<rparr>"

definition fenv0 :: "string \<Rightarrow> string \<Rightarrow> bool \<Rightarrow> feature_env" where
  "fenv0 name env enabled = \<lparr>en_environment = env, en_feature = name, en_enabled = enabled, en_variants = []\<rparr>"

definition fdb0 :: feature_db where
  "fdb0 = \<lparr>fd_features = [frow0 ''a'' ''p'' None, frow0 ''b'' ''p'' None, frow0 ''c'' ''p'' None, frow0 ''old'' ''p'' (Some 5)],
     fd_envs = [fenv0 ''a'' ''dev'' False, fenv0 ''a'' ''prod'' True, fenv0 ''old'' ''dev'' True],
     fd_strategies = [srow0 ''s1'' ''dev'' True, srow0 ''s2'' ''prod'' False],
     fd_segments = [], fd_strategy_segments = [],
     fd_dependencies = [\<lparr>dr_parent = ''a'', dr_child = ''b'', dr_enabled = True, dr_variants = []\<rparr>],
     fd_environments = [\<lparr>nv_name = ''dev'', nv_type = ''development'', nv_sort_order = 1, nv_enabled = True, nv_protected = False\<rparr>,
                        \<lparr>nv_name = ''prod'', nv_type = ''production'', nv_sort_order = 2, nv_enabled = True, nv_protected = False\<rparr>],
     fd_projects = [\<lparr>pj_id = ''p'', pj_name = ''P'', pj_description = None, pj_created_at = 0, pj_health = 100,
                      pj_updated_at = None, pj_has_settings = False, pj_mode = None, pj_naming_pattern = None, pj_naming_example = None, pj_naming_description = None,
                      pj_default_stickiness = None, pj_feature_limit = None\<rparr>],
     fd_project_envs = [\<lparr>pv_project = ''p'', pv_environment = ''dev'', pv_default_strategy = None\<rparr>],
     fd_context_fields = [(''userId'', [])], fd_strategy_types = [''default'', ''flexibleRollout''],
     fd_change_requests = [(''p'', ''prod'')], fd_cr_segments = [], fd_tags = [], fd_feature_types = [(''release'', Some 40)],
     fd_next_segment = 1, fd_message = (\<lambda>c. c)\<rparr>"

definition dto0 :: "bool option \<Rightarrow> feature_dto" where
  "dto0 archived = \<lparr>dto_name = ''a'', dto_description = None, dto_type = None, dto_stale = None, dto_archived = archived,
     dto_createdAt = None, dto_impressionData = None, dto_variants = None, dto_createdByUserId = None\<rparr>"

definition facc0 :: access_service where
  "facc0 = \<lparr>as_db = \<lparr>ac_roles = [], ac_role_user = [], ac_group_role = [], ac_groups = [], ac_group_user = [],
      ac_role_permission = [], ac_permissions = [], ac_users = [], ac_projects = [], ac_personal_tokens = [],
      ac_signup_users = [], ac_next_role = 1, ac_next_group = 21, ac_message = (\<lambda>c. c)\<rparr>, as_environments = [], as_events = []\<rparr>"

definition fsvc0 :: feature_service where
  "fsvc0 = \<lparr>fs_db = fdb0, fs_access = facc0, fs_events = [], fs_drawn = 0\<rparr>"

lemmas feature_fixtures = fsvc0_def fdb0_def fenv0_def srow0_def wv0_def frow0_def

lemma fdb0_ok: "feature_db_ok fdb0"
  by (simp add: catalog_ok_def link_key_def environment_names_def ok_defs feature_keys_def feature_fixtures en_key_def variants_ok_def)

lemma fsvc0_db [simp]: "fs_db fsvc0 = fdb0"
  by (simp add: fsvc0_def)


section \<open>Reachable states\<close>





text \<open>
  In every reachable state, a strategy with variants gives one of them to every context: the
  evaluator's choice by weight never comes out empty.
\<close>

theorem reachable_strategy_variants:
  assumes "(feature_step cfg)\<^sup>*\<^sup>* s s'" and "feature_db_ok (fs_db s)"
    and "r \<in> set (fd_strategies (fs_db s'))" and "sr_variants r \<noteq> []"
  shows "\<exists>v\<in>set (map variant_def.truncate (sr_variants r)).
    fst (selectVariantDefinition rt name (map variant_def.truncate (sr_variants r)) ctx n) = Some v"
proof -
  let ?vs = "map variant_def.truncate (sr_variants r)"
  have "variants_ok (sr_variants r)"
    using feature_reachable_ok [OF assms(1)] assms(2,3) by (simp add: on_tables_def feature_db_ok_def strategies_ok_def)
  then have w: "\<forall>v\<in>set (sr_variants r). 0 \<le> vd_weight v" "sum_list (map vd_weight (sr_variants r)) = 1000"
    using assms(4) by (simp_all add: variants_ok_def)
  have trunc: "vd_weight (variant_def.truncate v) = vd_weight v" for v :: weighted_variant
    by (simp add: variant_def.truncate_def)
  have "nonneg_weights ?vs" and total: "0 < total_weight ?vs"
    using w by (auto simp: nonneg_weights_def total_weight_sum_list trunc comp_def)
  from select_variant_total [OF this(1), where rt = rt and g = name and ctx = ctx and n = n] total show ?thesis
    by (auto split: option.splits)
qed

theorem reachable_strategy_variants_witness:
  "\<exists>v\<in>set (map variant_def.truncate (sr_variants (srow0 ''s1'' ''dev'' True))).
     fst (selectVariantDefinition rt0 ''a'' (map variant_def.truncate (sr_variants (srow0 ''s1'' ''dev'' True)))
       ctx0 0) = Some v"
  by (rule reachable_strategy_variants [of fcfg0 fsvc0 fsvc0]) (simp_all add: fdb0_ok, simp_all add: fdb0_def srow0_def)


section \<open>Weights\<close>

text \<open>
  C9: variants that pass the checks get weights of 0 to 1000 that add up to exactly 1000. The fixed ones
  keep theirs, and the variable ones share the rest: they differ by at most one and change in nothing else.
\<close>

theorem variant_weights_distribution:
  assumes "checked_variants cfg vs = Inr ws" and "vs \<noteq> []"
  shows "sum_list (map vd_weight ws) = 1000 \<and> (\<forall>w\<in>set ws. 0 \<le> vd_weight w \<and> vd_weight w \<le> 1000) \<and>
    mset (filter (\<lambda>v. wv_weightType v = Some ''fix'') ws) = mset (filter (\<lambda>v. wv_weightType v = Some ''fix'') vs) \<and>
    image_mset (\<lambda>v. v\<lparr>vd_weight := 0\<rparr>) (mset (filter (\<lambda>v. wv_weightType v = Some ''variable'') ws)) =
      image_mset (\<lambda>v. v\<lparr>vd_weight := 0\<rparr>) (mset (filter (\<lambda>v. wv_weightType v = Some ''variable'') vs)) \<and>
    (\<forall>v\<in>set ws. \<forall>w\<in>set ws. wv_weightType v = Some ''variable'' \<longrightarrow> wv_weightType w = Some ''variable'' \<longrightarrow>
       \<bar>vd_weight v - vd_weight w\<bar> \<le> 1)"
proof -
  from assms(1) have f: "fixVariantWeights cfg vs = Inr ws" by (auto simp: checked_variants_def bindR_Inr_iff)
  have ok: "variants_ok ws" by (rule checked_variants_ok [OF assms(1)])
  have total: "sum_list (map vd_weight ws) = 1000" by (rule fixVariantWeights_total [OF f assms(2)])
  then have nn: "\<forall>w\<in>set ws. 0 \<le> vd_weight w" using ok by (auto simp: variants_ok_def)
  have "vd_weight w \<le> sum_list (map vd_weight ws)" if "w \<in> set ws" for w
    using that nn by (intro member_le_sum_list) auto
  then have le: "\<forall>w\<in>set ws. vd_weight w \<le> 1000" using total by simp
  from f show ?thesis
  proof (cases rule: fixVariantWeights_cases)
    case 1
    with assms(2) show ?thesis by simp
  next
    case (2 variable fixed k avg r)
    let ?d = "distribute avg (nat r) variable"
    have ty: "\<forall>v\<in>set ?d. wv_weightType v = Some ''variable''"
      using distribute_types 2(1) by fastforce
    have ws: "mset (filter P ws) = mset (filter P (?d @ fixed))" for P
      using 2(8) by (simp only: mset_filter sort_variants_mset)
    have "filter (\<lambda>v. wv_weightType v = Some ''fix'') (?d @ fixed) = fixed"
      using ty 2(2) by (simp add: filter_empty_conv)
    then have fix_ws: "mset (filter (\<lambda>v. wv_weightType v = Some ''fix'') ws) = mset fixed" by (simp only: ws)
    have "filter (\<lambda>v. wv_weightType v = Some ''variable'') (?d @ fixed) = ?d"
      using ty 2(2) by (simp add: filter_empty_conv)
    then have var_ws: "mset (filter (\<lambda>v. wv_weightType v = Some ''variable'') ws) = mset ?d" by (simp only: ws)
    have "vd_weight v = avg \<or> vd_weight v = avg + 1" if "v \<in> set ws" "wv_weightType v = Some ''variable''" for v
    proof -
      have "v \<in># mset (filter (\<lambda>v. wv_weightType v = Some ''variable'') ws)" using that by simp
      then show ?thesis unfolding var_ws using distribute_weights by fastforce
    qed
    then have "\<forall>v\<in>set ws. \<forall>w\<in>set ws. wv_weightType v = Some ''variable'' \<longrightarrow> wv_weightType w = Some ''variable'' \<longrightarrow>
       \<bar>vd_weight v - vd_weight w\<bar> \<le> 1" by (smt (verit))
    with total nn le fix_ws var_ws 2(1,2) distribute_mset [of avg "nat r" variable] show ?thesis by simp
  qed
qed

theorem variant_weights_distribution_witness:
  "sum_list (map vd_weight [wv0 ''x'' 334 ''variable'', wv0 ''y'' 333 ''variable'', wv0 ''z'' 333 ''variable'']) = 1000"
  using variant_weights_distribution [of fcfg0 "[wv0 ''x'' 0 ''variable'', wv0 ''y'' 0 ''variable'', wv0 ''z'' 0 ''variable'']"
      "[wv0 ''x'' 334 ''variable'', wv0 ''y'' 333 ''variable'', wv0 ''z'' 333 ''variable'']"]
  by (simp add: wv0_def)


section \<open>Turning features on and off\<close>

text \<open>
  C21: where turning an environment on succeeds, the environment is on and the feature has a strategy
  there that is not disabled, unless the strategy that was added for it is itself a disabled default.
\<close>

theorem enabling_gives_active_strategy:
  assumes "unprotectedUpdateEnabled cfg project name env True who user activate s = (Inr t, s')"
    and "\<not> sc_disabled (strategy_to_add project name env (fs_db s))"
  shows "(\<exists>e\<in>set (fd_envs (fs_db s')). is_env name env e \<and> en_enabled e) \<and>
    (\<exists>r\<in>set (fd_strategies (fs_db s')). strategy_in project name env r \<and> \<not> sr_disabled r)"
proof -
  from assms(1) obtain s1 where p: "prepare_strategies cfg project name env who user activate s = (Inr (), s1)"
    and s': "fs_db s' = snd (setEnvironmentEnabledStatus env name True (fs_db s1))"
    by (rule unprotectedUpdateEnabled_True)
  have st: "fd_strategies (fs_db s') = fd_strategies (fs_db s1)" by (simp add: s' setEnvironmentEnabledStatus_fields)
  have "\<exists>r\<in>set (fd_strategies (fs_db s1)). strategy_in project name env r \<and> \<not> sr_disabled r"
    using p
  proof (cases rule: prepare_strategies_Inr)
    case activated
    from activated(2) obtain d where d: "d \<in> set (fd_strategies (fs_db s))" "strategy_in project name env d" by blast
    then have "activated d \<in> set (fd_strategies (fs_db s1))" using activated(3) by auto
    with d(2) show ?thesis by (intro bexI [of _ "activated d"]) simp_all
  next
    case (added row)
    then show ?thesis using assms(2) by auto
  qed auto
  moreover have "\<exists>e\<in>set (fd_envs (fs_db s')). is_env name env e"
    using enabled_environment_exists [OF assms(1)] .
  then obtain e where e: "e \<in> set (fd_envs (fs_db s'))" "is_env name env e" by blast
  then have "en_enabled e" using setEnvironmentEnabledStatus_enabled [of e env name True] by (simp add: s')
  ultimately show ?thesis using e unfolding st by blast
qed

lemma fsvc0_enables:
  obtains t s' where "unprotectedUpdateEnabled fcfg0 ''p'' ''a'' ''dev'' True ''me'' None True fsvc0 = (Inr t, s')"
proof -
  let ?u = "updateStrategy fcfg0 ''s1'' (no_update\<lparr>su_disabled := Some False\<rparr>) ''p'' ''a'' ''dev'' ''me'' None fsvc0"
  have "isl (fst ?u) = False" by code_simp
  then obtain p s1 where u: "?u = (Inr p, s1)" using succeeds by blast
  have st: "getStrategiesForEnvironment ''p'' ''a'' ''dev'' fdb0 = Inr [public_of fdb0 (srow0 ''s1'' ''dev'' True)]"
    by (simp add: getStrategiesForEnvironment_def getStrategiesForFeatureEnv_def featureHasEnvironment_def is_env_def fdb0_def fenv0_def srow0_def)
  have prep: "prepare_strategies fcfg0 ''p'' ''a'' ''dev'' ''me'' None True fsvc0 = (Inr (), s1)"
    using u st by (simp add: prepare_strategies_def bindS_def thenS_def try_db_def whenS_def srow0_def)
  have c: "isl (fst (updateEnabled_checks ''p'' ''a'' ''dev'' fsvc0)) = False" by code_simp
  then obtain x where checks: "updateEnabled_checks ''p'' ''a'' ''dev'' fsvc0 = (Inr x, fsvc0)"
    using updateEnabled_checks_Inr(1) succeeds by metis
  have "isl (fst (set_enabled ''p'' ''a'' ''dev'' True ''me'' None (snd ?u))) = False" by code_simp
  then obtain t s' where "set_enabled ''p'' ''a'' ''dev'' True ''me'' None s1 = (Inr t, s')"
    using succeeds unfolding u snd_conv by blast
  with prep checks show thesis
    by (intro that) (simp add: unprotectedUpdateEnabled_def thenS_def bindS_def whenS_def)
qed

theorem enabling_gives_active_strategy_witness:
  "\<exists>e\<in>set (fd_envs (fs_db (snd (unprotectedUpdateEnabled fcfg0 ''p'' ''a'' ''dev'' True ''me'' None True fsvc0)))).
     is_env ''a'' ''dev'' e \<and> en_enabled e"
proof (rule fsvc0_enables)
  fix t s' assume r: "unprotectedUpdateEnabled fcfg0 ''p'' ''a'' ''dev'' True ''me'' None True fsvc0 = (Inr t, s')"
  show ?thesis
    unfolding r using enabling_gives_active_strategy [OF r] by (simp add: strategy_to_add_def fdb0_def store_getDefaultStrategy_def
      default_strategy_input_def getDefaultStrategy_def strategy_config.defs)
qed

text \<open>
  C26: once a strategy is updated or deleted, the environment of the request is off if all strategies of
  the feature in it are disabled.
\<close>

theorem last_active_strategy_off:
  assumes "updateStrategy cfg key u project name env who user s = (Inr p, s') \<or>
      deleteStrategy key project name env who user s = (Inr (), s')"
    and "\<forall>r\<in>set (fd_strategies (fs_db s')). sr_feature r = name \<and> sr_environment r = env \<longrightarrow> sr_disabled r"
    and "e \<in> set (fd_envs (fs_db s'))" and "is_env name env e"
  shows "\<not> en_enabled e"
  using assms(1)
proof
  assume "updateStrategy cfg key u project name env who user s = (Inr p, s')"
  then have "unprotectedUpdateStrategy cfg key u project name env who user s = (Inr p, s')"
    unfolding updateStrategy_def feature_iffs by (auto dest: stop_Inr)
  then obtain s1 where "fd_strategies (fs_db s1) = fd_strategies (fs_db s')"
    "optionallyDisableFeature cfg name env project who user s1 = (Inr (), s')"
    by (rule unprotectedUpdateStrategy_Inr) blast
  with assms(2-4) show ?thesis using optionallyDisableFeature_Inr by simp
next
  assume "deleteStrategy key project name env who user s = (Inr (), s')"
  then have "unprotectedDeleteStrategy key project name env who user s = (Inr (), s')"
    unfolding deleteStrategy_def feature_iffs by (auto dest: stop_Inr)
  then show ?thesis
    using unprotectedDeleteStrategy_off assms(2-4) by blast
qed

theorem last_active_strategy_off_witness:
  "filter (\<lambda>e. is_env ''a'' ''dev'' e \<and> en_enabled e)
     (fd_envs (fs_db (snd (deleteStrategy ''s1'' ''p'' ''a'' ''dev'' ''me'' None fsvc0)))) = []"
proof -
  let ?r = "deleteStrategy ''s1'' ''p'' ''a'' ''dev'' ''me'' None fsvc0"
  have "isl (fst ?r) = False" by code_simp
  then obtain s' where r: "?r = (Inr (), s')" using succeeds by fastforce
  have "map sr_environment (fd_strategies (fs_db (snd ?r))) = [''prod'']" by code_simp
  then have "set (map sr_environment (fd_strategies (fs_db s'))) = {''prod''}" unfolding r by simp
  then have "\<forall>r\<in>set (fd_strategies (fs_db s')). sr_environment r = ''prod''" by (metis list.set_map image_eqI singletonD)
  then have "\<forall>r\<in>set (fd_strategies (fs_db s')). sr_feature r = ''a'' \<and> sr_environment r = ''dev'' \<longrightarrow> sr_disabled r" by simp
  with last_active_strategy_off [OF disjI2 [OF r]] show ?thesis
    unfolding r by (simp add: filter_empty_conv)
qed




text \<open>
  the strategy a request names need not be in the environment the request is checked for: whoever
  may work without change requests in one environment of the project can delete the strategies of an
  environment where change requests are required.
\<close>

theorem strategy_environment_unchecked:
  assumes "canBypassChangeRequest project env user s" and "env \<noteq> []"
    and "strategies_get key (fs_db s) = Inr r" "sr_project r = project" "sr_feature r = name"
      "sr_parameters r ''stickiness'' \<noteq> Some []"
    and "\<not> canBypassChangeRequest project (sr_environment r) user s"
  shows "fd_strategies (fs_db (snd (deleteStrategy key project name env who user s))) =
    filter (\<lambda>q. sr_id q \<noteq> key) (fd_strategies (fs_db s))"
proof -
  have "stopWhenChangeRequestsEnabled project (Some env) user s = (Inr (), s)"
    using assms(1,2) by (simp add: stopWhenChangeRequestsEnabled_def truthy_iff)
  then have "deleteStrategy key project name env who user s = unprotectedDeleteStrategy key project name env who user s"
    by (simp add: deleteStrategy_def thenS_def bindS_def)
  moreover have "validateUpdatedProperties name project r = Inr ()"
    using assms(4-6) by (simp add: validateUpdatedProperties_def)
  ultimately show ?thesis
    using unprotectedDeleteStrategy_strategies [OF assms(3)] by simp
qed

theorem strategy_environment_unchecked_witness:
  "isChangeRequestsEnabled ''p'' ''prod'' fdb0 \<and>
   fd_strategies (fs_db (snd (deleteStrategy ''s2'' ''p'' ''a'' ''dev'' ''me'' None fsvc0))) = [srow0 ''s1'' ''dev'' True]"
proof
  show "isChangeRequestsEnabled ''p'' ''prod'' fdb0"
    by (simp add: isChangeRequestsEnabled_def fdb0_def)
  have "fd_strategies (fs_db (snd (deleteStrategy ''s2'' ''p'' ''a'' ''dev'' ''me'' None fsvc0))) =
      filter (\<lambda>q. sr_id q \<noteq> ''s2'') (fd_strategies (fs_db fsvc0))"
    by (rule strategy_environment_unchecked [where r = "srow0 ''s2'' ''prod'' False"])
      (simp_all add: canBypassChangeRequest_def may_def isChangeRequestsEnabled_def strategies_get_def fdb0_def srow0_def)
  then show "fd_strategies (fs_db (snd (deleteStrategy ''s2'' ''p'' ''a'' ''dev'' ''me'' None fsvc0))) = [srow0 ''s1'' ''dev'' True]"
    by (simp add: fdb0_def srow0_def)
qed


section \<open>Archive and metadata\<close>

text \<open>
  whether a feature is archived after its metadata were put is decided by the body alone, absent for
  not archived. Environments and dependencies stay: a revived feature is on where it was, and a parent
  is archived with children that depend on it.
\<close>

theorem put_decides_archival:
  assumes "updateFeatureToggle cfg project body who name uid s = (Inr t, s')"
  shows "fd_envs (fs_db s') = fd_envs (fs_db s) \<and> fd_dependencies (fs_db s') = fd_dependencies (fs_db s) \<and>
    (\<forall>r\<in>set (fd_features (fs_db s')). ft_name r = name \<longrightarrow>
       ft_archived_at r = (if dto_archived body = Some True then Some (fc_now cfg) else None))"
proof -
  from assms obtain data db' where data: "featureMetadataSchema cfg body = Inr data"
    and w: "features_update cfg project (data\<lparr>dto_name := name\<rparr>) (fs_db s) = Inr (t, db')" and s': "fs_db s' = db'"
    unfolding updateFeatureToggle_def by (auto simp: feature_iffs)
  have "dto_archived data = Some (default False (dto_archived body))"
    using data by (auto simp: featureMetadataSchema_def Let_def bindR_Inr_iff)
  then have "ft_archived_at (dtoToUpdateRow cfg project (data\<lparr>dto_name := name\<rparr>) r) =
      (if dto_archived body = Some True then Some (fc_now cfg) else None)" for r
    by (cases "dto_archived body") (simp_all add: dtoToUpdateRow_def)
  moreover have "ft_name (dtoToUpdateRow cfg project (data\<lparr>dto_name := name\<rparr>) r) = ft_name r" for r
    by (simp add: dtoToUpdateRow_def)
  moreover have "db' = map_features (\<lambda>r. ft_name r = name) (dtoToUpdateRow cfg project (data\<lparr>dto_name := name\<rparr>)) (fs_db s)"
    using w by (auto simp: features_update_def update_one_def split: option.splits)
  ultimately obtain f where f: "\<And>r. ft_archived_at (f r) = (if dto_archived body = Some True then Some (fc_now cfg) else None)"
    "\<And>r. ft_name (f r) = ft_name r" "db' = map_features (\<lambda>r. ft_name r = name) f (fs_db s)"
    by blast
  have "ft_archived_at r = (if dto_archived body = Some True then Some (fc_now cfg) else None)"
    if r: "r \<in> set (fd_features db')" "ft_name r = name" for r
  proof -
    obtain x where x: "r = (if ft_name x = name then f x else x)"
      using r(1) unfolding f(3) map_features_def by force
    with r(2) have "r = f x" by (cases "ft_name x = name") simp_all
    then show ?thesis by (simp only: f(1))
  qed
  moreover have "fd_envs db' = fd_envs (fs_db s)" "fd_dependencies db' = fd_dependencies (fs_db s)"
    by (simp_all add: f(3) map_features_def)
  ultimately show ?thesis unfolding s' by blast
qed

theorem put_decides_archival_witness:
  "filter (\<lambda>r. ft_name r = ''a'' \<and> ft_archived_at r \<noteq> Some 1000)
     (fd_features (fs_db (snd (updateFeatureToggle fcfg0 ''p'' (dto0 (Some True)) ''me'' ''a'' 1 fsvc0)))) = []"
proof -
  let ?r = "updateFeatureToggle fcfg0 ''p'' (dto0 (Some True)) ''me'' ''a'' 1 fsvc0"
  have "isl (fst ?r) = False" by code_simp
  then obtain t s' where r: "?r = (Inr t, s')" using succeeds by blast
  show ?thesis unfolding r using put_decides_archival [OF r] by (simp add: dto0_def fcfg0_def filter_empty_conv)
qed

text \<open>
  Revived features are not archived any more and off in every environment; nothing else changes in
  the features and their environments.
\<close>

theorem revived_features_off:
  assumes "reviveFeatures names project who uid s = (Inr u, s')"
  defines "revived \<equiv> \<lambda>n. n \<in> set names \<and> (\<exists>r\<in>set (fd_features (fs_db s)). ft_name r = n \<and> ft_archived_at r \<noteq> None)"
  shows "fd_features (fs_db s') = map (\<lambda>r. if revived (ft_name r) then r\<lparr>ft_archived_at := None\<rparr> else r) (fd_features (fs_db s)) \<and>
    fd_envs (fs_db s') = map (\<lambda>e. if revived (en_feature e) then e\<lparr>en_enabled := False\<rparr> else e) (fd_envs (fs_db s))"
proof -
  let ?names = "map tf_name (archived_of names (fs_db s))"
  have names: "n \<in> set ?names \<longleftrightarrow> revived n" for n
    unfolding revived_def archived_of_def getAllByNames_def by (force simp: rowToFeature_def)
  let ?s1 = "s\<lparr>fs_db := disableAllEnvironmentsForFeatures ?names (batchRevive ?names (fs_db s))\<rparr>"
  have member: "List.member ?names n \<longleftrightarrow> revived n" for n
    unfolding List.member_iff names ..
  from assms(1) have ev: "eachS (\<lambda>t. store_event FeatureRevived (Some (tf_project t)) (Some (tf_name t)) who uid)
      (archived_of names (fs_db s)) ?s1 = (Inr u, s')"
    unfolding reviveFeatures_def by (auto simp: feature_iffs)
  have "preserves (on_tables (\<lambda>db. db = X)) (eachS (\<lambda>t. store_event FeatureRevived (Some (tf_project t)) (Some (tf_name t)) who uid) ts)" for X ts
    by (intro preserves_intros)
  from on_tables_after [OF this ev] have s': "fs_db s' = fs_db ?s1" by simp
  show ?thesis
    unfolding s' disableAllEnvironmentsForFeatures_def batchRevive_def map_envs_def map_features_def
    by (simp add: member del: List.member_iff)
qed

theorem revived_features_off_witness:
  "filter (\<lambda>e. en_feature e = ''old'' \<and> en_enabled e)
     (fd_envs (fs_db (snd (reviveFeatures [''old''] ''p'' ''me'' 1 fsvc0)))) = []"
proof -
  let ?r = "reviveFeatures [''old''] ''p'' ''me'' 1 fsvc0"
  have "isl (fst ?r) = False" by code_simp
  then obtain u s' where r: "?r = (Inr u, s')" using succeeds by blast
  have "\<exists>r\<in>set (fd_features fdb0). ft_name r = ''old'' \<and> ft_archived_at r \<noteq> None"
    by (simp add: fdb0_def frow0_def)
  then show ?thesis unfolding r using revived_features_off [OF r] by (auto simp: filter_empty_conv)
qed

text \<open>
  Deleting a feature that is not archived deletes nothing, answers as if it had, and stores the
  event of the deletion.
\<close>

theorem delete_active_feature:
  assumes "feature_row_of name (fs_db s) = Some r" "\<forall>q\<in>set (fd_features (fs_db s)). ft_name q = name \<longrightarrow> ft_archived_at q = None"
    and "getChildren [name] (fs_db s) = []"
  shows "deleteFeature name who uid s = (Inr (), s\<lparr>fs_events := fs_events s @
    [\<lparr>ek_kind = FeatureDeleted (rowToFeature r) (feature_tags name (fs_db s)), ek_project = Some (ft_project r),
      ek_feature = Some name, ek_createdBy = Some who, ek_createdByUserId = uid\<rparr>]\<rparr>)"
proof -
  have none: "filter (\<lambda>r. List.member [name] (ft_name r) \<and> ft_archived_at r \<noteq> None) (fd_features (fs_db s)) = []"
    using assms(2) by (auto simp: filter_empty_conv)
  have "features_delete name (fs_db s) = Inr (fs_db s)"
    unfolding features_delete_def batchDelete_def none by simp
  then have "stmt (features_delete name) s = (Inr (), s)"
    by (simp add: stmt_def exec_db_def)
  moreover have "validateNoChildren name (fs_db s) = Inr ()" using assms(3) by (simp add: validateNoChildren_def)
  moreover have "features_get name (fs_db s) = Inr (rowToFeature r)" using assms(1) by (simp add: features_get_def)
  ultimately show ?thesis
    by (simp add: deleteFeature_def thenS_def bindS_def try_db_def ask_db_def store_event_def store_event_by_def rowToFeature_def)
qed

theorem delete_active_feature_witness:
  "fs_db (snd (deleteFeature ''c'' ''me'' 1 fsvc0)) = fdb0 \<and> length (fs_events (snd (deleteFeature ''c'' ''me'' 1 fsvc0))) = 1"
  using delete_active_feature [of "''c''" fsvc0 "frow0 ''c'' ''p'' None" "''me''" 1]
  by (simp add: feature_row_of_def getChildren_def fdb0_def frow0_def fsvc0_def)


section \<open>Variants\<close>

text \<open>
  Saving the variants of a feature of another project fails with an error of a missing feature, and
  has by then replaced the variants in all its environments.
\<close>

theorem failed_save_writes_variants:
  assumes "checked_variants cfg vs = Inr fixed"
    and "feature_row_of name (fs_db s) = Some r" and "ft_project r \<noteq> project"
  shows "saveVariants cfg name project vs who uid s =
    (Inl no_feature, s\<lparr>fs_db := map_envs (\<lambda>e. en_feature e = name) (\<lambda>e. e\<lparr>en_variants := fixed\<rparr>) (fs_db s)\<rparr>)"
proof -
  have "r \<in> set (fd_features (fs_db s))" "ft_name r = name"
    using assms(2) by (auto simp: feature_row_of_def dest: find_Some_in)
  then have "features_exists name (fs_db s)" by (auto simp: features_exists_def list_ex_iff)
  then obtain old where "store_getVariants cfg name (fs_db s) = Inr old" by (simp add: store_getVariants_def)
  moreover have "store_saveVariants project name fixed (fs_db s) =
      (Inl no_feature, map_envs (\<lambda>e. en_feature e = name) (\<lambda>e. e\<lparr>en_variants := fixed\<rparr>) (fs_db s))"
    using assms(2,3) by (simp add: store_saveVariants_def Let_def feature_row_of_def map_envs_def)
  ultimately show ?thesis
    using assms(1) by (simp add: saveVariants_def bindS_def try_db_def)
qed

theorem failed_save_writes_variants_witness:
  "map en_variants (fd_envs (fs_db (snd (saveVariants fcfg0 ''a'' ''q'' [wv0 ''x'' 1000 ''variable''] ''me'' 1 fsvc0)))) =
     [[wv0 ''x'' 1000 ''variable''], [wv0 ''x'' 1000 ''variable''], []]"
proof -
  have "checked_variants fcfg0 [wv0 ''x'' 1000 ''variable''] = Inr [wv0 ''x'' 1000 ''variable'']" by code_simp
  from failed_save_writes_variants [OF this, of "''a''" fsvc0 "frow0 ''a'' ''p'' None" "''q''"] show ?thesis
    by (simp add: feature_row_of_def map_envs_def fdb0_def frow0_def fenv0_def)
qed


section \<open>Dependencies\<close>

text \<open>
  C35: the checks and the write of a new dependency are separate statements. Where two requests are
  checked before either has written, a chain of two dependencies is stored, which the evaluator refuses.
\<close>

theorem concurrent_upserts_chain:
  assumes "dependency_check b (di_feature i) (fs_db s) = Inr u" "dependency_check c (di_feature j) (fs_db s) = Inr u'"
    and "di_feature j = b" "b \<in> set (feature_names (fs_db s))" "c \<in> set (feature_names (fs_db s))"
    and "s1 = snd (dependency_write b project i who uid s)" "s2 = snd (dependency_write c project j who' uid' s1)"
  shows "\<exists>d\<in>set (fd_dependencies (fs_db s2)). \<exists>e\<in>set (fd_dependencies (fs_db s2)). dr_parent e = dr_child d"
proof -
  have a: "di_feature i \<in> set (feature_names (fs_db s))"
    using assms(1) unfolding dependency_check_iff featureExists_def list_ex_iff feature_names_def list.set_map
    by (metis image_eqI)
  have up: "dependency_upsert (dependency_of x k) (fs_db t) = (Inr (), fs_db t\<lparr>fd_dependencies :=
      filter (\<lambda>y. dr_child y \<noteq> x) (fd_dependencies (fs_db t)) @ [dependency_of x k]\<rparr>)"
    if "x \<in> set (feature_names (fs_db t))" "di_feature k \<in> set (feature_names (fs_db t))" for x k t
    using that by (simp add: dependency_upsert_def Let_def dependency_of_def)
  have w: "fs_db (snd (dependency_write x project k wh ui t)) = fs_db t\<lparr>fd_dependencies :=
      filter (\<lambda>y. dr_child y \<noteq> x) (fd_dependencies (fs_db t)) @ [dependency_of x k]\<rparr>"
    if "x \<in> set (feature_names (fs_db t))" "di_feature k \<in> set (feature_names (fs_db t))" for x k wh ui t
    using up [OF that] by (simp add: dependency_write_def thenS_def bindS_def store_event_def store_event_by_def)
  have s1: "fs_db s1 = fs_db s\<lparr>fd_dependencies :=
      filter (\<lambda>y. dr_child y \<noteq> b) (fd_dependencies (fs_db s)) @ [dependency_of b i]\<rparr>"
    unfolding assms(6) using w assms(4) a by blast
  then have "feature_names (fs_db s1) = feature_names (fs_db s)" by (simp add: feature_names_def)
  then have "fs_db s2 = fs_db s1\<lparr>fd_dependencies :=
      filter (\<lambda>y. dr_child y \<noteq> c) (fd_dependencies (fs_db s1)) @ [dependency_of c j]\<rparr>"
    unfolding assms(7) using w [of c s1 j] assms(3-5) by simp
  moreover have "c \<noteq> b" using assms(2,3) by (simp add: dependency_check_iff)
  ultimately have "dependency_of b i \<in> set (fd_dependencies (fs_db s2))" "dependency_of c j \<in> set (fd_dependencies (fs_db s2))"
    by (auto simp: s1 dependency_of_def)
  moreover have "dr_parent (dependency_of c j) = dr_child (dependency_of b i)" using assms(3) by (simp add: dependency_of_def)
  ultimately show ?thesis by blast
qed

definition dep0 :: "string \<Rightarrow> dependency_input" where
  "dep0 parent = \<lparr>di_feature = parent, di_enabled = None, di_variants = None\<rparr>"

definition fsvc1 :: feature_service where
  "fsvc1 = fsvc0\<lparr>fs_db := fdb0\<lparr>fd_dependencies := []\<rparr>\<rparr>"

theorem concurrent_upserts_chain_witness:
  "\<exists>s2. (\<exists>d\<in>set (fd_dependencies (fs_db s2)). \<exists>e\<in>set (fd_dependencies (fs_db s2)). dr_parent e = dr_child d) \<and>
     s2 = snd (dependency_write ''c'' ''p'' (dep0 ''b'') ''me'' 1 (snd (dependency_write ''b'' ''p'' (dep0 ''a'') ''you'' 2 fsvc1)))"
proof (intro exI conjI)
  show "\<exists>d\<in>set (fd_dependencies (fs_db (snd (dependency_write ''c'' ''p'' (dep0 ''b'') ''me'' 1 (snd (dependency_write ''b'' ''p'' (dep0 ''a'') ''you'' 2 fsvc1)))))).
    \<exists>e\<in>set (fd_dependencies (fs_db (snd (dependency_write ''c'' ''p'' (dep0 ''b'') ''me'' 1 (snd (dependency_write ''b'' ''p'' (dep0 ''a'') ''you'' 2 fsvc1)))))).
      dr_parent e = dr_child d"
    by (rule concurrent_upserts_chain [of "''b''" "dep0 ''a''" fsvc1 "()" "''c''" "dep0 ''b''" "()", OF _ _ _ _ _ refl refl])
      (simp_all add: dependency_check_def dep0_def fsvc1_def fdb0_def frow0_def getChildren_def getParents_def featureExists_def
        featuresInTheSameProject_def feature_names_def)
qed (rule refl)

end
