(* ===== verification/GroupProperties.thy ===== *)
theory GroupProperties
  imports AccountSteps AccessProperties
begin

text \<open>
  What the operations on groups do: the members of a group after an update, and the groups of a user
  after a single sign-on, with an example of each.
\<close>

section \<open>The tables after a write\<close>

lemma group_view_after [simp]:
  "ac_groups (group_view (with_access s (with_db a db))) = ac_groups db"
  "ac_group_user (group_view (with_access s (with_db a db))) = ac_group_user db"
  "ac_group_role (group_view (with_access s (with_db a db))) = ac_group_role db"
  "ac_roles (group_view (with_access s (with_db a db))) = ac_roles db"
  "ac_users (group_view (with_access s x)) = ac_users (group_view s)"
  "aw_users (with_access s x) = aw_users s"
  by (simp_all add: group_view_def access_view_def with_access_def with_db_def Let_def)

lemma group_view_events [simp]: "group_view (s\<lparr>aw_events := es\<rparr>) = group_view s"
  by (simp add: group_view_def access_view_def with_db_def)

lemma then_add_event [simp]: "thenS (add_event e) m s = m (s\<lparr>aw_events := aw_events s @ [e]\<rparr>)"
  by (simp add: add_event_def)

lemma add_events: "eachS add_event es s = (Inr (), s\<lparr>aw_events := aw_events s @ es\<rparr>)"
  by (induction es arbitrary: s) simp_all

lemma group_write_pure [simp]:
  "group_write (\<lambda>db. (Inr x, f db)) s = (Inr x, with_access s (with_db (access_view s) (f (group_view s))))"
  by (simp add: group_write_def)

lemma group_write_Inr:
  assumes "group_write f s = (Inr x, s')"
  obtains db where "f (group_view s) = (Inr x, db)" "s' = with_access s (with_db (access_view s) db)"
  using assms by (auto simp: group_write_def split: prod.splits)

lemma may_fail_Inr: "may_fail f db = (Inr u, db') \<longleftrightarrow> f db = Inr db'"
  by (auto simp: may_fail_def split: sum.splits)

lemma addUsersToGroup_rows:
  assumes "addUsersToGroup i us who db = Inr db'"
  shows "db' = db\<lparr>ac_group_user := ac_group_user db @
    map (\<lambda>u. \<lparr>gu_group = i, gu_user = u, gu_created_by = Some who\<rparr>) us\<rparr>"
  using assms by (auto simp: addUsersToGroup_def dest: gu_insert_rows(1) split: sum.splits)

lemma addUserToGroups_rows:
  assumes "addUserToGroups u is who db = Inr db'"
  shows "db' = db\<lparr>ac_group_user := ac_group_user db @
    map (\<lambda>g. \<lparr>gu_group = g, gu_user = u, gu_created_by = who\<rparr>) is\<rparr>"
  using assms by (auto simp: addUserToGroups_def dest: gu_insert_rows(1))


section \<open>Single sign-on\<close>

lemma sync_rows:
  assumes "syncExternalGroups u names creator cid s = (Inr (), s')"
  defines "db \<equiv> group_view s"
  defines "added \<equiv> map g_id (filter (\<lambda>g. \<not> is_group_member db u (g_id g) \<and> mapped names g) (ac_groups db))"
  defines "rows \<equiv> ac_group_user db @ map (\<lambda>g. \<lparr>gu_group = g, gu_user = u, gu_created_by = creator\<rparr>) added"
  defines "stays \<equiv> map g_id (filter (\<lambda>g. mapped names g \<or> g_mappings g = []) (ac_groups db))"
  shows "ac_groups (group_view s') = ac_groups db"
    and "ac_group_user (group_view s') = filter (\<lambda>r. \<not> List.member (map gu_key (filter (\<lambda>gu. gu_user gu = u \<and>
      gu_created_by gu = Some ''SSO'' \<and> \<not> List.member stays (gu_group gu)) rows)) (gu_key r)) rows"
proof -
  from assms(1) obtain s1 s2 gs where
    new: "getNewGroupsForExternalUser u names db = Inr gs" and
    w: "group_write (may_fail (addUserToGroups u (map g_id gs) creator)) s = (Inr (), s1)" and
    s2: "s2 = with_access s1 (with_db (access_view s1)
      (deleteUsersFromGroup (getOldGroupsForExternalUser u names (group_view s1)) (group_view s1)))" and
    s': "group_view s' = group_view s2"
    by (auto simp: syncExternalGroups_def op_iffs group_try_def group_ask_def add_events db_def)
  have "gs = filter (\<lambda>g. \<not> is_group_member db u (g_id g) \<and> mapped names g) (ac_groups db)"
    by (rule rowsToGroups_Inr) (rule new [unfolded getNewGroupsForExternalUser_def])
  with w have "ac_groups (group_view s1) = ac_groups db" "ac_group_user (group_view s1) = rows"
    by (auto elim!: group_write_Inr simp: may_fail_Inr rows_def added_def db_def dest!: addUserToGroups_rows)
  then show "ac_groups (group_view s') = ac_groups db"
    "ac_group_user (group_view s') = filter (\<lambda>r. \<not> List.member (map gu_key (filter (\<lambda>gu. gu_user gu = u \<and>
      gu_created_by gu = Some ''SSO'' \<and> \<not> List.member stays (gu_group gu)) rows)) (gu_key r)) rows"
    unfolding s' s2 by (simp_all add: deleteUsersFromGroup_def getOldGroupsForExternalUser_def stays_def Let_def)
qed


text \<open>User 10 is in group 21 by a sign-on, and signs on again as one of the operators.\<close>

definition groups_db0 :: access_db where
  "groups_db0 = adb0\<lparr>ac_next_group := 22,
     ac_groups := [\<lparr>g_id = 20, g_name = ''ops'', g_root_role = Some 6, g_description = None, g_mappings = [''idp-ops'']\<rparr>,
                   \<lparr>g_id = 21, g_name = ''old'', g_root_role = None, g_description = None, g_mappings = [''idp-old'']\<rparr>],
     ac_group_user := [\<lparr>gu_group = 21, gu_user = 10, gu_created_by = Some ''SSO''\<rparr>]\<rparr>"

definition groups0 :: accounts where
  "groups0 = \<lparr>aw_users = [\<lparr>ur_id = 10, ur_name = None, ur_username = Some ''ann'', ur_email = None, ur_image_url = None,
       ur_password_hash = None, ur_login_attempts = 0, ur_created_at = 0, ur_seen_at = None, ur_deleted_at = None,
       ur_is_service = False, ur_is_system = False\<rparr>], aw_next_user = 11,
     aw_sessions = [], aw_resets = [], aw_pats = [], aw_next_pat = 1, aw_signups = [], aw_signup_users = [],
     aw_access = with_db access0 groups_db0, aw_simple_auth_disabled = False, aw_reset_timeouts = [], aw_pats_seen = [],
     aw_draws = 0, aw_mails = [], aw_events = []\<rparr>"

lemma groups0_ok: "accounts_ok groups0"
  by (simp add: accounts_ok_def accounts_ok_parts groups0_def access_view_def with_db_def access_ok_def groups_db0_def adb0_def
      distinct_column_def lower_email_def account_ids_def ru_key_def gu_key_def access_row_def map_filter_simps)

lemma groups0_view: "group_view groups0 = groups_db0\<lparr>ac_users := [\<lparr>us_id = 10, us_active = True, us_is_service = False\<rparr>]\<rparr>"
  by (simp add: group_view_def access_view_def groups0_def with_db_def access_row_def groups_db0_def adb0_def)



section \<open>Updates\<close>

lemma groups_update_frame:
  "ac_group_user (snd (groups_update i g db)) = ac_group_user db"
  "ac_users (snd (groups_update i g db)) = ac_users db"
  "ac_group_role (snd (groups_update i g db)) = ac_group_role db"
  "g_id ` set (ac_groups (snd (groups_update i g db))) = g_id ` set (ac_groups db)"
proof -
  have "map g_id (ac_groups (snd (groups_update i g db))) = map g_id (ac_groups db)"
    by (auto simp: groups_update_def Let_def)
  then show "g_id ` set (ac_groups (snd (groups_update i g db))) = g_id ` set (ac_groups db)"
    by (metis list.set_map)
qed (auto simp: groups_update_def Let_def)

lemma groups_update_id: "groups_update i g db = (Inr g', db') \<Longrightarrow> g_id g' = i"
  by (auto simp: groups_update_def Let_def rowToGroup_def find_Some_iff split: if_splits option.splits)

lemma getAllUsersByGroups_all:
  assumes "access_ok db" and "ac_group_user db' = ac_group_user db" and "ac_users db' = ac_users db"
    and "g_id ` set (ac_groups db') = g_id ` set (ac_groups db)"
  shows "getAllUsersByGroups is db' = filter (\<lambda>gu. List.member is (gu_group gu)) (ac_group_user db)"
proof -
  have eq: "[gu. gu \<leftarrow> xs, P gu] = filter P xs" for P and xs :: "group_user list"
    by (induction xs) auto
  show ?thesis
    unfolding getAllUsersByGroups_def eq assms(2-) using assms(1) by (intro filter_cong) (auto simp: access_ok_def)
qed

lemma updateGroup_rows:
  assumes ok: "accounts_ok s" and run: "updateGroup i g members who uid s = (Inr g', s')"
  defines "old \<equiv> filter (\<lambda>gu. List.member [i] (gu_group gu)) (ac_group_user (group_view s))"
  shows "ac_group_user (group_view s') =
      filter (\<lambda>r. \<not> List.member (map gu_key (filter (\<lambda>gu. \<not> List.member members (gu_user gu)) old)) (gu_key r))
        (ac_group_user (group_view s) @ map (\<lambda>u. \<lparr>gu_group = i, gu_user = u, gu_created_by = Some who\<rparr>)
           (filter (\<lambda>u. \<not> List.member (map gu_user old) u) members))"
    and "ac_group_role (group_view s') = ac_group_role (group_view s)" and "aw_users s' = aw_users s"
proof -
  let ?members = "\<lambda>s. getAllUsersByGroups [i] (group_view s)"
  from run obtain s1 s2 where s1: "group_write (groups_update i g) s = (Inr g', s1)" and
    s2: "group_write (may_fail (addUsersToGroup (g_id g') (filter (\<lambda>u. \<not> List.member (map gu_user (?members s1)) u) members) who)) s1
      = (Inr (), s2)" and
    s': "group_view s' = group_view (with_access s2 (with_db (access_view s2)
      (deleteUsersFromGroup (map gu_key (filter (\<lambda>gu. \<not> List.member members (gu_user gu)) (?members s1))) (group_view s2))))"
      "aw_users s' = aw_users s2"
    by (auto simp: updateGroup_def updateGroupUsers_def op_iffs group_try_def group_ask_def Let_def add_event_def)
  from s1 obtain db where db: "groups_update i g (group_view s) = (Inr g', db)" "s1 = with_access s (with_db (access_view s) db)"
    by (rule group_write_Inr)
  have "ac_users (group_view s1) = ac_users (group_view s)" by (simp add: db(2))
  moreover have "access_ok (group_view s)" using ok by (simp add: accounts_ok_def group_view_def)
  ultimately have old: "?members s1 = old"
    unfolding old_def using db groups_update_frame [of i g "group_view s"] by (intro getAllUsersByGroups_all) simp_all
  have i: "g_id g' = i" by (rule groups_update_id [OF db(1)])
  from s2 obtain db2 where db2: "addUsersToGroup i (filter (\<lambda>u. \<not> List.member (map gu_user old) u) members) who (group_view s1) = Inr db2"
    "s2 = with_access s1 (with_db (access_view s1) db2)"
    unfolding i old by (auto elim!: group_write_Inr simp: may_fail_Inr)
  have rows: "ac_group_user (group_view s1) = ac_group_user (group_view s)" "ac_group_role (group_view s1) = ac_group_role (group_view s)"
    using db groups_update_frame [of i g "group_view s"] by simp_all
  show "aw_users s' = aw_users s" using s'(2) by (simp add: db(2) db2(2))
  show "ac_group_role (group_view s') = ac_group_role (group_view s)"
    unfolding s'(1) using addUsersToGroup_rows [OF db2(1)] rows by (simp add: db2(2) deleteUsersFromGroup_def)
  show "ac_group_user (group_view s') =
      filter (\<lambda>r. \<not> List.member (map gu_key (filter (\<lambda>gu. \<not> List.member members (gu_user gu)) old)) (gu_key r))
        (ac_group_user (group_view s) @ map (\<lambda>u. \<lparr>gu_group = i, gu_user = u, gu_created_by = Some who\<rparr>)
           (filter (\<lambda>u. \<not> List.member (map gu_user old) u) members))"
    unfolding s'(1) old using addUsersToGroup_rows [OF db2(1)] rows by (simp add: db2(2) deleteUsersFromGroup_def)
qed

text \<open>
  An update of a group that succeeds makes its members exactly the users given; the members of other groups,
  the roles of groups and the users are as before.
\<close>

theorem updateGroup_members:
  assumes "accounts_ok s" and "updateGroup i g members who uid s = (Inr g', s')"
  shows "{u. is_group_member (group_view s') u i} = set members \<and>
    filter (\<lambda>gu. gu_group gu \<noteq> i) (ac_group_user (group_view s')) = filter (\<lambda>gu. gu_group gu \<noteq> i) (ac_group_user (group_view s)) \<and>
    ac_group_role (group_view s') = ac_group_role (group_view s) \<and> aw_users s' = aw_users s"
proof (intro conjI)
  note rows = updateGroup_rows [OF assms]
  show "{u. is_group_member (group_view s') u i} = set members"
  proof (intro set_eqI iffI)
    fix u
    assume "u \<in> {u. is_group_member (group_view s') u i}"
    then obtain gu where "gu \<in> set (ac_group_user (group_view s'))" "gu_group gu = i" "gu_user gu = u"
      by (auto simp: is_group_member_def list_ex_iff)
    then show "u \<in> set members"
      unfolding rows by (auto simp: gu_key_def) (metis group_user.select_convs(2))
  next
    fix u
    assume u: "u \<in> set members"
    let ?new = "\<lparr>gu_group = i, gu_user = u, gu_created_by = Some who\<rparr>"
    have "gu \<in> set (ac_group_user (group_view s'))"
      if "gu \<in> set (ac_group_user (group_view s))" "gu_group gu = i" "gu_user gu = u" for gu
      using that u unfolding rows by (auto simp: gu_key_def)
    moreover have "?new \<in> set (ac_group_user (group_view s'))" if "\<not> is_group_member (group_view s) u i"
    proof -
      have "u \<in> set (filter (\<lambda>u. \<not> List.member (map gu_user (filter (\<lambda>gu. List.member [i] (gu_group gu))
          (ac_group_user (group_view s)))) u) members)"
        using that u by (auto simp: is_group_member_def list_ex_iff)
      then have "?new \<in> set (map (\<lambda>u. \<lparr>gu_group = i, gu_user = u, gu_created_by = Some who\<rparr>)
          (filter (\<lambda>u. \<not> List.member (map gu_user (filter (\<lambda>gu. List.member [i] (gu_group gu))
            (ac_group_user (group_view s)))) u) members))" by (simp only: set_map) (rule imageI)
      then show ?thesis unfolding rows using u by (auto simp: gu_key_def)
    qed
    ultimately show "u \<in> {u. is_group_member (group_view s') u i}"
      unfolding is_group_member_def list_ex_iff mem_Collect_eq by (metis group_user.select_convs(1,2))
  qed
  show "filter (\<lambda>gu. gu_group gu \<noteq> i) (ac_group_user (group_view s')) = filter (\<lambda>gu. gu_group gu \<noteq> i) (ac_group_user (group_view s))"
    unfolding rows by (auto simp: filter_empty_conv gu_key_def intro!: filter_cong)
qed (fact updateGroup_rows [OF assms])+

lemma updateGroup_members_witness:
  "\<exists>g' s'. updateGroup 21 \<lparr>gi_name = ''new'', gi_description = None, gi_mappings = None, gi_rootRole = None\<rparr> [] ''ann'' 10 groups0
     = (Inr g', s') \<and> \<not> is_group_member (group_view s') 10 21"
proof -
  let ?g = "\<lparr>gi_name = ''new'', gi_description = None, gi_mappings = None, gi_rootRole = None\<rparr>"
  let ?m = "updateGroup 21 ?g [] ''ann'' 10"
  have "\<exists>g'. fst (?m groups0) = Inr g'"
    by (simp add: updateGroup_def group_try_def group_ask_def bindS_def thenS_def groups_get_def groups0_view groups_db0_def
        rowToGroup_def validateGroup_def existsWithName_def group_write_def groups_update_def groups_exists_def
        bad_root_role_def root_role_column_def num_or_def updateGroupUsers_def addUsersToGroup_def gu_insert_def
        may_fail_def adb0_def Let_def add_event_def gu_key_def)
  then obtain g' s' where run: "?m groups0 = (Inr g', s')" by (metis prod.collapse)
  from updateGroup_members [OF groups0_ok run] have "\<not> is_group_member (group_view s') 10 21" by auto
  with run show ?thesis by blast
qed

end
