(* ===== verification/Environments.thy ===== *)
theory Environments
  imports FeatureSteps
begin

text \<open>
  Environments: their store (\<open>features/project-environments/environment-store.ts\<close>), the links between
  projects and environments (\<open>features/project/project-store.ts\<close>) and the environment service
  (\<open>environment-service.ts\<close>). The state is that of the feature service. A row of \<open>environments\<close> keeps no
  time: the table is in the order of creation, by which a query breaks ties of \<open>sort_order\<close>.
\<close>

section \<open>The environment store\<close>

record environment_create =
  nc_name :: string
  nc_type :: string
  nc_sortOrder :: "int option"
  nc_enabled :: "bool option"

definition environment_of :: "string \<Rightarrow> feature_db \<Rightarrow> environment_row option" where
  "environment_of name db = find (\<lambda>r. nv_name r = name) (fd_environments db)"

text \<open>\<open>INSERT ... ON CONFLICT (name) DO NOTHING\<close>: the rows that were inserted.\<close>

definition new_environments :: "environment_row list \<Rightarrow> feature_db \<Rightarrow> environment_row list" where
  "new_environments rows db = foldl (\<lambda>acc r.
     if List.member (environment_names db) (nv_name r) \<or> nv_name r \<in> nv_name ` set acc then acc else acc @ [r]) [] rows"

definition importEnvironments :: "environment_row list \<Rightarrow> feature_db \<Rightarrow> environment_row list \<times> feature_db" where
  "importEnvironments rows db = (let new = new_environments rows db in
     (new, db\<lparr>fd_environments := fd_environments db @ new\<rparr>))"

text \<open>
  Deleting an environment deletes what refers to it: the environments of features, the strategies with
  their links to segments, and the links of projects.
\<close>

definition drop_environments :: "(environment_row \<Rightarrow> bool) \<Rightarrow> feature_db \<Rightarrow> feature_db" where
  "drop_environments p db =
     (let gone = map nv_name (filter p (fd_environments db));
          db1 = remove_strategies (\<lambda>s. List.member gone (sr_environment s)) db
      in db1\<lparr>fd_environments := filter (\<lambda>r. \<not> p r) (fd_environments db1),
             fd_envs := filter (\<lambda>e. \<not> List.member gone (en_environment e)) (fd_envs db1),
             fd_project_envs := filter (\<lambda>l. \<not> List.member gone (pv_environment l)) (fd_project_envs db1),
             fd_change_requests := filter (\<lambda>c. \<not> List.member gone (snd c)) (fd_change_requests db1)\<rparr>)"

definition environments_deleteAll :: "feature_db \<Rightarrow> feature_db" where
  "environments_deleteAll = drop_environments (\<lambda>_. True)"

definition environments_delete :: "string \<Rightarrow> feature_db \<Rightarrow> feature_db" where
  "environments_delete name = drop_environments (\<lambda>r. nv_name r = name \<and> \<not> nv_protected r)"

definition environments_count :: "feature_db \<Rightarrow> nat" where
  "environments_count db = length (fd_environments db)"

text \<open>The maximum of no rows is a null, and \<open>Number(null)\<close> is 0.\<close>

definition getMaxSortOrder :: "feature_db \<Rightarrow> int" where
  "getMaxSortOrder db = (case map nv_sort_order (fd_environments db) of [] \<Rightarrow> 0 | x # xs \<Rightarrow> fold max xs x)"

definition environments_get :: "string \<Rightarrow> feature_db \<Rightarrow> exn + environment_row" where
  "environments_get key db = (case environment_of key db of
       None \<Rightarrow> Inl (Api (NotFoundError (Some (''Could not find environment with name: '' @ key))))
     | Some r \<Rightarrow> Inr r)"

definition environments_getByName :: "string \<Rightarrow> feature_db \<Rightarrow> exn + environment_row" where
  "environments_getByName name db = (case environment_of name db of
       None \<Rightarrow> Inl (Api (NotFoundError (Some (''Could not find environment with name '' @ name))))
     | Some r \<Rightarrow> Inr r)"

definition environments_exists :: "string \<Rightarrow> feature_db \<Rightarrow> bool" where
  "environments_exists name db = list_ex (\<lambda>r. nv_name r = name) (fd_environments db)"

text \<open>The query is a condition on the columns.\<close>

definition environments_getAll :: "(environment_row \<Rightarrow> bool) \<Rightarrow> feature_db \<Rightarrow> environment_row list" where
  "environments_getAll query db = filter query (sort_key nv_sort_order (fd_environments db))"

text \<open>The counts of an environment: projects, API tokens, and features that are on.\<close>

record environment_with_counts = environment_row +
  ec_projectCount :: nat
  ec_apiTokenCount :: nat
  ec_enabledToggleCount :: nat

definition mapRowWithCounts :: "token_db \<Rightarrow> feature_db \<Rightarrow> environment_row \<Rightarrow> environment_with_counts" where
  "mapRowWithCounts tokens db r = environment_row.extend r
     \<lparr>ec_projectCount = length (filter (\<lambda>l. pv_environment l = nv_name r) (fd_project_envs db)),
      ec_apiTokenCount = length (filter (\<lambda>t. tr_environment t = Some (nv_name r)) (db_tokens tokens)),
      ec_enabledToggleCount = length (filter (\<lambda>e. en_enabled e \<and> en_environment e = nv_name r) (fd_envs db))\<rparr>"

definition getAllWithCounts ::
  "(environment_row \<Rightarrow> bool) \<Rightarrow> token_db \<Rightarrow> feature_db \<Rightarrow> environment_with_counts list" where
  "getAllWithCounts query tokens db = map (mapRowWithCounts tokens db) (environments_getAll query db)"

text \<open>The left join of the tokens with their projects has one row for a token without projects.\<close>

definition project_token_count :: "string \<Rightarrow> string \<Rightarrow> token_db \<Rightarrow> nat" where
  "project_token_count p env tokens = length (concat (map (\<lambda>t.
      case map snd (filter (\<lambda>l. fst l = tr_secret t) (db_links tokens)) of
        [] \<Rightarrow> [()]
      | ps \<Rightarrow> map (\<lambda>_. ()) (filter (\<lambda>q. q = p) ps))
    (filter (\<lambda>t. tr_environment t = Some env) (db_tokens tokens))))"

record project_environment = environment_row +
  pn_projectApiTokenCount :: nat
  pn_projectEnabledToggleCount :: nat
  pn_defaultStrategy :: "strategy_input option"

definition mapRowWithProjectCounts :: "string \<Rightarrow> token_db \<Rightarrow> feature_db \<Rightarrow> environment_row \<Rightarrow> project_environment" where
  "mapRowWithProjectCounts p tokens db r = environment_row.extend r
     \<lparr>pn_projectApiTokenCount = project_token_count p (nv_name r) tokens,
      pn_projectEnabledToggleCount = length (filter (\<lambda>e. en_enabled e \<and> en_environment e = nv_name r \<and>
         list_ex (\<lambda>f. ft_name f = en_feature e \<and> ft_project f = p) (fd_features db)) (fd_envs db)),
      pn_defaultStrategy = store_getDefaultStrategy p (nv_name r) db\<rparr>"

definition store_getProjectEnvironments :: "string \<Rightarrow> token_db \<Rightarrow> feature_db \<Rightarrow> project_environment list" where
  "store_getProjectEnvironments p tokens db =
     map (mapRowWithProjectCounts p tokens db) (environments_getAll (\<lambda>_. True) db)"

definition map_environments :: "(environment_row \<Rightarrow> bool) \<Rightarrow> (environment_row \<Rightarrow> environment_row) \<Rightarrow> feature_db \<Rightarrow> feature_db" where
  "map_environments p f db = db\<lparr>fd_environments := map (\<lambda>r. if p r then f r else r) (fd_environments db)\<rparr>"

text \<open>The one property the service updates is \<open>enabled\<close>; a protected environment is left as it is.\<close>

definition updateProperty :: "string \<Rightarrow> (environment_row \<Rightarrow> environment_row) \<Rightarrow> feature_db \<Rightarrow> feature_db" where
  "updateProperty name f = map_environments (\<lambda>r. nv_name r = name \<and> \<not> nv_protected r) f"

definition environments_updateSortOrder :: "string \<Rightarrow> int \<Rightarrow> feature_db \<Rightarrow> feature_db" where
  "environments_updateSortOrder name n = map_environments (\<lambda>r. nv_name r = name) (\<lambda>r. r\<lparr>nv_sort_order := n\<rparr>)"

definition environments_update :: "string \<Rightarrow> bool \<Rightarrow> string \<Rightarrow> feature_db \<Rightarrow> exn + (environment_row \<times> feature_db)" where
  \<open>environments_update ty prot name db =
     (case find (\<lambda>r. nv_name r = name \<and> \<not> nv_protected r) (fd_environments db) of
        None \<Rightarrow> Inl (JsError ''TypeError'' ''Cannot read properties of undefined (reading 'name')'')
      | Some r \<Rightarrow> Inr (r\<lparr>nv_type := ty, nv_protected := prot\<rparr>,
          map_environments (\<lambda>r. nv_name r = name \<and> \<not> nv_protected r) (\<lambda>r. r\<lparr>nv_type := ty, nv_protected := prot\<rparr>) db))\<close>

definition environments_create :: "environment_create \<Rightarrow> feature_db \<Rightarrow> exn + (environment_row \<times> feature_db)" where
  "environments_create c db =
     (if environments_exists (nc_name c) db then Inl (fd_unique_error db ''environments_pkey'')
      else (let r = \<lparr>nv_name = nc_name c, nv_type = nc_type c, nv_sort_order = default 9999 (nc_sortOrder c),
                     nv_enabled = default True (nc_enabled c), nv_protected = False\<rparr>
            in Inr (r, db\<lparr>fd_environments := fd_environments db @ [r]\<rparr>)))"

definition environments_disable :: "environment_row list \<Rightarrow> feature_db \<Rightarrow> feature_db" where
  "environments_disable es = map_environments (\<lambda>r. nv_name r \<in> nv_name ` set es) (\<lambda>r. r\<lparr>nv_enabled := False\<rparr>)"

definition environments_enable :: "environment_row list \<Rightarrow> feature_db \<Rightarrow> feature_db" where
  "environments_enable es = map_environments (\<lambda>r. nv_name r \<in> nv_name ` set es) (\<lambda>r. r\<lparr>nv_enabled := True\<rparr>)"


section \<open>Projects and environments\<close>

definition getProjectLinksForEnvironments :: "string list \<Rightarrow> feature_db \<Rightarrow> (string \<times> string) list" where
  "getProjectLinksForEnvironments names db =
     map (\<lambda>l. (pv_environment l, pv_project l)) (filter (\<lambda>l. List.member names (pv_environment l)) (fd_project_envs db))"

definition store_addEnvironmentToProject :: "string \<Rightarrow> string \<Rightarrow> feature_db \<Rightarrow> exn + feature_db" where
  "store_addEnvironmentToProject project env = connectProject env project True"

text \<open>One statement: where a row breaks a foreign key, none is inserted.\<close>

definition addEnvironmentToProjects :: "string \<Rightarrow> string list \<Rightarrow> feature_db \<Rightarrow> exn + feature_db" where
  "addEnvironmentToProjects env projects db = foldR (\<lambda>db p. store_addEnvironmentToProject p env db) db projects"

definition DEFAULT_ENV :: string where
  "DEFAULT_ENV = ''default''"

definition addDefaultEnvironment :: "string list \<Rightarrow> feature_db \<Rightarrow> exn + feature_db" where
  "addDefaultEnvironment projects = addEnvironmentToProjects DEFAULT_ENV projects"

text \<open>The inner join has the links whose environment exists, by its sort order and then its name.\<close>

definition getEnvironmentsForProject :: "string \<Rightarrow> feature_db \<Rightarrow> project_env list" where
  "getEnvironmentsForProject p db =
     sort_key (\<lambda>l. (case environment_of (pv_environment l) db of None \<Rightarrow> 0 | Some r \<Rightarrow> nv_sort_order r, pv_environment l))
       (filter (\<lambda>l. pv_project l = p \<and> environments_exists (pv_environment l) db) (fd_project_envs db))"

definition store_updateDefaultStrategy ::
  "string \<Rightarrow> string \<Rightarrow> strategy_input \<Rightarrow> feature_db \<Rightarrow> exn + (strategy_input \<times> feature_db)" where
  \<open>store_updateDefaultStrategy p env c db =
     (let hit = (\<lambda>l. pv_project l = p \<and> pv_environment l = env) in
      if list_ex hit (fd_project_envs db)
      then Inr (c, db\<lparr>fd_project_envs := map (\<lambda>l. if hit l then l\<lparr>pv_default_strategy := Some c\<rparr> else l) (fd_project_envs db)\<rparr>)
      else Inl (JsError ''TypeError'' ''Cannot read properties of undefined (reading 'default_strategy')''))\<close>


section \<open>The environment service\<close>

definition environment_updateSortOrder :: "(string \<times> int) list \<Rightarrow> unit feature_op" where
  "environment_updateSortOrder sortOrder = eachS (\<lambda>(name, n). run_db (environments_updateSortOrder name n)) sortOrder"

definition toggleEnvironment :: "string \<Rightarrow> bool \<Rightarrow> unit feature_op" where
  "toggleEnvironment name v =
     bindS (ask_db (environments_exists name)) (\<lambda>present.
       if present then run_db (updateProperty name (\<lambda>r. r\<lparr>nv_enabled := v\<rparr>))
       else failS (Api (NotFoundError (Some (''Could not find environment '' @ name)))))"

fun error_code :: "exn \<Rightarrow> string option" where
  "error_code (DbError code _ _ _) = Some code"
| "error_code _ = None"

text \<open>
  The statements are not one transaction: where the features cannot be connected, the project has the
  environment already.
\<close>

definition addEnvironmentToProject :: "string \<Rightarrow> string \<Rightarrow> string \<Rightarrow> int \<Rightarrow> unit feature_op" where
  "addEnvironmentToProject env project username uid = catchS
     (thenS (stmt (connectProject env project False))
     (thenS (stmt (connectFeatures env project))
       (store_event (ProjectEnvironmentAdded env) (Some project) None username uid)))
     (\<lambda>e. if error_code e = Some UNIQUE_CONSTRAINT_VIOLATION
          then Api (NameExistsError (project @ '' already has the environment '' @ env @ '' enabled'')) else e)"

definition environment_updateDefaultStrategy ::
  "string \<Rightarrow> string \<Rightarrow> strategy_input \<Rightarrow> string \<Rightarrow> int \<Rightarrow> strategy_input feature_op" where
  \<open>environment_updateDefaultStrategy env project strategy username uid =
     thenS (guardS (sc_name strategy \<noteq> ''flexibleRollout'')
       (Api (BadDataError ''Only "flexibleRollout" strategy can be used as a default strategy for an environment'')))
     (bindS (ask_db (store_getDefaultStrategy project env)) (\<lambda>previous.
      bindS (exec_db (store_updateDefaultStrategy project env strategy)) (\<lambda>new.
      thenS (store_event (DefaultStrategyUpdated env previous new) (Some project) None username uid) (returnS new))))\<close>

definition forceRemoveEnvironmentFromProject :: "string \<Rightarrow> string \<Rightarrow> unit feature_op" where
  "forceRemoveEnvironmentFromProject env project =
     thenS (run_db (disconnectFeatures env project)) (run_db (disconnectProject env project))"

definition remapProjectsLinks :: "environment_row list \<Rightarrow> environment_row list \<Rightarrow> unit feature_op" where
  "remapProjectsLinks toDisable toEnable =
     bindS (ask_db (getProjectLinksForEnvironments (map nv_name toDisable))) (\<lambda>links.
     thenS (allS (\<lambda>(env, p). forceRemoveEnvironmentFromProject env p) links)
     (thenS (allS (\<lambda>(p, env). addEnvironmentToProject env p SYSTEM_USER_username SYSTEM_USER_ID)
              [(p, nv_name e). p \<leftarrow> rev (remdups (rev (map snd links))), e \<leftarrow> toEnable])
       (returnS ())))"

text \<open>The names to enable must all exist; a name given twice counts as one that does not.\<close>

definition overrideEnabledProjects :: "string list \<Rightarrow> unit feature_op" where
  "overrideEnabledProjects names =
     (if names = [] then returnS ()
      else bindS (ask_db (environments_getAll (\<lambda>_. True))) (\<lambda>envs.
        let existing = filter (\<lambda>r. List.member names (nv_name r)) envs in
        if length existing \<noteq> length names then returnS ()
        else let toEnable = filter (\<lambda>r. \<not> nv_enabled r) existing;
                 toDisable = filter (\<lambda>r. \<not> List.member names (nv_name r) \<and> nv_enabled r) envs
          in thenS (run_db (environments_disable toDisable))
            (thenS (run_db (environments_enable toEnable))
              (remapProjectsLinks toDisable toEnable))))"

definition removeEnvironmentFromProject :: "string \<Rightarrow> string \<Rightarrow> string \<Rightarrow> int \<Rightarrow> unit feature_op" where
  "removeEnvironmentFromProject env project username uid =
     bindS (ask_db (getEnvironmentsForProject project)) (\<lambda>envs.
       if length envs > 1
       then thenS (forceRemoveEnvironmentFromProject env project)
         (store_event (ProjectEnvironmentRemoved env) (Some project) None username uid)
       else failS (Api (MinimumOneEnvironmentError ''You must always have one active environment'')))"


section \<open>Invariants\<close>

lemma map_environments_ok:
  assumes "\<And>r. nv_name (f r) = nv_name r" "feature_db_ok db"
  shows "feature_db_ok (map_environments p f db)"
proof -
  let ?db = "map_environments p f db"
  have names: "environment_names ?db = environment_names db"
    using assms(1) by (auto simp: environment_names_def map_environments_def)
  moreover have "feature_keys ?db = feature_keys db"
    by (simp add: feature_keys_def map_environments_def)
  ultimately show ?thesis
    using assms(2) unfolding ok_defs catalog_ok_def by (simp add: map_environments_def)
qed

lemma drop_environments_ok:
  assumes "feature_db_ok db"
  shows "feature_db_ok (drop_environments p db)"
proof -
  let ?gone = "map nv_name (filter p (fd_environments db))"
  let ?db1 = "remove_strategies (\<lambda>s. List.member ?gone (sr_environment s))
    (db\<lparr>fd_envs := filter (\<lambda>e. \<not> List.member ?gone (en_environment e)) (fd_envs db)\<rparr>)"
  let ?db = "drop_environments p db"
  have ok1: "feature_db_ok ?db1" using assms filter_envs_ok remove_strategies_ok by blast
  have eq: "?db = ?db1\<lparr>fd_environments := filter (\<lambda>r. \<not> p r) (fd_environments db),
      fd_project_envs := filter (\<lambda>l. \<not> List.member ?gone (pv_environment l)) (fd_project_envs db),
      fd_change_requests := filter (\<lambda>c. \<not> List.member ?gone (snd c)) (fd_change_requests db)\<rparr>"
    by (simp add: drop_environments_def remove_strategies_def Let_def)
  have names: "n \<in> set (environment_names ?db)" if "n \<in> set (environment_names db)" "n \<notin> set ?gone" for n
    using that by (auto simp: eq environment_names_def)
  have "catalog_ok ?db"
    using assms names by (auto simp: feature_db_ok_def catalog_ok_def eq environment_names_def distinct_map_filter remove_strategies_def Let_def)
  moreover have "envs_ok ?db" "strategies_ok ?db"
    using ok1 names unfolding feature_db_ok_def envs_ok_def strategies_ok_def
    by (auto simp: eq feature_keys_def remove_strategies_def Let_def)
  moreover have "links_ok ?db" "dependencies_ok ?db" "distinct (feature_names ?db)"
    using ok1 unfolding feature_db_ok_def links_ok_def dependencies_ok_def deps.one_level_def dependency_edges_def
    by (simp_all add: eq feature_keys_def feature_names_def)
  ultimately show ?thesis by (simp add: feature_db_ok_def)
qed

lemma add_environment_ok:
  assumes "feature_db_ok db" "distinct (map nv_name rs)" "nv_name ` set rs \<inter> set (environment_names db) = {}"
  shows "feature_db_ok (db\<lparr>fd_environments := fd_environments db @ rs\<rparr>)"
proof -
  have "feature_keys (db\<lparr>fd_environments := fd_environments db @ rs\<rparr>) = feature_keys db"
    by (simp add: feature_keys_def)
  then show ?thesis
    using assms unfolding ok_defs catalog_ok_def environment_names_def by auto
qed

lemma new_environments_fresh:
  "distinct (map nv_name (new_environments rs db)) \<and> nv_name ` set (new_environments rs db) \<inter> set (environment_names db) = {}"
proof -
  let ?f = "\<lambda>acc r. if List.member (environment_names db) (nv_name r) \<or> nv_name r \<in> nv_name ` set acc then acc else acc @ [r]"
  have "distinct (map nv_name (foldl ?f acc rs)) \<and> nv_name ` set (foldl ?f acc rs) \<inter> set (environment_names db) = {}"
    if "distinct (map nv_name acc) \<and> nv_name ` set acc \<inter> set (environment_names db) = {}" for acc
    using that by (induction rs arbitrary: acc) auto
  from this [of "[]"] show ?thesis by (simp add: new_environments_def)
qed

lemma environment_store_ok:
  "feature_db_ok db \<Longrightarrow> feature_db_ok (environments_delete name db)"
  "feature_db_ok db \<Longrightarrow> feature_db_ok (environments_deleteAll db)"
  "feature_db_ok db \<Longrightarrow> feature_db_ok (environments_disable es db)"
  "feature_db_ok db \<Longrightarrow> feature_db_ok (environments_enable es db)"
  "feature_db_ok db \<Longrightarrow> feature_db_ok (environments_updateSortOrder name n db)"
  "feature_db_ok db \<Longrightarrow> feature_db_ok (updateProperty name (\<lambda>r. r\<lparr>nv_enabled := v\<rparr>) db)"
  "feature_db_ok db \<Longrightarrow> feature_db_ok (snd (importEnvironments rs db))"
  unfolding environments_delete_def environments_deleteAll_def environments_disable_def environments_enable_def
    environments_updateSortOrder_def updateProperty_def importEnvironments_def Let_def
  by (simp_all add: drop_environments_ok map_environments_ok add_environment_ok new_environments_fresh)

lemma environment_store_may_fail_ok:
  "environments_update ty prot name db = Inr (r, db') \<Longrightarrow> feature_db_ok db \<Longrightarrow> feature_db_ok db'"
  "environments_create c db = Inr (r, db') \<Longrightarrow> feature_db_ok db \<Longrightarrow> feature_db_ok db'"
  "addEnvironmentToProjects env ps db = Inr db' \<Longrightarrow> feature_db_ok db \<Longrightarrow> feature_db_ok db'"
  "store_updateDefaultStrategy p env c' db = Inr (x, db') \<Longrightarrow> feature_db_ok db \<Longrightarrow> feature_db_ok db'"
proof -
  show "environments_update ty prot name db = Inr (r, db') \<Longrightarrow> feature_db_ok db \<Longrightarrow> feature_db_ok db'"
    by (auto simp: environments_update_def map_environments_ok split: option.splits)
  show "environments_create c db = Inr (r, db') \<Longrightarrow> feature_db_ok db \<Longrightarrow> feature_db_ok db'"
    by (auto simp: environments_create_def environments_exists_def environment_names_def list_ex_iff Let_def
        split: if_splits intro!: add_environment_ok) blast
  show "addEnvironmentToProjects env ps db = Inr db' \<Longrightarrow> feature_db_ok db \<Longrightarrow> feature_db_ok db'"
    unfolding addEnvironmentToProjects_def store_addEnvironmentToProject_def
    by (erule foldR_invariant [where I = feature_db_ok, rotated]) (auto intro: connectProject_ok)
  show "feature_db_ok db'" if run: "store_updateDefaultStrategy p env c' db = Inr (x, db')" and ok: "feature_db_ok db"
  proof -
    let ?f = "\<lambda>l. if pv_project l = p \<and> pv_environment l = env then l\<lparr>pv_default_strategy := Some c'\<rparr> else l"
    have "link_key (?f l) = link_key l" "pv_project (?f l) = pv_project l" "pv_environment (?f l) = pv_environment l" for l
      by (simp_all add: link_key_def)
    then have "distinct (map link_key (map ?f (fd_project_envs db)))"
      "\<forall>l\<in>set (map ?f (fd_project_envs db)). pv_project l \<in> pj_id ` set (fd_projects db) \<and>
         pv_environment l \<in> set (environment_names db)"
      using ok by (auto simp: feature_db_ok_def catalog_ok_def comp_def)
    with project_envs_ok [OF ok] run show ?thesis
      by (auto simp: store_updateDefaultStrategy_def Let_def split: if_splits)
  qed
qed

lemma keeps_environment_ops:
  "keeps_ok (environment_updateSortOrder order)" "keeps_ok (toggleEnvironment name v)"
  "keeps_ok (addEnvironmentToProject env project username uid)"
  "keeps_ok (environment_updateDefaultStrategy env project c username uid)"
  "keeps_ok (forceRemoveEnvironmentFromProject env project)"
  "keeps_ok (removeEnvironmentFromProject env project username uid)"
  "keeps_ok (remapProjectsLinks es fs)" "keeps_ok (overrideEnabledProjects names)"
proof -
  show add: "keeps_ok (addEnvironmentToProject env project username uid)" for env project username uid
    unfolding addEnvironmentToProject_def by (intro preserves_intros) (erule (1) environment_statements_ok connectProject_ok)+
  show force: "keeps_ok (forceRemoveEnvironmentFromProject env project)" for env project
    unfolding forceRemoveEnvironmentFromProject_def by (intro preserves_intros environment_removals_ok)
  show remap: "keeps_ok (remapProjectsLinks es fs)" for es fs
    unfolding remapProjectsLinks_def by (intro preserves_intros force add)
  show "keeps_ok (environment_updateSortOrder order)" "keeps_ok (toggleEnvironment name v)"
    unfolding environment_updateSortOrder_def toggleEnvironment_def by (intro preserves_intros environment_store_ok; assumption)+
  show "keeps_ok (environment_updateDefaultStrategy env project c username uid)"
    unfolding environment_updateDefaultStrategy_def by (intro preserves_intros) (erule (1) environment_store_may_fail_ok)
  show "keeps_ok (removeEnvironmentFromProject env project username uid)"
    unfolding removeEnvironmentFromProject_def by (intro preserves_intros force)
  show "keeps_ok (overrideEnabledProjects names)"
    unfolding overrideEnabledProjects_def Let_def by (intro preserves_intros remap environment_store_ok)
qed

end
