(* ===== verification/ProjectStore.thy ===== *)
theory ProjectStore
  imports Environments UserGroups
begin

text \<open>
  The state of a server, in which the services meet, and the store of projects
  (\<open>features/project/project-store.ts\<close>, \<open>features/private-project\<close>). A project is a row that features,
  roles, groups, segments, environments and API tokens refer to; only some of the references are
  foreign keys.
\<close>

section \<open>Values and events\<close>

text \<open>\<open>IProject\<close>, with the pattern of feature names, its example and description.\<close>

record project =
  pp_id :: string
  pp_name :: string
  pp_description :: "string option"
  pp_createdAt :: int
  pp_health :: int
  pp_updatedAt :: int
  pp_mode :: string
  pp_defaultStickiness :: string
  pp_featureLimit :: "int option"
  pp_naming_pattern :: "string option"
  pp_naming_example :: "string option"
  pp_naming_description :: "string option"

text \<open>The pattern asked for; for the others, \<open>None\<close> is \<open>undefined\<close> and \<open>Some None\<close> a \<open>null\<close>.\<close>

record feature_naming =
  nm_pattern :: "string option"
  nm_example :: "string option option"
  nm_description :: "string option option"

record project_input =
  pi_id :: string
  pi_name :: string
  pi_description :: "string option"
  pi_mode :: "string option"
  pi_defaultStickiness :: string
  pi_featureLimit :: "int option"
  pi_featureNaming :: "feature_naming option"

record project_update =
  pd_id :: string
  pd_name :: string
  pd_description :: "string option"
  pd_defaultStickiness :: "string option"
  pd_featureLimit :: "int option"

record settings_update =
  st_id :: string
  st_mode :: "string option"
  st_featureNaming :: "feature_naming option"

text \<open>What events say (\<open>types/events.ts\<close>); a role goes with its name, a change has data and preData.\<close>

datatype project_event_kind =
    ProjectCreated project_input
  | ProjectUpdated project project
  | ProjectSettingsUpdated settings_update project
  | ProjectDeleted
  | ProjectUserAdded int int string "string option" \<comment> \<open>role, user, name of the role, e-mail\<close>
  | ProjectUserRemoved int int string "string option"
  | ProjectUserRoleChanged int "int \<times> string" "int \<times> string"
  | ProjectGroupAdded int string
  | ProjectGroupRemoved int string
  | ProjectGroupRoleChanged int "int \<times> string" "int \<times> string"
  | ProjectRoleAccessAdded int "int list" "int list" \<comment> \<open>role, groups, users\<close>
  | ProjectAccessAdded "int list" "int list" "int list" \<comment> \<open>roles, groups, users\<close>
  | ProjectAccessUserRolesUpdated int "int list" "int list"
  | ProjectAccessGroupRolesUpdated int "int list" "int list"
  | ProjectAccessUserRolesDeleted "int + int" "int list" \<comment> \<open>user or group\<close>

record project_event =
  ev_kind :: project_event_kind
  ev_project :: string
  ev_createdBy :: string
  ev_createdByUserId :: int


section \<open>The server\<close>

record server =
  sv_accounts :: accounts
  sv_db :: feature_db
  sv_feature_events :: "feature_event list"
  sv_drawn :: nat
  sv_tokens :: token_db
  sv_events :: "project_event list"

type_synonym 'a project_op = "(server, 'a) op"

definition project_ids :: "feature_db \<Rightarrow> string list" where
  "project_ids db = map pj_id (fd_projects db)"

text \<open>
  One database: accounts see the projects and environments of the feature tables, features see the RBAC
  tables.
\<close>

definition account_view :: "server \<Rightarrow> accounts" where
  "account_view s = (sv_accounts s)\<lparr>aw_access := (aw_access (sv_accounts s))
     \<lparr>as_db := (as_db (aw_access (sv_accounts s)))\<lparr>ac_projects := project_ids (sv_db s)\<rparr>,
      as_environments := environment_names (sv_db s)\<rparr>\<rparr>"

definition server_access :: "server \<Rightarrow> access_service" where
  "server_access s = access_view (account_view s)"

definition feature_view :: "server \<Rightarrow> feature_service" where
  "feature_view s = \<lparr>fs_db = sv_db s, fs_access = server_access s, fs_events = sv_feature_events s, fs_drawn = sv_drawn s\<rparr>"

definition on_features :: "'a feature_op \<Rightarrow> 'a project_op" where
  "on_features m s = (case m (feature_view s) of (r, f) \<Rightarrow>
     (r, s\<lparr>sv_db := fs_db f, sv_feature_events := fs_events f, sv_drawn := fs_drawn f\<rparr>))"

definition ask_server_access :: "(access_service \<Rightarrow> 'a) \<Rightarrow> 'a project_op" where
  "ask_server_access f = askS (\<lambda>s. f (server_access s))"

definition on_server_access :: "(access_service \<Rightarrow> exn + access_service) \<Rightarrow> unit project_op" where
  "on_server_access f s = (case f (server_access s) of
       Inl e \<Rightarrow> (Inl e, s)
     | Inr a \<Rightarrow> (Inr (), s\<lparr>sv_accounts := with_access (account_view s) a\<rparr>))"

definition try_accounts :: "(accounts \<Rightarrow> exn + 'a) \<Rightarrow> 'a project_op" where
  "try_accounts f = tryS (\<lambda>s. f (account_view s))"

definition ask_tables :: "(feature_db \<Rightarrow> 'a) \<Rightarrow> 'a project_op" where
  "ask_tables f = askS (\<lambda>s. f (sv_db s))"

definition try_tables :: "(feature_db \<Rightarrow> exn + 'a) \<Rightarrow> 'a project_op" where
  "try_tables f = tryS (\<lambda>s. f (sv_db s))"

definition on_tables :: "(feature_db \<Rightarrow> (exn + 'a) \<times> feature_db) \<Rightarrow> 'a project_op" where
  "on_tables f s = (case f (sv_db s) of (r, db) \<Rightarrow> (r, s\<lparr>sv_db := db\<rparr>))"

definition add_project_event :: "project_event_kind \<Rightarrow> string \<Rightarrow> string \<Rightarrow> int \<Rightarrow> unit project_op" where
  "add_project_event kind p creator uid = modS (\<lambda>s. s\<lparr>sv_events := sv_events s @
     [\<lparr>ev_kind = kind, ev_project = p, ev_createdBy = creator, ev_createdByUserId = uid\<rparr>]\<rparr>)"


section \<open>Reading projects\<close>

definition mapRow :: "int \<Rightarrow> project_row \<Rightarrow> project" where
  "mapRow now r =
     \<lparr>pp_id = pj_id r, pp_name = pj_name r, pp_description = pj_description r, pp_createdAt = pj_created_at r,
      pp_health = pj_health r, pp_updatedAt = default now (pj_updated_at r), pp_mode = or_else (pj_mode r) ''open'',
      pp_defaultStickiness = or_else (pj_default_stickiness r) ''default'', pp_featureLimit = pj_feature_limit r,
      pp_naming_pattern = pj_naming_pattern r, pp_naming_example = pj_naming_example r,
      pp_naming_description = pj_naming_description r\<rparr>"

definition projects_get :: "int \<Rightarrow> string \<Rightarrow> feature_db \<Rightarrow> exn + project" where
  "projects_get now p db = (case project_of p db of
       None \<Rightarrow> Inl (Api (NotFoundError (Some ''No project found''))) | Some r \<Rightarrow> Inr (mapRow now r))"

definition by_name :: "project_row list \<Rightarrow> project_row list" where
  "by_name rows = sort_key (\<lambda>r. map (of_char :: char \<Rightarrow> nat) (pj_name r)) rows"

text \<open>The columns of the settings are not selected here.\<close>

definition projects_getAll :: "int \<Rightarrow> feature_db \<Rightarrow> project list" where
  "projects_getAll now db = map (\<lambda>r. mapRow now (r\<lparr>pj_mode := None, pj_default_stickiness := None,
     pj_feature_limit := None, pj_naming_pattern := None, pj_naming_example := None, pj_naming_description := None\<rparr>))
     (by_name (fd_projects db))"

definition projects_count :: "feature_db \<Rightarrow> nat" where
  "projects_count db = length (fd_projects db)"

definition hasProjectSettings :: "string \<Rightarrow> feature_db \<Rightarrow> bool" where
  "hasProjectSettings p db = list_ex (\<lambda>r. pj_id r = p \<and> pj_has_settings r) (fd_projects db)"

definition getProjectModeCounts :: "feature_db \<Rightarrow> (string \<times> nat) list" where
  "getProjectModeCounts db = (let modes = map (\<lambda>r. default ''open'' (pj_mode r)) (fd_projects db) in
     map (\<lambda>m. (m, length (filter (\<lambda>x. x = m) modes))) (remdups modes))"

text \<open>
  Who is in a project: the users with a role there that is not a root role, and the members of the groups
  that have one; a group without members gives a null.
\<close>

definition member_rows :: "access_db \<Rightarrow> (int option \<times> string) list" where
  "member_rows db = remdups
     ([(Some (ru_user ru), ru_project ru). ru \<leftarrow> ac_role_user db,
         list_ex (\<lambda>r. ro_id r = ru_role ru \<and> ro_type r \<noteq> ''root'') (ac_roles db)]
      @ concat (map (\<lambda>gr. case filter (\<lambda>gu. gu_group gu = gr_group gr) (ac_group_user db) of
            [] \<Rightarrow> [(None, gr_project gr)]
          | us \<Rightarrow> map (\<lambda>gu. (Some (gu_user gu), gr_project gr)) us) (ac_group_role db)))"

text \<open>\<open>count('user_id')\<close> leaves nulls out, \<open>count()\<close> counts every row.\<close>

definition getMembersCount :: "access_db \<Rightarrow> (string \<times> nat) list" where
  "getMembersCount db = (let rows = member_rows db in
     map (\<lambda>p. (p, length (filter (\<lambda>r. snd r = p \<and> fst r \<noteq> None) rows))) (remdups (map snd rows)))"

definition getMembersCountByProject :: "string \<Rightarrow> access_db \<Rightarrow> nat" where
  "getMembersCountByProject p db = length (filter (\<lambda>r. snd r = p) (member_rows db))"

definition getProjectsByUser :: "int \<Rightarrow> access_db \<Rightarrow> string list" where
  "getProjectsByUser uid db = remdups
     (map ru_project (filter (\<lambda>ru. ru_user ru = uid) (ac_role_user db))
      @ [gr_project gr. gr \<leftarrow> ac_group_role db, gu \<leftarrow> ac_group_user db, gu_group gu = gr_group gr \<and> gu_user gu = uid])"

record project_with_count =
  pc_project :: project
  pc_featureCount :: nat
  pc_staleFeatureCount :: nat
  pc_potentiallyStaleFeatureCount :: nat
  pc_memberCount :: nat

text \<open>Favourites and statistics are left out; the limit and the naming are not selected.\<close>

definition getProjectsWithCounts :: "int \<Rightarrow> string option \<Rightarrow> access_db \<Rightarrow> feature_db \<Rightarrow> project_with_count list" where
  "getProjectsWithCounts now query adb db =
     (let count = (\<lambda>p P. length (filter (\<lambda>f. ft_project f = p \<and> ft_archived_at f = None \<and> P f) (fd_features db)))
      in map (\<lambda>r. \<lparr>pc_project = mapRow now (r\<lparr>pj_feature_limit := None, pj_naming_pattern := None,
                     pj_naming_example := None, pj_naming_description := None\<rparr>),
                   pc_featureCount = count (pj_id r) (\<lambda>_. True), pc_staleFeatureCount = count (pj_id r) ft_stale,
                   pc_potentiallyStaleFeatureCount = count (pj_id r) (\<lambda>f. ft_potentially_stale f = Some True),
                   pc_memberCount = default 0 (map_of (getMembersCount adb) (pj_id r))\<rparr>)
           (filter (\<lambda>r. query = None \<or> query = Some (pj_id r)) (by_name (fd_projects db))))"


section \<open>Writing projects\<close>

definition project_row_of :: "int \<Rightarrow> string \<Rightarrow> string \<Rightarrow> string option \<Rightarrow> project_row" where
  "project_row_of now p name desc =
     \<lparr>pj_id = p, pj_name = name, pj_description = desc, pj_created_at = now, pj_health = 100, pj_updated_at = Some now,
      pj_has_settings = False, pj_mode = None, pj_naming_pattern = None, pj_naming_example = None,
      pj_naming_description = None, pj_default_stickiness = None, pj_feature_limit = None\<rparr>"

definition map_projects :: "string \<Rightarrow> (project_row \<Rightarrow> project_row) \<Rightarrow> feature_db \<Rightarrow> feature_db" where
  "map_projects p f db = db\<lparr>fd_projects := map (\<lambda>r. if pj_id r = p then f r else r) (fd_projects db)\<rparr>"

definition CHECK_VIOLATION :: string where
  "CHECK_VIOLATION = ''23514''"

definition valid_mode :: "string option \<Rightarrow> bool" where
  "valid_mode m = (case m of None \<Rightarrow> True | Some v \<Rightarrow> List.member [''open'', ''protected'', ''private''] v)"

text \<open>
  Two statements: the row, then its settings, whose mode is \<open>open\<close> where it is undefined. The naming of
  features is not written.
\<close>

definition projects_create :: "int \<Rightarrow> project_input \<Rightarrow> feature_db \<Rightarrow> (exn + project) \<times> feature_db" where
  "projects_create now d db =
     (let row = project_row_of now (pi_id d) (pi_name d) (pi_description d);
          full = row\<lparr>pj_has_settings := True, pj_mode := Some (default ''open'' (pi_mode d)),
                     pj_default_stickiness := Some (pi_defaultStickiness d), pj_feature_limit := pi_featureLimit d\<rparr>
      in if hasProject (pi_id d) db then (Inl (fd_unique_error db ''projects_pkey''), db)
         else if \<not> valid_mode (pi_mode d)
         then (Inl (DbError CHECK_VIOLATION (Some ''project_settings_project_mode_values'') None
                 (fd_message db ''project_settings_project_mode_values'')), db\<lparr>fd_projects := fd_projects db @ [row]\<rparr>)
         else (Inr (mapRow now full), db\<lparr>fd_projects := fd_projects db @ [full]\<rparr>))"

definition projects_updateHealth :: "int \<Rightarrow> string \<Rightarrow> int \<Rightarrow> feature_db \<Rightarrow> feature_db" where
  "projects_updateHealth now p health = map_projects p (\<lambda>r. r\<lparr>pj_health := health, pj_updated_at := Some now\<rparr>)"

text \<open>Without a row of settings one is inserted, in mode \<open>open\<close>.\<close>

definition projects_update :: "project_update \<Rightarrow> feature_db \<Rightarrow> feature_db" where
  "projects_update d = map_projects (pd_id d) (\<lambda>r.
     (let r1 = r\<lparr>pj_name := pd_name d,
                 pj_description := (if pd_description d = None then pj_description r else pd_description d)\<rparr>
      in if pd_defaultStickiness d = None \<and> pd_featureLimit d = None then r1
         else (let r2 = (if pj_has_settings r1 then r1 else r1\<lparr>pj_has_settings := True, pj_mode := Some ''open''\<rparr>)
               in r2\<lparr>pj_default_stickiness := (if pd_defaultStickiness d = None then pj_default_stickiness r2
                                             else pd_defaultStickiness d),
                     pj_feature_limit := (if pd_featureLimit d = None then pj_feature_limit r2 else pd_featureLimit d)\<rparr>)))"

text \<open>
  Errors of this update are logged and swallowed: a mode the check constraint refuses changes nothing, and
  neither does an update without a field, which knex refuses.
\<close>

definition projects_updateEnterpriseSettings :: "settings_update \<Rightarrow> feature_db \<Rightarrow> feature_db" where
  "projects_updateEnterpriseSettings d db =
     (if \<not> valid_mode (st_mode d) then db
      else map_projects (st_id d) (\<lambda>r.
        (let r1 = (if pj_has_settings r then r else r\<lparr>pj_has_settings := True, pj_mode := Some ''open''\<rparr>);
             r2 = r1\<lparr>pj_mode := (if st_mode d = None then pj_mode r1 else st_mode d)\<rparr>
         in case st_featureNaming d of
              None \<Rightarrow> r2
            | Some n \<Rightarrow> r2\<lparr>pj_naming_pattern := nm_pattern n,
                pj_naming_example := default (pj_naming_example r2) (nm_example n),
                pj_naming_description := default (pj_naming_description r2) (nm_description n)\<rparr>)) db)"

text \<open>
  The rows that were inserted. The links to environments are not awaited, and a link that fails is an
  unhandled rejection: the others are made.
\<close>

definition importProjects ::
  "int \<Rightarrow> (string \<times> string \<times> string option) list \<Rightarrow> string list option \<Rightarrow> feature_db \<Rightarrow> project list \<times> feature_db" where
  "importProjects now projects envs db =
     (let new = foldl (\<lambda>acc (p, n, d). if List.member (project_ids db) p \<or> p \<in> pj_id ` set acc then acc
                                      else acc @ [project_row_of now p n d]) [] projects;
          db1 = db\<lparr>fd_projects := fd_projects db @ new\<rparr>
      in case envs of
           None \<Rightarrow> ([], db1)
         | Some es \<Rightarrow> if new = [] then ([], db1)
             else (map (mapRow now) new,
                   foldl (\<lambda>db (e, p). case store_addEnvironmentToProject p e db of Inl _ \<Rightarrow> db | Inr db' \<Rightarrow> db') db1
                     [(e, fst p). e \<leftarrow> es, p \<leftarrow> projects]))"

text \<open>
  A project takes with it its environments, its change request settings, its segments, its groups' roles and
  the links of API tokens to it. Features and the roles of users have no foreign key.
\<close>

definition drop_project_rows :: "string \<Rightarrow> feature_db \<Rightarrow> feature_db" where
  "drop_project_rows p db =
     (let gone = map sw_id (filter (\<lambda>r. sw_project r = Some p) (fd_segments db))
      in db\<lparr>fd_projects := filter (\<lambda>r. pj_id r \<noteq> p) (fd_projects db),
           fd_project_envs := filter (\<lambda>l. pv_project l \<noteq> p) (fd_project_envs db),
           fd_change_requests := filter (\<lambda>c. fst c \<noteq> p) (fd_change_requests db),
           fd_segments := filter (\<lambda>r. sw_project r \<noteq> Some p) (fd_segments db),
           fd_strategy_segments := filter (\<lambda>l. \<not> List.member gone (snd l)) (fd_strategy_segments db),
           fd_cr_segments := filter (\<lambda>c. snd c \<noteq> p) (fd_cr_segments db)\<rparr>)"

definition drop_group_roles :: "string \<Rightarrow> access_db \<Rightarrow> access_db" where
  "drop_group_roles p db = db\<lparr>ac_group_role := filter (\<lambda>r. gr_project r \<noteq> p) (ac_group_role db)\<rparr>"

definition projects_remove :: "string \<Rightarrow> server \<Rightarrow> server" where
  "projects_remove p s =
     (if hasProject p (sv_db s)
      then s\<lparr>sv_db := drop_project_rows p (sv_db s), sv_tokens := projects_delete p (sv_tokens s),
             sv_accounts := (sv_accounts s)\<lparr>aw_access := with_db (aw_access (sv_accounts s))
               (drop_group_roles p (as_db (aw_access (sv_accounts s))))\<rparr>\<rparr>
      else s)"

definition projects_removeAll :: "server \<Rightarrow> server" where
  "projects_removeAll s = foldl (\<lambda>s p. projects_remove p s) s (project_ids (sv_db s))"


section \<open>Private projects\<close>

datatype project_access = AllProjects | LimitedTo "string list"

text \<open>A user whose root role is Viewer sees private projects only with a role there, of its own or a group's.\<close>

definition store_getUserAccessibleProjects :: "int \<Rightarrow> access_db \<Rightarrow> feature_db \<Rightarrow> project_access" where
  "store_getUserAccessibleProjects uid adb db =
     (let viewer = list_ex (\<lambda>ru. ru_user ru = uid \<and>
            list_ex (\<lambda>r. ro_id r = ru_role ru \<and> ro_name r = ''Viewer'' \<and> ro_type r = ''root'') (ac_roles adb))
            (ac_role_user adb)
      in if uid = ADMIN_TOKEN_USER_id \<or> \<not> viewer then AllProjects
         else LimitedTo
           (map pj_id (filter (\<lambda>r. \<not> pj_has_settings r \<or> (pj_mode r \<noteq> None \<and> pj_mode r \<noteq> Some ''private'')) (fd_projects db))
            @ map pj_id (filter (\<lambda>r. pj_has_settings r \<and>
                (pj_mode r = Some ''private'' \<and> list_ex (\<lambda>ru. ru_project ru = pj_id r \<and> ru_user ru = uid) (ac_role_user adb) \<or>
                 list_ex (\<lambda>gr. gr_project gr = pj_id r \<and>
                   list_ex (\<lambda>gu. gu_group gu = gr_group gr \<and> gu_user gu = uid) (ac_group_user adb)) (ac_group_role adb)))
                (fd_projects db))))"

definition getUserAccessibleProjects :: "feature_config \<Rightarrow> int \<Rightarrow> access_db \<Rightarrow> feature_db \<Rightarrow> project_access" where
  "getUserAccessibleProjects cfg uid adb db =
     (if fc_isEnterprise cfg then store_getUserAccessibleProjects uid adb db else AllProjects)"

definition may_see :: "project_access \<Rightarrow> string \<Rightarrow> bool" where
  "may_see a p = (case a of AllProjects \<Rightarrow> True | LimitedTo ps \<Rightarrow> List.member ps p)"

definition hasAccessToProject :: "feature_config \<Rightarrow> int \<Rightarrow> string \<Rightarrow> access_db \<Rightarrow> feature_db \<Rightarrow> bool" where
  "hasAccessToProject cfg uid p adb db = may_see (getUserAccessibleProjects cfg uid adb db) p"

end
