(* ===== verification/ProjectService.thy ===== *)
theory ProjectService
  imports ProjectStore
begin

text \<open>
  The project service (\<open>features/project/project-service.ts\<close>): the life of a project and who has access
  to it, over the features, the RBAC tables, the groups and the users of a server. Each operation is a
  sequence of statements; none is a transaction.
\<close>

section \<open>Naming patterns and schemas\<close>

definition disallowedStrings :: "string list" where
  "disallowedStrings = ['' '', [CHR 0x5C, CHR ''t''], [CHR 0x5C, CHR ''s''], [CHR 0x5C, CHR ''n''], [CHR 0x5C, CHR ''r''],
     [CHR 0x5C, CHR ''f''], [CHR 0x5C, CHR ''v'']]"

definition given :: "string option option \<Rightarrow> string option" where
  "given v = (case v of Some (Some x) \<Rightarrow> if x = [] then None else Some x | _ \<Rightarrow> None)"

text \<open>The reasons why a pattern is refused (\<open>feature-naming-validation.ts\<close>).\<close>

definition checkFeatureNamingData :: "feature_config \<Rightarrow> feature_naming \<Rightarrow> string list" where
  \<open>checkFeatureNamingData cfg n =
     (let pattern = given (Some (nm_pattern n)); example = given (nm_example n); descr = given (nm_description n);
          missing = (\<lambda>what. ''You've provided a feature flag naming '' @ what @
            '', but no feature flag naming pattern. You must specify a pattern to use a '' @ what @ ''.'')
      in (if list_ex (\<lambda>str. str_includes (default [] (nm_pattern n)) str) disallowedStrings
          then [''Feature flag names cannot contain whitespace. You've provided a feature flag naming pattern that contains a whitespace character: "''
                @ the (nm_pattern n) @ ''". Remove any whitespace characters from your pattern.'']
          else if pattern \<noteq> None \<and> example \<noteq> None \<and> \<not> fc_regex cfg (the pattern) (the example)
          then [''You've provided a feature flag naming example ("'' @ the example @
                ''") that doesn't match your feature flag naming pattern ("'' @ the pattern @ ''").'']
          else [])
         @ (if pattern = None \<and> example \<noteq> None then [missing ''example''] else [])
         @ (if pattern = None \<and> descr \<noteq> None then [missing ''description''] else []))\<close>

definition validateAndProcessFeatureNamingPattern :: "feature_config \<Rightarrow> feature_naming \<Rightarrow> exn + feature_naming" where
  "validateAndProcessFeatureNamingPattern cfg n =
     (let reasons = checkFeatureNamingData cfg n; named = truthy (nm_pattern n) in
      if reasons \<noteq> []
      then Inl (Api (BadDataError' ''The feature naming pattern data you provided was invalid.''
             (Some (map (\<lambda>m. (detail m)\<lparr>dt_description := None\<rparr>) reasons))))
      else Inr (n\<lparr>nm_example := (if named \<and> given (nm_example n) = None then Some None else nm_example n),
                  nm_description := (if named \<and> given (nm_description n) = None then Some None else nm_description n)\<rparr>))"

text \<open>The schema of a new project: what Joi complains of first (\<open>services/project-schema.ts\<close>); defaults are in the input.\<close>

definition projectSchema :: "feature_config \<Rightarrow> project_input \<Rightarrow> exn + project_input" where
  \<open>projectSchema cfg d =
     bindR (joi_first (name_errors cfg ''"id"'' (pi_id d)
        @ (if pi_name d = [] then [\<lparr>jd_message = ''"name" is not allowed to be empty'', jd_value = None\<rparr>] else [])
        @ (if valid_mode (pi_mode d) then []
           else [\<lparr>jd_message = ''"mode" must be one of [open, protected, private]'', jd_value = None\<rparr>])
        @ (if pi_defaultStickiness d = []
           then [\<lparr>jd_message = ''"defaultStickiness" is not allowed to be empty'', jd_value = None\<rparr>] else [])))
       (\<lambda>_. Inr (d\<lparr>pi_mode := Some (default ''open'' (pi_mode d))\<rparr>))\<close>

definition removeModeForNonEnterprise :: "feature_config \<Rightarrow> project_input \<Rightarrow> project_input" where
  "removeModeForNonEnterprise cfg d = (if fc_isEnterprise cfg then d else d\<lparr>pi_mode := None\<rparr>)"

definition validateUniqueId :: "string \<Rightarrow> feature_db \<Rightarrow> exn + unit" where
  "validateUniqueId p db = throw_if (hasProject p db) (Api (NameExistsError ''A project with this id already exists.''))"

definition validateId :: "feature_config \<Rightarrow> string \<Rightarrow> feature_db \<Rightarrow> exn + unit" where
  \<open>validateId cfg p db = bindR (joi_first (name_errors cfg ''"value"'' p)) (\<lambda>_. validateUniqueId p db)\<close>

text \<open>\<open>user.email || user.username || 'unknown'\<close>\<close>

definition project_getCreatedBy :: "acting_user \<Rightarrow> string" where
  "project_getCreatedBy u = or_else (act_email u) (or_else (act_username u) ''unknown'')"


section \<open>Projects\<close>

definition getProjects :: "feature_config \<Rightarrow> string option \<Rightarrow> int option \<Rightarrow> server \<Rightarrow> project_with_count list" where
  "getProjects cfg query uid s =
     (let adb = as_db (server_access s); all = getProjectsWithCounts (fc_now cfg) query adb (sv_db s)
      in if num_or uid 0 = 0 then all
         else filter (\<lambda>p. may_see (getUserAccessibleProjects cfg (the uid) adb (sv_db s)) (pp_id (pc_project p))) all)"

definition getProject :: "feature_config \<Rightarrow> string \<Rightarrow> feature_db \<Rightarrow> exn + project" where
  "getProject cfg p db = projects_get (fc_now cfg) p db"

definition createProject :: "feature_config \<Rightarrow> project_input \<Rightarrow> acting_user \<Rightarrow> project_input project_op" where
  "createProject cfg new user =
     bindS (try_tables (\<lambda>_. projectSchema cfg new)) (\<lambda>validated.
      let d = removeModeForNonEnterprise cfg validated in
      thenS (try_tables (validateUniqueId (pi_id d)))
     (thenS (on_tables (projects_create (fc_now cfg) d))
     (bindS (ask_tables (environments_getAll nv_enabled)) (\<lambda>envs.
      thenS (allS (\<lambda>e. on_features (stmt (connectProject (nv_name e) (pi_id d) False))) envs)
     (thenS (on_server_access (createDefaultProjectRoles (fc_now cfg) (Some (ax_id user)) (pi_id d)))
     (thenS (add_project_event (ProjectCreated d) (pi_id new) (project_getCreatedBy user) (ax_id user))
      (returnS d)))))))"

definition updateProject :: "feature_config \<Rightarrow> project_update \<Rightarrow> acting_user \<Rightarrow> unit project_op" where
  "updateProject cfg d user =
     bindS (try_tables (getProject cfg (pd_id d))) (\<lambda>preData.
      thenS (on_tables (\<lambda>db. (Inr (), projects_update d db)))
     (bindS (try_tables (getProject cfg (pd_id d))) (\<lambda>afterData.
      add_project_event (ProjectUpdated afterData preData) (pd_id d) (project_getCreatedBy user) (ax_id user))))"

definition updateProjectEnterpriseSettings :: "feature_config \<Rightarrow> settings_update \<Rightarrow> acting_user \<Rightarrow> unit project_op" where
  "updateProjectEnterpriseSettings cfg d user =
     bindS (try_tables (getProject cfg (st_id d))) (\<lambda>preData.
     bindS (try_tables (\<lambda>_. case st_featureNaming d of
         None \<Rightarrow> Inr None | Some n \<Rightarrow> bindR (validateAndProcessFeatureNamingPattern cfg n) (\<lambda>n. Inr (Some n)))) (\<lambda>naming.
      let d' = d\<lparr>st_featureNaming := naming\<rparr> in
      thenS (on_tables (\<lambda>db. (Inr (), projects_updateEnterpriseSettings d' db)))
        (add_project_event (ProjectSettingsUpdated d' preData) (st_id d) (project_getCreatedBy user) (ax_id user))))"

text \<open>\<open>util/arraysHaveSameItems.ts\<close>\<close>

definition arraysHaveSameItems :: "'a list \<Rightarrow> 'a list \<Rightarrow> bool" where
  "arraysHaveSameItems a b = (length (remdups a) = length (remdups b) \<and> list_all (List.member b) (remdups a))"

definition checkProjectsCompatibility :: "string \<Rightarrow> string \<Rightarrow> feature_db \<Rightarrow> bool" where
  "checkProjectsCompatibility name newProject db =
     arraysHaveSameItems (map en_environment (filter (\<lambda>e. en_feature e = name) (fd_envs db)))
       (map pv_environment (getEnvironmentsForProject newProject db))"

definition MOVE_FEATURE_TOGGLE :: string where
  "MOVE_FEATURE_TOGGLE = ''MOVE_FEATURE_TOGGLE''"

definition project_changeProject :: "feature_config \<Rightarrow> string \<Rightarrow> string \<Rightarrow> acting_user \<Rightarrow> string \<Rightarrow> unit project_op" where
  "project_changeProject cfg newProject name user currentProject =
     bindS (try_tables (features_get name)) (\<lambda>feature.
      thenS (guardS (tf_project feature \<noteq> currentProject) (Api (PermissionError [MOVE_FEATURE_TOGGLE] None)))
     (thenS (try_tables (getProject cfg newProject))
     (bindS (ask_server_access (hasPermission (access_user.truncate user) [MOVE_FEATURE_TOGGLE] (Some newProject) None)) (\<lambda>authorized.
      thenS (guardS (\<not> authorized) (Api (PermissionError [MOVE_FEATURE_TOGGLE] None)))
     (bindS (ask_tables (checkProjectsCompatibility name newProject)) (\<lambda>compatible.
      thenS (guardS (\<not> compatible) (Api (IncompatibleProjectError newProject)))
     (thenS (on_features (changeProject cfg name newProject (project_getCreatedBy user) (ax_id user)))
      (on_features (updateFeatureStrategyProject name newProject)))))))))"

text \<open>
  The deletion of the archived features is not awaited: it runs next to the rest, and its failure is an
  unhandled rejection. As it and the rest touch different tables, what is open is before which of the later
  statements its effect is there, the \<open>turn\<close>.
\<close>

definition unawaited :: "nat \<Rightarrow> nat \<Rightarrow> unit project_op \<Rightarrow> unit project_op" where
  "unawaited turn i m = whenS (turn = i) (orElseS m (\<lambda>_. returnS ()))"

definition archived_features :: "string \<Rightarrow> bool \<Rightarrow> feature_db \<Rightarrow> string list" where
  "archived_features p archived db =
     map ft_name (filter (\<lambda>r. ft_project r = p \<and> filterByArchived archived r) (fd_features db))"

definition deleteProject :: "nat \<Rightarrow> string \<Rightarrow> acting_user \<Rightarrow> string \<Rightarrow> unit project_op" where
  "deleteProject turn p user name =
      thenS (guardS (p = DEFAULT_PROJECT) (Api (InvalidOperationError ''You can not delete the default project!'')))
     (bindS (ask_tables (archived_features p False)) (\<lambda>toggles.
      thenS (guardS (toggles \<noteq> []) (Api (InvalidOperationError ''You can not delete a project with active feature toggles'')))
     (bindS (ask_tables (archived_features p True)) (\<lambda>archived.
      let deletion = on_features (deleteFeatures archived p name (ax_id user)) in
      thenS (unawaited turn 0 deletion)
     (thenS (modS (projects_remove p))
     (thenS (unawaited turn 1 deletion)
     (thenS (add_project_event ProjectDeleted p (project_getCreatedBy user) (ax_id user))
     (thenS (unawaited turn 2 deletion)
     (thenS (on_server_access (\<lambda>a. Inr (removeDefaultProjectRoles p a)))
      (unawaited turn 3 deletion))))))))))"


section \<open>Owners\<close>

definition OWNER :: string where
  "OWNER = ''Owner''"

definition undefined_id :: exn where
  \<open>undefined_id = JsError ''TypeError'' ''Cannot read properties of undefined (reading 'id')''\<close>

definition owner_role :: "access_service \<Rightarrow> exn + role" where
  "owner_role a = (case getRoleByName (as_db a) OWNER of None \<Rightarrow> Inl undefined_id | Some r \<Rightarrow> Inr r)"

text \<open>The groups of a project whose users can be read; a group counts by the first of its roles.\<close>

definition validateAtLeastOneOwner :: "account_config \<Rightarrow> string \<Rightarrow> role \<Rightarrow> accounts \<Rightarrow> exn + unit" where
  "validateAtLeastOneOwner acfg p currentRole s =
     (if ro_name currentRole = OWNER
      then bindR (group_getProjectGroups acfg p s) (\<lambda>groups.
        throw_if (length (getProjectUsersForRole (ro_id currentRole) p (access_view s)) +
                  length (filter (\<lambda>g. pg_roleId (snd g) = ro_id currentRole) groups) < 2)
          (Api ProjectWithoutOwnerError))
      else Inr ())"

definition findProjectRole :: "string \<Rightarrow> int \<Rightarrow> access_service \<Rightarrow> exn + role" where
  "findProjectRole p rid a = (case find (\<lambda>r. ro_id (fst r) = rid) (getRolesForProject p a) of
       None \<Rightarrow> Inl (Api (NotFoundError (Some (''Couldn't find roleId='' @ show_int rid @ '' on project='' @ p))))
     | Some r \<Rightarrow> Inr (fst r))"

definition findProjectGroupRole :: "string \<Rightarrow> int \<Rightarrow> accounts \<Rightarrow> exn + (int \<times> string)" where
  "findProjectGroupRole p rid s = (case find (\<lambda>(_, r, _). r = rid) (getProjectGroupRoles p (group_view s)) of
       None \<Rightarrow> Inl (Api (NotFoundError (Some (''Couldn't find roleId='' @ show_int rid @ '' on project='' @ p))))
     | Some (_, r, n) \<Rightarrow> Inr (r, n))"


section \<open>Access of users\<close>

definition addUser :: "account_config \<Rightarrow> int \<Rightarrow> string \<Rightarrow> int \<Rightarrow> int \<Rightarrow> string \<Rightarrow> unit project_op" where
  "addUser acfg now p rid uid creator =
     bindS (try_accounts (\<lambda>s. bindR (group_getProjectGroups acfg p s) (\<lambda>_. Inr (access_view s)))) (\<lambda>a.
     bindS (try_accounts (accounts_get acfg uid)) (\<lambda>user.
     bindS (try_tables (\<lambda>_. case find (\<lambda>r. ro_id r = rid) (getProjectRoles a) of
         None \<Rightarrow> Inl (Api (NotFoundError (Some (''Could not find roleId='' @ show_int rid @ '' on project='' @ p))))
       | Some r \<Rightarrow> Inr r)) (\<lambda>role.
      thenS (guardS (list_ex (\<lambda>u. pu_id u = uid) (getProjectUsers p a))
        (JsError ''Error'' (''User already has access to project='' @ p)))
     (thenS (on_server_access (addUserToRole now uid (ro_id role) p))
      (add_project_event (ProjectUserAdded rid uid (ro_name role) (us_email user)) p
        (if creator = [] then SYSTEM_USER_username else creator) (us_userId user))))))"

definition removeUser :: "account_config \<Rightarrow> string \<Rightarrow> int \<Rightarrow> int \<Rightarrow> string \<Rightarrow> int \<Rightarrow> unit project_op" where
  "removeUser acfg p rid uid creator cid =
     bindS (tryS (\<lambda>s. findProjectRole p rid (server_access s))) (\<lambda>role.
      thenS (try_accounts (validateAtLeastOneOwner acfg p role))
     (thenS (on_server_access (\<lambda>a. Inr (removeUserFromRole uid (ro_id role) p a)))
     (bindS (try_accounts (accounts_get acfg uid)) (\<lambda>user.
      add_project_event (ProjectUserRemoved rid uid (ro_name role) (us_email user)) p creator cid))))"

definition project_removeUserAccess :: "account_config \<Rightarrow> string \<Rightarrow> int \<Rightarrow> string \<Rightarrow> int \<Rightarrow> unit project_op" where
  "project_removeUserAccess acfg p uid creator cid =
     bindS (ask_server_access (getProjectRolesForUser p uid)) (\<lambda>existing.
     bindS (tryS (\<lambda>s. owner_role (server_access s))) (\<lambda>ownerRole.
      thenS (if List.member existing (ro_id ownerRole) then try_accounts (validateAtLeastOneOwner acfg p ownerRole) else returnS ())
     (thenS (on_server_access (\<lambda>a. Inr (removeUserAccess p uid a)))
      (add_project_event (ProjectAccessUserRolesDeleted (Inl uid) existing) p creator cid))))"

definition isAdmin :: "int \<Rightarrow> (role \<times> string) list \<Rightarrow> bool" where
  "isAdmin uid roles = (uid = SYSTEM_USER_ID \<or> uid = ADMIN_TOKEN_USER_id \<or> list_ex (\<lambda>r. ro_name (fst r) = ''Admin'') roles)"

definition isProjectOwner :: "(role \<times> string) list \<Rightarrow> string \<Rightarrow> bool" where
  "isProjectOwner roles p = list_ex (\<lambda>r. snd r = p \<and> ro_name (fst r) = OWNER) roles"

definition isAllowedToAddAccess :: "int \<Rightarrow> string \<Rightarrow> int list \<Rightarrow> access_service \<Rightarrow> bool" where
  "isAllowedToAddAccess uid p rolesBeingAdded a =
     (let userRoles = getAllProjectRolesForUser uid p a in
      isAdmin uid userRoles \<or> isProjectOwner userRoles p \<or>
      list_all (\<lambda>rid. list_ex (\<lambda>r. ro_id (fst r) = rid) userRoles) rolesBeingAdded)"

definition addRoleAccess ::
  "int \<Rightarrow> string \<Rightarrow> int \<Rightarrow> int list \<Rightarrow> int list \<Rightarrow> string \<Rightarrow> int \<Rightarrow> unit project_op" where
  "addRoleAccess now p rid users groups creator cid =
      thenS (on_server_access (addRoleAccessToProject now users groups p rid creator))
        (add_project_event (ProjectRoleAccessAdded rid groups users) p creator cid)"

definition addAccess ::
  "int \<Rightarrow> string \<Rightarrow> int list \<Rightarrow> int list \<Rightarrow> int list \<Rightarrow> string \<Rightarrow> int \<Rightarrow> unit project_op" where
  "addAccess now p roles groups users creator cid =
     bindS (ask_server_access (isAllowedToAddAccess cid p roles)) (\<lambda>allowed.
       if allowed
       then thenS (on_server_access (addAccessToProject now roles groups users p creator))
         (add_project_event (ProjectAccessAdded roles groups users) p creator cid)
       else failS (Api (InvalidOperationError ''User tried to grant role they did not have access to'')))"

definition assign_error :: exn where
  "assign_error = Api (InvalidOperationError ''User tried to assign a role they did not have access to'')"

definition setRolesForUser ::
  "account_config \<Rightarrow> int \<Rightarrow> string \<Rightarrow> int \<Rightarrow> int list \<Rightarrow> string \<Rightarrow> int \<Rightarrow> unit project_op" where
  "setRolesForUser acfg now p uid newRoles creator cid =
     bindS (ask_server_access (getProjectRolesForUser p uid)) (\<lambda>current.
     bindS (tryS (\<lambda>s. owner_role (server_access s))) (\<lambda>ownerRole.
      thenS (if List.member current (ro_id ownerRole) \<and> \<not> List.member newRoles (ro_id ownerRole)
             then try_accounts (validateAtLeastOneOwner acfg p ownerRole) else returnS ())
     (bindS (ask_server_access (isAllowedToAddAccess cid p newRoles)) (\<lambda>allowed.
       if allowed
       then thenS (on_server_access (setProjectRolesForUser now p uid newRoles))
         (add_project_event (ProjectAccessUserRolesUpdated uid newRoles current) p creator cid)
       else failS assign_error))))"


section \<open>Access of groups\<close>

definition addGroup :: "account_config \<Rightarrow> feature_config \<Rightarrow> string \<Rightarrow> int \<Rightarrow> int \<Rightarrow> string \<Rightarrow> int \<Rightarrow> unit project_op" where
  "addGroup acfg cfg p rid gid modifiedBy mid =
     bindS (tryS (\<lambda>s. getRole rid (server_access s))) (\<lambda>role.
     bindS (try_accounts (getGroup acfg gid)) (\<lambda>grp.
     bindS (try_tables (getProject cfg p)) (\<lambda>project.
      thenS (on_server_access (addGroupToRole (g_id (gm_group grp)) (ro_id (fst role)) modifiedBy (pp_id project)))
        (add_project_event (ProjectGroupAdded (g_id (gm_group grp)) (ro_name (fst role))) (pp_id project) modifiedBy mid))))"

definition removeGroup :: "account_config \<Rightarrow> feature_config \<Rightarrow> string \<Rightarrow> int \<Rightarrow> int \<Rightarrow> string \<Rightarrow> int \<Rightarrow> unit project_op" where
  "removeGroup acfg cfg p rid gid modifiedBy mid =
     bindS (try_accounts (getGroup acfg gid)) (\<lambda>grp.
     bindS (tryS (\<lambda>s. getRole rid (server_access s))) (\<lambda>role.
     bindS (try_tables (getProject cfg p)) (\<lambda>project.
      thenS (try_accounts (validateAtLeastOneOwner acfg p (fst role)))
     (thenS (on_server_access (\<lambda>a. Inr (removeGroupFromRole (g_id (gm_group grp)) (ro_id (fst role)) (pp_id project) a)))
        (add_project_event (ProjectGroupRemoved (g_id (gm_group grp)) (ro_name (fst role))) p modifiedBy mid)))))"

text \<open>The event is that of a user's access.\<close>

definition project_removeGroupAccess :: "account_config \<Rightarrow> string \<Rightarrow> int \<Rightarrow> string \<Rightarrow> int \<Rightarrow> unit project_op" where
  "project_removeGroupAccess acfg p gid creator cid =
     bindS (ask_server_access (getProjectRolesForGroup p gid)) (\<lambda>existing.
     bindS (tryS (\<lambda>s. owner_role (server_access s))) (\<lambda>ownerRole.
      thenS (if List.member existing (ro_id ownerRole) then try_accounts (validateAtLeastOneOwner acfg p ownerRole) else returnS ())
     (thenS (on_server_access (\<lambda>a. Inr (removeGroupAccess p gid a)))
      (add_project_event (ProjectAccessUserRolesDeleted (Inr gid) existing) p creator cid))))"

definition setRolesForGroup ::
  "account_config \<Rightarrow> string \<Rightarrow> int \<Rightarrow> int list \<Rightarrow> string \<Rightarrow> int \<Rightarrow> unit project_op" where
  "setRolesForGroup acfg p gid newRoles creator cid =
     bindS (ask_server_access (getProjectRolesForGroup p gid)) (\<lambda>current.
     bindS (tryS (\<lambda>s. owner_role (server_access s))) (\<lambda>ownerRole.
      thenS (if List.member current (ro_id ownerRole) \<and> \<not> List.member newRoles (ro_id ownerRole)
             then try_accounts (validateAtLeastOneOwner acfg p ownerRole) else returnS ())
     (bindS (ask_server_access (isAllowedToAddAccess cid p newRoles)) (\<lambda>allowed.
       if allowed
       then thenS (on_server_access (setProjectRolesForGroup p gid newRoles creator))
         (add_project_event (ProjectAccessGroupRolesUpdated gid newRoles current) p creator cid)
       else failS assign_error))))"


section \<open>Changing a role\<close>

definition empty_error :: "string \<Rightarrow> exn" where
  "empty_error what = JoiError (''Unexpected empty '' @ what) []"

definition found :: "string \<Rightarrow> 'a option \<Rightarrow> exn + 'a" where
  "found what x = (case x of None \<Rightarrow> Inl (empty_error what) | Some y \<Rightarrow> Inr y)"

definition changeRole :: "account_config \<Rightarrow> string \<Rightarrow> int \<Rightarrow> int \<Rightarrow> string \<Rightarrow> int \<Rightarrow> unit project_op" where
  "changeRole acfg p rid uid creator cid =
     bindS (try_accounts (\<lambda>s. bindR (group_getProjectGroups acfg p s) (\<lambda>_. Inr (access_view s)))) (\<lambda>a.
     bindS (try_tables (\<lambda>_. found ''user'' (find (\<lambda>u. pu_id u = uid) (getProjectUsers p a)))) (\<lambda>user.
     bindS (try_tables (\<lambda>_. found ''current role'' (find (\<lambda>r. ro_id r = pu_roleId user) (getProjectRoles a)))) (\<lambda>currentRole.
       if ro_id currentRole = rid then returnS ()
       else thenS (try_accounts (validateAtLeastOneOwner acfg p currentRole))
         (thenS (on_server_access (updateUserProjectRole uid rid p))
         (bindS (tryS (\<lambda>s. findProjectRole p rid (server_access s))) (\<lambda>role.
           add_project_event (ProjectUserRoleChanged uid (rid, ro_name role) (ro_id currentRole, ro_name currentRole)) p creator cid))))))"

definition changeGroupRole :: "account_config \<Rightarrow> string \<Rightarrow> int \<Rightarrow> int \<Rightarrow> string \<Rightarrow> int \<Rightarrow> unit project_op" where
  "changeGroupRole acfg p rid gid creator cid =
     bindS (try_accounts (\<lambda>s. bindR (group_getProjectGroups acfg p s) (\<lambda>gs. Inr (gs, access_view s)))) (\<lambda>(gs, a).
     bindS (try_tables (\<lambda>_. found ''user'' (find (\<lambda>g. pg_id (snd g) = gid) gs))) (\<lambda>grp.
     bindS (try_tables (\<lambda>_. found ''current role'' (find (\<lambda>r. ro_id r = pg_roleId (snd grp)) (getProjectRoles a)))) (\<lambda>currentRole.
       if ro_id currentRole = rid then returnS ()
       else thenS (try_accounts (validateAtLeastOneOwner acfg p currentRole))
         (thenS (on_server_access (updateGroupProjectRole gid rid p))
         (bindS (try_accounts (findProjectGroupRole p rid)) (\<lambda>role.
           add_project_event (ProjectGroupRoleChanged gid (rid, snd role) (ro_id currentRole, ro_name currentRole)) p creator cid))))))"


section \<open>Members\<close>

definition getMembers :: "string \<Rightarrow> server \<Rightarrow> nat" where
  "getMembers p s = getMembersCountByProject p (as_db (server_access s))"

text \<open>\<open>new Map\<close> keeps the place of the first entry of a key and the value of the last.\<close>

definition uniqueByKey :: "('a \<Rightarrow> 'k) \<Rightarrow> 'a list \<Rightarrow> 'a list" where
  "uniqueByKey key items =
     foldl (\<lambda>acc x. if \<exists>y\<in>set acc. key y = key x then map (\<lambda>y. if key y = key x then x else y) acc else acc @ [x]) [] items"

text \<open>The ids of the users of a project, its own and those of its groups.\<close>

definition project_getProjectUsers :: "account_config \<Rightarrow> string \<Rightarrow> accounts \<Rightarrow> exn + int list" where
  "project_getProjectUsers acfg p s =
     bindR (group_getProjectGroups acfg p s) (\<lambda>groups.
       Inr (uniqueByKey id (map pu_id (getProjectUsers p (access_view s))
         @ concat (map (\<lambda>g. map (\<lambda>u. us_userId (fst u)) (gm_users (fst g))) groups))))"

definition isProjectUser :: "account_config \<Rightarrow> int \<Rightarrow> string \<Rightarrow> accounts \<Rightarrow> exn + bool" where
  "isProjectUser acfg uid p s = bindR (project_getProjectUsers acfg p s) (\<lambda>us. Inr (List.member us uid))"

end
