(* ===== verification/ProjectFacts.thy ===== *)
theory ProjectFacts
  imports ProjectService AccountSteps
begin

text \<open>
  Lemmas of the project service: the consistency of a server, the tables after a change of access, what a
  grant adds to the roles of a user, and when a project has an owner.
\<close>

section \<open>Consistency\<close>

definition server_ok :: "server \<Rightarrow> bool" where
  "server_ok s = (accounts_ok (account_view s) \<and> feature_db_ok (sv_db s))"

definition server_db :: "server \<Rightarrow> access_db" where
  "server_db s = as_db (server_access s)"

lemma server_db_ok: "server_ok s \<Longrightarrow> access_ok (server_db s)"
  by (simp add: server_ok_def accounts_ok_def server_db_def server_access_def)

lemma server_users: "ac_users (server_db s) = map access_row (aw_users (sv_accounts s))"
  by (simp add: server_db_def server_access_def access_view_def account_view_def with_db_def)

lemma server_users_distinct: "server_ok s \<Longrightarrow> distinct (map us_id (ac_users (server_db s)))"
  by (simp add: server_ok_def accounts_ok_def users_ok_def server_users account_view_def comp_def access_row_def)

lemma server_db_events [simp]: "server_db (s\<lparr>sv_events := es\<rparr>) = server_db s"
  by (simp add: server_db_def server_access_def account_view_def)

lemma group_view_server: "group_view (account_view s) = server_db s"
  by (simp add: group_view_def server_db_def server_access_def)

text \<open>The tables after an access operation are the ones it left, with the users as they were.\<close>

lemma on_server_access_db:
  assumes "on_server_access f s = (Inr u, s')"
  obtains a where "f (server_access s) = Inr a" "ac_roles (server_db s') = ac_roles (as_db a)"
    "ac_role_user (server_db s') = ac_role_user (as_db a)" "ac_group_role (server_db s') = ac_group_role (as_db a)"
    "ac_groups (server_db s') = ac_groups (as_db a)" "ac_group_user (server_db s') = ac_group_user (as_db a)"
    "ac_role_permission (server_db s') = ac_role_permission (as_db a)"
    "ac_permissions (server_db s') = ac_permissions (as_db a)" "ac_users (server_db s') = ac_users (server_db s)"
  using assms
  by (auto simp: on_server_access_def server_db_def server_access_def access_view_def account_view_def with_access_def
      with_db_def Let_def split: sum.splits)

lemma has_role_cong:
  assumes "ac_role_user db' = ac_role_user db" "ac_group_role db' = ac_group_role db" "ac_groups db' = ac_groups db"
    "ac_group_user db' = ac_group_user db"
  shows "has_role db' = has_role db"
  using assms by (simp add: has_role_def fun_eq_iff)

lemma role_grants_cong:
  "ac_role_permission db' = ac_role_permission db \<Longrightarrow> ac_permissions db' = ac_permissions db \<Longrightarrow> role_grants db' = role_grants db"
  by (simp add: role_grants_def fun_eq_iff)


section \<open>What a grant adds\<close>

definition same_rest :: "access_db \<Rightarrow> access_db \<Rightarrow> bool" where
  "same_rest db db' = (ac_roles db' = ac_roles db \<and> ac_groups db' = ac_groups db \<and> ac_group_user db' = ac_group_user db \<and>
     ac_role_permission db' = ac_role_permission db \<and> ac_permissions db' = ac_permissions db \<and> ac_users db' = ac_users db)"

definition user_has :: "access_db \<Rightarrow> int \<Rightarrow> int \<Rightarrow> string \<Rightarrow> bool" where
  "user_has db r u q = ((r, u, q) \<in> ru_key ` set (ac_role_user db))"

definition group_has :: "access_db \<Rightarrow> int \<Rightarrow> int \<Rightarrow> string \<Rightarrow> bool" where
  "group_has db r g q = ((g, r, q) \<in> gr_key ` set (ac_group_role db))"

lemma user_has_iff: "user_has db r u q \<longleftrightarrow> (\<exists>x\<in>set (ac_role_user db). ru_role x = r \<and> ru_user x = u \<and> ru_project x = q)"
  by (auto simp: user_has_def ru_key_def image_iff)

lemma group_has_iff: "group_has db r g q \<longleftrightarrow> (\<exists>x\<in>set (ac_group_role db). gr_group x = g \<and> gr_role x = r \<and> gr_project x = q)"
  by (auto simp: group_has_def gr_key_def image_iff)

lemma has_role_iff:
  "has_role db uid rid q \<longleftrightarrow> user_has db rid uid q \<or>
     (\<exists>g\<in>set (ac_groups db). (\<exists>gu\<in>set (ac_group_user db). gu_group gu = g_id g \<and> gu_user gu = uid) \<and>
        (group_has db rid (g_id g) q \<or> g_root_role g = Some rid \<and> q = DEFAULT_PROJECT))"
  unfolding has_role_def user_has_iff group_has_iff by auto

definition adds_only :: "int set \<Rightarrow> string \<Rightarrow> access_db \<Rightarrow> access_db \<Rightarrow> bool" where
  "adds_only rs p db db' = (same_rest db db' \<and>
     (\<forall>r u q. user_has db' r u q \<longrightarrow> user_has db r u q \<or> r \<in> rs \<and> q = p) \<and>
     (\<forall>r g q. group_has db' r g q \<longrightarrow> group_has db r g q \<or> r \<in> rs \<and> q = p))"

lemma adds_only_refl: "adds_only rs p db db"
  by (simp add: adds_only_def same_rest_def)

lemma adds_only_trans: "adds_only rs p db db' \<Longrightarrow> adds_only rs p db' db'' \<Longrightarrow> adds_only rs p db db''"
  unfolding adds_only_def same_rest_def by (elim conjE, intro conjI) (simp, simp, simp, simp, simp, simp, blast+)

lemma adds_only_mono: "adds_only rs p db db' \<Longrightarrow> rs \<subseteq> rs' \<Longrightarrow> adds_only rs' p db db'"
  unfolding adds_only_def by blast

lemma add_users_adds:
  assumes "add_users now us rs p db = Inr db'"
  shows "adds_only (set rs) p db db'"
  using assms
  by (auto simp: add_users_def ru_insert_merge_def ru_insert_ignore_iff add_new_keys user_rows_keys adds_only_def same_rest_def
      user_has_def group_has_def split: if_splits)

lemma add_groups_adds:
  assumes "add_groups gs rs p who db = Inr db'"
  shows "adds_only (set rs) p db db'"
proof (cases "group_rows gs rs p who = []")
  case False
  then have "gr_insert_merge (group_rows gs rs p who) db = Inr db'" using assms by (simp add: add_groups_def)
  then obtain us t where "db' = db\<lparr>ac_group_role := t\<rparr>"
    "gr_key ` set t = gr_key ` set (ac_group_role db) \<union> gr_key ` set (group_rows gs rs p who)"
    by (rule gr_insert_merge_effect)
  then show ?thesis by (simp add: adds_only_def same_rest_def group_rows_keys user_has_def group_has_def)
qed (use assms in \<open>simp add: add_groups_def adds_only_refl\<close>)

lemma add_access_adds:
  assumes "store_addAccessToProject now rs gs us p who db = Inr db'"
  shows "adds_only (set rs) p db db'"
proof -
  let ?valid = "filter (\<lambda>i. i \<in> set rs) (role_ids_of_type db PROJECT_ROLE_TYPES)"
  consider "db' = db" | db1 where "add_groups gs ?valid p who db = Inr db1" "add_users now us ?valid p db1 = Inr db'"
    using add_access_cases [OF assms] by (auto split: sum.splits)
  then show ?thesis
  proof cases
    case 2
    show ?thesis
      by (rule adds_only_mono [OF adds_only_trans [OF add_groups_adds [OF 2(1)] add_users_adds [OF 2(2)]]]) auto
  qed (simp add: adds_only_refl)
qed

lemma adds_only_has_role:
  assumes "adds_only rs p db db'" and "has_role db' uid rid q"
  shows "has_role db uid rid q \<or> rid \<in> rs \<and> q = p"
proof -
  have same: "ac_groups db' = ac_groups db" "ac_group_user db' = ac_group_user db"
    using assms(1) by (simp_all add: adds_only_def same_rest_def)
  show ?thesis using assms unfolding has_role_iff same adds_only_def by blast
qed

lemma granter_has_role:
  assumes ok: "access_ok db" and ty: "role_has_type db PROJECT_ROLE_TYPES rid"
    and listed: "(r, q) \<in> set (store_getAllProjectRolesForUser db uid p)" "ro_id r = rid"
  shows "has_role db uid rid p"
proof -
  have r: "r \<in> set (ac_roles db)" using listed(1) by (auto simp: store_getAllProjectRolesForUser_def)
  obtain r' where r': "r' \<in> set (ac_roles db)" "ro_id r' = rid" "List.member PROJECT_ROLE_TYPES (ro_type r')"
    using ty by (auto simp: role_has_type_def list_ex_iff)
  have "inj_on ro_id (set (ac_roles db))" using ok by (simp add: access_ok_def distinct_map)
  then have "r' = r" using r r' listed(2) by (simp add: inj_on_def)
  then have "ro_type r \<noteq> ''root''" using r'(3) by (auto simp: PROJECT_ROLE_TYPES_def)
  then consider ru where "ru \<in> set (ac_role_user db)" "ru_role ru = ro_id r" "ru_user ru = uid" "ru_project ru = p"
    | gr gu where "gr \<in> set (ac_group_role db)" "gr_role gr = ro_id r" "gr_project gr = p"
      "gu \<in> set (ac_group_user db)" "gu_group gu = gr_group gr" "gu_user gu = uid"
    using listed(1) by (fastforce simp: store_getAllProjectRolesForUser_def)
  then show ?thesis
  proof cases
    case 1
    then show ?thesis using listed(2) unfolding has_role_def by blast
  next
    case 2
    then obtain g where "g \<in> set (ac_groups db)" "g_id g = gr_group gr" using ok by (auto simp: access_ok_def)
    then show ?thesis using 2 listed(2) unfolding has_role_def by metis
  qed
qed


section \<open>Owners\<close>

text \<open>An owner is an active user, or a group, that has the role Owner in the project.\<close>

definition user_owns :: "access_db \<Rightarrow> int \<Rightarrow> string \<Rightarrow> int \<Rightarrow> bool" where
  "user_owns db rid p u = (user_has db rid u p \<and> (\<exists>x\<in>set (ac_users db). us_id x = u \<and> us_active x))"

definition has_owner :: "string \<Rightarrow> access_db \<Rightarrow> bool" where
  "has_owner p db = (\<exists>r\<in>set (ac_roles db). ro_name r = OWNER \<and>
     ((\<exists>u. user_owns db (ro_id r) p u) \<or> (\<exists>g. group_has db (ro_id r) g p)))"

lemma active_owners:
  fixes rid :: int and p :: string
  assumes "distinct (map us_id (ac_users (as_db a)))"
  defines "us \<equiv> map fst (getProjectUsersForRole rid p a)"
  shows "distinct us" and "u \<in> set us \<Longrightarrow> user_owns (as_db a) rid p u"
proof -
  let ?rows = "store_getProjectUsersForRole (as_db a) rid p"
  let ?ids = "if ?rows \<noteq> [] then active_users_in (as_db a) (map fst ?rows) else []"
  have eq: "map fst (List.map_filter (\<lambda>u. map_option (\<lambda>(_, _, t). (u, t, rid)) (find (\<lambda>(i, _, _). i = u) ?rows)) us')
      = filter (\<lambda>u. find (\<lambda>(i, _, _). i = u) ?rows \<noteq> None) us'" for us'
    by (induction us') (auto simp: map_filter_simps split: option.splits)
  then have us: "us = filter (\<lambda>u. find (\<lambda>(i, _, _). i = u) ?rows \<noteq> None) ?ids"
    by (simp add: us_def getProjectUsersForRole_def Let_def)
  show "distinct us" unfolding us using assms(1) by (simp add: active_users_in_def distinct_map_filter)
  assume "u \<in> set us"
  then have "u \<in> set ?ids" unfolding us by simp
  then show "user_owns (as_db a) rid p u"
    by (auto simp: user_owns_def active_users_in_def user_has_iff store_getProjectUsersForRole_def split: if_splits)
qed

lemma project_groups_fold:
  assumes "distinct (map pg_id acc)" and "\<forall>e\<in>set acc. \<exists>x\<in>set done. gr_group x = pg_id e \<and> gr_role x = pg_roleId e"
  shows "distinct (map pg_id (foldl add_project_group acc rows)) \<and>
    (\<forall>e\<in>set (foldl add_project_group acc rows). \<exists>x\<in>set done \<union> set rows. gr_group x = pg_id e \<and> gr_role x = pg_roleId e)"
  using assms
proof (induction rows arbitrary: acc "done")
  case (Cons row rows)
  have ids: "map pg_id (map (\<lambda>g. if pg_id g = gr_group row then g\<lparr>pg_roles := pg_roles g @ [gr_role row]\<rparr> else g) acc) = map pg_id acc"
    by simp
  have "distinct (map pg_id (add_project_group acc row))"
    using Cons.prems(1) by (cases "\<exists>g\<in>set acc. pg_id g = gr_group row") (auto simp: add_project_group_def ids simp del: map_map)
  moreover have "\<forall>e\<in>set (add_project_group acc row). \<exists>x\<in>set (row # done). gr_group x = pg_id e \<and> gr_role x = pg_roleId e"
    using Cons.prems(2) by (auto simp: add_project_group_def)
  ultimately show ?case using Cons.IH [of "add_project_group acc row" "row # done"] by auto
qed simp

lemma project_groups_rows:
  "distinct (map pg_id (store_getProjectGroups p db))"
  "e \<in> set (store_getProjectGroups p db) \<Longrightarrow> group_has db (pg_roleId e) (pg_id e) p"
  using project_groups_fold [of "[]" "[]" "filter (\<lambda>gr. role_has_type db PROJECT_ROLE_TYPES (gr_role gr) \<and> gr_project gr = p) (ac_group_role db)"]
  by (fastforce simp: store_getProjectGroups_def group_has_iff)+

lemma paired_distinct:
  assumes "distinct (map g_id gs)" and "distinct (map pg_id es)"
  shows "distinct (map (\<lambda>x. pg_id (snd x)) [(f g, e). g \<leftarrow> gs, e \<leftarrow> es, pg_id e = g_id g])"
  using assms(1)
proof (induction gs)
  case (Cons g gs)
  have eq: "map (\<lambda>x. pg_id (snd x)) [(f g, e). e \<leftarrow> es', pg_id e = g_id g] = map pg_id (filter (\<lambda>e. pg_id e = g_id g) es')" for es'
    by (induction es') auto
  have "distinct (map (\<lambda>x. pg_id (snd x)) [(f g, e). e \<leftarrow> es, pg_id e = g_id g])"
    unfolding eq by (rule distinct_map_filter [OF assms(2)])
  moreover have "distinct (map (\<lambda>x. pg_id (snd x)) [(f g, e). g \<leftarrow> gs, e \<leftarrow> es, pg_id e = g_id g])"
    using Cons by simp
  moreover have "g_id g \<notin> g_id ` set gs" using Cons.prems by simp
  ultimately show ?case
    by (simp only: list.map concat.simps map_append distinct_append) (auto simp: image_iff)
qed simp

text \<open>Two are counted: whoever one of them is, another remains.\<close>

lemma two_owners:
  assumes ok: "accounts_ok s" and check: "validateAtLeastOneOwner acfg p r s = Inr ()" and r: "ro_name r = OWNER"
  shows "(\<exists>u. u \<noteq> uid \<and> user_owns (group_view s) (ro_id r) p u) \<or> (\<exists>g. group_has (group_view s) (ro_id r) g p)"
    and "(\<exists>u. user_owns (group_view s) (ro_id r) p u) \<or> (\<exists>g. g \<noteq> gid \<and> group_has (group_view s) (ro_id r) g p)"
proof -
  let ?db = "group_view s"
  define us where "us = map fst (getProjectUsersForRole (ro_id r) p (access_view s))"
  from check r obtain groups where groups: "group_getProjectGroups acfg p s = Inr groups"
    and two: "2 \<le> length us + length (filter (\<lambda>g. pg_roleId (snd g) = ro_id r) groups)"
    by (auto simp: validateAtLeastOneOwner_def bindR_Inr_iff throw_if_iff us_def)
  define gs where "gs = map (\<lambda>g. pg_id (snd g)) (filter (\<lambda>g. pg_roleId (snd g) = ro_id r) groups)"
  have users: "distinct (map us_id (ac_users (as_db (access_view s))))"
    using ok by (simp add: accounts_ok_def users_ok_def access_view_def with_db_def comp_def access_row_def)
  note u = active_owners [OF users, where rid = "ro_id r" and p = p, folded us_def group_view_def]
  have "distinct (map g_id (ac_groups ?db))" using ok by (simp add: accounts_ok_def access_ok_def group_view_def)
  then have "distinct (map (\<lambda>g. pg_id (snd g)) groups)"
    using groups project_groups_rows(1) [of p ?db]
    by (auto simp: group_getProjectGroups_def Let_def bindR_Inr_iff groups_getAllWithId_def dest!: rowsToGroups_Inr
        split: if_splits intro!: paired_distinct distinct_map_filter simp del: map_concat)
  then have d: "distinct gs" unfolding gs_def by (rule distinct_map_filter)
  have "snd x \<in> set (store_getProjectGroups p ?db)" if "x \<in> set groups" for x
    using groups that by (auto simp: group_getProjectGroups_def Let_def bindR_Inr_iff split: if_splits)
  then have g: "group_has ?db (ro_id r) g p" if "g \<in> set gs" for g
    using that project_groups_rows(2) [of _ p ?db] by (fastforce simp: gs_def)
  have "2 \<le> length us + length gs" using two by (simp add: gs_def)
  then consider "gs \<noteq> []" "us \<noteq> []" | "2 \<le> length us" | "2 \<le> length gs"
    by (cases us; cases gs) auto
  then have "((\<exists>u. u \<noteq> uid \<and> user_owns ?db (ro_id r) p u) \<or> (\<exists>g. group_has ?db (ro_id r) g p)) \<and>
    ((\<exists>u. user_owns ?db (ro_id r) p u) \<or> (\<exists>g. g \<noteq> gid \<and> group_has ?db (ro_id r) g p))"
  proof cases
    case 1
    then show ?thesis using u(2) g by (metis list.set_sel(1))
  next
    case 2
    then obtain a b rest where "us = a # b # rest" by (cases us; cases "tl us") auto
    with u have "a \<noteq> b" "user_owns ?db (ro_id r) p a" "user_owns ?db (ro_id r) p b" by auto
    then show ?thesis by metis
  next
    case 3
    then obtain a b rest where "gs = a # b # rest" by (cases gs; cases "tl gs") auto
    with d g have "a \<noteq> b" "group_has ?db (ro_id r) a p" "group_has ?db (ro_id r) b p" by auto
    then show ?thesis by metis
  qed
  then show "(\<exists>u. u \<noteq> uid \<and> user_owns ?db (ro_id r) p u) \<or> (\<exists>g. group_has ?db (ro_id r) g p)"
    "(\<exists>u. user_owns ?db (ro_id r) p u) \<or> (\<exists>g. g \<noteq> gid \<and> group_has ?db (ro_id r) g p)" by blast+
qed

lemma keeps_owner_user:
  assumes "has_owner p db" and "ac_roles db' = ac_roles db" and "ac_users db' = ac_users db" and "group_has db' = group_has db"
    and others: "\<And>rid u. u \<noteq> uid \<Longrightarrow> user_has db rid u p \<Longrightarrow> user_has db' rid u p"
    and own: "\<And>r. r \<in> set (ac_roles db) \<Longrightarrow> ro_name r = OWNER \<Longrightarrow> user_has db (ro_id r) uid p \<Longrightarrow>
      user_has db' (ro_id r) uid p \<or> (\<exists>u. u \<noteq> uid \<and> user_owns db (ro_id r) p u) \<or> (\<exists>g. group_has db (ro_id r) g p)"
  shows "has_owner p db'"
proof -
  obtain r where r: "r \<in> set (ac_roles db)" "ro_name r = OWNER"
    and some: "(\<exists>u. user_owns db (ro_id r) p u) \<or> (\<exists>g. group_has db (ro_id r) g p)"
    using assms(1) by (auto simp: has_owner_def)
  have "(\<exists>u. user_owns db' (ro_id r) p u) \<or> (\<exists>g. group_has db' (ro_id r) g p)"
    using some others own [OF r] unfolding user_owns_def assms(3,4) by metis
  then show ?thesis using r assms(2) by (auto simp: has_owner_def)
qed

lemma keeps_owner_group:
  assumes "has_owner p db" and "ac_roles db' = ac_roles db" and "ac_users db' = ac_users db" and "user_has db' = user_has db"
    and others: "\<And>rid g. g \<noteq> gid \<Longrightarrow> group_has db rid g p \<Longrightarrow> group_has db' rid g p"
    and own: "\<And>r. r \<in> set (ac_roles db) \<Longrightarrow> ro_name r = OWNER \<Longrightarrow> group_has db (ro_id r) gid p \<Longrightarrow>
      group_has db' (ro_id r) gid p \<or> (\<exists>u. user_owns db (ro_id r) p u) \<or> (\<exists>g. g \<noteq> gid \<and> group_has db (ro_id r) g p)"
  shows "has_owner p db'"
proof -
  obtain r where r: "r \<in> set (ac_roles db)" "ro_name r = OWNER"
    and some: "(\<exists>u. user_owns db (ro_id r) p u) \<or> (\<exists>g. group_has db (ro_id r) g p)"
    using assms(1) by (auto simp: has_owner_def)
  have same: "user_owns db' = user_owns db" using assms(3,4) by (simp add: user_owns_def fun_eq_iff)
  have "(\<exists>u. user_owns db' (ro_id r) p u) \<or> (\<exists>g. group_has db' (ro_id r) g p)"
    using some others own [OF r] unfolding same by metis
  then show ?thesis using r assms(2) by (auto simp: has_owner_def)
qed

lemma owner_role_unique:
  assumes "access_ok (as_db a)" and "owner_role a = Inr o1" and "r \<in> set (ac_roles (as_db a))" and "ro_name r = OWNER"
  shows "r = o1"
proof -
  have "o1 \<in> set (ac_roles (as_db a))" "ro_name o1 = OWNER"
    using assms(2) by (auto simp: owner_role_def getRoleByName_def find_Some_iff split: option.splits)
  moreover have "inj_on ro_name (set (ac_roles (as_db a)))" using assms(1) by (simp add: access_ok_def distinct_map)
  ultimately show ?thesis using assms(3,4) by (simp add: inj_on_def)
qed

lemma owner_role_name: "owner_role a = Inr o1 \<Longrightarrow> ro_name o1 = OWNER"
  by (auto simp: owner_role_def getRoleByName_def find_Some_iff split: option.splits)


section \<open>Removing and setting roles\<close>

text \<open>What a user and a group have in a project afterwards.\<close>

lemma user_has_removed:
  "user_has (store_removeUserAccess p i db) r u q \<longleftrightarrow>
     user_has db r u q \<and> \<not> (u = i \<and> q = p \<and> role_has_type db PROJECT_ROLE_TYPES r)"
  "group_has (store_removeUserAccess p i db) = group_has db"
  by (auto simp: user_has_def removeUserAccess_keys) (simp add: group_has_def store_removeUserAccess_def fun_eq_iff)

lemma group_has_removed:
  "group_has (store_removeGroupAccess p i db) r g q \<longleftrightarrow>
     group_has db r g q \<and> \<not> (g = i \<and> q = p \<and> role_has_type db PROJECT_ROLE_TYPES r)"
  "user_has (store_removeGroupAccess p i db) = user_has db"
  by (auto simp: group_has_def removeGroupAccess_keys) (simp add: user_has_def store_removeGroupAccess_def fun_eq_iff)

lemma user_has_set:
  assumes "store_setProjectRolesForUser now p i rs db = Inr db'"
  shows "user_has db' r u q \<longleftrightarrow> user_has db r u q \<and> \<not> (u = i \<and> q = p \<and> role_has_type db PROJECT_ROLE_TYPES r) \<or>
      u = i \<and> q = p \<and> r \<in> set rs \<and> role_has_type db PROJECT_ROLE_TYPES r"
    and "group_has db' = group_has db"
  by (auto simp: setUser_effect(1) [OF assms] user_has_def add_new_keys removeUserAccess_keys user_rows_keys)
    (simp add: group_has_def fun_eq_iff)

lemma group_has_set:
  assumes "store_setProjectRolesForGroup p i rs who db = Inr db'"
  shows "group_has db' r g q \<longleftrightarrow> group_has db r g q \<and> \<not> (g = i \<and> q = p \<and> role_has_type db PROJECT_ROLE_TYPES r) \<or>
      g = i \<and> q = p \<and> r \<in> set rs \<and> role_has_type db PROJECT_ROLE_TYPES r"
    and "user_has db' = user_has db"
  by (auto simp: setGroup_effect(1) [OF assms] group_has_def add_new_keys removeGroupAccess_keys group_rows_keys)
    (simp add: user_has_def fun_eq_iff)

lemma roles_listed:
  "r \<in> set (getProjectRolesForUser p i a) \<longleftrightarrow> user_has (as_db a) r i p \<and> role_has_type (as_db a) PROJECT_ROLE_TYPES r"
  "r \<in> set (getProjectRolesForGroup p i a) \<longleftrightarrow> group_has (as_db a) r i p \<and> role_has_type (as_db a) PROJECT_ROLE_TYPES r"
  by (simp_all add: getProjectRolesForUser_def getProjectRolesForGroup_def user_roles_iff group_roles_iff user_has_def group_has_def)

lemma user_change_keeps_owner:
  assumes ok: "server_ok s" and owner: "has_owner p (server_db s)" and o1: "owner_role (server_access s) = Inr o1"
    and rest: "ac_roles db' = ac_roles (server_db s)" "ac_users db' = ac_users (server_db s)" "group_has db' = group_has (server_db s)"
    and has: "\<And>r u. user_has db' r u p \<longleftrightarrow>
      user_has (server_db s) r u p \<and> \<not> (u = uid \<and> role_has_type (server_db s) PROJECT_ROLE_TYPES r) \<or>
      u = uid \<and> r \<in> new \<and> role_has_type (server_db s) PROJECT_ROLE_TYPES r"
    and check: "List.member (getProjectRolesForUser p uid (server_access s)) (ro_id o1) \<Longrightarrow> ro_id o1 \<notin> new \<Longrightarrow>
      validateAtLeastOneOwner acfg p o1 (account_view s) = Inr ()"
  shows "has_owner p db'"
proof (rule keeps_owner_user [OF owner rest])
  show "user_has db' rid u p" if "u \<noteq> uid" "user_has (server_db s) rid u p" for rid u using that by (simp add: has)
  show "user_has db' (ro_id r) uid p \<or> (\<exists>u. u \<noteq> uid \<and> user_owns (server_db s) (ro_id r) p u) \<or> (\<exists>g. group_has (server_db s) (ro_id r) g p)"
    if r: "r \<in> set (ac_roles (server_db s))" "ro_name r = OWNER" "user_has (server_db s) (ro_id r) uid p" for r
  proof (cases "user_has db' (ro_id r) uid p")
    case False
    have "r = o1" using owner_role_unique [OF _ o1] r(1,2) server_db_ok [OF ok] by (simp add: server_db_def)
    with False r(3) have "validateAtLeastOneOwner acfg p o1 (account_view s) = Inr ()"
      by (intro check) (auto simp: has roles_listed(1) server_db_def)
    moreover have "accounts_ok (account_view s)" using ok by (simp add: server_ok_def)
    ultimately show ?thesis
      using two_owners(1) [of "account_view s" acfg p o1 uid] r(2) \<open>r = o1\<close> by (simp add: group_view_server)
  qed simp
qed

lemma group_change_keeps_owner:
  assumes ok: "server_ok s" and owner: "has_owner p (server_db s)" and o1: "owner_role (server_access s) = Inr o1"
    and rest: "ac_roles db' = ac_roles (server_db s)" "ac_users db' = ac_users (server_db s)" "user_has db' = user_has (server_db s)"
    and has: "\<And>r g. group_has db' r g p \<longleftrightarrow>
      group_has (server_db s) r g p \<and> \<not> (g = gid \<and> role_has_type (server_db s) PROJECT_ROLE_TYPES r) \<or>
      g = gid \<and> r \<in> new \<and> role_has_type (server_db s) PROJECT_ROLE_TYPES r"
    and check: "List.member (getProjectRolesForGroup p gid (server_access s)) (ro_id o1) \<Longrightarrow> ro_id o1 \<notin> new \<Longrightarrow>
      validateAtLeastOneOwner acfg p o1 (account_view s) = Inr ()"
  shows "has_owner p db'"
proof (rule keeps_owner_group [OF owner rest])
  show "group_has db' rid g p" if "g \<noteq> gid" "group_has (server_db s) rid g p" for rid g using that by (simp add: has)
  show "group_has db' (ro_id r) gid p \<or> (\<exists>u. user_owns (server_db s) (ro_id r) p u) \<or> (\<exists>g. g \<noteq> gid \<and> group_has (server_db s) (ro_id r) g p)"
    if r: "r \<in> set (ac_roles (server_db s))" "ro_name r = OWNER" "group_has (server_db s) (ro_id r) gid p" for r
  proof (cases "group_has db' (ro_id r) gid p")
    case False
    have "r = o1" using owner_role_unique [OF _ o1] r(1,2) server_db_ok [OF ok] by (simp add: server_db_def)
    with False r(3) have "validateAtLeastOneOwner acfg p o1 (account_view s) = Inr ()"
      by (intro check) (auto simp: has roles_listed(2) server_db_def)
    moreover have "accounts_ok (account_view s)" using ok by (simp add: server_ok_def)
    ultimately show ?thesis
      using two_owners(2) [of "account_view s" acfg p o1 gid] r(2) \<open>r = o1\<close> by (simp add: group_view_server)
  qed simp
qed

text \<open>What the four operations that take access away do when they succeed.\<close>

lemma removeUserAccess_result:
  assumes "project_removeUserAccess acfg p uid creator cid s = (Inr (), s')"
  obtains o1 where "owner_role (server_access s) = Inr o1"
    "List.member (getProjectRolesForUser p uid (server_access s)) (ro_id o1) \<Longrightarrow> validateAtLeastOneOwner acfg p o1 (account_view s) = Inr ()"
    "on_server_access (\<lambda>a. Inr (removeUserAccess p uid a)) s = (Inr (), s'\<lparr>sv_events := sv_events s\<rparr>)"
  using assms
  by (fastforce simp: project_removeUserAccess_def ask_server_access_def try_accounts_def op_iffs add_project_event_def
      on_server_access_def tryS_def split: if_splits sum.splits)

lemma removeGroupAccess_result:
  assumes "project_removeGroupAccess acfg p gid creator cid s = (Inr (), s')"
  obtains o1 where "owner_role (server_access s) = Inr o1"
    "List.member (getProjectRolesForGroup p gid (server_access s)) (ro_id o1) \<Longrightarrow> validateAtLeastOneOwner acfg p o1 (account_view s) = Inr ()"
    "on_server_access (\<lambda>a. Inr (removeGroupAccess p gid a)) s = (Inr (), s'\<lparr>sv_events := sv_events s\<rparr>)"
  using assms
  by (fastforce simp: project_removeGroupAccess_def ask_server_access_def try_accounts_def op_iffs add_project_event_def
      on_server_access_def tryS_def split: if_splits sum.splits)

lemma setRolesForUser_result:
  assumes "setRolesForUser acfg now p uid rs creator cid s = (Inr (), s')"
  obtains o1 where "owner_role (server_access s) = Inr o1"
    "List.member (getProjectRolesForUser p uid (server_access s)) (ro_id o1) \<Longrightarrow> ro_id o1 \<notin> set rs \<Longrightarrow>
      validateAtLeastOneOwner acfg p o1 (account_view s) = Inr ()"
    "on_server_access (setProjectRolesForUser now p uid rs) s = (Inr (), s'\<lparr>sv_events := sv_events s\<rparr>)"
  using assms
  by (fastforce simp: setRolesForUser_def ask_server_access_def try_accounts_def op_iffs add_project_event_def
      on_server_access_def tryS_def split: if_splits sum.splits)

lemma setRolesForGroup_result:
  assumes "setRolesForGroup acfg p gid rs creator cid s = (Inr (), s')"
  obtains o1 where "owner_role (server_access s) = Inr o1"
    "List.member (getProjectRolesForGroup p gid (server_access s)) (ro_id o1) \<Longrightarrow> ro_id o1 \<notin> set rs \<Longrightarrow>
      validateAtLeastOneOwner acfg p o1 (account_view s) = Inr ()"
    "on_server_access (setProjectRolesForGroup p gid rs creator) s = (Inr (), s'\<lparr>sv_events := sv_events s\<rparr>)"
  using assms
  by (fastforce simp: setRolesForGroup_def ask_server_access_def try_accounts_def op_iffs add_project_event_def
      on_server_access_def tryS_def split: if_splits sum.splits)


section \<open>Deleting features and projects\<close>

text \<open>What a deletion of features leaves alone, and that it removes the features it names or none.\<close>

definition same_projects :: "feature_db \<Rightarrow> feature_db \<Rightarrow> bool" where
  "same_projects db db' = (fd_projects db' = fd_projects db \<and> fd_project_envs db' = fd_project_envs db \<and>
     fd_segments db' = fd_segments db \<and> fd_environments db' = fd_environments db)"

lemma delete_rows_effect:
  "foldR delete_row db names = Inr db' \<Longrightarrow>
     same_projects db db' \<and> fd_features db' = filter (\<lambda>r. ft_name r \<notin> set names) (fd_features db)"
  by (induction names arbitrary: db) (force simp: same_projects_def bindR_Inr_iff delete_row_def Let_def split: if_splits)+

lemma batch_delete_effect:
  assumes "batchDelete names db = Inr db'"
  shows "same_projects db db' \<and> set (fd_features db') \<subseteq> set (fd_features db) \<and>
    (\<forall>r\<in>set (fd_features db'). \<not> (ft_name r \<in> set names \<and> ft_archived_at r \<noteq> None))"
  using delete_rows_effect [OF assms [unfolded batchDelete_def]] by auto

lemma events_leave_tables:
  assumes "eachS (\<lambda>(t, tags). store_event (FeatureDeleted t tags) (Some (tf_project t)) (Some (tf_name t)) who uid) ts s = (r, s')"
  shows "fs_db s' = fs_db s"
proof -
  have "preserves (\<lambda>s'. fs_db s' = fs_db s)
      (eachS (\<lambda>(t, tags). store_event (FeatureDeleted t tags) (Some (tf_project t)) (Some (tf_name t)) who uid) ts)"
    by (intro preserves_intros) (auto simp: preserves_def store_event_def store_event_by_def)
  from preservesD [OF this refl assms] show ?thesis .
qed

lemma deleteFeatures_effect:
  assumes "deleteFeatures (archived_features p True (fs_db s)) q who uid s = (r, s')"
  shows "fs_db s' = fs_db s \<or> same_projects (fs_db s) (fs_db s') \<and> set (fd_features (fs_db s')) \<subseteq> set (fd_features (fs_db s)) \<and>
    archived_features p True (fs_db s') = []"
proof -
  let ?names = "archived_features p True (fs_db s)"
  let ?all = "map tf_name (archived_of ?names (fs_db s))"
  have all: "n \<in> set ?all" if "n \<in> set ?names" for n
    using that by (force simp: archived_of_def getAllByNames_def archived_features_def filterByArchived_def rowToFeature_def)
  consider "fs_db s' = fs_db s" | s1 r1 where "stmt (batchDelete ?all) s = (Inr r1, s1)" "fs_db s' = fs_db s1"
    using assms
    by (auto simp: deleteFeatures_def thenS_def bindS_def try_db_def ask_db_def stmt_def exec_db_def bindR_def
        dest: events_leave_tables split: sum.splits prod.splits)
  then show ?thesis
  proof cases
    case 2
    then have "batchDelete ?all (fs_db s) = Inr (fs_db s')"
      by (auto simp: stmt_def exec_db_def bindR_def split: sum.splits prod.splits)
    note gone = batch_delete_effect [OF this]
    have "\<not> (ft_project x = p \<and> ft_archived_at x \<noteq> None)" if x: "x \<in> set (fd_features (fs_db s'))" for x
    proof
      assume arch: "ft_project x = p \<and> ft_archived_at x \<noteq> None"
      then have "ft_name x \<in> set ?names" using x gone by (auto simp: archived_features_def filterByArchived_def)
      with all gone x arch show False by blast
    qed
    then show ?thesis using gone by (auto simp: archived_features_def filterByArchived_def filter_empty_conv)
  qed simp
qed

lemma same_projects_refl [simp]: "same_projects db db"
  by (simp add: same_projects_def)

lemma unawaited_deletion:
  assumes "unawaited turn i (on_features (deleteFeatures names q who uid)) s = (r, s')"
    and "turn = i \<Longrightarrow> names = archived_features p True (sv_db s)"
  shows "r = Inr () \<and> sv_accounts s' = sv_accounts s \<and> sv_tokens s' = sv_tokens s \<and> same_projects (sv_db s) (sv_db s') \<and>
    set (fd_features (sv_db s')) \<subseteq> set (fd_features (sv_db s)) \<and> (turn \<noteq> i \<longrightarrow> s' = s) \<and>
    (fd_features (sv_db s') = fd_features (sv_db s) \<or> archived_features p True (sv_db s') = [])"
proof (cases "turn = i")
  case True
  with assms have names: "names = archived_features p True (fs_db (feature_view s))" by (simp add: feature_view_def)
  obtain r1 f where run: "deleteFeatures names q who uid (feature_view s) = (r1, f)" by fastforce
  have s': "r = Inr () \<and> s' = s\<lparr>sv_db := fs_db f, sv_feature_events := fs_events f, sv_drawn := fs_drawn f\<rparr>"
    using assms(1) True run by (auto simp: unawaited_def whenS_def orElseS_def on_features_def split: sum.splits)
  from deleteFeatures_effect [OF run [unfolded names]] show ?thesis
    using s' True by (auto simp: feature_view_def)
next
  case False
  then show ?thesis using assms(1) by (simp add: unawaited_def whenS_def)
qed

text \<open>The rows that a removal of a project drops, and those it leaves.\<close>

lemma projects_remove_effect:
  assumes "hasProject p (sv_db s)"
  defines "s' \<equiv> projects_remove p s"
  shows "\<not> hasProject p (sv_db s')" "p \<notin> pv_project ` set (fd_project_envs (sv_db s'))"
    "Some p \<notin> sw_project ` set (fd_segments (sv_db s'))" "p \<notin> gr_project ` set (ac_group_role (server_db s'))"
    "p \<notin> snd ` set (db_links (sv_tokens s'))" "fd_features (sv_db s') = fd_features (sv_db s)"
  using assms
  by (auto simp: projects_remove_def hasProject_def list_ex_iff drop_project_rows_def Let_def projects_delete_def
      server_db_def server_access_def access_view_def account_view_def with_db_def drop_group_roles_def)


section \<open>Creating a project\<close>

lemma connect_all:
  "allS (\<lambda>e. on_features (stmt (connectProject (nv_name e) p False))) es s = (Inr rs, s') \<Longrightarrow>
     sv_db s' = (sv_db s)\<lparr>fd_project_envs := fd_project_envs (sv_db s) @
       map (\<lambda>e. \<lparr>pv_project = p, pv_environment = nv_name e, pv_default_strategy = None\<rparr>) es\<rparr> \<and> sv_accounts s' = sv_accounts s"
proof (induction es arbitrary: s rs)
  case (Cons e es)
  obtain r s1 where first: "on_features (stmt (connectProject (nv_name e) p False)) s = (r, s1)" by fastforce
  obtain rs' s2 where rest: "allS (\<lambda>e. on_features (stmt (connectProject (nv_name e) p False))) es s1 = (rs', s2)" by fastforce
  from Cons.prems first rest have s2: "s2 = s'" and r: "r = Inr ()" "rs' = Inr (tl rs)" by (auto simp: bindR_Inr_iff)
  from first r(1) have "sv_db s1 = (sv_db s)\<lparr>fd_project_envs := fd_project_envs (sv_db s) @
      [\<lparr>pv_project = p, pv_environment = nv_name e, pv_default_strategy = None\<rparr>]\<rparr> \<and> sv_accounts s1 = sv_accounts s"
    by (auto simp: on_features_def stmt_def exec_db_def bindR_def connectProject_def feature_view_def split: prod.splits sum.splits if_splits)
  with Cons.IH [OF rest [unfolded r(2) s2]] show ?case by simp
qed simp

end
