(* ===== verification/ProjectProperties.thy ===== *)
theory ProjectProperties
  imports ProjectFacts
begin

text \<open>
  What the operations on projects guarantee, and where they do not, with an example of each.
\<close>

section \<open>A server\<close>

text \<open>Project p1 has the owner 10 and the member 11; group 20, of user 11, has no role.\<close>

definition user0 :: "int \<Rightarrow> string \<Rightarrow> account_row" where
  "user0 i name = \<lparr>ur_id = i, ur_name = None, ur_username = Some name, ur_email = None, ur_image_url = None,
     ur_password_hash = None, ur_login_attempts = 0, ur_created_at = 0, ur_seen_at = None, ur_deleted_at = None,
     ur_is_service = False, ur_is_system = False\<rparr>"

definition roles0 :: access_db where
  "roles0 =
     \<lparr>ac_roles = [\<lparr>ro_id = 1, ro_name = ''Admin'', ro_type = ''root'', ro_description = []\<rparr>,
                  \<lparr>ro_id = 4, ro_name = ''Owner'', ro_type = ''project'', ro_description = []\<rparr>,
                  \<lparr>ro_id = 5, ro_name = ''Member'', ro_type = ''project'', ro_description = []\<rparr>],
      ac_role_user = [\<lparr>ru_user = 10, ru_role = 4, ru_project = ''p1'', ru_created_at = 0\<rparr>,
                      \<lparr>ru_user = 11, ru_role = 5, ru_project = ''p1'', ru_created_at = 0\<rparr>],
      ac_group_role = [],
      ac_groups = [\<lparr>g_id = 20, g_name = ''ops'', g_root_role = None, g_description = None, g_mappings = []\<rparr>],
      ac_group_user = [\<lparr>gu_group = 20, gu_user = 11, gu_created_by = None\<rparr>],
      ac_role_permission = [\<lparr>rp_role = 4, rp_permission = ''MOVE_FEATURE_TOGGLE'', rp_environment = None\<rparr>,
                            \<lparr>rp_role = 5, rp_permission = ''CREATE_FEATURE'', rp_environment = None\<rparr>],
      ac_permissions = [\<lparr>pm_id = 1, pm_permission = ''CREATE_FEATURE'', pm_display_name = [], pm_type = ''project''\<rparr>,
                        \<lparr>pm_id = 2, pm_permission = ''MOVE_FEATURE_TOGGLE'', pm_display_name = [], pm_type = ''project''\<rparr>],
      ac_users = [], ac_projects = [], ac_personal_tokens = [], ac_signup_users = [], ac_next_role = 6, ac_next_group = 21,
      ac_message = (\<lambda>c. c)\<rparr>"

definition accounts_of_server0 :: accounts where
  "accounts_of_server0 = \<lparr>aw_users = [user0 10 ''ann'', user0 11 ''bob''], aw_next_user = 12,
     aw_sessions = [], aw_resets = [], aw_pats = [], aw_next_pat = 1, aw_signups = [], aw_signup_users = [],
     aw_access = \<lparr>as_db = roles0, as_environments = [], as_events = []\<rparr>,
     aw_simple_auth_disabled = False, aw_reset_timeouts = [], aw_pats_seen = [], aw_draws = 0, aw_mails = [], aw_events = []\<rparr>"

definition tables0 :: feature_db where
  "tables0 = \<lparr>fd_features = [], fd_envs = [], fd_strategies = [], fd_segments = [], fd_strategy_segments = [],
     fd_dependencies = [],
     fd_environments = [\<lparr>nv_name = ''dev'', nv_type = ''development'', nv_sort_order = 1, nv_enabled = True, nv_protected = False\<rparr>,
                        \<lparr>nv_name = ''old'', nv_type = ''test'', nv_sort_order = 2, nv_enabled = False, nv_protected = False\<rparr>],
     fd_projects = [project_row_of 0 ''default'' ''Default'' None, project_row_of 0 ''p1'' ''One'' None],
     fd_project_envs = [\<lparr>pv_project = ''p1'', pv_environment = ''dev'', pv_default_strategy = None\<rparr>],
     fd_context_fields = [], fd_strategy_types = [], fd_change_requests = [], fd_cr_segments = [], fd_tags = [],
     fd_feature_types = [], fd_next_segment = 1, fd_message = (\<lambda>c. c)\<rparr>"

definition server0 :: server where
  "server0 = \<lparr>sv_accounts = accounts_of_server0, sv_db = tables0, sv_feature_events = [], sv_drawn = 0,
     sv_tokens = \<lparr>db_tokens = [], db_links = [], db_projects = [''default'', ''p1''], db_environments = [''dev''], db_message = (\<lambda>c. c)\<rparr>,
     sv_events = []\<rparr>"

definition acfg1 :: account_config where
  "acfg1 = \<lparr>cf_email_error = (\<lambda>_. None), cf_hash = (\<lambda>p k. CHR ''#'' # p), cf_compare = (\<lambda>p h. h = CHR ''#'' # p),
     cf_owasp = (\<lambda>_. (True, [])), cf_sha256 = (\<lambda>x. x), cf_random = (\<lambda>k. replicate k (CHR ''r'')),
     cf_next_day = (\<lambda>t. t + 86400000), cf_next_month = (\<lambda>t. t + 2592000000), cf_show_time = show_int,
     cf_message = (\<lambda>c. c), cf_unleashUrl = ''http://u'', cf_baseUriPath = []\<rparr>"

lemma server0_db:
  "server_db server0 = roles0\<lparr>ac_users := [\<lparr>us_id = 10, us_active = True, us_is_service = False\<rparr>,
      \<lparr>us_id = 11, us_active = True, us_is_service = False\<rparr>], ac_projects := [''default'', ''p1'']\<rparr>"
  by (simp add: server_db_def server_access_def access_view_def account_view_def with_db_def server0_def accounts_of_server0_def
      roles0_def tables0_def project_ids_def project_row_of_def access_row_def user0_def)

lemma server0_ok: "server_ok server0"
proof -
  have "accounts_ok (account_view server0)"
    using server0_db
    by (simp add: accounts_ok_def accounts_ok_parts server_db_def server_access_def access_ok_def roles0_def
        ru_key_def gu_key_def distinct_column_def map_filter_simps)
      (simp add: account_view_def server0_def accounts_of_server0_def user0_def distinct_column_def map_filter_simps lower_email_def)
  moreover have "feature_db_ok (sv_db server0)"
    by (simp add: server0_def tables0_def project_row_of_def ok_defs catalog_ok_def environment_names_def link_key_def feature_keys_def)
  ultimately show ?thesis by (simp add: server_ok_def)
qed


section \<open>Granting access\<close>

text \<open>
  C38: Nobody gives away what it does not have: after a grant by a user who is neither an administrator nor an owner of
  the project, what anybody may do it could do before, or the one who granted it can do itself.
\<close>

theorem no_escalation:
  assumes "server_ok s" and "addAccess now p roles groups users creator cid s = (Inr (), s')"
    and "\<not> isAdmin cid (getAllProjectRolesForUser cid p (server_access s))"
    and "\<not> isProjectOwner (getAllProjectRolesForUser cid p (server_access s)) p"
    and "hasPermission \<lparr>ax_id = u, ax_isAPI = False, ax_permissions = None\<rparr> wanted q env (server_access s')"
  shows "hasPermission \<lparr>ax_id = u, ax_isAPI = False, ax_permissions = None\<rparr> wanted q env (server_access s) \<or>
    hasPermission \<lparr>ax_id = cid, ax_isAPI = False, ax_permissions = None\<rparr> wanted q env (server_access s)"
proof -
  from assms(2-4) obtain s1 where allowed: "\<forall>rid\<in>set roles. \<exists>r\<in>set (getAllProjectRolesForUser cid p (server_access s)). ro_id (fst r) = rid"
    and run: "on_server_access (addAccessToProject now roles groups users p creator) s = (Inr (), s1)"
    and s': "server_db s' = server_db s1"
    by (auto simp: addAccess_def ask_server_access_def op_iffs isAllowedToAddAccess_def Let_def add_project_event_def
        list_all_iff list_ex_iff split: if_splits)
  from run obtain a where a: "addAccessToProject now roles groups users p creator (server_access s) = Inr a"
    and rows: "ac_role_user (server_db s1) = ac_role_user (as_db a)" "ac_group_role (server_db s1) = ac_group_role (as_db a)"
      "ac_groups (server_db s1) = ac_groups (as_db a)" "ac_group_user (server_db s1) = ac_group_user (as_db a)"
      "ac_role_permission (server_db s1) = ac_role_permission (as_db a)" "ac_permissions (server_db s1) = ac_permissions (as_db a)"
    by (rule on_server_access_db)
  have stored: "store_addAccessToProject now roles groups users p creator (server_db s) = Inr (as_db a)"
    using a by (auto simp: addAccessToProject_def on_db_def with_db_def bindR_Inr_iff server_db_def split: if_splits)
  note adds = add_access_adds [OF stored]
  have ok: "access_ok (server_db s)" by (rule server_db_ok [OF assms(1)])
  have roles: "has_role (server_db s') = has_role (as_db a)" unfolding s' by (rule has_role_cong) (simp_all add: rows)
  have grants: "role_grants (server_db s') = role_grants (server_db s)"
    using adds unfolding s' by (intro role_grants_cong) (simp_all add: rows adds_only_def same_rest_def)
  from assms(5) obtain rid proj perm ty e where h: "has_role (server_db s') u rid proj"
    "role_grants (server_db s') rid perm ty e" "perm \<in> set wanted \<or> perm = ADMIN" "covers_project ty proj q" "covers_environment ty e env"
    unfolding hasPermission_iff server_db_def by blast
  have "has_role (server_db s) u rid proj \<or> has_role (server_db s) cid rid proj"
    using adds_only_has_role [OF adds h(1) [unfolded roles]]
  proof
    assume new: "rid \<in> set roles \<and> proj = p"
    then obtain r where "r \<in> set (store_getAllProjectRolesForUser (server_db s) cid p)" "ro_id (fst r) = rid"
      using allowed by (auto simp: getAllProjectRolesForUser_def server_db_def)
    moreover have "role_has_type (server_db s) PROJECT_ROLE_TYPES rid" using valid_roles(1) [OF ok stored] new by blast
    ultimately show ?thesis using granter_has_role [OF ok] new by (metis prod.collapse)
  qed simp
  with h(2-) show ?thesis unfolding hasPermission_iff server_db_def [symmetric] grants by blast
qed

lemma no_escalation_witness:
  "\<exists>s'. addAccess 9 ''p1'' [5] [] [10] ''bob'' 11 server0 = (Inr (), s') \<and>
     hasPermission \<lparr>ax_id = 11, ax_isAPI = False, ax_permissions = None\<rparr> [''CREATE_FEATURE''] (Some ''p1'') None (server_access server0)"
proof -
  have db: "as_db (server_access server0) = server_db server0" by (simp add: server_db_def)
  let ?row = "\<lparr>ru_user = 10, ru_role = 5, ru_project = ''p1'', ru_created_at = 9\<rparr>"
  let ?a = "with_db (server_access server0) ((server_db server0)\<lparr>ac_role_user := ac_role_user (server_db server0) @ [?row]\<rparr>)"
  have roles: "set (getAllProjectRolesForUser 11 ''p1'' (server_access server0)) =
      {(\<lparr>ro_id = 5, ro_name = ''Member'', ro_type = ''project'', ro_description = []\<rparr>, ''p1'')}"
    by (auto simp: getAllProjectRolesForUser_def store_getAllProjectRolesForUser_def db server0_db roles0_def)
  have no: "\<not> isAdmin 11 (getAllProjectRolesForUser 11 ''p1'' (server_access server0))"
    "\<not> isProjectOwner (getAllProjectRolesForUser 11 ''p1'' (server_access server0)) ''p1''"
    using roles by (simp_all add: isAdmin_def isProjectOwner_def list_ex_iff OWNER_def SYSTEM_USER_ID_def ADMIN_TOKEN_USER_id_def)
  have allowed: "isAllowedToAddAccess 11 ''p1'' [5] (server_access server0)"
    using roles by (simp add: isAllowedToAddAccess_def list_ex_iff)
  have grant: "addAccessToProject 9 [5] [] [10] ''p1'' ''bob'' (server_access server0) = Inr ?a"
    by (simp add: addAccessToProject_def on_db_def db server0_db roles0_def
        store_addAccessToProject_def role_ids_of_type_def PROJECT_ROLE_TYPES_def access_transaction_def group_rows_def user_rows_def
        caught_def ru_insert_merge_def ru_insert_ignore_def ru_fk_check_def ru_key_def)
  then have "\<exists>s'. addAccess 9 ''p1'' [5] [] [10] ''bob'' 11 server0 = (Inr (), s')"
    using allowed by (simp add: addAccess_def ask_server_access_def on_server_access_def thenS_def bindS_def add_project_event_def)
  then obtain s' where run: "addAccess 9 ''p1'' [5] [] [10] ''bob'' 11 server0 = (Inr (), s')" by blast
  then obtain s1 where s1: "on_server_access (addAccessToProject 9 [5] [] [10] ''p1'' ''bob'') server0 = (Inr (), s1)"
    "server_db s' = server_db s1"
    using allowed by (auto simp: addAccess_def ask_server_access_def op_iffs add_project_event_def)
  have "ac_role_user (server_db s') = ac_role_user (as_db ?a)" "ac_role_permission (server_db s') = ac_role_permission (as_db ?a)"
    "ac_permissions (server_db s') = ac_permissions (as_db ?a)"
    using s1 grant by (auto elim!: on_server_access_db)
  then have "has_role (server_db s') 11 5 ''p1'' \<and> role_grants (server_db s') 5 ''CREATE_FEATURE'' ''project'' None"
    by (simp add: has_role_def role_grants_def with_db_def server0_db roles0_def)
  moreover have "covers_project ''project'' ''p1'' (Some ''p1'')" "covers_environment ''project'' None None"
    by (simp_all add: covers_project_def covers_environment_def)
  ultimately have "hasPermission \<lparr>ax_id = 11, ax_isAPI = False, ax_permissions = None\<rparr> [''CREATE_FEATURE''] (Some ''p1'') None (server_access s')"
    unfolding hasPermission_iff server_db_def [symmetric] by (metis list.set_intros(1))
  from no_escalation [OF server0_ok run no this] run show ?thesis by blast
qed


section \<open>Owners\<close>

lemma removed_user_owner:
  assumes "server_ok s" and "has_owner p (server_db s)" and "project_removeUserAccess acfg p uid creator cid s = (Inr (), s')"
  shows "has_owner p (server_db s')"
proof -
  from assms(3) obtain o1 where o1: "owner_role (server_access s) = Inr o1"
    and check: "List.member (getProjectRolesForUser p uid (server_access s)) (ro_id o1) \<Longrightarrow> validateAtLeastOneOwner acfg p o1 (account_view s) = Inr ()"
    and run: "on_server_access (\<lambda>a. Inr (removeUserAccess p uid a)) s = (Inr (), s'\<lparr>sv_events := sv_events s\<rparr>)"
    by (rule removeUserAccess_result) blast
  let ?db = "store_removeUserAccess p uid (server_db s)"
  have "ac_roles (server_db s') = ac_roles ?db \<and> ac_role_user (server_db s') = ac_role_user ?db \<and>
      ac_group_role (server_db s') = ac_group_role ?db \<and> ac_users (server_db s') = ac_users (server_db s)"
    by (rule on_server_access_db [OF run]) (simp add: removeUserAccess_def with_db_def flip: server_db_def)
  then have rows: "ac_roles (server_db s') = ac_roles (server_db s)" "ac_users (server_db s') = ac_users (server_db s)"
    "group_has (server_db s') = group_has (server_db s)" "user_has (server_db s') = user_has ?db"
    by (simp_all add: group_has_def user_has_def fun_eq_iff) (simp_all add: store_removeUserAccess_def)
  show ?thesis
    by (rule user_change_keeps_owner [OF assms(1,2) o1 rows(1-3), where new = "{}" and uid = uid and acfg = acfg])
      (use check in \<open>simp_all add: rows(4) user_has_removed\<close>)
qed

lemma removed_group_owner:
  assumes "server_ok s" and "has_owner p (server_db s)" and "project_removeGroupAccess acfg p gid creator cid s = (Inr (), s')"
  shows "has_owner p (server_db s')"
proof -
  from assms(3) obtain o1 where o1: "owner_role (server_access s) = Inr o1"
    and check: "List.member (getProjectRolesForGroup p gid (server_access s)) (ro_id o1) \<Longrightarrow> validateAtLeastOneOwner acfg p o1 (account_view s) = Inr ()"
    and run: "on_server_access (\<lambda>a. Inr (removeGroupAccess p gid a)) s = (Inr (), s'\<lparr>sv_events := sv_events s\<rparr>)"
    by (rule removeGroupAccess_result) blast
  let ?db = "store_removeGroupAccess p gid (server_db s)"
  have "ac_roles (server_db s') = ac_roles ?db \<and> ac_role_user (server_db s') = ac_role_user ?db \<and>
      ac_group_role (server_db s') = ac_group_role ?db \<and> ac_users (server_db s') = ac_users (server_db s)"
    by (rule on_server_access_db [OF run]) (simp add: removeGroupAccess_def with_db_def flip: server_db_def)
  then have rows: "ac_roles (server_db s') = ac_roles (server_db s)" "ac_users (server_db s') = ac_users (server_db s)"
    "user_has (server_db s') = user_has (server_db s)" "group_has (server_db s') = group_has ?db"
    by (simp_all add: group_has_def user_has_def fun_eq_iff) (simp_all add: store_removeGroupAccess_def)
  show ?thesis
    by (rule group_change_keeps_owner [OF assms(1,2) o1 rows(1-3), where new = "{}" and gid = gid and acfg = acfg])
      (use check in \<open>simp_all add: rows(4) group_has_removed\<close>)
qed

lemma set_user_owner:
  assumes "server_ok s" and "has_owner p (server_db s)" and "setRolesForUser acfg now p uid rs creator cid s = (Inr (), s')"
  shows "has_owner p (server_db s')"
proof -
  from assms(3) obtain o1 where o1: "owner_role (server_access s) = Inr o1"
    and check: "List.member (getProjectRolesForUser p uid (server_access s)) (ro_id o1) \<Longrightarrow> ro_id o1 \<notin> set rs \<Longrightarrow>
      validateAtLeastOneOwner acfg p o1 (account_view s) = Inr ()"
    and run: "on_server_access (setProjectRolesForUser now p uid rs) s = (Inr (), s'\<lparr>sv_events := sv_events s\<rparr>)"
    by (rule setRolesForUser_result) blast
  from run obtain a where a: "setProjectRolesForUser now p uid rs (server_access s) = Inr a"
    and rows: "ac_roles (server_db s') = ac_roles (as_db a)" "ac_role_user (server_db s') = ac_role_user (as_db a)"
      "ac_group_role (server_db s') = ac_group_role (as_db a)" "ac_users (server_db s') = ac_users (server_db s)"
    by (rule on_server_access_db) simp
  from a have stored: "store_setProjectRolesForUser now p uid rs (server_db s) = Inr (as_db a)"
    by (auto simp: setProjectRolesForUser_def on_db_def with_db_def server_db_def bindR_Inr_iff)
  have roles: "ac_roles (as_db a) = ac_roles (server_db s)" using setUser_effect(1) [OF stored] by (simp add: store_removeUserAccess_def)
  have has: "user_has (server_db s') = user_has (as_db a)" "group_has (server_db s') = group_has (server_db s)"
    using rows user_has_set(2) [OF stored] by (simp_all add: user_has_def group_has_def fun_eq_iff)
  show ?thesis
    by (rule user_change_keeps_owner [OF assms(1,2) o1 rows(1) [unfolded roles] rows(4) has(2), where new = "set rs" and uid = uid and acfg = acfg])
      (use check in \<open>auto simp: has(1) user_has_set(1) [OF stored]\<close>)
qed

lemma set_group_owner:
  assumes "server_ok s" and "has_owner p (server_db s)" and "setRolesForGroup acfg p gid rs creator cid s = (Inr (), s')"
  shows "has_owner p (server_db s')"
proof -
  from assms(3) obtain o1 where o1: "owner_role (server_access s) = Inr o1"
    and check: "List.member (getProjectRolesForGroup p gid (server_access s)) (ro_id o1) \<Longrightarrow> ro_id o1 \<notin> set rs \<Longrightarrow>
      validateAtLeastOneOwner acfg p o1 (account_view s) = Inr ()"
    and run: "on_server_access (setProjectRolesForGroup p gid rs creator) s = (Inr (), s'\<lparr>sv_events := sv_events s\<rparr>)"
    by (rule setRolesForGroup_result) blast
  from run obtain a where a: "setProjectRolesForGroup p gid rs creator (server_access s) = Inr a"
    and rows: "ac_roles (server_db s') = ac_roles (as_db a)" "ac_role_user (server_db s') = ac_role_user (as_db a)"
      "ac_group_role (server_db s') = ac_group_role (as_db a)" "ac_users (server_db s') = ac_users (server_db s)"
    by (rule on_server_access_db) simp
  from a have stored: "store_setProjectRolesForGroup p gid rs creator (server_db s) = Inr (as_db a)"
    by (auto simp: setProjectRolesForGroup_def on_db_def with_db_def server_db_def bindR_Inr_iff)
  have roles: "ac_roles (as_db a) = ac_roles (server_db s)" using setGroup_effect(1) [OF stored] by (simp add: store_removeGroupAccess_def)
  have has: "group_has (server_db s') = group_has (as_db a)" "user_has (server_db s') = user_has (server_db s)"
    using rows group_has_set(2) [OF stored] by (simp_all add: user_has_def group_has_def fun_eq_iff)
  show ?thesis
    by (rule group_change_keeps_owner [OF assms(1,2) o1 rows(1) [unfolded roles] rows(4) has(2), where new = "set rs" and gid = gid and acfg = acfg])
      (use check in \<open>auto simp: has(1) group_has_set(1) [OF stored]\<close>)
qed

text \<open>
  C36: A project that has an owner keeps one when access is taken away: whether the access of a user or of a group is
  removed, or its roles are set to others, when the operation succeeds an active user or a group still has the role Owner.
\<close>

theorem owner_kept:
  assumes "server_ok s" and "has_owner p (server_db s)"
    and "project_removeUserAccess acfg p i creator cid s = (Inr (), s') \<or> project_removeGroupAccess acfg p i creator cid s = (Inr (), s') \<or>
      setRolesForUser acfg now p i rs creator cid s = (Inr (), s') \<or> setRolesForGroup acfg p i rs creator cid s = (Inr (), s')"
  shows "has_owner p (server_db s')"
  using assms removed_user_owner removed_group_owner set_user_owner set_group_owner by metis

lemma owner_kept_witness:
  "\<exists>s'. project_removeUserAccess acfg1 ''p1'' 11 ''ann'' 10 server0 = (Inr (), s') \<and> has_owner ''p1'' (server_db s')"
proof -
  have db: "as_db (server_access server0) = server_db server0" by (simp add: server_db_def)
  have owner: "has_owner ''p1'' (server_db server0)"
    by (simp add: has_owner_def user_owns_def server0_db roles0_def OWNER_def user_has_def ru_key_def)
  have "\<exists>s'. project_removeUserAccess acfg1 ''p1'' 11 ''ann'' 10 server0 = (Inr (), s')"
    by (simp add: project_removeUserAccess_def ask_server_access_def getProjectRolesForUser_def store_getProjectRolesForUser_def db
        server0_db roles0_def owner_role_def getRoleByName_def OWNER_def thenS_def bindS_def tryS_def askS_def returnS_def
        on_server_access_def add_project_event_def modS_def PROJECT_ROLE_TYPES_def role_has_type_def)
  with owner_kept [OF server0_ok owner] show ?thesis by metis
qed


section \<open>Deleting a project\<close>

text \<open>
  C34: Whenever the deletion of its archived features happens to run, a project that was deleted is gone with all that
  refers to it: its row, its links to environments, its segments, the roles of users and groups in it, and the links of
  API tokens to it. Its features are gone too, or, where their deletion failed unseen, every one of them is still there,
  in a project that does not exist.
\<close>

theorem deleted_project_gone:
  assumes "deleteProject turn p user name s = (Inr (), s')" and "hasProject p (sv_db s)"
  shows "\<not> hasProject p (sv_db s') \<and> p \<notin> pv_project ` set (fd_project_envs (sv_db s')) \<and>
    Some p \<notin> sw_project ` set (fd_segments (sv_db s')) \<and> p \<notin> ru_project ` set (ac_role_user (server_db s')) \<and>
    p \<notin> gr_project ` set (ac_group_role (server_db s')) \<and> p \<notin> snd ` set (db_links (sv_tokens s')) \<and>
    (p \<notin> ft_project ` set (fd_features (sv_db s')) \<or> fd_features (sv_db s') = fd_features (sv_db s))"
proof -
  define names where "names = archived_features p True (sv_db s)"
  define d where "d = on_features (deleteFeatures names p name (ax_id user))"
  from assms(1) obtain s1 s3 s5 s6 where active: "archived_features p False (sv_db s) = []"
    and d0: "unawaited turn 0 d s = (Inr (), s1)" and d1: "unawaited turn 1 d (projects_remove p s1) = (Inr (), s3)"
    and d2: "unawaited turn 2 d (s3\<lparr>sv_events := sv_events s3 @ [\<lparr>ev_kind = ProjectDeleted, ev_project = p,
        ev_createdBy = project_getCreatedBy user, ev_createdByUserId = ax_id user\<rparr>]\<rparr>) = (Inr (), s5)"
    and roles: "on_server_access (\<lambda>a. Inr (removeDefaultProjectRoles p a)) s5 = (Inr (), s6)"
    and d3: "unawaited turn 3 d s6 = (Inr (), s')"
    by (auto simp: deleteProject_def Let_def op_iffs throw_if_iff ask_tables_def add_project_event_def names_def d_def)
  note step = unawaited_deletion [of turn _ names p name "ax_id user" _ _ _ p, folded d_def]
  note e0 = step [OF d0 names_def]
  have has1: "hasProject p (sv_db s1)" using e0 assms(2) by (simp add: same_projects_def hasProject_def)
  note removed = projects_remove_effect [OF has1]
  have n1: "turn = 1 \<Longrightarrow> names = archived_features p True (sv_db (projects_remove p s1))"
    using e0 removed(6) by (simp add: names_def archived_features_def)
  note e1 = step [OF d1 n1]
  have n2: "turn = 2 \<Longrightarrow> names = archived_features p True (sv_db (s3\<lparr>sv_events := es\<rparr>))" for es
    using e0 e1 removed(6) by (simp add: names_def archived_features_def)
  note e2 = step [OF d2 n2]
  have kept: "sv_db s6 = sv_db s5" "sv_tokens s6 = sv_tokens s5"
    using roles by (auto simp: on_server_access_def)
  have n3: "turn = 3 \<Longrightarrow> names = archived_features p True (sv_db s6)"
    using e0 e1 e2 removed(6) kept by (simp add: names_def archived_features_def)
  note e3 = step [OF d3 n3]
  have tables: "same_projects (sv_db (projects_remove p s1)) (sv_db s')" "sv_tokens s' = sv_tokens (projects_remove p s1)"
    using e1 e2 e3 kept by (simp_all add: same_projects_def)
  have same: "ac_group_role (server_db s5) = ac_group_role (server_db (projects_remove p s1))"
    using e1 e2 by (simp add: server_db_def server_access_def access_view_def account_view_def with_db_def)
  have last: "ac_group_role (server_db s') = ac_group_role (server_db s6)" "ac_role_user (server_db s') = ac_role_user (server_db s6)"
    using e3 by (simp_all add: server_db_def server_access_def access_view_def account_view_def with_db_def)
  have "ac_group_role (server_db s6) = ac_group_role (server_db s5) \<and> p \<notin> ru_project ` set (ac_role_user (server_db s6))"
    by (rule on_server_access_db [OF roles])
      (auto simp: removeDefaultProjectRoles_def with_db_def removeRolesForProject_def server_db_def)
  then have access: "p \<notin> ru_project ` set (ac_role_user (server_db s'))" "p \<notin> gr_project ` set (ac_group_role (server_db s'))"
    using last same removed(4) by simp_all
  have sub: "set (fd_features (sv_db s')) \<subseteq> set (fd_features (sv_db s))" using e0 e1 e2 e3 removed(6) kept by auto
  have chain: "fd_features c = fd_features a \<or> archived_features p True c = []"
    if "fd_features b = fd_features a \<or> archived_features p True b = []" "fd_features c = fd_features b \<or> archived_features p True c = []"
    for a b c
    using that by (auto simp: archived_features_def)
  have c0: "fd_features (sv_db s1) = fd_features (sv_db s) \<or> archived_features p True (sv_db s1) = []" using e0 by blast
  have c1: "fd_features (sv_db s3) = fd_features (sv_db s1) \<or> archived_features p True (sv_db s3) = []" using e1 removed(6) by simp
  have c2: "fd_features (sv_db s5) = fd_features (sv_db s3) \<or> archived_features p True (sv_db s5) = []" using e2 by simp
  have c3: "fd_features (sv_db s') = fd_features (sv_db s5) \<or> archived_features p True (sv_db s') = []" using e3 kept by simp
  have "fd_features (sv_db s') = fd_features (sv_db s) \<or> archived_features p True (sv_db s') = []"
    by (rule chain [OF chain [OF chain [OF c0 c1] c2] c3])
  moreover have "archived_features p False (sv_db s') = []"
    using sub active by (auto simp: archived_features_def filterByArchived_def filter_empty_conv)
  ultimately have "p \<notin> ft_project ` set (fd_features (sv_db s')) \<or> fd_features (sv_db s') = fd_features (sv_db s)"
    by (auto simp: archived_features_def filterByArchived_def filter_empty_conv)
  then show ?thesis using tables access removed by (simp add: same_projects_def hasProject_def)
qed

lemma deleted_project_gone_witness:
  "\<exists>s'. deleteProject 3 ''p1'' \<lparr>ax_id = 10, ax_isAPI = False, ax_permissions = None, act_email = None, act_username = None\<rparr> ''ann'' server0
      = (Inr (), s') \<and> \<not> hasProject ''p1'' (sv_db s')"
proof -
  let ?u = "\<lparr>ax_id = 10, ax_isAPI = False, ax_permissions = None, act_email = None, act_username = None\<rparr>"
  have has: "hasProject ''p1'' (sv_db server0)" by (simp add: server0_def tables0_def hasProject_def project_row_of_def)
  have "archived_features ''p1'' b (sv_db server0) = []" for b by (simp add: archived_features_def server0_def tables0_def)
  then have "\<exists>s'. deleteProject 3 ''p1'' ?u ''ann'' server0 = (Inr (), s')"
    by (simp add: deleteProject_def ask_tables_def DEFAULT_PROJECT_def unawaited_def whenS_def orElseS_def thenS_def bindS_def
        throw_if_def add_project_event_def on_server_access_def split: prod.splits sum.splits)
  then obtain s' where run: "deleteProject 3 ''p1'' ?u ''ann'' server0 = (Inr (), s')" by blast
  from deleted_project_gone [OF run has] run show ?thesis by auto
qed


section \<open>Creating a project\<close>

text \<open>
  A project that was created is a new one, linked to exactly the environments that are enabled, open unless the
  edition is the enterprise's and another mode was asked for, and the user who created it is its owner.
\<close>

theorem created_project:
  assumes "server_ok s" and "createProject cfg new user s = (Inr d, s')" and "ax_id user \<noteq> 0"
  shows "\<not> hasProject (pi_id d) (sv_db s) \<and>
    (\<exists>r\<in>set (fd_projects (sv_db s')). pj_id r = pi_id d \<and> pj_has_settings r \<and>
       pj_mode r = Some (if fc_isEnterprise cfg then default ''open'' (pi_mode new) else ''open'')) \<and>
    pv_environment ` {l \<in> set (fd_project_envs (sv_db s')). pv_project l = pi_id d} =
      nv_name ` {e \<in> set (fd_environments (sv_db s)). nv_enabled e} \<and>
    (\<exists>r\<in>set (ac_roles (server_db s')). ro_name r = OWNER \<and> user_has (server_db s') (ro_id r) (ax_id user) (pi_id d))"
proof -
  let ?row = "(project_row_of (fc_now cfg) (pi_id d) (pi_name d) (pi_description d))\<lparr>pj_has_settings := True,
    pj_mode := Some (default ''open'' (pi_mode d)), pj_default_stickiness := Some (pi_defaultStickiness d),
    pj_feature_limit := pi_featureLimit d\<rparr>"
  let ?es = "environments_getAll nv_enabled (sv_db s)"
  from assms(2) obtain v where v: "projectSchema cfg new = Inr v" and dv: "d = removeModeForNonEnterprise cfg v"
    by (auto simp: createProject_def Let_def op_iffs try_tables_def)
  have v': "v = new\<lparr>pi_mode := Some (default ''open'' (pi_mode new))\<rparr>"
    using v unfolding projectSchema_def bindR_Inr_iff by (elim exE conjE) simp
  from assms(2) v dv obtain s1 s2 s3 rs where d: "\<not> hasProject (pi_id d) (sv_db s)"
    and s1: "on_tables (projects_create (fc_now cfg) d) s = (Inr (mapRow (fc_now cfg) ?row), s1)"
    and envs: "allS (\<lambda>e. on_features (stmt (connectProject (nv_name e) (pi_id d) False))) (environments_getAll nv_enabled (sv_db s1)) s1 = (Inr rs, s2)"
    and roles: "on_server_access (createDefaultProjectRoles (fc_now cfg) (Some (ax_id user)) (pi_id d)) s2 = (Inr (), s3)"
    and last: "sv_db s' = sv_db s3" "sv_accounts s' = sv_accounts s3"
    by (auto simp: createProject_def Let_def op_iffs throw_if_iff try_tables_def ask_tables_def validateUniqueId_def
        add_project_event_def on_tables_def projects_create_def split: if_splits)
  have s1: "sv_db s1 = (sv_db s)\<lparr>fd_projects := fd_projects (sv_db s) @ [?row]\<rparr>" "sv_accounts s1 = sv_accounts s"
    using s1 d by (auto simp: on_tables_def projects_create_def Let_def split: if_splits)
  have mode: "default ''open'' (pi_mode d) = (if fc_isEnterprise cfg then default ''open'' (pi_mode new) else ''open'')"
    by (simp add: dv v' removeModeForNonEnterprise_def)
  have es: "environments_getAll nv_enabled (sv_db s1) = ?es" by (simp add: environments_getAll_def s1)
  note linked = connect_all [OF envs [unfolded es]]
  have db3: "sv_db s3 = sv_db s2" using roles by (auto simp: on_server_access_def split: sum.splits)
  have "pv_project l \<noteq> pi_id d" if "l \<in> set (fd_project_envs (sv_db s))" for l
    using assms(1) d(1) that by (auto simp: server_ok_def feature_db_ok_def catalog_ok_def hasProject_def list_ex_iff)
  then have "{l \<in> set (fd_project_envs (sv_db s')). pv_project l = pi_id d} =
      (\<lambda>e. \<lparr>pv_project = pi_id d, pv_environment = nv_name e, pv_default_strategy = None\<rparr>) ` set ?es"
    unfolding last db3 using linked s1 by auto
  then have 1: "pv_environment ` {l \<in> set (fd_project_envs (sv_db s')). pv_project l = pi_id d} =
      nv_name ` {e \<in> set (fd_environments (sv_db s)). nv_enabled e}"
    by (auto simp: environments_getAll_def image_iff)
  have 2: "?row \<in> set (fd_projects (sv_db s'))" unfolding last db3 using linked s1 by simp
  have db': "server_db s' = server_db s3" using last by (simp add: server_db_def server_access_def access_view_def account_view_def)
  from roles obtain a where a: "createDefaultProjectRoles (fc_now cfg) (Some (ax_id user)) (pi_id d) (server_access s2) = Inr a"
    and rows: "ac_roles (server_db s3) = ac_roles (as_db a)" "ac_role_user (server_db s3) = ac_role_user (as_db a)"
    by (rule on_server_access_db) simp
  from a assms(3) obtain r where r: "getRoleByName (server_db s2) OWNER = Some r"
    and stored: "store_addUserToRole (fc_now cfg) (ax_id user) (ro_id r) (pi_id d) (server_db s2) = Inr (as_db a)"
    by (auto simp: createDefaultProjectRoles_def num_or_def OWNER_def server_db_def on_db_def with_db_def bindR_Inr_iff
        split: if_splits option.splits)
  have "r \<in> set (ac_roles (server_db s2)) \<and> ro_name r = OWNER" using r by (auto simp: getRoleByName_def find_Some_iff)
  moreover have "ac_roles (as_db a) = ac_roles (server_db s2) \<and> user_has (as_db a) (ro_id r) (ax_id user) (pi_id d)"
    using stored by (auto simp: store_addUserToRole_def ru_insert_ignore_iff user_has_def add_new_keys ru_key_def)
  ultimately have 3: "\<exists>r\<in>set (ac_roles (server_db s')). ro_name r = OWNER \<and> user_has (server_db s') (ro_id r) (ax_id user) (pi_id d)"
    unfolding db' rows using rows(2) by (auto simp: user_has_def)
  show ?thesis using d 1 3 by (intro conjI bexI [OF _ 2]) (simp_all add: project_row_of_def mode)
qed

definition fcfg1 :: feature_config where
  "fcfg1 = \<lparr>fc_now = 1000, fc_uuid = (\<lambda>n. ''id-'' @ show_nat n), fc_collate = (\<lambda>s. s), fc_regex = (\<lambda>_ _. True),
     fc_json = (\<lambda>s. s), fc_is_json = (\<lambda>_. True), fc_is_number = (\<lambda>_. True), fc_is_date = (\<lambda>_. True),
     fc_semver_clean = Some, fc_semver_parses = (\<lambda>_. True), fc_strategySegmentsLimit = 5,
     fc_segmentValuesLimit = 1000, fc_isEnterprise = False\<rparr>"

lemma created_project_witness:
  "\<exists>d s'. createProject fcfg1 \<lparr>pi_id = ''p2'', pi_name = ''Two'', pi_description = None, pi_mode = None, pi_defaultStickiness = ''default'',
      pi_featureLimit = None, pi_featureNaming = None\<rparr>
      \<lparr>ax_id = 11, ax_isAPI = False, ax_permissions = None, act_email = None, act_username = None\<rparr> server0 = (Inr d, s') \<and>
    pv_environment ` {l \<in> set (fd_project_envs (sv_db s')). pv_project l = pi_id d} = {''dev''}"
proof -
  let ?new = "\<lparr>pi_id = ''p2'', pi_name = ''Two'', pi_description = None, pi_mode = None, pi_defaultStickiness = ''default'',
      pi_featureLimit = None, pi_featureNaming = None\<rparr>"
  let ?u = "\<lparr>ax_id = 11, ax_isAPI = False, ax_permissions = None, act_email = None, act_username = None\<rparr>"
  let ?d = "?new\<lparr>pi_mode := None\<rparr>"
  let ?row = "(project_row_of 1000 ''p2'' ''Two'' None)\<lparr>pj_has_settings := True, pj_mode := Some ''open'',
      pj_default_stickiness := Some ''default''\<rparr>"
  let ?s1 = "server0\<lparr>sv_db := tables0\<lparr>fd_projects := fd_projects tables0 @ [?row]\<rparr>\<rparr>"
  let ?dev = "\<lparr>nv_name = ''dev'', nv_type = ''development'', nv_sort_order = 1, nv_enabled = True, nv_protected = False\<rparr>"
  let ?s2 = "server0\<lparr>sv_db := (sv_db ?s1)\<lparr>fd_project_envs := fd_project_envs tables0 @
      [\<lparr>pv_project = ''p2'', pv_environment = ''dev'', pv_default_strategy = None\<rparr>]\<rparr>\<rparr>"
  have db: "sv_db server0 = tables0" by (simp add: server0_def)
  have v: "projectSchema fcfg1 ?new = Inr (?new\<lparr>pi_mode := Some ''open''\<rparr>)"
    by (simp add: projectSchema_def name_errors_def url_friendly_def valid_mode_def bindR_def fcfg1_def joi_first_def joi_error_def)
  have u: "validateUniqueId ''p2'' tables0 = Inr ()"
    by (simp add: validateUniqueId_def throw_if_def hasProject_def tables0_def project_row_of_def)
  have s1: "on_tables (projects_create 1000 ?d) server0 = (Inr (mapRow 1000 ?row), ?s1)"
    by (simp add: on_tables_def projects_create_def Let_def db hasProject_def tables0_def valid_mode_def project_row_of_def)
  have es: "environments_getAll nv_enabled (sv_db ?s1) = [?dev]" by (simp add: environments_getAll_def tables0_def)
  have s2: "allS (\<lambda>e. on_features (stmt (connectProject (nv_name e) ''p2'' False))) [?dev] ?s1 = (Inr [()], ?s2)"
    by (simp add: on_features_def stmt_def exec_db_def connectProject_def feature_view_def bindR_def hasProject_def
        environment_names_def tables0_def project_row_of_def server0_def)
  have "\<exists>a. createDefaultProjectRoles 1000 (Some 11) ''p2'' (server_access ?s2) = Inr a"
    by (simp add: createDefaultProjectRoles_def num_or_def getRoleByName_def server_access_def access_view_def account_view_def
        with_db_def server0_def accounts_of_server0_def roles0_def user0_def access_row_def on_db_def store_addUserToRole_def
        ru_insert_ignore_def ru_fk_check_def bindR_def ru_key_def)
  then obtain a where a: "createDefaultProjectRoles 1000 (Some 11) ''p2'' (server_access ?s2) = Inr a" by blast
  then have s3: "on_server_access (createDefaultProjectRoles 1000 (Some 11) ''p2'') ?s2 =
      (Inr (), ?s2\<lparr>sv_accounts := with_access (account_view ?s2) a\<rparr>)" by (simp add: on_server_access_def)
  have now: "fc_now fcfg1 = 1000" "fc_isEnterprise fcfg1 = False" by (simp_all add: fcfg1_def)
  have "\<exists>d s'. createProject fcfg1 ?new ?u server0 = (Inr d, s')"
    using s1 s2 s3 es
    by (simp add: createProject_def try_tables_def v u Let_def removeModeForNonEnterprise_def now db ask_tables_def bindS_def thenS_def
        add_project_event_def)
  then obtain d s' where run: "createProject fcfg1 ?new ?u server0 = (Inr d, s')" by blast
  have "nv_name ` {e \<in> set (fd_environments (sv_db server0)). nv_enabled e} = {''dev''}"
    by (force simp: server0_def tables0_def)
  with created_project [OF server0_ok run] run show ?thesis by auto
qed

end
