(* ===== verification/ClientFeatures.thy ===== *)
theory ClientFeatures
  imports Segments
begin

text \<open>
  What SDKs are served: the store that joins the feature tables and folds the rows into features
  (\<open>client-feature-toggle-store.ts\<close>), the converter of the playground (\<open>feature-toggle-row-converter.ts\<close>),
  the segment read model, and the client API with its queries, its memory and its revisions
  (\<open>client-feature-toggle-service.ts\<close>, \<open>client-feature-toggle.controller.ts\<close>,
  \<open>configuration-revision-service.ts\<close>, \<open>client-spec-service.ts\<close>).
\<close>

section \<open>Queries\<close>

record feature_query =
  fq_tag :: "string list list option"
  fq_project :: "string list option"
  fq_namePrefix :: "string option"
  fq_environment :: "string option"
  fq_inlineSegmentConstraints :: "bool option"

definition no_query :: feature_query where
  "no_query = \<lparr>fq_tag = None, fq_project = None, fq_namePrefix = None, fq_environment = None,
     fq_inlineSegmentConstraints = None\<rparr>"

text \<open>SQL's \<open>LIKE\<close>, with the backslash as its escape.\<close>

function sql_like :: "string \<Rightarrow> string \<Rightarrow> bool" where
  "sql_like [] s = (s = [])"
| "sql_like (p # ps) s =
     (if p = CHR ''%'' then sql_like ps s \<or> (case s of [] \<Rightarrow> False | c # cs \<Rightarrow> sql_like (p # ps) cs)
      else (case s of [] \<Rightarrow> False | c # cs \<Rightarrow>
        if p = CHR ''_'' then sql_like ps cs
        else if p = CHR 0x5C then (case ps of [] \<Rightarrow> False | q # qs \<Rightarrow> c = q \<and> sql_like qs cs)
        else c = p \<and> sql_like ps cs))"
  by pat_completeness auto
termination by (relation "measure (\<lambda>(p, s). length p + length s)") auto

definition query_environment :: "feature_query \<Rightarrow> string" where
  "query_environment q = or_else (fq_environment q) ''default''"

text \<open>Only pairs can be compared with the columns of a tag.\<close>

definition tag_error :: "feature_query \<Rightarrow> bool" where
  "tag_error q = (case fq_tag q of None \<Rightarrow> False | Some ts \<Rightarrow> list_ex (\<lambda>t. length t \<noteq> 2) ts)"

definition query_selects :: "feature_query \<Rightarrow> feature_db \<Rightarrow> feature_row \<Rightarrow> bool" where
  "query_selects q db f =
     ((case fq_tag q of None \<Rightarrow> True
       | Some ts \<Rightarrow> list_ex (\<lambda>t. tg_feature t = ft_name f \<and> List.member ts [tg_type t, tg_value t]) (fd_tags db)) \<and>
      (case fq_project q of None \<Rightarrow> True
       | Some ps \<Rightarrow> List.member ps ALL_PROJECTS \<or> List.member ps (ft_project f)) \<and>
      (truthy (fq_namePrefix q) \<longrightarrow> sql_like (the (fq_namePrefix q) @ ''%'') (ft_name f)))"


section \<open>The rows\<close>

text \<open>A left join has a row without a partner for a row that has none.\<close>

definition partners :: "'a list \<Rightarrow> 'a option list" where
  "partners xs = (if xs = [] then [None] else map Some xs)"

record client_row =
  jr_feature :: feature_row
  jr_env :: "feature_env option"
  jr_strategy :: "strategy_row option"
  jr_segment :: "segment_row option"
  jr_parent :: "dependency_row option"
  jr_tag :: "tag_row option"

definition strategy_segments :: "feature_db \<Rightarrow> strategy_row option \<Rightarrow> segment_row option list" where
  "strategy_segments db s = (let links = (case s of None \<Rightarrow> [] | Some st \<Rightarrow>
       filter (\<lambda>l. fst l = sr_id st) (fd_strategy_segments db)) in
     if links = [] then [None] else map (\<lambda>l. find (\<lambda>g. sw_id g = snd l) (fd_segments db)) links)"

text \<open>The joins of features with what they have in one environment; the tags are there for administrators.\<close>

definition feature_rows :: "bool \<Rightarrow> string \<Rightarrow> feature_db \<Rightarrow> feature_row \<Rightarrow> client_row list" where
  "feature_rows tags env db f =
     [\<lparr>jr_feature = f, jr_env = e, jr_strategy = s, jr_segment = g, jr_parent = d, jr_tag = t\<rparr>.
       s \<leftarrow> partners (filter (\<lambda>s. sr_feature s = ft_name f \<and> sr_environment s = env) (fd_strategies db)),
       e \<leftarrow> partners (filter (\<lambda>e. en_feature e = ft_name f \<and> en_environment e = env) (fd_envs db)),
       g \<leftarrow> strategy_segments db s,
       d \<leftarrow> partners (filter (\<lambda>d. dr_child d = ft_name f) (fd_dependencies db)),
       t \<leftarrow> (if tags then partners (filter (\<lambda>t. tg_feature t = ft_name f) (fd_tags db)) else [None])]"


section \<open>Features as they are served\<close>

record client_strategy =
  ks_name :: string
  ks_id :: "string option"
  ks_title :: "string option"
  ks_disabled :: "bool option"
  ks_parameters :: parameters
  ks_constraints :: "constraint list"
  ks_variants :: "weighted_variant list"
  ks_segments :: "int list option"
  ks_sortOrder :: "int option"

record client_feature =
  kf_name :: string
  kf_type :: string
  kf_description :: "string option"
  kf_project :: string
  kf_stale :: bool
  kf_enabled :: bool
  kf_impressionData :: bool
  kf_strategies :: "client_strategy list"
  kf_variants :: "weighted_variant list"
  kf_dependencies :: "dependency list option"
  kf_lastSeenAt :: "int option"
  kf_createdAt :: "int option"
  kf_tags :: "(string \<times> string) list option" \<comment> \<open>type, value\<close>

definition rowToStrategy :: "strategy_row \<Rightarrow> client_strategy" where
  "rowToStrategy s = \<lparr>ks_name = sr_name s, ks_id = Some (sr_id s), ks_title = sr_title s, ks_disabled = None,
     ks_parameters = sr_parameters s, ks_constraints = sr_constraints s, ks_variants = sr_variants s,
     ks_segments = None, ks_sortOrder = Some (sr_sort_order s)\<rparr>"

definition isUnseenStrategyRow :: "client_strategy list \<Rightarrow> client_row \<Rightarrow> bool" where
  "isUnseenStrategyRow seen r = (case jr_strategy r of
       None \<Rightarrow> False
     | Some s \<Rightarrow> sr_id s \<noteq> [] \<and> \<not> list_ex (\<lambda>k. ks_id k = Some (sr_id s)) seen)"

fun update_first :: "('a \<Rightarrow> bool) \<Rightarrow> ('a \<Rightarrow> 'a) \<Rightarrow> 'a list \<Rightarrow> 'a list" where
  "update_first p f [] = []"
| "update_first p f (x # xs) = (if p x then f x # xs else x # update_first p f xs)"

definition same_strategy :: "client_row \<Rightarrow> client_strategy \<Rightarrow> bool" where
  "same_strategy r k = (ks_id k = map_option sr_id (jr_strategy r))"

definition row_segment :: "client_row \<Rightarrow> segment_row option" where
  "row_segment r = (case jr_segment r of None \<Rightarrow> None | Some g \<Rightarrow> if sw_id g = 0 then None else Some g)"

definition addSegmentToStrategy :: "segment_row \<Rightarrow> client_row \<Rightarrow> client_strategy list \<Rightarrow> client_strategy list" where
  "addSegmentToStrategy g r = update_first (same_strategy r) (\<lambda>k. k\<lparr>ks_constraints := ks_constraints k @ sw_constraints g\<rparr>)"

definition addSegmentIdsToStrategy :: "segment_row \<Rightarrow> client_row \<Rightarrow> client_strategy list \<Rightarrow> client_strategy list" where
  "addSegmentIdsToStrategy g r = update_first (same_strategy r)
     (\<lambda>k. k\<lparr>ks_segments := Some (default [] (ks_segments k) @ [sw_id g])\<rparr>)"

definition add_segment :: "bool \<Rightarrow> client_row \<Rightarrow> client_strategy list \<Rightarrow> client_strategy list" where
  "add_segment inline r ks = (case row_segment r of
       None \<Rightarrow> ks
     | Some g \<Rightarrow> if inline then addSegmentToStrategy g r ks else addSegmentIdsToStrategy g r ks)"

definition isNewTag :: "(string \<times> string) list option \<Rightarrow> tag_row \<Rightarrow> bool" where
  "isNewTag tags t = (tg_type t \<noteq> [] \<and> tg_value t \<noteq> [] \<and> \<not> List.member (default [] tags) (tg_type t, tg_value t))"

definition add_tag :: "client_row \<Rightarrow> (string \<times> string) list option \<Rightarrow> (string \<times> string) list option" where
  "add_tag r tags = (case jr_tag r of
       Some t \<Rightarrow> if isNewTag tags t then Some (default [] tags @ [(tg_type t, tg_value t)]) else tags
     | None \<Rightarrow> tags)"

definition client_dependency :: "dependency_row \<Rightarrow> dependency" where
  "client_dependency d = \<lparr>dep_feature = dr_parent d, dep_variants = (if dr_enabled d then Some (dr_variants d) else None),
     dep_enabled = Some (dr_enabled d)\<rparr>"

definition add_dependency :: "client_row \<Rightarrow> dependency list option \<Rightarrow> dependency list option" where
  "add_dependency r ds = (case jr_parent r of
       Some d \<Rightarrow> if dr_parent d = [] then ds else Some (default [] ds @ [client_dependency d])
     | None \<Rightarrow> ds)"

text \<open>The body of \<open>rows.reduce\<close>: what the feature has so far, and what the row adds; disabled strategies are left out.\<close>

datatype request_type = ClientRequest | FrontendRequest | PlaygroundRequest | AdminRequest

definition base_feature :: "client_row \<Rightarrow> client_feature option \<Rightarrow> client_feature" where
  "base_feature r acc = (let f = jr_feature r in
     \<lparr>kf_name = ft_name f, kf_type = ft_type f, kf_description = ft_description f, kf_project = ft_project f,
      kf_stale = ft_stale f, kf_enabled = (case jr_env r of None \<Rightarrow> False | Some e \<Rightarrow> en_enabled e),
      kf_impressionData = ft_impression_data f,
      kf_strategies = (case acc of None \<Rightarrow> [] | Some k \<Rightarrow> kf_strategies k),
      kf_variants = (case jr_env r of None \<Rightarrow> [] | Some e \<Rightarrow> en_variants e),
      kf_dependencies = Option.bind acc kf_dependencies, kf_lastSeenAt = ft_last_seen_at f,
      kf_createdAt = Option.bind acc kf_createdAt, kf_tags = Option.bind acc kf_tags\<rparr>)"

definition add_client_row ::
  "request_type \<Rightarrow> bool \<Rightarrow> client_feature option \<Rightarrow> client_row \<Rightarrow> client_feature" where
  "add_client_row kind inline acc r =
     (let base = base_feature r acc;
          seen = kf_strategies base;
          strategies = (if isUnseenStrategyRow seen r \<and> \<not> sr_disabled (the (jr_strategy r))
                        then seen @ [rowToStrategy (the (jr_strategy r))] else seen)
      in base\<lparr>kf_strategies := add_segment inline r strategies,
              kf_tags := add_tag r (kf_tags base),
              kf_dependencies := (if kind = AdminRequest then kf_dependencies base else add_dependency r (kf_dependencies base)),
              kf_createdAt := (if kind = AdminRequest then Some (ft_created_at (jr_feature r)) else None)\<rparr>)"

text \<open>
  The accumulator is an object with the prototype of all objects: a name that it inherits is found there and
  is a function, whose \<open>name\<close> cannot be assigned. For \<open>__proto__\<close> the prototype itself is written, and no
  feature comes out; what that does to other objects is not modelled.
\<close>

definition inherited_names :: "string list" where
  "inherited_names = [''constructor'', ''__defineGetter__'', ''__defineSetter__'', ''hasOwnProperty'', ''__lookupGetter__'',
     ''__lookupSetter__'', ''isPrototypeOf'', ''propertyIsEnumerable'', ''toString'', ''valueOf'', ''toLocaleString'']"

definition read_only_name :: "string \<Rightarrow> exn" where
  \<open>read_only_name n = JsError ''TypeError'' (''Cannot assign to read only property 'name' of function 'function ''
     @ (if n = ''constructor'' then ''Object'' else n) @ ''() { [native code] }'' @ [CHR 0x27])\<close>

definition reduce_row ::
  "(client_feature option \<Rightarrow> client_row \<Rightarrow> client_feature) \<Rightarrow> (string \<times> client_feature) list \<Rightarrow> client_row \<Rightarrow>
   exn + (string \<times> client_feature) list" where
  "reduce_row add acc r =
     (let n = ft_name (jr_feature r) in
      if List.member inherited_names n then Inl (read_only_name n)
      else if n = ''__proto__'' then Inr acc
      else Inr (AList.update n (add (map_of acc n) r) acc))"

definition object_values :: "(string \<times> 'a) list \<Rightarrow> 'a list" where
  "object_values m = List.map_filter (map_of m) (object_keys m)"

definition sort_strategies :: "client_strategy list \<Rightarrow> client_strategy list" where
  "sort_strategies ks = sort_key (\<lambda>k. default 0 (ks_sortOrder k)) ks"

text \<open>Ids are for administrators and the playground, titles for the playground.\<close>

definition clean_strategy :: "request_type \<Rightarrow> client_strategy \<Rightarrow> client_strategy" where
  "clean_strategy kind k = k\<lparr>ks_sortOrder := None,
     ks_title := (if kind = PlaygroundRequest \<and> truthy (ks_title k) then ks_title k else None),
     ks_id := (if kind = AdminRequest \<or> kind = PlaygroundRequest then ks_id k else None)\<rparr>"

definition clean_feature :: "request_type \<Rightarrow> client_feature \<Rightarrow> client_feature" where
  "clean_feature kind f = f\<lparr>kf_strategies := map (clean_strategy kind) (sort_strategies (kf_strategies f))\<rparr>"

definition tags_column_error :: "feature_db \<Rightarrow> exn" where
  "tags_column_error db = DbError ''42601'' None None (fd_message db ''42601'')"

definition client_getAll ::
  "request_type \<Rightarrow> bool \<Rightarrow> feature_query \<Rightarrow> feature_db \<Rightarrow> exn + client_feature list" where
  "client_getAll kind archived q db =
     (if tag_error q then Inl (tags_column_error db)
      else let rows = concat (map (feature_rows (kind = AdminRequest) (query_environment q) db)
             (filter (\<lambda>f. filterByArchived archived f \<and> query_selects q db f) (fd_features db)))
        in bindR (foldR (reduce_row (add_client_row kind (default False (fq_inlineSegmentConstraints q)))) [] rows)
          (\<lambda>acc. Inr (map (clean_feature kind) (object_values acc))))"

definition store_getClient :: "feature_query \<Rightarrow> feature_db \<Rightarrow> exn + client_feature list" where
  "store_getClient q = client_getAll ClientRequest False q"

definition getFrontendApiClient :: "feature_query \<Rightarrow> feature_db \<Rightarrow> exn + client_feature list" where
  "getFrontendApiClient q = client_getAll FrontendRequest False q"

definition getAdmin :: "feature_query \<Rightarrow> bool \<Rightarrow> feature_db \<Rightarrow> exn + client_feature list" where
  "getAdmin q archived = client_getAll AdminRequest archived q"


section \<open>The features of the playground\<close>

text \<open>\<open>buildPlaygroundFeaturesFromRows\<close>: here disabled strategies stay, marked as such.\<close>

definition add_playground_row :: "bool \<Rightarrow> client_feature option \<Rightarrow> client_row \<Rightarrow> client_feature" where
  "add_playground_row inline acc r =
     (let base = base_feature r acc;
          seen = kf_strategies base;
          strategies = (if isUnseenStrategyRow seen r
                        then seen @ [(rowToStrategy (the (jr_strategy r)))\<lparr>ks_disabled := Some (sr_disabled (the (jr_strategy r)))\<rparr>]
                        else seen)
      in base\<lparr>kf_strategies := add_segment inline r strategies,
              kf_dependencies := add_dependency r (kf_dependencies base)\<rparr>)"

definition formatToggles :: "client_feature \<Rightarrow> client_feature" where
  "formatToggles f = f\<lparr>kf_strategies := map (\<lambda>k. k\<lparr>ks_sortOrder := None,
       ks_title := (if truthy (ks_title k) then ks_title k else None)\<rparr>) (sort_strategies (kf_strategies f))\<rparr>"

text \<open>The condition on projects has no exception for all of them.\<close>

definition getPlaygroundFeatures :: "feature_query \<Rightarrow> feature_db \<Rightarrow> exn + client_feature list" where
  "getPlaygroundFeatures q db =
     (let rows = concat (map (feature_rows False (query_environment q) db)
        (filter (\<lambda>f. filterByArchived False f \<and>
            (case fq_project q of None \<Rightarrow> True | Some ps \<Rightarrow> List.member ps (ft_project f))) (fd_features db)))
      in bindR (foldR (reduce_row (add_playground_row (default False (fq_inlineSegmentConstraints q)))) [] rows)
        (\<lambda>acc. Inr (map formatToggles (object_values acc))))"


section \<open>Segments for SDKs\<close>

record client_segment =
  kg_id :: int
  kg_name :: string
  kg_constraints :: "constraint list"

definition segments_by_name :: "segment_row list \<Rightarrow> segment_row list" where
  "segments_by_name gs = sort_key sw_name gs"

definition readModel_getAll :: "feature_db \<Rightarrow> segment_row list" where
  "readModel_getAll db = segments_by_name (fd_segments db)"

definition getActive :: "feature_db \<Rightarrow> segment_row list" where
  "getActive db = segments_by_name (filter (\<lambda>g. list_ex (\<lambda>l. snd l = sw_id g) (fd_strategy_segments db)) (fd_segments db))"

definition getActiveForClient :: "feature_db \<Rightarrow> client_segment list" where
  "getActiveForClient db = map (\<lambda>g. \<lparr>kg_id = sw_id g, kg_name = sw_name g, kg_constraints = sw_constraints g\<rparr>) (getActive db)"


section \<open>The service\<close>

definition pick_client :: "client_feature \<Rightarrow> client_feature" where
  "pick_client f = f\<lparr>kf_lastSeenAt := None, kf_createdAt := None, kf_tags := None\<rparr>"

definition getClientFeatures :: "feature_query \<Rightarrow> feature_db \<Rightarrow> exn + client_feature list" where
  "getClientFeatures q db = bindR (store_getClient q db) (\<lambda>fs. Inr (map pick_client fs))"

text \<open>The feature service has its own, for the frontend API.\<close>

definition featureService_getClientFeatures :: "feature_query \<Rightarrow> feature_db \<Rightarrow> exn + client_feature list" where
  "featureService_getClientFeatures q db = bindR (getFrontendApiClient q db) (\<lambda>fs. Inr (map pick_client fs))"

end
