(* ===== verification/ClientApi.thy ===== *)
theory ClientApi
  imports ClientFeatures
begin

text \<open>
  The client API (\<open>client-feature-toggle.controller.ts\<close>): the query of a request, limited by its token, the
  version of the answer from the revision of the configuration, and the memory of answers by version.
\<close>

section \<open>Configuration\<close>

text \<open>What is not under \<open>src/\<close>: \<open>hash-sum\<close> and semver; and the settings.\<close>

record client_config =
  cc_features :: feature_config
  cc_hash :: "feature_query \<Rightarrow> string" \<comment> \<open>\<open>hashSum\<close>\<close>
  cc_supports_segments :: "string \<Rightarrow> bool" \<comment> \<open>\<open>semver.gte(parsed, '4.2.0')\<close> of a version that parses\<close>
  cc_caching :: bool
  cc_maxAge :: int
  cc_strip_headers :: bool


section \<open>Revisions\<close>

text \<open>An event as the query of revisions sees it.\<close>

record stored_event =
  se_id :: int
  se_type :: string
  se_feature_name :: "string option"

definition revision_types :: "string list" where
  "revision_types = [''segment-updated'', ''feature-import'', ''features-imported'']"

definition store_getMaxRevisionId :: "int \<Rightarrow> stored_event list \<Rightarrow> int" where
  "store_getMaxRevisionId largerThan es =
     (case map se_id (filter (\<lambda>e. (se_feature_name e \<noteq> None \<or> List.member revision_types (se_type e)) \<and> se_id e \<ge> largerThan) es) of
        [] \<Rightarrow> 0 | i # is' \<Rightarrow> fold max is' i)"

text \<open>The service keeps the last revision; whoever listens is told of a new one.\<close>

definition updateMaxRevisionId :: "bool \<Rightarrow> stored_event list \<Rightarrow> int \<Rightarrow> int \<times> int" where
  "updateMaxRevisionId disabled es known =
     (if disabled then (0, known) else (let r = store_getMaxRevisionId known es in (r, r)))"

definition getMaxRevisionId :: "bool \<Rightarrow> stored_event list \<Rightarrow> int \<Rightarrow> int \<times> int" where
  "getMaxRevisionId disabled es known = (if known > 0 then (known, known) else updateMaxRevisionId disabled es known)"


section \<open>The query of a request\<close>

text \<open>A parameter of the URL that is absent, given once, or given several times.\<close>

datatype url_param = Absent | Once string | Several "string list"

record client_request =
  cr_user :: "api_user option" \<comment> \<open>the user, where it is an \<open>ApiUser\<close>\<close>
  cr_tag :: url_param
  cr_project :: url_param
  cr_namePrefix :: "string option"
  cr_environment :: "string option"
  cr_spec :: "string option" \<comment> \<open>the header \<open>Unleash-Client-Spec\<close>\<close>
  cr_if_none_match :: "string option"

definition specError :: "string \<Rightarrow> string \<Rightarrow> exn" where
  \<open>specError what version = Api (BadDataError (''Invalid '' @ what @ '' in the Unleash-Client-Spec header: "'' @ version @ ''".''))\<close>

definition versionSupportsSpec :: "client_config \<Rightarrow> string option \<Rightarrow> exn + bool" where
  "versionSupportsSpec cfg version =
     (if \<not> truthy version then Inr False
      else (let v = the version;
                parsed = (fc_semver_clean (cc_features cfg) v = Some v \<and> fc_semver_parses (cc_features cfg) v) in
        if parsed then Inr (cc_supports_segments cfg v)
        else Inl (specError (if is_digit (hd v) then ''SemVer'' else ''prefix'') v)))"

definition is_word_char :: "char \<Rightarrow> bool" where
  "is_word_char c = (let n = (of_char c :: nat) in
     48 \<le> n \<and> n \<le> 57 \<or> 65 \<le> n \<and> n \<le> 90 \<or> 97 \<le> n \<and> n \<le> 122 \<or> n = 95)"

definition is_line_end :: "char \<Rightarrow> bool" where
  "is_line_end c = (c = CHR 0x0A \<or> c = CHR 0x0D)"

text \<open>\<open>/\w+:.+/\<close>, anywhere in the string.\<close>

fun tag_pattern :: "string \<Rightarrow> bool" where
  "tag_pattern (w # c # x # s) = (is_word_char w \<and> c = CHR '':'' \<and> \<not> is_line_end x \<or> tag_pattern (c # x # s))"
| "tag_pattern _ = False"

definition param_values :: "url_param \<Rightarrow> string list option" where
  "param_values p = (case p of Absent \<Rightarrow> None | Once v \<Rightarrow> if v = [] then None else Some [v] | Several vs \<Rightarrow> Some vs)"

text \<open>\<open>paramToArray\<close> leaves an empty parameter as it is, which is no array.\<close>

definition array_errors :: "string \<Rightarrow> url_param \<Rightarrow> joi_detail list" where
  \<open>array_errors label p = (if p = Once [] then [\<lparr>jd_message = label @ '' must be an array'', jd_value = None\<rparr>] else [])\<close>

definition index_label :: "string \<Rightarrow> nat \<Rightarrow> string" where
  \<open>index_label what i = ''"'' @ what @ ''['' @ show_nat i @ '']"''\<close>

definition tag_errors :: "feature_config \<Rightarrow> url_param \<Rightarrow> joi_detail list" where
  \<open>tag_errors cfg p = array_errors ''"tag"'' p @ concat (map (\<lambda>(i, t).
       if t = [] then [\<lparr>jd_message = index_label ''tag'' i @ '' is not allowed to be empty'', jd_value = None\<rparr>]
       else if tag_pattern t then []
       else [\<lparr>jd_message = index_label ''tag'' i @ '' with value '' @ fc_json cfg t @ '' fails to match the tag pattern'',
              jd_value = Some (fc_json cfg t)\<rparr>])
     (List.enumerate 0 (default [] (param_values p))))\<close>

definition project_errors :: "feature_config \<Rightarrow> url_param \<Rightarrow> joi_detail list" where
  \<open>project_errors cfg p = array_errors ''"project"'' p @ concat (map (\<lambda>(i, v). name_errors cfg (index_label ''project'' i) v)
     (List.enumerate 0 (default [] (param_values p))))\<close>

definition empty_errors :: "string \<Rightarrow> string option \<Rightarrow> joi_detail list" where
  \<open>empty_errors label v = (if v = Some [] then [\<lparr>jd_message = label @ '' is not allowed to be empty'', jd_value = None\<rparr>] else [])\<close>

definition prepQuery ::
  "client_config \<Rightarrow> url_param \<Rightarrow> url_param \<Rightarrow> string option \<Rightarrow> string option \<Rightarrow> bool \<Rightarrow> exn + feature_query" where
  \<open>prepQuery cfg tag project begins env inline =
     (if param_values tag = None \<and> param_values project = None \<and> \<not> truthy begins \<and> \<not> truthy env \<and> \<not> inline then Inr no_query
      else bindR (joi_error (tag_errors (cc_features cfg) tag @ project_errors (cc_features cfg) project
             @ empty_errors ''"namePrefix"'' begins @ empty_errors ''"environment"'' env))
        (\<lambda>_. Inr \<lparr>fq_tag = map_option (map (split_on (CHR '':''))) (param_values tag), fq_project = param_values project,
               fq_namePrefix = begins, fq_environment = env, fq_inlineSegmentConstraints = Some inline\<rparr>))\<close>

text \<open>The projects and the environment of the token override those of the request.\<close>

definition resolveQuery :: "client_config \<Rightarrow> client_request \<Rightarrow> exn + feature_query" where
  "resolveQuery cfg req =
     (let project = (case cr_user req of
            Some u \<Rightarrow> if isAllProjects (au_projects u) then cr_project req else Several (au_projects u)
          | None \<Rightarrow> cr_project req);
          env = (case cr_user req of
            Some u \<Rightarrow> if au_environment u \<noteq> ALL' then Some (au_environment u) else cr_environment req
          | None \<Rightarrow> cr_environment req)
      in bindR (versionSupportsSpec cfg (cr_spec req)) (\<lambda>supported.
           prepQuery cfg (cr_tag req) project (cr_namePrefix req) env (\<not> supported)))"


section \<open>The answer\<close>

record client_answer =
  ca_features :: "client_feature list"
  ca_segments :: "client_segment list option"
  ca_query :: feature_query
  ca_etag :: string

datatype client_response = NotModified string | ClientFeatures client_answer

text \<open>The memory: by version, what was answered and when.\<close>

record client_memory =
  cm_revision :: int
  cm_memo :: "(string \<times> int \<times> client_feature list \<times> client_segment list) list"

definition resolveFeaturesAndSegments ::
  "feature_query \<Rightarrow> feature_db \<Rightarrow> exn + client_feature list \<times> client_segment list" where
  "resolveFeaturesAndSegments q db = bindR (getClientFeatures q db) (\<lambda>fs. Inr (fs, getActiveForClient db))"

text \<open>
  \<open>memoizee\<close>: an answer not older than the maximum age is given again, whatever the query is now; an error is
  not kept.
\<close>

definition featuresAndSegments ::
  "client_config \<Rightarrow> int \<Rightarrow> feature_query \<Rightarrow> string \<Rightarrow> feature_db \<Rightarrow> client_memory \<Rightarrow>
   (exn + client_feature list \<times> client_segment list) \<times> client_memory" where
  "featuresAndSegments cfg now q etag db m =
     (if \<not> cc_caching cfg then (resolveFeaturesAndSegments q db, m)
      else (case find (\<lambda>(e, t, _). e = etag \<and> now < t + cc_maxAge cfg) (cm_memo m) of
          Some (_, _, fs, gs) \<Rightarrow> (Inr (fs, gs), m)
        | None \<Rightarrow> (case resolveFeaturesAndSegments q db of
              Inl e \<Rightarrow> (Inl e, m)
            | Inr (fs, gs) \<Rightarrow> (Inr (fs, gs), m\<lparr>cm_memo := (etag, now, fs, gs) # filter (\<lambda>x. fst x \<noteq> etag) (cm_memo m)\<rparr>))))"

definition etag_of :: "client_config \<Rightarrow> feature_query \<Rightarrow> int \<Rightarrow> string" where
  \<open>etag_of cfg q revision = ''"'' @ cc_hash cfg q @ '':'' @ show_int revision @ ''"''\<close>

definition client_api_getAll ::
  "client_config \<Rightarrow> bool \<Rightarrow> int \<Rightarrow> client_request \<Rightarrow> stored_event list \<Rightarrow> feature_db \<Rightarrow> client_memory \<Rightarrow>
   (exn + client_response) \<times> client_memory" where
  "client_api_getAll cfg disabled now req events db m =
     (case resolveQuery cfg req of
        Inl e \<Rightarrow> (Inl e, m)
      | Inr q \<Rightarrow>
          (case getMaxRevisionId disabled events (cm_revision m) of (revision, kept) \<Rightarrow>
            let m1 = m\<lparr>cm_revision := kept\<rparr>; etag = etag_of cfg q revision in
            if cr_if_none_match req = Some etag then (Inr (NotModified etag), m1)
            else (case featuresAndSegments cfg now q etag db m1 of
                (Inl e, m2) \<Rightarrow> (Inl e, m2)
              | (Inr (fs, gs), m2) \<Rightarrow>
                  (bindR (versionSupportsSpec cfg (cr_spec req)) (\<lambda>supported.
                     Inr (ClientFeatures \<lparr>ca_features = fs, ca_segments = (if supported then Some gs else None),
                            ca_query = q, ca_etag = etag\<rparr>)), m2))))"

definition client_api_getFeature ::
  "client_config \<Rightarrow> string \<Rightarrow> client_request \<Rightarrow> feature_db \<Rightarrow> exn + client_feature" where
  "client_api_getFeature cfg name req db =
     bindR (resolveQuery cfg req) (\<lambda>q.
     bindR (getClientFeatures (q\<lparr>fq_namePrefix := Some name\<rparr>) db) (\<lambda>fs.
       case find (\<lambda>f. kf_name f = name) fs of
         None \<Rightarrow> Inl (Api (NotFoundError (Some (''Could not find feature toggle '' @ name))))
       | Some f \<Rightarrow> Inr f))"

end
