(* ===== verification/FrontendApi.thy ===== *)
theory FrontendApi
  imports ClientApi
begin

text \<open>
  The frontend API (\<open>features/frontend-api\<close>): features evaluated on the server by the client SDK, which is a
  parameter, over one of two repositories, the features of one token (\<open>proxy-repository.ts\<close>) or a cache of all
  (\<open>global-frontend-api-cache.ts\<close>), and the contexts of requests (\<open>create-context.ts\<close>).
\<close>

section \<open>Features for an SDK\<close>

text \<open>\<open>offline-unleash-client.ts\<close>: a feature as the evaluator takes it, with its project.\<close>

record sdk_feature = feature +
  sf_project :: string

definition map_strategy_for_client :: "client_strategy \<Rightarrow> strategy_transport" where
  "map_strategy_for_client k =
     \<lparr>st_name = ks_name k, st_title = ks_title k, st_disabled = Some (default False (ks_disabled k)),
      st_parameters = ks_parameters k, st_constraints = Some (map Some (ks_constraints k)),
      st_variants = Some (map variant_def.truncate (ks_variants k)), st_segments = ks_segments k, st_id = ks_id k\<rparr>"

definition mapFeatureForClient :: "client_feature \<Rightarrow> sdk_feature" where
  "mapFeatureForClient f =
     \<lparr>fe_name = kf_name f, fe_type = kf_type f, fe_description = kf_description f, fe_enabled = kf_enabled f,
      fe_stale = kf_stale f, fe_impressionData = kf_impressionData f,
      fe_strategies = Some (map map_strategy_for_client (kf_strategies f)),
      fe_variants = Some (map (\<lambda>v. (variant_def.truncate v)\<lparr>vd_overrides := Some (default [] (vd_overrides v))\<rparr>) (kf_variants f)),
      fe_dependencies = kf_dependencies f, sf_project = kf_project f\<rparr>"

definition mapFeaturesForClient :: "client_feature list \<Rightarrow> sdk_feature list" where
  "mapFeaturesForClient fs = map mapFeatureForClient fs"

definition mapSegmentsForClient :: "segment_row list \<Rightarrow> segment list" where
  "mapSegmentsForClient gs = map (\<lambda>g. \<lparr>seg_id = sw_id g, seg_name = sw_name g, seg_description = sw_description g,
     seg_constraints = Some (map Some (sw_constraints g))\<rparr>) gs"


section \<open>The read model\<close>

text \<open>All environments at once, and only those where the feature is on; the titles are not read.\<close>

definition read_model_rows :: "feature_db \<Rightarrow> client_row list" where
  "read_model_rows db =
     [\<lparr>jr_feature = f, jr_env = Some e, jr_strategy = s, jr_segment = g, jr_parent = d, jr_tag = None\<rparr>.
       f \<leftarrow> filter (filterByArchived False) (fd_features db),
       e \<leftarrow> filter (\<lambda>e. en_feature e = ft_name f \<and> en_enabled e) (fd_envs db),
       s \<leftarrow> partners (filter (\<lambda>s. sr_feature s = ft_name f \<and> sr_environment s = en_environment e) (fd_strategies db)),
       g \<leftarrow> strategy_segments db s,
       d \<leftarrow> partners (filter (\<lambda>d. dr_child d = ft_name f) (fd_dependencies db))]"

definition add_read_row :: "client_feature option \<Rightarrow> client_row \<Rightarrow> client_feature" where
  "add_read_row acc r =
     (let f = (case acc of None \<Rightarrow> (base_feature r None)\<lparr>kf_lastSeenAt := None\<rparr> | Some f \<Rightarrow> f);
          seen = kf_strategies f;
          strategies = (if isUnseenStrategyRow seen r \<and> \<not> sr_disabled (the (jr_strategy r))
                        then seen @ [(rowToStrategy (the (jr_strategy r)))\<lparr>ks_title := None\<rparr>] else seen)
      in f\<lparr>kf_dependencies := add_dependency r (kf_dependencies f), kf_strategies := add_segment False r strategies\<rparr>)"

text \<open>A name that objects inherit finds a function, which takes the row: nothing comes out for it.\<close>

definition own_key :: "string \<Rightarrow> bool" where
  "own_key n = (\<not> List.member inherited_names n \<and> n \<noteq> ''__proto__'')"

definition aggregate_row ::
  "(string \<times> (string \<times> client_feature) list) list \<Rightarrow> client_row \<Rightarrow> (string \<times> (string \<times> client_feature) list) list" where
  "aggregate_row acc r =
     (let env = en_environment (the (jr_env r)); n = ft_name (jr_feature r) in
      if \<not> own_key env then acc
      else (let fs = default [] (map_of acc env) in
        AList.update env (if own_key n then AList.update n (add_read_row (map_of fs n) r) fs else fs) acc))"

definition clean_read_feature :: "client_feature \<Rightarrow> client_feature" where
  "clean_read_feature f = f\<lparr>kf_strategies := map (\<lambda>k. k\<lparr>ks_id := None, ks_sortOrder := None\<rparr>) (sort_strategies (kf_strategies f))\<rparr>"

definition getAggregatedData :: "client_row list \<Rightarrow> (string \<times> (string \<times> client_feature) list) list" where
  "getAggregatedData rows = map (\<lambda>(env, fs). (env, map (\<lambda>(n, f). (n, clean_read_feature f)) fs)) (foldl aggregate_row [] rows)"

definition readModel_features :: "feature_db \<Rightarrow> (string \<times> (string \<times> client_feature) list) list" where
  "readModel_features db = getAggregatedData (read_model_rows db)"


section \<open>The cache of all features\<close>

datatype cache_state = Starting | Ready | Updated

record frontend_cache =
  gc_features :: "(string \<times> (string \<times> sdk_feature) list) list"
  gc_segments :: "segment list"
  gc_status :: cache_state

definition mapFeatures ::
  "(string \<times> (string \<times> client_feature) list) list \<Rightarrow> (string \<times> (string \<times> sdk_feature) list) list" where
  "mapFeatures fs = map (\<lambda>(env, xs). (env, map (\<lambda>(n, f). (n, mapFeatureForClient f)) xs)) fs"

definition new_cache :: frontend_cache where
  "new_cache = \<lparr>gc_features = [], gc_segments = [], gc_status = Starting\<rparr>"

definition refreshData :: "feature_db \<Rightarrow> frontend_cache \<Rightarrow> frontend_cache" where
  "refreshData db c = \<lparr>gc_features = mapFeatures (readModel_features db), gc_segments = mapSegmentsForClient (readModel_getAll db),
     gc_status = (if gc_status c = Starting then Ready else Updated)\<rparr>"

definition environmentNameForToken :: "api_user \<Rightarrow> string" where
  "environmentNameForToken t = (if au_environment t = ALL_ENVS then ''default'' else au_environment t)"

definition getTogglesByEnvironment :: "string \<Rightarrow> frontend_cache \<Rightarrow> (string \<times> sdk_feature) list" where
  "getTogglesByEnvironment env c = default [] (map_of (gc_features c) env)"

definition cache_getSegment :: "int \<Rightarrow> frontend_cache \<Rightarrow> segment option" where
  "cache_getSegment i c = find (\<lambda>s. seg_id s = i) (gc_segments c)"

text \<open>A single feature is found whatever its project is.\<close>

definition cache_getToggle :: "string \<Rightarrow> api_user \<Rightarrow> frontend_cache \<Rightarrow> sdk_feature option" where
  "cache_getToggle name t c = map_of (getTogglesByEnvironment (environmentNameForToken t) c) name"

definition filterTogglesByProjects :: "(string \<times> sdk_feature) list \<Rightarrow> string list \<Rightarrow> sdk_feature list" where
  "filterTogglesByProjects fs projects =
     (if List.member projects ''*'' then object_values fs
      else filter (\<lambda>f. sf_project f \<noteq> [] \<and> List.member projects (sf_project f)) (object_values fs))"

definition cache_getToggles :: "api_user \<Rightarrow> frontend_cache \<Rightarrow> sdk_feature list" where
  "cache_getToggles t c = filterTogglesByProjects (getTogglesByEnvironment (environmentNameForToken t) c) (au_projects t)"


section \<open>The repository of one token\<close>

record proxy_repository =
  pr_token :: api_user
  pr_features :: "sdk_feature list option"
  pr_segments :: "segment list"

definition token_query :: "api_user \<Rightarrow> feature_query" where
  "token_query t = no_query\<lparr>fq_project := Some (au_projects t), fq_environment := Some (environmentNameForToken t)\<rparr>"

text \<open>What cannot be loaded leaves what is there.\<close>

definition loadDataForToken :: "feature_db \<Rightarrow> proxy_repository \<Rightarrow> proxy_repository" where
  "loadDataForToken db r = (case featureService_getClientFeatures (token_query (pr_token r)) db of
       Inl e \<Rightarrow> r
     | Inr fs \<Rightarrow> r\<lparr>pr_features := Some (mapFeaturesForClient fs), pr_segments := mapSegmentsForClient (readModel_getAll db)\<rparr>)"

text \<open>Its timer reloads the repository of one token.\<close>

definition dataPolling :: "string \<Rightarrow> feature_db \<Rightarrow> (string \<times> proxy_repository) list \<Rightarrow> (string \<times> proxy_repository) list" where
  "dataPolling secret db cs = map (\<lambda>(k, r). (k, if k = secret then loadDataForToken db r else r)) cs"

definition proxy_getToggle :: "string \<Rightarrow> proxy_repository \<Rightarrow> sdk_feature option" where
  "proxy_getToggle name r = find (\<lambda>f. fe_name f = name) (default [] (pr_features r))"

definition proxy_getSegment :: "int \<Rightarrow> proxy_repository \<Rightarrow> segment option" where
  "proxy_getSegment i r = find (\<lambda>s. seg_id s = i) (pr_segments r)"


section \<open>The service\<close>

text \<open>The client SDK over a repository: what it lists, whether a feature is on, and its variant.\<close>

record sdk =
  sk_definitions :: "sdk_feature list \<Rightarrow> sdk_feature list"
  sk_isEnabled :: "(string \<Rightarrow> sdk_feature option) \<Rightarrow> (int \<Rightarrow> segment option) \<Rightarrow> string \<Rightarrow> eval_context \<Rightarrow> bool"
  sk_getVariant :: "(string \<Rightarrow> sdk_feature option) \<Rightarrow> (int \<Rightarrow> segment option) \<Rightarrow> string \<Rightarrow> eval_context \<Rightarrow> variant"

record frontend_feature =
  ff_name :: string
  ff_enabled :: bool
  ff_variant :: variant
  ff_impressionData :: bool

text \<open>The clients by the secret of their token; each keeps the token it was made for.\<close>

record frontend_service =
  fv_clients :: "(string \<times> proxy_repository) list"
  fv_newClients :: "(string \<times> api_user) list"
  fv_cache :: frontend_cache

definition with_session :: "string \<Rightarrow> eval_context \<Rightarrow> eval_context" where
  "with_session random c = c\<lparr>ctx_fields := (ctx_fields c)(''sessionId'' \<mapsto> or_else (sessionId c) random)\<rparr>"

definition evaluate_frontend ::
  "sdk \<Rightarrow> sdk_feature list \<Rightarrow> (string \<Rightarrow> sdk_feature option) \<Rightarrow> (int \<Rightarrow> segment option) \<Rightarrow> eval_context \<Rightarrow> frontend_feature list" where
  "evaluate_frontend k toggles getT getS c =
     map (\<lambda>f. \<lparr>ff_name = fe_name f, ff_enabled = fe_enabled f, ff_variant = sk_getVariant k getT getS (fe_name f) c,
               ff_impressionData = fe_impressionData f\<rparr>)
       (filter (\<lambda>f. sk_isEnabled k getT getS (fe_name f) c) (sk_definitions k toggles))"

definition assertExpectedTokenType :: "api_user \<Rightarrow> exn + unit" where
  "assertExpectedTokenType t = throw_if (\<not> (au_type t = token_FRONTEND \<or> au_type t = token_ADMIN)) (Api InvalidTokenError)"

definition clientForFrontendApiToken ::
  "api_user \<Rightarrow> feature_db \<Rightarrow> frontend_service \<Rightarrow> exn + proxy_repository \<times> frontend_service" where
  "clientForFrontendApiToken t db s =
     bindR (assertExpectedTokenType t) (\<lambda>_. case map_of (fv_clients s) (au_secret t) of
         Some r \<Rightarrow> Inr (r, s)
       | None \<Rightarrow> (let r = loadDataForToken db \<lparr>pr_token = t, pr_features = None, pr_segments = []\<rparr>
                  in Inr (r, s\<lparr>fv_clients := AList.update (au_secret t) r (fv_clients s)\<rparr>)))"

definition getFrontendApiFeatures ::
  "sdk \<Rightarrow> api_user \<Rightarrow> eval_context \<Rightarrow> string \<Rightarrow> feature_db \<Rightarrow> frontend_service \<Rightarrow> exn + frontend_feature list \<times> frontend_service" where
  "getFrontendApiFeatures k t c random db s =
     bindR (clientForFrontendApiToken t db s) (\<lambda>(r, s').
       Inr (evaluate_frontend k (default [] (pr_features r)) (\<lambda>n. proxy_getToggle n r) (\<lambda>i. proxy_getSegment i r)
              (with_session random c), s'))"

definition newClientForFrontendApiToken ::
  "api_user \<Rightarrow> frontend_service \<Rightarrow> exn + api_user \<times> frontend_service" where
  "newClientForFrontendApiToken t s =
     bindR (assertExpectedTokenType t) (\<lambda>_. case map_of (fv_newClients s) (au_secret t) of
         Some t' \<Rightarrow> Inr (t', s)
       | None \<Rightarrow> Inr (t, s\<lparr>fv_newClients := AList.update (au_secret t) t (fv_newClients s)\<rparr>))"

definition getNewFrontendApiFeatures ::
  "sdk \<Rightarrow> api_user \<Rightarrow> eval_context \<Rightarrow> string \<Rightarrow> frontend_service \<Rightarrow> exn + frontend_feature list \<times> frontend_service" where
  "getNewFrontendApiFeatures k t c random s =
     bindR (newClientForFrontendApiToken t s) (\<lambda>(t', s').
       let cache = fv_cache s' in
       Inr (evaluate_frontend k (cache_getToggles t' cache) (\<lambda>n. cache_getToggle n t' cache) (\<lambda>i. cache_getSegment i cache)
              (with_session random c), s'))"

text \<open>Only one of the two maps forgets the client.\<close>

definition deleteClientForFrontendApiToken :: "string \<Rightarrow> frontend_service \<Rightarrow> frontend_service" where
  "deleteClientForFrontendApiToken secret s = s\<lparr>fv_clients := AList.delete secret (fv_clients s)\<rparr>"

text \<open>A new revision reloads what every repository has.\<close>

definition onUpdateRevisionEvent :: "feature_db \<Rightarrow> frontend_service \<Rightarrow> frontend_service" where
  "onUpdateRevisionEvent db s = s\<lparr>fv_clients := map (\<lambda>(k, r). (k, loadDataForToken db r)) (fv_clients s),
     fv_cache := refreshData db (fv_cache s)\<rparr>"


section \<open>Requests\<close>

text \<open>\<open>createContext\<close>: of the parameters, the fields of a context that are set, and the rest as properties.\<close>

record url_context =
  uc_fields :: "string \<Rightarrow> string option"
  uc_properties :: "string \<Rightarrow> string option"

definition root_fields :: "string list" where
  "root_fields = [''appName'', ''environment'', ''userId'', ''sessionId'', ''remoteAddress'']"

definition createContext :: "url_context \<Rightarrow> eval_context" where
  "createContext v =
     \<lparr>ctx_fields = (\<lambda>k. if List.member root_fields k \<and> truthy (uc_fields v k) then uc_fields v k else None),
      ctx_properties = Some (\<lambda>k. case uc_properties v k of
          Some x \<Rightarrow> Some x
        | None \<Rightarrow> if List.member root_fields k \<or> k = ''properties'' then None else uc_fields v k)\<rparr>"

definition enrichContextWithIp :: "url_context \<Rightarrow> string \<Rightarrow> string \<Rightarrow> eval_context" where
  "enrichContextWithIp v ip random = createContext (v\<lparr>uc_fields := (uc_fields v)
     (''remoteAddress'' \<mapsto> or_else (uc_fields v ''remoteAddress'') ip,
      ''sessionId'' \<mapsto> or_else (uc_fields v ''sessionId'') random)\<rparr>)"

record frontend_flags =
  fl_embedProxy :: bool
  fl_globalFrontendApiCache :: bool
  fl_returnGlobalFrontendApiCache :: bool

text \<open>With the first of the two flags both are computed, compared for the log, and the old answer is given, by name.\<close>

definition frontend_api_getFeatures ::
  "feature_config \<Rightarrow> sdk \<Rightarrow> frontend_flags \<Rightarrow> api_user \<Rightarrow> url_context \<Rightarrow> string \<Rightarrow> string \<Rightarrow> feature_db \<Rightarrow> frontend_service \<Rightarrow>
   exn + frontend_feature list \<times> frontend_service" where
  "frontend_api_getFeatures cfg k flags t v ip random db s =
     (let c = enrichContextWithIp v ip random in
      if \<not> fl_embedProxy flags then Inl (Api (NotFoundError None))
      else if fl_globalFrontendApiCache flags
      then bindR (getFrontendApiFeatures k t c random db s) (\<lambda>(toggles, s1).
           bindR (getNewFrontendApiFeatures k t c random s1) (\<lambda>(_, s2).
             Inr (sort_key (\<lambda>f. fc_collate cfg (ff_name f)) toggles, s2)))
      else if fl_returnGlobalFrontendApiCache flags then getNewFrontendApiFeatures k t c random s
      else getFrontendApiFeatures k t c random db s)"

end
