(* ===== verification/Playground.thy ===== *)
theory Playground
  imports FrontendApi ProjectStore
begin

text \<open>
  The playground (\<open>features/playground\<close>): features of projects and environments evaluated for contexts, by the
  evaluator over a repository made for the purpose (\<open>offline-unleash-client.ts\<close>), the combinations of the values
  of a context (\<open>generateObjectCombinations.ts\<close>) and the answer (\<open>playground-view-model.ts\<close>).
\<close>

section \<open>Contexts\<close>

text \<open>The entries of a context, in the order of \<open>Object.entries\<close>: a field, or the object of properties.\<close>

datatype context_entry = Field string string | Properties "(string \<times> string) list"

definition entry_fields :: "context_entry \<Rightarrow> (string \<times> string) list" where
  "entry_fields e = (case e of Field k v \<Rightarrow> [(k, v)] | Properties ps \<Rightarrow> ps)"

definition splitByComma :: "context_entry list \<Rightarrow> (string \<times> string list) list" where
  "splitByComma es = foldl (\<lambda>acc (k, v). AList.update k (split_on (CHR '','') v) acc) [] (concat (map entry_fields es))"

definition generateCombinations :: "(string \<times> 'a list) list \<Rightarrow> (string \<times> 'a) list list" where
  "generateCombinations kvs =
     foldl (\<lambda>results (k, vs). concat (map (\<lambda>result. map (\<lambda>v. result @ [(k, v)]) vs) results)) [[]] kvs"

definition generateObjectCombinations :: "context_entry list \<Rightarrow> (string \<times> string) list list" where
  "generateObjectCombinations es = generateCombinations (splitByComma es)"

definition context_of :: "context_entry list \<Rightarrow> eval_context" where
  "context_of es =
     \<lparr>ctx_fields = map_of (List.map_filter (\<lambda>e. case e of Field k v \<Rightarrow> Some (k, v) | Properties _ \<Rightarrow> None) es),
      ctx_properties = (case List.map_filter (\<lambda>e. case e of Field _ _ \<Rightarrow> None | Properties ps \<Rightarrow> Some ps) es of
          [] \<Rightarrow> None | ps # _ \<Rightarrow> Some (map_of ps))\<rparr>"

definition flat_context :: "(string \<times> string) list \<Rightarrow> eval_context" where
  "flat_context kvs = \<lparr>ctx_fields = map_of kvs, ctx_properties = None\<rparr>"


section \<open>Evaluation\<close>

text \<open>\<open>validateQueryComplexity\<close>\<close>

definition validateQueryComplexity :: "nat \<Rightarrow> nat \<Rightarrow> nat \<Rightarrow> nat \<Rightarrow> exn + unit" where
  "validateQueryComplexity envs features contexts limit =
     (let total = envs * features * contexts in
      throw_if (limit < total) (Api (BadDataError (''Rejecting evaluation as it would generate '' @ show_nat total
        @ '' combinations exceeding '' @ show_nat limit
        @ '' limit. Please reduce the number of selected environments ('' @ show_nat envs @ ''), features (''
        @ show_nat features @ ''), context field combinations ('' @ show_nat contexts @ '').''))))"

definition offlineUnleashClient ::
  "client_feature list \<Rightarrow> segment_row list \<Rightarrow> eval_context \<Rightarrow> string + evaluator" where
  "offlineUnleashClient features segments ctx =
     bindR (new_evaluator (default [] (ctx_fields ctx ''appName'')) (ctx_fields ctx ''environment'') None None
       (Some \<lparr>bo_data = Some (map (\<lambda>f. feature.truncate (mapFeatureForClient f)) features),
              bo_segments = Some (mapSegmentsForClient segments)\<rparr>))
       (\<lambda>e. Inr (evaluator_start e))"

record playground_feature =
  pf_name :: string
  pf_isEnabled :: bool
  pf_isEnabledInCurrentEnvironment :: bool
  pf_hasUnsatisfiedDependency :: "bool option"
  pf_result :: verdict
  pf_strategies :: "evaluated_strategy list"
  pf_projectId :: "string option"
  pf_variant :: variant
  pf_variants :: "variant_def list"
  pf_environment :: string
  pf_context :: eval_context

text \<open>The object of an evaluation; \<open>None\<close>: the evaluator throws.\<close>

definition evaluate_feature ::
  "runtime \<Rightarrow> evaluator \<Rightarrow> client_feature list \<Rightarrow> string \<Rightarrow> eval_context \<Rightarrow> feature \<Rightarrow> nat \<Rightarrow> (playground_feature \<times> nat) option" where
  "evaluate_feature rt e features env ctx f n =
     (case evaluator_isEnabled rt e (fe_name f) ctx None n of
        None \<Rightarrow> None
      | Some (res, n1) \<Rightarrow>
         (let unsatisfied = fr_hasUnsatisfiedDependency res;
              on = (fr_result res = Known True \<and> fe_enabled f \<and> unsatisfied \<noteq> Some True);
              source = map_of (rev (map (\<lambda>k. (kf_name k, k)) features)) (fe_name f)
          in case (if on then evaluator_forceGetVariant rt e (fe_name f) (fr_result res, fr_variant res) ctx None n1
                   else Some (getDefaultVariant, n1)) of
               None \<Rightarrow> None
             | Some (v, n2) \<Rightarrow> Some
                 (\<lparr>pf_name = fe_name f, pf_isEnabled = on, pf_isEnabledInCurrentEnvironment = fe_enabled f,
                   pf_hasUnsatisfiedDependency = unsatisfied, pf_result = fr_result res, pf_strategies = fr_strategies res,
                   pf_projectId = map_option kf_project source, pf_variant = v\<lparr>vr_feature_enabled := Some on\<rparr>,
                   pf_variants = (case fr_variants res of
                       Some vs \<Rightarrow> vs
                     | None \<Rightarrow> (case source of None \<Rightarrow> [] | Some k \<Rightarrow> map variant_def.truncate (kf_variants k))),
                   pf_environment = env, pf_context = ctx\<rparr>, n2)))"

fun evaluate_features ::
  "runtime \<Rightarrow> evaluator \<Rightarrow> client_feature list \<Rightarrow> string \<Rightarrow> eval_context \<Rightarrow> feature list \<Rightarrow> nat \<Rightarrow>
   (playground_feature list \<times> nat) option" where
  "evaluate_features rt e ks env ctx [] n = Some ([], n)"
| "evaluate_features rt e ks env ctx (f # fs) n =
     (case evaluate_feature rt e ks env ctx f n of
        None \<Rightarrow> None
      | Some (r, n1) \<Rightarrow> (case evaluate_features rt e ks env ctx fs n1 of
            None \<Rightarrow> None | Some (rs, n2) \<Rightarrow> Some (r # rs, n2)))"

text \<open>The constructor of the client throws a string where a strategy has no name, which none of the built-in ones lacks.\<close>

definition playground_evaluate ::
  "runtime \<Rightarrow> client_feature list \<Rightarrow> segment_row list \<Rightarrow> eval_context \<Rightarrow> string \<Rightarrow> nat \<Rightarrow> (playground_feature list \<times> nat) option" where
  "playground_evaluate rt features segments ctx env n =
     (if features = [] then Some ([], n)
      else (case offlineUnleashClient features segments ctx of
          Inl _ \<Rightarrow> None
        | Inr e \<Rightarrow> evaluate_features rt e features env ctx (getFeatureToggleDefinitions e) n))"

definition resolveFeatures :: "string list option \<Rightarrow> string \<Rightarrow> feature_db \<Rightarrow> exn + client_feature list" where
  "resolveFeatures projects env = getPlaygroundFeatures (no_query\<lparr>fq_project := projects, fq_environment := Some env\<rparr>)"

definition evaluator_failed :: exn where
  "evaluator_failed = JsError ''TypeError'' ''Cannot read properties of undefined''"

definition answer_of :: "'a option \<Rightarrow> exn + 'a" where
  "answer_of x = (case x of None \<Rightarrow> Inl evaluator_failed | Some y \<Rightarrow> Inr y)"

definition evaluateQuery ::
  "runtime \<Rightarrow> string list option \<Rightarrow> string \<Rightarrow> context_entry list \<Rightarrow> feature_db \<Rightarrow> nat \<Rightarrow> exn + playground_feature list \<times> nat" where
  "evaluateQuery rt projects env es db n =
     bindR (resolveFeatures projects env db) (\<lambda>features.
       answer_of (playground_evaluate rt features (getActive db) (context_of es) env n))"

text \<open>\<open>None\<close> stands for all projects.\<close>

definition accessible_projects :: "project_access \<Rightarrow> string list option \<Rightarrow> string list option" where
  "accessible_projects access projects = (case access of
       AllProjects \<Rightarrow> projects
     | LimitedTo ps \<Rightarrow> (case projects of None \<Rightarrow> Some ps | Some wanted \<Rightarrow> Some (filter (List.member ps) wanted)))"

fun evaluate_all ::
  "runtime \<Rightarrow> (string \<times> client_feature list \<times> eval_context) list \<Rightarrow> segment_row list \<Rightarrow> nat \<Rightarrow> (playground_feature list \<times> nat) option" where
  "evaluate_all rt [] gs n = Some ([], n)"
| "evaluate_all rt ((env, fs, ctx) # jobs) gs n =
     (case playground_evaluate rt fs gs ctx env n of
        None \<Rightarrow> None
      | Some (rs, n1) \<Rightarrow> (case evaluate_all rt jobs gs n1 of None \<Rightarrow> None | Some (rss, n2) \<Rightarrow> Some (rs @ rss, n2)))"

text \<open>\<open>lodash.groupby\<close>\<close>

definition group_by :: "('a \<Rightarrow> string) \<Rightarrow> 'a list \<Rightarrow> (string \<times> 'a list) list" where
  "group_by key xs = foldl (\<lambda>acc x. AList.update (key x) (default [] (map_of acc (key x)) @ [x]) acc) [] xs"

definition object_entries :: "(string \<times> 'a) list \<Rightarrow> (string \<times> 'a) list" where
  "object_entries m = map (\<lambda>k. (k, the (map_of m k))) (object_keys m)"

record advanced_feature =
  af_name :: string
  af_projectId :: "string option"
  af_environments :: "(string \<times> playground_feature list) list"

definition advanced_feature_of :: "playground_feature list \<Rightarrow> advanced_feature" where
  "advanced_feature_of entries =
     \<lparr>af_name = pf_name (hd entries), af_projectId = pf_projectId (hd entries),
      af_environments = object_entries (group_by pf_environment entries)\<rparr>"

definition evaluateAdvancedQuery ::
  "runtime \<Rightarrow> feature_config \<Rightarrow> string list option \<Rightarrow> string list \<Rightarrow> context_entry list \<Rightarrow> nat \<Rightarrow> int \<Rightarrow> access_db \<Rightarrow> feature_db \<Rightarrow> nat \<Rightarrow>
   exn + advanced_feature list \<times> nat" where
  "evaluateAdvancedQuery rt cfg projects envs es limit uid adb db n =
     (let chosen = accessible_projects (getUserAccessibleProjects cfg uid adb db) projects;
          contexts = map flat_context (generateObjectCombinations es)
      in bindR (mapR (\<lambda>env. bindR (resolveFeatures chosen env db) (\<lambda>fs. Inr (env, fs))) envs) (\<lambda>found.
         bindR (validateQueryComplexity (length envs) (case found of [] \<Rightarrow> 0 | x # _ \<Rightarrow> length (snd x)) (length contexts) limit) (\<lambda>_.
         bindR (answer_of (evaluate_all rt [(env, fs, ctx). (env, fs) \<leftarrow> found, ctx \<leftarrow> contexts] (getActive db) n)) (\<lambda>(items, n').
           Inr (map advanced_feature_of (object_values (group_by pf_name items)), n')))))"


section \<open>The answer\<close>

record linked_strategy =
  ls_strategy :: evaluated_strategy
  ls_edit :: string

definition buildStrategyLink :: "string \<Rightarrow> string \<Rightarrow> string \<Rightarrow> string \<Rightarrow> string" where
  "buildStrategyLink project feature env sid =
     ''/projects/'' @ project @ ''/features/'' @ feature @ ''/strategies/edit?environmentId='' @ env @ ''&strategyId='' @ sid"

definition addStrategyEditLink :: "string \<Rightarrow> string \<Rightarrow> string \<Rightarrow> evaluated_strategy \<Rightarrow> linked_strategy" where
  "addStrategyEditLink env project feature s =
     \<lparr>ls_strategy = s, ls_edit = buildStrategyLink project feature env (es_id s)\<rparr>"

definition playgroundViewModel :: "string \<Rightarrow> playground_feature list \<Rightarrow> (playground_feature \<times> linked_strategy list) list" where
  "playgroundViewModel env fs =
     map (\<lambda>f. (f, map (addStrategyEditLink env (template (pf_projectId f)) (pf_name f)) (pf_strategies f))) fs"

definition advancedPlaygroundViewModel ::
  "advanced_feature list \<Rightarrow> (string \<times> (string \<times> (playground_feature \<times> linked_strategy list) list) list) list" where
  "advancedPlaygroundViewModel fs = map (\<lambda>f. (af_name f,
     map (\<lambda>(env, rs). (env, map (\<lambda>r. (r, map (addStrategyEditLink (pf_environment r) (template (pf_projectId r)) (pf_name r))
       (pf_strategies r))) rs)) (af_environments f))) fs"

end
