(* ===== verification/ClientFacts.thy ===== *)
theory ClientFacts
  imports Playground EvaluatorFacts FeatureInvariants
begin

text \<open>
  The folds of joined rows: what comes out for a feature depends on its own rows only, and is what the tables
  say of it.
\<close>

section \<open>Folding rows by key\<close>

definition fold_rows :: "('f option \<Rightarrow> 'r \<Rightarrow> 'f) \<Rightarrow> 'r list \<Rightarrow> 'f option" where
  "fold_rows add rs = foldl (\<lambda>x r. Some (add x r)) None rs"

lemma fold_rows_snoc [simp]: "fold_rows add (rs @ [r]) = Some (add (fold_rows add rs) r)"
  by (simp add: fold_rows_def)

lemma fold_rows_Nil [simp]: "fold_rows add [] = None"
  by (simp add: fold_rows_def)

lemma fold_rows_None: "fold_rows add rs = None \<longleftrightarrow> rs = []"
  by (cases rs rule: rev_cases) auto

lemma keyed_fold:
  "map_of (foldl (\<lambda>acc r. AList.update (key r) (add (map_of acc (key r)) r) acc) [] rs) n = fold_rows add (filter (\<lambda>r. key r = n) rs)"
  by (induction rs rule: rev_induct) (auto simp: update_conv)

lemma keyed_fold_keys:
  "fst ` set (foldl (\<lambda>acc r. AList.update (key r) (add (map_of acc (key r)) r) acc) [] rs) = key ` set rs"
  "distinct (map fst (foldl (\<lambda>acc r. AList.update (key r) (add (map_of acc (key r)) r) acc) [] rs))"
  by (induction rs rule: rev_induct) (auto simp: dom_update distinct_update)

definition row_name :: "client_row \<Rightarrow> string" where
  "row_name r = ft_name (jr_feature r)"

text \<open>Where no name is inherited, nothing fails.\<close>

lemma reduce_rows:
  assumes "\<And>r. r \<in> set rs \<Longrightarrow> row_name r \<notin> set inherited_names"
  shows "foldR (reduce_row add) acc rs =
    Inr (foldl (\<lambda>acc r. AList.update (row_name r) (add (map_of acc (row_name r)) r) acc) acc (filter (\<lambda>r. row_name r \<noteq> ''__proto__'') rs))"
  using assms by (induction rs arbitrary: acc) (auto simp: reduce_row_def row_name_def Let_def)

lemma reduce_fails:
  assumes "r \<in> set rs" "row_name r \<in> set inherited_names"
  shows "\<exists>n\<in>set inherited_names. foldR (reduce_row add) acc rs = Inl (read_only_name n)"
  using assms
proof (induction rs arbitrary: acc)
  case (Cons x xs)
  show ?case
  proof (cases "reduce_row add acc x")
    case (Inl e)
    then show ?thesis by (auto simp: reduce_row_def Let_def split: if_splits)
  next
    case (Inr acc')
    then have "row_name x \<notin> set inherited_names" by (auto simp: reduce_row_def row_name_def Let_def)
    then have "r \<in> set xs" using Cons.prems by auto
    then show ?thesis using Cons.IH [of acc'] Cons.prems(2) Inr by simp
  qed
qed simp

lemma partners_not_Nil [simp]: "partners xs \<noteq> []"
  by (simp add: partners_def)

lemma set_partners: "x \<in> set (partners xs) \<longleftrightarrow> (case x of None \<Rightarrow> xs = [] | Some y \<Rightarrow> y \<in> set xs)"
  by (auto simp: partners_def split: option.splits)

lemma strategy_segments_not_Nil [simp]: "strategy_segments db s \<noteq> []"
  by (simp add: strategy_segments_def Let_def)

text \<open>Every combination of what a feature has in an environment is a row.\<close>

lemma feature_rows_iff:
  "r \<in> set (feature_rows tags env db f) \<longleftrightarrow> jr_feature r = f \<and>
     jr_strategy r \<in> set (partners (filter (\<lambda>s. sr_feature s = ft_name f \<and> sr_environment s = env) (fd_strategies db))) \<and>
     jr_env r \<in> set (partners (filter (\<lambda>e. en_feature e = ft_name f \<and> en_environment e = env) (fd_envs db))) \<and>
     jr_segment r \<in> set (strategy_segments db (jr_strategy r)) \<and>
     jr_parent r \<in> set (partners (filter (\<lambda>d. dr_child d = ft_name f) (fd_dependencies db))) \<and>
     jr_tag r \<in> set (if tags then partners (filter (\<lambda>t. tg_feature t = ft_name f) (fd_tags db)) else [None])"
  by (cases r) (simp add: feature_rows_def image_iff, blast)

lemma feature_rows_not_Nil: "feature_rows tags env db f \<noteq> []"
  by (simp add: feature_rows_def concat_eq_Nil_conv ex_in_conv)

lemma rows_of_name:
  assumes "distinct (map ft_name fs)"
  shows "filter (\<lambda>r. row_name r = n) (concat (map (feature_rows tags env db) fs)) =
    (case find (\<lambda>f. ft_name f = n) fs of None \<Rightarrow> [] | Some f \<Rightarrow> feature_rows tags env db f)"
  using assms
proof (induction fs)
  case (Cons f fs)
  have own: "row_name r = ft_name f" if "r \<in> set (feature_rows tags env db f)" for r f
    using that by (simp add: feature_rows_iff row_name_def)
  have "filter (\<lambda>r. row_name r = n) (feature_rows tags env db f) = (if ft_name f = n then feature_rows tags env db f else [])"
    by (auto simp: filter_id_conv filter_empty_conv own)
  moreover have "find (\<lambda>f. ft_name f = n) fs = None" if "ft_name f = n"
    using Cons.prems that by (force simp: find_None_iff image_iff)
  ultimately show ?case using Cons by auto
qed simp

lemma set_object_values:
  "distinct (map fst m) \<Longrightarrow> set (object_values m) = snd ` set m"
  by (force simp: object_values_def List.map_filter_def set_object_keys)


section \<open>The strategies of a fold\<close>

text \<open>
  The three folds treat strategies alike, but for which ones are taken and what is kept of them.
\<close>

definition add_strategy_row ::
  "(strategy_row \<Rightarrow> bool) \<Rightarrow> (strategy_row \<Rightarrow> client_strategy) \<Rightarrow> client_strategy list \<Rightarrow> client_row \<Rightarrow> client_strategy list" where
  "add_strategy_row incl mk seen r = add_segment False r
     (if isUnseenStrategyRow seen r \<and> incl (the (jr_strategy r)) then seen @ [mk (the (jr_strategy r))] else seen)"

definition included :: "(strategy_row \<Rightarrow> bool) \<Rightarrow> client_row list \<Rightarrow> strategy_row set" where
  "included incl rs = {s. incl s \<and> (\<exists>r\<in>set rs. jr_strategy r = Some s)}"

definition segment_ids :: "client_row list \<Rightarrow> strategy_row \<Rightarrow> int set" where
  "segment_ids rs s = {sw_id g | r g. r \<in> set rs \<and> jr_strategy r = Some s \<and> row_segment r = Some g}"

text \<open>Ids identify strategies, as a primary key does, and are not empty.\<close>

definition rows_identified :: "client_row list \<Rightarrow> bool" where
  "rows_identified rs = (\<forall>r\<in>set rs. \<forall>s. jr_strategy r = Some s \<longrightarrow> sr_id s \<noteq> [] \<and>
     (\<forall>r'\<in>set rs. \<forall>s'. jr_strategy r' = Some s' \<longrightarrow> sr_id s' = sr_id s \<longrightarrow> s' = s))"

definition strategies_of_rows ::
  "(strategy_row \<Rightarrow> bool) \<Rightarrow> (strategy_row \<Rightarrow> client_strategy) \<Rightarrow> client_row list \<Rightarrow> client_strategy list \<Rightarrow> bool" where
  "strategies_of_rows incl mk rs ks = (distinct (map ks_id ks) \<and>
     (\<forall>k\<in>set ks. \<exists>s\<in>included incl rs. k = (mk s)\<lparr>ks_segments := ks_segments k\<rparr> \<and>
        set (default [] (ks_segments k)) = segment_ids rs s) \<and>
     (\<forall>s\<in>included incl rs. \<exists>k\<in>set ks. ks_id k = Some (sr_id s)))"

lemma update_first_map:
  "distinct (map ks_id ks) \<Longrightarrow> update_first (\<lambda>k. ks_id k = i) f ks = map (\<lambda>k. if ks_id k = i then f k else k) ks"
  by (induction ks) (auto intro!: map_idI [symmetric] simp: image_iff)

lemma add_segment_map:
  assumes "distinct (map ks_id ks)"
  shows "add_segment False r ks = (case row_segment r of None \<Rightarrow> ks
    | Some g \<Rightarrow> map (\<lambda>k. if ks_id k = map_option sr_id (jr_strategy r)
        then k\<lparr>ks_segments := Some (default [] (ks_segments k) @ [sw_id g])\<rparr> else k) ks)"
  unfolding add_segment_def addSegmentIdsToStrategy_def same_strategy_def
  by (simp add: update_first_map [OF assms] split: option.split)

lemma segment_ids_snoc:
  "segment_ids (rs @ [r]) s = segment_ids rs s \<union> (if jr_strategy r = Some s then sw_id ` set_option (row_segment r) else {})"
  by (auto simp: segment_ids_def)

lemma included_iff:
  "s \<in> included incl rs \<longleftrightarrow> incl s \<and> (\<exists>r\<in>set rs. jr_strategy r = Some s)"
  unfolding included_def mem_Collect_eq ..

lemma included_snoc:
  "s \<in> included incl (rs @ [r]) \<longleftrightarrow> s \<in> included incl rs \<or> jr_strategy r = Some s \<and> incl s"
  unfolding included_iff set_append Un_iff bex_Un list.set bex_simps by blast

lemma rows_identified_snoc: "rows_identified (rs @ [r]) \<Longrightarrow> rows_identified rs"
  unfolding rows_identified_def set_append Un_iff by blast

lemma rows_identified_iff:
  "rows_identified rs \<longleftrightarrow> (\<forall>x\<in>jr_strategy ` set rs. \<forall>s. x = Some s \<longrightarrow> sr_id s \<noteq> [] \<and>
     (\<forall>y\<in>jr_strategy ` set rs. \<forall>s'. y = Some s' \<longrightarrow> sr_id s' = sr_id s \<longrightarrow> s' = s))"
  unfolding rows_identified_def ball_simps ..

lemma segment_step:
  assumes of_rows: "strategies_of_rows incl mk rs ks" and ident: "rows_identified (rs @ [r])"
    and mk: "\<And>s. ks_id (mk s) = Some (sr_id s)"
    and seen: "\<And>s. jr_strategy r = Some s \<Longrightarrow> incl s \<Longrightarrow> s \<in> included incl rs"
  shows "strategies_of_rows incl mk (rs @ [r]) (add_segment False r ks)"
proof -
  let ?f = "\<lambda>k. case row_segment r of None \<Rightarrow> k | Some g \<Rightarrow> if ks_id k = map_option sr_id (jr_strategy r)
    then k\<lparr>ks_segments := Some (default [] (ks_segments k) @ [sw_id g])\<rparr> else k"
  have d: "distinct (map ks_id ks)" using of_rows by (simp add: strategies_of_rows_def)
  have eq: "add_segment False r ks = map ?f ks"
    unfolding add_segment_map [OF d] by (auto split: option.split)
  have inc: "included incl (rs @ [r]) = included incl rs" by (rule set_eqI) (use seen in \<open>simp only: included_snoc; blast\<close>)
  have id: "ks_id (?f k) = ks_id k" for k by (simp split: option.split)
  have "\<exists>s\<in>included incl rs. ?f k = (mk s)\<lparr>ks_segments := ks_segments (?f k)\<rparr> \<and> set (default [] (ks_segments (?f k))) = segment_ids (rs @ [r]) s"
    if k: "k \<in> set ks" for k
  proof -
    obtain s where s: "s \<in> included incl rs" "k = (mk s)\<lparr>ks_segments := ks_segments k\<rparr>" "set (default [] (ks_segments k)) = segment_ids rs s"
      using of_rows k unfolding strategies_of_rows_def by blast
    have ids: "ks_id k = Some (sr_id s)" by (subst s(2)) (simp add: mk)
    have same: "ks_id k = map_option sr_id (jr_strategy r) \<longleftrightarrow> jr_strategy r = Some s"
    proof
      assume "ks_id k = map_option sr_id (jr_strategy r)"
      then obtain s' where s': "jr_strategy r = Some s'" "sr_id s' = sr_id s" using ids by (cases "jr_strategy r") auto
      obtain r0 where "r0 \<in> set rs" "jr_strategy r0 = Some s" using s(1) by (auto simp: included_iff)
      then have "s' = s" using ident s' unfolding rows_identified_def by (metis UnCI list.set_intros(1) set_append)
      with s' show "jr_strategy r = Some s" by simp
    qed (simp add: ids)
    obtain x where x: "k = (mk s)\<lparr>ks_segments := x\<rparr>" using s(2) by blast
    have "?f k = (mk s)\<lparr>ks_segments := ks_segments (?f k)\<rparr>"
      unfolding x by (simp split: option.split)
    moreover have "set (default [] (ks_segments (?f k))) = segment_ids (rs @ [r]) s"
    proof (cases "row_segment r")
      case None
      then show ?thesis using s(3) by (simp add: segment_ids_snoc)
    next
      case (Some g)
      then show ?thesis using s(3) by (cases "jr_strategy r = Some s") (simp_all add: segment_ids_snoc ids same [unfolded ids])
    qed
    ultimately show ?thesis using s(1) by blast
  qed
  moreover have "\<exists>k\<in>set ks. ks_id (?f k) = Some (sr_id s)" if "s \<in> included incl rs" for s
    using of_rows that unfolding strategies_of_rows_def id by blast
  moreover have "distinct (map ks_id (map ?f ks))" using d by (simp add: comp_def id)
  ultimately show ?thesis unfolding strategies_of_rows_def eq inc by auto
qed

lemma strategies_fold:
  assumes "rows_identified rs" and mk: "\<And>s. ks_id (mk s) = Some (sr_id s)" "\<And>s. ks_segments (mk s) = None"
  shows "strategies_of_rows incl mk rs (foldl (add_strategy_row incl mk) [] rs)"
  using assms(1)
proof (induction rs rule: rev_induct)
  case Nil
  then show ?case by (simp add: strategies_of_rows_def included_def)
next
  case (snoc r rs)
  let ?ks = "foldl (add_strategy_row incl mk) [] rs"
  have IH: "strategies_of_rows incl mk rs ?ks" by (rule snoc.IH [OF rows_identified_snoc [OF snoc.prems]])
  show ?case
  proof (cases "isUnseenStrategyRow ?ks r \<and> incl (the (jr_strategy r))")
    case False
    have "s \<in> included incl rs" if s: "jr_strategy r = Some s" "incl s" for s
    proof -
      have "sr_id s \<noteq> []" using snoc.prems s(1) by (simp add: rows_identified_def)
      with False s obtain k where k: "k \<in> set ?ks" "ks_id k = Some (sr_id s)"
        by (auto simp: isUnseenStrategyRow_def list_ex_iff)
      then obtain s' where s': "s' \<in> included incl rs" "k = (mk s')\<lparr>ks_segments := ks_segments k\<rparr>"
        using IH unfolding strategies_of_rows_def by blast
      then have "ks_id k = Some (sr_id s')" by (metis mk(1) client_strategy.select_convs(2) client_strategy.surjective client_strategy.update_convs(8))
      then have "sr_id s' = sr_id s" using k by simp
      moreover obtain r0 where "r0 \<in> set rs" "jr_strategy r0 = Some s'" using s'(1) by (auto simp: included_iff)
      ultimately have "s' = s" using snoc.prems s(1) unfolding rows_identified_def
        by (metis UnCI list.set_intros(1) set_append)
      with s' show ?thesis by simp
    qed
    from segment_step [OF IH snoc.prems mk(1) this] show ?thesis
      using False by (simp only: foldl_append foldl.simps add_strategy_row_def [where seen = ?ks] if_False)
  next
    case True
    then obtain s where s: "jr_strategy r = Some s" "incl s" by (auto simp: isUnseenStrategyRow_def split: option.splits)
    have new: "Some (sr_id s) \<notin> ks_id ` set ?ks" using True s by (auto simp: isUnseenStrategyRow_def list_ex_iff)
    let ?r = "r\<lparr>jr_segment := None\<rparr>"
    have none: "segment_ids rs s = {}"
    proof -
      have "s \<notin> included incl rs" using IH new by (force simp: strategies_of_rows_def)
      then show ?thesis using s(2) by (auto simp: segment_ids_def included_iff)
    qed
    have ids: "segment_ids (rs @ [?r]) s' = segment_ids rs s'" for s' by (auto simp: segment_ids_snoc row_segment_def)
    have own: "jr_strategy ?r = Some s" using s by simp
    have inc: "included incl (rs @ [?r]) = insert s (included incl rs)"
      unfolding set_eq_iff included_snoc insert_iff own option.inject using s(2) by blast
    have mid: "strategies_of_rows incl mk (rs @ [?r]) (?ks @ [mk s])"
      using IH new none mk unfolding strategies_of_rows_def inc ids by auto
    have ident: "rows_identified ((rs @ [?r]) @ [r])"
    proof -
      have "jr_strategy ` set ((rs @ [?r]) @ [r]) = jr_strategy ` set (rs @ [r])" using own s(1) by simp
      then show ?thesis using snoc.prems by (simp only: rows_identified_iff)
    qed
    have both: "included incl ((rs @ [?r]) @ [r]) = included incl (rs @ [r])"
      unfolding set_eq_iff included_snoc own s(1) by blast
    have joined: "segment_ids ((rs @ [?r]) @ [r]) = segment_ids (rs @ [r])"
      by (rule ext) (simp only: segment_ids_snoc [of "rs @ [?r]"] ids segment_ids_snoc [of rs r])
    have "strategies_of_rows incl mk ((rs @ [?r]) @ [r]) (add_segment False r (?ks @ [mk s]))"
      by (rule segment_step [OF mid ident mk(1)]) (use s in \<open>simp add: inc\<close>)
    then have "strategies_of_rows incl mk (rs @ [r]) (add_segment False r (?ks @ [mk s]))"
      unfolding strategies_of_rows_def both joined .
    moreover have "the (jr_strategy r) = s" using s by simp
    ultimately show ?thesis
      using True by (simp only: foldl_append foldl.simps add_strategy_row_def [where seen = ?ks] if_True simp_thms)
  qed
qed


section \<open>What rows are converted to\<close>

definition base_of :: "client_feature \<Rightarrow> client_feature" where
  "base_of k = k\<lparr>kf_strategies := [], kf_dependencies := None, kf_createdAt := None, kf_tags := None\<rparr>"

definition parents_of :: "client_row list \<Rightarrow> dependency set" where
  "parents_of rs = client_dependency ` {d. dr_parent d \<noteq> [] \<and> Some d \<in> jr_parent ` set rs}"

text \<open>
  What the three folds share: a row brings its strategy and its parent, and the rest of the feature is that of
  some row.
\<close>

locale row_converter =
  fixes add :: "client_feature option \<Rightarrow> client_row \<Rightarrow> client_feature"
    and incl :: "strategy_row \<Rightarrow> bool"
    and mk :: "strategy_row \<Rightarrow> client_strategy"
    and seed :: "client_row \<Rightarrow> client_feature"
  assumes strategies_step: "kf_strategies (add acc r) = add_strategy_row incl mk (case acc of None \<Rightarrow> [] | Some k \<Rightarrow> kf_strategies k) r"
    and dependencies_step: "kf_dependencies (add acc r) = add_dependency r (Option.bind acc kf_dependencies)"
    and base_first: "base_of (add None r) = seed r"
    and base_more: "base_of (add (Some k) r) = seed r \<or> base_of (add (Some k) r) = base_of k"
    and made_id: "ks_id (mk s) = Some (sr_id s)"
    and made_new: "ks_segments (mk s) = None"
begin

lemma converted_strategies:
  "(case fold_rows add rs of None \<Rightarrow> [] | Some k \<Rightarrow> kf_strategies k) = foldl (add_strategy_row incl mk) [] rs"
  by (induction rs rule: rev_induct) (simp_all add: strategies_step)

lemma converted_dependencies:
  "set (default [] (Option.bind (fold_rows add rs) kf_dependencies)) = parents_of rs"
proof (induction rs rule: rev_induct)
  case (snoc r rs)
  have "parents_of (rs @ [r]) = parents_of rs \<union> (case jr_parent r of None \<Rightarrow> {} | Some d \<Rightarrow> if dr_parent d = [] then {} else {client_dependency d})"
    by (cases "jr_parent r") (auto simp: parents_of_def)
  then show ?case using snoc by (simp add: dependencies_step add_dependency_def split: option.split)
qed (simp add: parents_of_def)

lemma converted_base: "fold_rows add rs = Some k \<Longrightarrow> base_of k \<in> seed ` set rs"
proof (induction rs arbitrary: k rule: rev_induct)
  case (snoc r rs)
  then show ?case using base_more [of _ r] by (cases "fold_rows add rs") (auto simp: base_first, force)
qed simp

lemma converted:
  assumes "rows_identified rs" "fold_rows add rs = Some k"
  shows "strategies_of_rows incl mk rs (kf_strategies k)" "set (default [] (kf_dependencies k)) = parents_of rs"
    "base_of k \<in> seed ` set rs"
  using strategies_fold [OF assms(1), of mk incl] converted_strategies [of rs] converted_dependencies [of rs]
    converted_base [OF assms(2)] assms(2) by (simp_all add: made_id made_new)

end

lemma add_strategy_row_eq:
  "add_strategy_row incl mk seen r = add_segment False r
     (if isUnseenStrategyRow seen r \<and> incl (the (jr_strategy r)) then seen @ [mk (the (jr_strategy r))] else seen)"
  by (simp add: add_strategy_row_def)

definition enabled_only :: "strategy_row \<Rightarrow> bool" where
  "enabled_only s = (\<not> sr_disabled s)"

definition any_strategy :: "strategy_row \<Rightarrow> bool" where
  "any_strategy s = True"

interpretation client_rows: row_converter "add_client_row ClientRequest False" enabled_only rowToStrategy "\<lambda>r. base_feature r None"
  by unfold_locales (simp_all add: add_client_row_def base_feature_def Let_def add_strategy_row_eq rowToStrategy_def enabled_only_def
      base_of_def)

interpretation frontend_rows: row_converter "add_client_row FrontendRequest False" enabled_only rowToStrategy "\<lambda>r. base_feature r None"
  by unfold_locales (simp_all add: add_client_row_def base_feature_def Let_def add_strategy_row_eq rowToStrategy_def enabled_only_def
      base_of_def)

interpretation playground_rows: row_converter "add_playground_row False" any_strategy
    "\<lambda>s. (rowToStrategy s)\<lparr>ks_disabled := Some (sr_disabled s)\<rparr>" "\<lambda>r. base_feature r None"
  by unfold_locales (simp_all add: add_playground_row_def base_feature_def Let_def add_strategy_row_eq rowToStrategy_def any_strategy_def
      base_of_def)

interpretation read_rows: row_converter add_read_row enabled_only "\<lambda>s. (rowToStrategy s)\<lparr>ks_title := None\<rparr>"
    "\<lambda>r. (base_feature r None)\<lparr>kf_lastSeenAt := None\<rparr>"
  by unfold_locales (simp_all add: add_read_row_def base_feature_def Let_def add_strategy_row_eq rowToStrategy_def enabled_only_def
      base_of_def split: option.split)


section \<open>What the tables say\<close>

text \<open>What the primary keys and the sequences of the tables give, beside the invariant.\<close>

definition keys_ok :: "feature_db \<Rightarrow> bool" where
  "keys_ok db = (feature_db_ok db \<and> distinct (map sr_id (fd_strategies db)) \<and> list_all (\<lambda>s. sr_id s \<noteq> []) (fd_strategies db) \<and>
     list_all (\<lambda>g. sw_id g \<noteq> 0) (fd_segments db) \<and> list_all (\<lambda>d. dr_parent d \<noteq> []) (fd_dependencies db))"

definition strategies_in :: "(strategy_row \<Rightarrow> bool) \<Rightarrow> string \<Rightarrow> feature_db \<Rightarrow> string \<Rightarrow> strategy_row set" where
  "strategies_in incl env db n = {s \<in> set (fd_strategies db). sr_feature s = n \<and> sr_environment s = env \<and> incl s}"

definition segments_of :: "feature_db \<Rightarrow> strategy_row \<Rightarrow> int set" where
  "segments_of db s = {i. (sr_id s, i) \<in> set (fd_strategy_segments db)}"

definition on_in :: "string \<Rightarrow> feature_db \<Rightarrow> string \<Rightarrow> bool" where
  "on_in env db n = list_ex (\<lambda>e. en_feature e = n \<and> en_environment e = env \<and> en_enabled e) (fd_envs db)"

text \<open>Whether a strategy is disabled is told by the playground only.\<close>

abbreviation not_told :: "strategy_row \<Rightarrow> bool option" where
  "not_told \<equiv> \<lambda>_. None"

definition strategy_serves :: "(strategy_row \<Rightarrow> bool option) \<Rightarrow> feature_db \<Rightarrow> client_strategy \<Rightarrow> strategy_row \<Rightarrow> bool" where
  "strategy_serves dis db k s = (ks_name k = sr_name s \<and> ks_disabled k = dis s \<and> ks_parameters k = sr_parameters s \<and> ks_constraints k = sr_constraints s \<and>
     ks_variants k = sr_variants s \<and> set (default [] (ks_segments k)) = segments_of db s)"

definition strategies_served :: "(strategy_row \<Rightarrow> bool option) \<Rightarrow> (strategy_row \<Rightarrow> bool) \<Rightarrow> string \<Rightarrow> feature_db \<Rightarrow> string \<Rightarrow> client_strategy list \<Rightarrow> bool" where
  "strategies_served dis incl env db n ks = (\<exists>ss. distinct ss \<and> set ss = strategies_in incl env db n \<and>
     sorted (map sr_sort_order ss) \<and> list_all2 (strategy_serves dis db) ks ss)"

definition served :: "(strategy_row \<Rightarrow> bool option) \<Rightarrow> (strategy_row \<Rightarrow> bool) \<Rightarrow> string \<Rightarrow> feature_db \<Rightarrow> feature_row \<Rightarrow> client_feature \<Rightarrow> bool" where
  "served dis incl env db f k = (kf_name k = ft_name f \<and> kf_type k = ft_type f \<and> kf_description k = ft_description f \<and>
     kf_project k = ft_project f \<and> kf_stale k = ft_stale f \<and> kf_impressionData k = ft_impression_data f \<and>
     kf_enabled k = on_in env db (ft_name f) \<and> strategies_served dis incl env db (ft_name f) (kf_strategies k) \<and>
     set (default [] (kf_dependencies k)) = client_dependency ` {d \<in> set (fd_dependencies db). dr_child d = ft_name f})"

text \<open>The rows of one feature in one environment, in any order.\<close>

definition rows_in :: "string \<Rightarrow> feature_db \<Rightarrow> feature_row \<Rightarrow> client_row list \<Rightarrow> bool" where
  "rows_in env db f rs = (set rs = set (feature_rows False env db f))"

lemma feature_row_ex:
  assumes "s \<in> set (partners (filter (\<lambda>s. sr_feature s = ft_name f \<and> sr_environment s = env) (fd_strategies db)))"
    and "g \<in> set (strategy_segments db s)"
  obtains r where "r \<in> set (feature_rows tags env db f)" "jr_strategy r = s" "jr_segment r = g"
proof -
  obtain e where e: "e \<in> set (partners (filter (\<lambda>e. en_feature e = ft_name f \<and> en_environment e = env) (fd_envs db)))"
    using partners_not_Nil by (meson ex_in_conv set_empty)
  obtain d where d: "d \<in> set (partners (filter (\<lambda>d. dr_child d = ft_name f) (fd_dependencies db)))"
    using partners_not_Nil by (meson ex_in_conv set_empty)
  have "(if tags then partners (filter (\<lambda>t. tg_feature t = ft_name f) (fd_tags db)) else [None]) \<noteq> []" by simp
  then obtain t where t: "t \<in> set (if tags then partners (filter (\<lambda>t. tg_feature t = ft_name f) (fd_tags db)) else [None])"
    using list.set_sel(1) by blast
  let ?r = "\<lparr>jr_feature = f, jr_env = e, jr_strategy = s, jr_segment = g, jr_parent = d, jr_tag = t\<rparr>"
  have "?r \<in> set (feature_rows tags env db f)" using assms e d t by (simp add: feature_rows_iff)
  then show thesis by (rule that) simp_all
qed

lemma rows_strategies:
  assumes "rows_in env db f rs"
  shows "included incl rs = strategies_in incl env db (ft_name f)"
proof (rule set_eqI)
  fix s
  have "(\<exists>r\<in>set (feature_rows False env db f). jr_strategy r = Some s) \<longleftrightarrow>
      s \<in> set (fd_strategies db) \<and> sr_feature s = ft_name f \<and> sr_environment s = env" (is "?l \<longleftrightarrow> ?r")
  proof
    assume ?l
    then show ?r by (auto simp: feature_rows_iff set_partners)
  next
    assume ?r
    then have "Some s \<in> set (partners (filter (\<lambda>s. sr_feature s = ft_name f \<and> sr_environment s = env) (fd_strategies db)))"
      by (simp add: set_partners)
    moreover obtain g where "g \<in> set (strategy_segments db (Some s))" using strategy_segments_not_Nil by (meson ex_in_conv set_empty)
    ultimately show ?l by (rule feature_row_ex) blast
  qed
  then show "s \<in> included incl rs \<longleftrightarrow> s \<in> strategies_in incl env db (ft_name f)"
    using assms unfolding included_iff rows_in_def strategies_in_def mem_Collect_eq by blast
qed

lemma rows_in_identified:
  assumes "rows_in env db f rs" "keys_ok db"
  shows "rows_identified rs"
proof -
  have "s \<in> set (fd_strategies db)" if "r \<in> set rs" "jr_strategy r = Some s" for r s
    using that assms(1) by (auto simp: rows_in_def feature_rows_iff set_partners)
  moreover have "sr_id s \<noteq> []" if "s \<in> set (fd_strategies db)" for s using assms(2) that by (simp add: keys_ok_def list_all_iff)
  moreover have "s' = s" if "s \<in> set (fd_strategies db)" "s' \<in> set (fd_strategies db)" "sr_id s' = sr_id s" for s s'
    using assms(2) that by (simp add: keys_ok_def distinct_map inj_on_def)
  ultimately show ?thesis unfolding rows_identified_def by blast
qed

lemma rows_segments:
  assumes "rows_in env db f rs" "keys_ok db" "s \<in> strategies_in incl env db (ft_name f)"
  shows "segment_ids rs s = segments_of db s"
proof -
  have links: "links_ok db" using assms(2) by (simp add: keys_ok_def feature_db_ok_def)
  have "i \<in> segment_ids rs s" if i: "(sr_id s, i) \<in> set (fd_strategy_segments db)" for i
  proof -
    have "i \<in> sw_id ` set (fd_segments db)" using links i unfolding links_ok_def by force
    then have "\<exists>g\<in>set (fd_segments db). sw_id g = i" by blast
    then have "find (\<lambda>g. sw_id g = i) (fd_segments db) \<noteq> None" unfolding find_None_iff by blast
    then obtain g where g: "find (\<lambda>g. sw_id g = i) (fd_segments db) = Some g" by auto
    then have gi: "sw_id g = i" "g \<in> set (fd_segments db)" by (auto dest: find_Some_in)
    from i g have linked: "Some g \<in> set (strategy_segments db (Some s))"
      by (force simp: strategy_segments_def Let_def filter_empty_conv image_iff)
    have "Some s \<in> set (partners (filter (\<lambda>s. sr_feature s = ft_name f \<and> sr_environment s = env) (fd_strategies db)))"
      using assms(3) by (simp add: set_partners strategies_in_def)
    then obtain r where "r \<in> set (feature_rows False env db f)" "jr_strategy r = Some s" "jr_segment r = Some g"
      using linked by (rule feature_row_ex)
    moreover have "sw_id g \<noteq> 0" using assms(2) gi(2) by (simp add: keys_ok_def list_all_iff)
    ultimately show ?thesis using assms(1) gi(1) unfolding segment_ids_def rows_in_def row_segment_def by fastforce
  qed
  moreover have "(sr_id s, sw_id g) \<in> set (fd_strategy_segments db)"
    if r: "r \<in> set rs" "jr_strategy r = Some s" "row_segment r = Some g" for r g
  proof -
    have "jr_segment r \<in> set (strategy_segments db (Some s))" "jr_segment r = Some g"
      using r assms(1) by (auto simp: rows_in_def feature_rows_iff row_segment_def split: option.splits if_splits)
    then show ?thesis by (auto simp: strategy_segments_def Let_def split: if_splits dest: find_Some_in [OF sym])
  qed
  ultimately show ?thesis unfolding segment_ids_def segments_of_def by blast
qed

lemma rows_parents:
  assumes "rows_in env db f rs" "keys_ok db"
  shows "parents_of rs = client_dependency ` {d \<in> set (fd_dependencies db). dr_child d = ft_name f}"
proof -
  have "Some d \<in> jr_parent ` set (feature_rows False env db f) \<longleftrightarrow> d \<in> set (fd_dependencies db) \<and> dr_child d = ft_name f" for d
  proof
    assume "Some d \<in> jr_parent ` set (feature_rows False env db f)"
    then obtain r where "r \<in> set (feature_rows False env db f)" "jr_parent r = Some d" by (metis imageE)
    then show "d \<in> set (fd_dependencies db) \<and> dr_child d = ft_name f" by (simp add: feature_rows_iff set_partners)
  next
    assume d: "d \<in> set (fd_dependencies db) \<and> dr_child d = ft_name f"
    obtain r where r: "r \<in> set (feature_rows False env db f)" using feature_rows_not_Nil by (meson ex_in_conv set_empty)
    have "r\<lparr>jr_parent := Some d\<rparr> \<in> set (feature_rows False env db f)" using r d by (simp add: feature_rows_iff set_partners)
    then show "Some d \<in> jr_parent ` set (feature_rows False env db f)" by force
  qed
  moreover have "dr_parent d \<noteq> []" if "d \<in> set (fd_dependencies db)" for d using assms(2) that by (simp add: keys_ok_def list_all_iff)
  ultimately show ?thesis using assms(1) unfolding parents_of_def rows_in_def by (intro arg_cong [where f = "image client_dependency"]) auto
qed

lemma rows_enabled:
  assumes "rows_in env db f rs" "keys_ok db" "r \<in> set rs"
  shows "(case jr_env r of None \<Rightarrow> False | Some e \<Rightarrow> en_enabled e) = on_in env db (ft_name f)" "jr_feature r = f"
proof -
  have r: "jr_feature r = f" "jr_env r \<in> set (partners (filter (\<lambda>e. en_feature e = ft_name f \<and> en_environment e = env) (fd_envs db)))"
    using assms by (simp_all add: rows_in_def feature_rows_iff)
  have unique: "e = e'" if "e \<in> set (fd_envs db)" "e' \<in> set (fd_envs db)" "en_feature e = en_feature e'" "en_environment e = en_environment e'" for e e'
    using assms(2) that by (simp add: keys_ok_def feature_db_ok_def envs_ok_def distinct_map inj_on_def en_key_def)
  show "(case jr_env r of None \<Rightarrow> False | Some e \<Rightarrow> en_enabled e) = on_in env db (ft_name f)"
  proof (cases "jr_env r")
    case None
    then show ?thesis using r by (auto simp: set_partners on_in_def list_ex_iff filter_empty_conv)
  next
    case (Some e)
    then have e: "e \<in> set (fd_envs db)" "en_feature e = ft_name f" "en_environment e = env" using r by (simp_all add: set_partners)
    have "e' = e" if "e' \<in> set (fd_envs db)" "en_feature e' = ft_name f" "en_environment e' = env" for e'
      by (rule unique) (use that e in simp_all)
    then show ?thesis using Some e unfolding on_in_def list_ex_iff by (metis option.case(2))
  qed
  show "jr_feature r = f" by (fact r)
qed


section \<open>What is served is what the tables say\<close>

definition keeps_strategy :: "(client_strategy \<Rightarrow> client_strategy) \<Rightarrow> bool" where
  "keeps_strategy clean = (\<forall>k. ks_name (clean k) = ks_name k \<and> ks_parameters (clean k) = ks_parameters k \<and>
     ks_constraints (clean k) = ks_constraints k \<and> ks_variants (clean k) = ks_variants k \<and> ks_disabled (clean k) = ks_disabled k \<and> ks_segments (clean k) = ks_segments k)"

lemma served_strategies:
  assumes of_rows: "strategies_of_rows incl mk rs ks" and rows: "rows_in env db f rs" and ok: "keys_ok db"
    and mk: "\<And>s. ks_id (mk s) = Some (sr_id s)" "\<And>s. ks_sortOrder (mk s) = Some (sr_sort_order s)"
      "\<And>s. ks_name (mk s) = sr_name s" "\<And>s. ks_parameters (mk s) = sr_parameters s"
      "\<And>s. ks_constraints (mk s) = sr_constraints s" "\<And>s. ks_variants (mk s) = sr_variants s" "\<And>s. ks_disabled (mk s) = dis s"
    and clean: "keeps_strategy clean"
  shows "strategies_served dis incl env db (ft_name f) (map clean (sort_strategies ks))"
proof -
  let ?I = "strategies_in incl env db (ft_name f)"
  have inc: "included incl rs = ?I" by (rule rows_strategies [OF rows])
  have "\<forall>k\<in>set ks. \<exists>s. s \<in> ?I \<and> k = (mk s)\<lparr>ks_segments := ks_segments k\<rparr> \<and> set (default [] (ks_segments k)) = segment_ids rs s"
    using of_rows unfolding strategies_of_rows_def inc by blast
  then obtain S where S: "\<forall>k\<in>set ks. S k \<in> ?I \<and> k = (mk (S k))\<lparr>ks_segments := ks_segments k\<rparr> \<and>
      set (default [] (ks_segments k)) = segment_ids rs (S k)" by (rule bchoice [THEN exE])
  have made: "ks_id k = Some (sr_id (S k))" "ks_sortOrder k = Some (sr_sort_order (S k))" "strategy_serves dis db (clean k) (S k)"
    if k: "k \<in> set ks" for k
  proof -
    obtain x where x: "k = (mk (S k))\<lparr>ks_segments := x\<rparr>" using S k by blast
    show "ks_id k = Some (sr_id (S k))" by (subst x) (simp add: mk)
    show "ks_sortOrder k = Some (sr_sort_order (S k))" by (subst x) (simp add: mk)
    have "ks_name k = sr_name (S k) \<and> ks_parameters k = sr_parameters (S k) \<and> ks_constraints k = sr_constraints (S k) \<and>
        ks_variants k = sr_variants (S k) \<and> ks_disabled k = dis (S k)" by (subst (1 3 5 7 9) x) (simp add: mk)
    moreover have "set (default [] (ks_segments k)) = segments_of db (S k)" using S k rows_segments [OF rows ok] by auto
    ultimately show "strategy_serves dis db (clean k) (S k)" using clean by (simp add: strategy_serves_def keeps_strategy_def)
  qed
  have ids: "distinct (map ks_id ks)" using of_rows by (simp add: strategies_of_rows_def)
  let ?ks = "sort_strategies ks"
  have same: "set ?ks = set ks" "distinct ?ks" using ids by (simp_all add: sort_strategies_def distinct_map)
  have "inj_on S (set ks)"
    using ids made(1) by (auto simp: distinct_map inj_on_def)
  then have "distinct (map S ?ks)" using same by (simp add: distinct_map)
  moreover have "set (map S ?ks) = ?I"
  proof
    show "set (map S ?ks) \<subseteq> ?I" using S same by auto
    show "?I \<subseteq> set (map S ?ks)"
    proof
      fix s assume s: "s \<in> ?I"
      then obtain k where k: "k \<in> set ks" "ks_id k = Some (sr_id s)" using of_rows unfolding strategies_of_rows_def inc by blast
      then have "sr_id (S k) = sr_id s" using made(1) by simp
      moreover have "S k \<in> set (fd_strategies db)" "s \<in> set (fd_strategies db)" using S k(1) s by (auto simp: strategies_in_def)
      ultimately have "S k = s" using ok by (simp add: keys_ok_def distinct_map inj_on_def)
      then show "s \<in> set (map S ?ks)" using k(1) same by auto
    qed
  qed
  moreover have "sorted (map sr_sort_order (map S ?ks))"
  proof -
    have "map sr_sort_order (map S ?ks) = map (\<lambda>k. default 0 (ks_sortOrder k)) ?ks" using made(2) same by simp
    then show ?thesis by (simp only: sort_strategies_def sorted_sort_key)
  qed
  moreover have "list_all2 (strategy_serves dis db) (map clean ?ks) (map S ?ks)"
    using made(3) same by (simp add: list_all2_conv_all_nth) (metis nth_mem)
  ultimately show ?thesis unfolding strategies_served_def by blast
qed

text \<open>The converters that keep what a row of a strategy and of a feature says.\<close>

locale table_converter = row_converter +
  fixes dis :: "strategy_row \<Rightarrow> bool option"
  assumes made_fields: "ks_sortOrder (mk s) = Some (sr_sort_order s)" "ks_name (mk s) = sr_name s" "ks_parameters (mk s) = sr_parameters s"
      "ks_constraints (mk s) = sr_constraints s" "ks_variants (mk s) = sr_variants s" "ks_disabled (mk s) = dis s"
    and seed_fields: "kf_name (seed r) = ft_name (jr_feature r)" "kf_type (seed r) = ft_type (jr_feature r)"
      "kf_description (seed r) = ft_description (jr_feature r)" "kf_project (seed r) = ft_project (jr_feature r)"
      "kf_stale (seed r) = ft_stale (jr_feature r)" "kf_impressionData (seed r) = ft_impression_data (jr_feature r)"
      "kf_enabled (seed r) = (case jr_env r of None \<Rightarrow> False | Some e \<Rightarrow> en_enabled e)"
begin

lemma served_feature:
  assumes ok: "keys_ok db" and rows: "rows_in env db f rs" and k: "fold_rows add rs = Some k" and clean: "keeps_strategy clean"
    and k': "k' = k\<lparr>kf_strategies := map clean (sort_strategies (kf_strategies k))\<rparr>"
  shows "served dis incl env db f k'"
proof -
  note conv = converted [OF rows_in_identified [OF rows ok] k]
  obtain r where r: "r \<in> set rs" "base_of k = seed r" using conv(3) by blast
  have base: "kf_name k = kf_name (seed r)" "kf_type k = kf_type (seed r)" "kf_description k = kf_description (seed r)"
    "kf_project k = kf_project (seed r)" "kf_stale k = kf_stale (seed r)" "kf_impressionData k = kf_impressionData (seed r)"
    "kf_enabled k = kf_enabled (seed r)"
    unfolding r(2) [symmetric] by (simp_all add: base_of_def)
  have "strategies_served dis incl env db (ft_name f) (map clean (sort_strategies (kf_strategies k)))"
    by (rule served_strategies [OF conv(1) rows ok made_id made_fields clean])
  then show ?thesis
    using rows_enabled [OF rows ok r(1)] conv(2) rows_parents [OF rows ok] unfolding served_def k' by (simp add: base seed_fields)
qed

end

interpretation client_tables: table_converter "add_client_row ClientRequest False" enabled_only rowToStrategy "\<lambda>r. base_feature r None" "\<lambda>_. None"
  by unfold_locales (simp_all add: rowToStrategy_def base_feature_def Let_def)

interpretation frontend_tables: table_converter "add_client_row FrontendRequest False" enabled_only rowToStrategy "\<lambda>r. base_feature r None" "\<lambda>_. None"
  by unfold_locales (simp_all add: rowToStrategy_def base_feature_def Let_def)

interpretation playground_tables: table_converter "add_playground_row False" any_strategy
    "\<lambda>s. (rowToStrategy s)\<lparr>ks_disabled := Some (sr_disabled s)\<rparr>" "\<lambda>r. base_feature r None" "\<lambda>s. Some (sr_disabled s)"
  by unfold_locales (simp_all add: rowToStrategy_def base_feature_def Let_def)

interpretation read_tables: table_converter add_read_row enabled_only "\<lambda>s. (rowToStrategy s)\<lparr>ks_title := None\<rparr>"
    "\<lambda>r. (base_feature r None)\<lparr>kf_lastSeenAt := None\<rparr>" "\<lambda>_. None"
  by unfold_locales (simp_all add: rowToStrategy_def base_feature_def Let_def)


section \<open>The folds over all rows\<close>

lemma object_values_map:
  assumes "distinct (map fst m)"
  shows "object_values m = map (\<lambda>n. the (map_of m n)) (object_keys m)"
proof -
  have "\<forall>n\<in>set (object_keys m). map_of m n \<noteq> None" by (simp add: set_object_keys map_of_eq_None_iff)
  then show ?thesis unfolding object_values_def List.map_filter_def by (auto simp: filter_id_conv)
qed

definition own_names :: "feature_row list \<Rightarrow> bool" where
  "own_names fs = list_all (\<lambda>f. own_key (ft_name f)) fs"

lemma find_by_name:
  "distinct (map ft_name fs) \<Longrightarrow> f \<in> set fs \<Longrightarrow> find (\<lambda>x. ft_name x = ft_name f) fs = Some f"
  by (induction fs) (auto simp: image_iff)

lemma rows_of_feature:
  "distinct (map ft_name fs) \<Longrightarrow> f \<in> set fs \<Longrightarrow>
   filter (\<lambda>r. row_name r = ft_name f) (concat (map (feature_rows tags env db) fs)) = feature_rows tags env db f"
  by (simp add: rows_of_name find_by_name)

lemma names_of_rows: "row_name ` set (concat (map (feature_rows tags env db) fs)) = ft_name ` set fs"
proof -
  have own: "row_name r = ft_name f" if "r \<in> set (feature_rows tags env db f)" for r f
    using that by (simp add: feature_rows_iff row_name_def)
  have "row_name ` set (feature_rows tags env db f) = {ft_name f}" for f
    using own feature_rows_not_Nil [of tags env db f] by (metis (no_types, lifting) image_cong image_constant_conv set_empty)
  then show ?thesis by (auto simp: image_UN)
qed

lemma folded_features:
  assumes names: "distinct (map ft_name fs)" and own: "own_names fs"
  obtains m ss where "foldR (reduce_row add) [] (concat (map (feature_rows tags env db) fs)) = Inr m"
    "distinct ss" "set ss = set fs" "object_values m = map (\<lambda>f. the (fold_rows add (feature_rows tags env db f))) ss"
proof -
  let ?rows = "concat (map (feature_rows tags env db) fs)"
  define m where "m = foldl (\<lambda>acc r. AList.update (row_name r) (add (map_of acc (row_name r)) r) acc) [] ?rows"
  have "own_key (row_name r)" if "r \<in> set ?rows" for r
  proof -
    have "row_name r \<in> ft_name ` set fs" using that names_of_rows by blast
    then show ?thesis using own unfolding own_names_def list_all_iff by fastforce
  qed
  then have plain: "row_name r \<notin> set inherited_names" "row_name r \<noteq> ''__proto__''" if "r \<in> set ?rows" for r
    using that by (simp_all add: own_key_def)
  have "filter (\<lambda>r. row_name r \<noteq> ''__proto__'') ?rows = ?rows" using plain(2) by (simp only: filter_id_conv) blast
  then have folded: "foldR (reduce_row add) [] ?rows = Inr m"
    unfolding m_def using reduce_rows [of ?rows add "[]"] plain(1) by presburger
  have keys: "fst ` set m = ft_name ` set fs" "distinct (map fst m)"
    unfolding m_def using keyed_fold_keys [of row_name add ?rows] names_of_rows by metis+
  have vals: "map_of m (ft_name f) = fold_rows add (feature_rows tags env db f)" if "f \<in> set fs" for f
    unfolding m_def keyed_fold rows_of_feature [OF names that] ..
  define pick where "pick n = the (find (\<lambda>f. ft_name f = n) fs)" for n
  have pick: "pick (ft_name f) = f" if "f \<in> set fs" for f using find_by_name [OF names that] by (simp add: pick_def)
  let ?ss = "map pick (object_keys m)"
  have set_keys: "set (object_keys m) = ft_name ` set fs" using keys(1) by (simp add: set_object_keys)
  have all: "set ?ss = set fs" using pick by (force simp: set_keys image_image)
  have once: "distinct ?ss"
    using distinct_object_keys [OF keys(2)] set_keys pick by (auto simp: distinct_map inj_on_def)
  have "object_values m = map (\<lambda>f. the (fold_rows add (feature_rows tags env db f))) ?ss"
    unfolding object_values_map [OF keys(2)] using set_keys pick vals by auto
  with folded once all show thesis by (rule that)
qed

lemma served_features:
  assumes conv: "\<forall>f k. fold_rows add (feature_rows False env db f) = Some k \<longrightarrow> served dis incl env db f (clean k)"
    and names: "distinct (map ft_name fs)" and own: "own_names fs"
  obtains m ss where "foldR (reduce_row add) [] (concat (map (feature_rows False env db) fs)) = Inr m"
    "distinct ss" "set ss = set fs" "list_all2 (served dis incl env db) ss (map clean (object_values m))"
proof -
  obtain m ss where m: "foldR (reduce_row add) [] (concat (map (feature_rows False env db) fs)) = Inr m"
    "distinct ss" "set ss = set fs" "object_values m = map (\<lambda>f. the (fold_rows add (feature_rows False env db f))) ss"
    by (rule folded_features [OF names own])
  have "served dis incl env db f (clean (the (fold_rows add (feature_rows False env db f))))" for f
    using conv feature_rows_not_Nil by (auto simp: fold_rows_None)
  then have "list_all2 (served dis incl env db) ss (map clean (object_values m))"
    unfolding m(4) by (simp add: list_all2_conv_all_nth)
  with m(1-3) show thesis by (rule that)
qed

lemma list_all2_set1_ex: "list_all2 P xs ys \<Longrightarrow> x \<in> set xs \<Longrightarrow> \<exists>y\<in>set ys. P x y"
  by (auto simp: list_all2_conv_all_nth in_set_conv_nth Bex_def)

text \<open>Whatever comes out of a fold is named after a row that went in.\<close>

lemma update_values: "snd ` set (AList.update n x m) \<subseteq> insert x (snd ` set m)"
  by (induction m) auto

lemma reduce_values:
  assumes "foldR (reduce_row add) acc rs = Inr m" and "\<And>k. k \<in> snd ` set acc \<Longrightarrow> P k" and "\<And>x r. r \<in> set rs \<Longrightarrow> P (add x r)"
  shows "k \<in> snd ` set m \<Longrightarrow> P k"
  using assms
proof (induction rs arbitrary: acc)
  case (Cons r rs)
  from Cons.prems(2) obtain acc' where acc': "reduce_row add acc r = Inr acc'" "foldR (reduce_row add) acc' rs = Inr m"
    by (auto simp: bindR_Inr_iff)
  let ?n = "ft_name (jr_feature r)"
  have "acc' = acc \<or> acc' = AList.update ?n (add (map_of acc ?n) r) acc"
    using acc'(1) unfolding reduce_row_def Let_def by (metis Inl_Inr_False Inr_inject)
  moreover have "snd ` set (AList.update ?n (add (map_of acc ?n) r) acc) \<subseteq> insert (add (map_of acc ?n) r) (snd ` set acc)"
    by (rule update_values)
  ultimately have within: "snd ` set acc' \<subseteq> insert (add (map_of acc ?n) r) (snd ` set acc)" by blast
  have "P k" if "k \<in> snd ` set acc'" for k
    using subsetD [OF within that] Cons.prems(3) Cons.prems(4) [of r] by (elim insertE) simp_all
  then show ?case using Cons.IH [OF Cons.prems(1) acc'(2)] Cons.prems(4) by simp
qed simp

lemma object_values_in: "k \<in> set (object_values m) \<Longrightarrow> k \<in> snd ` set m"
  by (force simp: object_values_def List.map_filter_def dest: map_of_SomeD split: option.splits)


section \<open>Evaluation of what is served\<close>

lemma on_needs_selector:
  assumes "isFeatureEnabled rt cl (Some f) ctx fb n = Some (r, n')" "fe_strategies f = Some sels" "sels \<noteq> []"
    and "\<forall>s\<in>set sels. \<not> selector_satisfied rt cl ctx s"
  shows "fr_result r \<noteq> Known True"
proof
  assume on: "fr_result r = Known True"
  from assms(1-3) on obtain es n1 where "evaluate_selectors rt cl ctx sels n = Some (es, n1)" "fst (overallStrategyResult es) = Known True"
    by (auto simp: isFeatureEnabled_def split: option.splits prod.splits)
  then have "\<exists>s \<in> set sels. selector_satisfied rt cl ctx s"
    using selectors.overall_on_satisfied [OF evaluate_selectors_list_all2] by blast
  with assms(4) show False by blast
qed

end
