(* ===== verification/ClientProperties.thy ===== *)
theory ClientProperties
  imports ClientFacts
begin

text \<open>
  The properties of what SDKs are served: by the client API, by the two frontend APIs and by the playground.
\<close>

section \<open>Tables for the witnesses\<close>

text \<open>A feature on with a disabled strategy, one on with an active one and a parent, the parent, which is off.\<close>

definition frow1 :: "string \<Rightarrow> string \<Rightarrow> feature_row" where
  "frow1 name project = \<lparr>ft_name = name, ft_description = None, ft_type = ''release'', ft_project = project, ft_stale = False,
     ft_created_at = 0, ft_last_seen_at = None, ft_impression_data = False, ft_archived_at = None,
     ft_created_by_user_id = None, ft_potentially_stale = None\<rparr>"

definition srow1 :: "string \<Rightarrow> string \<Rightarrow> bool \<Rightarrow> strategy_row" where
  "srow1 key name disabled = \<lparr>sr_id = key, sr_feature = name, sr_project = ''shop'', sr_environment = ''default'', sr_name = ''default'',
     sr_title = None, sr_parameters = Map.empty, sr_constraints = [], sr_variants = [], sr_sort_order = 0, sr_created_at = 0,
     sr_disabled = disabled\<rparr>"

definition tables1 :: feature_db where
  "tables1 = \<lparr>fd_features = [frow1 ''menu'' ''shop'', frow1 ''offer'' ''shop'', frow1 ''base'' ''shop'', frow1 ''other'' ''lab''],
     fd_envs = map (\<lambda>(n, on). \<lparr>en_environment = ''default'', en_feature = n, en_enabled = on, en_variants = []\<rparr>)
       [(''menu'', True), (''offer'', True), (''base'', False)],
     fd_strategies = [srow1 ''s1'' ''menu'' True, srow1 ''s2'' ''offer'' False, srow1 ''s3'' ''base'' False],
     fd_segments = [\<lparr>sw_id = 1, sw_name = ''beta'', sw_description = None, sw_project = None, sw_constraints = [],
       sw_created_by = None, sw_created_at = 0\<rparr>],
     fd_strategy_segments = [(''s2'', 1)],
     fd_dependencies = [\<lparr>dr_parent = ''base'', dr_child = ''offer'', dr_enabled = False, dr_variants = []\<rparr>],
     fd_environments = [\<lparr>nv_name = ''default'', nv_type = ''production'', nv_sort_order = 1, nv_enabled = True, nv_protected = True\<rparr>],
     fd_projects = [], fd_project_envs = [], fd_context_fields = [], fd_strategy_types = [''default''],
     fd_change_requests = [], fd_cr_segments = [], fd_tags = [], fd_feature_types = [], fd_next_segment = 2, fd_message = (\<lambda>c. c)\<rparr>"

lemmas client_fixtures = tables1_def frow1_def srow1_def

lemma tables1_ok: "keys_ok tables1"
  by (simp add: keys_ok_def catalog_ok_def link_key_def environment_names_def ok_defs feature_keys_def client_fixtures en_key_def
      variants_ok_def)


section \<open>The client API\<close>

text \<open>The features that a query is about.\<close>

definition wanted :: "feature_query \<Rightarrow> feature_db \<Rightarrow> feature_row list" where
  "wanted q db = filter (\<lambda>f. filterByArchived False f \<and> query_selects q db f) (fd_features db)"

lemma wanted_names: "feature_db_ok db \<Longrightarrow> distinct (map ft_name (wanted q db))"
  by (simp add: feature_db_ok_def feature_names_def wanted_def distinct_map_filter)

definition pick_clean :: "request_type \<Rightarrow> client_feature \<Rightarrow> client_feature" where
  "pick_clean kind f = pick_client (clean_feature kind f)"

lemma keeps_clean: "keeps_strategy (clean_strategy kind)"
  by (simp add: keeps_strategy_def clean_strategy_def)

lemma served_pick: "served dis incl env db f k \<Longrightarrow> served dis incl env db f (pick_client k)"
  by (simp add: served_def pick_client_def)

lemma clientGetAll_served:
  assumes ok: "keys_ok db" and names: "own_names (wanted q db)" and tags: "\<not> tag_error q" and ids: "fq_inlineSegmentConstraints q \<noteq> Some True"
    and kind: "kind = ClientRequest \<or> kind = FrontendRequest"
  obtains fs ss where "client_getAll kind False q db = Inr fs" "distinct ss" "set ss = set (wanted q db)"
    "list_all2 (served not_told enabled_only (query_environment q) db) ss (map pick_client fs)"
proof -
  let ?env = "query_environment q" and ?inline = "default False (fq_inlineSegmentConstraints q)"
  have inline: "?inline = False" using ids by (cases "fq_inlineSegmentConstraints q") auto
  have conv: "\<forall>f k. fold_rows (add_client_row kind False) (feature_rows False ?env db f) = Some k \<longrightarrow>
      served not_told enabled_only ?env db f (pick_client (clean_feature kind k))"
  proof (intro allI impI)
    fix f k assume k: "fold_rows (add_client_row kind False) (feature_rows False ?env db f) = Some k"
    have rows: "rows_in ?env db f (feature_rows False ?env db f)" by (simp add: rows_in_def)
    show "served not_told enabled_only ?env db f (pick_client (clean_feature kind k))"
      by (rule served_pick) (use kind k client_tables.served_feature [OF ok rows _ keeps_clean]
          frontend_tables.served_feature [OF ok rows _ keeps_clean] in \<open>auto simp: clean_feature_def\<close>)
  qed
  have unique: "distinct (map ft_name (wanted q db))" using ok by (simp add: keys_ok_def wanted_names)
  obtain m ss where m: "foldR (reduce_row (add_client_row kind False)) [] (concat (map (feature_rows False ?env db) (wanted q db))) = Inr m"
    "distinct ss" "set ss = set (wanted q db)"
    "list_all2 (served not_told enabled_only ?env db) ss (map (\<lambda>k. pick_client (clean_feature kind k)) (object_values m))"
    by (rule served_features [OF conv unique names])
  have "kind \<noteq> AdminRequest" using kind by auto
  then have "client_getAll kind False q db = Inr (map (clean_feature kind) (object_values m))"
    using m(1) tags unfolding client_getAll_def wanted_def [symmetric] inline by simp
  then show thesis
  proof (rule that)
    show "list_all2 (served not_told enabled_only ?env db) ss (map pick_client (map (clean_feature kind) (object_values m)))"
      using m(4) by (simp add: comp_def)
  qed (use m(2,3) in simp_all)
qed



lemma wanted1: "wanted no_query tables1 = fd_features tables1"
  by (simp add: wanted_def no_query_def query_selects_def filterByArchived_def client_fixtures)


text \<open>
  C28: one feature whose name every object inherits, such as \<open>toString\<close> or \<open>constructor\<close>, makes the client API fail for
  every query that is about it, for all features.
\<close>

theorem inherited_name_breaks:
  assumes "f \<in> set (wanted q db)" and "ft_name f \<in> set inherited_names" and "\<not> tag_error q"
  shows "\<exists>n. n \<in> set inherited_names \<and> getClientFeatures q db = Inl (read_only_name n)"
proof -
  obtain r where r: "r \<in> set (feature_rows False (query_environment q) db f)"
    using feature_rows_not_Nil by (meson ex_in_conv set_empty)
  then have "row_name r = ft_name f" by (simp add: feature_rows_iff row_name_def)
  with r assms(1,2) have "r \<in> set (concat (map (feature_rows False (query_environment q) db) (wanted q db)))"
    "row_name r \<in> set inherited_names" by auto
  from reduce_fails [OF this, of "add_client_row ClientRequest (default False (fq_inlineSegmentConstraints q))" "[]"]
  show ?thesis using assms(3) by (auto simp: getClientFeatures_def store_getClient_def client_getAll_def wanted_def)
qed

theorem inherited_name_breaks_witness:
  "\<exists>n. n \<in> set inherited_names \<and>
    getClientFeatures no_query (tables1\<lparr>fd_features := frow1 ''toString'' ''shop'' # fd_features tables1\<rparr>) = Inl (read_only_name n)"
  by (rule inherited_name_breaks [of "frow1 ''toString'' ''shop''"])
    (simp_all add: wanted_def no_query_def query_selects_def filterByArchived_def frow1_def tag_error_def inherited_names_def)


text \<open>
  The playground, too, serves the features of the tables, with all their strategies and whether each is disabled.
\<close>

definition in_environment :: "string \<Rightarrow> feature_query" where
  "in_environment env = no_query\<lparr>fq_environment := Some env\<rparr>"

lemma wanted_all: "wanted (in_environment env) db = filter (filterByArchived False) (fd_features db)"
  by (simp add: wanted_def in_environment_def no_query_def query_selects_def)

lemma playground_features_of_tables:
  assumes ok: "keys_ok db" and names: "own_names (wanted (in_environment env) db)"
  obtains fs ss where "getPlaygroundFeatures (in_environment env) db = Inr fs" "set ss = set (wanted (in_environment env) db)"
    "list_all2 (served (\<lambda>s. Some (sr_disabled s)) any_strategy (query_environment (in_environment env)) db) ss fs"
proof -
  let ?env = "query_environment (in_environment env)"
  have conv: "\<forall>f k. fold_rows (add_playground_row False) (feature_rows False ?env db f) = Some k \<longrightarrow>
      served (\<lambda>s. Some (sr_disabled s)) any_strategy ?env db f (formatToggles k)"
  proof (intro allI impI)
    fix f k assume k: "fold_rows (add_playground_row False) (feature_rows False ?env db f) = Some k"
    have keeps: "keeps_strategy (\<lambda>k. k\<lparr>ks_sortOrder := None, ks_title := (if truthy (ks_title k) then ks_title k else None)\<rparr>)"
      by (simp add: keeps_strategy_def)
    show "served (\<lambda>s. Some (sr_disabled s)) any_strategy ?env db f (formatToggles k)"
      by (rule playground_tables.served_feature [OF ok _ k keeps]) (simp_all add: rows_in_def formatToggles_def)
  qed
  have unique: "distinct (map ft_name (wanted (in_environment env) db))" using ok by (simp add: keys_ok_def wanted_names)
  obtain m ss where m: "foldR (reduce_row (add_playground_row False)) [] (concat (map (feature_rows False ?env db) (wanted (in_environment env) db))) = Inr m"
    "distinct ss" "set ss = set (wanted (in_environment env) db)"
    "list_all2 (served (\<lambda>s. Some (sr_disabled s)) any_strategy ?env db) ss (map formatToggles (object_values m))"
    by (rule served_features [OF conv unique names])
  have "getPlaygroundFeatures (in_environment env) db = Inr (map formatToggles (object_values m))"
    using m(1) unfolding getPlaygroundFeatures_def wanted_all by (simp add: in_environment_def no_query_def)
  then show thesis using m(3,4) by (rule that)
qed

lemma served_strategies_Nil:
  "served dis incl env db f k \<Longrightarrow> strategies_in incl env db (ft_name f) = {} \<Longrightarrow> kf_strategies k = []"
  by (auto simp: served_def strategies_served_def)

lemma served_disabled:
  assumes "served (\<lambda>s. Some (sr_disabled s)) any_strategy env db f k" "strategies_in enabled_only env db (ft_name f) = {}"
    and "strategies_in any_strategy env db (ft_name f) \<noteq> {}"
  shows "kf_strategies k \<noteq> []" "\<forall>x\<in>set (kf_strategies k). ks_disabled x = Some True"
proof -
  obtain ss where ss: "set ss = strategies_in any_strategy env db (ft_name f)"
    "list_all2 (strategy_serves (\<lambda>s. Some (sr_disabled s)) db) (kf_strategies k) ss"
    using assms(1) by (auto simp: served_def strategies_served_def)
  then show "kf_strategies k \<noteq> []" using assms(3) by auto
  show "\<forall>x\<in>set (kf_strategies k). ks_disabled x = Some True"
  proof
    fix x assume "x \<in> set (kf_strategies k)"
    then obtain s where "s \<in> set ss" "ks_disabled x = Some (sr_disabled s)"
      using list_all2_set1_ex [OF ss(2)] unfolding strategy_serves_def by blast
    moreover have "sr_disabled s" if "s \<in> set ss" for s
      using that ss(1) assms(2) by (auto simp: strategies_in_def enabled_only_def)
    ultimately show "ks_disabled x = Some True" by simp
  qed
qed



lemma strategies_in_filter:
  "strategies_in incl env db n = set (filter (\<lambda>s. sr_feature s = n \<and> sr_environment s = env \<and> incl s) (fd_strategies db))"
  by (auto simp: strategies_in_def)

lemma menu_strategies:
  "strategies_in incl ''default'' tables1 ''menu'' = (if incl (srow1 ''s1'' ''menu'' True) then {srow1 ''s1'' ''menu'' True} else {})"
  unfolding strategies_in_filter by (simp add: client_fixtures del: set_filter)



section \<open>The scope of a token\<close>

lemma client_getAll_wanted:
  assumes "client_getAll kind False q db = Inr fs" "k \<in> set fs"
  shows "\<exists>f\<in>set (wanted q db). kf_name k = ft_name f \<and> kf_project k = ft_project f"
proof -
  let ?rows = "concat (map (feature_rows (kind = AdminRequest) (query_environment q) db) (wanted q db))"
  let ?add = "add_client_row kind (default False (fq_inlineSegmentConstraints q))"
  let ?P = "\<lambda>k. \<exists>f\<in>set (wanted q db). kf_name k = ft_name f \<and> kf_project k = ft_project f"
  obtain m where m: "foldR (reduce_row ?add) [] ?rows = Inr m" "fs = map (clean_feature kind) (object_values m)"
    using assms(1) by (auto simp: client_getAll_def wanted_def bindR_Inr_iff split: if_splits)
  then obtain k' where "k' \<in> set (object_values m)" and k: "k = clean_feature kind k'" using assms(2) by auto
  then have k': "k' \<in> snd ` set m" by (intro object_values_in)
  have "?P (?add x r)" if "r \<in> set ?rows" for x r
  proof -
    have "jr_feature r \<in> set (wanted q db)" using that by (auto simp: feature_rows_iff)
    then show ?thesis by (auto simp: add_client_row_def base_feature_def Let_def)
  qed
  then have "?P k'" by (rule reduce_values [OF m(1) _ _ k', where P = ?P, rotated]) simp_all
  then show ?thesis by (simp add: k clean_feature_def)
qed

definition in_scope :: "feature_query \<Rightarrow> client_feature \<Rightarrow> bool" where
  "in_scope q k = (case fq_project q of None \<Rightarrow> True | Some ps \<Rightarrow> ALL_PROJECTS \<in> set ps \<or> kf_project k \<in> set ps)"

lemma wanted_in_scope: "f \<in> set (wanted q db) \<Longrightarrow> kf_project k = ft_project f \<Longrightarrow> in_scope q k"
  by (auto simp: wanted_def query_selects_def in_scope_def split: option.splits)

lemma getClientFeatures_in_scope:
  assumes "getClientFeatures q db = Inr fs"
  shows "list_all (in_scope q) fs"
proof -
  obtain fs' where fs': "client_getAll ClientRequest False q db = Inr fs'" "fs = map pick_client fs'"
    using assms by (auto simp: getClientFeatures_def store_getClient_def bindR_Inr_iff)
  have "in_scope q (pick_client k)" if "k \<in> set fs'" for k
    using client_getAll_wanted [OF fs'(1) that] by (auto intro!: wanted_in_scope simp: pick_client_def)
  then show ?thesis by (simp add: fs'(2) list_all_iff)
qed

text \<open>No two queries about different projects have one hash.\<close>

definition no_collision :: "client_config \<Rightarrow> bool" where
  "no_collision cfg = (\<forall>q q' r r'. etag_of cfg q r = etag_of cfg q' r' \<longrightarrow> fq_project q = fq_project q')"

definition entry_scoped :: "client_config \<Rightarrow> string \<Rightarrow> client_feature list \<Rightarrow> bool" where
  "entry_scoped cfg etag fs = (\<forall>q r. etag_of cfg q r = etag \<longrightarrow> list_all (in_scope q) fs)"

definition memo_scoped :: "client_config \<Rightarrow> client_memory \<Rightarrow> bool" where
  "memo_scoped cfg m = list_all (\<lambda>(etag, t, fs, gs). entry_scoped cfg etag fs) (cm_memo m)"

lemma featuresAndSegments_scoped:
  assumes "no_collision cfg" "memo_scoped cfg m" "featuresAndSegments cfg now q (etag_of cfg q r) db m = (res, m')"
  shows "memo_scoped cfg m'" "res = Inr (fs, gs) \<Longrightarrow> list_all (in_scope q) fs"
proof -
  have same: "in_scope q' = in_scope q" if "etag_of cfg q' r' = etag_of cfg q r" for q' r'
  proof -
    have "fq_project q' = fq_project q" using assms(1) that unfolding no_collision_def by blast
    then show ?thesis by (simp add: in_scope_def fun_eq_iff)
  qed
  have fresh: "list_all (in_scope q) fs" if "resolveFeaturesAndSegments q db = Inr (fs, gs)" for fs gs
    using that by (auto simp: resolveFeaturesAndSegments_def bindR_Inr_iff intro: getClientFeatures_in_scope)
  have "memo_scoped cfg m' \<and> (\<forall>fs gs. res = Inr (fs, gs) \<longrightarrow> list_all (in_scope q) fs)"
  proof (cases "cc_caching cfg")
    case False
    then show ?thesis using assms(2,3) fresh by (auto simp: featuresAndSegments_def)
  next
    case True
    let ?hit = "find (\<lambda>(e, t, _). e = etag_of cfg q r \<and> now < t + cc_maxAge cfg) (cm_memo m)"
    show ?thesis
    proof (cases ?hit)
      case (Some x)
      obtain e t fs gs where x: "x = (e, t, fs, gs)" by (metis prod_cases4)
      have "x \<in> set (cm_memo m)" "e = etag_of cfg q r" using Some x by (auto dest!: find_Some_in)
      then have "list_all (in_scope q) fs" using assms(2) x unfolding memo_scoped_def entry_scoped_def list_all_iff by blast
      then show ?thesis using assms(2,3) True Some x by (auto simp: featuresAndSegments_def)
    next
      case None
      show ?thesis
      proof (cases "resolveFeaturesAndSegments q db")
        case (Inl e)
        then show ?thesis using assms(2,3) True None by (auto simp: featuresAndSegments_def)
      next
        case (Inr y)
        obtain fs gs where y: "y = (fs, gs)" by (metis surj_pair)
        have m': "m' = m\<lparr>cm_memo := (etag_of cfg q r, now, fs, gs) # filter (\<lambda>x. fst x \<noteq> etag_of cfg q r) (cm_memo m)\<rparr>" "res = Inr (fs, gs)"
          using assms(3) True None Inr y by (simp_all add: featuresAndSegments_def)
        have scoped: "list_all (in_scope q) fs" using fresh Inr y by simp
        then have "entry_scoped cfg (etag_of cfg q r) fs" using same unfolding entry_scoped_def by metis
        moreover have "list_all (\<lambda>(etag, t, fs, gs). entry_scoped cfg etag fs) (filter (\<lambda>x. fst x \<noteq> etag_of cfg q r) (cm_memo m))"
          using assms(2) by (simp add: memo_scoped_def list_all_iff)
        ultimately show ?thesis using scoped by (simp add: memo_scoped_def m')
      qed
    qed
  qed
  then show "memo_scoped cfg m'" "res = Inr (fs, gs) \<Longrightarrow> list_all (in_scope q) fs" by simp_all
qed


definition client_api_run ::
  "client_config \<Rightarrow> (bool \<times> int \<times> client_request \<times> stored_event list \<times> feature_db) list \<Rightarrow> client_memory" where
  "client_api_run cfg calls = foldl (\<lambda>m (disabled, now, req, events, db). snd (client_api_getAll cfg disabled now req events db m))
     \<lparr>cm_revision = 0, cm_memo = []\<rparr> calls"

lemma client_api_getAll_scoped:
  assumes "no_collision cfg" "memo_scoped cfg m" "client_api_getAll cfg disabled now req events db m = (res, m')"
  shows "memo_scoped cfg m'" "res = Inr (ClientFeatures a) \<Longrightarrow> \<exists>q. resolveQuery cfg req = Inr q \<and> list_all (in_scope q) (ca_features a)"
proof -
  have "memo_scoped cfg m' \<and> (res = Inr (ClientFeatures a) \<longrightarrow> (\<exists>q. resolveQuery cfg req = Inr q \<and> list_all (in_scope q) (ca_features a)))"
  proof (cases "resolveQuery cfg req")
    case (Inl e)
    then show ?thesis using assms(2,3) by (auto simp: client_api_getAll_def)
  next
    case (Inr q)
    obtain revision kept where rev: "getMaxRevisionId disabled events (cm_revision m) = (revision, kept)" by (metis surj_pair)
    let ?m1 = "m\<lparr>cm_revision := kept\<rparr>" and ?etag = "etag_of cfg q revision"
    have m1: "memo_scoped cfg ?m1" using assms(2) by (simp add: memo_scoped_def)
    obtain answer m2 where fs: "featuresAndSegments cfg now q ?etag db ?m1 = (answer, m2)" by (metis surj_pair)
    note scoped = featuresAndSegments_scoped [OF assms(1) m1 fs]
    show ?thesis
    proof (cases "cr_if_none_match req = Some ?etag")
      case True
      then show ?thesis using assms(3) Inr rev m1 by (auto simp: client_api_getAll_def Let_def)
    next
      case False
      then show ?thesis using assms(3) Inr rev fs scoped
        by (cases answer) (auto simp: client_api_getAll_def Let_def bindR_Inr_iff)
    qed
  qed
  then show "memo_scoped cfg m'" "res = Inr (ClientFeatures a) \<Longrightarrow> \<exists>q. resolveQuery cfg req = Inr q \<and> list_all (in_scope q) (ca_features a)"
    by simp_all
qed

lemma client_api_run_scoped: "no_collision cfg \<Longrightarrow> memo_scoped cfg (client_api_run cfg calls)"
proof (induction calls rule: rev_induct)
  case (snoc c calls)
  obtain disabled now req events db where c: "c = (disabled, now, req, events, db)" by (metis prod_cases5)
  show ?case
    using client_api_getAll_scoped(1) [OF snoc.prems snoc.IH [OF snoc.prems] surjective_pairing]
    by (simp add: client_api_run_def c)
qed (simp add: client_api_run_def memo_scoped_def)

lemma resolveQuery_projects:
  assumes "resolveQuery cfg req = Inr q" "cr_user req = Some u" "\<not> isAllProjects (au_projects u)"
  shows "fq_project q = Some (au_projects u)"
  using assms by (auto simp: resolveQuery_def prepQuery_def Let_def param_values_def bindR_Inr_iff split: if_splits)



text \<open>A hash that tells the projects of queries apart.\<close>

fun spell :: "string list \<Rightarrow> string" where
  "spell [] = ''.''"
| "spell ([] # ps) = CHR ''+'' # spell ps"
| "spell ((c # cs) # ps) = CHR ''_'' # c # spell (cs # ps)"

lemma spell_unique: "spell ps @ s = spell qs @ t \<Longrightarrow> ps = qs"
proof (induction ps arbitrary: qs rule: spell.induct)
  case 1
  then show ?case by (cases qs rule: spell.cases) auto
next
  case (2 ps)
  then show ?case by (cases qs rule: spell.cases) auto
next
  case (3 c cs ps)
  then show ?case by (cases qs rule: spell.cases) auto
qed

definition ccfg1 :: client_config where
  "ccfg1 = \<lparr>cc_features = \<lparr>fc_now = 0, fc_uuid = show_nat, fc_collate = (\<lambda>s. s), fc_regex = (\<lambda>_ _. True),
       fc_json = (\<lambda>s. s), fc_is_json = (\<lambda>_. True), fc_is_number = (\<lambda>_. True), fc_is_date = (\<lambda>_. True),
       fc_semver_clean = Some, fc_semver_parses = (\<lambda>_. True), fc_strategySegmentsLimit = 5,
       fc_segmentValuesLimit = 1000, fc_isEnterprise = False\<rparr>,
     cc_hash = (\<lambda>q. case fq_project q of None \<Rightarrow> ''-'' | Some ps \<Rightarrow> CHR ''#'' # spell ps),
     cc_supports_segments = (\<lambda>_. True), cc_caching = True, cc_maxAge = 600, cc_strip_headers = False\<rparr>"

lemma ccfg1_no_collision: "no_collision ccfg1"
  by (auto simp: no_collision_def etag_of_def ccfg1_def dest: spell_unique split: option.splits)

definition creq1 :: client_request where
  "creq1 = \<lparr>cr_user = Some \<lparr>au_internalAdminTokenUserId = None, au_username = ''t'', au_permissions = [], au_projects = [''shop''],
       au_environment = ''default'', au_type = token_CLIENT, au_secret = ''s''\<rparr>,
     cr_tag = Absent, cr_project = Once ''lab'', cr_namePrefix = None, cr_environment = None, cr_spec = Some ''4.2.0'', cr_if_none_match = None\<rparr>"

definition cquery1 :: feature_query where
  "cquery1 = no_query\<lparr>fq_project := Some [''shop''], fq_environment := Some ''default'', fq_inlineSegmentConstraints := Some False\<rparr>"

lemma creq1_query: "resolveQuery ccfg1 creq1 = Inr cquery1"
  by (simp add: resolveQuery_def creq1_def isAllProjects_def ALL'_def versionSupportsSpec_def ccfg1_def prepQuery_def param_values_def
      tag_errors_def project_errors_def empty_errors_def array_errors_def name_errors_def url_friendly_def joi_first_def joi_error_def bindR_def cquery1_def
      no_query_def)

lemma cquery1_features: "\<exists>fs. getClientFeatures cquery1 tables1 = Inr fs"
proof -
  have names: "own_names (wanted cquery1 tables1)"
    by (simp add: own_names_def own_key_def inherited_names_def wanted_def cquery1_def no_query_def query_selects_def filterByArchived_def
        client_fixtures ALL_PROJECTS_def)
  have plain: "\<not> tag_error cquery1" "fq_inlineSegmentConstraints cquery1 \<noteq> Some True"
    by (simp_all add: cquery1_def no_query_def tag_error_def)
  obtain fs ss where "client_getAll ClientRequest False cquery1 tables1 = Inr fs" "distinct ss" "set ss = set (wanted cquery1 tables1)"
    "list_all2 (served not_told enabled_only (query_environment cquery1) tables1) ss (map pick_client fs)"
    using clientGetAll_served [OF tables1_ok names plain, of ClientRequest] by blast
  then show ?thesis by (simp add: getClientFeatures_def store_getClient_def)
qed


end
