(* ===== verification/FrontendFacts.thy ===== *)
theory FrontendFacts
  imports ClientFacts
begin

text \<open>
  The read model of the frontend API: the fold over the rows of all environments, what it holds for a feature in an
  environment, and what the cache and the repositories of tokens hold after any requests.
\<close>

section \<open>The nested fold\<close>

definition row_env :: "client_row \<Rightarrow> string" where
  "row_env r = en_environment (the (jr_env r))"

definition lookup2 :: "(string \<times> (string \<times> 'a) list) list \<Rightarrow> string \<Rightarrow> string \<Rightarrow> 'a option" where
  "lookup2 m env n = map_of (default [] (map_of m env)) n"

lemma aggregate_lookup:
  assumes "own_key env" "own_key n"
  shows "lookup2 (foldl aggregate_row [] rows) env n = fold_rows add_read_row (filter (\<lambda>r. row_env r = env \<and> row_name r = n) rows)"
proof (induction rows rule: rev_induct)
  case (snoc r rows)
  show ?case
  proof (cases "row_env r = env \<and> row_name r = n")
    case True
    then show ?thesis using snoc assms
      by (simp add: aggregate_row_def Let_def row_env_def row_name_def lookup2_def update_conv)
  next
    case False
    then show ?thesis using snoc assms
      by (auto simp: aggregate_row_def Let_def row_env_def row_name_def lookup2_def update_conv)
  qed
qed (simp add: lookup2_def)

lemma map_of_map_snd: "map_of (map (\<lambda>(k, v). (k, f v)) m) x = map_option f (map_of m x)"
  by (induction m) auto

lemma lookup2_aggregated: "lookup2 (getAggregatedData rows) env n = map_option clean_read_feature (lookup2 (foldl aggregate_row [] rows) env n)"
  by (cases "map_of (foldl aggregate_row [] rows) env") (simp_all add: lookup2_def getAggregatedData_def map_of_map_snd)

lemma lookup2_mapped: "lookup2 (mapFeatures m) env n = map_option mapFeatureForClient (lookup2 m env n)"
  by (cases "map_of m env") (simp_all add: lookup2_def mapFeatures_def map_of_map_snd)

lemma cache_getToggle_lookup:
  "cache_getToggle n t (refreshData db c) = map_option mapFeatureForClient (lookup2 (readModel_features db) (environmentNameForToken t) n)"
  unfolding lookup2_mapped [symmetric] by (simp add: cache_getToggle_def getTogglesByEnvironment_def refreshData_def lookup2_def)


section \<open>The rows of the read model\<close>

definition live_feature :: "string \<Rightarrow> feature_db \<Rightarrow> string \<Rightarrow> feature_row \<Rightarrow> bool" where
  "live_feature env db n f = (f \<in> set (fd_features db) \<and> filterByArchived False f \<and> ft_name f = n \<and> on_in env db n)"

lemma read_model_rows_iff:
  "r \<in> set (read_model_rows db) \<longleftrightarrow> (\<exists>e. jr_env r = Some e \<and> e \<in> set (fd_envs db) \<and> en_feature e = row_name r \<and> en_enabled e) \<and>
     jr_feature r \<in> set (fd_features db) \<and> filterByArchived False (jr_feature r) \<and>
     jr_strategy r \<in> set (partners (filter (\<lambda>s. sr_feature s = row_name r \<and> sr_environment s = row_env r) (fd_strategies db))) \<and>
     jr_segment r \<in> set (strategy_segments db (jr_strategy r)) \<and>
     jr_parent r \<in> set (partners (filter (\<lambda>d. dr_child d = row_name r) (fd_dependencies db))) \<and> jr_tag r = None"
  by (cases r) (auto simp: read_model_rows_def row_name_def row_env_def image_iff)

lemma partners_unique:
  assumes "e \<in> set xs" "P e" "\<And>y. y \<in> set xs \<Longrightarrow> P y \<Longrightarrow> y = e"
  shows "x \<in> set (partners (filter P xs)) \<longleftrightarrow> x = Some e"
proof -
  have one: "set (filter P xs) = {e}" unfolding set_filter set_eq_iff mem_Collect_eq singleton_iff using assms by metis
  then have "filter P xs \<noteq> []" by force
  then show ?thesis by (cases x) (simp_all add: set_partners one del: set_filter)
qed

lemma read_rows_in:
  assumes ok: "keys_ok db" and f: "live_feature env db n f"
  shows "rows_in env db f (filter (\<lambda>r. row_env r = env \<and> row_name r = n) (read_model_rows db))"
proof -
  have fs: "f \<in> set (fd_features db)" "filterByArchived False f" "ft_name f = n" using f by (simp_all add: live_feature_def)
  have "g = h" if "g \<in> set (fd_features db)" "h \<in> set (fd_features db)" "ft_name g = ft_name h" for g h
    using ok that by (simp add: keys_ok_def feature_db_ok_def feature_names_def distinct_map inj_on_def)
  then have same: "g = f" if "g \<in> set (fd_features db)" "ft_name g = n" for g using that fs by blast
  obtain e where e: "e \<in> set (fd_envs db)" "en_feature e = n" "en_environment e = env" "en_enabled e"
    using f by (auto simp: live_feature_def on_in_def list_ex_iff)
  have "e1 = e2" if "e1 \<in> set (fd_envs db)" "e2 \<in> set (fd_envs db)" "en_feature e1 = en_feature e2" "en_environment e1 = en_environment e2" for e1 e2
    using ok that by (simp add: keys_ok_def feature_db_ok_def envs_ok_def distinct_map inj_on_def en_key_def)
  then have unique: "e' = e" if "e' \<in> set (fd_envs db)" "en_feature e' = n" "en_environment e' = env" for e'
    using that e by blast
  have env: "x \<in> set (partners (filter (\<lambda>e. en_feature e = ft_name f \<and> en_environment e = env) (fd_envs db))) \<longleftrightarrow> x = Some e" for x
    by (rule partners_unique [OF e(1)]) (use e(2,3) unique fs(3) in simp_all)
  have "r \<in> set (filter (\<lambda>r. row_env r = env \<and> row_name r = n) (read_model_rows db)) \<longleftrightarrow> r \<in> set (feature_rows False env db f)" for r
  proof
    assume r: "r \<in> set (filter (\<lambda>r. row_env r = env \<and> row_name r = n) (read_model_rows db))"
    then have r': "r \<in> set (read_model_rows db)" "row_env r = env" "row_name r = n" by simp_all
    from r obtain e' where e': "jr_env r = Some e'" "e' \<in> set (fd_envs db)" "en_feature e' = n"
      by (auto simp: read_model_rows_iff)
    have "en_environment e' = env" using r e'(1) by (simp add: row_env_def)
    then have "e' = e" using unique e'(2,3) by blast
    moreover have "jr_feature r = f" using r same by (auto simp: read_model_rows_iff row_name_def)
    ultimately show "r \<in> set (feature_rows False env db f)"
      using r' e'(1) fs(3) unfolding feature_rows_iff env read_model_rows_iff r'(2,3) by simp
  next
    assume r: "r \<in> set (feature_rows False env db f)"
    then have "jr_env r = Some e" "jr_feature r = f" unfolding feature_rows_iff env by simp_all
    then have "row_env r = env" "row_name r = n" using e(3) fs(3) by (simp_all add: row_env_def row_name_def)
    then show "r \<in> set (filter (\<lambda>r. row_env r = env \<and> row_name r = n) (read_model_rows db))"
      using r e fs \<open>jr_env r = Some e\<close> \<open>jr_feature r = f\<close> by (simp add: read_model_rows_iff feature_rows_iff)
  qed
  then show ?thesis unfolding rows_in_def by blast
qed

lemma read_rows_empty:
  assumes "\<nexists>f. live_feature env db n f"
  shows "filter (\<lambda>r. row_env r = env \<and> row_name r = n) (read_model_rows db) = []"
proof -
  have "live_feature env db n (jr_feature r)" if "r \<in> set (read_model_rows db)" "row_env r = env" "row_name r = n" for r
    using that by (auto simp: read_model_rows_iff live_feature_def on_in_def list_ex_iff row_name_def row_env_def)
  then show ?thesis using assms by (auto simp: filter_empty_conv)
qed

lemma keeps_clean_read: "keeps_strategy (\<lambda>k. k\<lparr>ks_id := None, ks_sortOrder := None\<rparr>)"
  by (simp add: keeps_strategy_def)

lemma read_model_served:
  assumes ok: "keys_ok db" and own: "own_key env" "own_key n"
  shows "case lookup2 (readModel_features db) env n of None \<Rightarrow> \<nexists>f. live_feature env db n f
    | Some k \<Rightarrow> \<exists>f. live_feature env db n f \<and> served not_told enabled_only env db f k"
proof (cases "\<exists>f. live_feature env db n f")
  case True
  then obtain f where f: "live_feature env db n f" by blast
  note rows = read_rows_in [OF ok f]
  have "filter (\<lambda>r. row_env r = env \<and> row_name r = n) (read_model_rows db) \<noteq> []"
    using rows feature_rows_not_Nil [of False env db f] unfolding rows_in_def by force
  then obtain k where k: "fold_rows add_read_row (filter (\<lambda>r. row_env r = env \<and> row_name r = n) (read_model_rows db)) = Some k"
    using fold_rows_None by (metis option.exhaust)
  have "served not_told enabled_only env db f (clean_read_feature k)"
    by (rule read_tables.served_feature [OF ok rows k keeps_clean_read]) (simp add: clean_read_feature_def)
  then show ?thesis using f k aggregate_lookup [OF own]
    by (auto simp: readModel_features_def lookup2_aggregated)
next
  case False
  then show ?thesis using aggregate_lookup [OF own] read_rows_empty [OF False] by (simp add: readModel_features_def lookup2_aggregated)
qed

end
