(* ===== verification/FrontendProperties.thy ===== *)
theory FrontendProperties
  imports ClientProperties FrontendFacts
begin

text \<open>
  The properties of the frontend APIs: what the cache and the repositories hold, that they catch up with the tables,
  and the scope of a token.
\<close>

section \<open>The cache of all features\<close>


definition ftoken1 :: api_user where
  "ftoken1 = \<lparr>au_internalAdminTokenUserId = None, au_username = ''t'', au_permissions = [], au_projects = [''shop''],
     au_environment = ''default'', au_type = token_FRONTEND, au_secret = ''s''\<rparr>"

lemma ftoken1_env [simp]: "environmentNameForToken ftoken1 = ''default''"
  by (simp add: environmentNameForToken_def ftoken1_def ALL_ENVS_def)

lemma own_default: "own_key ''default''"
  by (simp add: own_key_def inherited_names_def)


lemma token_query_plain:
  "\<not> tag_error (token_query t)" "fq_inlineSegmentConstraints (token_query t) \<noteq> Some True"
  by (simp_all add: token_query_def no_query_def tag_error_def)

lemma token_query_env: "environmentNameForToken t \<noteq> [] \<Longrightarrow> query_environment (token_query t) = environmentNameForToken t"
  by (simp add: query_environment_def token_query_def or_else_def)

lemma featureService_served:
  assumes "keys_ok db" "own_names (wanted (token_query t) db)" "environmentNameForToken t \<noteq> []"
  obtains fs ss where "featureService_getClientFeatures (token_query t) db = Inr fs" "set ss = set (wanted (token_query t) db)"
    "list_all2 (served not_told enabled_only (environmentNameForToken t) db) ss fs"
proof -
  obtain fs ss where "client_getAll FrontendRequest False (token_query t) db = Inr fs" "distinct ss" "set ss = set (wanted (token_query t) db)"
    "list_all2 (served not_told enabled_only (query_environment (token_query t)) db) ss (map pick_client fs)"
    using clientGetAll_served [OF assms(1,2) token_query_plain, of FrontendRequest] by blast
  then show thesis
    by (intro that) (simp_all add: featureService_getClientFeatures_def getFrontendApiClient_def token_query_env [OF assms(3)])
qed

text \<open>
  C31: a feature that is off in the environment is not in the cache of the frontend API, although the repository of a token has
  it: a feature that depends on it being disabled finds no such parent with the one, and finds it off with the other.
\<close>

theorem off_feature_missing:
  assumes "keys_ok db" and "own_names (fd_features db)" and "own_key (environmentNameForToken t)" and "environmentNameForToken t \<noteq> []"
    and "f \<in> set (wanted (token_query t) db)" and "\<not> on_in (environmentNameForToken t) db (ft_name f)" and "pr_token r = t"
  shows "cache_getToggle (ft_name f) t (refreshData db c) = None \<and>
    (\<exists>g. proxy_getToggle (ft_name f) (loadDataForToken db r) = Some g \<and> \<not> fe_enabled g)"
proof
  have names: "own_names (wanted (token_query t) db)" "own_key (ft_name f)"
    using assms(2,5) by (auto simp: own_names_def wanted_def list_all_iff)
  have "\<nexists>f'. live_feature (environmentNameForToken t) db (ft_name f) f'" using assms(6) by (simp add: live_feature_def)
  then have "lookup2 (readModel_features db) (environmentNameForToken t) (ft_name f) = None"
    using read_model_served [OF assms(1,3) names(2)] by (cases "lookup2 (readModel_features db) (environmentNameForToken t) (ft_name f)") auto
  then show "cache_getToggle (ft_name f) t (refreshData db c) = None" by (simp add: cache_getToggle_lookup)
  obtain fs ss where fs: "featureService_getClientFeatures (token_query t) db = Inr fs" "set ss = set (wanted (token_query t) db)"
    "list_all2 (served not_told enabled_only (environmentNameForToken t) db) ss fs"
    by (rule featureService_served [OF assms(1) names(1) assms(4)])
  then have loaded: "pr_features (loadDataForToken db r) = Some (map mapFeatureForClient fs)"
    by (simp add: loadDataForToken_def assms(7) mapFeaturesForClient_def)
  have "\<exists>k\<in>set fs. served not_told enabled_only (environmentNameForToken t) db f k"
    using list_all2_set1_ex [OF fs(3)] fs(2) assms(5) by blast
  then have "\<exists>g\<in>set (map mapFeatureForClient fs). fe_name g = ft_name f" by (auto simp: served_def mapFeatureForClient_def)
  then have "find (\<lambda>g. fe_name g = ft_name f) (map mapFeatureForClient fs) \<noteq> None" unfolding find_None_iff by blast
  then obtain g where g: "find (\<lambda>g. fe_name g = ft_name f) (map mapFeatureForClient fs) = Some g" by auto
  then obtain k where k: "k \<in> set fs" "g = mapFeatureForClient k" "fe_name g = ft_name f" by (auto dest!: find_Some_in)
  obtain f' where "served not_told enabled_only (environmentNameForToken t) db f' k"
    using list_all2_set2_ex [OF fs(3) k(1)] by blast
  then have "kf_enabled k = on_in (environmentNameForToken t) db (kf_name k)" by (simp add: served_def)
  moreover have "kf_name k = ft_name f" using k(2,3) by (simp add: mapFeatureForClient_def)
  ultimately have "\<not> fe_enabled g" using assms(6) k(2) by (simp add: mapFeatureForClient_def)
  then show "\<exists>g. proxy_getToggle (ft_name f) (loadDataForToken db r) = Some g \<and> \<not> fe_enabled g"
    using g by (simp add: proxy_getToggle_def loaded)
qed

lemma tables1_own: "own_names (fd_features tables1)"
  by (simp add: own_names_def own_key_def inherited_names_def client_fixtures)

theorem off_feature_missing_witness:
  "cache_getToggle ''base'' ftoken1 (refreshData tables1 new_cache) = None \<and>
    (\<exists>g. proxy_getToggle ''base'' (loadDataForToken tables1 \<lparr>pr_token = ftoken1, pr_features = None, pr_segments = []\<rparr>) = Some g \<and> \<not> fe_enabled g)"
proof -
  have "ft_name (frow1 ''base'' ''shop'') = ''base''" by (simp add: frow1_def)
  moreover have "frow1 ''base'' ''shop'' \<in> set (wanted (token_query ftoken1) tables1)"
    by (simp add: wanted_def token_query_def no_query_def query_selects_def filterByArchived_def tables1_def frow1_def ftoken1_def)
  moreover have "\<not> on_in ''default'' tables1 ''base''" by (simp add: on_in_def tables1_def)
  ultimately show ?thesis
    using off_feature_missing [OF tables1_ok tables1_own, of ftoken1 "frow1 ''base'' ''shop''"
        "\<lparr>pr_token = ftoken1, pr_features = None, pr_segments = []\<rparr>" new_cache] own_default by simp
qed


section \<open>Runs of the frontend API\<close>

text \<open>
  Requests of tokens, each secret that of one token, revisions, the timers of repositories, and the removal of clients; \<open>seen\<close> are the tables at the
  times of the calls.
\<close>

inductive frontend_step :: "sdk \<Rightarrow> (string \<Rightarrow> api_user) \<Rightarrow> feature_db set \<Rightarrow> frontend_service \<Rightarrow> frontend_service \<Rightarrow> bool"
  for k tok seen where
  ask: "getFrontendApiFeatures k t c random db s = Inr (fs, s') \<Longrightarrow> tok (au_secret t) = t \<Longrightarrow> db \<in> seen \<Longrightarrow> frontend_step k tok seen s s'"
| ask_new: "getNewFrontendApiFeatures k t c random s = Inr (fs, s') \<Longrightarrow> tok (au_secret t) = t \<Longrightarrow> frontend_step k tok seen s s'"
| forget: "frontend_step k tok seen s (deleteClientForFrontendApiToken secret s)"
| poll: "db \<in> seen \<Longrightarrow> frontend_step k tok seen s (s\<lparr>fv_clients := dataPolling secret db (fv_clients s)\<rparr>)"
| revise: "db \<in> seen \<Longrightarrow> frontend_step k tok seen s (onUpdateRevisionEvent db s)"

definition new_frontend :: frontend_service where
  "new_frontend = \<lparr>fv_clients = [], fv_newClients = [], fv_cache = new_cache\<rparr>"

definition row_of :: "feature_db \<Rightarrow> string \<Rightarrow> string \<Rightarrow> bool" where
  "row_of db name project = (\<exists>f\<in>set (fd_features db). filterByArchived False f \<and> ft_name f = name \<and> ft_project f = project)"

definition held :: "feature_db set \<Rightarrow> sdk_feature \<Rightarrow> bool" where
  "held seen g = (\<exists>db\<in>seen. row_of db (fe_name g) (sf_project g))"

definition in_projects :: "api_user \<Rightarrow> sdk_feature \<Rightarrow> bool" where
  "in_projects t g = (ALL_PROJECTS \<in> set (au_projects t) \<or> sf_project g \<in> set (au_projects t))"

definition client_scoped :: "(string \<Rightarrow> api_user) \<Rightarrow> feature_db set \<Rightarrow> string \<Rightarrow> proxy_repository \<Rightarrow> bool" where
  "client_scoped tok seen x r = (pr_token r = tok x \<and>
     list_all (\<lambda>g. held seen g \<and> in_projects (tok x) g) (default [] (pr_features r)))"

definition service_scoped :: "(string \<Rightarrow> api_user) \<Rightarrow> feature_db set \<Rightarrow> frontend_service \<Rightarrow> bool" where
  "service_scoped tok seen s = (list_all (\<lambda>(x, r). client_scoped tok seen x r) (fv_clients s) \<and>
     list_all (\<lambda>(x, t). tok x = t) (fv_newClients s) \<and>
     list_all (\<lambda>(env, xs). list_all (\<lambda>(n, g). held seen g) xs) (gc_features (fv_cache s)))"

lemma list_all_update: "list_all P m \<Longrightarrow> P (x, y) \<Longrightarrow> list_all P (AList.update x y m)"
  by (induction m) auto

lemma list_all_delete: "list_all P m \<Longrightarrow> list_all P (AList.delete x m)"
  by (induction m) auto

lemma list_all_map_of: "list_all P m \<Longrightarrow> map_of m x = Some y \<Longrightarrow> P (x, y)"
  by (auto simp: list_all_iff dest: map_of_SomeD)

lemma load_scoped:
  assumes "db \<in> seen" "client_scoped tok seen x r"
  shows "client_scoped tok seen x (loadDataForToken db r)"
proof (cases "featureService_getClientFeatures (token_query (pr_token r)) db")
  case (Inl e)
  then show ?thesis using assms(2) by (simp add: loadDataForToken_def)
next
  case (Inr fs)
  have t: "pr_token r = tok x" using assms(2) by (simp add: client_scoped_def)
  obtain fs' where fs': "client_getAll FrontendRequest False (token_query (tok x)) db = Inr fs'" "fs = map pick_client fs'"
    using Inr t by (auto simp: featureService_getClientFeatures_def getFrontendApiClient_def bindR_Inr_iff)
  have "held seen (mapFeatureForClient (pick_client k)) \<and> in_projects (tok x) (mapFeatureForClient (pick_client k))" if k: "k \<in> set fs'" for k
  proof -
    obtain f where f: "f \<in> set (wanted (token_query (tok x)) db)" "kf_name k = ft_name f" "kf_project k = ft_project f"
      using client_getAll_wanted [OF fs'(1) k] by blast
    then have "row_of db (kf_name k) (kf_project k)" by (auto simp: wanted_def row_of_def)
    moreover have "in_scope (token_query (tok x)) k" using f by (intro wanted_in_scope)
    ultimately show ?thesis using assms(1)
      by (auto simp: held_def in_projects_def in_scope_def token_query_def mapFeatureForClient_def pick_client_def)
  qed
  then show ?thesis using Inr t by (simp add: client_scoped_def loadDataForToken_def mapFeaturesForClient_def fs'(2) list_all_iff)
qed

lemma client_scoped_new: "tok (au_secret t) = t \<Longrightarrow> db \<in> seen \<Longrightarrow>
  client_scoped tok seen (au_secret t) (loadDataForToken db \<lparr>pr_token = t, pr_features = None, pr_segments = []\<rparr>)"
  by (rule load_scoped) (simp_all add: client_scoped_def)

lemma clientFor_scoped:
  assumes "clientForFrontendApiToken t db s = Inr (r, s')" "service_scoped tok seen s" "tok (au_secret t) = t" "db \<in> seen"
  shows "service_scoped tok seen s' \<and> client_scoped tok seen (au_secret t) r"
proof (cases "map_of (fv_clients s) (au_secret t)")
  case None
  let ?r = "loadDataForToken db \<lparr>pr_token = t, pr_features = None, pr_segments = []\<rparr>"
  have "r = ?r" "s' = s\<lparr>fv_clients := AList.update (au_secret t) ?r (fv_clients s)\<rparr>"
    using assms(1) None by (auto simp: clientForFrontendApiToken_def bindR_Inr_iff Let_def)
  then show ?thesis using assms(2) client_scoped_new [of tok t db seen, OF assms(3,4)] by (simp add: service_scoped_def list_all_update)
next
  case (Some r')
  then have "r = r'" "s' = s" using assms(1) by (auto simp: clientForFrontendApiToken_def bindR_Inr_iff)
  moreover have "client_scoped tok seen (au_secret t) r'"
    using list_all_map_of [of "\<lambda>(x, r). client_scoped tok seen x r", OF _ Some] assms(2) by (simp add: service_scoped_def)
  ultimately show ?thesis using assms(2) by simp
qed

lemma newClientFor_scoped:
  assumes "newClientForFrontendApiToken t s = Inr (t', s')" "service_scoped tok seen s" "tok (au_secret t) = t"
  shows "service_scoped tok seen s' \<and> t' = t \<and> fv_cache s' = fv_cache s"
proof (cases "map_of (fv_newClients s) (au_secret t)")
  case None
  then have "t' = t" "s' = s\<lparr>fv_newClients := AList.update (au_secret t) t (fv_newClients s)\<rparr>"
    using assms(1) by (auto simp: newClientForFrontendApiToken_def bindR_Inr_iff)
  then show ?thesis using assms(2,3) by (simp add: service_scoped_def list_all_update)
next
  case (Some t0)
  then have "t' = t0" "s' = s" using assms(1) by (auto simp: newClientForFrontendApiToken_def bindR_Inr_iff)
  moreover have "tok (au_secret t) = t0"
    using list_all_map_of [of "\<lambda>(x, t). tok x = t", OF _ Some] assms(2) by (simp add: service_scoped_def)
  ultimately show ?thesis using assms(2,3) by simp
qed

text \<open>What the cache holds.\<close>

definition kept_row :: "feature_db \<Rightarrow> client_feature \<Rightarrow> bool" where
  "kept_row db k = row_of db (kf_name k) (kf_project k)"

lemma aggregate_kept:
  assumes "list_all (\<lambda>r. row_of db (ft_name (jr_feature r)) (ft_project (jr_feature r))) rows"
  shows "list_all (\<lambda>(env, xs). list_all (\<lambda>(n, k). kept_row db k) xs) (foldl aggregate_row [] rows)"
  using assms
proof (induction rows rule: rev_induct)
  case (snoc r rows)
  let ?acc = "foldl aggregate_row [] rows" and ?env = "en_environment (the (jr_env r))" and ?n = "ft_name (jr_feature r)"
  let ?fs = "default [] (map_of ?acc ?env)"
  have IH: "list_all (\<lambda>(env, xs). list_all (\<lambda>(n, k). kept_row db k) xs) ?acc" using snoc by simp
  have fs: "list_all (\<lambda>(n, k). kept_row db k) ?fs"
    using list_all_map_of [OF IH, of ?env] by (cases "map_of ?acc ?env") auto
  have "kept_row db (add_read_row (map_of ?fs ?n) r)"
  proof (cases "map_of ?fs ?n")
    case None
    then show ?thesis using snoc.prems by (simp add: kept_row_def add_read_row_def base_feature_def Let_def)
  next
    case (Some k)
    then have "kept_row db k" using list_all_map_of [OF fs Some] by simp
    then show ?thesis using Some by (simp add: kept_row_def add_read_row_def Let_def)
  qed
  then have "list_all (\<lambda>(env, xs). list_all (\<lambda>(n, k). kept_row db k) xs) (aggregate_row ?acc r)"
    using IH fs unfolding aggregate_row_def [of ?acc r] Let_def by (simp add: list_all_update)
  then show ?case by simp
qed simp

lemma refresh_kept: "db \<in> seen \<Longrightarrow> list_all (\<lambda>(env, xs). list_all (\<lambda>(n, g). held seen g) xs) (gc_features (refreshData db c))"
proof -
  assume db: "db \<in> seen"
  have "list_all (\<lambda>r. row_of db (ft_name (jr_feature r)) (ft_project (jr_feature r))) (read_model_rows db)"
    by (auto simp: list_all_iff read_model_rows_iff row_of_def)
  note kept = aggregate_kept [OF this]
  have "held seen (mapFeatureForClient (clean_read_feature k))" if "kept_row db k" for k
    using that db by (auto simp: held_def kept_row_def mapFeatureForClient_def clean_read_feature_def)
  then show ?thesis using kept unfolding refreshData_def mapFeatures_def readModel_features_def getAggregatedData_def
    by (simp add: list.pred_map comp_def case_prod_unfold) (metis (no_types, lifting) list.pred_mono_strong)
qed

lemma frontend_step_scoped:
  assumes "frontend_step k tok seen s s'" "service_scoped tok seen s"
  shows "service_scoped tok seen s'"
  using assms
proof cases
  case (ask t c random db fs)
  then show ?thesis using clientFor_scoped [OF _ assms(2)] by (auto simp: getFrontendApiFeatures_def bindR_Inr_iff)
next
  case (ask_new t c random fs)
  then show ?thesis using newClientFor_scoped [OF _ assms(2)] by (auto simp: getNewFrontendApiFeatures_def bindR_Inr_iff Let_def)
next
  case (forget secret)
  then show ?thesis using assms(2) by (simp add: deleteClientForFrontendApiToken_def service_scoped_def list_all_delete)
next
  case (poll db secret)
  have "list_all (\<lambda>(x, r). client_scoped tok seen x r) (dataPolling secret db (fv_clients s))"
    using assms(2) load_scoped [OF poll(2)] by (fastforce simp: service_scoped_def dataPolling_def list_all_iff)
  then show ?thesis using assms(2) by (simp add: poll(1) service_scoped_def)
next
  case (revise db)
  have "list_all (\<lambda>(x, r). client_scoped tok seen x r) (map (\<lambda>(x, r). (x, loadDataForToken db r)) (fv_clients s))"
    using assms(2) load_scoped [OF revise(2)] by (auto simp: service_scoped_def list_all_iff)
  then show ?thesis using assms(2) refresh_kept [OF revise(2)] by (simp add: revise(1) onUpdateRevisionEvent_def service_scoped_def)
qed

lemma frontend_reachable_scoped:
  "(frontend_step k tok seen)\<^sup>*\<^sup>* new_frontend s \<Longrightarrow> service_scoped tok seen s"
proof (induction rule: rtranclp_induct)
  case base
  then show ?case by (simp add: service_scoped_def new_frontend_def new_cache_def)
qed (rule frontend_step_scoped)


definition lists_definitions :: "sdk \<Rightarrow> bool" where
  "lists_definitions k = (\<forall>ts. set (sk_definitions k ts) \<subseteq> set ts)"

lemma evaluated_names:
  "lists_definitions k \<Longrightarrow> x \<in> set (evaluate_frontend k ts getT getS c) \<Longrightarrow> \<exists>g\<in>set ts. fe_name g = ff_name x"
  by (auto simp: evaluate_frontend_def lists_definitions_def) blast

lemma old_answer_scoped:
  assumes "getFrontendApiFeatures k t c random db s = Inr (fs, s')" "service_scoped tok seen s" "tok (au_secret t) = t" "db \<in> seen"
    and "lists_definitions k" "x \<in> set fs"
  shows "\<exists>g. held seen g \<and> in_projects t g \<and> fe_name g = ff_name x"
proof -
  obtain r where r: "clientForFrontendApiToken t db s = Inr (r, s')"
    "fs = evaluate_frontend k (default [] (pr_features r)) (\<lambda>n. proxy_getToggle n r) (\<lambda>i. proxy_getSegment i r) (with_session random c)"
    using assms(1) by (auto simp: getFrontendApiFeatures_def bindR_Inr_iff)
  obtain g where "g \<in> set (default [] (pr_features r))" "fe_name g = ff_name x"
    using evaluated_names [OF assms(5)] assms(6) r(2) by blast
  then show ?thesis using clientFor_scoped [OF r(1) assms(2-4)] assms(3) by (auto simp: client_scoped_def list_all_iff)
qed

lemma new_answer_scoped:
  assumes "getNewFrontendApiFeatures k t c random s = Inr (fs, s')" "service_scoped tok seen s" "tok (au_secret t) = t"
    and "lists_definitions k" "x \<in> set fs"
  shows "\<exists>g. held seen g \<and> in_projects t g \<and> fe_name g = ff_name x"
proof -
  obtain t' where t': "newClientForFrontendApiToken t s = Inr (t', s')"
    "fs = evaluate_frontend k (cache_getToggles t' (fv_cache s')) (\<lambda>n. cache_getToggle n t' (fv_cache s'))
       (\<lambda>i. cache_getSegment i (fv_cache s')) (with_session random c)"
    using assms(1) by (auto simp: getNewFrontendApiFeatures_def bindR_Inr_iff Let_def)
  have s: "service_scoped tok seen s'" "t' = t" using newClientFor_scoped [OF t'(1) assms(2,3)] by simp_all
  obtain g where g: "g \<in> set (cache_getToggles t (fv_cache s'))" "fe_name g = ff_name x"
    using evaluated_names [OF assms(4)] assms(5) t'(2) s(2) by blast
  let ?xs = "getTogglesByEnvironment (environmentNameForToken t) (fv_cache s')"
  have listed: "g \<in> set (object_values ?xs)" "in_projects t g"
    using g(1) by (auto simp: cache_getToggles_def filterTogglesByProjects_def in_projects_def ALL_PROJECTS_def split: if_splits)
  have "list_all (\<lambda>(env, xs). list_all (\<lambda>(n, g). held seen g) xs) (gc_features (fv_cache s'))"
    using s(1) by (simp add: service_scoped_def)
  from list_all_map_of [OF this, of "environmentNameForToken t"] have "list_all (\<lambda>(n, g). held seen g) ?xs"
    by (cases "map_of (gc_features (fv_cache s')) (environmentNameForToken t)") (auto simp: getTogglesByEnvironment_def)
  then have "held seen g" using object_values_in [OF listed(1)] by (auto simp: list_all_iff)
  with listed(2) g(2) show ?thesis by blast
qed

text \<open>
  C10: after any requests, removals and revisions, whichever of the two frontend APIs the flags choose, a token that is not for all
  projects is answered with features of its own projects only, which were there, not archived, when the tables were read.
\<close>

theorem frontend_scope:
  assumes "(frontend_step k tok seen)\<^sup>*\<^sup>* new_frontend s" and "lists_definitions k" and "tok (au_secret t) = t" and "db \<in> seen"
    and "ALL_PROJECTS \<notin> set (au_projects t)" and "frontend_api_getFeatures cfg k flags t v ip random db s = Inr (fs, s')" and "x \<in> set fs"
  shows "\<exists>db\<in>seen. \<exists>f\<in>set (fd_features db). filterByArchived False f \<and> ft_name f = ff_name x \<and> ft_project f \<in> set (au_projects t)"
proof -
  have s: "service_scoped tok seen s" by (rule frontend_reachable_scoped [OF assms(1)])
  have "\<exists>fs' s1 c. x \<in> set fs' \<and>
    (getFrontendApiFeatures k t c random db s = Inr (fs', s1) \<or> getNewFrontendApiFeatures k t c random s = Inr (fs', s1))"
    using assms(6,7) by (auto simp: frontend_api_getFeatures_def Let_def bindR_Inr_iff split: if_splits) blast+
  then have "\<exists>g. held seen g \<and> in_projects t g \<and> fe_name g = ff_name x"
    using old_answer_scoped [OF _ s assms(3,4,2)] new_answer_scoped [OF _ s assms(3,2)] by blast
  then obtain g db' f where "db' \<in> seen" "f \<in> set (fd_features db')" "filterByArchived False f" "ft_name f = ff_name x"
    "ft_project f \<in> set (au_projects t)"
    using assms(5) by (auto simp: held_def row_of_def in_projects_def)
  then show ?thesis by blast
qed

text \<open>An SDK for which every feature is on.\<close>

definition sdk1 :: sdk where
  "sdk1 = \<lparr>sk_definitions = (\<lambda>ts. ts), sk_isEnabled = (\<lambda>_ _ _ _. True), sk_getVariant = (\<lambda>_ _ _ _. getDefaultVariant)\<rparr>"

definition flags1 :: frontend_flags where
  "flags1 = \<lparr>fl_embedProxy = True, fl_globalFrontendApiCache = False, fl_returnGlobalFrontendApiCache = False\<rparr>"

definition url1 :: url_context where
  "url1 = \<lparr>uc_fields = Map.empty, uc_properties = Map.empty\<rparr>"

lemma ftoken1_answers: "\<exists>fs. featureService_getClientFeatures (token_query ftoken1) tables1 = Inr fs \<and> fs \<noteq> []"
proof -
  have "own_names (wanted (token_query ftoken1) tables1)"
    using tables1_own by (auto simp: own_names_def wanted_def list_all_iff)
  then obtain fs ss where fs: "featureService_getClientFeatures (token_query ftoken1) tables1 = Inr fs"
    "set ss = set (wanted (token_query ftoken1) tables1)"
    "list_all2 (served not_told enabled_only (environmentNameForToken ftoken1) tables1) ss fs"
    by (rule featureService_served [OF tables1_ok]) simp_all
  have "frow1 ''base'' ''shop'' \<in> set ss" unfolding fs(2)
    by (simp add: wanted_def token_query_def no_query_def query_selects_def filterByArchived_def tables1_def frow1_def ftoken1_def)
  then have "fs \<noteq> []" using list_all2_set1_ex [OF fs(3)] by force
  with fs(1) show ?thesis by blast
qed

lemma ftoken1_expected: "assertExpectedTokenType ftoken1 = Inr ()"
  by (simp add: assertExpectedTokenType_def ftoken1_def throw_if_def)

theorem frontend_scope_witness:
  "\<exists>fs s' x. frontend_api_getFeatures (cc_features ccfg1) sdk1 flags1 ftoken1 url1 ''ip'' ''1'' tables1 new_frontend = Inr (fs, s') \<and>
    x \<in> set fs \<and> (\<exists>db\<in>{tables1}. \<exists>f\<in>set (fd_features db). filterByArchived False f \<and> ft_name f = ff_name x \<and> ft_project f \<in> {''shop''})"
proof -
  obtain cs where cs: "featureService_getClientFeatures (token_query ftoken1) tables1 = Inr cs" "cs \<noteq> []" using ftoken1_answers by blast
  have "\<exists>fs s'. frontend_api_getFeatures (cc_features ccfg1) sdk1 flags1 ftoken1 url1 ''ip'' ''1'' tables1 new_frontend = Inr (fs, s') \<and> fs \<noteq> []"
    using cs ftoken1_expected
    by (simp add: frontend_api_getFeatures_def flags1_def getFrontendApiFeatures_def clientForFrontendApiToken_def new_frontend_def
        Let_def loadDataForToken_def evaluate_frontend_def sdk1_def mapFeaturesForClient_def)
  then obtain fs s' x where x: "frontend_api_getFeatures (cc_features ccfg1) sdk1 flags1 ftoken1 url1 ''ip'' ''1'' tables1 new_frontend = Inr (fs, s')"
    "x \<in> set fs" by (metis list.set_sel(1))
  have "\<exists>db\<in>{tables1}. \<exists>f\<in>set (fd_features db). filterByArchived False f \<and> ft_name f = ff_name x \<and> ft_project f \<in> set (au_projects ftoken1)"
    by (rule frontend_scope [where tok = "\<lambda>_. ftoken1", OF rtranclp.rtrancl_refl _ _ _ _ x])
      (simp_all add: lists_definitions_def sdk1_def ftoken1_def ALL_PROJECTS_def)
  then have "\<exists>db\<in>{tables1}. \<exists>f\<in>set (fd_features db). filterByArchived False f \<and> ft_name f = ff_name x \<and> ft_project f \<in> {''shop''}"
    by (simp add: ftoken1_def)
  with x show ?thesis by blast
qed




end
