(* ===== verification/Tags.thy ===== *)
theory Tags
  imports FeatureTables
begin

text \<open>
  Tags (\<open>tag-type-store.ts\<close>, \<open>tag-type-service.ts\<close>, \<open>db/tag-store.ts\<close>, \<open>tag-service.ts\<close>,
  \<open>db/feature-tag-store.ts\<close>, \<open>feature-tag-service.ts\<close>) and the handlers that change the tags of
  features. The tables of tag types and tags stand beside those of the features, whose \<open>fd_tags\<close> is
  the table \<open>feature_tag\<close>; who set a tag and when is not kept.
\<close>

section \<open>Tables and events\<close>

text \<open>\<open>ITagType\<close> as a row, and as it is sent: an absent field is \<open>None\<close>, an icon may also be \<open>null\<close>.\<close>

record tag_type =
  tt_name :: string
  tt_description :: "string option"
  tt_icon :: "string option"

record tag_type_input =
  tp_name :: "string option"
  tp_description :: "string option"
  tp_icon :: "string option option"

record tag =
  ta_type :: string
  ta_value :: string

datatype tag_event_kind =
    TagTypeCreated tag_type_input | TagTypeUpdated tag_type_input | TagTypeDeleted tag_type
  | TagCreated tag | TagDeleted tag
  | FeatureTagged tag
  | FeatureUntagged tag "tag list option" \<comment> \<open>preData, the tags before\<close>

record tag_event =
  te_kind :: tag_event_kind
  te_feature :: "string option"
  te_project :: "string option"
  te_createdBy :: string
  te_createdByUserId :: int

record tagging =
  tz_db :: feature_db
  tz_types :: "tag_type list"
  tz_tags :: "tag list"
  tz_events :: "tag_event list"

type_synonym 'a tag_op = "(tagging, 'a) op"

definition tag_store_event :: "tag_event_kind \<Rightarrow> string option \<Rightarrow> string option \<Rightarrow> string \<Rightarrow> int \<Rightarrow> unit tag_op" where
  "tag_store_event kind feature project by uid = modS (\<lambda>s. s\<lparr>tz_events := tz_events s @
     [\<lparr>te_kind = kind, te_feature = feature, te_project = project, te_createdBy = by, te_createdByUserId = uid\<rparr>]\<rparr>)"

definition tag_of :: "tag_row \<Rightarrow> tag" where
  "tag_of r = \<lparr>ta_type = tg_type r, ta_value = tg_value r\<rparr>"

definition featureAndTagToRow :: "string \<Rightarrow> tag \<Rightarrow> tag_row" where
  "featureAndTagToRow feature t = \<lparr>tg_feature = feature, tg_type = ta_type t, tg_value = ta_value t\<rparr>"


section \<open>Schemas\<close>

text \<open>What Joi reports of a string with bounds on its length, and of one that must be URL friendly.\<close>

definition length_errors :: "feature_config \<Rightarrow> string \<Rightarrow> nat \<Rightarrow> nat \<Rightarrow> string \<Rightarrow> joi_detail list" where
  "length_errors cfg label lo hi s =
     (if length s < lo
      then [\<lparr>jd_message = label @ '' length must be at least '' @ show_nat lo @ '' characters long'', jd_value = Some (fc_json cfg s)\<rparr>]
      else if hi < length s
      then [\<lparr>jd_message = label @ '' length must be less than or equal to '' @ show_nat hi @ '' characters long'',
             jd_value = Some (fc_json cfg s)\<rparr>]
      else [])"

definition string_errors :: "feature_config \<Rightarrow> string \<Rightarrow> nat \<Rightarrow> nat \<Rightarrow> string \<Rightarrow> joi_detail list" where
  "string_errors cfg label lo hi s =
     (if s = [] then [\<lparr>jd_message = label @ '' is not allowed to be empty'', jd_value = None\<rparr>]
      else length_errors cfg label lo hi s)"

definition url_string_errors :: "feature_config \<Rightarrow> string \<Rightarrow> nat \<Rightarrow> nat \<Rightarrow> string \<Rightarrow> joi_detail list" where
  "url_string_errors cfg label lo hi s =
     (if s \<noteq> [] \<and> \<not> url_friendly s
      then [\<lparr>jd_message = label @ '' must be URL friendly'', jd_value = Some (fc_json cfg s)\<rparr>]
      else string_errors cfg label lo hi s)"

definition TAG_MIN_LENGTH :: nat where
  "TAG_MIN_LENGTH = 2"

definition TAG_MAX_LENGTH :: nat where
  "TAG_MAX_LENGTH = 50"

text \<open>A tag that is sent has both its fields: the schema of every route requires them.\<close>

definition tagSchema :: "feature_config \<Rightarrow> tag \<Rightarrow> exn + unit" where
  \<open>tagSchema cfg t = joi_error
     (string_errors cfg ''"value"'' TAG_MIN_LENGTH TAG_MAX_LENGTH (ta_value t) @
      url_string_errors cfg ''"type"'' TAG_MIN_LENGTH TAG_MAX_LENGTH (ta_type t))\<close>

definition tagTypeSchema :: "feature_config \<Rightarrow> tag_type_input \<Rightarrow> exn + unit" where
  \<open>tagTypeSchema cfg t = joi_error (case tp_name t of
       None \<Rightarrow> [\<lparr>jd_message = ''"name" is required'', jd_value = None\<rparr>]
     | Some name \<Rightarrow> url_string_errors cfg ''"name"'' 2 50 name)\<close>


section \<open>Tag types\<close>

definition tag_types_getAll :: "tagging \<Rightarrow> tag_type list" where
  "tag_types_getAll = tz_types"

definition tag_types_get :: "string \<Rightarrow> tagging \<Rightarrow> exn + tag_type" where
  "tag_types_get name s = (case find (\<lambda>t. tt_name t = name) (tz_types s) of
       None \<Rightarrow> Inl (Api (NotFoundError (Some ''Could not find tag-type'')))
     | Some t \<Rightarrow> Inr t)"

definition tag_types_exists :: "string \<Rightarrow> tagging \<Rightarrow> bool" where
  "tag_types_exists name s = list_ex (\<lambda>t. tt_name t = name) (tz_types s)"

text \<open>The row of a tag type that passed the schema, which makes its name present.\<close>

definition type_row :: "tag_type_input \<Rightarrow> tag_type" where
  "type_row t = \<lparr>tt_name = default [] (tp_name t), tt_description = tp_description t, tt_icon = default None (tp_icon t)\<rparr>"

definition tag_types_create :: "tag_type_input \<Rightarrow> unit tag_op" where
  "tag_types_create t s =
     (if tag_types_exists (tt_name (type_row t)) s
      then (Inl (fd_unique_error (tz_db s) ''tag_types_pkey''), s)
      else (Inr (), s\<lparr>tz_types := tz_types s @ [type_row t]\<rparr>))"

text \<open>A deletion takes the tags of the type with it, and these the tags of the features (\<open>ON DELETE CASCADE\<close>).\<close>

definition delete_tags :: "(tag \<Rightarrow> bool) \<Rightarrow> tagging \<Rightarrow> tagging" where
  "delete_tags p s = s\<lparr>tz_tags := filter (\<lambda>t. \<not> p t) (tz_tags s),
     tz_db := (tz_db s)\<lparr>fd_tags := filter (\<lambda>r. \<not> (p (tag_of r) \<and> List.member (tz_tags s) (tag_of r))) (fd_tags (tz_db s))\<rparr>\<rparr>"

definition delete_types :: "(tag_type \<Rightarrow> bool) \<Rightarrow> tagging \<Rightarrow> tagging" where
  "delete_types p s =
     (let gone = map tt_name (filter p (tz_types s)) in
      delete_tags (\<lambda>t. List.member gone (ta_type t)) (s\<lparr>tz_types := filter (\<lambda>t. \<not> p t) (tz_types s)\<rparr>))"

definition tag_types_delete :: "string \<Rightarrow> tagging \<Rightarrow> tagging" where
  "tag_types_delete name = delete_types (\<lambda>t. tt_name t = name)"

definition tag_types_deleteAll :: "tagging \<Rightarrow> tagging" where
  "tag_types_deleteAll = delete_types (\<lambda>_. True)"

text \<open>Rows whose key the table has, or an earlier row of the statement, are left out; the others are returned.\<close>

fun insert_ignoring :: "('a \<Rightarrow> 'k) \<Rightarrow> 'a list \<Rightarrow> 'a list \<Rightarrow> 'a list" where
  "insert_ignoring key table [] = []"
| "insert_ignoring key table (r # rs) =
     (if List.member (map key table) (key r) then insert_ignoring key table rs
      else r # insert_ignoring key (r # table) rs)"

definition tag_types_bulkImport :: "tag_type_input list \<Rightarrow> tagging \<Rightarrow> tag_type list \<times> tagging" where
  "tag_types_bulkImport ts s =
     (let rows = insert_ignoring tt_name (tz_types s) (map type_row ts) in (rows, s\<lparr>tz_types := tz_types s @ rows\<rparr>))"

text \<open>An update that sets no column is an error of the query builder.\<close>

definition tag_types_update :: "tag_type_input \<Rightarrow> unit tag_op" where
  "tag_types_update t s =
     (if tp_description t = None \<and> tp_icon t = None then (Inl (JsError ''Error'' (fd_message (tz_db s) ''empty update'')), s)
      else (Inr (), s\<lparr>tz_types := map (\<lambda>r. if tt_name r = tt_name (type_row t)
             then r\<lparr>tt_description := (if tp_description t = None then tt_description r else tp_description t),
                    tt_icon := default (tt_icon r) (tp_icon t)\<rparr> else r) (tz_types s)\<rparr>))"

definition tag_type_by :: "string \<Rightarrow> string" where
  "tag_type_by userName = (if userName = [] then SYSTEM_USER_username else userName)"

definition tag_type_validateUnique :: "string \<Rightarrow> unit tag_op" where
  "tag_type_validateUnique name s =
     (throw_if (tag_types_exists name s)
        (Api (NameExistsError (''There already exists a tag-type with the name '' @ name))), s)"

definition createTagType :: "feature_config \<Rightarrow> tag_type_input \<Rightarrow> string \<Rightarrow> int \<Rightarrow> tag_type_input tag_op" where
  "createTagType cfg t userName uid =
     thenS (tryS (\<lambda>_. tagTypeSchema cfg t))
       (thenS (tag_type_validateUnique (tt_name (type_row t)))
         (thenS (tag_types_create t)
           (thenS (tag_store_event (TagTypeCreated t) None None (tag_type_by userName) uid) (returnS t))))"

definition validateTagType :: "feature_config \<Rightarrow> tag_type_input option \<Rightarrow> unit tag_op" where
  "validateTagType cfg t = (case t of
       None \<Rightarrow> returnS ()
     | Some t \<Rightarrow> thenS (tryS (\<lambda>_. tagTypeSchema cfg t))
         (whenS (truthy (tp_name t)) (tag_type_validateUnique (tt_name (type_row t)))))"

definition deleteTagType :: "string \<Rightarrow> string \<Rightarrow> int \<Rightarrow> unit tag_op" where
  "deleteTagType name userName uid =
     bindS (tryS (tag_types_get name)) (\<lambda>t.
     thenS (modS (tag_types_delete name))
       (tag_store_event (TagTypeDeleted t) None None (tag_type_by userName) uid))"

text \<open>The type need not exist.\<close>

definition updateTagType :: "feature_config \<Rightarrow> tag_type_input \<Rightarrow> string \<Rightarrow> int \<Rightarrow> tag_type_input tag_op" where
  "updateTagType cfg t userName uid =
     thenS (tryS (\<lambda>_. tagTypeSchema cfg t))
       (thenS (tag_types_update t)
         (thenS (tag_store_event (TagTypeUpdated t) None None (tag_type_by userName) uid) (returnS t)))"

text \<open>The handlers of the tag types that change something run in a transaction.\<close>

definition createTagType_handler :: "feature_config \<Rightarrow> tag_type_input \<Rightarrow> string \<Rightarrow> int \<Rightarrow> tag_type_input tag_op" where
  "createTagType_handler cfg t userName uid = transactionS (createTagType cfg t userName uid)"

definition updateTagType_handler ::
  "feature_config \<Rightarrow> string \<Rightarrow> string option \<Rightarrow> string option option \<Rightarrow> string \<Rightarrow> int \<Rightarrow> tag_type_input tag_op" where
  "updateTagType_handler cfg name description icon userName uid =
     transactionS (updateTagType cfg \<lparr>tp_name = Some name, tp_description = description, tp_icon = icon\<rparr> userName uid)"

definition deleteTagType_handler :: "string \<Rightarrow> string \<Rightarrow> int \<Rightarrow> unit tag_op" where
  "deleteTagType_handler name userName uid = transactionS (deleteTagType name userName uid)"


section \<open>Tags\<close>

definition tags_getAll :: "tagging \<Rightarrow> tag list" where
  "tags_getAll = tz_tags"

definition getTagsByType :: "string \<Rightarrow> tagging \<Rightarrow> tag list" where
  "getTagsByType type s = filter (\<lambda>t. ta_type t = type) (tz_tags s)"

definition getTag :: "tag \<Rightarrow> tagging \<Rightarrow> exn + tag" where
  "getTag t s =
     (if List.member (tz_tags s) t then Inr t
      else Inl (Api (NotFoundError (Some (''No tag with type: ['' @ ta_type t @ ''] and value ['' @ ta_value t @ '']'')))))"

definition tags_exists :: "tag \<Rightarrow> tagging \<Rightarrow> bool" where
  "tags_exists t s = List.member (tz_tags s) t"

definition tags_create :: "tag \<Rightarrow> unit tag_op" where
  "tags_create t s =
     (if List.member (tz_tags s) t then (Inl (fd_unique_error (tz_db s) ''tags_pkey''), s)
      else if \<not> tag_types_exists (ta_type t) s then (Inl (fd_fk_error (tz_db s) ''tags_type_fkey''), s)
      else (Inr (), s\<lparr>tz_tags := tz_tags s @ [t]\<rparr>))"

definition tags_delete :: "tag \<Rightarrow> tagging \<Rightarrow> tagging" where
  "tags_delete t = delete_tags (\<lambda>u. u = t)"

definition tags_deleteAll :: "tagging \<Rightarrow> tagging" where
  "tags_deleteAll = delete_tags (\<lambda>_. True)"

definition tags_bulkImport :: "tag list \<Rightarrow> tag list tag_op" where
  "tags_bulkImport ts s =
     (let rows = insert_ignoring (\<lambda>t. t) (tz_tags s) ts in
      if list_ex (\<lambda>t. \<not> tag_types_exists (ta_type t) s) rows then (Inl (fd_fk_error (tz_db s) ''tags_type_fkey''), s)
      else (Inr rows, s\<lparr>tz_tags := tz_tags s @ rows\<rparr>))"

text \<open>A tag is an object without a \<open>toString\<close> of its own, so the message does not name it.\<close>

definition tag_validateUnique :: "tag \<Rightarrow> unit tag_op" where
  "tag_validateUnique t s =
     (throw_if (tags_exists t s) (Api (NameExistsError ''A tag of [object Object] already exists'')), s)"

definition validateTag :: "feature_config \<Rightarrow> tag \<Rightarrow> tag tag_op" where
  "validateTag cfg t = thenS (tryS (\<lambda>_. tagSchema cfg t)) (thenS (tag_validateUnique t) (returnS t))"

definition createTag :: "feature_config \<Rightarrow> tag \<Rightarrow> string \<Rightarrow> int \<Rightarrow> tag tag_op" where
  "createTag cfg t userName uid =
     thenS (validateTag cfg t)
       (thenS (tags_create t)
         (thenS (tag_store_event (TagCreated t) None None userName uid) (returnS t)))"

definition deleteTag :: "tag \<Rightarrow> string \<Rightarrow> int \<Rightarrow> unit tag_op" where
  "deleteTag t userName uid =
     thenS (modS (tags_delete t)) (tag_store_event (TagDeleted t) None None userName uid)"


section \<open>Tags of features\<close>

definition ftags_delete :: "tag_row \<Rightarrow> feature_db \<Rightarrow> feature_db" where
  "ftags_delete r db = db\<lparr>fd_tags := filter (\<lambda>x. x \<noteq> r) (fd_tags db)\<rparr>"

definition ftags_exists :: "tag_row \<Rightarrow> feature_db \<Rightarrow> bool" where
  "ftags_exists r db = List.member (fd_tags db) r"

text \<open>A missing row is read as an object all the same.\<close>

definition ftags_get :: "tag_row \<Rightarrow> feature_db \<Rightarrow> exn + tag_row" where
  "ftags_get r db =
     (if ftags_exists r db then Inr r
      else Inl (JsError ''TypeError'' ''Cannot read properties of undefined (reading 'feature_name')''))"

definition ftags_getAll :: "feature_db \<Rightarrow> tag_row list" where
  "ftags_getAll = fd_tags"

definition getAllTagsForFeature :: "string \<Rightarrow> feature_db \<Rightarrow> exn + tag list" where
  "getAllTagsForFeature feature db =
     (if features_exists feature db then Inr (map tag_of (filter (\<lambda>r. tg_feature r = feature) (fd_tags db)))
      else Inl (Api (NotFoundError (Some (''Could not find feature with name '' @ feature)))))"

definition getAllFeaturesForTag :: "string \<Rightarrow> feature_db \<Rightarrow> string list" where
  "getAllFeaturesForTag value db = map tg_feature (filter (\<lambda>r. tg_value r = value) (fd_tags db))"

definition getAllByFeatures :: "string list \<Rightarrow> feature_db \<Rightarrow> tag_row list" where
  "getAllByFeatures features db = sort_key tg_feature (filter (\<lambda>r. List.member features (tg_feature r)) (fd_tags db))"

text \<open>The column \<open>archived\<close> of \<open>features\<close> is gone, so this query always fails.\<close>

definition getAllFeatureTags :: "feature_db \<Rightarrow> exn + tag_row list" where
  "getAllFeatureTags db = Inl (DbError ''42703'' None None (fd_message db ''archived''))"

text \<open>The foreign keys of a row, in the order of their checks.\<close>

definition ftag_refused :: "tagging \<Rightarrow> tag_row \<Rightarrow> exn option" where
  "ftag_refused s r =
     (if \<not> features_exists (tg_feature r) (tz_db s) then Some (fd_fk_error (tz_db s) ''feature_tag_feature_name_fkey'')
      else if \<not> tags_exists (tag_of r) s then Some (fd_fk_error (tz_db s) ''feature_tag_tag_type_tag_value_fkey'')
      else None)"

definition tagFeature :: "string \<Rightarrow> tag \<Rightarrow> unit tag_op" where
  "tagFeature feature t s =
     (let r = featureAndTagToRow feature t in
      if List.member (fd_tags (tz_db s)) r then (Inr (), s)
      else case ftag_refused s r of
          Some e \<Rightarrow> (Inl e, s)
        | None \<Rightarrow> (Inr (), s\<lparr>tz_db := (tz_db s)\<lparr>fd_tags := fd_tags (tz_db s) @ [r]\<rparr>\<rparr>))"

definition tagFeatures :: "tag_row list \<Rightarrow> tag_row list tag_op" where
  "tagFeatures rs s =
     (let rows = insert_ignoring (\<lambda>r. r) (fd_tags (tz_db s)) rs in
      case find (\<lambda>r. ftag_refused s r \<noteq> None) rows of
        Some r \<Rightarrow> (Inl (the (ftag_refused s r)), s)
      | None \<Rightarrow> (Inr rows, s\<lparr>tz_db := (tz_db s)\<lparr>fd_tags := fd_tags (tz_db s) @ rows\<rparr>\<rparr>))"

definition untagFeatures :: "tag_row list \<Rightarrow> tagging \<Rightarrow> tagging" where
  "untagFeatures rs s =
     s\<lparr>tz_db := (tz_db s)\<lparr>fd_tags := filter (\<lambda>r. \<not> List.member rs r) (fd_tags (tz_db s))\<rparr>\<rparr>"

definition untagFeature :: "string \<Rightarrow> tag \<Rightarrow> tagging \<Rightarrow> tagging" where
  "untagFeature feature t s = s\<lparr>tz_db := ftags_delete (featureAndTagToRow feature t) (tz_db s)\<rparr>"

definition ftags_deleteAll :: "tagging \<Rightarrow> tagging" where
  "ftags_deleteAll s = s\<lparr>tz_db := (tz_db s)\<lparr>fd_tags := []\<rparr>\<rparr>"

definition listTags :: "string \<Rightarrow> tagging \<Rightarrow> exn + tag list" where
  "listTags feature s = getAllTagsForFeature feature (tz_db s)"

definition listFeatures :: "string \<Rightarrow> tagging \<Rightarrow> string list" where
  "listFeatures value s = getAllFeaturesForTag value (tz_db s)"

text \<open>
  A tag that is not there is created. Of the errors of the creation only a missing type is reported;
  any other, and any other error of the look-up, is dropped.
\<close>

definition is_fk_violation :: "exn \<Rightarrow> bool" where
  "is_fk_violation e = (case e of DbError code _ _ _ \<Rightarrow> code = FOREIGN_KEY_VIOLATION | _ \<Rightarrow> False)"

definition is_not_found :: "exn \<Rightarrow> bool" where
  "is_not_found e = (exn_name e = ''NotFoundError'')"

definition createTagIfNeeded :: "tag \<Rightarrow> string \<Rightarrow> int \<Rightarrow> unit tag_op" where
  \<open>createTagIfNeeded t userName uid =
     orElseS (thenS (tryS (getTag t)) (returnS ())) (\<lambda>e.
       whenS (is_not_found e)
         (orElseS (thenS (tags_create t) (tag_store_event (TagCreated t) None None userName uid)) (\<lambda>err.
            guardS (is_fk_violation err) (Api (BadDataError (''Tag type '' @ [CHR 0x27] @ ta_type t @ [CHR 0x27] @ '' does not exist''))))))\<close>

definition addTag :: "feature_config \<Rightarrow> string \<Rightarrow> tag \<Rightarrow> string \<Rightarrow> int \<Rightarrow> tag tag_op" where
  "addTag cfg feature t userName uid =
     bindS (tryS (\<lambda>s. features_get feature (tz_db s))) (\<lambda>toggle.
     thenS (tryS (\<lambda>_. tagSchema cfg t))
       (thenS (createTagIfNeeded t userName uid)
         (thenS (tagFeature feature t)
           (thenS (tag_store_event (FeatureTagged t) (Some feature) (Some (tf_project toggle)) userName uid)
             (returnS t)))))"

text \<open>The pairs of every feature with every tag.\<close>

definition feature_tag_pairs :: "string list \<Rightarrow> tag list \<Rightarrow> tag_row list" where
  "feature_tag_pairs features ts = concat (map (\<lambda>f. map (featureAndTagToRow f) ts) features)"

definition tag_events :: "(tag \<Rightarrow> tag_event_kind) \<Rightarrow> feature_toggle list \<Rightarrow> tag list \<Rightarrow> string \<Rightarrow> int \<Rightarrow> tag_event list" where
  "tag_events kind toggles ts userName uid = concat (map (\<lambda>f. map (\<lambda>t.
     \<lparr>te_kind = kind t, te_feature = Some (tf_name f), te_project = Some (tf_project f),
      te_createdBy = userName, te_createdByUserId = uid\<rparr>) ts) toggles)"

definition updateTags :: "string list \<Rightarrow> tag list \<Rightarrow> tag list \<Rightarrow> string \<Rightarrow> int \<Rightarrow> unit tag_op" where
  "updateTags features added removed userName uid =
     bindS (askS (\<lambda>s. getAllByNames features (tz_db s))) (\<lambda>toggles.
     thenS (allS (\<lambda>t. createTagIfNeeded t userName uid) added)
       (thenS (tagFeatures (feature_tag_pairs features added))
         (thenS (modS (untagFeatures (feature_tag_pairs features removed)))
           (modS (\<lambda>s. s\<lparr>tz_events := tz_events s @ tag_events FeatureTagged toggles added userName uid @
              tag_events (\<lambda>t. FeatureUntagged t None) toggles removed userName uid\<rparr>)))))"

definition removeTag :: "string \<Rightarrow> tag \<Rightarrow> string \<Rightarrow> int \<Rightarrow> unit tag_op" where
  "removeTag feature t userName uid =
     bindS (tryS (\<lambda>s. features_get feature (tz_db s))) (\<lambda>toggle.
     bindS (tryS (\<lambda>s. getAllTagsForFeature feature (tz_db s))) (\<lambda>ts.
     thenS (modS (untagFeature feature t))
       (tag_store_event (FeatureUntagged t (Some ts)) (Some feature) (Some (tf_project toggle)) userName uid)))"

text \<open>The handler of one feature's tags: all are added, then all are removed, then they are listed.\<close>

definition updateTags_handler ::
  "feature_config \<Rightarrow> string \<Rightarrow> tag list \<Rightarrow> tag list \<Rightarrow> string \<Rightarrow> int \<Rightarrow> tag list tag_op" where
  "updateTags_handler cfg feature added removed userName uid =
     thenS (allS (\<lambda>t. addTag cfg feature t userName uid) added)
       (thenS (allS (\<lambda>t. removeTag feature t userName uid) removed) (tryS (listTags feature)))"

text \<open>Features come and go beside their tags.\<close>

definition tagging_features :: "(feature_db \<Rightarrow> exn + 'a \<times> feature_db) \<Rightarrow> 'a tag_op" where
  "tagging_features f s = (case f (tz_db s) of Inl e \<Rightarrow> (Inl e, s) | Inr (x, db) \<Rightarrow> (Inr x, s\<lparr>tz_db := db\<rparr>))"

end
