(* ===== verification/TagFacts.thy ===== *)
theory TagFacts
  imports Tags
begin

text \<open>
  Facts about tags: what statements that ignore conflicts insert, the invariant of the three tables,
  which every operation preserves, and what the operations on many tags do.
\<close>

section \<open>Insertions that ignore conflicts\<close>

lemma insert_ignoring_subset: "set (insert_ignoring key table rs) \<subseteq> set rs"
  by (induction rs arbitrary: table) auto

lemma insert_ignoring_new: "r \<in> set (insert_ignoring key table rs) \<Longrightarrow> key r \<notin> key ` set table"
proof (induction rs arbitrary: table)
  case (Cons x rs)
  show ?case
  proof (cases "key x \<in> key ` set table \<or> r \<noteq> x")
    case True
    then show ?thesis using Cons.IH [of table] Cons.IH [of "x # table"] Cons.prems by (auto split: if_splits)
  qed (use Cons.prems in simp)
qed simp

lemma insert_ignoring_distinct: "distinct (map key (insert_ignoring key table rs))"
proof (induction rs arbitrary: table)
  case (Cons r rs)
  have "key r \<notin> key ` set (insert_ignoring key (r # table) rs)"
    using insert_ignoring_new [of _ key "r # table" rs] by fastforce
  with Cons show ?case by simp
qed simp

lemma insert_ignoring_keys: "key ` set (insert_ignoring key table rs) = key ` set rs - key ` set table"
  by (induction rs arbitrary: table) auto

text \<open>Where a row is its own key.\<close>

lemma insert_ignoring_rows [simp]: "set (insert_ignoring (\<lambda>r. r) table rs) = set rs - set table"
  using insert_ignoring_keys [of "\<lambda>r. r" table rs] by simp

lemma insert_ignoring_append:
  "distinct (map key table) \<Longrightarrow> distinct (map key (table @ insert_ignoring key table rs))"
proof -
  have "set (map key table) \<inter> set (map key (insert_ignoring key table rs)) = {}"
    by (auto simp: disjoint_iff) (metis imageI insert_ignoring_new)
  then show "distinct (map key table) \<Longrightarrow> ?thesis" by (simp add: insert_ignoring_distinct)
qed


section \<open>The invariant\<close>

text \<open>The keys of the tables and the foreign keys between them.\<close>

definition tags_ok :: "tagging \<Rightarrow> bool" where
  "tags_ok s =
     (distinct (map tt_name (tz_types s)) \<and> distinct (tz_tags s) \<and> distinct (fd_tags (tz_db s)) \<and>
      (\<forall>t\<in>set (tz_tags s). ta_type t \<in> tt_name ` set (tz_types s)) \<and>
      (\<forall>r\<in>set (fd_tags (tz_db s)). tag_of r \<in> set (tz_tags s) \<and> tg_feature r \<in> set (feature_names (tz_db s))))"

lemma tag_types_exists_iff: "tag_types_exists name s \<longleftrightarrow> name \<in> tt_name ` set (tz_types s)"
  by (auto simp: tag_types_exists_def list_ex_iff)

lemma features_exists_names: "features_exists name db \<longleftrightarrow> name \<in> set (feature_names db)"
  by (auto simp: features_exists_def feature_names_def list_ex_iff)

lemma tag_of_row [simp]: "tag_of (featureAndTagToRow f t) = t" "tg_feature (featureAndTagToRow f t) = f"
  by (simp_all add: tag_of_def featureAndTagToRow_def)

lemma row_of_tag [simp]: "featureAndTagToRow (tg_feature r) (tag_of r) = r"
  by (simp add: tag_of_def featureAndTagToRow_def)

lemma preserves_state: "(\<And>s. I s \<Longrightarrow> I (snd (m s))) \<Longrightarrow> preserves I m"
  by (simp add: preserves_def)

named_theorems keeps_tags \<open>operations that preserve the invariant of the tags\<close>

lemma keeps_event [keeps_tags]: "preserves tags_ok (tag_store_event k f p by uid)"
  by (rule preserves_state) (simp add: tag_store_event_def tags_ok_def)

lemma tags_ok_events [simp]: "tags_ok (s\<lparr>tz_events := es\<rparr>) = tags_ok s"
  by (simp add: tags_ok_def)

lemma delete_tags_ok: "tags_ok s \<Longrightarrow> tags_ok (delete_tags p s)"
  by (auto simp: tags_ok_def delete_tags_def feature_names_def image_subset_iff)

lemma delete_types_ok:
  assumes "tags_ok s"
  shows "tags_ok (delete_types p s)"
proof -
  have "ta_type t \<in> tt_name ` {ty \<in> set (tz_types s). \<not> p ty}"
    if "t \<in> set (tz_tags s)" "ta_type t \<notin> tt_name ` {ty \<in> set (tz_types s). p ty}" for t
  proof -
    have "ta_type t \<in> tt_name ` set (tz_types s)" using assms that(1) by (simp add: tags_ok_def)
    then show ?thesis using that(2) by blast
  qed
  moreover have "distinct (map tt_name (filter q (tz_types s)))" for q
    using assms by (simp add: tags_ok_def distinct_map_filter)
  ultimately show ?thesis
    using assms by (auto simp: tags_ok_def delete_types_def delete_tags_def feature_names_def Let_def)
qed

lemma keeps_tag_types_create [keeps_tags]: "preserves tags_ok (tag_types_create t)"
  by (rule preserves_state) (auto simp: tags_ok_def tag_types_create_def tag_types_exists_iff)

lemma keeps_tag_types_update [keeps_tags]: "preserves tags_ok (tag_types_update t)"
proof (rule preserves_state)
  fix s assume s: "tags_ok s"
  define f where "f = (\<lambda>r :: tag_type. if tt_name r = tt_name (type_row t)
      then r\<lparr>tt_description := (if tp_description t = None then tt_description r else tp_description t),
             tt_icon := default (tt_icon r) (tp_icon t)\<rparr> else r)"
  have name: "tt_name (f r) = tt_name r" for r by (simp add: f_def)
  then have "tt_name \<circ> f = tt_name" by (simp add: fun_eq_iff)
  with s name have "tags_ok (s\<lparr>tz_types := map f (tz_types s)\<rparr>)" by (simp add: tags_ok_def image_image)
  with s show "tags_ok (snd (tag_types_update t s))"
    by (simp add: tag_types_update_def f_def)
qed

lemma keeps_tags_create [keeps_tags]: "preserves tags_ok (tags_create t)"
  by (rule preserves_state) (auto simp: tags_ok_def tags_create_def tag_types_exists_iff)

lemma keeps_bulk_tags [keeps_tags]: "preserves tags_ok (tags_bulkImport ts)"
proof (rule preserves_state)
  fix s assume s: "tags_ok s"
  let ?rows = "insert_ignoring (\<lambda>t. t) (tz_tags s) ts"
  have "distinct (map (\<lambda>t. t) (tz_tags s @ ?rows))"
    using s insert_ignoring_append [of "\<lambda>t. t" "tz_tags s" ts] by (simp add: tags_ok_def)
  moreover have "\<forall>t\<in>set (tz_tags s @ ?rows). ta_type t \<in> tt_name ` set (tz_types s)"
    if "\<not> list_ex (\<lambda>t. \<not> tag_types_exists (ta_type t) s) ?rows"
    using that s by (auto simp: tags_ok_def tag_types_exists_iff list_ex_iff)
  ultimately show "tags_ok (snd (tags_bulkImport ts s))"
    using s by (auto simp: tags_bulkImport_def tags_ok_def Let_def)
qed

lemma tag_types_bulk_ok: "tags_ok s \<Longrightarrow> tags_ok (snd (tag_types_bulkImport ts s))"
  using insert_ignoring_append [of tt_name "tz_types s" "map type_row ts"]
  by (auto simp: tag_types_bulkImport_def tags_ok_def Let_def)

lemma ftag_refused_iff:
  "ftag_refused s r = None \<longleftrightarrow> tg_feature r \<in> set (feature_names (tz_db s)) \<and> tag_of r \<in> set (tz_tags s)"
  by (simp add: ftag_refused_def features_exists_names tags_exists_def)

lemma keeps_tagFeature [keeps_tags]: "preserves tags_ok (tagFeature f t)"
  by (rule preserves_state)
    (auto simp: tagFeature_def tags_ok_def Let_def ftag_refused_iff feature_names_def split: option.split)

lemma feature_names_tags [simp]: "feature_names (db\<lparr>fd_tags := x\<rparr>) = feature_names db"
  by (simp add: feature_names_def)

lemma keeps_tagFeatures [keeps_tags]: "preserves tags_ok (tagFeatures rs)"
proof (rule preserves_state)
  fix s assume s: "tags_ok s"
  let ?rows = "insert_ignoring (\<lambda>r. r) (fd_tags (tz_db s)) rs"
  show "tags_ok (snd (tagFeatures rs s))"
  proof (cases "find (\<lambda>r. ftag_refused s r \<noteq> None) ?rows")
    case None
    then have "\<forall>r\<in>set ?rows. tg_feature r \<in> set (feature_names (tz_db s)) \<and> tag_of r \<in> set (tz_tags s)"
      by (auto simp: find_None_iff ftag_refused_iff)
    then have "\<forall>r\<in>set (fd_tags (tz_db s) @ ?rows). tag_of r \<in> set (tz_tags s) \<and> tg_feature r \<in> set (feature_names (tz_db s))"
      using s by (auto simp: tags_ok_def)
    moreover have "distinct (map (\<lambda>r. r) (fd_tags (tz_db s) @ ?rows))"
      using s insert_ignoring_append [of "\<lambda>r. r" "fd_tags (tz_db s)" rs] by (simp add: tags_ok_def)
    ultimately show ?thesis
      using s None by (simp add: tagFeatures_def Let_def tags_ok_def)
  qed (use s in \<open>simp add: tagFeatures_def Let_def\<close>)
qed

lemma untag_ok: "tags_ok s \<Longrightarrow> tags_ok (untagFeatures rs s)" "tags_ok s \<Longrightarrow> tags_ok (untagFeature f t s)"
    "tags_ok s \<Longrightarrow> tags_ok (ftags_deleteAll s)"
  by (auto simp: tags_ok_def untagFeatures_def untagFeature_def ftags_delete_def ftags_deleteAll_def image_subset_iff)

lemma keeps_createTagIfNeeded [keeps_tags]: "preserves tags_ok (createTagIfNeeded t by uid)"
  unfolding createTagIfNeeded_def by (intro preserves_intros keeps_tags)

lemma keeps_pure [keeps_tags]: "preserves tags_ok (tag_type_validateUnique n)" "preserves tags_ok (tag_validateUnique t)"
  by (simp_all add: preserves_def tag_type_validateUnique_def tag_validateUnique_def)

lemma keeps_modS [keeps_tags]: "preserves tags_ok (modS (tag_types_delete n))" "preserves tags_ok (modS (tags_delete t))"
    "preserves tags_ok (modS (untagFeatures rs))" "preserves tags_ok (modS (untagFeature f t))"
    "preserves tags_ok (modS (\<lambda>s. s\<lparr>tz_events := g s\<rparr>))"
  by (auto intro!: preserves_modS delete_types_ok delete_tags_ok untag_ok simp: tag_types_delete_def tags_delete_def)

lemma keeps_addTag [keeps_tags]: "preserves tags_ok (addTag cfg f t by uid)"
  unfolding addTag_def by (intro preserves_intros keeps_tags)

lemma keeps_removeTag [keeps_tags]: "preserves tags_ok (removeTag f t by uid)"
  unfolding removeTag_def by (intro preserves_intros keeps_tags)

lemma keeps_services:
  "preserves tags_ok (createTagType cfg ty by uid)" "preserves tags_ok (updateTagType cfg ty by uid)"
  "preserves tags_ok (deleteTagType n by uid)" "preserves tags_ok (createTag cfg t by uid)"
  "preserves tags_ok (deleteTag t by uid)" "preserves tags_ok (updateTags fs ad rm by uid)"
  "preserves tags_ok (updateTags_handler cfg f ad rm by uid)"
  unfolding createTagType_def updateTagType_def deleteTagType_def createTag_def validateTag_def deleteTag_def
    updateTags_def updateTags_handler_def
  by (intro preserves_intros keeps_tags)+

text \<open>Features come and go.\<close>

lemma create_keeps_tags:
  assumes "features_create cfg p d db = Inr (x, db')"
  shows "fd_tags db' = fd_tags db" "set (feature_names db) \<subseteq> set (feature_names db')"
  using assms by (auto simp: features_create_def Let_def feature_names_def split: if_splits)

definition tags_within :: "tag set \<Rightarrow> feature_db \<Rightarrow> bool" where
  "tags_within T db = (distinct (fd_tags db) \<and> (\<forall>r\<in>set (fd_tags db). tag_of r \<in> T \<and> tg_feature r \<in> set (feature_names db)))"

lemma delete_row_keeps_tags:
  assumes "tags_within T db" "delete_row db name = Inr db'"
  shows "tags_within T db'"
proof -
  have "fd_tags db' = filter (\<lambda>t. tg_feature t \<noteq> name) (fd_tags db)"
    "set (feature_names db') = set (feature_names db) - {name}"
    using assms(2) by (auto simp: delete_row_def Let_def feature_names_def split: if_splits)
  then show ?thesis using assms(1) by (simp add: tags_within_def)
qed

lemma batchDelete_keeps_tags: "batchDelete names db = Inr db' \<Longrightarrow> tags_within T db \<Longrightarrow> tags_within T db'"
  unfolding batchDelete_def using foldR_invariant [of "tags_within T"] delete_row_keeps_tags by blast

lemma tags_ok_within: "tags_ok s \<longleftrightarrow> distinct (map tt_name (tz_types s)) \<and> distinct (tz_tags s) \<and>
    (\<forall>t\<in>set (tz_tags s). ta_type t \<in> tt_name ` set (tz_types s)) \<and> tags_within (set (tz_tags s)) (tz_db s)"
  by (auto simp: tags_ok_def tags_within_def)


section \<open>Reachable states\<close>

inductive tag_step :: "tagging \<Rightarrow> tagging \<Rightarrow> bool" where
  type_created: "createTagType_handler cfg ty by uid s = (r, s') \<Longrightarrow> tag_step s s'"
| type_updated: "updateTagType_handler cfg n d i by uid s = (r, s') \<Longrightarrow> tag_step s s'"
| type_deleted: "deleteTagType_handler n by uid s = (r', s') \<Longrightarrow> tag_step s s'"
| types_imported: "tag_types_bulkImport ts s = (rows, s') \<Longrightarrow> tag_step s s'"
| types_dropped: "tag_types_deleteAll s = s' \<Longrightarrow> tag_step s s'"
| tag_created: "createTag cfg t by uid s = (rt, s') \<Longrightarrow> tag_step s s'"
| tag_deleted: "deleteTag t by uid s = (r', s') \<Longrightarrow> tag_step s s'"
| tags_imported: "tags_bulkImport tgs s = (rts, s') \<Longrightarrow> tag_step s s'"
| tags_dropped: "tags_deleteAll s = s' \<Longrightarrow> tag_step s s'"
| tagged: "addTag cfg f t by uid s = (rt, s') \<Longrightarrow> tag_step s s'"
| untagged: "removeTag f t by uid s = (r', s') \<Longrightarrow> tag_step s s'"
| one_updated: "updateTags_handler cfg f ad rm by uid s = (rts, s') \<Longrightarrow> tag_step s s'"
| bulk_updated: "updateTags fs ad rm by uid s = (r', s') \<Longrightarrow> tag_step s s'"
| pairs_imported: "tagFeatures rs s = (rrs, s') \<Longrightarrow> tag_step s s'"
| pairs_dropped: "ftags_deleteAll s = s' \<Longrightarrow> tag_step s s'"
| feature_created: "tagging_features (features_create cfg p d) s = (rf, s') \<Longrightarrow> tag_step s s'"
| features_deleted: "tagging_features (\<lambda>db. bindR (batchDelete ns db) (\<lambda>db'. Inr ((), db'))) s = (r', s') \<Longrightarrow> tag_step s s'"

lemma keeps_handlers:
  "preserves tags_ok (createTagType_handler cfg ty by uid)" "preserves tags_ok (updateTagType_handler cfg n d i by uid)"
  "preserves tags_ok (deleteTagType_handler n by uid)"
  unfolding createTagType_handler_def updateTagType_handler_def deleteTagType_handler_def
  by (intro preserves_transactionS keeps_services)+

lemma keeps_features:
  "preserves tags_ok (tagging_features (features_create cfg p d))"
  "preserves tags_ok (tagging_features (\<lambda>db. bindR (batchDelete ns db) (\<lambda>db'. Inr ((), db'))))"
proof -
  show "preserves tags_ok (tagging_features (features_create cfg p d))"
    by (rule preserves_state)
      (use create_keeps_tags in \<open>fastforce simp: tagging_features_def tags_ok_def split: sum.split\<close>)
  show "preserves tags_ok (tagging_features (\<lambda>db. bindR (batchDelete ns db) (\<lambda>db'. Inr ((), db'))))"
    by (rule preserves_state)
      (use batchDelete_keeps_tags in \<open>auto simp: tagging_features_def tags_ok_within bindR_Inr_iff split: sum.split\<close>)
qed

lemma tag_step_ok: "tag_step s s' \<Longrightarrow> tags_ok s \<Longrightarrow> tags_ok s'"
proof (induction rule: tag_step.induct)
  case (types_imported ts s rows s')
  then show ?case using tag_types_bulk_ok [of s ts] by simp
qed (auto simp: tag_types_deleteAll_def tags_deleteAll_def intro: delete_types_ok delete_tags_ok untag_ok
      dest: preservesD [OF keeps_handlers(1)] preservesD [OF keeps_handlers(2)] preservesD [OF keeps_handlers(3)]
        preservesD [OF keeps_services(4)] preservesD [OF keeps_services(5)] preservesD [OF keeps_services(6)]
        preservesD [OF keeps_services(7)] preservesD [OF keeps_addTag] preservesD [OF keeps_removeTag]
        preservesD [OF keeps_bulk_tags] preservesD [OF keeps_tagFeatures]
        preservesD [OF keeps_features(1)] preservesD [OF keeps_features(2)])

text \<open>A new instance has one type of tags and no tag.\<close>

definition fresh_tagging :: "feature_db \<Rightarrow> tagging" where
  "fresh_tagging db = \<lparr>tz_db = db\<lparr>fd_tags := []\<rparr>,
     tz_types = [\<lparr>tt_name = ''simple'', tt_description = Some ''Used to simplify filtering of features'', tt_icon = Some ''#''\<rparr>],
     tz_tags = [], tz_events = []\<rparr>"

inductive reachable_tags :: "tagging \<Rightarrow> bool" where
  fresh: "reachable_tags (fresh_tagging db)"
| step: "reachable_tags s \<Longrightarrow> tag_step s s' \<Longrightarrow> reachable_tags s'"

lemma reachable_tags_ok: "reachable_tags s \<Longrightarrow> tags_ok s"
proof (induction rule: reachable_tags.induct)
  case (fresh db)
  then show ?case by (simp add: tags_ok_def fresh_tagging_def)
qed (rule tag_step_ok)


section \<open>What operations on many tags do\<close>

definition has_type :: "tagging \<Rightarrow> tag \<Rightarrow> bool" where
  "has_type s t = (ta_type t \<in> tt_name ` set (tz_types s))"

lemma createTagIfNeeded_run:
  assumes "tags_ok s" "createTagIfNeeded t by uid s = (r, s')"
  shows "tz_db s' = tz_db s" "tz_types s' = tz_types s"
    "set (tz_tags s') = set (tz_tags s) \<union> {u. u = t \<and> has_type s u}"
    "if has_type s t then r = Inr () else \<exists>e. r = Inl e"
proof -
  have typed: "t \<in> set (tz_tags s) \<Longrightarrow> has_type s t" using assms(1) by (simp add: tags_ok_def has_type_def)
  have run: "createTagIfNeeded t by uid s =
      (if t \<in> set (tz_tags s) then (Inr (), s)
       else if has_type s t
       then tag_store_event (TagCreated t) None None by uid (s\<lparr>tz_tags := tz_tags s @ [t]\<rparr>)
       else (Inl (Api (BadDataError (''Tag type '' @ [CHR 0x27] @ ta_type t @ [CHR 0x27] @ '' does not exist''))), s))"
    by (simp add: createTagIfNeeded_def orElseS_def thenS_def bindS_def tryS_def getTag_def whenS_def is_not_found_def
        tags_create_def tag_types_exists_iff has_type_def is_fk_violation_def fd_fk_error_def throw_if_def
        tag_store_event_def NotFoundError_def)
  show "tz_db s' = tz_db s" "tz_types s' = tz_types s" "set (tz_tags s') = set (tz_tags s) \<union> {u. u = t \<and> has_type s u}"
    "if has_type s t then r = Inr () else \<exists>e. r = Inl e"
    using assms(2) typed by (auto simp: run tag_store_event_def split: if_splits)
qed

lemma create_tags_run:
  assumes "tags_ok s" "allS (\<lambda>t. createTagIfNeeded t by uid) ts s = (r, s')"
  shows "tags_ok s' \<and> tz_db s' = tz_db s \<and> tz_types s' = tz_types s \<and>
    set (tz_tags s') = set (tz_tags s) \<union> {t \<in> set ts. has_type s t} \<and>
    (if \<forall>t\<in>set ts. has_type s t then \<exists>us. r = Inr us else \<exists>e. r = Inl e)"
  using assms
proof (induction ts arbitrary: s r s')
  case (Cons t ts)
  obtain r1 s1 where one: "createTagIfNeeded t by uid s = (r1, s1)" by (cases "createTagIfNeeded t by uid s")
  obtain r2 s2 where rest: "allS (\<lambda>t. createTagIfNeeded t by uid) ts s1 = (r2, s2)"
    by (cases "allS (\<lambda>t. createTagIfNeeded t by uid) ts s1")
  note first = createTagIfNeeded_run [OF Cons.prems(1) one]
  have ok1: "tags_ok s1" using preservesD [OF keeps_createTagIfNeeded Cons.prems(1) one] .
  have same: "has_type s1 = has_type s" using first(2) by (simp add: has_type_def fun_eq_iff)
  note tail = Cons.IH [OF ok1 rest, unfolded same first(1) first(2) first(3)]
  have "s' = s2" "r = bindR r1 (\<lambda>y. bindR r2 (\<lambda>ys. Inr (y # ys)))" using Cons.prems(2) one rest by auto
  then show ?case using tail first(4) by (auto simp: bindR_def split: if_splits)
qed auto

lemma feature_tag_pairs_set: "set (feature_tag_pairs fs ts) = {r. tg_feature r \<in> set fs \<and> tag_of r \<in> set ts}"
proof -
  have "r \<in> set (feature_tag_pairs fs ts) \<longleftrightarrow> tg_feature r \<in> set fs \<and> tag_of r \<in> set ts" for r
  proof
    assume "tg_feature r \<in> set fs \<and> tag_of r \<in> set ts"
    then show "r \<in> set (feature_tag_pairs fs ts)"
      using row_of_tag [of r] by (force simp: feature_tag_pairs_def)
  qed (auto simp: feature_tag_pairs_def)
  then show ?thesis by blast
qed

lemma tagFeatures_run:
  assumes "tags_ok s" "tagFeatures (feature_tag_pairs fs ts) s = (r, s')" "set ts \<subseteq> set (tz_tags s)"
  shows "tz_tags s' = tz_tags s" "tz_types s' = tz_types s"
    "if ts = [] \<or> set fs \<subseteq> set (feature_names (tz_db s))
     then (\<exists>rs. r = Inr rs) \<and> feature_names (tz_db s') = feature_names (tz_db s) \<and>
       set (fd_tags (tz_db s')) = set (fd_tags (tz_db s)) \<union> {r. tg_feature r \<in> set fs \<and> tag_of r \<in> set ts}
     else (\<exists>e. r = Inl e) \<and> tz_db s' = tz_db s"
proof -
  let ?rows = "insert_ignoring (\<lambda>r. r) (fd_tags (tz_db s)) (feature_tag_pairs fs ts)"
  have rows: "set ?rows = {r. tg_feature r \<in> set fs \<and> tag_of r \<in> set ts} - set (fd_tags (tz_db s))"
    by (simp add: feature_tag_pairs_set)
  show "tz_tags s' = tz_tags s" "tz_types s' = tz_types s"
    using assms(2) by (auto simp: tagFeatures_def Let_def split: option.splits)
  have refused: "(\<exists>r\<in>set ?rows. ftag_refused s r \<noteq> None) \<longleftrightarrow> \<not> (ts = [] \<or> set fs \<subseteq> set (feature_names (tz_db s)))"
  proof
    assume "\<exists>r\<in>set ?rows. ftag_refused s r \<noteq> None"
    then show "\<not> (ts = [] \<or> set fs \<subseteq> set (feature_names (tz_db s)))"
      using assms(3) unfolding rows by (auto simp: ftag_refused_iff)
  next
    assume "\<not> (ts = [] \<or> set fs \<subseteq> set (feature_names (tz_db s)))"
    then obtain f t where ft: "f \<in> set fs" "f \<notin> set (feature_names (tz_db s))" "t \<in> set ts"
      by (cases ts) auto
    then have "featureAndTagToRow f t \<notin> set (fd_tags (tz_db s))"
      using assms(1) by (metis tag_of_row(2) tags_ok_def)
    then have "featureAndTagToRow f t \<in> set ?rows" "ftag_refused s (featureAndTagToRow f t) \<noteq> None"
      using ft unfolding rows ftag_refused_iff by simp_all
    then show "\<exists>r\<in>set ?rows. ftag_refused s r \<noteq> None" by blast
  qed
  show "if ts = [] \<or> set fs \<subseteq> set (feature_names (tz_db s))
     then (\<exists>rs. r = Inr rs) \<and> feature_names (tz_db s') = feature_names (tz_db s) \<and>
       set (fd_tags (tz_db s')) = set (fd_tags (tz_db s)) \<union> {r. tg_feature r \<in> set fs \<and> tag_of r \<in> set ts}
     else (\<exists>e. r = Inl e) \<and> tz_db s' = tz_db s"
  proof (cases "find (\<lambda>r. ftag_refused s r \<noteq> None) ?rows")
    case None
    then have ok: "ts = [] \<or> set fs \<subseteq> set (feature_names (tz_db s))" using refused unfolding find_None_iff' by blast
    have "r = Inr ?rows" "s' = s\<lparr>tz_db := (tz_db s)\<lparr>fd_tags := fd_tags (tz_db s) @ ?rows\<rparr>\<rparr>"
      using assms(2) None by (simp_all add: tagFeatures_def Let_def)
    moreover have "set (fd_tags (tz_db s) @ ?rows) = set (fd_tags (tz_db s)) \<union> {r. tg_feature r \<in> set fs \<and> tag_of r \<in> set ts}"
      unfolding set_append rows by blast
    ultimately show ?thesis using ok by simp
  next
    case (Some x)
    then have "\<exists>r\<in>set ?rows. ftag_refused s r \<noteq> None" using find_Some_in [OF Some] by blast
    with refused have "\<not> (ts = [] \<or> set fs \<subseteq> set (feature_names (tz_db s)))" by blast
    then show ?thesis using assms(2) Some by (auto simp: tagFeatures_def Let_def)
  qed
qed

end
