(* ===== verification/Catalogs.thy ===== *)
theory Catalogs
  imports ProjectStore
begin

text \<open>
  The catalogs features draw on: strategy types (\<open>strategy-service.ts\<close>, \<open>db/strategy-store.ts\<close>,
  \<open>strategy-schema.ts\<close>), context fields (\<open>context-service.ts\<close>, \<open>db/context-field-store.ts\<close>,
  \<open>context-schema.ts\<close>) and feature types (\<open>feature-type-service.ts\<close>, \<open>db/feature-type-store.ts\<close>). What
  the feature service sees of them is \<open>catalog_view\<close>.
\<close>

section \<open>Tables and events\<close>

record strategy_param =
  sq_name :: string
  sq_type :: string
  sq_description :: "string option"
  sq_required :: "bool option"

record strategy_type_row =
  sy_name :: string
  sy_title :: "string option"
  sy_description :: "string option"
  sy_parameters :: "strategy_param list"
  sy_built_in :: int
  sy_deprecated :: bool
  sy_display_name :: "string option"
  sy_sort_order :: int

record strategy_type =
  sx_displayName :: "string option"
  sx_name :: string
  sx_editable :: bool
  sx_description :: "string option"
  sx_parameters :: "strategy_param list"
  sx_deprecated :: bool
  sx_title :: "string option"

record editable_strategy =
  ex_name :: string
  ex_description :: "string option"
  ex_parameters :: "strategy_param list"
  ex_deprecated :: bool
  ex_title :: "string option"

text \<open>What is sent: an absent field is \<open>None\<close>, and \<open>Some None\<close> an explicit \<open>null\<close>.\<close>

record strategy_type_input =
  yi_name :: string
  yi_title :: "string option option"
  yi_description :: "string option option"
  yi_parameters :: "strategy_param list option"

record strategy_import =
  yx_input :: strategy_type_input
  yx_deprecated :: "bool option"
  yx_builtIn :: "bool option"
  yx_sortOrder :: "int option"
  yx_displayName :: "string option"

record legal_value =
  lv_value :: string
  lv_description :: "string option"

record context_row =
  cx_name :: string
  cx_description :: "string option"
  cx_stickiness :: bool
  cx_sort_order :: int
  cx_legal_values :: "legal_value list"
  cx_created_at :: int

record context_input =
  ci_name :: string
  ci_description :: "string option option"
  ci_stickiness :: "bool option"
  ci_sortOrder :: "int option"
  ci_legalValues :: "legal_value list option"

record feature_type_row =
  fy_id :: string
  fy_name :: string
  fy_description :: "string option"
  fy_lifetime_days :: "int option"

datatype catalog_event_kind =
    StrategyTypeCreated strategy_type_input | StrategyTypeUpdated strategy_type_input
  | StrategyTypeDeleted string | StrategyTypeDeprecated string | StrategyTypeReactivated string
  | ContextFieldCreated context_input
  | ContextFieldUpdated context_input context_input \<comment> \<open>preData, data\<close>
  | ContextFieldDeleted context_row
  | FeatureTypeUpdated feature_type_row feature_type_row \<comment> \<open>data, preData\<close>

record catalog_event =
  ce_kind :: catalog_event_kind
  ce_createdBy :: string
  ce_createdByUserId :: int

record catalogs =
  cg_db :: feature_db
  cg_strategies :: "strategy_type_row list"
  cg_fields :: "context_row list"
  cg_types :: "feature_type_row list"
  cg_events :: "catalog_event list"

type_synonym 'a catalog_op = "(catalogs, 'a) op"

definition catalog_view :: "catalogs \<Rightarrow> feature_db" where
  "catalog_view s = (cg_db s)\<lparr>fd_strategy_types := map sy_name (cg_strategies s),
     fd_context_fields := map (\<lambda>c. (cx_name c, map lv_value (cx_legal_values c))) (cg_fields s),
     fd_feature_types := map (\<lambda>t. (fy_id t, fy_lifetime_days t)) (cg_types s)\<rparr>"

definition catalog_store_event :: "catalog_event_kind \<Rightarrow> string \<Rightarrow> int \<Rightarrow> unit catalog_op" where
  "catalog_store_event kind by uid = modS (\<lambda>s. s\<lparr>cg_events := cg_events s @
     [\<lparr>ce_kind = kind, ce_createdBy = by, ce_createdByUserId = uid\<rparr>]\<rparr>)"


section \<open>Strategy types\<close>

definition strategy_type_of_row :: "strategy_type_row option \<Rightarrow> exn + strategy_type" where
  "strategy_type_of_row row = (case row of
       None \<Rightarrow> Inl (Api (NotFoundError (Some ''No strategy found'')))
     | Some r \<Rightarrow> Inr \<lparr>sx_displayName = sy_display_name r, sx_name = sy_name r, sx_editable = (sy_built_in r \<noteq> 1),
         sx_description = sy_description r, sx_parameters = sy_parameters r, sx_deprecated = sy_deprecated r,
         sx_title = sy_title r\<rparr>)"

definition rowToEditableStrategy :: "strategy_type_row \<Rightarrow> editable_strategy" where
  "rowToEditableStrategy r = \<lparr>ex_name = sy_name r, ex_description = sy_description r,
     ex_parameters = sy_parameters r, ex_deprecated = sy_deprecated r, ex_title = sy_title r\<rparr>"

definition by_order :: "strategy_type_row list \<Rightarrow> strategy_type_row list" where
  "by_order rs = sort_key sy_sort_order (sort_key sy_name rs)"

definition strategy_types_getAll :: "catalogs \<Rightarrow> exn + strategy_type list" where
  "strategy_types_getAll s = mapR (\<lambda>r. strategy_type_of_row (Some r)) (by_order (cg_strategies s))"

definition getEditableStrategies :: "catalogs \<Rightarrow> editable_strategy list" where
  "getEditableStrategies s = map rowToEditableStrategy (by_order (filter (\<lambda>r. sy_built_in r = 0) (cg_strategies s)))"

definition strategy_types_get :: "string \<Rightarrow> catalogs \<Rightarrow> exn + strategy_type" where
  "strategy_types_get name s = strategy_type_of_row (find (\<lambda>r. sy_name r = name) (cg_strategies s))"

definition strategy_types_exists :: "string \<Rightarrow> catalogs \<Rightarrow> bool" where
  "strategy_types_exists name s = list_ex (\<lambda>r. sy_name r = name) (cg_strategies s)"

definition strategy_types_count :: "catalogs \<Rightarrow> nat" where
  "strategy_types_count s = length (cg_strategies s)"

definition strategy_types_delete :: "string \<Rightarrow> catalogs \<Rightarrow> catalogs" where
  "strategy_types_delete name s = s\<lparr>cg_strategies := filter (\<lambda>r. sy_name r \<noteq> name) (cg_strategies s)\<rparr>"

definition strategy_types_deleteAll :: "catalogs \<Rightarrow> catalogs" where
  "strategy_types_deleteAll s = s\<lparr>cg_strategies := []\<rparr>"

definition dropCustomStrategies :: "catalogs \<Rightarrow> catalogs" where
  "dropCustomStrategies s = s\<lparr>cg_strategies := filter (\<lambda>r. sy_built_in r \<noteq> 0) (cg_strategies s)\<rparr>"

text \<open>The columns that are sent, over a row; an absent field leaves its column as it is.\<close>

definition eventDataToRow :: "strategy_type_input \<Rightarrow> strategy_type_row \<Rightarrow> strategy_type_row" where
  "eventDataToRow d r = r\<lparr>sy_name := yi_name d, sy_description := default (sy_description r) (yi_description d),
     sy_parameters := default (sy_parameters r) (yi_parameters d), sy_title := default (sy_title r) (yi_title d)\<rparr>"

definition new_strategy_type :: strategy_type_row where
  "new_strategy_type = \<lparr>sy_name = [], sy_title = None, sy_description = None, sy_parameters = [], sy_built_in = 0,
     sy_deprecated = False, sy_display_name = None, sy_sort_order = 9999\<rparr>"

definition strategy_types_create :: "strategy_type_input \<Rightarrow> unit catalog_op" where
  "strategy_types_create d s =
     (if strategy_types_exists (yi_name d) s then (Inl (fd_unique_error (cg_db s) ''strategies_pkey''), s)
      else (Inr (), s\<lparr>cg_strategies := cg_strategies s @ [eventDataToRow d new_strategy_type]\<rparr>))"

definition map_strategy_types :: "string \<Rightarrow> (strategy_type_row \<Rightarrow> strategy_type_row) \<Rightarrow> catalogs \<Rightarrow> catalogs" where
  "map_strategy_types name f s = s\<lparr>cg_strategies := map (\<lambda>r. if sy_name r = name then f r else r) (cg_strategies s)\<rparr>"

definition strategy_types_update :: "strategy_type_input \<Rightarrow> catalogs \<Rightarrow> catalogs" where
  "strategy_types_update d = map_strategy_types (yi_name d) (eventDataToRow d)"

definition store_deprecateStrategy :: "string \<Rightarrow> catalogs \<Rightarrow> catalogs" where
  "store_deprecateStrategy name = map_strategy_types name (\<lambda>r. r\<lparr>sy_deprecated := True\<rparr>)"

definition store_reactivateStrategy :: "string \<Rightarrow> catalogs \<Rightarrow> catalogs" where
  "store_reactivateStrategy name = map_strategy_types name (\<lambda>r. r\<lparr>sy_deprecated := False\<rparr>)"

text \<open>An import inserts the row, or sets its columns where the name is taken.\<close>

definition import_row :: "strategy_import \<Rightarrow> strategy_type_row \<Rightarrow> strategy_type_row" where
  "import_row d r = (eventDataToRow (yx_input d) r)
     \<lparr>sy_parameters := default [] (yi_parameters (yx_input d)), sy_deprecated := default False (yx_deprecated d),
      sy_built_in := (if default False (yx_builtIn d) then 1 else 0), sy_sort_order := num_or (yx_sortOrder d) 9999,
      sy_display_name := (if yx_displayName d = None then sy_display_name r else yx_displayName d)\<rparr>"

definition importStrategy :: "strategy_import \<Rightarrow> catalogs \<Rightarrow> catalogs" where
  "importStrategy d s =
     (if strategy_types_exists (yi_name (yx_input d)) s then map_strategy_types (yi_name (yx_input d)) (import_row d) s
      else s\<lparr>cg_strategies := cg_strategies s @ [import_row d new_strategy_type]\<rparr>)"

definition strategy_param_errors :: "nat \<times> strategy_param \<Rightarrow> joi_detail list" where
  \<open>strategy_param_errors ip = (case ip of (i, p) \<Rightarrow>
     concat (map (\<lambda>(field, v). if v = [] then [\<lparr>jd_message = ''"parameters['' @ show_nat i @ ''].'' @ field @
       ''" is not allowed to be empty'', jd_value = None\<rparr>] else []) [(''name'', sq_name p), (''type'', sq_type p)]))\<close>

definition strategySchema :: "feature_config \<Rightarrow> strategy_type_input \<Rightarrow> exn + unit" where
  \<open>strategySchema cfg d = joi_error (name_errors cfg ''"name"'' (yi_name d) @
     (case yi_parameters d of
        None \<Rightarrow> [\<lparr>jd_message = ''"parameters" is required'', jd_value = None\<rparr>]
      | Some ps \<Rightarrow> concat (map strategy_param_errors (List.enumerate 0 ps))))\<close>

definition validateEditable :: "strategy_type \<Rightarrow> exn + unit" where
  "validateEditable st = throw_if (\<not> sx_editable st) (JsError ''Error'' (''Cannot edit strategy '' @ sx_name st))"

definition validateStrategyName :: "string \<Rightarrow> catalogs \<Rightarrow> exn + unit" where
  "validateStrategyName name s = (case strategy_types_get name s of
       Inr _ \<Rightarrow> Inl (Api (NameExistsError (''Strategy with name '' @ name @ '' already exist!'')))
     | Inl _ \<Rightarrow> Inr ())"

definition removeStrategy :: "string \<Rightarrow> string \<Rightarrow> int \<Rightarrow> unit catalog_op" where
  "removeStrategy name userName uid =
     bindS (tryS (strategy_types_get name)) (\<lambda>st.
     thenS (tryS (\<lambda>_. validateEditable st))
       (thenS (modS (strategy_types_delete name)) (catalog_store_event (StrategyTypeDeleted name) userName uid)))"

definition deprecateStrategy :: "string \<Rightarrow> string \<Rightarrow> int \<Rightarrow> unit catalog_op" where
  "deprecateStrategy name userName uid =
     bindS (askS (strategy_types_exists name)) (\<lambda>known.
     if known
     then thenS (modS (store_deprecateStrategy name)) (catalog_store_event (StrategyTypeDeprecated name) userName uid)
     else failS (Api (NotFoundError (Some (''Could not find strategy with name '' @ name)))))"

definition reactivateStrategy :: "string \<Rightarrow> string \<Rightarrow> int \<Rightarrow> unit catalog_op" where
  "reactivateStrategy name userName uid =
     thenS (tryS (strategy_types_get name))
       (thenS (modS (store_reactivateStrategy name)) (catalog_store_event (StrategyTypeReactivated name) userName uid))"

definition createStrategyType :: "feature_config \<Rightarrow> strategy_type_input \<Rightarrow> string \<Rightarrow> int \<Rightarrow> strategy_type catalog_op" where
  "createStrategyType cfg d userName uid =
     thenS (tryS (\<lambda>_. strategySchema cfg d))
       (thenS (tryS (validateStrategyName (yi_name d)))
         (thenS (strategy_types_create d)
           (thenS (catalog_store_event (StrategyTypeCreated d) userName uid)
             (tryS (strategy_types_get (yi_name d))))))"

definition updateStrategyType :: "feature_config \<Rightarrow> strategy_type_input \<Rightarrow> string \<Rightarrow> int \<Rightarrow> unit catalog_op" where
  "updateStrategyType cfg d userName uid =
     thenS (tryS (\<lambda>_. strategySchema cfg d))
       (bindS (tryS (strategy_types_get (yi_name d))) (\<lambda>st.
        thenS (tryS (\<lambda>_. validateEditable st))
          (thenS (modS (strategy_types_update d)) (catalog_store_event (StrategyTypeUpdated d) userName uid))))"


section \<open>Context fields\<close>

text \<open>A field as it is returned: \<open>getAll\<close> adds in how many projects and features strategies use it.\<close>

record context_field =
  cf_field :: context_row
  cf_usedInProjects :: "nat option"
  cf_usedInFeatures :: "nat option"

definition users_of_field :: "string \<Rightarrow> feature_db \<Rightarrow> strategy_row list" where
  "users_of_field name db = filter (\<lambda>r. list_ex (\<lambda>c. contextName c = name) (sr_constraints r)) (fd_strategies db)"

definition context_getAll :: "catalogs \<Rightarrow> context_field list" where
  "context_getAll s = map (\<lambda>c. let used = users_of_field (cx_name c) (cg_db s) in
     \<lparr>cf_field = c, cf_usedInProjects = Some (length (remdups (map sr_project used))),
      cf_usedInFeatures = Some (length (remdups (map sr_feature used)))\<rparr>) (sort_key cx_name (cg_fields s))"

definition context_get :: "string \<Rightarrow> catalogs \<Rightarrow> exn + context_row" where
  "context_get key s = (case find (\<lambda>c. cx_name c = key) (cg_fields s) of
       None \<Rightarrow> Inl (Api (NotFoundError (Some (''Could not find Context field with name '' @ key))))
     | Some c \<Rightarrow> Inr c)"

definition context_exists :: "string \<Rightarrow> catalogs \<Rightarrow> bool" where
  "context_exists key s = list_ex (\<lambda>c. cx_name c = key) (cg_fields s)"

definition context_count :: "catalogs \<Rightarrow> nat" where
  "context_count s = length (cg_fields s)"

text \<open>Absent columns are left as they are, the legal values are always set.\<close>

definition fieldToRow :: "context_input \<Rightarrow> context_row \<Rightarrow> context_row" where
  "fieldToRow d r = r\<lparr>cx_name := ci_name d, cx_description := default (cx_description r) (ci_description d),
     cx_stickiness := default (cx_stickiness r) (ci_stickiness d), cx_sort_order := default (cx_sort_order r) (ci_sortOrder d),
     cx_legal_values := default [] (ci_legalValues d)\<rparr>"

definition new_context_row :: "int \<Rightarrow> context_row" where
  "new_context_row now = \<lparr>cx_name = [], cx_description = None, cx_stickiness = False, cx_sort_order = 10,
     cx_legal_values = [], cx_created_at = now\<rparr>"

definition context_create :: "feature_config \<Rightarrow> context_input \<Rightarrow> context_row catalog_op" where
  "context_create cfg d s =
     (if context_exists (ci_name d) s then (Inl (fd_unique_error (cg_db s) ''context_fields_pkey''), s)
      else let r = fieldToRow d (new_context_row (fc_now cfg)) in (Inr r, s\<lparr>cg_fields := cg_fields s @ [r]\<rparr>))"

definition context_update :: "context_input \<Rightarrow> catalogs \<Rightarrow> catalogs" where
  "context_update d s = s\<lparr>cg_fields := map (\<lambda>c. if cx_name c = ci_name d then fieldToRow d c else c) (cg_fields s)\<rparr>"

definition context_delete :: "string \<Rightarrow> catalogs \<Rightarrow> catalogs" where
  "context_delete name s = s\<lparr>cg_fields := filter (\<lambda>c. cx_name c \<noteq> name) (cg_fields s)\<rparr>"

definition context_deleteAll :: "catalogs \<Rightarrow> catalogs" where
  "context_deleteAll s = s\<lparr>cg_fields := []\<rparr>"

text \<open>The errors of the schema, of which the first is reported, and the value it returns: it drops the sort order.\<close>

definition legal_json :: "feature_config \<Rightarrow> legal_value \<Rightarrow> string" where
  \<open>legal_json cfg v = ''{"value":'' @ fc_json cfg (lv_value v) @
     (case lv_description v of None \<Rightarrow> [] | Some d \<Rightarrow> '',"description":'' @ fc_json cfg d) @ ''}''\<close>

definition legal_value_errors :: "feature_config \<Rightarrow> nat \<times> legal_value \<Rightarrow> joi_detail list" where
  \<open>legal_value_errors cfg iv = (case iv of (i, v) \<Rightarrow>
     let label = ''"legalValues['' @ show_nat i @ ''].value"'' in
     if lv_value v = [] then [\<lparr>jd_message = label @ '' is not allowed to be empty'', jd_value = None\<rparr>]
     else if 100 < length (lv_value v)
     then [\<lparr>jd_message = label @ '' length must be less than or equal to 100 characters long'', jd_value = Some (fc_json cfg (lv_value v))\<rparr>]
     else [])\<close>

definition duplicate_legal_errors :: "feature_config \<Rightarrow> (nat \<times> legal_value) list \<Rightarrow> joi_detail list" where
  \<open>duplicate_legal_errors cfg ivs = concat (map (\<lambda>(i, v).
     if \<exists>(j, w)\<in>set ivs. j < i \<and> lv_value w = lv_value v
     then [\<lparr>jd_message = ''"legalValues['' @ show_nat i @ '']" contains a duplicate value'', jd_value = Some (legal_json cfg v)\<rparr>]
     else []) ivs)\<close>

definition contextSchema :: "feature_config \<Rightarrow> context_input \<Rightarrow> exn + context_input" where
  \<open>contextSchema cfg d =
     (let ivs = List.enumerate 0 (default [] (ci_legalValues d)) in
      bindR (joi_first (name_errors cfg ''"name"'' (ci_name d) @
          (case ci_description d of
             Some (Some t) \<Rightarrow> if 250 < length t
               then [\<lparr>jd_message = ''"description" length must be less than or equal to 250 characters long'',
                      jd_value = Some (fc_json cfg t)\<rparr>] else []
           | _ \<Rightarrow> []) @
          concat (map (legal_value_errors cfg) ivs) @ duplicate_legal_errors cfg ivs)) (\<lambda>_.
      Inr (d\<lparr>ci_sortOrder := None, ci_stickiness := Some (default False (ci_stickiness d))\<rparr>)))\<close>

definition validateUniqueFieldName :: "string \<Rightarrow> catalogs \<Rightarrow> exn + unit" where
  "validateUniqueFieldName name s = (case context_get name s of
       Inl _ \<Rightarrow> Inr ()
     | Inr _ \<Rightarrow> Inl (Api (NameExistsError ''A context field with that name already exist'')))"

definition validateFieldName :: "feature_config \<Rightarrow> string \<Rightarrow> catalogs \<Rightarrow> exn + unit" where
  "validateFieldName cfg name s = bindR (nameSchema cfg name) (\<lambda>_. validateUniqueFieldName name s)"

text \<open>A field is created from what was sent, the event holds what the schema made of it.\<close>

definition createContextField :: "feature_config \<Rightarrow> context_input \<Rightarrow> string \<Rightarrow> int \<Rightarrow> context_row catalog_op" where
  "createContextField cfg d userName uid =
     thenS (tryS (validateUniqueFieldName (ci_name d)))
       (bindS (tryS (\<lambda>_. contextSchema cfg d)) (\<lambda>v.
        bindS (context_create cfg d) (\<lambda>r.
        thenS (catalog_store_event (ContextFieldCreated v) userName uid) (returnS r))))"

definition previous_field :: "context_row \<Rightarrow> context_input" where
  "previous_field c = \<lparr>ci_name = cx_name c, ci_description = Some (cx_description c), ci_stickiness = Some (cx_stickiness c),
     ci_sortOrder = None, ci_legalValues = Some (cx_legal_values c)\<rparr>"

definition updateContextField :: "feature_config \<Rightarrow> context_input \<Rightarrow> string \<Rightarrow> int \<Rightarrow> unit catalog_op" where
  "updateContextField cfg d userName uid =
     bindS (tryS (context_get (ci_name d))) (\<lambda>c.
     bindS (tryS (\<lambda>_. contextSchema cfg d)) (\<lambda>v.
     thenS (modS (context_update v)) (catalog_store_event (ContextFieldUpdated (previous_field c) v) userName uid)))"

text \<open>Whether a strategy uses the field is not looked at.\<close>

definition deleteContextField :: "string \<Rightarrow> string \<Rightarrow> int \<Rightarrow> unit catalog_op" where
  "deleteContextField name userName uid =
     bindS (tryS (context_get name)) (\<lambda>c.
     thenS (modS (context_delete name)) (catalog_store_event (ContextFieldDeleted c) userName uid))"

text \<open>The strategies that use a field, in the projects the user may see.\<close>

record field_strategy =
  fx_id :: string
  fx_projectId :: string
  fx_featureName :: string
  fx_strategyName :: string
  fx_environment :: string

definition field_strategy_of :: "strategy_row \<Rightarrow> field_strategy" where
  "field_strategy_of r = \<lparr>fx_id = sr_id r, fx_projectId = sr_project r, fx_featureName = sr_feature r,
     fx_strategyName = sr_name r, fx_environment = sr_environment r\<rparr>"

definition getStrategiesByContextField :: "feature_config \<Rightarrow> string \<Rightarrow> int \<Rightarrow> access_db \<Rightarrow> catalogs \<Rightarrow> field_strategy list" where
  "getStrategiesByContextField cfg name uid adb s =
     (let used = users_of_field name (cg_db s) in
      map field_strategy_of (case getUserAccessibleProjects cfg uid adb (cg_db s) of
          AllProjects \<Rightarrow> used
        | LimitedTo ps \<Rightarrow> filter (\<lambda>r. List.member ps (sr_project r)) used))"


section \<open>Feature types\<close>

definition feature_types_getAll :: "catalogs \<Rightarrow> feature_type_row list" where
  "feature_types_getAll = cg_types"

definition feature_types_get :: "string \<Rightarrow> catalogs \<Rightarrow> feature_type_row option" where
  "feature_types_get i s = find (\<lambda>t. fy_id t = i) (cg_types s)"

definition feature_types_getByName :: "string \<Rightarrow> catalogs \<Rightarrow> exn + feature_type_row" where
  "feature_types_getByName name s = (case find (\<lambda>t. fy_name t = name) (cg_types s) of
       None \<Rightarrow> Inl (JsError ''TypeError'' ''Cannot read properties of undefined (reading 'id')'')
     | Some t \<Rightarrow> Inr t)"

definition feature_types_exists :: "string \<Rightarrow> catalogs \<Rightarrow> bool" where
  "feature_types_exists i s = list_ex (\<lambda>t. fy_id t = i) (cg_types s)"

definition feature_types_delete :: "string \<Rightarrow> catalogs \<Rightarrow> catalogs" where
  "feature_types_delete i s = s\<lparr>cg_types := filter (\<lambda>t. fy_id t \<noteq> i) (cg_types s)\<rparr>"

definition store_updateLifetime :: "string \<Rightarrow> int option \<Rightarrow> feature_type_row option catalog_op" where
  "store_updateLifetime i days s =
     (let s' = s\<lparr>cg_types := map (\<lambda>t. if fy_id t = i then t\<lparr>fy_lifetime_days := days\<rparr> else t) (cg_types s)\<rparr>
      in (Inr (feature_types_get i s'), s'))"

definition updateLifetime :: "string \<Rightarrow> int option \<Rightarrow> acting_user \<Rightarrow> feature_type_row catalog_op" where
  \<open>updateLifetime i newLifetimeDays user =
     (let translatedLifetime = (if newLifetimeDays = Some 0 then None else newLifetimeDays) in
      bindS (askS (feature_types_get i)) (\<lambda>featureType.
      bindS (store_updateLifetime i translatedLifetime) (\<lambda>result.
      case (featureType, result) of
        (Some old, Some new) \<Rightarrow>
          thenS (catalog_store_event (FeatureTypeUpdated (old\<lparr>fy_lifetime_days := translatedLifetime\<rparr>) old)
                   (username_of user) (ax_id user)) (returnS new)
      | _ \<Rightarrow> failS (Api (NotFoundError (Some (''The feature type you tried to update ("'' @ i @ ''") does not exist.'')))))))\<close>

end
