(* ===== verification/Settings.thy ===== *)
theory Settings
  imports FeatureTables
begin

text \<open>
  Settings of the instance (\<open>db/setting-store.ts\<close>, \<open>services/setting-service.ts\<close>), the maintenance mode
  that rests on them (\<open>features/maintenance\<close>) and the favourites of users
  (\<open>favorites-service.ts\<close>, \<open>db/favorite-features-store.ts\<close>, \<open>db/favorite-projects-store.ts\<close>).
\<close>

section \<open>JSON\<close>

datatype json = JNull | JBool bool | JNumber int | JString string | JArray "json list" | JObject "(string \<times> json) list"

text \<open>The members of an object, in order; an object sent as a setting.\<close>

type_synonym json_object = "(string \<times> json) list"

fun json_truthy :: "json \<Rightarrow> bool" where
  "json_truthy JNull = False"
| "json_truthy (JBool b) = b"
| "json_truthy (JNumber n) = (n \<noteq> 0)"
| "json_truthy (JString s) = (s \<noteq> [])"
| "json_truthy (JArray _) = True"
| "json_truthy (JObject _) = True"

fun json_put :: "string \<Rightarrow> json \<Rightarrow> json_object \<Rightarrow> json_object" where
  "json_put k v [] = [(k, v)]"
| "json_put k v ((k', v') # o') = (if k' = k then (k, v) # o' else (k', v') # json_put k v o')"

text \<open>\<open>{ ...base, ...value }\<close>\<close>

definition json_spread :: "json_object \<Rightarrow> json_object \<Rightarrow> json_object" where
  "json_spread base value' = fold (\<lambda>(k, v). json_put k v) value' base"

definition json_member :: "string \<Rightarrow> json \<Rightarrow> json option" where
  "json_member k j = (case j of JObject o' \<Rightarrow> map_of o' k | _ \<Rightarrow> None)"


section \<open>Settings\<close>

datatype setting_event_kind =
    SettingCreated json_object
  | SettingUpdated json_object json \<comment> \<open>data, preData\<close>
  | SettingDeleted json_object

record setting_event =
  sv_kind :: setting_event_kind
  sv_createdBy :: string
  sv_createdByUserId :: int

record settings =
  sn_rows :: "(string \<times> json) list" \<comment> \<open>name, content\<close>
  sn_events :: "setting_event list"

type_synonym 'a setting_op = "(settings, 'a) op"

definition settings_exists :: "string \<Rightarrow> settings \<Rightarrow> bool" where
  "settings_exists name s = list_ex (\<lambda>r. fst r = name) (sn_rows s)"

definition settings_get :: "string \<Rightarrow> settings \<Rightarrow> json option" where
  "settings_get name s = map_of (sn_rows s) name"

definition settings_getAll :: "settings \<Rightarrow> json list" where
  "settings_getAll s = map snd (sn_rows s)"

definition settings_updateRow :: "string \<Rightarrow> json_object \<Rightarrow> settings \<Rightarrow> settings" where
  "settings_updateRow name content s =
     s\<lparr>sn_rows := map (\<lambda>r. if fst r = name then (name, JObject content) else r) (sn_rows s)\<rparr>"

definition settings_insertNewRow :: "string \<Rightarrow> json_object \<Rightarrow> settings \<Rightarrow> settings" where
  "settings_insertNewRow name content s = s\<lparr>sn_rows := sn_rows s @ [(name, JObject content)]\<rparr>"

definition settings_insert :: "string \<Rightarrow> json_object \<Rightarrow> settings \<Rightarrow> settings" where
  "settings_insert name content s =
     (if settings_exists name s then settings_updateRow name content s else settings_insertNewRow name content s)"

definition settings_delete :: "string \<Rightarrow> settings \<Rightarrow> settings" where
  "settings_delete name s = s\<lparr>sn_rows := filter (\<lambda>r. fst r \<noteq> name) (sn_rows s)\<rparr>"

definition settings_deleteAll :: "settings \<Rightarrow> settings" where
  "settings_deleteAll s = s\<lparr>sn_rows := []\<rparr>"

definition setting_store_event :: "setting_event_kind \<Rightarrow> string \<Rightarrow> int \<Rightarrow> settings \<Rightarrow> settings" where
  "setting_store_event kind by uid s = s\<lparr>sn_events := sn_events s @
     [\<lparr>sv_kind = kind, sv_createdBy = by, sv_createdByUserId = uid\<rparr>]\<rparr>"

text \<open>\<open>value || defaultValue\<close>\<close>

definition setting_getWithDefault :: "string \<Rightarrow> json \<Rightarrow> settings \<Rightarrow> json" where
  "setting_getWithDefault i defaultValue s = (case settings_get i s of
       Some v \<Rightarrow> if json_truthy v then v else defaultValue
     | None \<Rightarrow> defaultValue)"

definition setting_get :: "string \<Rightarrow> json option \<Rightarrow> settings \<Rightarrow> json option" where
  "setting_get i defaultValue s = (case settings_get i s of
       Some v \<Rightarrow> if json_truthy v then Some v else defaultValue
     | None \<Rightarrow> defaultValue)"

definition setting_insert :: "string \<Rightarrow> json_object \<Rightarrow> string \<Rightarrow> int \<Rightarrow> bool \<Rightarrow> unit setting_op" where
  "setting_insert i content by uid hideEventDetails =
     bindS (askS (settings_get i)) (\<lambda>existing.
       let hidden = (''hideEventDetails'', JBool True);
           data = (if hideEventDetails then [(''id'', JString i), hidden] else json_spread [(''id'', JString i)] content)
       in case existing of
            Some v \<Rightarrow>
              if json_truthy v
              then modS (\<lambda>s. setting_store_event (SettingUpdated data (if hideEventDetails then JObject [hidden] else v)) by uid
                          (settings_updateRow i content s))
              else modS (\<lambda>s. setting_store_event (SettingCreated data) by uid (settings_insert i content s))
          | None \<Rightarrow> modS (\<lambda>s. setting_store_event (SettingCreated data) by uid (settings_insert i content s)))"

definition setting_delete :: "string \<Rightarrow> string \<Rightarrow> int \<Rightarrow> unit setting_op" where
  "setting_delete i by uid =
     modS (\<lambda>s. setting_store_event (SettingDeleted [(''id'', JString i)]) by uid (settings_delete i s))"

definition setting_deleteAll :: "unit setting_op" where
  "setting_deleteAll = modS settings_deleteAll"


section \<open>Maintenance mode\<close>

text \<open>
  The service remembers the mode for a minute (\<open>memoizee\<close> with \<open>maxAge\<close>): what it read, and when. The
  flag \<open>maintenanceMode\<close> of the server turns the mode on whatever the setting says.
\<close>

record maintenance =
  mt_settings :: settings
  mt_memo :: "(bool \<times> int) option"
  mt_flag :: bool

type_synonym 'a maintenance_op = "(maintenance, 'a) op"

definition maintenanceSettingsKey :: string where
  "maintenanceSettingsKey = ''maintenance.mode''"

definition MAINTENANCE_MAX_AGE :: int where
  "MAINTENANCE_MAX_AGE = 60000"

definition getMaintenanceSetting :: "maintenance \<Rightarrow> json" where
  "getMaintenanceSetting s =
     setting_getWithDefault maintenanceSettingsKey (JObject [(''enabled'', JBool False)]) (mt_settings s)"

definition maintenance_enabled :: "maintenance \<Rightarrow> bool" where
  "maintenance_enabled s = (case json_member ''enabled'' (getMaintenanceSetting s) of None \<Rightarrow> False | Some j \<Rightarrow> json_truthy j)"

definition resolveMaintenance :: "int \<Rightarrow> bool maintenance_op" where
  "resolveMaintenance now s = (case mt_memo s of
       Some (b, t) \<Rightarrow>
         if now < t + MAINTENANCE_MAX_AGE then (Inr b, s)
         else (Inr (maintenance_enabled s), s\<lparr>mt_memo := Some (maintenance_enabled s, now)\<rparr>)
     | None \<Rightarrow> (Inr (maintenance_enabled s), s\<lparr>mt_memo := Some (maintenance_enabled s, now)\<rparr>))"

definition isMaintenanceMode :: "int \<Rightarrow> bool maintenance_op" where
  "isMaintenanceMode now =
     bindS (askS mt_flag) (\<lambda>flag. if flag then returnS True else orElseS (resolveMaintenance now) (\<lambda>_. returnS False))"

text \<open>The switch forgets what was remembered, then writes the setting: two steps, other requests may come between.\<close>

definition maintenance_clear :: "unit maintenance_op" where
  "maintenance_clear = modS (\<lambda>s. s\<lparr>mt_memo := None\<rparr>)"

definition maintenance_write :: "bool \<Rightarrow> string \<Rightarrow> int \<Rightarrow> unit maintenance_op" where
  "maintenance_write enabled user uid s =
     (case setting_insert maintenanceSettingsKey [(''enabled'', JBool enabled)] user uid False (mt_settings s) of
        (r, st) \<Rightarrow> (r, s\<lparr>mt_settings := st\<rparr>))"

definition toggleMaintenanceMode :: "bool \<Rightarrow> string \<Rightarrow> int \<Rightarrow> unit maintenance_op" where
  "toggleMaintenanceMode enabled user uid = thenS maintenance_clear (maintenance_write enabled user uid)"

text \<open>The middleware: whether a request is answered with 503.\<close>

definition guarded_request :: "string \<Rightarrow> string \<Rightarrow> bool" where
  "guarded_request path method' =
     (\<not> str_includes path ''/maintenance'' \<and> List.member [''POST'', ''PUT'', ''DELETE''] method')"

definition maintenanceMiddleware :: "int \<Rightarrow> string \<Rightarrow> string \<Rightarrow> bool maintenance_op" where
  "maintenanceMiddleware now path method' =
     (if guarded_request path method' then isMaintenanceMode now else returnS False)"


section \<open>Favourites\<close>

record favorite =
  fav_userId :: int
  fav_key :: string
  fav_createdAt :: int

datatype favorite_event_kind = FeatureFavorited string | FeatureUnfavorited string | ProjectFavorited string | ProjectUnfavorited string

record favorite_event =
  fe_kind :: favorite_event_kind
  fe_createdBy :: string
  fe_createdByUserId :: int

record favorites =
  fv_db :: feature_db
  fv_users :: "int list"
  fv_features :: "favorite list"
  fv_projects :: "favorite list"
  fv_events :: "favorite_event list"

type_synonym 'a favorite_op = "(favorites, 'a) op"

definition favorite_store_event :: "favorite_event_kind \<Rightarrow> acting_user \<Rightarrow> unit favorite_op" where
  "favorite_store_event kind user = modS (\<lambda>s. s\<lparr>fv_events := fv_events s @
     [\<lparr>fe_kind = kind, fe_createdBy = username_of user, fe_createdByUserId = ax_id user\<rparr>]\<rparr>)"

definition is_favorite :: "int \<Rightarrow> string \<Rightarrow> favorite \<Rightarrow> bool" where
  "is_favorite uid k f = (fav_userId f = uid \<and> fav_key f = k)"

text \<open>An insertion that meets a row of the same key leaves it and returns it; a new row is under two foreign keys.\<close>

definition add_favorite ::
  "int \<Rightarrow> int \<Rightarrow> string \<Rightarrow> exn option \<Rightarrow> favorite list \<Rightarrow> exn + favorite \<times> favorite list" where
  "add_favorite now uid k refused rows = (case find (is_favorite uid k) rows of
       Some f \<Rightarrow> Inr (f, rows)
     | None \<Rightarrow> (case refused of
           Some e \<Rightarrow> Inl e
         | None \<Rightarrow> let f = \<lparr>fav_userId = uid, fav_key = k, fav_createdAt = now\<rparr> in Inr (f, rows @ [f])))"

definition favorite_refused :: "bool \<Rightarrow> string \<Rightarrow> string \<Rightarrow> int \<Rightarrow> favorites \<Rightarrow> exn option" where
  "favorite_refused known key_fkey user_fkey uid s =
     (if \<not> known then Some (fd_fk_error (fv_db s) key_fkey)
      else if \<not> List.member (fv_users s) uid then Some (fd_fk_error (fv_db s) user_fkey) else None)"

definition addFavoriteFeature :: "int \<Rightarrow> int \<Rightarrow> string \<Rightarrow> favorite favorite_op" where
  "addFavoriteFeature now uid feature s =
     (case add_favorite now uid feature (favorite_refused (features_exists feature (fv_db s))
        ''favorite_features_feature_fkey'' ''favorite_features_user_id_fkey'' uid s) (fv_features s) of
        Inl e \<Rightarrow> (Inl e, s)
      | Inr (f, rows) \<Rightarrow> (Inr f, s\<lparr>fv_features := rows\<rparr>))"

definition addFavoriteProject :: "int \<Rightarrow> int \<Rightarrow> string \<Rightarrow> favorite favorite_op" where
  "addFavoriteProject now uid project s =
     (case add_favorite now uid project (favorite_refused (hasProject project (fv_db s))
        ''favorite_projects_project_fkey'' ''favorite_projects_user_id_fkey'' uid s) (fv_projects s) of
        Inl e \<Rightarrow> (Inl e, s)
      | Inr (f, rows) \<Rightarrow> (Inr f, s\<lparr>fv_projects := rows\<rparr>))"

definition favorite_features_delete :: "int \<Rightarrow> string \<Rightarrow> favorites \<Rightarrow> favorites" where
  "favorite_features_delete uid feature s = s\<lparr>fv_features := filter (\<lambda>f. \<not> is_favorite uid feature f) (fv_features s)\<rparr>"

definition favorite_projects_delete :: "int \<Rightarrow> string \<Rightarrow> favorites \<Rightarrow> favorites" where
  "favorite_projects_delete uid project s = s\<lparr>fv_projects := filter (\<lambda>f. \<not> is_favorite uid project f) (fv_projects s)\<rparr>"

definition favorite_features_deleteAll :: "favorites \<Rightarrow> favorites" where
  "favorite_features_deleteAll s = s\<lparr>fv_features := []\<rparr>"

definition favorite_projects_deleteAll :: "favorites \<Rightarrow> favorites" where
  "favorite_projects_deleteAll s = s\<lparr>fv_projects := []\<rparr>"

definition favorite_features_exists :: "int \<Rightarrow> string \<Rightarrow> favorites \<Rightarrow> bool" where
  "favorite_features_exists uid feature s = list_ex (is_favorite uid feature) (fv_features s)"

definition favorite_projects_exists :: "int \<Rightarrow> string \<Rightarrow> favorites \<Rightarrow> bool" where
  "favorite_projects_exists uid project s = list_ex (is_favorite uid project) (fv_projects s)"

text \<open>A missing row is read as an object all the same.\<close>

definition favorite_row :: "favorite option \<Rightarrow> exn + favorite" where
  "favorite_row r = (case r of
       None \<Rightarrow> Inl (JsError ''TypeError'' ''Cannot read properties of undefined (reading 'user_id')'')
     | Some f \<Rightarrow> Inr f)"

definition favorite_features_get :: "int \<Rightarrow> string \<Rightarrow> favorites \<Rightarrow> exn + favorite" where
  "favorite_features_get uid feature s = favorite_row (find (is_favorite uid feature) (fv_features s))"

definition favorite_projects_get :: "int \<Rightarrow> string \<Rightarrow> favorites \<Rightarrow> exn + favorite" where
  "favorite_projects_get uid project s = favorite_row (find (is_favorite uid project) (fv_projects s))"

definition favorite_features_getAll :: "favorites \<Rightarrow> favorite list" where
  "favorite_features_getAll = fv_features"

definition favorite_projects_getAll :: "favorites \<Rightarrow> favorite list" where
  "favorite_projects_getAll = fv_projects"

definition favoriteFeature :: "int \<Rightarrow> string \<Rightarrow> acting_user \<Rightarrow> favorite favorite_op" where
  "favoriteFeature now feature user =
     bindS (addFavoriteFeature now (ax_id user) feature) (\<lambda>f.
     thenS (favorite_store_event (FeatureFavorited feature) user) (returnS f))"

definition unfavoriteFeature :: "string \<Rightarrow> acting_user \<Rightarrow> unit favorite_op" where
  "unfavoriteFeature feature user =
     thenS (modS (favorite_features_delete (ax_id user) feature)) (favorite_store_event (FeatureUnfavorited feature) user)"

text \<open>The write of a project is not awaited before the event is stored; its failure comes out at the end.\<close>

definition favoriteProject :: "int \<Rightarrow> string \<Rightarrow> acting_user \<Rightarrow> favorite favorite_op" where
  "favoriteProject now project user s =
     (case addFavoriteProject now (ax_id user) project s of
        (data, s1) \<Rightarrow> thenS (favorite_store_event (ProjectFavorited project) user) (tryS (\<lambda>_. data)) s1)"

definition unfavoriteProject :: "string \<Rightarrow> acting_user \<Rightarrow> unit favorite_op" where
  "unfavoriteProject project user =
     thenS (modS (favorite_projects_delete (ax_id user) project)) (favorite_store_event (ProjectUnfavorited project) user)"

definition isFavoriteProject :: "int option \<Rightarrow> string \<Rightarrow> favorites \<Rightarrow> bool" where
  "isFavoriteProject uid project s =
     (if num_or uid 0 \<noteq> 0 then favorite_projects_exists (num_or uid 0) project s else False)"

end
