(* ===== verification/CatalogFacts.thy ===== *)
theory CatalogFacts
  imports TagFacts Catalogs Settings FeatureService
begin

text \<open>
  Facts about the catalogs: the contract of a table whose rows have a name, which tag types, strategy
  types and context fields fulfil; what a deleted context field means to the feature service; what a
  setting keeps; and how long the memory of the maintenance mode lasts.
\<close>

section \<open>Tables of named rows\<close>

locale named_rows =
  fixes rows :: "'s \<Rightarrow> 'r list"
    and name_of :: "'r \<Rightarrow> string"
    and get :: "string \<Rightarrow> 's \<Rightarrow> exn + 'v"
    and present :: "string \<Rightarrow> 's \<Rightarrow> bool"
    and remove :: "string \<Rightarrow> 's \<Rightarrow> 's"
  assumes get_by_row: "find (\<lambda>r. name_of r = n) (rows s) = find (\<lambda>r. name_of r = n) (rows s') \<Longrightarrow> get n s = get n s'"
    and get_missing: "(\<exists>e. get n s = Inl e) \<longleftrightarrow> n \<notin> name_of ` set (rows s)"
    and present_iff: "present n s \<longleftrightarrow> n \<in> name_of ` set (rows s)"
    and rows_remove: "rows (remove n s) = filter (\<lambda>r. name_of r \<noteq> n) (rows s)"
begin

lemma present_get: "present n s \<longleftrightarrow> (\<exists>v. get n s = Inr v)"
  using get_missing [of n s] present_iff [of n s] by (cases "get n s") auto

lemma removed: "\<not> present n (remove n s)" "\<exists>e. get n (remove n s) = Inl e"
  by (auto simp: present_iff get_missing rows_remove)

lemma others_kept:
  assumes "m \<noteq> n"
  shows "get m (remove n s) = get m s" "present m (remove n s) = present m s"
proof -
  have "find (\<lambda>r. name_of r = m) (filter (\<lambda>r. name_of r \<noteq> n) rs) = find (\<lambda>r. name_of r = m) rs" for rs
    using assms by (induction rs) auto
  then have "find (\<lambda>r. name_of r = m) (rows (remove n s)) = find (\<lambda>r. name_of r = m) (rows s)"
    by (simp only: rows_remove)
  then show "get m (remove n s) = get m s" by (rule get_by_row)
  then show "present m (remove n s) = present m s" by (simp add: present_get)
qed

end

lemma find_named: "find (\<lambda>r. f r = n) rs = None \<longleftrightarrow> n \<notin> f ` set rs"
  by (auto simp: find_None_iff')

interpretation tag_types: named_rows tz_types tt_name tag_types_get tag_types_exists tag_types_delete
proof
  show "(\<exists>e. tag_types_get n s = Inl e) \<longleftrightarrow> n \<notin> tt_name ` set (tz_types s)" for n s
    using find_named [of tt_name n "tz_types s"] by (auto simp: tag_types_get_def split: option.split)
qed (simp_all add: tag_types_get_def tag_types_exists_iff tag_types_delete_def delete_types_def delete_tags_def Let_def)

interpretation strategy_types: named_rows cg_strategies sy_name strategy_types_get strategy_types_exists strategy_types_delete
proof
  show "(\<exists>e. strategy_types_get n s = Inl e) \<longleftrightarrow> n \<notin> sy_name ` set (cg_strategies s)" for n s
    using find_named [of sy_name n "cg_strategies s"]
    by (auto simp: strategy_types_get_def strategy_type_of_row_def split: option.split)
qed (auto simp: strategy_types_get_def strategy_types_exists_def strategy_types_delete_def list_ex_iff)

interpretation context_fields: named_rows cg_fields cx_name context_get context_exists context_delete
proof
  show "(\<exists>e. context_get n s = Inl e) \<longleftrightarrow> n \<notin> cx_name ` set (cg_fields s)" for n s
    using find_named [of cx_name n "cg_fields s"] by (auto simp: context_get_def split: option.split)
qed (auto simp: context_get_def context_exists_def context_delete_def list_ex_iff)


section \<open>Context fields and constraints\<close>

lemma field_in_view: "(\<exists>legal. context_field_get n (catalog_view s) = Inr legal) \<longleftrightarrow> context_exists n s"
proof -
  have "map_of (map (\<lambda>c. (cx_name c, map lv_value (cx_legal_values c))) fs) n = None \<longleftrightarrow> n \<notin> cx_name ` set fs" for fs
    by (induction fs) auto
  from this [of "cg_fields s"] show ?thesis
    by (auto simp: context_field_get_def catalog_view_def context_fields.present_iff split: option.split)
qed

lemma constraint_needs_field:
  assumes "\<not> context_exists (contextName c) s"
  shows "\<exists>e. validateConstraint cfg c (catalog_view s) = Inl e"
proof -
  obtain e where "context_field_get (contextName c) (catalog_view s) = Inl e"
    using field_in_view [of "contextName c" s] assms by (cases "context_field_get (contextName c) (catalog_view s)") auto
  moreover have "constraintSchema cfg c = Inr c' \<Longrightarrow> c' = c" for c'
    by (cases "joi_first (constraint_errors cfg (\<lambda>f. CHR 0x22 # f @ [CHR 0x22]) c)") (simp_all add: constraintSchema_def bindR_def)
  ultimately show ?thesis
    by (cases "constraintSchema cfg c") (simp_all add: validateConstraint_def bindR_def)
qed

lemma mapR_fails: "x \<in> set xs \<Longrightarrow> f x = Inl e \<Longrightarrow> \<exists>e'. mapR f xs = Inl e'"
  by (induction xs) (auto simp: bindR_def split: sum.split)

lemma constraints_need_fields:
  "c \<in> set cs \<Longrightarrow> \<not> context_exists (contextName c) s \<Longrightarrow> \<exists>e. validateConstraints cfg cs (catalog_view s) = Inl e"
  unfolding validateConstraints_def using constraint_needs_field [of c s cfg] mapR_fails by fastforce

text \<open>An operation that ends in an error without a change, before or after reading steps.\<close>

definition refuses :: "('s, 'a) op \<Rightarrow> 's \<Rightarrow> bool" where
  "refuses m s = (\<exists>e. m s = (Inl e, s))"

lemma refuses_bind:
  "refuses m s \<Longrightarrow> refuses (bindS m k) s"
  "(\<And>x. refuses (k x) s) \<Longrightarrow> refuses (bindS (tryS f) k) s"
  "(\<And>x. refuses (k x) s) \<Longrightarrow> refuses (bindS (askS g) k) s"
  by (auto simp: refuses_def bindS_def split: sum.split)

lemma refuses_then:
  "refuses n s \<Longrightarrow> refuses (thenS (tryS f) n) s" "refuses n s \<Longrightarrow> refuses (thenS (askS g) n) s"
  "refuses n s \<Longrightarrow> refuses (thenS (guardS b e) n) s"
  by (auto simp: refuses_def thenS_def bindS_def guardS_def throw_if_def split: sum.split)

lemma update_refused:
  assumes "c # cs = constraints" "\<exists>e. validateConstraints cfg constraints (fs_db fs) = Inl e" "su_constraints u = Some constraints"
  shows "refuses (unprotectedUpdateStrategy cfg key u project name env by user) fs"
proof -
  have "refuses (bindS (try_db (validateConstraints cfg (c # cs))) k) fs" for k :: "constraint list \<Rightarrow> 'b feature_op"
    by (rule refuses_bind(1)) (use assms in \<open>auto simp: refuses_def try_db_def\<close>)
  then show ?thesis
    unfolding unprotectedUpdateStrategy_def try_db_def ask_db_def
    using assms by (intro refuses_bind refuses_then) (auto simp: try_db_def intro: refuses_bind(1))
qed

lemma stop_reads: "snd (stopWhenChangeRequestsEnabled project env user s) = s"
  by (simp add: stopWhenChangeRequestsEnabled_def stop_project_def bindS_def askS_def guardS_def split: sum.split)

lemma refuses_after_reading: "snd (m s) = s \<Longrightarrow> refuses n s \<Longrightarrow> refuses (thenS m n) s"
  by (cases "m s") (auto simp: refuses_def thenS_def bindS_def split: sum.split)


section \<open>Settings\<close>

lemma map_of_update_row:
  "map_of (map (\<lambda>r. if fst r = n then (n, v) else r) rs) m = (if m = n then map_option (\<lambda>_. v) (map_of rs n) else map_of rs m)"
  by (induction rs) auto

lemma settings_insert_get:
  "settings_get m (settings_insert n content s) = (if m = n then Some (JObject content) else settings_get m s)"
proof (cases "settings_exists n s")
  case True
  then have "map_of (sn_rows s) n \<noteq> None" by (auto simp: settings_exists_def list_ex_iff map_of_eq_None_iff)
  then show ?thesis
    using True by (auto simp: settings_insert_def settings_updateRow_def settings_get_def map_of_update_row)
next
  case False
  then have "map_of (sn_rows s) n = None" by (auto simp: settings_exists_def list_ex_iff map_of_eq_None_iff)
  then show ?thesis
    using False by (auto simp: settings_insert_def settings_insertNewRow_def settings_get_def map_add_def split: option.split)
qed

lemma settings_update_get:
  "settings_get n s = Some v \<Longrightarrow> settings_updateRow n content s = settings_insert n content s"
  unfolding settings_insert_def settings_exists_def settings_get_def list_ex_iff
  by (metis fst_conv map_of_SomeD)

text \<open>An insertion, in terms of the row it leaves and the event it stores.\<close>

lemma setting_insert_run:
  "\<exists>kind. setting_insert i content by uid hide s =
     (Inr (), setting_store_event kind by uid (settings_insert i content s)) \<and>
     (kind = SettingCreated (if hide then [(''id'', JString i), (''hideEventDetails'', JBool True)] else json_spread [(''id'', JString i)] content) \<or>
      (\<exists>v. settings_get i s = Some v \<and>
        kind = SettingUpdated (if hide then [(''id'', JString i), (''hideEventDetails'', JBool True)] else json_spread [(''id'', JString i)] content)
                 (if hide then JObject [(''hideEventDetails'', JBool True)] else v)))"
  by (cases "settings_get i s") (auto simp: setting_insert_def Let_def settings_update_get)

lemma settings_get_event [simp]: "settings_get n (setting_store_event kind by uid s) = settings_get n s"
  by (simp add: settings_get_def setting_store_event_def)


section \<open>The memory of the maintenance mode\<close>

lemma maintenance_write_run:
  assumes "maintenance_write b user uid s = (r, s')"
  shows "r = Inr ()" "mt_memo s' = mt_memo s" "mt_flag s' = mt_flag s" "maintenance_enabled s' = b"
proof -
  obtain kind where "setting_insert maintenanceSettingsKey [(''enabled'', JBool b)] user uid False (mt_settings s) =
      (Inr (), setting_store_event kind user uid (settings_insert maintenanceSettingsKey [(''enabled'', JBool b)] (mt_settings s)))"
    using setting_insert_run by blast
  then show "r = Inr ()" "mt_memo s' = mt_memo s" "mt_flag s' = mt_flag s" "maintenance_enabled s' = b"
    using assms by (auto simp: maintenance_write_def maintenance_enabled_def getMaintenanceSetting_def
        setting_getWithDefault_def settings_insert_get json_member_def)
qed

text \<open>Requests at times that do not go back, and the two steps of a switch.\<close>

inductive requests :: "int \<times> maintenance \<Rightarrow> int \<times> maintenance \<Rightarrow> bool" where
  none: "requests c c"
| asked: "requests c (t, s) \<Longrightarrow> t \<le> t' \<Longrightarrow> maintenanceMiddleware t' path method' s = (r, s') \<Longrightarrow> requests c (t', s')"

inductive reachable_maintenance :: "int \<times> maintenance \<Rightarrow> bool" where
  start: "mt_memo s = None \<Longrightarrow> reachable_maintenance (t, s)"
| request: "reachable_maintenance c \<Longrightarrow> requests c c' \<Longrightarrow> reachable_maintenance c'"
| cleared: "reachable_maintenance (t, s) \<Longrightarrow> t \<le> t' \<Longrightarrow> maintenance_clear s = (r, s') \<Longrightarrow> reachable_maintenance (t', s')"
| written: "reachable_maintenance (t, s) \<Longrightarrow> t \<le> t' \<Longrightarrow> maintenance_write b user uid s = (r, s') \<Longrightarrow> reachable_maintenance (t', s')"

text \<open>What is remembered is the mode of the setting, or was read before the last write.\<close>

definition memo_since :: "int \<Rightarrow> maintenance \<Rightarrow> bool" where
  "memo_since tw s = (\<forall>b t. mt_memo s = Some (b, t) \<longrightarrow> t \<le> tw \<or> b = maintenance_enabled s)"

lemma resolve_run:
  assumes "resolveMaintenance now s = (r, s')"
  shows "mt_settings s' = mt_settings s" "mt_flag s' = mt_flag s"
    "mt_memo s' = mt_memo s \<or> mt_memo s' = Some (maintenance_enabled s, now)"
    "\<exists>b. r = Inr b"
  using assms by (auto simp: resolveMaintenance_def split: option.splits if_splits)

lemma enabled_of_settings: "mt_settings s' = mt_settings s \<Longrightarrow> maintenance_enabled s' = maintenance_enabled s"
  by (simp add: maintenance_enabled_def getMaintenanceSetting_def)

lemma mode_run:
  assumes "isMaintenanceMode now s = (r, s')"
  shows "mt_settings s' = mt_settings s" "mt_flag s' = mt_flag s"
    "mt_memo s' = mt_memo s \<or> mt_memo s' = Some (maintenance_enabled s, now)"
proof -
  obtain r1 s1 where one: "resolveMaintenance now s = (r1, s1)" by (cases "resolveMaintenance now s")
  note first = resolve_run [OF one]
  have "s' = s \<or> s' = s1" using assms one first(4) by (auto simp: isMaintenanceMode_def orElseS_def split: if_splits)
  then show "mt_settings s' = mt_settings s" "mt_flag s' = mt_flag s"
    "mt_memo s' = mt_memo s \<or> mt_memo s' = Some (maintenance_enabled s, now)" using first by auto
qed

lemma request_run:
  assumes "maintenanceMiddleware now path method' s = (r, s')"
  shows "mt_settings s' = mt_settings s" "mt_flag s' = mt_flag s"
    "mt_memo s' = mt_memo s \<or> mt_memo s' = Some (maintenance_enabled s, now)"
  using assms mode_run [of now s r s'] by (auto simp: maintenanceMiddleware_def split: if_splits)

lemma request_memo:
  assumes "maintenanceMiddleware now path method' s = (r, s')"
  shows "memo_since tw s \<Longrightarrow> memo_since tw s'"
    "mt_memo s' = Some (b, t) \<Longrightarrow> mt_memo s = Some (b, t) \<or> t = now"
proof -
  note run = request_run [OF assms]
  have same: "maintenance_enabled s' = maintenance_enabled s" by (rule enabled_of_settings [OF run(1)])
  show "memo_since tw s \<Longrightarrow> memo_since tw s'"
    using run(3) by (elim disjE) (simp_all add: memo_since_def same)
  show "mt_memo s' = Some (b, t) \<Longrightarrow> mt_memo s = Some (b, t) \<or> t = now"
    using run(3) by auto
qed

lemma requests_keep:
  assumes "requests c c'"
  shows "fst c \<le> fst c'" "mt_settings (snd c') = mt_settings (snd c)" "mt_flag (snd c') = mt_flag (snd c)"
    "memo_since tw (snd c) \<Longrightarrow> memo_since tw (snd c')"
  using assms by (induction rule: requests.induct) (auto dest: request_run request_memo(1))

lemma requests_memo:
  "requests c c' \<Longrightarrow> mt_memo (snd c') = Some (b, t) \<Longrightarrow> mt_memo (snd c) = Some (b, t) \<or> t \<le> fst c'"
proof (induction rule: requests.induct)
  case (asked c t0 s t' path method' r s')
  then show ?case using request_memo(2) [OF asked.hyps(3), of b t] by auto
qed simp

lemma memo_in_the_past: "reachable_maintenance c \<Longrightarrow> mt_memo (snd c) = Some (b, t) \<Longrightarrow> t \<le> fst c"
proof (induction arbitrary: b t rule: reachable_maintenance.induct)
  case (request c c')
  then show ?case using requests_memo [OF request.hyps(2)] requests_keep(1) [OF request.hyps(2)] by force
next
  case (cleared t s t' r s')
  then show ?case by (auto simp: maintenance_clear_def)
next
  case (written t s t' b user uid r s')
  then show ?case using maintenance_write_run(2) by fastforce
qed simp

lemma mode_when_settled:
  assumes "memo_since tw s" "tw + MAINTENANCE_MAX_AGE \<le> now"
  shows "fst (isMaintenanceMode now s) = Inr (mt_flag s \<or> maintenance_enabled s)"
  using assms by (auto simp: isMaintenanceMode_def orElseS_def resolveMaintenance_def memo_since_def split: option.splits)

end
