(* ===== verification/CatalogProperties.thy ===== *)
theory CatalogProperties
  imports CatalogFacts
begin

text \<open>
  The properties of tags, catalogs, settings and the maintenance mode, each with a concrete instance.
\<close>

section \<open>Tags\<close>

text \<open>
  C30: However tag types, tags, features and the tags of features came about, by the services, the handlers or
  the imports, and whatever was deleted and in whichever order: no type, no tag and no tag of a feature
  is there twice; every tag has a type; and every tag of a feature is a tag of the table on a feature that exists.
\<close>

theorem reachable_tags_consistent:
  assumes "reachable_tags s"
  shows "distinct (map tt_name (tag_types_getAll s)) \<and> distinct (tags_getAll s) \<and> distinct (ftags_getAll (tz_db s)) \<and>
    (\<forall>t\<in>set (tags_getAll s). tag_types_exists (ta_type t) s) \<and>
    (\<forall>r\<in>set (ftags_getAll (tz_db s)). tags_exists (tag_of r) s \<and> (\<exists>ts. listTags (tg_feature r) s = Inr ts \<and> tag_of r \<in> set ts))"
proof -
  have ok: "tags_ok s" by (rule reachable_tags_ok [OF assms])
  have "\<exists>ts. listTags (tg_feature r) s = Inr ts \<and> tag_of r \<in> set ts" if "r \<in> set (fd_tags (tz_db s))" for r
  proof -
    have "features_exists (tg_feature r) (tz_db s)" using ok that by (simp add: tags_ok_def features_exists_names)
    then show ?thesis using that by (auto simp: listTags_def getAllTagsForFeature_def)
  qed
  then show ?thesis
    using ok by (simp add: tags_ok_def tag_types_getAll_def tags_getAll_def ftags_getAll_def tag_types_exists_iff tags_exists_def)
qed

definition tag1 :: tag where
  "tag1 = \<lparr>ta_type = ''simple'', ta_value = ''beta''\<rparr>"

definition tag2 :: tag where
  "tag2 = \<lparr>ta_type = ''simple'', ta_value = ''old''\<rparr>"

definition feature_named :: "string \<Rightarrow> feature_row" where
  "feature_named n = \<lparr>ft_name = n, ft_description = None, ft_type = ''release'', ft_project = ''p'', ft_stale = False,
     ft_created_at = 0, ft_last_seen_at = None, ft_impression_data = False, ft_archived_at = None,
     ft_created_by_user_id = None, ft_potentially_stale = None\<rparr>"

definition strategy1 :: strategy_row where
  "strategy1 = \<lparr>sr_id = ''s'', sr_feature = ''f'', sr_project = ''p'', sr_environment = ''prod'', sr_name = ''default'',
     sr_title = None, sr_parameters = (\<lambda>_. None), sr_constraints = [\<lparr>contextName = ''region'', operator = IN, inverted = False, vals = [''eu''],
       cvalue = None, caseInsensitive = None\<rparr>],
     sr_variants = [], sr_sort_order = 0, sr_created_at = 0, sr_disabled = False\<rparr>"

definition tagged_db :: feature_db where
  "tagged_db = \<lparr>fd_features = [feature_named ''f'', feature_named ''g''], fd_envs = [], fd_strategies = [strategy1], fd_segments = [],
     fd_strategy_segments = [], fd_dependencies = [], fd_environments = [], fd_projects = [], fd_project_envs = [],
     fd_context_fields = [], fd_strategy_types = [], fd_change_requests = [], fd_cr_segments = [],
     fd_tags = [], fd_feature_types = [], fd_next_segment = 1, fd_message = (\<lambda>c. c)\<rparr>"

theorem reachable_tags_consistent_witness:
  "tags_getAll (snd (updateTags [''f'', ''g''] [tag1] [] ''ann'' 1 (fresh_tagging tagged_db))) = [tag1] \<and>
   tag_types_exists (ta_type tag1) (snd (updateTags [''f'', ''g''] [tag1] [] ''ann'' 1 (fresh_tagging tagged_db)))"
proof -
  let ?s = "snd (updateTags [''f'', ''g''] [tag1] [] ''ann'' 1 (fresh_tagging tagged_db))"
  have "reachable_tags ?s"
    by (rule reachable_tags.step [OF reachable_tags.fresh [of tagged_db]])
      (rule tag_step.bulk_updated [of "[''f'', ''g'']" "[tag1]" "[]" "''ann''" 1 _ "fst (updateTags [''f'', ''g''] [tag1] [] ''ann'' 1 (fresh_tagging tagged_db))"], simp)
  note inv = reachable_tags_consistent [OF this]
  moreover have "tags_getAll ?s = [tag1]" by code_simp
  ultimately show ?thesis by simp
qed

text \<open>
  C12: A bulk update of tags is exact or refused. If every added tag is of a type that exists, and the features exist where
  tags are added, then afterwards the named features have the tags they had and the added ones, less the removed ones,
  the other features have what they had, and the added tags are known. Otherwise it is refused and no feature's tags
  change, but the tags that could be created stay.
\<close>

theorem bulk_tags_exact:
  assumes ok: "reachable_tags s" and run: "updateTags features added removed userName uid s = (r, s')"
  shows "if (\<forall>t\<in>set added. tag_types_exists (ta_type t) s) \<and> (added = [] \<or> (\<forall>f\<in>set features. features_exists f (tz_db s)))
    then r = Inr () \<and> set (tz_tags s') = set (tz_tags s) \<union> set added \<and>
      (\<forall>x. x \<in> set (fd_tags (tz_db s')) \<longleftrightarrow>
         (x \<in> set (fd_tags (tz_db s)) \<or> tg_feature x \<in> set features \<and> tag_of x \<in> set added) \<and>
         \<not> (tg_feature x \<in> set features \<and> tag_of x \<in> set removed))
    else (\<exists>e. r = Inl e) \<and> tz_db s' = tz_db s \<and>
      set (tz_tags s') = set (tz_tags s) \<union> {t \<in> set added. tag_types_exists (ta_type t) s}"
proof -
  let ?create = "allS (\<lambda>t. createTagIfNeeded t userName uid) added"
  obtain r1 s1 where one: "?create s = (r1, s1)" by (cases "?create s")
  have typed: "tag_types_exists (ta_type t) s = has_type s t" for t by (simp add: tag_types_exists_iff has_type_def)
  note c = create_tags_run [OF reachable_tags_ok [OF ok] one]
  obtain r2 s2 where two: "tagFeatures (feature_tag_pairs features added) s1 = (r2, s2)"
    by (cases "tagFeatures (feature_tag_pairs features added) s1")
  show ?thesis
  proof (cases "\<forall>t\<in>set added. has_type s t")
    case all: True
    then obtain us where us: "r1 = Inr us" using c by auto
    have tags: "set (tz_tags s1) = set (tz_tags s) \<union> set added" using c all by auto
    note f = tagFeatures_run [OF conjunct1 [OF c] two, unfolded tags]
    have db1: "tz_db s1 = tz_db s" using c by simp
    show ?thesis
    proof (cases "added = [] \<or> set features \<subseteq> set (feature_names (tz_db s))")
      case True
      then obtain rs where "r2 = Inr rs" "set (fd_tags (tz_db s2)) = set (fd_tags (tz_db s)) \<union> {r. tg_feature r \<in> set features \<and> tag_of r \<in> set added}"
        using f(3) by (auto simp: db1)
      moreover have "r = Inr ()" "tz_tags s' = tz_tags s2"
        "fd_tags (tz_db s') = filter (\<lambda>x. x \<notin> set (feature_tag_pairs features removed)) (fd_tags (tz_db s2))"
        using run one two us \<open>r2 = Inr rs\<close> by (auto simp: updateTags_def thenS_def bindS_def askS_def modS_def untagFeatures_def)
      ultimately show ?thesis
        using all True f(1) tags by (auto simp: typed features_exists_names feature_tag_pairs_set)
    next
      case False
      then obtain e where "r2 = Inl e" "tz_db s2 = tz_db s" using f(3) by (auto simp: db1)
      moreover from this have "r = Inl e" "s' = s2"
        using run one two us by (auto simp: updateTags_def thenS_def bindS_def askS_def)
      ultimately show ?thesis using all False f(1) tags by (auto simp: typed features_exists_names)
    qed
  next
    case False
    then obtain e where "r1 = Inl e" using c unfolding if_not_P [OF False] by blast
    then have "r = Inl e" "s' = s1" using run one by (auto simp: updateTags_def thenS_def bindS_def askS_def)
    then show ?thesis using c False by (auto simp: typed)
  qed
qed

theorem bulk_tags_exact_witness:
  "fst (updateTags [''f'', ''h''] [tag1] [tag2] ''ann'' 1 (fresh_tagging tagged_db)) \<noteq> Inr () \<and>
   tag1 \<in> set (tz_tags (snd (updateTags [''f'', ''h''] [tag1] [tag2] ''ann'' 1 (fresh_tagging tagged_db))))"
proof -
  let ?run = "updateTags [''f'', ''h''] [tag1] [tag2] ''ann'' 1 (fresh_tagging tagged_db)"
  have "\<not> features_exists ''h'' (tz_db (fresh_tagging tagged_db))" "tag_types_exists (ta_type tag1) (fresh_tagging tagged_db)"
    by code_simp+
  then show ?thesis
    using bulk_tags_exact [OF reachable_tags.fresh [of tagged_db], of "[''f'', ''h'']" "[tag1]" "[tag2]" "''ann''" 1 "fst ?run" "snd ?run"]
    by auto
qed


section \<open>Context fields\<close>

text \<open>
  C13: The deletion of a context field leaves the strategies that use it as they are, but freezes them: whoever sends the
  constraints such a strategy has, unchanged, with any other change, is refused, and nothing changes.
\<close>

theorem deleted_field_freezes_strategies:
  assumes deleted: "deleteContextField name userName uid s = (Inr u, s')"
    and uses: "r \<in> set (users_of_field name (cg_db s))"
    and tables: "fs_db fs = catalog_view s'" and same: "su_constraints upd = Some (sr_constraints r)"
  shows "r \<in> set (fd_strategies (fs_db fs)) \<and>
    (\<exists>e. updateStrategy cfg key upd project feature env by user fs = (Inl e, fs))"
proof -
  have s': "s' = context_delete name s\<lparr>cg_events := cg_events s'\<rparr>"
    using deleted by (auto simp: deleteContextField_def bindS_def thenS_def tryS_def modS_def catalog_store_event_def
        context_delete_def split: sum.splits)
  obtain c where c: "c \<in> set (sr_constraints r)" "contextName c = name" and r: "r \<in> set (fd_strategies (cg_db s))"
    using uses by (auto simp: users_of_field_def list_ex_iff)
  have "\<not> context_exists name (context_delete name s)" by (rule context_fields.removed(1))
  then have "\<not> context_exists (contextName c) s'"
    unfolding c(2) by (subst s') (simp add: context_exists_def context_delete_def)
  then have "\<exists>e. validateConstraints cfg (sr_constraints r) (fs_db fs) = Inl e"
    unfolding tables by (rule constraints_need_fields [OF c(1)])
  moreover obtain d ds where "d # ds = sr_constraints r" using c(1) by (cases "sr_constraints r") auto
  ultimately have "refuses (updateStrategy cfg key upd project feature env by user) fs"
    unfolding updateStrategy_def using same by (intro refuses_after_reading stop_reads update_refused)
  moreover have "cg_db s' = cg_db s" by (subst s') (simp add: context_delete_def)
  ultimately show ?thesis using r by (simp add: refuses_def tables catalog_view_def)
qed

definition region_field :: context_row where
  "region_field = \<lparr>cx_name = ''region'', cx_description = None, cx_stickiness = False, cx_sort_order = 10,
     cx_legal_values = [], cx_created_at = 0\<rparr>"

definition catalogs1 :: catalogs where
  "catalogs1 = \<lparr>cg_db = tagged_db, cg_strategies = [], cg_fields = [region_field], cg_types = [], cg_events = []\<rparr>"

definition retitled :: strategy_update where
  "retitled = no_update\<lparr>su_title := Some ''Europe'', su_constraints := Some (sr_constraints strategy1)\<rparr>"

definition service_over :: "feature_db \<Rightarrow> feature_service" where
  "service_over db = \<lparr>fs_db = db, fs_access = \<lparr>as_db = \<lparr>ac_roles = [], ac_role_user = [], ac_group_role = [], ac_groups = [], ac_group_user = [],
      ac_role_permission = [], ac_permissions = [], ac_users = [], ac_projects = [], ac_personal_tokens = [],
      ac_signup_users = [], ac_next_role = 1, ac_next_group = 1, ac_message = (\<lambda>c. c)\<rparr>, as_environments = [], as_events = []\<rparr>,
     fs_events = [], fs_drawn = 0\<rparr>"

definition plain_config :: feature_config where
  "plain_config = \<lparr>fc_now = 1000, fc_uuid = (\<lambda>n. show_nat n), fc_collate = (\<lambda>s. s), fc_regex = (\<lambda>_ _. True),
     fc_json = (\<lambda>s. s), fc_is_json = (\<lambda>_. True), fc_is_number = (\<lambda>_. True), fc_is_date = (\<lambda>_. True),
     fc_semver_clean = Some, fc_semver_parses = (\<lambda>_. True), fc_strategySegmentsLimit = 5,
     fc_segmentValuesLimit = 1000, fc_isEnterprise = False\<rparr>"

text \<open>With the field, the same change of the title goes through.\<close>

theorem deleted_field_freezes_strategies_witness:
  "(case fst (updateStrategy plain_config ''s'' retitled ''p'' ''f'' ''prod'' ''ann'' None (service_over (catalog_view catalogs1))) of
      Inl _ \<Rightarrow> False | Inr pb \<Rightarrow> pb_title pb = Some ''Europe'') \<and>
   (\<exists>e. fst (updateStrategy plain_config ''s'' retitled ''p'' ''f'' ''prod'' ''ann'' None
          (service_over (catalog_view (snd (deleteContextField ''region'' ''ann'' 1 catalogs1))))) = Inl e)"
proof
  show "case fst (updateStrategy plain_config ''s'' retitled ''p'' ''f'' ''prod'' ''ann'' None (service_over (catalog_view catalogs1))) of
      Inl _ \<Rightarrow> False | Inr pb \<Rightarrow> pb_title pb = Some ''Europe''"
    by code_simp
  let ?s' = "snd (deleteContextField ''region'' ''ann'' 1 catalogs1)"
  have "deleteContextField ''region'' ''ann'' 1 catalogs1 = (Inr (), ?s')"
    by (simp add: deleteContextField_def catalogs1_def region_field_def context_get_def bindS_def tryS_def thenS_def modS_def
        catalog_store_event_def)
  moreover have "strategy1 \<in> set (users_of_field ''region'' (cg_db catalogs1))"
    by (simp add: users_of_field_def catalogs1_def tagged_db_def strategy1_def)
  moreover have "fs_db (service_over (catalog_view ?s')) = catalog_view ?s'" by (simp add: service_over_def)
  moreover have "su_constraints retitled = Some (sr_constraints strategy1)" by (simp add: retitled_def)
  ultimately show "\<exists>e. fst (updateStrategy plain_config ''s'' retitled ''p'' ''f'' ''prod'' ''ann'' None
      (service_over (catalog_view ?s'))) = Inl e"
    using deleted_field_freezes_strategies
      [of "''region''" "''ann''" 1 catalogs1 "()" ?s' strategy1 "service_over (catalog_view ?s')" retitled plain_config "''s''" "''p''" "''f''" "''prod''" "''ann''" None]
    by auto
qed


section \<open>Settings and the maintenance mode\<close>

text \<open>
  C37: A setting that was inserted is read back as it was sent, whatever default is asked for; the other settings keep their
  values; and one event is stored, which, where the details are to be hidden, holds neither the old value nor the new one.
\<close>

theorem setting_roundtrip:
  assumes "setting_insert i content createdBy uid hide s = (r, s')"
  shows "r = Inr () \<and> setting_getWithDefault i d s' = JObject content \<and> setting_get i d' s' = Some (JObject content) \<and>
    (\<forall>j d. j \<noteq> i \<longrightarrow> setting_getWithDefault j d s' = setting_getWithDefault j d s) \<and>
    (\<exists>e. sn_events s' = sn_events s @ [e] \<and> sv_createdBy e = createdBy \<and> sv_createdByUserId e = uid \<and>
      (hide \<longrightarrow> (let hidden = (''hideEventDetails'', JBool True); data = [(''id'', JString i), hidden]
        in sv_kind e \<in> {SettingCreated data, SettingUpdated data (JObject [hidden])})))"
proof -
  obtain kind where run: "(r, s') = (Inr (), setting_store_event kind createdBy uid (settings_insert i content s))"
    and kind: "hide \<Longrightarrow> kind \<in> {SettingCreated [(''id'', JString i), (''hideEventDetails'', JBool True)],
        SettingUpdated [(''id'', JString i), (''hideEventDetails'', JBool True)] (JObject [(''hideEventDetails'', JBool True)])}"
    using setting_insert_run [of i content createdBy uid hide s] assms by auto
  have "sn_events (settings_insert i content s) = sn_events s"
    by (simp add: settings_insert_def settings_updateRow_def settings_insertNewRow_def)
  then have "sn_events s' = sn_events s @ [\<lparr>sv_kind = kind, sv_createdBy = createdBy, sv_createdByUserId = uid\<rparr>]"
    using run by (simp add: setting_store_event_def)
  with run kind show ?thesis
    by (auto simp: setting_getWithDefault_def setting_get_def settings_insert_get Let_def)
qed

definition settings1 :: settings where
  "settings1 = \<lparr>sn_rows = [(''unleash.secret'', JString ''s3cret''), (''sso'', JNull)], sn_events = []\<rparr>"

theorem setting_roundtrip_witness:
  "setting_getWithDefault ''sso'' JNull (snd (setting_insert ''sso'' [(''enabled'', JBool True)] ''ann'' 1 True settings1)) =
     JObject [(''enabled'', JBool True)]"
  using setting_roundtrip [of "''sso''" "[(''enabled'', JBool True)]" "''ann''" 1 True settings1
      "fst (setting_insert ''sso'' [(''enabled'', JBool True)] ''ann'' 1 True settings1)" _ JNull] by simp

text \<open>
  C20: The maintenance mode follows its setting within a minute: once the setting was written, from a minute later on every
  guarded request is let through or refused as the setting and the flag of the server say, whatever requests came
  before and between; and where no request came between the two steps of the switch, from the switch on.
\<close>

theorem maintenance_catches_up:
  assumes reach: "reachable_maintenance (t, s)" and written: "maintenance_write b user uid s = (r, s1)"
    and between: "requests (t, s1) (t2, s2)" and guarded: "guarded_request path method'"
    and later: "t + MAINTENANCE_MAX_AGE \<le> now \<or> mt_memo s = None"
  shows "t2 \<le> now \<longrightarrow> fst (maintenanceMiddleware now path method' s2) = Inr (mt_flag s \<or> b)"
proof
  note wrote = maintenance_write_run [OF written]
  note kept = requests_keep [OF between, simplified]
  have "mt_memo s1 = Some (c, t0) \<Longrightarrow> t0 \<le> t" for c t0 using memo_in_the_past [OF reach] wrote(2) by simp
  then have memo: "memo_since t s2" by (intro kept(4)) (auto simp: memo_since_def)
  have enabled: "maintenance_enabled s2 = b" using enabled_of_settings [OF kept(2)] wrote(4) by simp
  have "fst (isMaintenanceMode now s2) = Inr (mt_flag s2 \<or> maintenance_enabled s2)"
    using later
  proof
    assume "mt_memo s = None"
    then have "memo_since (t - MAINTENANCE_MAX_AGE - \<bar>now\<bar> - \<bar>t\<bar>) s2"
      using wrote(2) by (intro kept(4)) (simp add: memo_since_def)
    then show ?thesis by (rule mode_when_settled) (simp add: abs_if)
  qed (rule mode_when_settled [OF memo])
  then show "fst (maintenanceMiddleware now path method' s2) = Inr (mt_flag s \<or> b)"
    using guarded by (simp add: maintenanceMiddleware_def kept(3) wrote(3) enabled)
qed

text \<open>The minute is needed: a request between the two steps makes the old mode last, here until a millisecond before its end.\<close>

definition maintenance1 :: maintenance where
  "maintenance1 = \<lparr>mt_settings = settings1, mt_memo = None, mt_flag = False\<rparr>"

lemma stale_maintenance_mode:
  "let s1 = snd (maintenance_clear maintenance1); s2 = snd (maintenanceMiddleware 0 ''/api/admin/tags'' ''POST'' s1);
       s3 = snd (maintenance_write True ''ann'' 1 s2)
   in fst (maintenanceMiddleware 59999 ''/api/admin/tags'' ''POST'' s3) = Inr False \<and>
      fst (maintenanceMiddleware 60000 ''/api/admin/tags'' ''POST'' s3) = Inr True"
  by code_simp

text \<open>Whatever the mode, a \<open>PATCH\<close> is let through, and so is a write to a path that contains \<open>/maintenance\<close>, such as that of a feature of this name.\<close>

lemma unguarded_writes:
  "fst (maintenanceMiddleware now path ''PATCH'' s) = Inr False"
  "fst (maintenanceMiddleware now ''/api/admin/projects/default/features/maintenance'' ''DELETE'' s) = Inr False"
proof -
  have "\<not> guarded_request path ''PATCH''" by (simp add: guarded_request_def)
  moreover have "\<not> guarded_request ''/api/admin/projects/default/features/maintenance'' ''DELETE''" by code_simp
  ultimately show "fst (maintenanceMiddleware now path ''PATCH'' s) = Inr False"
    "fst (maintenanceMiddleware now ''/api/admin/projects/default/features/maintenance'' ''DELETE'' s) = Inr False"
    by (simp_all add: maintenanceMiddleware_def)
qed

theorem maintenance_catches_up_witness:
  "fst (maintenanceMiddleware 60000 ''/api/admin/tags'' ''POST''
     (snd (maintenanceMiddleware 5 ''/api/admin/tags'' ''POST'' (snd (maintenance_write True ''ann'' 1 maintenance1))))) = Inr True"
proof -
  let ?s1 = "snd (maintenance_write True ''ann'' 1 maintenance1)"
  let ?ask = "maintenanceMiddleware 5 ''/api/admin/tags'' ''POST'' ?s1"
  have "reachable_maintenance (0, maintenance1)" by (rule reachable_maintenance.start) (simp add: maintenance1_def)
  moreover have "maintenance_write True ''ann'' 1 maintenance1 = (fst (maintenance_write True ''ann'' 1 maintenance1), ?s1)" by simp
  moreover have "requests (0, ?s1) (5, snd ?ask)"
    by (rule requests.asked [OF requests.none, where r = "fst ?ask" and path = "''/api/admin/tags''" and method' = "''POST''"]) simp_all
  moreover have "guarded_request ''/api/admin/tags'' ''POST''" by code_simp
  ultimately show ?thesis
    using maintenance_catches_up [of 0 maintenance1 True "''ann''" 1 "fst (maintenance_write True ''ann'' 1 maintenance1)" ?s1 5 "snd ?ask"
        "''/api/admin/tags''" "''POST''" 60000]
    by (simp add: MAINTENANCE_MAX_AGE_def)
qed


section \<open>Favourites\<close>

text \<open>
  A feature that is not there is refused before anything is stored; for a project the event is stored all the same.
\<close>

lemma refused_favorites:
  "\<not> features_exists feature (fv_db s) \<Longrightarrow> find (is_favorite (ax_id user) feature) (fv_features s) = None \<Longrightarrow>
     \<exists>e. favoriteFeature now feature user s = (Inl e, s)"
  "\<not> hasProject project (fv_db s) \<Longrightarrow> find (is_favorite (ax_id user) project) (fv_projects s) = None \<Longrightarrow>
     \<exists>e. favoriteProject now project user s = (Inl e, snd (favorite_store_event (ProjectFavorited project) user s))"
  by (auto simp: favoriteFeature_def addFavoriteFeature_def add_favorite_def favorite_refused_def bindS_def thenS_def
      favoriteProject_def addFavoriteProject_def favorite_store_event_def modS_def tryS_def)

end
