(* ===== verification/Spec2Isabelle.thy ===== *)
theory Spec2Isabelle
  imports EvaluatorProperties Errors TokenProperties AccessProperties AccountProperties FeatureProperties GroupProperties
    ProjectProperties ClientProperties FrontendProperties CatalogProperties
begin

text \<open>
  A verification library for the Unleash server (\<open>src/lib\<close>).

  The server keeps features, with strategies per environment, and answers: is a feature on for a context
  and which variant does it get (the feature evaluator), who is calling (accounts and API tokens), what may
  the caller do (access control), what do the features become (the feature service, projects and environments),
  what features draw on (tags, catalogs and settings), and what are SDKs served (the client API, the frontend API and
  the playground). Each is a group of theories here, built the same way: data and operations, facts with the interfaces, properties. A request goes through the parts in this order: the API token middleware
  finds the user of a secret, the authorization middleware refuses a request with none, the RBAC
  middleware asks the access service for a permission, and a controller runs the operation; what an
  operation throws becomes a status in \<open>handleErrors\<close>.

  \<^bold>\<open>Shared\<close>
  \<^item> \<open>Prelude\<close>: JavaScript's strings and numbers as the code uses them (\<open>trim\<close>, \<open>Number\<close>, \<open>==\<close> on
    numbers with NaN and infinity), the error monad \<open>bindR\<close> on \<open>error + 'a\<close>, \<open>mapR\<close>, insertion ordered
    objects, and lemmas on lists and options.
  \<^item> \<open>Errors\<close>: the error classes of \<open>error/\<close>, \<open>fromLegacyError\<close> and \<open>handleErrors\<close> of \<open>routes/util.ts\<close>.
    \<open>exn\<close> is any value a handler may throw: an API error, an HTTP error, a database error with its
    constraint, a Joi error, or a JavaScript error.

  \<^bold>\<open>Feature evaluator\<close> (\<open>features/playground/feature-evaluator\<close>)
  \<^item> \<open>Constraints\<close>: \<open>context.ts\<close> and \<open>constraint.ts\<close>, every operator, and segments.
  \<^item> \<open>Variants\<close>: \<open>strategy/util.ts\<close> and \<open>variant.ts\<close>, hashing to a bucket and selection by weight.
  \<^item> \<open>Strategies\<close>: \<open>strategy/*.ts\<close>, one definition per strategy, and the evaluation with constraints,
    segments and variants. A strategy object is a constructor of \<open>strategy\<close>.
  \<^item> \<open>Evaluator\<close>: the repository with its bootstrap and in-memory storage, \<open>client.ts\<close> (parents by
    mutual recursion, with its termination proof) and \<open>feature-evaluator.ts\<close>. A call that the source
    may leave by an exception has an \<open>option\<close> as its result.
  \<^item> \<open>EvaluatorFacts\<close>: the locale \<open>strategy_contract\<close> states what a strategy evaluation promises the
    client, and is interpreted on \<open>evaluate_selector\<close>; \<open>EvaluatorProperties\<close>.
  The record \<open>runtime\<close> holds what is not under \<open>src/\<close>: the murmurhash, semver comparison, date parsing,
  ip ranges, host names, random numbers and uuids. Random draws are counted by a \<open>nat\<close> that is threaded
  through, so that a result says how many it used.

  \<^bold>\<open>API tokens\<close>
  \<^item> \<open>ApiTokens\<close>: \<open>types/models/api-token.ts\<close> and \<open>db/api-token-store.ts\<close> over three tables, with their
    keys and foreign keys, and the deletion of a project with its cascade.
  \<^item> \<open>TokenService\<close>: \<open>services/api-token-service.ts\<close> with its cache, events and lookup of missing tokens,
    \<open>types/api-user.ts\<close>, \<open>middleware/api-token-middleware.ts\<close> and \<open>middleware/authorization-middleware.ts\<close>.
  \<^item> \<open>TokenFacts\<close>: the locale \<open>token_source\<close> is what the service needs of the store, interpreted on the
    tables as \<open>tokens\<close>; \<open>token_step\<close> is one operation of the service or of its environment, and
    \<open>token_db_ok\<close> and \<open>tokens_scoped\<close> are its invariants; \<open>TokenProperties\<close>.

  \<^bold>\<open>Access control\<close>
  \<^item> \<open>Access\<close>: \<open>db/access-store.ts\<close> and \<open>db/role-store.ts\<close> over the RBAC tables, with foreign keys, the
    clauses \<open>ON CONFLICT\<close>, transactions, and what Postgres does after a statement of a transaction
    has failed.
  \<^item> \<open>AccessService\<close>: \<open>services/access-service.ts\<close>, \<open>schema/role-schema.ts\<close> and
    \<open>middleware/rbac-middleware.ts\<close>.
  \<^item> \<open>AccessFacts\<close>: the locale \<open>project_roles\<close> is what replacing the roles of a user or a group promises,
    with its two interpretations \<open>user_roles\<close> and \<open>group_roles\<close>; \<open>access_step\<close> is one operation,
    \<open>access_ok\<close> the invariant of the tables; \<open>AccessProperties\<close>.

  \<^bold>\<open>Operations\<close>, used by the two groups that follow: operations on a state that may throw, with what they
  have changed by then; \<open>preserves\<close> with its rules carries the invariants through them. \<open>Promise.all\<close> is
  \<open>allS\<close>, task after task.

  \<^bold>\<open>Accounts\<close>: users, and what they log in with
  \<^item> \<open>Users\<close>: \<open>types/user.ts\<close>, \<open>db/user-store.ts\<close> and the tables of accounts. The state \<open>accounts\<close> holds them
    beside that of access control (\<open>aw_access\<close>); \<open>access_view\<close> gives the operations of \<open>AccessService\<close> the users
    of these tables, and \<open>on_access\<close> runs such an operation here. The record \<open>account_config\<close> holds what
    is not under \<open>src/\<close> (bcrypt, the estimate of a password's strength, Joi's check of an address, gravatar's
    hash, random draws) and the configuration. A draw is the value of \<open>cf_random\<close> at the number of draws made.
  \<^item> \<open>Credentials\<close>: the stores and services of accounts, sessions, reset tokens and personal access tokens,
    and \<open>middleware/pat-middleware.ts\<close>. \<open>UserService\<close>: \<open>services/user-service.ts\<close> and the handlers of the login
    and of the change of one's password. \<open>Signups\<close>: the store, service and handler of invitations.
  \<^item> \<open>AccountFacts\<close>: the invariant \<open>accounts_ok\<close> of the tables. \<open>AccountInvariants\<close>: \<open>account_step\<close> is one
    operation at a time of the clock, \<open>account_run\<close> any number of them; the locale \<open>account_invariant\<close> states
    which statements an invariant has to survive to survive every operation. \<open>AccountSteps\<close> interprets it four
    times: \<open>accounts_ok\<close>, a deleted user stays deleted, a used reset token stays used, and a user has one
    active reset token at most. \<open>AccountEffects\<close>: what operations have done; \<open>AccountProperties\<close>.

  \<^bold>\<open>Feature service\<close>
  \<^item> \<open>FeatureTypes\<close>: the tables, the data transfer objects, the events, \<open>schema/feature-schema.ts\<close> and the
    validators of constraints. The record \<open>feature_config\<close> holds what is not under \<open>src/\<close> (Joi's number
    and date parsing, semver, regular expressions, collation, uuids) and the configuration.
  \<^item> \<open>FeatureTables\<close>, \<open>FeatureEnvironments\<close>: \<open>feature-toggle-store.ts\<close>, \<open>feature-environment-store.ts\<close>,
    \<open>feature-toggle-strategies-store.ts\<close> and the queries of the project store.
  \<^item> \<open>Segments\<close>, \<open>Dependencies\<close>: the segment store and service, whether change requests stop an
    operation, and the store, read model and service of dependent features.
  \<^item> \<open>FeatureService\<close>, \<open>FeatureLifecycle\<close>: \<open>feature-toggle-service.ts\<close>, strategies and status first, then
    creation, metadata, archive and variants.
  \<^item> \<open>FeatureFacts\<close>: the weights of variants, and the locale \<open>dependency_store\<close>, what the dependency service
    needs of its store, interpreted on the tables as \<open>deps\<close>. \<open>FeatureInvariants\<close>: \<open>feature_db_ok\<close> and every
    statement that keeps it. \<open>FeatureSteps\<close>: every operation keeps it, and \<open>feature_step\<close> is one operation.
    \<open>FeatureEffects\<close>: what operations that succeed have done. \<open>FeatureProperties\<close>.

  \<^bold>\<open>Groups, projects and environments\<close>, on the tables of the groups before
  \<^item> \<open>UserGroups\<close>: \<open>db/group-store.ts\<close> and \<open>services/group-service.ts\<close>, on the state of accounts. \<open>GroupFacts\<close>: who
    is a member after each statement; \<open>GroupProperties\<close>.
  \<^item> \<open>Environments\<close>: the store and the service of environments. \<open>ProjectStore\<close>: \<open>project-store.ts\<close>, private projects
    and the read models of members. \<open>ProjectService\<close>: \<open>project-service.ts\<close>, with \<open>server\<close>, the state of features, access
    control and accounts together, so that one operation can change all of them. \<open>ProjectFacts\<close>: what its
    statements do to roles and rows; \<open>ProjectProperties\<close>.

  \<^bold>\<open>Tags, catalogs and settings\<close>
  \<^item> \<open>Tags\<close>: \<open>features/tag-type\<close>, \<open>tag-service.ts\<close>, \<open>feature-tag-service.ts\<close> and their stores, on the features' tables
    (\<open>tz_db\<close>) and two tables beside them. \<open>TagFacts\<close>: \<open>tags_ok\<close> is the invariant, \<open>tag_step\<close> one operation.
  \<^item> \<open>Catalogs\<close>: strategy types, context fields and feature types; \<open>catalog_view\<close> is what the feature service sees of them.
  \<^item> \<open>Settings\<close>: \<open>setting-service.ts\<close> with its store, \<open>features/maintenance\<close> and \<open>favorites-service.ts\<close>. The switch of
    the maintenance mode is two steps (\<open>maintenance_clear\<close>, \<open>maintenance_write\<close>), so that requests can come between.
  \<^item> \<open>CatalogFacts\<close>: the locale \<open>named_rows\<close> is the contract of a table whose rows have a name, interpreted on tag types,
    strategy types and context fields; how long the maintenance mode is remembered; \<open>CatalogProperties\<close>.

  \<^bold>\<open>What SDKs are served\<close>
  \<^item> \<open>ClientFeatures\<close>: \<open>client-feature-toggle-store.ts\<close>, the converter of the playground, the segment read model and the
    client service. A left join is the list of its rows (\<open>feature_rows\<close>); \<open>reduce_row\<close> is the body of \<open>rows.reduce\<close>.
  \<^item> \<open>ClientApi\<close>: the controller of the client API with its memory of answers, revisions and the header of the client's
    version. The record \<open>client_config\<close> holds the hash of queries and semver.
  \<^item> \<open>FrontendApi\<close>: \<open>features/frontend-api\<close>. The client SDK is a parameter, the record \<open>sdk\<close>, and nothing is assumed of it
    but that it lists features of its repository (\<open>lists_definitions\<close>).
  \<^item> \<open>Playground\<close>: \<open>features/playground\<close> but the evaluator.
  \<^item> \<open>ClientFacts\<close>: the locale \<open>row_converter\<close> is what the folds over rows share, \<open>table_converter\<close> adds that they keep
    what the tables say; both are interpreted on the folds of the client API, the frontend API, the playground and the
    read model. The specification of what is served is \<open>served\<close>, over the tables and without joins.
    \<open>FrontendFacts\<close>: the nested fold of the read model; \<open>ClientProperties\<close>, \<open>FrontendProperties\<close>, where \<open>frontend_step\<close> is
    one request, removal, timer or revision.

  \<^bold>\<open>Conventions\<close>. A table is the list of its rows; SQL leaves the order of a result open where it has no
  \<open>ORDER BY\<close>, and the model takes that of the table. Ids are \<open>int\<close>, times are milliseconds as \<open>int\<close>, and
  the text of a database error is a parameter (\<open>db_message\<close>, \<open>ac_message\<close>). An operation takes the state
  and returns the new one; one that may throw returns \<open>exn + state\<close>, and where the code leaves changes
  behind when it throws, a result and a state. Events are a list in the state of the service.
  No definition needs fuel: the recursion over parents ends because a parent with parents is refused.

  \<^bold>\<open>Not modelled\<close>: logging, metrics and timers, the HTTP layer (Express routes and the OpenAPI schemas),
  the front end, addons, the sending of e-mail, migrations (their keys are in the models of the tables; the
  lengths of the columns are not), the lists and searches of the admin UI, deleting whole tables of accounts
  (tests do), \<open>deleteFromQuery\<close> of the reset token store (it is never called), the statistics and health of projects, export and import, and the services for metrics. What a
  name inherited by every JavaScript object does beyond the object it is looked up in (the prototype it writes) is
  not modelled.
\<close>

end
